(* ===== verification/Prelude.thy ===== *)
theory Prelude
  imports Main "HOL-Library.AList" "HOL-Library.Sublist"
begin

text \<open>
  What every component shares: the exception classes of the package and their hierarchy
  (\<^verbatim>\<open>errors.py\<close> and the standard classes the code distinguishes), fallible pure
  code as a sum, stateful code as a state transformer that may raise, and the frame
  reasoning over such transformers (\<open>effect_relation\<close>).
\<close>

named_theorems prog_simps "unfolding of the program combinators"
named_theorems stays_intros "programs stay inside an effect relation"
named_theorems raises_intros "which exception classes a fallible computation raises"

section \<open>Exceptions\<close>

text \<open>
  The classes of \<^verbatim>\<open>errors.py\<close>, \<open>AlreadyRunning\<close> of \<^verbatim>\<open>state.py\<close>, the
  other exception classes the package defines, and the standard classes that some handler
  of the package names. \<open>OtherException\<close> is any further subclass of \<open>Exception\<close>.
  \<open>KeyboardInterrupt\<close> is no subclass of \<open>Exception\<close>; only \<^verbatim>\<open>cli.py\<close> raises and handles it here.
\<close>

datatype exc_class =
    ControllerError | ConfigError | PreflightError | ArtifactCompetitionBindingError
  | RoundRefused | RoundNotOpen | VerificationError | AuthorizationRefused
  | AlreadyRunning
  | ProtectedFileError | UpstreamGateError | ObservationError | ReleasePublishError
  | CandidateError | HistoricalCandidateError
  | ValueError | JSONDecodeError | UnicodeDecodeError | OSError | TypeError | KeyError
  | OverflowError | RuntimeError | RecursionError | KeyboardInterrupt | OtherException

text \<open>The base class each class statement names (\<open>None\<close>: none of these).\<close>

fun base_class :: "exc_class \<Rightarrow> exc_class option" where
  "base_class ConfigError = Some ControllerError"
| "base_class PreflightError = Some ControllerError"
| "base_class ArtifactCompetitionBindingError = Some PreflightError"
| "base_class RoundRefused = Some ControllerError"
| "base_class RoundNotOpen = Some RoundRefused"
| "base_class VerificationError = Some ControllerError"
| "base_class AuthorizationRefused = Some ControllerError"
| "base_class AlreadyRunning = Some ControllerError"
| "base_class JSONDecodeError = Some ValueError"
| "base_class UnicodeDecodeError = Some ValueError"
| "base_class CandidateError = Some ValueError"
| "base_class HistoricalCandidateError = Some CandidateError"
| "base_class RecursionError = Some RuntimeError"
| "base_class _ = None"

text \<open>\<open>isinstance\<close>: the class itself or one of its bases (the hierarchy has depth three).\<close>

definition is_subclass :: "exc_class \<Rightarrow> exc_class \<Rightarrow> bool" where
  "is_subclass c d \<longleftrightarrow>
     c = d \<or> base_class c = Some d \<or>
     (\<exists>b \<in> set_option (base_class c). base_class b = Some d)"

datatype exc = Exc (exc_cls: exc_class) (exc_text: string)

definition isinstance :: "exc \<Rightarrow> exc_class \<Rightarrow> bool" where
  "isinstance e d \<longleftrightarrow> is_subclass (exc_cls e) d"

text \<open>\<open>exc.__class__.__name__\<close>.\<close>

fun class_name :: "exc_class \<Rightarrow> string" where
  "class_name ControllerError = ''ControllerError''"
| "class_name ConfigError = ''ConfigError''"
| "class_name PreflightError = ''PreflightError''"
| "class_name ArtifactCompetitionBindingError = ''ArtifactCompetitionBindingError''"
| "class_name RoundRefused = ''RoundRefused''"
| "class_name RoundNotOpen = ''RoundNotOpen''"
| "class_name VerificationError = ''VerificationError''"
| "class_name AuthorizationRefused = ''AuthorizationRefused''"
| "class_name AlreadyRunning = ''AlreadyRunning''"
| "class_name ProtectedFileError = ''ProtectedFileError''"
| "class_name UpstreamGateError = ''UpstreamGateError''"
| "class_name ObservationError = ''ObservationError''"
| "class_name ReleasePublishError = ''ReleasePublishError''"
| "class_name CandidateError = ''CandidateError''"
| "class_name HistoricalCandidateError = ''HistoricalCandidateError''"
| "class_name ValueError = ''ValueError''"
| "class_name JSONDecodeError = ''JSONDecodeError''"
| "class_name UnicodeDecodeError = ''UnicodeDecodeError''"
| "class_name OSError = ''OSError''"
| "class_name TypeError = ''TypeError''"
| "class_name KeyError = ''KeyError''"
| "class_name OverflowError = ''OverflowError''"
| "class_name RuntimeError = ''RuntimeError''"
| "class_name RecursionError = ''RecursionError''"
| "class_name KeyboardInterrupt = ''KeyboardInterrupt''"
| "class_name OtherException = ''Exception''"

lemma class_name_nonempty [simp]: "class_name c \<noteq> []"
  by (cases c) auto

lemma isinstance_code [simp]:
  "isinstance (Exc c t) d \<longleftrightarrow>
     c = d \<or> base_class c = Some d \<or>
     (case base_class c of None \<Rightarrow> False | Some b \<Rightarrow> base_class b = Some d)"
  by (auto simp: isinstance_def is_subclass_def split: option.splits)

lemma isinstance_self: "exc_cls e = c \<Longrightarrow> isinstance e c"
  by (cases e) simp

text \<open>\<open>str(exc) or exc.__class__.__name__\<close>.\<close>

definition exc_message :: "exc \<Rightarrow> string" where
  "exc_message e = (if exc_text e = [] then class_name (exc_cls e) else exc_text e)"

section \<open>Fallible pure code\<close>

type_synonym 'a res = "exc + 'a"

abbreviation fail :: "exc_class \<Rightarrow> string \<Rightarrow> 'a res" where
  "fail c t \<equiv> Inl (Exc c t)"

definition rbind :: "'a res \<Rightarrow> ('a \<Rightarrow> 'b res) \<Rightarrow> 'b res" where
  "rbind r k = (case r of Inl e \<Rightarrow> Inl e | Inr x \<Rightarrow> k x)"

lemma rbind_simps [simp]:
  "rbind (Inl e) k = Inl e"
  "rbind (Inr x) k = k x"
  by (simp_all add: rbind_def)

lemma rbind_Inr_iff: "rbind r k = Inr y \<longleftrightarrow> (\<exists>x. r = Inr x \<and> k x = Inr y)"
  by (cases r) auto

lemma rbind_Inl_iff: "rbind r k = Inl e \<longleftrightarrow> r = Inl e \<or> (\<exists>x. r = Inr x \<and> k x = Inl e)"
  by (cases r) auto

lemma map_sum_Inr: "map_sum id f r = Inr y \<longleftrightarrow> (\<exists>x. r = Inr x \<and> y = f x)"
  by (cases r) auto

text \<open>\<open>require\<close> is the shape \<open>if not ok: raise ...\<close> followed by the rest of the function.\<close>

definition require :: "bool \<Rightarrow> exc \<Rightarrow> 'b res \<Rightarrow> 'b res" where
  "require ok e k = (if ok then k else Inl e)"

lemma require_simps [simp]:
  "require True e k = k"
  "require False e k = Inl e"
  by (simp_all add: require_def)

lemma require_Inr_iff: "require ok e k = Inr y \<longleftrightarrow> ok \<and> k = Inr y"
  by (simp add: require_def)

lemma require_Inl_iff: "require ok e k = Inl d \<longleftrightarrow> (\<not> ok \<and> d = e) \<or> (ok \<and> k = Inl d)"
  by (auto simp: require_def)

lemma case_option_res_iffs:
  "(case t of None \<Rightarrow> Inl e | Some x \<Rightarrow> k x) = Inr y \<longleftrightarrow> (\<exists>x. t = Some x \<and> k x = Inr y)"
  "(case t of None \<Rightarrow> Inl e | Some x \<Rightarrow> k x) = Inl d \<longleftrightarrow>
     (t = None \<and> d = e) \<or> (\<exists>x. t = Some x \<and> k x = Inl d)"
  by (auto split: option.split)

lemma handler_Inr_iff:
  "(case r of Inl e \<Rightarrow> if P e then Inl (f e) else Inl (g e) | Inr x \<Rightarrow> k x) = Inr y \<longleftrightarrow>
     (\<exists>x. r = Inr x \<and> k x = Inr y)"
  by (simp split: sum.split)

lemmas res_iffs = rbind_Inr_iff require_Inr_iff
lemmas res_err_iffs = rbind_Inl_iff require_Inl_iff

text \<open>The exception classes a computation can raise, composed along its structure.\<close>

definition raises_only :: "exc_class set \<Rightarrow> 'a res \<Rightarrow> bool" where
  "raises_only C r \<longleftrightarrow> (\<forall>e. r = Inl e \<longrightarrow> exc_cls e \<in> C)"

lemma raises_onlyD: "raises_only C r \<Longrightarrow> r = Inl e \<Longrightarrow> exc_cls e \<in> C"
  by (simp add: raises_only_def)

lemma raises_only_basic [simp, raises_intros]:
  "raises_only C (Inr x)"
  "c \<in> C \<Longrightarrow> raises_only C (Inl (Exc c t))"
  by (simp_all add: raises_only_def)

lemma raises_only_rbind [raises_intros]:
  "raises_only C r \<Longrightarrow> (\<And>x. r = Inr x \<Longrightarrow> raises_only C (k x)) \<Longrightarrow> raises_only C (rbind r k)"
  by (cases r) (auto simp: raises_only_def)

lemma raises_only_require [raises_intros]:
  "c \<in> C \<Longrightarrow> (ok \<Longrightarrow> raises_only C k) \<Longrightarrow> raises_only C (require ok (Exc c t) k)"
  by (cases ok) auto

lemma raises_only_if [raises_intros]:
  "(b \<Longrightarrow> raises_only C r) \<Longrightarrow> (\<not> b \<Longrightarrow> raises_only C s) \<Longrightarrow> raises_only C (if b then r else s)"
  by simp

lemma raises_only_Let [raises_intros]: "raises_only C (f t) \<Longrightarrow> raises_only C (let x = t in f x)"
  by (simp add: Let_def)

lemma raises_only_map_sum [raises_intros]: "raises_only C r \<Longrightarrow> raises_only C (map_sum id f r)"
  by (cases r) (auto simp: raises_only_def)

lemma raises_only_case_option [raises_intros]:
  "(t = None \<Longrightarrow> raises_only C r) \<Longrightarrow> (\<And>x. t = Some x \<Longrightarrow> raises_only C (k x)) \<Longrightarrow>
     raises_only C (case t of None \<Rightarrow> r | Some x \<Rightarrow> k x)"
  by (simp split: option.split)

lemma raises_only_case_sum [raises_intros]:
  "(\<And>e. r = Inl e \<Longrightarrow> raises_only C (h e)) \<Longrightarrow> (\<And>x. r = Inr x \<Longrightarrow> raises_only C (k x)) \<Longrightarrow>
     raises_only C (case r of Inl e \<Rightarrow> h e | Inr x \<Rightarrow> k x)"
  by (simp split: sum.split)

lemma raises_only_case_prod [raises_intros]:
  "(\<And>x y. t = (x, y) \<Longrightarrow> raises_only C (k x y)) \<Longrightarrow> raises_only C (case t of (x, y) \<Rightarrow> k x y)"
  by (simp split: prod.split)

section \<open>Stateful code that may raise\<close>

type_synonym ('w, 'a) prog = "'w \<Rightarrow> 'a res \<times> 'w"

definition ret :: "'a \<Rightarrow> ('w, 'a) prog" where
  "ret x = (\<lambda>w. (Inr x, w))"

definition throw :: "exc \<Rightarrow> ('w, 'a) prog" where
  "throw e = (\<lambda>w. (Inl e, w))"

definition pbind :: "('w, 'a) prog \<Rightarrow> ('a \<Rightarrow> ('w, 'b) prog) \<Rightarrow> ('w, 'b) prog" where
  "pbind m k = (\<lambda>w. case m w of (Inl e, w') \<Rightarrow> (Inl e, w') | (Inr x, w') \<Rightarrow> k x w')"

abbreviation pseq :: "('w, 'a) prog \<Rightarrow> ('w, 'b) prog \<Rightarrow> ('w, 'b) prog" where
  "pseq m k \<equiv> pbind m (\<lambda>_. k)"

text \<open>\<open>try: m  except Exception as e: h e\<close>; a handler that does not apply re-raises.\<close>

definition catch :: "('w, 'a) prog \<Rightarrow> (exc \<Rightarrow> ('w, 'a) prog) \<Rightarrow> ('w, 'a) prog" where
  "catch m h = (\<lambda>w. case m w of (Inl e, w') \<Rightarrow> h e w' | (Inr x, w') \<Rightarrow> (Inr x, w'))"

text \<open>\<open>try: x = m  except ...: h e  else: k x\<close>: the handlers do not cover the else branch.\<close>

definition try_else ::
    "('w, 'a) prog \<Rightarrow> (exc \<Rightarrow> ('w, 'b) prog) \<Rightarrow> ('a \<Rightarrow> ('w, 'b) prog) \<Rightarrow> ('w, 'b) prog" where
  "try_else m h k = (\<lambda>w. case m w of (Inl e, w') \<Rightarrow> h e w' | (Inr x, w') \<Rightarrow> k x w')"

definition read_world :: "('w \<Rightarrow> 'a) \<Rightarrow> ('w, 'a) prog" where
  "read_world f = (\<lambda>w. (Inr (f w), w))"

definition lift_res :: "'a res \<Rightarrow> ('w, 'a) prog" where
  "lift_res r = (\<lambda>w. (r, w))"

definition guard :: "bool \<Rightarrow> exc \<Rightarrow> ('w, unit) prog" where
  "guard ok e = (if ok then ret () else throw e)"

lemma prog_exec [simp, prog_simps]:
  "ret x w = (Inr x, w)"
  "throw e w = (Inl e, w)"
  "read_world f w = (Inr (f w), w)"
  "lift_res r w = (r, w)"
  by (simp_all add: ret_def throw_def read_world_def lift_res_def)

lemma guard_exec [simp, prog_simps]:
  "guard True e w = (Inr (), w)"
  "guard False e w = (Inl e, w)"
  by (simp_all add: guard_def)

lemma pbind_exec [prog_simps]:
  "m w = (Inl e, w') \<Longrightarrow> pbind m k w = (Inl e, w')"
  "m w = (Inr x, w') \<Longrightarrow> pbind m k w = k x w'"
  by (simp_all add: pbind_def)

lemma pbind_ret [simp]: "pbind (ret x) k = k x"
  by (simp add: pbind_def fun_eq_iff)

lemma pbind_throw [simp]: "pbind (throw e) k = throw e"
  by (simp add: pbind_def fun_eq_iff)

lemma pbind_assoc: "pbind (pbind m f) g = pbind m (\<lambda>x. pbind (f x) g)"
  by (simp add: pbind_def fun_eq_iff split: prod.splits sum.splits)

lemma pbind_InrD:
  assumes "pbind m k w = (Inr y, w'')"
  obtains x w' where "m w = (Inr x, w')" and "k x w' = (Inr y, w'')"
  using assms by (auto simp: pbind_def split: prod.splits sum.splits)

lemma pbind_InlD:
  assumes "pbind m k w = (Inl e, w'')"
  obtains (first) "m w = (Inl e, w'')"
    | (second) x w' where "m w = (Inr x, w')" and "k x w' = (Inl e, w'')"
  using assms by (auto simp: pbind_def split: prod.splits sum.splits)

section \<open>Effect relations\<close>

text \<open>
  A program stays inside a relation between worlds when every run of it, returning or
  raising, relates the world before to the world after. For a reflexive and transitive
  relation this composes along every construct of the language, so a frame property
  ("never touches the marker", "adds only harmless calls") is checked operation by
  operation and lifted by the introduction rules.
\<close>

definition stays :: "('w \<Rightarrow> 'w \<Rightarrow> bool) \<Rightarrow> ('w, 'a) prog \<Rightarrow> bool" where
  "stays R m \<longleftrightarrow> (\<forall>w. R w (snd (m w)))"

lemma staysI: "(\<And>w r w'. m w = (r, w') \<Longrightarrow> R w w') \<Longrightarrow> stays R m"
  by (simp add: stays_def) (metis prod.collapse)

lemma staysD: "stays R m \<Longrightarrow> m w = (r, w') \<Longrightarrow> R w w'"
  by (metis snd_conv stays_def)

lemma stays_mono: "stays R m \<Longrightarrow> (\<And>w w'. R w w' \<Longrightarrow> S w w') \<Longrightarrow> stays S m"
  by (simp add: stays_def)

locale effect_relation =
  fixes R :: "'w \<Rightarrow> 'w \<Rightarrow> bool"
  assumes refl: "R w w"
    and trans: "R u v \<Longrightarrow> R v w \<Longrightarrow> R u w"
begin

lemma stays_pure [stays_intros]:
  "stays R (ret x)" "stays R (throw e)" "stays R (read_world f)" "stays R (lift_res r)"
  "stays R (guard ok e)"
  by (simp_all add: stays_def refl guard_def)

lemma stays_pbind [stays_intros]:
  assumes "stays R m" and "\<And>x. stays R (k x)"
  shows "stays R (pbind m k)"
proof (rule staysI)
  fix w r w'
  assume run: "pbind m k w = (r, w')"
  obtain r1 w1 where m: "m w = (r1, w1)" by (cases "m w")
  with assms(1) have first: "R w w1" by (rule staysD)
  show "R w w'"
  proof (cases r1)
    case (Inl e)
    with m run first show ?thesis by (simp add: pbind_def)
  next
    case (Inr x)
    with m run have "k x w1 = (r, w')" by (simp add: pbind_def)
    with assms(2) have "R w1 w'" by (rule staysD)
    with first show ?thesis by (rule trans)
  qed
qed

lemma stays_try_else [stays_intros]:
  assumes "stays R m" and "\<And>e. stays R (h e)" and "\<And>x. stays R (k x)"
  shows "stays R (try_else m h k)"
proof (rule staysI)
  fix w r w'
  assume run: "try_else m h k w = (r, w')"
  obtain r1 w1 where m: "m w = (r1, w1)" by (cases "m w")
  with assms(1) have first: "R w w1" by (rule staysD)
  have "R w1 w'"
  proof (cases r1)
    case (Inl e)
    with m run have "h e w1 = (r, w')" by (simp add: try_else_def)
    with assms(2) show ?thesis by (rule staysD)
  next
    case (Inr x)
    with m run have "k x w1 = (r, w')" by (simp add: try_else_def)
    with assms(3) show ?thesis by (rule staysD)
  qed
  with first show "R w w'" by (rule trans)
qed

lemma stays_catch [stays_intros]:
  assumes "stays R m" and "\<And>e. stays R (h e)"
  shows "stays R (catch m h)"
proof -
  have "catch m h = try_else m h ret"
    by (simp add: catch_def try_else_def fun_eq_iff split: prod.splits sum.splits)
  then show ?thesis using assms by (simp add: stays_try_else stays_pure)
qed

lemma stays_if [stays_intros]:
  "(b \<Longrightarrow> stays R m) \<Longrightarrow> (\<not> b \<Longrightarrow> stays R n) \<Longrightarrow> stays R (if b then m else n)"
  by simp

lemma stays_Let [stays_intros]: "(\<And>x. stays R (f x)) \<Longrightarrow> stays R (Let t f)"
  by (simp add: Let_def)

lemma stays_case_option [stays_intros]:
  "stays R m \<Longrightarrow> (\<And>x. stays R (k x)) \<Longrightarrow> stays R (case t of None \<Rightarrow> m | Some x \<Rightarrow> k x)"
  by (simp split: option.split)

lemma stays_case_prod [stays_intros]:
  "(\<And>x y. stays R (k x y)) \<Longrightarrow> stays R (case t of (x, y) \<Rightarrow> k x y)"
  by (simp split: prod.split)

end

end
