(* ===== verification/PyText.thy ===== *)
theory PyText
  imports Prelude "HOL-Library.Char_ord"
begin

text \<open>
  The operations of Python's \<open>str\<close> and \<open>re\<close> that the package uses, on HOL strings.
  A \<open>char\<close> stands for a code point below 256; the classifications (white space, line
  boundaries, upper and lower case) are those Python gives these code points. The upper
  case of U+00B5 and U+00FF lies outside the range and is left as it is. Texts with further
  code points are outside the model: in particular U+2028 and U+2029, at which \<open>splitlines\<close>
  also ends a line.
\<close>

section \<open>Characters\<close>

definition code :: "char \<Rightarrow> nat" where
  "code c = of_char c"

definition is_space :: "char \<Rightarrow> bool" where
  "is_space c \<longleftrightarrow> (let n = code c in (9 \<le> n \<and> n \<le> 13) \<or> (28 \<le> n \<and> n \<le> 32) \<or> n = 133 \<or> n = 160)"

definition is_digit :: "char \<Rightarrow> bool" where
  "is_digit c \<longleftrightarrow> 48 \<le> code c \<and> code c \<le> 57"

definition is_upper :: "char \<Rightarrow> bool" where
  "is_upper c \<longleftrightarrow> 65 \<le> code c \<and> code c \<le> 90"

definition is_lower :: "char \<Rightarrow> bool" where
  "is_lower c \<longleftrightarrow> 97 \<le> code c \<and> code c \<le> 122"

definition is_alnum :: "char \<Rightarrow> bool" where
  "is_alnum c \<longleftrightarrow> is_digit c \<or> is_upper c \<or> is_lower c"

text \<open>The class \<open>[0-9a-f]\<close>.\<close>

definition is_hex :: "char \<Rightarrow> bool" where
  "is_hex c \<longleftrightarrow> is_digit c \<or> (97 \<le> code c \<and> code c \<le> 102)"

definition lower_char :: "char \<Rightarrow> char" where
  "lower_char c =
     (if is_upper c \<or> (192 \<le> code c \<and> code c \<le> 222 \<and> code c \<noteq> 215)
      then char_of (code c + 32) else c)"

definition upper_char :: "char \<Rightarrow> string" where
  "upper_char c =
     (if is_lower c \<or> (224 \<le> code c \<and> code c \<le> 254 \<and> code c \<noteq> 247)
      then [char_of (code c - 32)]
      else if code c = 223 then ''SS'' else [c])"

definition py_lower :: "string \<Rightarrow> string" where
  "py_lower s = map lower_char s"

definition py_upper :: "string \<Rightarrow> string" where
  "py_upper s = concat (map upper_char s)"

definition py_casefold :: "string \<Rightarrow> string" where
  "py_casefold s = concat (map (\<lambda>c. if code c = 223 then ''ss'' else [lower_char c]) s)"

lemmas char_class_defs =
  code_def is_space_def is_digit_def is_upper_def is_lower_def is_alnum_def is_hex_def

section \<open>Substrings\<close>

definition strip :: "string \<Rightarrow> string" where
  "strip s = rev (dropWhile is_space (rev (dropWhile is_space s)))"

lemma strip_Nil [simp]: "strip [] = []"
  by (simp add: strip_def)

text \<open>\<open>s.partition(sep)\<close> for a one-character separator: head, found, tail.\<close>

fun partition_at :: "char \<Rightarrow> string \<Rightarrow> string \<times> bool \<times> string" where
  "partition_at sep [] = ([], False, [])"
| "partition_at sep (c # cs) =
     (if c = sep then ([], True, cs)
      else case partition_at sep cs of (h, found, t) \<Rightarrow> (c # h, found, t))"

text \<open>\<open>s.split(sep)\<close> for a one-character separator.\<close>

fun split_on :: "char \<Rightarrow> string \<Rightarrow> string list" where
  "split_on sep [] = [[]]"
| "split_on sep (c # cs) =
     (if c = sep then [] # split_on sep cs
      else case split_on sep cs of [] \<Rightarrow> [[c]] | p # ps \<Rightarrow> (c # p) # ps)"

fun join_on :: "char \<Rightarrow> string list \<Rightarrow> string" where
  "join_on sep [] = []"
| "join_on sep [p] = p"
| "join_on sep (p # q # ps) = p @ sep # join_on sep (q # ps)"

text \<open>\<open>sub in s\<close>.\<close>

definition occurs :: "string \<Rightarrow> string \<Rightarrow> bool" where
  "occurs sub s \<longleftrightarrow> list_ex (prefix sub) (suffixes s)"

definition remove_prefix :: "string \<Rightarrow> string \<Rightarrow> string" where
  "remove_prefix p s = (if prefix p s then drop (length p) s else s)"

definition remove_suffix :: "string \<Rightarrow> string \<Rightarrow> string" where
  "remove_suffix p s = (if p \<noteq> [] \<and> suffix p s then take (length s - length p) s else s)"

definition rstrip_char :: "char \<Rightarrow> string \<Rightarrow> string" where
  "rstrip_char c s = rev (dropWhile (\<lambda>x. x = c) (rev s))"

text \<open>\<open>s.replace(old, new)\<close> for a non-empty \<open>old\<close>: left to right, not overlapping.\<close>

function py_replace :: "string \<Rightarrow> string \<Rightarrow> string \<Rightarrow> string" where
  "py_replace old new s =
     (if old \<noteq> [] \<and> s \<noteq> [] then
        (if prefix old s then new @ py_replace old new (drop (length old) s)
         else hd s # py_replace old new (tl s))
      else s)"
  by pat_completeness auto
termination
  by (relation "measure (\<lambda>(old, new, s). length s)") (auto simp: diff_less)

declare py_replace.simps [simp del]

text \<open>The line boundaries of \<open>str.splitlines\<close> below U+0100; CR LF is one boundary.\<close>

definition is_line_break :: "char \<Rightarrow> bool" where
  "is_line_break c \<longleftrightarrow>
     (let n = code c in (10 \<le> n \<and> n \<le> 13) \<or> (28 \<le> n \<and> n \<le> 30) \<or> n = 133)"

fun take_line :: "string \<Rightarrow> string \<times> string" where
  "take_line [] = ([], [])"
| "take_line (c # cs) =
     (if is_line_break c then
        ([], (if code c = 13 then (case cs of d # ds \<Rightarrow> if code d = 10 then ds else cs | [] \<Rightarrow> cs)
              else cs))
      else case take_line cs of (l, r) \<Rightarrow> (c # l, r))"

lemma take_line_shorter: "s \<noteq> [] \<Longrightarrow> length (snd (take_line s)) < length s"
proof (induction s)
  case (Cons c cs)
  show ?case
  proof (cases "is_line_break c")
    case True
    then show ?thesis by (auto split: list.splits)
  next
    case False
    with Cons.IH show ?thesis by (cases cs) (auto split: prod.splits)
  qed
qed simp

function splitlines :: "string \<Rightarrow> string list" where
  "splitlines s = (if s = [] then [] else fst (take_line s) # splitlines (snd (take_line s)))"
  by pat_completeness auto
termination
  by (relation "measure length") (auto simp: take_line_shorter)

declare splitlines.simps [simp del]

lemma splitlines_Nil [simp]: "splitlines [] = []"
  by (simp add: splitlines.simps)

section \<open>Numbers as text\<close>

fun text_of_nat :: "nat \<Rightarrow> string" where
  "text_of_nat n =
     (if n < 10 then [char_of (48 + n)] else text_of_nat (n div 10) @ [char_of (48 + n mod 10)])"

declare text_of_nat.simps [simp del]

definition text_of_int :: "int \<Rightarrow> string" where
  "text_of_int i = (if i < 0 then ''-'' @ text_of_nat (nat (- i)) else text_of_nat (nat i))"

definition digit_value :: "char \<Rightarrow> nat" where
  "digit_value c = code c - 48"

text \<open>
  \<open>int(text)\<close> in base 10: surrounding white space, one sign, digits with single
  underscores between them, and at most 4300 digits. \<open>None\<close> is \<open>ValueError\<close>.
\<close>

fun scan_digits :: "nat \<Rightarrow> bool \<Rightarrow> string \<Rightarrow> nat option" where
  "scan_digits acc after_digit [] = (if after_digit then Some acc else None)"
| "scan_digits acc after_digit (c # cs) =
     (if is_digit c then scan_digits (10 * acc + digit_value c) True cs
      else if c = CHR ''_'' \<and> after_digit then scan_digits acc False cs
      else None)"

definition int_digit_limit :: nat where
  "int_digit_limit = 4300"

definition py_int :: "string \<Rightarrow> int option" where
  "py_int text =
     (let s = strip text;
          sgn = (if prefix ''-'' s then -1 else 1);
          body = (if prefix ''-'' s \<or> prefix ''+'' s then tl s else s)
      in if length (filter is_digit body) > int_digit_limit then None
         else map_option (\<lambda>n. sgn * int n) (scan_digits 0 False body))"

section \<open>Regular expressions\<close>

text \<open>
  The patterns of the package use literals, character classes with a bounded or unbounded
  greedy repetition, optional parts, sequences and groups. \<open>rx_match\<close> lists the ways a
  pattern can match a prefix, in the order a backtracking matcher tries them, with the text
  of the groups and the rest of the input; \<open>fullmatch\<close> takes the first that leaves
  nothing. (The \<open>^\<close> and \<open>$\<close> of the patterns add nothing to a full match.)
\<close>

datatype rx =
    Lit string
  | Class "char \<Rightarrow> bool"
  | Rep "char \<Rightarrow> bool" nat "nat option"
  | Opt rx
  | Cat rx rx
  | Group rx

fun rep_match :: "(char \<Rightarrow> bool) \<Rightarrow> nat \<Rightarrow> nat option \<Rightarrow> string \<Rightarrow> string list" where
  "rep_match P lo hi [] = (if lo = 0 then [[]] else [])"
| "rep_match P lo hi (c # cs) =
     (if hi \<noteq> Some 0 \<and> P c then rep_match P (lo - 1) (map_option (\<lambda>n. n - 1) hi) cs else []) @
     (if lo = 0 then [c # cs] else [])"

fun rx_match :: "rx \<Rightarrow> string \<Rightarrow> (string list \<times> string) list" where
  "rx_match (Lit t) s = (if prefix t s then [([], drop (length t) s)] else [])"
| "rx_match (Class P) s = (case s of c # cs \<Rightarrow> if P c then [([], cs)] else [] | [] \<Rightarrow> [])"
| "rx_match (Rep P lo hi) s = map (Pair []) (rep_match P lo hi s)"
| "rx_match (Opt r) s = rx_match r s @ [([], s)]"
| "rx_match (Cat p q) s =
     concat (map (\<lambda>(g, rest). map (\<lambda>(h, rest'). (g @ h, rest')) (rx_match q rest)) (rx_match p s))"
| "rx_match (Group r) s =
     map (\<lambda>(g, rest). (take (length s - length rest) s # g, rest)) (rx_match r s)"

definition fullmatch :: "rx \<Rightarrow> string \<Rightarrow> string list option" where
  "fullmatch r s = map_option fst (find (\<lambda>m. snd m = []) (rx_match r s))"

definition matches :: "rx \<Rightarrow> string \<Rightarrow> bool" where
  "matches r s \<longleftrightarrow> fullmatch r s \<noteq> None"

lemma matches_iff: "matches r s \<longleftrightarrow> [] \<in> snd ` set (rx_match r s)"
  by (force simp: matches_def fullmatch_def find_None_iff)

text \<open>What the matcher computes, as a set: which rests a repetition can leave.\<close>

lemma rep_match_set:
  "rest \<in> set (rep_match P lo hi s) \<longleftrightarrow>
     (\<exists>t. s = t @ rest \<and> list_all P t \<and> lo \<le> length t \<and> (\<forall>h. hi = Some h \<longrightarrow> length t \<le> h))"
proof (induction P lo hi s rule: rep_match.induct)
  case (1 P lo hi)
  then show ?case by auto
next
  case (2 P lo hi c cs)
  show ?case
  proof (cases "hi \<noteq> Some 0 \<and> P c")
    case False
    then have "(\<exists>t. c # cs = t @ rest \<and> list_all P t \<and> lo \<le> length t \<and>
                 (\<forall>h. hi = Some h \<longrightarrow> length t \<le> h)) \<longleftrightarrow> rest = c # cs \<and> lo = 0"
      by (auto simp: Cons_eq_append_conv)
    with False show ?thesis by auto
  next
    case True
    have step: "(\<exists>t. c # cs = t @ rest \<and> list_all P t \<and> lo \<le> length t \<and>
                 (\<forall>h. hi = Some h \<longrightarrow> length t \<le> h)) \<longleftrightarrow>
      (rest = c # cs \<and> lo = 0) \<or>
      (\<exists>t. cs = t @ rest \<and> list_all P t \<and> lo - 1 \<le> length t \<and>
         (\<forall>h. map_option (\<lambda>n. n - 1) hi = Some h \<longrightarrow> length t \<le> h))"
      using True by (cases hi) (auto simp: Cons_eq_append_conv)
    from True "2.IH" show ?thesis by (simp only: step) auto
  qed
qed

lemma matches_Rep:
  "matches (Rep P lo hi) s \<longleftrightarrow>
     list_all P s \<and> lo \<le> length s \<and> (\<forall>h. hi = Some h \<longrightarrow> length s \<le> h)"
  by (auto simp: matches_iff image_image rep_match_set)

lemma rests_Cat:
  "snd ` set (rx_match (Cat p q) s) =
     (\<Union>rest \<in> snd ` set (rx_match p s). snd ` set (rx_match q rest))"
  by (simp add: image_UN image_image case_prod_beta)

lemma rests_Rep: "snd ` set (rx_match (Rep P lo hi) s) = set (rep_match P lo hi s)"
  by (simp add: image_image)

lemma matches_Cat:
  "matches (Cat p q) s \<longleftrightarrow> (\<exists>rest \<in> snd ` set (rx_match p s). matches q rest)"
  unfolding matches_iff rests_Cat by (rule UN_iff)

lemma matches_Group [simp]: "matches (Group r) s = matches r s"
  unfolding matches_iff by (auto simp: image_image case_prod_beta)

lemma matches_Lit_Cat: "matches (Cat (Lit t) q) s \<longleftrightarrow> prefix t s \<and> matches q (drop (length t) s)"
  by (auto simp: matches_Cat)

lemma matches_Class_Cat:
  "matches (Cat (Class P) q) s \<longleftrightarrow> (\<exists>c cs. s = c # cs \<and> P c \<and> matches q cs)"
  by (auto simp: matches_Cat split: list.splits)

lemma matches_Opt: "matches (Opt r) s \<longleftrightarrow> s = [] \<or> matches r s"
  by (auto simp: matches_iff image_Un)

lemma matches_Class: "matches (Class P) s \<longleftrightarrow> (\<exists>c. s = [c] \<and> P c)"
  by (auto simp: matches_iff split: list.splits)

lemma matches_Rep_Class:
  "matches (Cat (Rep P lo hi) (Class Q)) s \<longleftrightarrow>
     (\<exists>t c. s = t @ [c] \<and> list_all P t \<and> Q c \<and> lo \<le> length t \<and> (\<forall>h. hi = Some h \<longrightarrow> length t \<le> h))"
  unfolding matches_Cat rests_Rep Bex_def rep_match_set matches_Class by metis

text \<open>
  \<open>[A-Za-z0-9](?:[A-Za-z0-9<extra>]{0,n}[A-Za-z0-9])?\<close>, the shape of every GitHub name:
  an alphanumeric first and last character, at most \<open>n + 2\<close> characters.
\<close>

definition name_rx :: "(char \<Rightarrow> bool) \<Rightarrow> nat \<Rightarrow> rx" where
  "name_rx extra n =
     Cat (Class is_alnum)
         (Opt (Cat (Rep (\<lambda>c. is_alnum c \<or> extra c) 0 (Some n)) (Class is_alnum)))"

definition name_shape :: "(char \<Rightarrow> bool) \<Rightarrow> nat \<Rightarrow> string \<Rightarrow> bool" where
  "name_shape extra n s \<longleftrightarrow>
     s \<noteq> [] \<and> length s \<le> n + 2 \<and> is_alnum (hd s) \<and> is_alnum (last s) \<and>
     list_all (\<lambda>c. is_alnum c \<or> extra c) s"

lemma matches_name_rx: "matches (name_rx extra n) s \<longleftrightarrow> name_shape extra n s"
proof (cases s)
  case Nil
  then show ?thesis by (simp add: name_rx_def name_shape_def matches_Class_Cat)
next
  case (Cons c cs)
  show ?thesis
  proof (cases cs rule: rev_cases)
    case Nil
    with Cons show ?thesis
      by (auto simp: name_rx_def name_shape_def matches_Class_Cat matches_Opt)
  next
    case (snoc t d)
    with Cons show ?thesis
      by (auto simp: name_rx_def name_shape_def matches_Class_Cat matches_Opt matches_Rep_Class)
  qed
qed

text \<open>A fixed prefix and then exactly \<open>n\<close> characters of one class.\<close>

lemma matches_prefixed_block:
  "matches (Cat (Lit p) (Rep P n (Some n))) s \<longleftrightarrow>
     (\<exists>t. s = p @ t \<and> length t = n \<and> list_all P t)"
  by (auto simp: matches_Lit_Cat matches_Rep prefix_def)


section \<open>Groups\<close>

text \<open>The matches of a pattern as a set of group texts and rests, construct by construct.\<close>

lemma in_match_Lit: "(g, rest) \<in> set (rx_match (Lit t) s) \<longleftrightarrow> g = [] \<and> s = t @ rest"
  by (auto simp: prefix_def)

lemma in_match_Cat:
  "(g, rest) \<in> set (rx_match (Cat p q) s) \<longleftrightarrow>
     (\<exists>g1 mid g2. (g1, mid) \<in> set (rx_match p s) \<and> (g2, rest) \<in> set (rx_match q mid) \<and> g = g1 @ g2)"
  by (simp add: image_iff Bex_def split_paired_Ex) blast

lemma in_match_Group:
  "(g, rest) \<in> set (rx_match (Group r) s) \<longleftrightarrow>
     (\<exists>g'. (g', rest) \<in> set (rx_match r s) \<and> g = take (length s - length rest) s # g')"
  by (simp add: image_iff Bex_def split_paired_Ex)

lemma in_match_name_rx:
  "(g, rest) \<in> set (rx_match (name_rx extra n) s) \<longleftrightarrow>
     g = [] \<and> (\<exists>t. s = t @ rest \<and> name_shape extra n t)"
proof -
  define body where
    "body = Cat (Rep (\<lambda>c. is_alnum c \<or> extra c) 0 (Some n)) (Class is_alnum)"
  have body: "(g, rest) \<in> set (rx_match body u) \<longleftrightarrow>
      g = [] \<and> (\<exists>t c. u = t @ c # rest \<and> list_all (\<lambda>c. is_alnum c \<or> extra c) t \<and>
                     is_alnum c \<and> length t \<le> n)" for g u
    unfolding body_def in_match_Cat
    by (fastforce simp: image_iff rep_match_set split: list.splits)
  have "(g, rest) \<in> set (rx_match (name_rx extra n) s) \<longleftrightarrow>
      g = [] \<and> (\<exists>c u. s = c # u \<and> is_alnum c \<and> (rest = u \<or>
        (\<exists>t d. u = t @ d # rest \<and> list_all (\<lambda>c. is_alnum c \<or> extra c) t \<and>
               is_alnum d \<and> length t \<le> n)))"
    unfolding name_rx_def body_def [symmetric] in_match_Cat
    by (cases s) (auto simp: body)
  also have "\<dots> \<longleftrightarrow> g = [] \<and> (\<exists>t. s = t @ rest \<and> name_shape extra n t)"
  proof (intro conj_cong refl iffI)
    assume "\<exists>c u. s = c # u \<and> is_alnum c \<and> (rest = u \<or>
        (\<exists>t d. u = t @ d # rest \<and> list_all (\<lambda>c. is_alnum c \<or> extra c) t \<and>
               is_alnum d \<and> length t \<le> n))"
    then obtain c u where c: "s = c # u" "is_alnum c"
      and alt: "rest = u \<or> (\<exists>t d. u = t @ d # rest \<and> list_all (\<lambda>c. is_alnum c \<or> extra c) t \<and>
               is_alnum d \<and> length t \<le> n)" by blast
    from alt show "\<exists>t. s = t @ rest \<and> name_shape extra n t"
    proof
      assume "rest = u"
      with c show ?thesis by (intro exI [of _ "[c]"]) (simp add: name_shape_def)
    next
      assume "\<exists>t d. u = t @ d # rest \<and> list_all (\<lambda>c. is_alnum c \<or> extra c) t \<and>
               is_alnum d \<and> length t \<le> n"
      then obtain t d where "u = t @ d # rest" "list_all (\<lambda>c. is_alnum c \<or> extra c) t"
        "is_alnum d" "length t \<le> n" by blast
      with c show ?thesis by (intro exI [of _ "c # t @ [d]"]) (simp add: name_shape_def)
    qed
  next
    assume "\<exists>t. s = t @ rest \<and> name_shape extra n t"
    then obtain c t where s: "s = (c # t) @ rest" and shape: "name_shape extra n (c # t)"
      by (metis list.exhaust name_shape_def)
    show "\<exists>c u. s = c # u \<and> is_alnum c \<and> (rest = u \<or>
        (\<exists>t d. u = t @ d # rest \<and> list_all (\<lambda>c. is_alnum c \<or> extra c) t \<and>
               is_alnum d \<and> length t \<le> n))"
      using s shape by (cases t rule: rev_cases) (auto simp: name_shape_def)
  qed
  finally show ?thesis .
qed

lemma in_match_Group_name:
  "(g, rest) \<in> set (rx_match (Group (name_rx extra n)) s) \<longleftrightarrow>
     (\<exists>t. s = t @ rest \<and> name_shape extra n t \<and> g = [t])"
  unfolding in_match_Group in_match_name_rx by auto

lemma fullmatch_SomeD: "fullmatch r s = Some g \<Longrightarrow> (g, []) \<in> set (rx_match r s)"
  unfolding fullmatch_def map_option_eq_Some
  by (metis (mono_tags, lifting) find_Some_iff nth_mem prod.collapse)

lemma fullmatch_unique:
  assumes "(g, []) \<in> set (rx_match r s)" and "\<And>h. (h, []) \<in> set (rx_match r s) \<Longrightarrow> h = g"
  shows "fullmatch r s = Some g"
proof (cases "fullmatch r s")
  case None
  with assms(1) show ?thesis by (auto simp: fullmatch_def find_None_iff)
next
  case (Some h)
  with assms(2) show ?thesis by (auto dest: fullmatch_SomeD)
qed

section \<open>Decimal texts\<close>

lemma is_digit_char_of [simp]: "(n::nat) < 10 \<Longrightarrow> is_digit (char_of (48 + n))"
  by (simp add: is_digit_def code_def)

lemma digit_value_char_of [simp]: "(n::nat) < 10 \<Longrightarrow> digit_value (char_of (48 + n)) = n"
  by (simp add: digit_value_def code_def)

lemma text_of_nat_digits: "text_of_nat n \<noteq> [] \<and> list_all is_digit (text_of_nat n)"
proof (induction n rule: text_of_nat.induct)
  case (1 n)
  then show ?case by (subst (1 2) text_of_nat.simps) simp
qed

lemma scan_digits_append:
  "list_all is_digit ds \<Longrightarrow> ds \<noteq> [] \<Longrightarrow>
     scan_digits acc b (ds @ s) = scan_digits (foldl (\<lambda>a c. 10 * a + digit_value c) acc ds) True s"
proof (induction ds arbitrary: acc b)
  case (Cons d ds)
  then show ?case by (cases "ds = []") auto
qed simp

lemma foldl_text_of_nat: "foldl (\<lambda>a c. 10 * a + digit_value c) 0 (text_of_nat n) = n"
proof (induction n rule: text_of_nat.induct)
  case (1 n)
  then show ?case by (subst text_of_nat.simps) simp
qed

lemma scan_text_of_nat: "scan_digits 0 False (text_of_nat n) = Some n"
  using scan_digits_append [of "text_of_nat n" 0 False "[]"] text_of_nat_digits [of n]
  by (simp add: foldl_text_of_nat)

lemma text_of_nat_inj [simp]: "text_of_nat m = text_of_nat n \<longleftrightarrow> m = n"
  by (metis option.inject scan_text_of_nat)

lemma text_of_int_inj [simp]:
  "0 \<le> i \<Longrightarrow> 0 \<le> j \<Longrightarrow> text_of_int i = text_of_int j \<longleftrightarrow> i = j"
  by (auto simp: text_of_int_def)

end
