(* ===== verification/ProtectedFile.thy ===== *)
theory ProtectedFile
  imports PyText
begin

text \<open>
  \<^verbatim>\<open>protected_file.py\<close>: the fail-closed reader of root-owned service files. The kernel's
  answers during one call (metadata of the path and of the descriptor, the chunks of the
  reads, failures) are a record the reader consumes in the order of the code; any sequence
  of answers is allowed, so a file that is swapped or grows during the call is an input
  like any other. \<open>secure_reader\<close> is the contract such a reader gives its clients.
\<close>

section \<open>Metadata\<close>

text \<open>\<^verbatim>\<open>os.stat_result\<close>, the fields the package reads.\<close>

record stat_result =
  st_dev :: int
  st_ino :: int
  st_mode :: nat
  st_uid :: int
  st_gid :: int
  st_nlink :: int
  st_size :: int
  st_mtime_ns :: int
  st_ctime_ns :: int

text \<open>\<open>stat.S_IFMT\<close> and \<open>stat.S_IMODE\<close>: bits 12 to 15, and the low twelve bits.\<close>

definition file_type :: "nat \<Rightarrow> nat" where
  "file_type mode = mode div 4096 mod 16"

definition s_islnk :: "nat \<Rightarrow> bool" where "s_islnk mode \<longleftrightarrow> file_type mode = 10"
definition s_isreg :: "nat \<Rightarrow> bool" where "s_isreg mode \<longleftrightarrow> file_type mode = 8"
definition s_isdir :: "nat \<Rightarrow> bool" where "s_isdir mode \<longleftrightarrow> file_type mode = 4"
definition s_imode :: "nat \<Rightarrow> nat" where "s_imode mode = mode mod 4096"

lemmas mode_defs = file_type_def s_islnk_def s_isreg_def s_isdir_def s_imode_def

text \<open>The modes the package names, 0600 and 0640 in octal.\<close>

definition mode_0600 :: nat where "mode_0600 = 6 * 64"
definition mode_0640 :: nat where "mode_0640 = 6 * 64 + 4 * 8"

text \<open>What the kernel answers during one call of a reader.\<close>

record file_session =
  path_absolute :: bool
  has_nofollow :: bool
  effective_uid :: int
  effective_gid :: int
  path_before :: "stat_result option"
  open_succeeds :: bool
  opened_before :: "stat_result option"
  read_results :: "string option list"
  opened_after :: "stat_result option"
  path_after :: "stat_result option"

text \<open>A system call that fails raises \<open>OSError\<close>.\<close>

definition syscall :: "'a option \<Rightarrow> 'a res" where
  "syscall r = (case r of None \<Rightarrow> fail OSError [] | Some x \<Rightarrow> Inr x)"

lemma syscall_Inr [simp]: "syscall r = Inr x \<longleftrightarrow> r = Some x"
  by (cases r) (auto simp: syscall_def)

lemma syscall_Some [simp]: "syscall (Some x) = Inr x"
  by (simp add: syscall_def)

section \<open>The reader\<close>

definition fingerprint :: "stat_result \<Rightarrow> int list" where
  "fingerprint m =
     [st_dev m, st_ino m, int (st_mode m), st_uid m, st_gid m, st_nlink m, st_size m,
      st_mtime_ns m, st_ctime_ns m]"

lemma fingerprint_inj [simp]: "fingerprint m = fingerprint n \<longleftrightarrow> m = n"
  by (cases m; cases n) (auto simp: fingerprint_def)

definition validate :: "stat_result \<Rightarrow> string \<Rightarrow> nat \<Rightarrow> int \<Rightarrow> unit res" where
  "validate metadata label maximum_bytes egid =
     require (\<not> (s_islnk (st_mode metadata) \<or> \<not> s_isreg (st_mode metadata)))
       (Exc ProtectedFileError (label @ '' must be a regular non-symlink'')) (
     require (st_nlink metadata = 1)
       (Exc ProtectedFileError (label @ '' must have exactly one hard link'')) (
     require (st_uid metadata = 0)
       (Exc ProtectedFileError (label @ '' must be owned by root'')) (
     require (st_gid metadata = egid)
       (Exc ProtectedFileError (label @ '' group must equal the effective service group'')) (
     require (s_imode (st_mode metadata) = mode_0640)
       (Exc ProtectedFileError (label @ '' mode must be exactly 0640'')) (
     require (\<not> (st_size metadata < 0 \<or> st_size metadata > int maximum_bytes))
       (Exc ProtectedFileError
          (label @ '' exceeds the '' @ text_of_nat maximum_bytes @ ''-byte limit''))
     (Inr ()))))))"

text \<open>
  The read loop: each \<open>os.read\<close> returns at most what it was asked for; an empty chunk is
  the end of the file, and a descriptor with no further answer is at its end.
\<close>

fun read_chunks :: "string \<Rightarrow> nat \<Rightarrow> string \<Rightarrow> string option list \<Rightarrow> string res" where
  "read_chunks label maximum_bytes payload [] = Inr payload"
| "read_chunks label maximum_bytes payload (None # rs) = fail OSError []"
| "read_chunks label maximum_bytes payload (Some c # rs) =
     (let remaining = maximum_bytes + 1 - length payload;
          chunk = take (min (16 * 1024) remaining) c
      in if chunk = [] then Inr payload
         else if length (payload @ chunk) > maximum_bytes
         then fail ProtectedFileError
                (label @ '' exceeds the '' @ text_of_nat maximum_bytes @ ''-byte limit'')
         else read_chunks label maximum_bytes (payload @ chunk) rs)"

text \<open>The body of the \<open>try\<close> block.\<close>

definition read_opened :: "file_session \<Rightarrow> string \<Rightarrow> nat \<Rightarrow> string res" where
  "read_opened s label maximum_bytes =
     rbind (syscall (path_before s)) (\<lambda>named.
     rbind (validate named label maximum_bytes (effective_gid s)) (\<lambda>_.
     require (open_succeeds s) (Exc OSError []) (
     rbind (syscall (opened_before s)) (\<lambda>opened.
     rbind (validate opened label maximum_bytes (effective_gid s)) (\<lambda>_.
     require ((st_dev named, st_ino named) = (st_dev opened, st_ino opened))
       (Exc ProtectedFileError (label @ '' changed while it was opened'')) (
     rbind (read_chunks label maximum_bytes [] (read_results s)) (\<lambda>payload.
     rbind (syscall (opened_after s)) (\<lambda>opened_after.
     rbind (validate opened_after label maximum_bytes (effective_gid s)) (\<lambda>_.
     rbind (syscall (path_after s)) (\<lambda>path_after.
     rbind (validate path_after label maximum_bytes (effective_gid s)) (\<lambda>_.
     require (\<not> (fingerprint opened \<noteq> fingerprint opened_after
                \<or> fingerprint opened \<noteq> fingerprint named
                \<or> fingerprint opened \<noteq> fingerprint path_after
                \<or> int (length payload) \<noteq> st_size opened))
       (Exc ProtectedFileError (label @ '' changed while it was read''))
     (Inr payload))))))))))))"

text \<open>\<open>except ProtectedFileError: raise / except OSError: raise ProtectedFileError\<close>.\<close>

definition read_root_service_file :: "file_session \<Rightarrow> string \<Rightarrow> nat \<Rightarrow> string res" where
  "read_root_service_file s label maximum_bytes =
     require (path_absolute s) (Exc ProtectedFileError (label @ '' path must be absolute'')) (
     require (\<not> maximum_bytes < 1) (Exc ProtectedFileError (label @ '' byte limit is invalid'')) (
     require (has_nofollow s)
       (Exc ProtectedFileError (''this platform cannot securely open '' @ label)) (
     (case read_opened s label maximum_bytes of
        Inl e \<Rightarrow>
          (if isinstance e ProtectedFileError then Inl e
           else if isinstance e OSError
           then fail ProtectedFileError (label @ '' is unavailable or unsafe'') else Inl e)
      | Inr payload \<Rightarrow> Inr payload))))"

section \<open>What a successful read proves\<close>

text \<open>The metadata \<^const>\<open>validate\<close> lets through.\<close>

definition service_file :: "stat_result \<Rightarrow> nat \<Rightarrow> int \<Rightarrow> bool" where
  "service_file m limit egid \<longleftrightarrow>
     s_isreg (st_mode m) \<and> st_nlink m = 1 \<and> st_uid m = 0 \<and> st_gid m = egid \<and>
     s_imode (st_mode m) = mode_0640 \<and> 0 \<le> st_size m \<and> st_size m \<le> int limit"

lemma validate_Inr [simp]: "validate m label limit egid = Inr u \<longleftrightarrow> service_file m limit egid"
  by (auto simp: validate_def service_file_def require_Inr_iff s_islnk_def s_isreg_def)

lemma validate_error:
  "validate m label limit egid = Inl e \<Longrightarrow> exc_cls e = ProtectedFileError"
  by (auto simp: validate_def require_Inl_iff)

text \<open>What the kernel delivers until the first empty chunk, cut as the loop asks for it.\<close>

lemma read_chunks_bound:
  "read_chunks label limit p rs = Inr b \<Longrightarrow> length p \<le> limit \<Longrightarrow> prefix p b \<and> length b \<le> limit"
proof (induction label limit p rs rule: read_chunks.induct)
  case (3 label limit p c rs)
  let ?chunk = "take (min (16 * 1024) (limit + 1 - length p)) c"
  show ?case
  proof (cases "?chunk = []")
    case True
    with 3 show ?thesis by (simp add: Let_def)
  next
    case False
    with "3.prems"(1) have "length (p @ ?chunk) \<le> limit"
      and "read_chunks label limit (p @ ?chunk) rs = Inr b"
      by (auto simp: Let_def split: if_splits)
    with "3.IH" [OF refl refl False] have "prefix (p @ ?chunk) b \<and> length b \<le> limit"
      by simp
    then show ?thesis by (auto dest: append_prefixD)
  qed
qed auto

lemma read_chunks_error:
  "read_chunks label limit p rs = Inl e \<Longrightarrow> exc_cls e = ProtectedFileError \<or> exc_cls e = OSError"
  by (induction label limit p rs rule: read_chunks.induct) (auto simp: Let_def split: if_splits)

lemma read_opened_error:
  "read_opened s label limit = Inl e \<Longrightarrow> exc_cls e = ProtectedFileError \<or> exc_cls e = OSError"
  unfolding read_opened_def
  by (auto simp: rbind_Inl_iff require_Inl_iff syscall_def
      dest: validate_error read_chunks_error split: option.splits)

text \<open>The contract of a secure reader, as its clients use it.\<close>

locale secure_reader =
  fixes reader :: "file_session \<Rightarrow> string res"
    and acceptable :: "stat_result \<Rightarrow> bool"
    and limit :: nat
  assumes reader_ok: "reader s = Inr b \<Longrightarrow>
      path_absolute s \<and> open_succeeds s \<and>
      (\<exists>m. path_before s = Some m \<and> opened_before s = Some m \<and> opened_after s = Some m \<and>
           path_after s = Some m \<and> acceptable m \<and> int (length b) = st_size m)"
    and acceptable_bounded: "acceptable m \<Longrightarrow> st_size m \<le> int limit"
begin

lemma reader_bounded: "reader s = Inr b \<Longrightarrow> length b \<le> limit"
  by (metis acceptable_bounded of_nat_le_iff reader_ok)

lemma swapped_file_refused:
  assumes "opened_before s = Some m" and "path_after s = Some m'" and "m \<noteq> m'"
  shows "\<exists>e. reader s = Inl e"
proof (cases "reader s")
  case (Inr b)
  with assms show ?thesis by (auto dest!: reader_ok)
qed auto

lemma unacceptable_refused: "opened_before s = Some m \<Longrightarrow> \<not> acceptable m \<Longrightarrow> \<exists>e. reader s = Inl e"
  by (cases "reader s") (auto dest!: reader_ok)

end

lemma read_opened_ok:
  "read_opened s label limit = Inr b \<Longrightarrow>
     open_succeeds s \<and>
     (\<exists>m. path_before s = Some m \<and> opened_before s = Some m \<and> opened_after s = Some m \<and>
          path_after s = Some m \<and> service_file m limit (effective_gid s) \<and>
          int (length b) = st_size m)"
  by (auto simp: read_opened_def res_iffs)

lemma read_root_service_file_Inr:
  "read_root_service_file s label limit = Inr b \<longleftrightarrow>
     path_absolute s \<and> 1 \<le> limit \<and> has_nofollow s \<and> read_opened s label limit = Inr b"
  by (auto simp: read_root_service_file_def require_Inr_iff split: sum.splits if_splits)

interpretation root_file: secure_reader
    "\<lambda>s. read_root_service_file s label limit"
    "\<lambda>m. \<exists>egid. service_file m limit egid"
    limit
  for label limit
  by unfold_locales
    (auto simp: read_root_service_file_Inr service_file_def dest!: read_opened_ok)

lemma read_root_service_file_error:
  "read_root_service_file s label limit = Inl e \<Longrightarrow> exc_cls e = ProtectedFileError"
  by (cases e)
    (auto simp: read_root_service_file_def require_Inl_iff split: sum.splits if_splits
       dest!: read_opened_error)

section \<open>The reader characterised\<close>

text \<open>C28: \<^verbatim>\<open>read_root_service_file\<close> returns bytes exactly when the path is absolute,
  the limit is positive, the platform can refuse symbolic links, and the four observations
  of the file (path and descriptor, before and after the reads) are one and the same
  regular, singly linked, root-owned file of the service group with mode 0640 whose size is
  within the limit and is the number of bytes read. So a file that is swapped, grows or is
  re-moded at any point of the call is refused.\<close>

theorem read_root_service_file_iff:
  "read_root_service_file s label limit = Inr b \<longleftrightarrow>
     path_absolute s \<and> 1 \<le> limit \<and> has_nofollow s \<and> open_succeeds s \<and>
     (\<exists>m. path_before s = Some m \<and> opened_before s = Some m \<and> opened_after s = Some m \<and>
          path_after s = Some m \<and> service_file m limit (effective_gid s) \<and>
          st_size m = int (length b)) \<and>
     read_chunks label limit [] (read_results s) = Inr b"
  by (auto simp: read_root_service_file_Inr read_opened_def res_iffs)

text \<open>The read loop of \<^verbatim>\<open>read_root_service_file\<close> never delivers more than the limit,
  whatever the kernel returns: the call either raises \<open>ProtectedFileError\<close>, and no other
  exception class, or returns at most \<open>limit\<close> bytes.\<close>

theorem read_root_service_file_bounded:
  "case read_root_service_file s label limit of
     Inl e \<Rightarrow> exc_cls e = ProtectedFileError
   | Inr b \<Rightarrow> length b \<le> limit"
  by (auto dest: read_root_service_file_error root_file.reader_bounded split: sum.splits)

end
