(* ===== verification/EnvFile.thy ===== *)
theory EnvFile
  imports ProtectedFile
begin

text \<open>
  \<^verbatim>\<open>envfile.py\<close>: the loader of the dotenv subset. The destination mapping is the state;
  an assignment is stored as soon as its line has been checked, so a later refusal leaves
  the earlier ones in place, as in the code. UTF-8 decoding of the bytes is the parameter
  \<open>decode\<close> (\<open>None\<close>: \<open>UnicodeError\<close>).
\<close>

type_synonym environ = "string \<Rightarrow> string option"

definition env_name_rx :: rx where
  "env_name_rx = Cat (Class is_upper) (Rep (\<lambda>c. is_upper c \<or> is_digit c \<or> c = CHR ''_'') 0 None)"

definition is_env_name :: "string \<Rightarrow> bool" where
  "is_env_name s \<longleftrightarrow>
     s \<noteq> [] \<and> is_upper (hd s) \<and> list_all (\<lambda>c. is_upper c \<or> is_digit c \<or> c = CHR ''_'') (tl s)"

lemma matches_env_name: "matches env_name_rx s \<longleftrightarrow> is_env_name s"
  by (cases s) (auto simp: env_name_rx_def is_env_name_def matches_Class_Cat matches_Rep)

text \<open>\<open>_FORBIDDEN_VALUE_CHARS\<close>: CR, LF, NUL, back quote and dollar.\<close>

definition forbidden_value_char :: "char \<Rightarrow> bool" where
  "forbidden_value_char c \<longleftrightarrow> code c \<in> {13, 10, 0, 96, 36}"

definition is_quote :: "char \<Rightarrow> bool" where
  "is_quote c \<longleftrightarrow> code c = 34 \<or> code c = 39"

datatype env_line = Skip | Assign string string

text \<open>The checks of one line, with the names seen so far.\<close>

definition parse_line :: "nat \<Rightarrow> string list \<Rightarrow> string \<Rightarrow> env_line res" where
  "parse_line line_number seen line =
     (let stripped = strip line in
      if stripped = [] \<or> prefix ''#'' stripped then Inr Skip
      else
        (case partition_at CHR ''='' line of (raw_name, separator, value) \<Rightarrow>
         let name = strip raw_name in
         require (\<not> (\<not> separator \<or> \<not> matches env_name_rx name))
           (Exc ConfigError (''invalid environment assignment on line '' @ text_of_nat line_number)) (
         require (name \<notin> set seen)
           (Exc ConfigError (''duplicate environment variable '' @ name @ '' on line ''
              @ text_of_nat line_number)) (
         require (\<not> value \<noteq> strip value)
           (Exc ConfigError (''environment value for '' @ name @ '' must not have edge whitespace'')) (
         require (\<not> (value \<noteq> [] \<and> (is_quote (hd value) \<or> is_quote (last value))))
           (Exc ConfigError (''environment value for '' @ name @ '' must be unquoted'')) (
         require (\<not> list_ex forbidden_value_char value)
           (Exc ConfigError (''environment value for '' @ name @ '' contains a forbidden character''))
         (Inr (Assign name value))))))))"

text \<open>The loop over the lines; an existing variable of the destination wins.\<close>

fun load_lines ::
    "nat \<Rightarrow> string list \<Rightarrow> string list \<Rightarrow> (environ, string list) prog" where
  "load_lines n seen [] = ret []"
| "load_lines n seen (line # rest) = (\<lambda>env.
     case parse_line n seen line of
       Inl e \<Rightarrow> (Inl e, env)
     | Inr Skip \<Rightarrow> load_lines (n + 1) seen rest env
     | Inr (Assign name value) \<Rightarrow>
         (let env' = (if env name = None then env(name \<mapsto> value) else env) in
          case load_lines (n + 1) (name # seen) rest env' of
            (Inl e, env'') \<Rightarrow> (Inl e, env'')
          | (Inr loaded, env'') \<Rightarrow> (Inr (name # loaded), env'')))"

definition load_env_file ::
    "(string \<Rightarrow> string option) \<Rightarrow> file_session \<Rightarrow> (environ, string list) prog" where
  "load_env_file decode session =
     (case read_root_service_file session ''environment file'' (64 * 1024) of
        Inl e \<Rightarrow> throw (Exc ConfigError (exc_text e))
      | Inr encoded \<Rightarrow>
          (case decode encoded of
             None \<Rightarrow> throw (Exc ConfigError ''environment file is not valid UTF-8'')
           | Some raw \<Rightarrow> load_lines 1 [] (splitlines raw)))"

section \<open>What a loaded file guarantees\<close>

text \<open>The values an accepted assignment can carry.\<close>

definition plain_value :: "string \<Rightarrow> bool" where
  "plain_value v \<longleftrightarrow>
     strip v = v \<and> \<not> list_ex forbidden_value_char v \<and>
     (v \<noteq> [] \<longrightarrow> \<not> is_quote (hd v) \<and> \<not> is_quote (last v))"

lemma parse_line_Assign:
  assumes "parse_line n seen line = Inr (Assign name value)"
  shows "is_env_name name \<and> name \<notin> set seen \<and> plain_value value"
proof (cases "strip line = [] \<or> prefix ''#'' (strip line)")
  case True
  with assms show ?thesis by (simp add: parse_line_def)
next
  case False
  with assms show ?thesis
    by (cases "partition_at CHR ''='' line")
      (auto simp: parse_line_def Let_def require_Inr_iff matches_env_name plain_value_def)
qed

lemma parse_line_error: "parse_line n seen line = Inl e \<Longrightarrow> exc_cls e = ConfigError"
  by (auto simp: parse_line_def Let_def require_Inl_iff split: if_splits prod.splits)

text \<open>How the loop changes the destination: \<open>lines\<close> is what was accepted.\<close>

lemma load_lines_result:
  assumes "load_lines n seen ls env = (Inr loaded, env')"
  shows "distinct loaded \<and> set loaded \<inter> set seen = {} \<and> list_all is_env_name loaded \<and>
    (\<forall>x. x \<notin> set loaded \<longrightarrow> env' x = env x) \<and>
    (\<forall>x v. env x = Some v \<longrightarrow> env' x = Some v) \<and>
    (\<forall>x \<in> set loaded. env x = None \<longrightarrow> (\<exists>v. env' x = Some v \<and> plain_value v))"
  using assms
proof (induction ls arbitrary: n seen env loaded)
  case Nil
  then show ?case by simp
next
  case (Cons l ls)
  show ?case
  proof (cases "parse_line n seen l")
    case (Inl e)
    with Cons.prems show ?thesis by simp
  next
    case (Inr r)
    show ?thesis
    proof (cases r)
      case Skip
      with Inr Cons.prems have "load_lines (n + 1) seen ls env = (Inr loaded, env')" by simp
      then show ?thesis by (rule Cons.IH)
    next
      case (Assign nm vl)
      define mid where "mid = (if env nm = None then env(nm \<mapsto> vl) else env)"
      from Inr Assign Cons.prems obtain tail
        where run: "load_lines (n + 1) (nm # seen) ls mid = (Inr tail, env')"
          and loaded: "loaded = nm # tail"
        by (auto simp: mid_def Let_def split: prod.splits sum.splits)
      have line: "is_env_name nm \<and> nm \<notin> set seen \<and> plain_value vl"
        using Inr Assign by (auto dest: parse_line_Assign)
      have mid: "\<And>x. x \<noteq> nm \<Longrightarrow> mid x = env x" "env nm = None \<Longrightarrow> mid nm = Some vl"
        "\<And>x v. env x = Some v \<Longrightarrow> mid x = Some v"
        by (auto simp: mid_def)
      note tail = Cons.IH [OF run]
      have "\<exists>v. env' x = Some v \<and> plain_value v" if "x \<in> set loaded" "env x = None" for x
        using that tail mid line loaded by (cases "x = nm") auto
      with tail mid line loaded show ?thesis by auto
    qed
  qed
qed

lemma load_lines_error: "load_lines n seen ls env = (Inl e, env') \<Longrightarrow> exc_cls e = ConfigError"
proof (induction ls arbitrary: n seen env)
  case (Cons l ls)
  then show ?case
    by (auto dest: parse_line_error simp: Let_def
        split: sum.splits env_line.splits prod.splits if_splits)
qed simp

text \<open>
  \<^verbatim>\<open>load_env_file\<close> either raises \<open>ConfigError\<close>, or loads pairwise distinct
  well-formed upper-case names, leaves every variable of the process environment that was
  already set untouched, sets nothing but loaded names, and stores only values without edge
  white space, quotes at either end, line breaks, NUL, back quotes and dollars.\<close>

theorem load_env_file_data_only:
  "case load_env_file decode session env of
     (Inl e, _) \<Rightarrow> exc_cls e = ConfigError
   | (Inr loaded, env') \<Rightarrow>
       distinct loaded \<and> list_all is_env_name loaded \<and>
       {x. env' x \<noteq> env x} \<subseteq> set loaded \<and>
       {x. env' x \<noteq> env x} \<inter> dom env = {} \<and>
       ran (env' |` (- dom env)) \<subseteq> {v. plain_value v}"
proof (cases "load_env_file decode session env")
  case (Pair r env')
  show ?thesis
  proof (cases r)
    case (Inl e)
    with Pair show ?thesis
      by (auto simp: load_env_file_def dest: load_lines_error split: sum.splits option.splits)
  next
    case (Inr loaded)
    with Pair obtain raw where run: "load_lines 1 [] (splitlines raw) env = (Inr loaded, env')"
      by (auto simp: load_env_file_def split: sum.splits option.splits)
    have "plain_value v" if "v \<in> ran (env' |` (- dom env))" for v
    proof -
      from that obtain x where x: "env x = None" "env' x = Some v"
        by (auto simp: ran_def restrict_map_def split: if_splits)
      then have "x \<in> set loaded" using load_lines_result [OF run] by force
      with x show ?thesis using load_lines_result [OF run] by auto
    qed
    with load_lines_result [OF run] Pair Inr show ?thesis by force
  qed
qed

end
