(* ===== verification/PyJson.thy ===== *)
theory PyJson
  imports PyText Complex_Main "HOL-Library.List_Lexorder"
begin

text \<open>
  The values \<^verbatim>\<open>json.loads\<close> produces and the dictionary operations the package applies to
  them: lookup with and without default, update, Python equality (which identifies
  \<open>True\<close>, \<open>1\<close> and \<open>1.0\<close> and ignores the order of keys), truth value, and the two
  ways the package loads JSON: with the hooks that refuse duplicate keys and non-finite
  constants, and without. The lexer itself is the standard library's C code: a parameter
  \<open>parse\<close> that gives the raw tree the hooks are applied to.
\<close>

section \<open>Values\<close>

text \<open>A float is a rational, an infinity or not a number.\<close>

datatype pyfloat = Fin rat | PosInf | NegInf | NaN

datatype json =
    JNull
  | JBool bool
  | JInt int
  | JFloat pyfloat
  | JStr string
  | JList "json list"
  | JObj "(string \<times> json) list"

type_synonym dict = "(string \<times> json) list"

text \<open>\<open>d.get(key)\<close> and \<open>d.get(key, default)\<close>.\<close>

definition dget :: "dict \<Rightarrow> string \<Rightarrow> json" where
  "dget d k = (case map_of d k of None \<Rightarrow> JNull | Some v \<Rightarrow> v)"

definition dget_or :: "json \<Rightarrow> dict \<Rightarrow> string \<Rightarrow> json" where
  "dget_or dflt d k = (case map_of d k of None \<Rightarrow> dflt | Some v \<Rightarrow> v)"

definition has_key :: "dict \<Rightarrow> string \<Rightarrow> bool" where
  "has_key d k \<longleftrightarrow> map_of d k \<noteq> None"

text \<open>\<open>d.update(e)\<close> and \<open>{**d, **e}\<close>; a key keeps its first position.\<close>

definition dict_update :: "dict \<Rightarrow> dict \<Rightarrow> dict" where
  "dict_update d e = fold (\<lambda>(k, v). AList.update k v) e d"

definition dict_without :: "string list \<Rightarrow> dict \<Rightarrow> dict" where
  "dict_without ks d = filter (\<lambda>(k, v). k \<notin> set ks) d"

lemma map_of_dict_update: "map_of (dict_update d e) = map_of d ++ map_of (rev e)"
proof (induction e arbitrary: d)
  case (Cons kv e)
  obtain k v where "kv = (k, v)" by (cases kv)
  with Cons show ?case
    by (simp add: dict_update_def update_conv' map_add_def fun_eq_iff split: option.splits)
qed (simp add: dict_update_def)

lemma map_of_rev_distinct: "distinct (map fst e) \<Longrightarrow> map_of (rev e) = map_of e"
  by (subst map_of_inject_set) (simp_all add: rev_map [symmetric])

lemma map_of_dict_update_distinct:
  "distinct (map fst e) \<Longrightarrow> map_of (dict_update d e) = map_of d ++ map_of e"
  by (simp add: map_of_dict_update map_of_rev_distinct)

lemma map_of_dict_without:
  "map_of (dict_without ks d) k = (if k \<in> set ks then None else map_of d k)"
  by (induction d) (auto simp: dict_without_def)

lemma distinct_dict_update:
  "distinct (map fst d) \<Longrightarrow> distinct (map fst (dict_update d e))"
  by (induction e arbitrary: d) (auto simp: dict_update_def distinct_update)

lemma distinct_dict_without:
  "distinct (map fst d) \<Longrightarrow> distinct (map fst (dict_without ks d))"
  by (induction d) (auto simp: dict_without_def)

section \<open>Equality and truth\<close>

text \<open>The number a value is, as \<open>bool\<close> and \<open>int\<close> compare with \<open>float\<close>.\<close>

fun as_number :: "json \<Rightarrow> pyfloat option" where
  "as_number (JBool b) = Some (Fin (if b then 1 else 0))"
| "as_number (JInt i) = Some (Fin (of_int i))"
| "as_number (JFloat f) = Some f"
| "as_number _ = None"

definition num_eq :: "pyfloat \<Rightarrow> pyfloat \<Rightarrow> bool" where
  "num_eq x y \<longleftrightarrow> x = y \<and> x \<noteq> NaN"

fun py_eq :: "json \<Rightarrow> json \<Rightarrow> bool"
  and py_eq_list :: "json list \<Rightarrow> json list \<Rightarrow> bool"
  and py_eq_items :: "dict \<Rightarrow> dict \<Rightarrow> bool" where
  "py_eq (JStr s) v = (case v of JStr t \<Rightarrow> s = t | _ \<Rightarrow> False)"
| "py_eq JNull v = (case v of JNull \<Rightarrow> True | _ \<Rightarrow> False)"
| "py_eq (JList xs) v = (case v of JList ys \<Rightarrow> py_eq_list xs ys | _ \<Rightarrow> False)"
| "py_eq (JObj d) v = (case v of JObj e \<Rightarrow> length d = length e \<and> py_eq_items d e | _ \<Rightarrow> False)"
| "py_eq (JBool b) v = (case as_number v of None \<Rightarrow> False | Some y \<Rightarrow> num_eq (Fin (if b then 1 else 0)) y)"
| "py_eq (JInt i) v = (case as_number v of None \<Rightarrow> False | Some y \<Rightarrow> num_eq (Fin (of_int i)) y)"
| "py_eq (JFloat f) v = (case as_number v of None \<Rightarrow> False | Some y \<Rightarrow> num_eq f y)"
| "py_eq_list [] ys = (ys = [])"
| "py_eq_list (x # xs) ys = (case ys of [] \<Rightarrow> False | y # ys' \<Rightarrow> py_eq x y \<and> py_eq_list xs ys')"
| "py_eq_items [] e = True"
| "py_eq_items ((k, x) # d) e =
     ((case map_of e k of None \<Rightarrow> False | Some y \<Rightarrow> py_eq x y) \<and> py_eq_items d e)"

text \<open>\<open>value in list\<close>.\<close>

definition py_in :: "json \<Rightarrow> json list \<Rightarrow> bool" where
  "py_in v vs \<longleftrightarrow> list_ex (\<lambda>x. py_eq x v) vs"

fun truthy :: "json \<Rightarrow> bool" where
  "truthy JNull = False"
| "truthy (JBool b) = b"
| "truthy (JInt i) = (i \<noteq> 0)"
| "truthy (JFloat f) = (f \<noteq> Fin 0)"
| "truthy (JStr s) = (s \<noteq> [])"
| "truthy (JList xs) = (xs \<noteq> [])"
| "truthy (JObj d) = (d \<noteq> [])"

lemma py_eq_JStr [simp]: "py_eq v (JStr t) \<longleftrightarrow> v = JStr t"
  by (cases v) auto

lemma py_eq_JNull [simp]: "py_eq v JNull \<longleftrightarrow> v = JNull"
  by (cases v) auto

text \<open>\<open>type(v) is int\<close>; \<open>isinstance(v, str)\<close>, \<open>dict\<close>, \<open>list\<close>.\<close>

fun as_int :: "json \<Rightarrow> int option" where
  "as_int (JInt i) = Some i"
| "as_int _ = None"

fun as_str :: "json \<Rightarrow> string option" where
  "as_str (JStr s) = Some s"
| "as_str _ = None"

fun as_obj :: "json \<Rightarrow> dict option" where
  "as_obj (JObj d) = Some d"
| "as_obj _ = None"

fun as_list :: "json \<Rightarrow> json list option" where
  "as_list (JList xs) = Some xs"
| "as_list _ = None"

lemma as_type_iffs [simp]:
  "as_int v = Some i \<longleftrightarrow> v = JInt i"
  "as_str v = Some s \<longleftrightarrow> v = JStr s"
  "as_obj v = Some d \<longleftrightarrow> v = JObj d"
  "as_list v = Some xs \<longleftrightarrow> v = JList xs"
  by (cases v; auto)+

text \<open>\<open>isinstance(v, int)\<close>: \<open>bool\<close> is a subclass of \<open>int\<close>.\<close>

fun int_like :: "json \<Rightarrow> int option" where
  "int_like (JInt i) = Some i"
| "int_like (JBool b) = Some (if b then 1 else 0)"
| "int_like _ = None"

text \<open>
  \<open>str(v)\<close>. The text of a non-integral float and of a container is a placeholder: it can
  only reach a diagnostic text. Integral floats below ten to the sixteenth print with
  \<open>.0\<close>, larger ones in exponent form.
\<close>

fun py_str :: "json \<Rightarrow> string" where
  "py_str JNull = ''None''"
| "py_str (JBool b) = (if b then ''True'' else ''False'')"
| "py_str (JInt i) = text_of_int i"
| "py_str (JFloat PosInf) = ''inf''"
| "py_str (JFloat NegInf) = ''-inf''"
| "py_str (JFloat NaN) = ''nan''"
| "py_str (JFloat (Fin q)) =
     (if q = of_int \<lfloor>q\<rfloor> \<and> \<bar>q\<bar> < 10 ^ 16 then text_of_int \<lfloor>q\<rfloor> @ ''.0'' else ''<float>'')"
| "py_str (JStr s) = s"
| "py_str (JList xs) = ''<list>''"
| "py_str (JObj d) = ''<dict>''"

section \<open>Loading\<close>

text \<open>
  What the lexer delivers: every pair of an object, duplicates included, and the constants
  \<open>NaN\<close>, \<open>Infinity\<close> and \<open>-Infinity\<close> kept apart from number literals (\<open>1e999\<close> is a
  number literal whose value is infinite). \<open>RStop\<close> as the whole answer means that scanning
  stopped with an exception that is no \<open>JSONDecodeError\<close>: an integer literal with more digits
  than \<open>int\<close> converts (\<open>ValueError\<close>), or values nested deeper than the interpreter recurses
  (\<open>RecursionError\<close>). The lenient readers are modelled on texts at which scanning does not stop.
\<close>

datatype scan_stop = LongInteger | DeepNesting

datatype raw =
    RNull
  | RBool bool
  | RInt int
  | RFloat pyfloat
  | RConst pyfloat
  | RStr string
  | RList "raw list"
  | RObj "(string \<times> raw) list"
  | RStop scan_stop

text \<open>\<open>object_pairs_hook=unique\<close>: keep the pairs unless a key repeats.\<close>

fun unique_pairs :: "string list \<Rightarrow> dict \<Rightarrow> dict option" where
  "unique_pairs seen [] = Some []"
| "unique_pairs seen ((k, v) # ps) =
     (if k \<in> set seen then None else map_option (\<lambda>d. (k, v) # d) (unique_pairs (k # seen) ps))"

fun strict_value :: "raw \<Rightarrow> json option"
  and strict_list :: "raw list \<Rightarrow> json list option"
  and strict_pairs :: "(string \<times> raw) list \<Rightarrow> dict option" where
  "strict_value RNull = Some JNull"
| "strict_value (RBool b) = Some (JBool b)"
| "strict_value (RInt i) = Some (JInt i)"
| "strict_value (RFloat f) = Some (JFloat f)"
| "strict_value (RConst f) = None"
| "strict_value (RStop stop) = None"
| "strict_value (RStr s) = Some (JStr s)"
| "strict_value (RList xs) = map_option JList (strict_list xs)"
| "strict_value (RObj ps) =
     (case strict_pairs ps of None \<Rightarrow> None | Some d \<Rightarrow> map_option JObj (unique_pairs [] d))"
| "strict_list [] = Some []"
| "strict_list (x # xs) =
     (case strict_value x of None \<Rightarrow> None | Some v \<Rightarrow> map_option ((#) v) (strict_list xs))"
| "strict_pairs [] = Some []"
| "strict_pairs ((k, x) # ps) =
     (case strict_value x of None \<Rightarrow> None | Some v \<Rightarrow> map_option ((#) (k, v)) (strict_pairs ps))"

text \<open>\<open>json.loads(raw)\<close> without hooks: constants are floats, the last duplicate wins.\<close>

fun lax_value :: "raw \<Rightarrow> json" where
  "lax_value RNull = JNull"
| "lax_value (RBool b) = JBool b"
| "lax_value (RInt i) = JInt i"
| "lax_value (RFloat f) = JFloat f"
| "lax_value (RConst f) = JFloat f"
| "lax_value (RStop stop) = JNull"
| "lax_value (RStr s) = JStr s"
| "lax_value (RList xs) = JList (map lax_value xs)"
| "lax_value (RObj ps) = JObj (dict_update [] (map (\<lambda>(k, x). (k, lax_value x)) ps))"

text \<open>\<open>json.loads(text, object_pairs_hook=unique, parse_constant=nonfinite)\<close>.\<close>

definition stop_of :: "raw \<Rightarrow> exc option" where
  "stop_of r =
     (case r of
        RStop LongInteger \<Rightarrow> Some (Exc ValueError ''integer string conversion limit exceeded'')
      | RStop DeepNesting \<Rightarrow> Some (Exc RecursionError ''maximum recursion depth exceeded'')
      | _ \<Rightarrow> None)"

definition load_strict :: "(string \<Rightarrow> raw option) \<Rightarrow> string \<Rightarrow> json res" where
  "load_strict parse text =
     (case parse text of
        None \<Rightarrow> fail JSONDecodeError ''invalid JSON''
      | Some r \<Rightarrow>
          (case stop_of r of
             Some e \<Rightarrow> Inl e
           | None \<Rightarrow>
               (case strict_value r of
                  None \<Rightarrow> fail ValueError ''duplicate JSON key or non-finite JSON number''
                | Some v \<Rightarrow> Inr v)))"

lemma stop_of_strict: "strict_value r = Some v \<Longrightarrow> stop_of r = None"
  by (cases r) (simp_all add: stop_of_def)

lemma stop_of_cases: "stop_of r = Some e \<Longrightarrow> exc_cls e = ValueError \<or> exc_cls e = RecursionError"
  by (cases r) (auto simp: stop_of_def split: scan_stop.splits)

text \<open>Every object in a strictly loaded value has each key once.\<close>

fun keys_unique :: "json \<Rightarrow> bool" where
  "keys_unique (JList xs) = list_all keys_unique xs"
| "keys_unique (JObj d) = (distinct (map fst d) \<and> list_all (\<lambda>(k, v). keys_unique v) d)"
| "keys_unique _ = True"

lemma unique_pairs_Some:
  "unique_pairs seen ps = Some d \<longleftrightarrow> d = ps \<and> distinct (map fst ps) \<and> set (map fst ps) \<inter> set seen = {}"
  by (induction seen ps arbitrary: d rule: unique_pairs.induct) auto

lemma strict_keys_unique_aux:
  "strict_value r = Some v \<Longrightarrow> keys_unique v"
  "strict_list rs = Some vs \<Longrightarrow> list_all keys_unique vs"
  "strict_pairs ps = Some d \<Longrightarrow> list_all (\<lambda>(k, v). keys_unique v) d"
proof (induction r and rs and ps arbitrary: v and vs and d
    rule: strict_value_strict_list_strict_pairs.induct)
qed (auto simp: unique_pairs_Some split: option.splits)

lemma load_strict_Inr: "load_strict parse text = Inr v \<longleftrightarrow> (\<exists>r. parse text = Some r \<and> strict_value r = Some v)"
  by (auto simp: load_strict_def dest: stop_of_strict split: option.splits)

lemma load_strict_Inl:
  "load_strict parse text = Inl e \<Longrightarrow> exc_cls e \<in> {JSONDecodeError, ValueError, RecursionError}"
  by (auto simp: load_strict_def dest: stop_of_cases split: option.splits)

lemma strict_keys_unique: "load_strict parse text = Inr v \<Longrightarrow> keys_unique v"
  by (auto simp: load_strict_Inr strict_keys_unique_aux)

text \<open>The strict loader accepts a subset of what the plain one accepts, with the same value.\<close>

lemma dict_update_Nil_distinct: "distinct (map fst d) \<Longrightarrow> dict_update [] d = d"
proof -
  have "distinct (map fst (e @ d)) \<Longrightarrow> dict_update e d = e @ d" for e
  proof (induction d arbitrary: e)
    case (Cons kv d)
    obtain k v where kv: "kv = (k, v)" by (cases kv)
    with Cons.prems have "k \<notin> fst ` set e" by auto
    then have "AList.update k v e = e @ [(k, v)]"
      by (induction e) auto
    with Cons.IH [of "e @ [(k, v)]"] Cons.prems kv show ?case
      by (simp add: dict_update_def)
  qed (simp add: dict_update_def)
  from this [of "[]"] show "distinct (map fst d) \<Longrightarrow> dict_update [] d = d" by simp
qed

lemma strict_is_lax:
  "strict_value r = Some v \<Longrightarrow> lax_value r = v"
  "strict_list rs = Some vs \<Longrightarrow> map lax_value rs = vs"
  "strict_pairs ps = Some d \<Longrightarrow> map (\<lambda>(k, x). (k, lax_value x)) ps = d"
proof (induction r and rs and ps arbitrary: v and vs and d
    rule: strict_value_strict_list_strict_pairs.induct)
qed (auto simp: unique_pairs_Some dict_update_Nil_distinct split: option.splits)


section \<open>Primitives of the standard library\<close>

text \<open>
  What the package takes from C code or from the platform: the digest function, the text of
  a float and the float a text denotes (\<open>None\<close>: \<open>ValueError\<close>), Unicode normalisation, and the functions of \<^verbatim>\<open>urllib.parse\<close>: \<open>urlsplit\<close> with its
  host name, port and decoded query pairs (it raises \<open>ValueError\<close> on a malformed network
  location or port), \<open>urlencode\<close>, and \<open>urlunsplit\<close> of scheme, location, path and query.
\<close>

record url_parts =
  u_hostname :: "string option"
  u_port :: "int option"
  u_path :: string
  u_query :: "(string \<times> string) list"

record stdlib =
  sha256_hex :: "string \<Rightarrow> string"
  float_repr :: "pyfloat \<Rightarrow> string"
  float_text :: "string \<Rightarrow> pyfloat option"
  nfc :: "string \<Rightarrow> string"
  url_split :: "string \<Rightarrow> url_parts res"
  url_encode :: "(string \<times> string) list \<Rightarrow> string"
  url_unsplit :: "string \<Rightarrow> string \<Rightarrow> string \<Rightarrow> string \<Rightarrow> string"

text \<open>A concrete library, for evaluating examples.\<close>

definition example_lib :: stdlib where
  "example_lib = \<lparr>sha256_hex = (\<lambda>_. replicate 64 CHR ''a''), float_repr = (\<lambda>_. ''1.0''), float_text = (\<lambda>_. None),
     nfc = (\<lambda>s. s),
     url_split = (\<lambda>s. Inr \<lparr>u_hostname = Some ''github.com'', u_port = None, u_path = drop 18 s, u_query = []\<rparr>),
     url_encode = (\<lambda>_. []),
     url_unsplit = (\<lambda>scheme netloc path query. scheme @ ''://'' @ netloc @ path)\<rparr>"

text \<open>\<open>float(i)\<close> of an integer: out of the range of a double it raises \<open>OverflowError\<close>.\<close>

definition float_of_int :: "int \<Rightarrow> pyfloat res" where
  "float_of_int i =
     (if \<bar>i\<bar> \<ge> 2 ^ 1024 - 2 ^ 970 then fail OverflowError ''int too large to convert to float''
      else Inr (Fin (of_int i)))"

text \<open>\<open>float(d[key])\<close> and \<open>int(v)\<close>, with the exceptions they raise.\<close>

definition float_at :: "stdlib \<Rightarrow> dict \<Rightarrow> string \<Rightarrow> pyfloat res" where
  "float_at lib d k =
     (case map_of d k of
        None \<Rightarrow> fail KeyError k
      | Some v \<Rightarrow>
          (case v of
             JInt i \<Rightarrow> float_of_int i
           | JBool b \<Rightarrow> Inr (Fin (if b then 1 else 0))
           | JFloat f \<Rightarrow> Inr f
           | JStr s \<Rightarrow> (case float_text lib s of
                         None \<Rightarrow> fail ValueError ''could not convert string to float''
                       | Some f \<Rightarrow> Inr f)
           | _ \<Rightarrow> fail TypeError ''float() argument must be a string or a real number''))"

definition int_of :: "json \<Rightarrow> int res" where
  "int_of v =
     (case v of
        JInt i \<Rightarrow> Inr i
      | JBool b \<Rightarrow> Inr (if b then 1 else 0)
      | JFloat f \<Rightarrow>
          (case f of
             Fin q \<Rightarrow> Inr (if q < 0 then \<lceil>q\<rceil> else \<lfloor>q\<rfloor>)
           | NaN \<Rightarrow> fail ValueError ''cannot convert float NaN to integer''
           | _ \<Rightarrow> fail OverflowError ''cannot convert float infinity to integer'')
      | JStr s \<Rightarrow> (case py_int s of
                    None \<Rightarrow> fail ValueError ''invalid literal for int()''
                  | Some i \<Rightarrow> Inr i)
      | _ \<Rightarrow> fail TypeError ''int() argument must be a string or a real number'')"

text \<open>Subtraction from a finite float, and the comparisons, which NaN fails.\<close>

fun minus_float :: "rat \<Rightarrow> pyfloat \<Rightarrow> pyfloat" where
  "minus_float t (Fin q) = Fin (t - q)"
| "minus_float t PosInf = NegInf"
| "minus_float t NegInf = PosInf"
| "minus_float t NaN = NaN"

fun float_ge :: "pyfloat \<Rightarrow> rat \<Rightarrow> bool" where
  "float_ge (Fin q) r = (q \<ge> r)"
| "float_ge PosInf r = True"
| "float_ge _ r = False"

fun float_gt :: "pyfloat \<Rightarrow> rat \<Rightarrow> bool" where
  "float_gt (Fin q) r = (q > r)"
| "float_gt PosInf r = True"
| "float_gt _ r = False"

section \<open>Serialising\<close>

text \<open>
  \<^verbatim>\<open>json.dumps(v, sort_keys=True, separators=(",", ":"), allow_nan=False)\<close>: keys in code
  point order, no white space, everything outside printable ASCII escaped.
\<close>

definition hex_digit :: "nat \<Rightarrow> char" where
  "hex_digit n = (if n < 10 then char_of (48 + n) else char_of (87 + n))"

definition escape_char :: "char \<Rightarrow> string" where
  "escape_char c =
     (let n = code c in
      if n = 34 then [char_of (92::nat), c]
      else if n = 92 then [c, c]
      else if n = 8 then [char_of (92::nat), CHR ''b'']
      else if n = 9 then [char_of (92::nat), CHR ''t'']
      else if n = 10 then [char_of (92::nat), CHR ''n'']
      else if n = 12 then [char_of (92::nat), CHR ''f'']
      else if n = 13 then [char_of (92::nat), CHR ''r'']
      else if n < 32 \<or> n > 126 then
        [char_of (92::nat), CHR ''u'', CHR ''0'', CHR ''0'', hex_digit (n div 16), hex_digit (n mod 16)]
      else [c])"

definition quote_text :: "string \<Rightarrow> string" where
  "quote_text s = char_of (34::nat) # concat (map escape_char s) @ [char_of (34::nat)]"

text \<open>\<open>quote\<close> writes a text; \<open>None\<close>: a non-finite float, which \<open>allow_nan=False\<close> refuses.\<close>

fun dumps_with :: "(string \<Rightarrow> string) \<Rightarrow> stdlib \<Rightarrow> json \<Rightarrow> string option"
  and dumps_list :: "(string \<Rightarrow> string) \<Rightarrow> stdlib \<Rightarrow> json list \<Rightarrow> string list option"
  and dumps_items :: "(string \<Rightarrow> string) \<Rightarrow> stdlib \<Rightarrow> dict \<Rightarrow> (string \<times> string) list option" where
  "dumps_with quote lib JNull = Some ''null''"
| "dumps_with quote lib (JBool b) = Some (if b then ''true'' else ''false'')"
| "dumps_with quote lib (JInt i) = Some (text_of_int i)"
| "dumps_with quote lib (JFloat f) = (case f of Fin q \<Rightarrow> Some (float_repr lib f) | _ \<Rightarrow> None)"
| "dumps_with quote lib (JStr s) = Some (quote s)"
| "dumps_with quote lib (JList xs) =
     map_option (\<lambda>ts. ''['' @ join_on CHR '','' ts @ '']'') (dumps_list quote lib xs)"
| "dumps_with quote lib (JObj d) =
     map_option (\<lambda>ps. ''{'' @ join_on CHR '','' (map (\<lambda>(k, t). quote k @ '':'' @ t)
                    (sort_key fst ps)) @ ''}'') (dumps_items quote lib d)"
| "dumps_list quote lib [] = Some []"
| "dumps_list quote lib (x # xs) =
     (case dumps_with quote lib x of
        None \<Rightarrow> None | Some t \<Rightarrow> map_option ((#) t) (dumps_list quote lib xs))"
| "dumps_items quote lib [] = Some []"
| "dumps_items quote lib ((k, x) # d) =
     (case dumps_with quote lib x of
        None \<Rightarrow> None | Some t \<Rightarrow> map_option ((#) (k, t)) (dumps_items quote lib d))"

definition dumps :: "stdlib \<Rightarrow> json \<Rightarrow> string option" where
  "dumps lib v = dumps_with quote_text lib v"

text \<open>The same with \<open>ensure_ascii=False\<close>: only quotes, backslashes and control characters are escaped.\<close>

definition quote_unicode :: "string \<Rightarrow> string" where
  "quote_unicode s =
     char_of (34::nat) # concat (map (\<lambda>c. if code c > 126 then [c] else escape_char c) s)
       @ [char_of (34::nat)]"

section \<open>UTF-8\<close>

text \<open>\<open>s.encode("utf-8")\<close>: code points below U+0100 take one or two bytes.\<close>

definition utf8_encode :: "string \<Rightarrow> string" where
  "utf8_encode s =
     concat (map (\<lambda>c. if code c < 128 then [c]
                      else [char_of (192 + code c div 64), char_of (128 + code c mod 64)]) s)"

end
