(* ===== verification/Config.thy ===== *)
theory Config
  imports EnvFile PyJson
begin

text \<open>
  \<^verbatim>\<open>config.py\<close>: the pinned constants, the environment readers, the source template and
  \<^verbatim>\<open>ControllerConfig\<close> with \<open>from_env\<close>, \<open>_validate\<close> and \<open>source_for\<close>. A path is its text;
  \<open>mk_path\<close> stands for \<open>Path(raw).expanduser().absolute()\<close>, which depends on the home and
  working directory of the process and can raise (\<open>RuntimeError\<close> for the home of an unknown user).
\<close>

section \<open>Pinned constants\<close>

definition UPSTREAM_COMMIT :: string where
  "UPSTREAM_COMMIT = ''d0e002f887d038bf3ea4af65b499137a755620d7''"
definition UPSTREAM_RELEASE :: string where "UPSTREAM_RELEASE = ''0.1.14''"
definition SIGNED_V030_RELEASE :: string where "SIGNED_V030_RELEASE = ''0.3.2''"
definition SIGNED_V030_MECHANISM_VERSION :: string where
  "SIGNED_V030_MECHANISM_VERSION = ''0.3.0''"
definition SIGNED_V030_PROVENANCE_REQUIRED :: bool where
  "SIGNED_V030_PROVENANCE_REQUIRED = False"
definition SIGNED_V030_CONFIG_VERSION :: int where "SIGNED_V030_CONFIG_VERSION = 1"
definition SIGNED_V030_CORPUS_VERSION :: string where "SIGNED_V030_CORPUS_VERSION = ''2026.1''"
definition SIGNED_V030_TRACK :: string where "SIGNED_V030_TRACK = ''code''"
definition SIGNED_V030_HARDWARE_CLASS :: string where "SIGNED_V030_HARDWARE_CLASS = ''mt-3g''"
definition SIGNED_V030_METRIC :: string where "SIGNED_V030_METRIC = ''execution_pass_rate''"
definition SIGNED_V030_EMISSION_SHARE :: pyfloat where "SIGNED_V030_EMISSION_SHARE = Fin 1"
definition SIGNED_V030_COORDINATOR_URL :: string where
  "SIGNED_V030_COORDINATOR_URL = ''https://coordinator.microtensor.cloud''"
definition TRANSACTION_AUTHORIZATION :: string where
  "TRANSACTION_AUTHORIZATION = ''netuid92-uid32-you-hot1-commitment-fee0-deposit0-v1''"
definition AUTHORIZED_GITHUB_REPOSITORY :: string where
  "AUTHORIZED_GITHUB_REPOSITORY = ''vandungtech/mt92''"
definition FORBIDDEN_ENVIRONMENT_VARIABLES :: "string list" where
  "FORBIDDEN_ENVIRONMENT_VARIABLES = [''MT_RESULT_WORKER'']"
definition EXPECTED_ENTRYPOINT :: string where "EXPECTED_ENTRYPOINT = ''model.gguf''"
definition EXPECTED_FORMAT :: string where "EXPECTED_FORMAT = ''gguf''"
definition EXPECTED_QUANTIZATION :: string where "EXPECTED_QUANTIZATION = ''Q4_K_M''"
definition EXPECTED_MAX_INPUT_TOKENS :: int where "EXPECTED_MAX_INPUT_TOKENS = 512"
definition EXPECTED_TOKENIZER :: string where "EXPECTED_TOKENIZER = ''tokenizer.json''"
definition EXPECTED_BASE_MODEL :: string where
  "EXPECTED_BASE_MODEL = ''Qwen/Qwen3-0.6B@c1899de289a04d12100db370d81485cdf75e47ca''"

text \<open>Of \<^verbatim>\<open>upstream_gate.py\<close>: the bounds on the age of the observer status.\<close>

definition DEFAULT_MAX_AGE_SECONDS :: int where "DEFAULT_MAX_AGE_SECONDS = 900"
definition MIN_MAX_AGE_SECONDS :: int where "MIN_MAX_AGE_SECONDS = 600"

section \<open>Reading variables\<close>

definition env_get :: "environ \<Rightarrow> string \<Rightarrow> string \<Rightarrow> string" where
  "env_get env key dflt = (case env key of None \<Rightarrow> dflt | Some v \<Rightarrow> v)"

fun reject_forbidden :: "string list \<Rightarrow> environ \<Rightarrow> unit res" where
  "reject_forbidden [] env = Inr ()"
| "reject_forbidden (name # names) env =
     (case env name of
        Some v \<Rightarrow> if strip v \<noteq> []
                 then fail ConfigError (name @ '' must never be set for this miner; it is an unpublished, unanchored upstream override that can make validators compute different weights'')
                 else reject_forbidden names env
      | None \<Rightarrow> reject_forbidden names env)"

definition env_text :: "environ \<Rightarrow> string \<Rightarrow> string \<Rightarrow> bool \<Rightarrow> string res" where
  "env_text env key dflt required =
     (let v = strip (env_get env key dflt)
      in if required \<and> v = [] then fail ConfigError (key @ '' is required'') else Inr v)"

definition check_bounds :: "string \<Rightarrow> int option \<Rightarrow> int option \<Rightarrow> int \<Rightarrow> int res" where
  "check_bounds key minimum maximum v =
     (if (\<exists>m \<in> set_option minimum. v < m)
      then fail ConfigError (key @ '' must be at least '' @ text_of_int (the minimum))
      else if (\<exists>m \<in> set_option maximum. v > m)
      then fail ConfigError (key @ '' must be at most '' @ text_of_int (the maximum))
      else Inr v)"

definition env_integer ::
    "environ \<Rightarrow> string \<Rightarrow> int \<Rightarrow> int option \<Rightarrow> int option \<Rightarrow> int res" where
  "env_integer env key dflt minimum maximum =
     (case py_int (strip (env_get env key (text_of_int dflt))) of
        None \<Rightarrow> fail ConfigError (key @ '' must be an integer'')
      | Some v \<Rightarrow> check_bounds key minimum maximum v)"

definition env_optional_integer :: "environ \<Rightarrow> string \<Rightarrow> int option \<Rightarrow> int option res" where
  "env_optional_integer env key minimum =
     (let raw = strip (env_get env key []) in
      if raw = [] then Inr None
      else (case py_int raw of
              None \<Rightarrow> fail ConfigError (key @ '' must be an integer'')
            | Some v \<Rightarrow> map_sum id Some (check_bounds key minimum None v)))"

definition env_boolean :: "environ \<Rightarrow> string \<Rightarrow> bool \<Rightarrow> bool res" where
  "env_boolean env key dflt =
     (let raw = py_lower (strip (env_get env key (if dflt then ''true'' else ''false''))) in
      if raw \<in> {''1'', ''true'', ''yes'', ''on''} then Inr True
      else if raw \<in> {''0'', ''false'', ''no'', ''off''} then Inr False
      else fail ConfigError (key @ '' must be true or false''))"

definition env_path ::
    "(string \<Rightarrow> string res) \<Rightarrow> environ \<Rightarrow> string \<Rightarrow> string \<Rightarrow> bool \<Rightarrow> string res" where
  "env_path mk_path env key dflt required = rbind (env_text env key dflt required) mk_path"

definition env_optional_path ::
    "(string \<Rightarrow> string res) \<Rightarrow> environ \<Rightarrow> string \<Rightarrow> string option res" where
  "env_optional_path mk_path env key =
     rbind (env_text env key [] False) (\<lambda>raw.
     if raw = [] then Inr None else map_sum id Some (mk_path raw))"

text \<open>\<open>path.parent\<close> and \<open>path / name\<close> of an absolute path.\<close>

definition path_parent :: "string \<Rightarrow> string" where
  "path_parent p =
     (let q = rev (drop 1 (dropWhile (\<lambda>c. c \<noteq> CHR ''/'') (rev p))) in if q = [] then ''/'' else q)"

definition path_join :: "string \<Rightarrow> string \<Rightarrow> string" where
  "path_join p name = (if p = ''/'' then ''/'' @ name else p @ ''/'' @ name)"

section \<open>The source template\<close>

text \<open>
  \<open>string.Formatter().parse\<close>: literal characters, doubled braces, and replacement fields
  with name, format specification and whether a conversion follows. \<open>None\<close> is
  \<open>ValueError\<close>; a field with a brace inside counts as malformed (the code refuses it as a
  format specification, with the same exception class).
\<close>

datatype fmt_piece = FLit char | FField (field_name: string) (field_spec: string) (field_conv: bool)

definition make_field :: "string \<Rightarrow> fmt_piece" where
  "make_field content =
     (let nm = takeWhile (\<lambda>c. c \<noteq> CHR ''!'' \<and> c \<noteq> CHR '':'') content;
          rest = dropWhile (\<lambda>c. c \<noteq> CHR ''!'' \<and> c \<noteq> CHR '':'') content
      in FField nm (if prefix '':'' rest then tl rest else []) (prefix ''!'' rest))"

lemma partition_at_length:
  "partition_at sep s = (h, found, t) \<Longrightarrow> length t \<le> length s"
  by (induction sep s arbitrary: h found t rule: partition_at.induct)
    (auto split: if_splits prod.splits)

function fmt_parse :: "string \<Rightarrow> fmt_piece list option" where
  "fmt_parse [] = Some []"
| "fmt_parse (c # cs) =
     (if c = CHR ''{'' then
        (if prefix ''{'' cs then map_option ((#) (FLit c)) (fmt_parse (drop 1 cs))
         else case partition_at CHR ''}'' cs of (content, found, rest) \<Rightarrow>
           (if \<not> found \<or> CHR ''{'' \<in> set content then None
            else map_option ((#) (make_field content)) (fmt_parse rest)))
      else if c = CHR ''}'' then
        (if prefix ''}'' cs then map_option ((#) (FLit c)) (fmt_parse (drop 1 cs)) else None)
      else map_option ((#) (FLit c)) (fmt_parse cs))"
  by pat_completeness auto
termination
  by (relation "measure length") (auto dest!: partition_at_length [OF sym])

definition template_fields :: "fmt_piece list \<Rightarrow> string list" where
  "template_fields ps = concat (map (\<lambda>p. case p of FLit c \<Rightarrow> [] | FField n s v \<Rightarrow> [n]) ps)"

definition plain_field :: "fmt_piece \<Rightarrow> bool" where
  "plain_field p \<longleftrightarrow>
     (case p of FLit c \<Rightarrow> True
      | FField n s v \<Rightarrow> n \<in> {''round'', ''uid'', ''hotkey''} \<and> s = [] \<and> \<not> v)"

definition validate_template :: "string \<Rightarrow> unit res" where
  "validate_template template =
     (case fmt_parse template of
        None \<Rightarrow> fail ConfigError ''MMC_SOURCE_TEMPLATE is malformed''
      | Some ps \<Rightarrow>
          require (list_all plain_field ps)
            (Exc ConfigError ''MMC_SOURCE_TEMPLATE permits only plain {round}, {uid}, and {hotkey} fields'') (
          require (''round'' \<in> set (template_fields ps))
            (Exc ConfigError ''MMC_SOURCE_TEMPLATE must contain {round} to isolate each round'')
          (Inr ())))"

text \<open>\<open>template.format(round=..., uid=..., hotkey=...)\<close>.\<close>

fun render_piece :: "string \<Rightarrow> string \<Rightarrow> string \<Rightarrow> fmt_piece \<Rightarrow> string option" where
  "render_piece r u h (FLit c) = Some [c]"
| "render_piece r u h (FField n s v) =
     (if n = ''round'' then Some r else if n = ''uid'' then Some u
      else if n = ''hotkey'' then Some h else None)"

fun render_pieces :: "string \<Rightarrow> string \<Rightarrow> string \<Rightarrow> fmt_piece list \<Rightarrow> string option" where
  "render_pieces r u h [] = Some []"
| "render_pieces r u h (p # ps) =
     (case render_piece r u h p of
        None \<Rightarrow> None
      | Some t \<Rightarrow> map_option ((@) t) (render_pieces r u h ps))"

definition format_template :: "string \<Rightarrow> int \<Rightarrow> int \<Rightarrow> string \<Rightarrow> string res" where
  "format_template template round_index uid hotkey =
     (case fmt_parse template of
        None \<Rightarrow> fail ValueError ''malformed format string''
      | Some ps \<Rightarrow>
          (case render_pieces (text_of_int round_index) (text_of_int uid) hotkey ps of
             None \<Rightarrow> fail KeyError ''unknown replacement field''
           | Some t \<Rightarrow> Inr t))"


section \<open>The configuration\<close>

record controller_config =
  c_netuid :: int
  c_network :: string
  c_endpoint :: string
  c_wallet_name :: string
  c_wallet_hotkey :: string
  c_wallet_path :: string
  c_expected_uid :: int
  c_upstream_home :: string
  c_state_dir :: string
  c_upstream_observer_status_path :: string
  c_upstream_observer_max_age_seconds :: int
  c_artifact_dir :: string
  c_artifact_competition_binding_path :: string
  c_selfcheck_path :: string
  c_selfcheck_binding_path :: string
  c_v030_activation_block :: "int option"
  c_track :: string
  c_hardware_class :: string
  c_source_template :: string
  c_github_token_file :: "string option"
  c_entrypoint :: string
  c_artifact_format :: string
  c_quantization :: string
  c_max_input_tokens :: int
  c_tokenizer :: string
  c_base_model :: string
  c_coordinator_url :: string
  c_allow_chain_schedule_fallback :: bool
  c_require_anchored_coordinator :: bool
  c_dry_run :: bool
  c_transaction_authorization :: string
  c_allow_unverified_upstream :: bool
  c_poll_seconds :: int
  c_retry_seconds :: int
  c_deadline_margin_blocks :: int
  c_verify_attempts :: int
  c_verify_interval_seconds :: int
  c_health_max_age_seconds :: int
  c_coordinator_timeout_seconds :: int
  c_log_level :: string
  c_round_blocks :: int
  c_genesis_block :: int

definition uses_signed_v030 :: "controller_config \<Rightarrow> bool" where
  "uses_signed_v030 c \<longleftrightarrow> c_v030_activation_block c \<noteq> None"

definition upstream_release :: "controller_config \<Rightarrow> string" where
  "upstream_release c = (if uses_signed_v030 c then SIGNED_V030_RELEASE else UPSTREAM_RELEASE)"

definition provenance_required :: "controller_config \<Rightarrow> bool" where
  "provenance_required c = (if uses_signed_v030 c then SIGNED_V030_PROVENANCE_REQUIRED else True)"

text \<open>\<open>_GITHUB_RELEASE_SOURCE\<close>.\<close>

definition is_dash :: "char \<Rightarrow> bool" where "is_dash c \<longleftrightarrow> c = CHR ''-''"
definition is_repo_punct :: "char \<Rightarrow> bool" where
  "is_repo_punct c \<longleftrightarrow> c = CHR ''.'' \<or> c = CHR ''_'' \<or> c = CHR ''-''"

definition github_release_rx :: rx where
  "github_release_rx =
     Cat (Lit ''github.com/'') (
     Cat (Group (name_rx is_dash 37)) (
     Cat (Lit ''/'') (
     Cat (Group (name_rx is_repo_punct 98)) (
     Cat (Lit ''/releases/download/'')
         (Group (name_rx is_repo_punct 62))))))"

definition github_release_coordinates :: "string \<Rightarrow> (string \<times> string \<times> string) option" where
  "github_release_coordinates source =
     (if \<not> prefix ''https:'' source then None
      else case fullmatch github_release_rx (remove_prefix ''https:'' source) of
             Some [owner, repo, tag] \<Rightarrow> Some (owner, repo, tag)
           | _ \<Rightarrow> None)"

definition bucket_rx :: rx where
  "bucket_rx =
     (let edge = (\<lambda>c. is_lower c \<or> is_digit c) in
      Cat (Class edge)
          (Cat (Rep (\<lambda>c. edge c \<or> c = CHR ''.'' \<or> c = CHR ''-'') 1 (Some 61)) (Class edge)))"

text \<open>The checks on a rendered \<open>https\<close> source.\<close>

definition check_https_source :: "string \<Rightarrow> string res" where
  "check_https_source rendered =
     (case github_release_coordinates rendered of
        None \<Rightarrow> fail ConfigError ''https sources must be github.com/OWNER/REPO/releases/download/TAG''
      | Some (owner, repo, tag) \<Rightarrow>
          require (owner @ ''/'' @ repo = AUTHORIZED_GITHUB_REPOSITORY)
            (Exc ConfigError ''GitHub release source is not the authorized vandungtech/mt92 repository'') (
          require (\<not> (occurs ''--'' owner \<or> suffix ''.git'' (py_casefold repo)
                      \<or> occurs ''..'' tag \<or> suffix ''.lock'' (py_casefold tag)))
            (Exc ConfigError ''rendered GitHub release source is invalid'')
          (Inr rendered)))"

text \<open>The checks on a rendered object-store source.\<close>

definition check_object_source :: "string \<Rightarrow> string \<Rightarrow> string res" where
  "check_object_source rendered locator =
     (case partition_at CHR ''/'' locator of (bucket, separator, path) \<Rightarrow>
        require (\<not> (\<not> separator \<or> bucket = [] \<or> path = [] \<or> occurs ''//'' locator))
          (Exc ConfigError ''rendered object-store source must be bucket/non-empty-prefix'') (
        require (matches bucket_rx bucket)
          (Exc ConfigError ''rendered object-store bucket name is invalid'') (
        require (\<not> list_ex (\<lambda>part. part \<in> {[], ''.'', ''..''}) (split_on CHR ''/'' path))
          (Exc ConfigError ''rendered object-store source contains an unsafe path component'')
        (Inr rendered))))"

definition source_delimiter :: "char \<Rightarrow> bool" where
  "source_delimiter c \<longleftrightarrow>
     c = CHR ''|'' \<or> is_space c \<or> c = CHR ''?'' \<or> c = CHR ''#'' \<or> c = CHR ''@'' \<or> code c = 92"

definition source_for :: "controller_config \<Rightarrow> int \<Rightarrow> string \<Rightarrow> string res" where
  "source_for c round_index hotkey =
     require (\<not> round_index < 0) (Exc ConfigError ''round index must not be negative'') (
     rbind (format_template (c_source_template c) round_index (c_expected_uid c) hotkey)
       (\<lambda>rendered.
     require (\<not> list_ex source_delimiter rendered)
       (Exc ConfigError ''rendered source contains a forbidden delimiter or credential marker'') (
     (case partition_at CHR '':'' rendered of (scheme, separator, locator) \<Rightarrow>
        require separator (Exc ConfigError ''rendered source has no scheme'') (
        if scheme = ''https'' then check_https_source rendered
        else require (scheme \<in> {''s3'', ''r2''})
               (Exc ConfigError ''rendered source scheme is not supervised'')
             (check_object_source rendered locator))))))"

section \<open>Validation\<close>

text \<open>The load specification the unsigned profile is pinned to.\<close>

definition observed_load :: "controller_config \<Rightarrow> string \<times> string \<times> string \<times> int \<times> string \<times> string" where
  "observed_load c =
     (c_entrypoint c, c_artifact_format c, c_quantization c, c_max_input_tokens c,
      c_tokenizer c, c_base_model c)"

definition expected_load :: "string \<times> string \<times> string \<times> int \<times> string \<times> string" where
  "expected_load =
     (EXPECTED_ENTRYPOINT, EXPECTED_FORMAT, EXPECTED_QUANTIZATION, EXPECTED_MAX_INPUT_TOKENS,
      EXPECTED_TOKENIZER, EXPECTED_BASE_MODEL)"

definition validate_profile :: "controller_config \<Rightarrow> unit res" where
  "validate_profile c =
     (if uses_signed_v030 c then
        require ((c_track c, c_hardware_class c) = (SIGNED_V030_TRACK, SIGNED_V030_HARDWARE_CLASS))
          (Exc ConfigError ''MMC_V030_ACTIVATION_BLOCK enables only the signed code/mt-3g profile'') (
        require (\<not> (\<not> list_all (\<lambda>s. s \<noteq> [])
                        [c_entrypoint c, c_artifact_format c, c_quantization c, c_tokenizer c,
                         c_base_model c]
                    \<or> c_max_input_tokens c < 1))
          (Exc ConfigError ''signed v0.3 activation requires an explicit final model/load spec; no candidate is selected by default'') (
        require (\<not> (c_artifact_format c \<noteq> ''gguf'' \<or> \<not> suffix ''.gguf'' (c_entrypoint c)))
          (Exc ConfigError ''signed v0.3 activation currently supports only a GGUF load spec'') (
        require (\<not> c_allow_unverified_upstream c)
          (Exc ConfigError ''signed v0.3 activation never permits an unverified upstream'') (
        require (\<not> c_allow_chain_schedule_fallback c)
          (Exc ConfigError ''signed v0.3 activation never permits chain-schedule fallback'') (
        require (\<not> (\<not> c_dry_run c \<and> c_coordinator_url c \<noteq> SIGNED_V030_COORDINATOR_URL))
          (Exc ConfigError (''live signed v0.3 activation requires the official coordinator URL ''
             @ SIGNED_V030_COORDINATOR_URL))
        (Inr ()))))))
      else
        require ((c_track c, c_hardware_class c) = (''extract'', ''mt-3g''))
          (Exc ConfigError ''code/mt-3g requires an explicit MMC_V030_ACTIVATION_BLOCK'') (
        require (observed_load c = expected_load)
          (Exc ConfigError ''this deployment accepts only model.gguf / gguf / Q4_K_M / 512 tokens / tokenizer.json / the pinned Qwen3-0.6B revision'')
        (Inr ())))"

definition validate_config :: "controller_config \<Rightarrow> unit res" where
  "validate_config c =
     require (c_netuid c = 92)
       (Exc ConfigError ''this deployment is pinned to Microtensor netuid 92'') (
     require (\<not> (\<not> c_dry_run c \<and> c_network c \<noteq> ''finney''))
       (Exc ConfigError ''live mode requires MT_NETWORK=finney'') (
     require (\<not> (\<not> c_dry_run c \<and> c_endpoint c \<noteq> []))
       (Exc ConfigError ''live mode refuses custom MT_ENDPOINT values'') (
     require (\<not> (c_network c \<noteq> ''finney'' \<and> c_endpoint c = []))
       (Exc ConfigError ''non-finney diagnostics require an explicit MT_ENDPOINT'') (
     require (c_wallet_name c = ''you-cold'')
       (Exc ConfigError ''MT_WALLET_NAME must be you-cold for this deployment'') (
     require (c_wallet_hotkey c = ''you-hot1'')
       (Exc ConfigError ''MT_WALLET_HOTKEY must be you-hot1 for this deployment'') (
     require (c_expected_uid c = 32)
       (Exc ConfigError ''MMC_EXPECTED_UID must remain 32 for this registered miner'') (
     rbind (validate_profile c) (\<lambda>_.
     require (prefix ''https://'' (c_coordinator_url c))
       (Exc ConfigError ''MMC_COORDINATOR_URL must use HTTPS'') (
     let scheme = fst (partition_at CHR '':'' (c_source_template c)) in
     require (scheme \<in> {''s3'', ''r2'', ''https''})
       (Exc ConfigError ''supervised uploads support s3/r2 diagnostics or an immutable GitHub https release'') (
     rbind (source_for c 0 ''5ConfigProbe'') (\<lambda>_.
     require (c_transaction_authorization c \<in> {[], TRANSACTION_AUTHORIZATION})
       (Exc ConfigError ''MMC_TRANSACTION_AUTHORIZATION is not an approved policy'') (
     require (\<not> (\<not> c_dry_run c \<and> c_transaction_authorization c \<noteq> TRANSACTION_AUTHORIZATION))
       (Exc ConfigError ''live mode requires the exact zero-cost MMC_TRANSACTION_AUTHORIZATION'') (
     require (\<not> (scheme = ''https'' \<and> c_github_token_file c = None \<and> \<not> c_dry_run c))
       (Exc ConfigError ''MMC_GITHUB_TOKEN_FILE is required for live GitHub releases'') (
     require (\<not> (scheme \<noteq> ''https'' \<and> c_github_token_file c \<noteq> None))
       (Exc ConfigError ''MMC_GITHUB_TOKEN_FILE is valid only with a GitHub https source'') (
     require (\<not> (c_allow_unverified_upstream c \<and> \<not> c_dry_run c))
       (Exc ConfigError ''MMC_ALLOW_UNVERIFIED_UPSTREAM is permitted only with MMC_DRY_RUN=true'') (
     require (\<not> (\<not> c_dry_run c \<and> scheme \<noteq> ''https''))
       (Exc ConfigError ''live S3/R2 activation is refused: verification with miner credentials does not prove validators can fetch the artifact without those credentials'') (
     require (c_require_anchored_coordinator c)
       (Exc ConfigError ''MMC_REQUIRE_ANCHORED_COORDINATOR must remain true'') (
     require (\<not> (c_allow_chain_schedule_fallback c \<and> \<not> c_dry_run c))
       (Exc ConfigError ''chain-schedule fallback is diagnostic-only and requires dry-run'')
     (Inr ())))))))))))))))))))"


section \<open>From the environment\<close>

text \<open>The constructor call of \<open>from_env\<close>: its arguments in the order they are evaluated.\<close>

definition read_fields ::
    "(string \<Rightarrow> string res) \<Rightarrow> environ \<Rightarrow> int option \<Rightarrow> string \<Rightarrow> string \<Rightarrow> string \<Rightarrow> string \<Rightarrow>
     controller_config res" where
  "read_fields mk_path env v030_activation_block upstream_home state_dir artifact_dir source_template =
     (let signed_v030 = v030_activation_block \<noteq> None in
     rbind (env_integer env ''MT_NETUID'' 92 (Some 0) None) (\<lambda>netuid.
     rbind (env_text env ''MT_NETWORK'' ''finney'' False) (\<lambda>network.
     rbind (env_text env ''MT_ENDPOINT'' [] False) (\<lambda>endpoint.
     rbind (env_text env ''MT_WALLET_NAME'' ''you-cold'' True) (\<lambda>wallet_name.
     rbind (env_text env ''MT_WALLET_HOTKEY'' ''you-hot1'' True) (\<lambda>wallet_hotkey.
     rbind (env_path mk_path env ''MT_WALLET_PATH'' [] True) (\<lambda>wallet_path.
     rbind (env_integer env ''MMC_EXPECTED_UID'' 32 (Some 0) None) (\<lambda>expected_uid.
     rbind (env_path mk_path env ''MMC_UPSTREAM_OBSERVER_STATUS_PATH''
       (path_join (path_join (path_parent state_dir) ''upstream-observer'') ''status.json'') False) (\<lambda>upstream_observer_status_path.
     rbind (env_integer env ''MMC_UPSTREAM_OBSERVER_MAX_AGE_SECONDS'' DEFAULT_MAX_AGE_SECONDS
       (Some MIN_MAX_AGE_SECONDS) (Some DEFAULT_MAX_AGE_SECONDS)) (\<lambda>upstream_observer_max_age_seconds.
     rbind (env_path mk_path env ''MMC_ARTIFACT_COMPETITION_BINDING_PATH'' [] True) (\<lambda>artifact_competition_binding_path.
     rbind (env_path mk_path env ''MMC_SELFCHECK_PATH'' (path_join upstream_home ''selfcheck.json'') False) (\<lambda>selfcheck_path.
     rbind (env_path mk_path env ''MMC_SELFCHECK_BINDING_PATH''
       (path_join upstream_home ''selfcheck.binding.json'') False) (\<lambda>selfcheck_binding_path.
     rbind (env_text env ''MMC_TRACK'' (if signed_v030 then SIGNED_V030_TRACK else ''extract'') True) (\<lambda>track.
     rbind (env_text env ''MMC_HARDWARE_CLASS''
       (if signed_v030 then SIGNED_V030_HARDWARE_CLASS else ''mt-3g'') True) (\<lambda>hardware_class.
     rbind (env_optional_path mk_path env ''MMC_GITHUB_TOKEN_FILE'') (\<lambda>github_token_file.
     rbind (env_text env ''MMC_ENTRYPOINT'' (if signed_v030 then [] else EXPECTED_ENTRYPOINT) False) (\<lambda>entrypoint.
     rbind (env_text env ''MMC_ARTIFACT_FORMAT'' (if signed_v030 then [] else EXPECTED_FORMAT) False) (\<lambda>artifact_format.
     rbind (env_text env ''MMC_QUANTIZATION'' (if signed_v030 then [] else EXPECTED_QUANTIZATION) False) (\<lambda>quantization.
     rbind (env_integer env ''MMC_MAX_INPUT_TOKENS''
       (if signed_v030 then 0 else EXPECTED_MAX_INPUT_TOKENS) (Some (if signed_v030 then 0 else 1)) None) (\<lambda>max_input_tokens.
     rbind (env_text env ''MMC_TOKENIZER'' (if signed_v030 then [] else EXPECTED_TOKENIZER) False) (\<lambda>tokenizer.
     rbind (env_text env ''MMC_BASE_MODEL'' (if signed_v030 then [] else EXPECTED_BASE_MODEL) False) (\<lambda>base_model.
     rbind (map_sum id (rstrip_char CHR ''/'')
       (env_text env ''MMC_COORDINATOR_URL'' ''https://coordinator.microtensor.cloud'' True)) (\<lambda>coordinator_url.
     rbind (env_boolean env ''MMC_ALLOW_CHAIN_SCHEDULE_FALLBACK'' False) (\<lambda>allow_chain_schedule_fallback.
     rbind (env_boolean env ''MMC_REQUIRE_ANCHORED_COORDINATOR'' True) (\<lambda>require_anchored_coordinator.
     rbind (env_boolean env ''MMC_DRY_RUN'' True) (\<lambda>dry_run.
     rbind (env_text env ''MMC_TRANSACTION_AUTHORIZATION'' [] False) (\<lambda>transaction_authorization.
     rbind (env_boolean env ''MMC_ALLOW_UNVERIFIED_UPSTREAM'' False) (\<lambda>allow_unverified_upstream.
     rbind (env_integer env ''MMC_POLL_SECONDS'' 30 (Some 1) None) (\<lambda>poll_seconds.
     rbind (env_integer env ''MMC_RETRY_SECONDS'' 30 (Some 1) None) (\<lambda>retry_seconds.
     rbind (env_integer env ''MMC_DEADLINE_MARGIN_BLOCKS'' 40 (Some 1) None) (\<lambda>deadline_margin_blocks.
     rbind (env_integer env ''MMC_VERIFY_ATTEMPTS'' 5 (Some 1) None) (\<lambda>verify_attempts.
     rbind (env_integer env ''MMC_VERIFY_INTERVAL_SECONDS'' 900 (Some 30) None) (\<lambda>verify_interval_seconds.
     rbind (env_integer env ''MMC_HEALTH_MAX_AGE_SECONDS'' 180 (Some 10) None) (\<lambda>health_max_age_seconds.
     rbind (env_integer env ''MMC_COORDINATOR_TIMEOUT_SECONDS'' 10 (Some 1) None) (\<lambda>coordinator_timeout_seconds.
     rbind (map_sum id py_upper (env_text env ''MMC_LOG_LEVEL'' ''INFO'' False)) (\<lambda>log_level.
     rbind (env_integer env ''MT_ROUND_BLOCKS'' 21600 (Some 1) None) (\<lambda>round_blocks.
     rbind (env_integer env ''MT_GENESIS_BLOCK'' (-17805488) None None) (\<lambda>genesis_block.
     Inr \<lparr>c_netuid = netuid,
       c_network = network,
       c_endpoint = endpoint,
       c_wallet_name = wallet_name,
       c_wallet_hotkey = wallet_hotkey,
       c_wallet_path = wallet_path,
       c_expected_uid = expected_uid,
       c_upstream_home = upstream_home,
       c_state_dir = state_dir,
       c_upstream_observer_status_path = upstream_observer_status_path,
       c_upstream_observer_max_age_seconds = upstream_observer_max_age_seconds,
       c_artifact_dir = artifact_dir,
       c_artifact_competition_binding_path = artifact_competition_binding_path,
       c_selfcheck_path = selfcheck_path,
       c_selfcheck_binding_path = selfcheck_binding_path,
       c_v030_activation_block = v030_activation_block,
       c_track = track,
       c_hardware_class = hardware_class,
       c_source_template = source_template,
       c_github_token_file = github_token_file,
       c_entrypoint = entrypoint,
       c_artifact_format = artifact_format,
       c_quantization = quantization,
       c_max_input_tokens = max_input_tokens,
       c_tokenizer = tokenizer,
       c_base_model = base_model,
       c_coordinator_url = coordinator_url,
       c_allow_chain_schedule_fallback = allow_chain_schedule_fallback,
       c_require_anchored_coordinator = require_anchored_coordinator,
       c_dry_run = dry_run,
       c_transaction_authorization = transaction_authorization,
       c_allow_unverified_upstream = allow_unverified_upstream,
       c_poll_seconds = poll_seconds,
       c_retry_seconds = retry_seconds,
       c_deadline_margin_blocks = deadline_margin_blocks,
       c_verify_attempts = verify_attempts,
       c_verify_interval_seconds = verify_interval_seconds,
       c_health_max_age_seconds = health_max_age_seconds,
       c_coordinator_timeout_seconds = coordinator_timeout_seconds,
       c_log_level = log_level,
       c_round_blocks = round_blocks,
       c_genesis_block = genesis_block\<rparr>))))))))))))))))))))))))))))))))))))))"

definition from_env :: "(string \<Rightarrow> string res) \<Rightarrow> environ \<Rightarrow> controller_config res" where
  "from_env mk_path env =
     rbind (reject_forbidden FORBIDDEN_ENVIRONMENT_VARIABLES env) (\<lambda>_.
     rbind (env_optional_integer env ''MMC_V030_ACTIVATION_BLOCK'' (Some 0)) (\<lambda>v030_activation_block.
     rbind (env_path mk_path env ''MT_HOME'' ''/var/lib/microtensor-miner/upstream'' False) (\<lambda>upstream_home.
     rbind (env_path mk_path env ''MMC_STATE_DIR'' ''/var/lib/microtensor-miner/controller'' False) (\<lambda>state_dir.
     rbind (env_path mk_path env ''MMC_ARTIFACT_DIR'' [] True) (\<lambda>artifact_dir.
     rbind (env_text env ''MMC_SOURCE_TEMPLATE'' [] True) (\<lambda>source_template.
     rbind (validate_template source_template) (\<lambda>_.
     rbind (read_fields mk_path env v030_activation_block upstream_home state_dir artifact_dir
              source_template) (\<lambda>c.
     rbind (validate_config c) (\<lambda>_. Inr c)))))))))"


section \<open>GitHub release sources\<close>

lemma github_release_matches:
  "(g, []) \<in> set (rx_match github_release_rx s) \<longleftrightarrow>
     (\<exists>owner repo tag. g = [owner, repo, tag] \<and>
        s = ''github.com/'' @ owner @ ''/'' @ repo @ ''/releases/download/'' @ tag \<and>
        name_shape is_dash 37 owner \<and> name_shape is_repo_punct 98 repo \<and>
        name_shape is_repo_punct 62 tag)"
  unfolding github_release_rx_def in_match_Cat in_match_Lit in_match_Group_name by fastforce

lemma name_shape_no_slash:
  assumes "name_shape extra n t" and "\<not> extra CHR ''/''"
  shows "CHR ''/'' \<notin> set t"
proof
  assume "CHR ''/'' \<in> set t"
  with assms(1) have "is_alnum CHR ''/'' \<or> extra CHR ''/''"
    by (auto simp: name_shape_def list_all_iff)
  with assms(2) show False by (simp add: char_class_defs)
qed

lemma no_slash:
  "name_shape is_dash n t \<Longrightarrow> CHR ''/'' \<notin> set t"
  "name_shape is_repo_punct n t \<Longrightarrow> CHR ''/'' \<notin> set t"
  by (auto dest: name_shape_no_slash [where extra = is_dash]
      name_shape_no_slash [where extra = is_repo_punct] simp: is_dash_def is_repo_punct_def)

lemma split_at_first:
  "c \<notin> set a \<Longrightarrow> c \<notin> set b \<Longrightarrow> a @ c # x = b @ c # y \<longleftrightarrow> a = b \<and> x = y"
proof (induction a arbitrary: b)
  case Nil
  then show ?case by (cases b) auto
next
  case (Cons d a)
  then show ?case by (cases b) auto
qed

lemma github_release_coordinates_iff:
  "github_release_coordinates source = Some (owner, repo, tag) \<longleftrightarrow>
     source = ''https:github.com/'' @ owner @ ''/'' @ repo @ ''/releases/download/'' @ tag \<and>
     name_shape is_dash 37 owner \<and> name_shape is_repo_punct 98 repo \<and>
     name_shape is_repo_punct 62 tag"
proof
  assume "github_release_coordinates source = Some (owner, repo, tag)"
  then have pre: "prefix ''https:'' source"
    and full: "fullmatch github_release_rx (drop 6 source) = Some [owner, repo, tag]"
    by (auto simp: github_release_coordinates_def remove_prefix_def eval_nat_numeral
        split: if_splits option.splits list.splits)
  from pre have "source = ''https:'' @ drop 6 source" by (auto simp: prefix_def)
  with fullmatch_SomeD [OF full] show "source = ''https:github.com/'' @ owner @ ''/'' @ repo @
      ''/releases/download/'' @ tag \<and> name_shape is_dash 37 owner \<and>
      name_shape is_repo_punct 98 repo \<and> name_shape is_repo_punct 62 tag"
    by (auto simp: github_release_matches)
next
  assume R: "source = ''https:github.com/'' @ owner @ ''/'' @ repo @ ''/releases/download/'' @ tag \<and>
     name_shape is_dash 37 owner \<and> name_shape is_repo_punct 98 repo \<and>
     name_shape is_repo_punct 62 tag"
  let ?s = "''github.com/'' @ owner @ ''/'' @ repo @ ''/releases/download/'' @ tag"
  have "fullmatch github_release_rx ?s = Some [owner, repo, tag]"
  proof (rule fullmatch_unique)
    show "([owner, repo, tag], []) \<in> set (rx_match github_release_rx ?s)"
      using R by (auto simp: github_release_matches)
  next
    fix h assume "(h, []) \<in> set (rx_match github_release_rx ?s)"
    then obtain o' r' t' where h: "h = [o', r', t']"
      and eq: "owner @ CHR ''/'' # repo @ CHR ''/'' # ''releases/download/'' @ tag
             = o' @ CHR ''/'' # r' @ CHR ''/'' # ''releases/download/'' @ t'"
      and shapes: "name_shape is_dash 37 o'" "name_shape is_repo_punct 98 r'"
      by (auto simp: github_release_matches)
    have ns: "CHR ''/'' \<notin> set owner" "CHR ''/'' \<notin> set o'" "CHR ''/'' \<notin> set repo" "CHR ''/'' \<notin> set r'"
      using R shapes by (auto dest: no_slash)
    from eq ns have "o' = owner \<and> r' = repo \<and> t' = tag"
      by (simp add: split_at_first)
    with h show "h = [owner, repo, tag]" by simp
  qed
  with R show "github_release_coordinates source = Some (owner, repo, tag)"
    by (simp add: github_release_coordinates_def remove_prefix_def)
qed

text \<open>The only \<open>https\<close> sources the deployment accepts: releases of one repository.\<close>

definition release_prefix :: string where
  "release_prefix = ''https:github.com/vandungtech/mt92/releases/download/''"

definition safe_tag :: "string \<Rightarrow> bool" where
  "safe_tag tag \<longleftrightarrow>
     name_shape is_repo_punct 62 tag \<and> \<not> occurs ''..'' tag \<and> \<not> suffix ''.lock'' (py_casefold tag)"

lemma authorized_repository_split:
  assumes "name_shape is_dash 37 owner" and "name_shape is_repo_punct 98 repo"
  shows "owner @ ''/'' @ repo = AUTHORIZED_GITHUB_REPOSITORY \<longleftrightarrow>
           owner = ''vandungtech'' \<and> repo = ''mt92''"
proof -
  have "CHR ''/'' \<notin> set owner"
    using assms(1) by (rule no_slash)
  then have "owner @ CHR ''/'' # repo = ''vandungtech'' @ CHR ''/'' # ''mt92'' \<longleftrightarrow>
      owner = ''vandungtech'' \<and> repo = ''mt92''"
    by (intro split_at_first) auto
  then show ?thesis by (simp add: AUTHORIZED_GITHUB_REPOSITORY_def)
qed

lemma check_https_source_Inr:
  "check_https_source rendered = Inr s \<longleftrightarrow>
     s = rendered \<and> (\<exists>tag. rendered = release_prefix @ tag \<and> safe_tag tag)"
proof (cases "github_release_coordinates rendered")
  case None
  have "rendered \<noteq> release_prefix @ tag" if "safe_tag tag" for tag
  proof
    assume "rendered = release_prefix @ tag"
    with that have "github_release_coordinates rendered = Some (''vandungtech'', ''mt92'', tag)"
      unfolding github_release_coordinates_iff
      by (auto simp: release_prefix_def safe_tag_def name_shape_def is_dash_def is_repo_punct_def
          char_class_defs)
    with None show False by simp
  qed
  with None show ?thesis by (auto simp: check_https_source_def)
next
  case (Some ort)
  obtain owner repo tag where ort: "ort = (owner, repo, tag)" by (cases ort)
  with Some have co: "github_release_coordinates rendered = Some (owner, repo, tag)" by simp
  note R = co [unfolded github_release_coordinates_iff]
  have repo: "owner @ ''/'' @ repo = AUTHORIZED_GITHUB_REPOSITORY \<longleftrightarrow>
      owner = ''vandungtech'' \<and> repo = ''mt92''"
    using R by (intro authorized_repository_split) auto
  have uniq: "tag' = tag \<and> owner = ''vandungtech'' \<and> repo = ''mt92''"
    if "rendered = release_prefix @ tag'" "safe_tag tag'" for tag'
  proof -
    from that have "github_release_coordinates rendered = Some (''vandungtech'', ''mt92'', tag')"
      unfolding github_release_coordinates_iff
      by (auto simp: release_prefix_def safe_tag_def name_shape_def is_dash_def is_repo_punct_def
          char_class_defs)
    with co show ?thesis by simp
  qed
  have good: "\<not> occurs ''--'' ''vandungtech''" "\<not> suffix ''.git'' (py_casefold ''mt92'')"
    by (simp_all add: occurs_def py_casefold_def suffix_def lower_char_def char_class_defs)
  show ?thesis
  proof (cases "owner = ''vandungtech'' \<and> repo = ''mt92''")
    case False
    with co repo uniq show ?thesis by (auto simp: check_https_source_def require_Inr_iff)
  next
    case True
    with R have form: "rendered = release_prefix @ tag" "name_shape is_repo_punct 62 tag"
      by (simp_all add: release_prefix_def)
    have "check_https_source rendered = Inr s \<longleftrightarrow> s = rendered \<and> safe_tag tag"
      using co True repo good form(2)
      by (auto simp: check_https_source_def require_Inr_iff safe_tag_def)
    with form(1) show ?thesis by auto
  qed
qed


section \<open>Round isolation\<close>

fun piece_text :: "string \<Rightarrow> string \<Rightarrow> string \<Rightarrow> fmt_piece \<Rightarrow> string" where
  "piece_text r u h (FLit c) = [c]"
| "piece_text r u h (FField n s v) = (if n = ''round'' then r else if n = ''uid'' then u else h)"

lemma render_plain:
  "list_all plain_field ps \<Longrightarrow> render_pieces r u h ps = Some (concat (map (piece_text r u h) ps))"
proof (induction ps)
  case (Cons p ps)
  then show ?case by (cases p) (auto simp: plain_field_def)
qed simp

lemma template_fields_Cons:
  "template_fields (p # ps) = (case p of FLit c \<Rightarrow> [] | FField n s v \<Rightarrow> [n]) @ template_fields ps"
  by (simp add: template_fields_def)

lemma rendered_shorter:
  assumes "length r < length r'"
  shows "length (concat (map (piece_text r u h) ps)) \<le> length (concat (map (piece_text r' u h) ps)) \<and>
    (''round'' \<in> set (template_fields ps) \<longrightarrow>
      length (concat (map (piece_text r u h) ps)) < length (concat (map (piece_text r' u h) ps)))"
proof (induction ps)
  case (Cons p ps)
  with assms show ?case by (cases p) (auto simp: template_fields_Cons)
qed (simp add: template_fields_def)

lemma rendered_same_length:
  assumes "length r = length r'"
  shows "concat (map (piece_text r u h) ps) = concat (map (piece_text r' u h) ps) \<Longrightarrow>
     ''round'' \<in> set (template_fields ps) \<Longrightarrow> r = r'"
proof (induction ps)
  case (Cons p ps)
  have "length (piece_text r u h p) = length (piece_text r' u h p)"
    using assms by (cases p) auto
  with Cons.prems(1) have eq: "piece_text r u h p = piece_text r' u h p"
      "concat (map (piece_text r u h) ps) = concat (map (piece_text r' u h) ps)"
    by (auto simp: append_eq_append_conv)
  show ?case
  proof (cases "''round'' \<in> set (template_fields ps)")
    case True
    with eq(2) show ?thesis by (rule Cons.IH)
  next
    case False
    with Cons.prems(2) eq(1) show ?thesis
      by (cases p) (auto simp: template_fields_Cons)
  qed
qed (simp add: template_fields_def)

lemma rendered_inj:
  assumes "concat (map (piece_text r u h) ps) = concat (map (piece_text r' u h) ps)"
    and "''round'' \<in> set (template_fields ps)"
  shows "r = r'"
  using assms rendered_shorter [of r r' u h ps] rendered_shorter [of r' r u h ps]
    rendered_same_length [of r r' u h ps]
  by (metis less_irrefl linorder_neqE_nat)

lemma validate_template_Inr:
  "validate_template t = Inr () \<longleftrightarrow>
     (\<exists>ps. fmt_parse t = Some ps \<and> list_all plain_field ps \<and> ''round'' \<in> set (template_fields ps))"
  by (auto simp: validate_template_def require_Inr_iff split: option.splits)

lemma format_validated:
  "fmt_parse t = Some ps \<Longrightarrow> list_all plain_field ps \<Longrightarrow>
     format_template t r u h = Inr (concat (map (piece_text (text_of_int r) (text_of_int u) h) ps))"
  by (simp add: format_template_def render_plain)

lemma source_for_Inr:
  "source_for c r h = Inr s \<longleftrightarrow>
     0 \<le> r \<and> format_template (c_source_template c) r (c_expected_uid c) h = Inr s \<and>
     \<not> list_ex source_delimiter s \<and> fst (snd (partition_at CHR '':'' s)) \<and>
     (if prefix ''https:'' s then \<exists>tag. s = release_prefix @ tag \<and> safe_tag tag
      else fst (partition_at CHR '':'' s) \<in> {''s3'', ''r2''} \<and>
           check_object_source s (snd (snd (partition_at CHR '':'' s))) = Inr s)"
proof -
  have scheme: "prefix ''https:'' x \<longleftrightarrow>
      fst (partition_at CHR '':'' x) = ''https'' \<and> fst (snd (partition_at CHR '':'' x))" for x
  proof
    assume "prefix ''https:'' x"
    then show "fst (partition_at CHR '':'' x) = ''https'' \<and> fst (snd (partition_at CHR '':'' x))"
      by (auto simp: prefix_def split: prod.splits)
  next
    have part: "fst (snd (partition_at sep y)) \<Longrightarrow>
        y = fst (partition_at sep y) @ sep # snd (snd (partition_at sep y))" for sep y
      by (induction sep y rule: partition_at.induct) (auto split: if_splits prod.splits)
    assume "fst (partition_at CHR '':'' x) = ''https'' \<and> fst (snd (partition_at CHR '':'' x))"
    with part [of "CHR '':''" x] show "prefix ''https:'' x" by (auto simp: prefix_def)
  qed
  have obj: "check_object_source x l = Inr s \<Longrightarrow> s = x" for x l
    by (auto simp: check_object_source_def require_Inr_iff split: prod.splits)
  show ?thesis
  proof (cases "format_template (c_source_template c) r (c_expected_uid c) h")
    case (Inl e)
    then show ?thesis by (simp add: source_for_def require_Inr_iff)
  next
    case (Inr x)
    obtain sc sp lo where p: "partition_at CHR '':'' x = (sc, sp, lo)"
      by (cases "partition_at CHR '':'' x")
    have x: "prefix ''https:'' x \<longleftrightarrow> sc = ''https'' \<and> sp" using scheme [of x] p by simp
    show ?thesis
    proof (cases "s = x")
      case True
      with Inr p x show ?thesis
        by (auto simp: source_for_def require_Inr_iff check_https_source_Inr)
    next
      case False
      with Inr p show ?thesis
        by (auto simp: source_for_def require_Inr_iff check_https_source_Inr dest: obj
            split: if_splits)
    qed
  qed
qed

text \<open>C25: A validated source template isolates the rounds: for one hotkey, two different
  rounds never render to the same source, so a manifest uploaded for one round cannot land
  in the namespace of another.\<close>

theorem source_for_isolates_rounds:
  assumes "validate_template (c_source_template c) = Inr ()"
    and "source_for c r h = Inr s" and "r \<noteq> r'"
  shows "source_for c r' h \<noteq> Inr s"
proof
  assume other: "source_for c r' h = Inr s"
  obtain ps where ps: "fmt_parse (c_source_template c) = Some ps" "list_all plain_field ps"
    "''round'' \<in> set (template_fields ps)"
    using assms(1) by (auto simp: validate_template_Inr)
  note first = assms(2) [unfolded source_for_Inr] and second = other [unfolded source_for_Inr]
  let ?u = "text_of_int (c_expected_uid c)"
  have "s = concat (map (piece_text (text_of_int r) ?u h) ps)"
    using first format_validated [OF ps(1,2), of r "c_expected_uid c" h] by (metis sum.inject(2))
  moreover have "s = concat (map (piece_text (text_of_int r') ?u h) ps)"
    using second format_validated [OF ps(1,2), of r' "c_expected_uid c" h] by (metis sum.inject(2))
  ultimately have "text_of_int r = text_of_int r'"
    by (metis rendered_inj ps(3))
  moreover have "0 \<le> r" "0 \<le> r'" using first second by blast+
  ultimately show False using assms(3) by simp
qed

text \<open>The sources \<^verbatim>\<open>source_for\<close> lets through for the scheme of live operation: with an
  \<open>https\<close> source the result is a release of the one authorized repository with a tag that
  is a plain name without \<open>..\<close> and not ending in \<open>.lock\<close>, and nothing else is accepted.\<close>

theorem source_for_https_iff:
  "source_for c r h = Inr s \<and> prefix ''https:'' s \<longleftrightarrow>
     0 \<le> r \<and> format_template (c_source_template c) r (c_expected_uid c) h = Inr s \<and>
     (\<exists>tag. s = ''https:github.com/vandungtech/mt92/releases/download/'' @ tag \<and>
            name_shape is_repo_punct 62 tag \<and> \<not> occurs ''..'' tag \<and>
            \<not> suffix ''.lock'' (py_casefold tag))"
proof -
  have ok: "\<not> list_ex source_delimiter (release_prefix @ tag)" if "safe_tag tag" for tag
  proof -
    have "\<not> source_delimiter c" if "is_alnum c \<or> is_repo_punct c" for c
      using that by (auto simp: source_delimiter_def is_repo_punct_def char_class_defs)
    moreover have "list_all (\<lambda>c. is_alnum c \<or> is_repo_punct c) tag"
      using that by (simp add: safe_tag_def name_shape_def)
    moreover have "\<not> list_ex source_delimiter release_prefix"
      by (simp add: release_prefix_def source_delimiter_def char_class_defs)
    ultimately show ?thesis by (auto simp: list_ex_iff list_all_iff)
  qed
  have "prefix ''https:'' (release_prefix @ tag) \<and>
      fst (snd (partition_at CHR '':'' (release_prefix @ tag)))" for tag
    by (auto simp: release_prefix_def split: prod.splits)
  with ok show ?thesis
    unfolding source_for_Inr
    by (auto simp: safe_tag_def release_prefix_def [symmetric])
qed


section \<open>The deployment policy\<close>

text \<open>
  What \<open>_validate\<close> is for, stated once: the identity of the deployment, one of two artifact
  profiles, and what live operation adds to a dry run.
\<close>

definition template_scheme :: "controller_config \<Rightarrow> string" where
  "template_scheme c = fst (partition_at CHR '':'' (c_source_template c))"

definition deployment_identity :: "controller_config \<Rightarrow> bool" where
  "deployment_identity c \<longleftrightarrow>
     c_netuid c = 92 \<and> c_expected_uid c = 32 \<and> c_wallet_name c = ''you-cold'' \<and>
     c_wallet_hotkey c = ''you-hot1'' \<and> prefix ''https://'' (c_coordinator_url c) \<and>
     c_require_anchored_coordinator c \<and> isl (source_for c 0 ''5ConfigProbe'') = False"

definition artifact_profile :: "controller_config \<Rightarrow> bool" where
  "artifact_profile c \<longleftrightarrow>
     (if uses_signed_v030 c then
        c_track c = ''code'' \<and> c_hardware_class c = ''mt-3g'' \<and> c_artifact_format c = ''gguf'' \<and>
        suffix ''.gguf'' (c_entrypoint c) \<and> c_quantization c \<noteq> [] \<and> c_tokenizer c \<noteq> [] \<and>
        c_base_model c \<noteq> [] \<and> 1 \<le> c_max_input_tokens c \<and>
        \<not> c_allow_unverified_upstream c \<and> \<not> c_allow_chain_schedule_fallback c
      else
        c_track c = ''extract'' \<and> c_hardware_class c = ''mt-3g'' \<and> observed_load c = expected_load)"

definition live_policy :: "controller_config \<Rightarrow> bool" where
  "live_policy c \<longleftrightarrow>
     c_network c = ''finney'' \<and> c_endpoint c = [] \<and>
     c_transaction_authorization c = TRANSACTION_AUTHORIZATION \<and>
     template_scheme c = ''https'' \<and> c_github_token_file c \<noteq> None \<and>
     \<not> c_allow_unverified_upstream c \<and> \<not> c_allow_chain_schedule_fallback c \<and>
     (uses_signed_v030 c \<longrightarrow> c_coordinator_url c = SIGNED_V030_COORDINATOR_URL)"

definition dry_run_policy :: "controller_config \<Rightarrow> bool" where
  "dry_run_policy c \<longleftrightarrow>
     (c_network c = ''finney'' \<or> c_endpoint c \<noteq> []) \<and>
     c_transaction_authorization c \<in> {[], TRANSACTION_AUTHORIZATION} \<and>
     template_scheme c \<in> {''s3'', ''r2'', ''https''} \<and>
     (template_scheme c = ''https'' \<or> c_github_token_file c = None)"

lemma validate_profile_Inr:
  "validate_profile c = Inr () \<longleftrightarrow>
     artifact_profile c \<and>
     (uses_signed_v030 c \<and> \<not> c_dry_run c \<longrightarrow> c_coordinator_url c = SIGNED_V030_COORDINATOR_URL)"
  by (auto simp: validate_profile_def artifact_profile_def require_Inr_iff
      SIGNED_V030_TRACK_def SIGNED_V030_HARDWARE_CLASS_def)

lemma rbind_unit_Inr: "rbind r (\<lambda>_. k) = Inr y \<longleftrightarrow> \<not> isl r \<and> k = Inr y"
  by (cases r) auto

lemma not_isl_unit: "\<not> isl (r :: unit res) \<longleftrightarrow> r = Inr ()"
  by (cases r) auto

text \<open>\<^verbatim>\<open>ControllerConfig._validate\<close> accepts exactly the configurations of the deployment
  policy: the pinned identity (netuid 92, UID 32, the two wallet names, an anchored HTTPS
  coordinator, a renderable source), one of the two artifact profiles, and, unless the run
  is dry, the live policy: finney without custom endpoint, the exact zero-cost
  authorization, an immutable GitHub source with a token file, and no unverified upstream,
  no chain-schedule fallback and no other coordinator for the signed profile.\<close>

theorem validate_config_iff:
  "validate_config c = Inr () \<longleftrightarrow>
     deployment_identity c \<and> artifact_profile c \<and>
     (if c_dry_run c then dry_run_policy c else live_policy c)"
proof -
  have "validate_config c = Inr () \<longleftrightarrow>
      c_netuid c = 92 \<and> \<not> (\<not> c_dry_run c \<and> c_network c \<noteq> ''finney'') \<and>
      \<not> (\<not> c_dry_run c \<and> c_endpoint c \<noteq> []) \<and> \<not> (c_network c \<noteq> ''finney'' \<and> c_endpoint c = []) \<and>
      c_wallet_name c = ''you-cold'' \<and> c_wallet_hotkey c = ''you-hot1'' \<and> c_expected_uid c = 32 \<and>
      validate_profile c = Inr () \<and> prefix ''https://'' (c_coordinator_url c) \<and>
      template_scheme c \<in> {''s3'', ''r2'', ''https''} \<and> \<not> isl (source_for c 0 ''5ConfigProbe'') \<and>
      c_transaction_authorization c \<in> {[], TRANSACTION_AUTHORIZATION} \<and>
      \<not> (\<not> c_dry_run c \<and> c_transaction_authorization c \<noteq> TRANSACTION_AUTHORIZATION) \<and>
      \<not> (template_scheme c = ''https'' \<and> c_github_token_file c = None \<and> \<not> c_dry_run c) \<and>
      \<not> (template_scheme c \<noteq> ''https'' \<and> c_github_token_file c \<noteq> None) \<and>
      \<not> (c_allow_unverified_upstream c \<and> \<not> c_dry_run c) \<and>
      \<not> (\<not> c_dry_run c \<and> template_scheme c \<noteq> ''https'') \<and> c_require_anchored_coordinator c \<and>
      \<not> (c_allow_chain_schedule_fallback c \<and> \<not> c_dry_run c)"
    unfolding validate_config_def Let_def template_scheme_def [symmetric]
    by (simp only: require_Inr_iff rbind_unit_Inr not_isl_unit simp_thms)
  then show ?thesis
    unfolding validate_profile_Inr deployment_identity_def live_policy_def dry_run_policy_def
    by (cases "c_dry_run c") (simp_all, argo+)
qed

section \<open>Errors of the configuration\<close>

abbreviation config_errors :: "'a res \<Rightarrow> bool" where
  "config_errors \<equiv> raises_only {ConfigError}"

lemma env_errors [raises_intros]:
  "config_errors (reject_forbidden ns env)"
  "config_errors (check_bounds k lo hi v)"
  "config_errors (env_text env k d req)"
  "config_errors (env_integer env k i lo hi)"
  "config_errors (env_optional_integer env k lo)"
  "config_errors (env_boolean env k b)"
proof -
  show bounds: "config_errors (check_bounds k lo hi v)" for lo hi v
    unfolding check_bounds_def by (intro raises_intros) simp_all
  show plain: "config_errors (env_text env k d req)" for d req
    unfolding env_text_def by (intro raises_intros) simp
  show "config_errors (reject_forbidden ns env)"
    by (induction ns) (auto intro!: raises_intros)
  show "config_errors (env_integer env k i lo hi)"
    unfolding env_integer_def by (intro raises_intros bounds) simp
  show "config_errors (env_optional_integer env k lo)"
    unfolding env_optional_integer_def by (intro raises_intros bounds) simp
  show "config_errors (env_boolean env k b)"
    unfolding env_boolean_def by (intro raises_intros) simp
qed

lemma validate_template_errors [raises_intros]: "config_errors (validate_template t)"
  unfolding validate_template_def by (intro raises_intros) simp_all

lemma format_template_errors:
  "validate_template t = Inr () \<Longrightarrow> config_errors (format_template t r u h)"
  by (auto simp: validate_template_Inr format_validated)

lemma source_for_errors:
  "validate_template (c_source_template c) = Inr () \<Longrightarrow> config_errors (source_for c r h)"
  unfolding source_for_def check_https_source_def check_object_source_def
  by (intro raises_intros format_template_errors) simp_all

lemma validate_config_errors:
  "validate_template (c_source_template c) = Inr () \<Longrightarrow> config_errors (validate_config c)"
  unfolding validate_config_def validate_profile_def
  by (intro raises_intros source_for_errors) simp_all

text \<open>\<open>path_or_config mk_path r\<close>: \<open>r\<close> raises a \<open>ConfigError\<close> or what \<open>mk_path\<close> raised.\<close>

definition path_or_config :: "(string \<Rightarrow> string res) \<Rightarrow> 'a res \<Rightarrow> bool" where
  "path_or_config mk_path r \<longleftrightarrow>
     (\<forall>e. r = Inl e \<longrightarrow> exc_cls e = ConfigError \<or> (\<exists>raw. mk_path raw = Inl e))"

lemma path_or_config_errors: "config_errors r \<Longrightarrow> path_or_config mk_path r"
  by (simp add: path_or_config_def raises_only_def)

lemma path_or_config_rbind:
  "path_or_config mk_path m \<Longrightarrow> (\<And>x. m = Inr x \<Longrightarrow> path_or_config mk_path (k x)) \<Longrightarrow>
     path_or_config mk_path (rbind m k)"
  by (auto simp: path_or_config_def rbind_Inl_iff)

lemma path_or_config_map: "path_or_config mk_path m \<Longrightarrow> path_or_config mk_path (map_sum id f m)"
  by (cases m) (simp_all add: path_or_config_def)

lemma map_sum_Inl: "map_sum id f m = Inl e \<longleftrightarrow> m = Inl e"
  by (cases m) simp_all

lemma path_or_config_paths:
  "path_or_config mk_path (env_path mk_path env k d req)"
  "path_or_config mk_path (env_optional_path mk_path env k)"
  using env_errors(3) [of env k]
  by (auto simp: path_or_config_def raises_only_def env_path_def env_optional_path_def rbind_Inl_iff
      map_sum_Inl split: if_splits)

lemmas path_or_config_intros =
  path_or_config_rbind path_or_config_paths path_or_config_map env_errors [THEN path_or_config_errors]

lemma path_or_config_Inr: "path_or_config mk_path (Inr x)"
  by (simp add: path_or_config_def)

lemma read_fields_errors: "path_or_config mk_path (read_fields mk_path env act home st art tmpl)"
  unfolding read_fields_def Let_def by (intro path_or_config_intros path_or_config_Inr)

lemma read_fields_template:
  "read_fields mk_path env act home st art tmpl = Inr c \<Longrightarrow> c_source_template c = tmpl"
  unfolding read_fields_def Let_def rbind_Inr_iff by auto

lemma from_env_errors: "path_or_config mk_path (from_env mk_path env)"
  unfolding from_env_def
  by (intro path_or_config_intros read_fields_errors path_or_config_Inr
      path_or_config_errors [OF validate_template_errors] path_or_config_errors [OF validate_config_errors])
    (auto dest: read_fields_template)

text \<open>C24: \<^verbatim>\<open>ControllerConfig.from_env\<close> over all environments: it raises \<open>ConfigError\<close>, or an
  exception that expanding one of the path settings raised, or returns a configuration of the
  deployment policy whose source template isolates rounds, and it never returns while a forbidden
  variable (\<open>MT_RESULT_WORKER\<close>) has a non-blank value.\<close>

theorem from_env_sound:
  "case from_env mk_path env of
     Inl e \<Rightarrow> exc_cls e = ConfigError \<or> (\<exists>raw. mk_path raw = Inl e)
   | Inr c \<Rightarrow> deployment_identity c \<and> artifact_profile c \<and>
              (if c_dry_run c then dry_run_policy c else live_policy c) \<and>
              validate_template (c_source_template c) = Inr () \<and>
              strip (env_get env ''MT_RESULT_WORKER'' []) = []"
proof (cases "from_env mk_path env")
  case (Inl e)
  with from_env_errors [of mk_path env] show ?thesis by (simp add: path_or_config_def)
next
  case (Inr c)
  then obtain act home st art tmpl
    where "reject_forbidden FORBIDDEN_ENVIRONMENT_VARIABLES env = Inr ()"
      and "validate_template tmpl = Inr ()"
      and "read_fields mk_path env act home st art tmpl = Inr c"
      and "validate_config c = Inr ()"
    unfolding from_env_def rbind_Inr_iff by auto
  with Inr show ?thesis
    by (auto simp: validate_config_iff env_get_def FORBIDDEN_ENVIRONMENT_VARIABLES_def
        dest: read_fields_template split: option.splits if_splits)
qed


section \<open>A concrete live configuration\<close>

definition example_template :: string where
  "example_template = ''https:github.com/vandungtech/mt92/releases/download/r{round}''"

definition example_config :: controller_config where
  "example_config =
     \<lparr>c_netuid = 92, c_network = ''finney'', c_endpoint = [], c_wallet_name = ''you-cold'',
      c_wallet_hotkey = ''you-hot1'', c_wallet_path = ''/w'', c_expected_uid = 32,
      c_upstream_home = ''/u'', c_state_dir = ''/s'',
      c_upstream_observer_status_path = ''/o/status.json'',
      c_upstream_observer_max_age_seconds = 900, c_artifact_dir = ''/a'',
      c_artifact_competition_binding_path = ''/b'', c_selfcheck_path = ''/u/selfcheck.json'',
      c_selfcheck_binding_path = ''/u/selfcheck.binding.json'',
      c_v030_activation_block = Some 100, c_track = ''code'', c_hardware_class = ''mt-3g'',
      c_source_template = example_template, c_github_token_file = Some ''/t'',
      c_entrypoint = ''model.gguf'', c_artifact_format = ''gguf'', c_quantization = ''Q4_K_M'',
      c_max_input_tokens = 512, c_tokenizer = ''tokenizer.json'',
      c_base_model = EXPECTED_BASE_MODEL, c_coordinator_url = SIGNED_V030_COORDINATOR_URL,
      c_allow_chain_schedule_fallback = False, c_require_anchored_coordinator = True,
      c_dry_run = False, c_transaction_authorization = TRANSACTION_AUTHORIZATION,
      c_allow_unverified_upstream = False, c_poll_seconds = 30, c_retry_seconds = 30,
      c_deadline_margin_blocks = 40, c_verify_attempts = 5, c_verify_interval_seconds = 900,
      c_health_max_age_seconds = 180, c_coordinator_timeout_seconds = 10, c_log_level = ''INFO'',
      c_round_blocks = 21600, c_genesis_block = 0\<rparr>"

lemma example_template_ok: "validate_template example_template = Inr ()"
  by code_simp

lemma example_source:
  "source_for example_config 7 ''5Hotkey'' = Inr (release_prefix @ ''r7'')"
proof -
  have "format_template example_template 7 32 ''5Hotkey'' = Inr (release_prefix @ ''r7'')"
    by code_simp
  moreover have "safe_tag ''r7''" by code_simp
  moreover have "\<not> list_ex source_delimiter (release_prefix @ ''r7'')" by code_simp
  moreover have "fst (snd (partition_at CHR '':'' (release_prefix @ ''r7'')))" by code_simp
  moreover have "prefix ''https:'' (release_prefix @ ''r7'')" by code_simp
  ultimately show ?thesis
    unfolding source_for_Inr by (auto simp: example_config_def)
qed

theorem source_for_isolates_rounds_witness:
  "source_for example_config 8 ''5Hotkey'' \<noteq> Inr (release_prefix @ ''r7'')"
proof (rule source_for_isolates_rounds [OF _ example_source])
  show "validate_template (c_source_template example_config) = Inr ()"
    by (simp add: example_config_def example_template_ok)
  show "(7::int) \<noteq> 8" by simp
qed

text \<open>The example satisfies the policy, so the policy is not empty.\<close>

lemma example_config_live: "live_policy example_config \<and> artifact_profile example_config"
proof -
  have "template_scheme example_config = ''https''"
    by (simp add: template_scheme_def example_config_def example_template_def)
  moreover have "suffix ''.gguf'' ''model.gguf''" by code_simp
  ultimately show ?thesis
    by (simp add: live_policy_def artifact_profile_def uses_signed_v030_def example_config_def
        EXPECTED_BASE_MODEL_def)
qed

end
