(* ===== verification/Binding.thy ===== *)
theory Binding
  imports Config ProtectedFile PyJson
begin

text \<open>
  \<^verbatim>\<open>binding.py\<close>: the digest of an artifact tree and the self-check binding that pins the
  tree, the self-check file and the load specification. A tree is the listing
  \<open>root.rglob\<close> produces, in any order, with the content the reads return (\<open>None\<close>: the
  file cannot be read).
\<close>

record tree_entry =
  t_parts :: "string list"
  t_is_file :: bool
  t_content :: "string option"

type_synonym tree = "tree_entry list"

definition posix :: "tree_entry \<Rightarrow> string" where
  "posix f = join_on CHR ''/'' (t_parts f)"

text \<open>\<open>_digest_file\<close>; hashing in chunks is hashing the concatenation.\<close>

definition digest_file :: "stdlib \<Rightarrow> string option \<Rightarrow> string res" where
  "digest_file lib content = rbind (syscall content) (\<lambda>c. Inr (''sha256:'' @ sha256_hex lib c))"

definition artifact_files :: "tree \<Rightarrow> tree" where
  "artifact_files listing =
     sort_key posix
       (filter (\<lambda>f. t_is_file f \<and> t_parts f \<noteq> [''manifest.json''] \<and> t_parts f \<noteq> [''artifact.enc''] \<and>
                 \<not> list_ex (prefix ''.'') (t_parts f)) listing)"

text \<open>The bytes fed to the digest and the total size, in the order of the loop.\<close>

fun digest_stream :: "stdlib \<Rightarrow> tree \<Rightarrow> (string \<times> int) res" where
  "digest_stream lib [] = Inr ([], 0)"
| "digest_stream lib (f # fs) =
     rbind (digest_file lib (t_content f)) (\<lambda>file_digest.
     rbind (digest_stream lib fs) (\<lambda>(rest, total).
     Inr (utf8_encode (nfc lib (posix f)) @ CHR 0x00 # file_digest @ CHR 0x00 # rest,
          int (length (the (t_content f))) + total)))"

definition artifact_digest :: "stdlib \<Rightarrow> tree \<Rightarrow> (string \<times> int \<times> int) res" where
  "artifact_digest lib listing =
     (let files = artifact_files listing in
      require (files \<noteq> [])
        (Exc PreflightError ''artifact directory holds no publishable files'') (
      rbind (digest_stream lib files) (\<lambda>(stream, total).
      Inr (''sha256:'' @ sha256_hex lib stream, int (length files), total))))"

definition load_spec :: "controller_config \<Rightarrow> dict" where
  "load_spec config =
     [(''format'', JStr (c_artifact_format config)), (''quantization'', JStr (c_quantization config)),
      (''entrypoint'', JStr (c_entrypoint config)),
      (''max_input'', JObj [(''tokens'', JInt (c_max_input_tokens config))]),
      (''preprocessing'', JObj [(''tokenizer'', JStr (c_tokenizer config))]),
      (''base_model'', JStr (c_base_model config))]"

text \<open>The load specification holds texts and integers only, so the serialiser succeeds.\<close>

definition spec_hash :: "stdlib \<Rightarrow> dict \<Rightarrow> string" where
  "spec_hash lib payload =
     ''sha256:'' @ sha256_hex lib
       (utf8_encode (case dumps_with quote_unicode lib (JObj payload) of None \<Rightarrow> [] | Some t \<Rightarrow> t))"

definition expected_binding ::
    "stdlib \<Rightarrow> controller_config \<Rightarrow> tree \<Rightarrow> string option \<Rightarrow> dict res" where
  "expected_binding lib config listing selfcheck =
     rbind (artifact_digest lib listing) (\<lambda>(artifact, count, total).
     rbind (case digest_file lib selfcheck of
              Inl e \<Rightarrow> fail PreflightError ''selfcheck is unreadable''
            | Inr d \<Rightarrow> Inr d) (\<lambda>selfcheck_digest.
     Inr [(''schema_version'', JInt 1), (''artifact_digest'', JStr artifact),
          (''artifact_file_count'', JInt count), (''artifact_total_bytes'', JInt total),
          (''load_spec'', JObj (load_spec config)),
          (''load_spec_hash'', JStr (spec_hash lib (load_spec config))),
          (''selfcheck_sha256'', JStr selfcheck_digest)]))"

definition private_regular_file :: "stat_result option \<Rightarrow> int \<Rightarrow> string \<Rightarrow> unit res" where
  "private_regular_file observed euid label =
     (case observed of
        None \<Rightarrow> fail PreflightError (label @ '' is unavailable'')
      | Some m \<Rightarrow>
          require (\<not> (s_islnk (st_mode m) \<or> \<not> s_isreg (st_mode m)))
            (Exc PreflightError (label @ '' must be a regular non-symlink'')) (
          require (s_imode (st_mode m) = mode_0600)
            (Exc PreflightError (label @ '' must have mode 0600'')) (
          require (st_uid m = euid)
            (Exc PreflightError (label @ '' must be owned by effective UID '' @ text_of_int euid))
          (Inr ()))))"

text \<open>
  \<open>validate_binding\<close>: \<open>observed\<close> is the metadata of the binding file, \<open>bytes\<close> its content;
  \<open>decode\<close> is UTF-8 decoding, \<open>parse\<close> the JSON lexer. A parse failure, a decoding failure
  and a read failure give the same refusal.
\<close>

definition validate_binding ::
    "stdlib \<Rightarrow> (string \<Rightarrow> string option) \<Rightarrow> (string \<Rightarrow> raw option) \<Rightarrow> controller_config \<Rightarrow> int \<Rightarrow>
     stat_result option \<Rightarrow> string option \<Rightarrow> tree \<Rightarrow> string option \<Rightarrow> dict res" where
  "validate_binding lib decode parse config euid metadata bytes listing selfcheck =
     rbind (private_regular_file metadata euid ''selfcheck binding'') (\<lambda>_.
     case Option.bind (Option.bind bytes decode) parse of
       None \<Rightarrow> fail PreflightError ''selfcheck binding is invalid''
     | Some r \<Rightarrow>
         (case as_obj (lax_value r) of
            None \<Rightarrow> fail PreflightError ''selfcheck binding must be a JSON object''
          | Some observed \<Rightarrow>
              rbind (expected_binding lib config listing selfcheck) (\<lambda>expected.
              require (py_eq (JObj observed) (JObj expected))
                (Exc PreflightError ''selfcheck binding does not match the exact artifact, selfcheck, and GGUF load spec; rerun the pinned selfcheck and bind-selfcheck'')
              (Inr expected))))"

text \<open>
  \<open>write_binding\<close>: the payload and the metadata of the file that atomically replaces the
  destination (owned by the effective user, mode 0600).
\<close>

definition write_binding ::
    "stdlib \<Rightarrow> controller_config \<Rightarrow> int \<Rightarrow> stat_result \<Rightarrow> tree \<Rightarrow> string option \<Rightarrow>
     (dict \<times> stat_result) res" where
  "write_binding lib config euid temporary listing selfcheck =
     rbind (expected_binding lib config listing selfcheck) (\<lambda>payload.
     Inr (payload, temporary\<lparr>st_mode := 8 * 4096 + mode_0600, st_uid := euid\<rparr>))"

section \<open>The digest determines the tree\<close>

text \<open>What a reader of the published tree sees, and every text the digest hashes.\<close>

definition published :: "stdlib \<Rightarrow> tree \<Rightarrow> (string \<times> string option) list" where
  "published lib listing = map (\<lambda>f. (nfc lib (posix f), t_content f)) (artifact_files listing)"

definition hashed_inputs :: "stdlib \<Rightarrow> tree \<Rightarrow> string list" where
  "hashed_inputs lib listing =
     map (\<lambda>f. the (t_content f)) (artifact_files listing) @
     (case digest_stream lib (artifact_files listing) of Inl e \<Rightarrow> [] | Inr (stream, _) \<Rightarrow> [stream])"

definition nul_free :: "string \<Rightarrow> bool" where
  "nul_free s \<longleftrightarrow> CHR 0x00 \<notin> set s"

lemma of_char_of_less: "n < 256 \<Longrightarrow> of_char (char_of n :: char) = (n :: nat)"
  by (simp add: of_char_of)

lemma code_bound: "code c < 256"
  unfolding code_def by simp

lemma code_inj [simp]: "code c = code d \<longleftrightarrow> c = d"
  by (simp add: code_def)

lemma code_char_of: "n < 256 \<Longrightarrow> code (char_of n) = n"
  by (simp add: code_def of_char_of_less)

lemma utf8_two_bytes:
  assumes "code c \<ge> 128" and "code d \<ge> 128"
    and "(char_of (192 + code c div 64) :: char) = char_of (192 + code d div 64)"
    and "(char_of (128 + code c mod 64) :: char) = char_of (128 + code d mod 64)"
  shows "c = d"
proof -
  have "192 + code x div 64 < 256" "128 + code x mod 64 < 256" for x
    using code_bound [of x] by auto
  with arg_cong [OF assms(3), of code] arg_cong [OF assms(4), of code]
  have "code c div 64 = code d div 64" "code c mod 64 = code d mod 64"
    by (simp_all add: code_char_of)
  then have "code c = code d" by (metis div_mult_mod_eq)
  then show ?thesis by simp
qed

lemma utf8_lead: "code (char_of (192 + code c div 64)) \<ge> 128"
  using code_bound [of c] by (subst code_char_of) auto

lemma utf8_encode_inj: "utf8_encode s = utf8_encode t \<Longrightarrow> s = t"
proof (induction s arbitrary: t)
  case Nil
  then show ?case by (cases t) (auto simp: utf8_encode_def split: if_splits)
next
  case (Cons c s)
  then obtain d t' where t: "t = d # t'" by (cases t) (auto simp: utf8_encode_def split: if_splits)
  have "c = d \<and> utf8_encode s = utf8_encode t'"
    using Cons.prems t utf8_lead [of c] utf8_lead [of d] utf8_two_bytes [of c d]
    by (auto simp: utf8_encode_def split: if_splits)
  with Cons.IH t show ?case by simp
qed

lemma utf8_nul_free: "nul_free s \<Longrightarrow> nul_free (utf8_encode s)"
proof (induction s)
  case (Cons c s)
  have "code (char_of (192 + code c div 64)) \<noteq> 0" "code (char_of (128 + code c mod 64)) \<noteq> 0"
    using code_bound [of c] by (auto simp: code_char_of)
  moreover have "code CHR 0x00 = 0" by (simp add: code_def)
  ultimately have "CHR 0x00 \<noteq> (char_of (192 + code c div 64) :: char)"
    "CHR 0x00 \<noteq> (char_of (128 + code c mod 64) :: char)"
    by metis+
  with Cons show ?case by (auto simp: nul_free_def utf8_encode_def)
qed (simp add: nul_free_def utf8_encode_def)

lemma split_at_nul:
  assumes "nul_free a" and "nul_free b" and "a @ CHR 0x00 # x = b @ CHR 0x00 # y"
  shows "a = b \<and> x = y"
  using assms
proof (induction a arbitrary: b)
  case Nil
  then show ?case by (cases b) (auto simp: nul_free_def)
next
  case (Cons c a)
  then obtain d b' where "b = d # b'" by (cases b) (auto simp: nul_free_def)
  with Cons show ?case by (auto simp: nul_free_def)
qed

lemma digest_file_Inr:
  "digest_file lib content = Inr d \<longleftrightarrow> (\<exists>c. content = Some c \<and> d = ''sha256:'' @ sha256_hex lib c)"
  by (auto simp: digest_file_def rbind_Inr_iff)

text \<open>A library whose digests and normalised names hold no NUL character.\<close>

definition nul_free_lib :: "stdlib \<Rightarrow> tree \<Rightarrow> bool" where
  "nul_free_lib lib fs \<longleftrightarrow>
     (\<forall>f \<in> set fs. nul_free (nfc lib (posix f)) \<and>
        (\<forall>c \<in> set_option (t_content f). nul_free (sha256_hex lib c)))"

lemma digest_stream_inj:
  assumes "digest_stream lib fs = Inr (stream, m)" and "digest_stream lib gs = Inr (stream, n)"
    and "nul_free_lib lib fs" and "nul_free_lib lib gs"
    and "inj_on (sha256_hex lib) (set (map (\<lambda>f. the (t_content f)) (fs @ gs)))"
  shows "map (\<lambda>f. (nfc lib (posix f), t_content f)) fs = map (\<lambda>f. (nfc lib (posix f), t_content f)) gs"
  using assms
proof (induction fs arbitrary: gs stream m n)
  case Nil
  then show ?case by (cases gs) (auto simp: rbind_Inr_iff)
next
  case (Cons f fs)
  then obtain g gs' where gs: "gs = g # gs'" by (cases gs) (auto simp: rbind_Inr_iff)
  from Cons.prems(1) obtain c s1 m1 where c: "t_content f = Some c"
    and s1: "digest_stream lib fs = Inr (s1, m1)"
    and stream1: "stream = utf8_encode (nfc lib (posix f)) @ CHR 0x00 #
      (''sha256:'' @ sha256_hex lib c) @ CHR 0x00 # s1"
    by (auto simp: rbind_Inr_iff digest_file_Inr)
  from Cons.prems(2) gs obtain d s2 m2 where d: "t_content g = Some d"
    and s2: "digest_stream lib gs' = Inr (s2, m2)"
    and stream2: "stream = utf8_encode (nfc lib (posix g)) @ CHR 0x00 #
      (''sha256:'' @ sha256_hex lib d) @ CHR 0x00 # s2"
    by (auto simp: rbind_Inr_iff digest_file_Inr)
  have free: "nul_free (utf8_encode (nfc lib (posix f)))" "nul_free (utf8_encode (nfc lib (posix g)))"
    "nul_free (''sha256:'' @ sha256_hex lib c)" "nul_free (''sha256:'' @ sha256_hex lib d)"
    using Cons.prems(3,4) gs c d
    by (auto simp: nul_free_lib_def utf8_nul_free) (auto simp: nul_free_def)
  have first: "utf8_encode (nfc lib (posix f)) = utf8_encode (nfc lib (posix g)) \<and>
      (''sha256:'' @ sha256_hex lib c) @ CHR 0x00 # s1 = (''sha256:'' @ sha256_hex lib d) @ CHR 0x00 # s2"
    by (rule split_at_nul [OF free(1,2)]) (rule trans [OF stream1 [symmetric] stream2])
  have second: "''sha256:'' @ sha256_hex lib c = ''sha256:'' @ sha256_hex lib d \<and> s1 = s2"
    using split_at_nul [OF free(3,4)] first by auto
  then have "sha256_hex lib c = sha256_hex lib d" by simp
  then have "c = d" by (rule inj_onD [OF Cons.prems(5)]) (simp_all add: gs c d)
  moreover have "nfc lib (posix f) = nfc lib (posix g)" using first utf8_encode_inj by blast
  moreover have "map (\<lambda>f. (nfc lib (posix f), t_content f)) fs =
      map (\<lambda>f. (nfc lib (posix f), t_content f)) gs'"
  proof (rule Cons.IH)
    show "digest_stream lib fs = Inr (s1, m1)" by (rule s1)
    show "digest_stream lib gs' = Inr (s1, m2)" using s2 second by simp
    show "nul_free_lib lib fs" "nul_free_lib lib gs'"
      using Cons.prems(3,4) gs by (auto simp: nul_free_lib_def)
    show "inj_on (sha256_hex lib) (set (map (\<lambda>f. the (t_content f)) (fs @ gs')))"
      by (rule inj_on_subset [OF Cons.prems(5)]) (auto simp: gs)
  qed
  ultimately show ?case using gs c d by simp
qed

lemma artifact_digest_Inr:
  "artifact_digest lib listing = Inr (d, n, bytes) \<longleftrightarrow>
     (\<exists>stream. artifact_files listing \<noteq> [] \<and>
        digest_stream lib (artifact_files listing) = Inr (stream, bytes) \<and>
        d = ''sha256:'' @ sha256_hex lib stream \<and> n = int (length (artifact_files listing)))"
  by (auto simp: artifact_digest_def Let_def res_iffs)

lemma artifact_digest_inj:
  assumes "artifact_digest lib s = Inr (d, m, x)" and "artifact_digest lib t = Inr (d, n, y)"
    and "nul_free_lib lib (artifact_files s)" and "nul_free_lib lib (artifact_files t)"
    and inj: "inj_on (sha256_hex lib) (set (hashed_inputs lib s) \<union> set (hashed_inputs lib t))"
  shows "published lib s = published lib t"
proof -
  from assms(1,2) obtain u v where u: "digest_stream lib (artifact_files s) = Inr (u, x)"
    and v: "digest_stream lib (artifact_files t) = Inr (v, y)"
    and same: "sha256_hex lib u = sha256_hex lib v"
    by (auto simp: artifact_digest_Inr)
  have "u \<in> set (hashed_inputs lib s)" "v \<in> set (hashed_inputs lib t)"
    using u v by (auto simp: hashed_inputs_def)
  then have "u = v" by (intro inj_onD [OF inj same]) simp_all
  moreover have "inj_on (sha256_hex lib)
      (set (map (\<lambda>f. the (t_content f)) (artifact_files s @ artifact_files t)))"
    by (rule inj_on_subset [OF inj]) (auto simp: hashed_inputs_def)
  ultimately show ?thesis
    unfolding published_def using digest_stream_inj [OF u] v assms(3,4) by simp
qed

lemma expected_binding_Inr:
  assumes "expected_binding lib config listing selfcheck = Inr p"
  obtains artifact count sz content where "artifact_digest lib listing = Inr (artifact, count, sz)"
    and "selfcheck = Some content"
    and "p = [(''schema_version'', JInt 1), (''artifact_digest'', JStr artifact),
          (''artifact_file_count'', JInt count), (''artifact_total_bytes'', JInt sz),
          (''load_spec'', JObj (load_spec config)),
          (''load_spec_hash'', JStr (spec_hash lib (load_spec config))),
          (''selfcheck_sha256'', JStr (''sha256:'' @ sha256_hex lib content))]"
  using assms
  by (auto simp: expected_binding_def rbind_Inr_iff digest_file_Inr split: sum.splits)

lemma validate_binding_Inr:
  assumes "validate_binding lib decode parse config euid metadata bytes listing selfcheck = Inr p"
  shows "(\<exists>m. metadata = Some m \<and> s_isreg (st_mode m) \<and> s_imode (st_mode m) = mode_0600 \<and>
           st_uid m = euid) \<and>
    (\<exists>b t r d. bytes = Some b \<and> decode b = Some t \<and> parse t = Some r \<and> lax_value r = JObj d \<and>
       py_eq (JObj d) (JObj p)) \<and>
    expected_binding lib config listing selfcheck = Inr p"
  using assms
  by (auto simp: validate_binding_def private_regular_file_def res_iffs Option.bind_eq_Some_conv
      simp del: py_eq.simps split: option.splits)

lemma load_spec_eq:
  "py_eq (JObj (load_spec c)) (JObj (load_spec d)) \<longleftrightarrow>
     c_artifact_format c = c_artifact_format d \<and> c_quantization c = c_quantization d \<and>
     c_entrypoint c = c_entrypoint d \<and> c_max_input_tokens c = c_max_input_tokens d \<and>
     c_tokenizer c = c_tokenizer d \<and> c_base_model c = c_base_model d"
  by (auto simp: load_spec_def num_eq_def)

lemma py_eq_itemsD:
  assumes "py_eq (JObj d) (JObj e)" and "(k, v) \<in> set d" and "map_of e k = Some w"
  shows "py_eq v w"
proof -
  have "py_eq_items d e" using assms(1) by simp
  then show ?thesis using assms(2,3) by (induction d) auto
qed

section \<open>Properties\<close>

text \<open>
  C26: a self-check binding pins what it was written for. If the file the binding was written
  to still loads as the written payload and a later validation accepts it, then the artifact
  tree publishes the same names and contents in the same order, the self-check file and the
  load specification are the same, and the binding file is a private regular file of the
  effective user. (The digest is assumed injective on the texts hashed for the two trees and
  the two self-check files, and names and digests hold no NUL.)
\<close>

theorem validated_binding_pins_inputs:
  assumes written: "write_binding lib config euid temporary listing selfcheck = Inr (payload, meta)"
    and loads: "decode bytes = Some t" "parse t = Some r" "lax_value r = JObj payload"
    and accepted: "validate_binding lib decode parse config' euid' metadata (Some bytes) listing' selfcheck' = Inr p"
    and "nul_free_lib lib (artifact_files listing)" "nul_free_lib lib (artifact_files listing')"
    and inj: "inj_on (sha256_hex lib)
      (set (hashed_inputs lib listing) \<union> set (hashed_inputs lib listing') \<union>
       set_option selfcheck \<union> set_option selfcheck')"
  shows "published lib listing = published lib listing' \<and> selfcheck = selfcheck' \<and>
    py_eq (JObj (load_spec config)) (JObj (load_spec config')) \<and>
    (\<exists>m. metadata = Some m \<and> s_isreg (st_mode m) \<and> s_imode (st_mode m) = mode_0600 \<and>
       st_uid m = euid')"
proof -
  note v = validate_binding_Inr [OF accepted]
  from written have e: "expected_binding lib config listing selfcheck = Inr payload"
    by (auto simp: write_binding_def rbind_Inr_iff)
  from v have e': "expected_binding lib config' listing' selfcheck' = Inr p" by simp
  from v loads have eq: "py_eq (JObj payload) (JObj p)" by auto
  from e obtain a n s c where 1: "artifact_digest lib listing = Inr (a, n, s)" "selfcheck = Some c"
    "payload = [(''schema_version'', JInt 1), (''artifact_digest'', JStr a),
          (''artifact_file_count'', JInt n), (''artifact_total_bytes'', JInt s),
          (''load_spec'', JObj (load_spec config)),
          (''load_spec_hash'', JStr (spec_hash lib (load_spec config))),
          (''selfcheck_sha256'', JStr (''sha256:'' @ sha256_hex lib c))]"
    by (rule expected_binding_Inr)
  from e' obtain a' n' s' c' where 2: "artifact_digest lib listing' = Inr (a', n', s')" "selfcheck' = Some c'"
    "p = [(''schema_version'', JInt 1), (''artifact_digest'', JStr a'),
          (''artifact_file_count'', JInt n'), (''artifact_total_bytes'', JInt s'),
          (''load_spec'', JObj (load_spec config')),
          (''load_spec_hash'', JStr (spec_hash lib (load_spec config'))),
          (''selfcheck_sha256'', JStr (''sha256:'' @ sha256_hex lib c'))]"
    by (rule expected_binding_Inr)
  have "py_eq (JStr a) (JStr a')"
    by (rule py_eq_itemsD [OF eq, of "''artifact_digest''"]) (simp_all add: 1(3) 2(3))
  then have digests: "a = a'" by simp
  have "py_eq (JStr (''sha256:'' @ sha256_hex lib c)) (JStr (''sha256:'' @ sha256_hex lib c'))"
    by (rule py_eq_itemsD [OF eq, of "''selfcheck_sha256''"]) (simp_all add: 1(3) 2(3))
  then have "sha256_hex lib c = sha256_hex lib c'" by simp
  then have "c = c'" by (rule inj_onD [OF inj]) (simp_all add: 1(2) 2(2))
  moreover have "py_eq (JObj (load_spec config)) (JObj (load_spec config'))"
    by (rule py_eq_itemsD [OF eq, of "''load_spec''"]) (simp_all add: 1(3) 2(3))
  moreover have "published lib listing = published lib listing'"
    by (rule artifact_digest_inj [of lib listing a n s listing' n' s'])
      (use 1 2 assms(6,7) digests in \<open>auto intro: inj_on_subset [OF inj]\<close>)
  ultimately show ?thesis using v 1 2 by simp
qed

definition example_tree :: "string \<Rightarrow> tree" where
  "example_tree weights =
     [\<lparr>t_parts = [''model.gguf''], t_is_file = True, t_content = Some weights\<rparr>,
      \<lparr>t_parts = [''.git'', ''x''], t_is_file = True, t_content = None\<rparr>,
      \<lparr>t_parts = [''manifest.json''], t_is_file = True, t_content = Some ''m''\<rparr>,
      \<lparr>t_parts = [''a''], t_is_file = True, t_content = Some ''x''\<rparr>]"

definition hashing_lib :: stdlib where
  "hashing_lib = example_lib\<lparr>sha256_hex := map (\<lambda>c. if c = CHR 0x00 then CHR ''!'' else c)\<rparr>"

definition example_raw_binding :: "string \<Rightarrow> raw option" where
  "example_raw_binding t =
     (case expected_binding hashing_lib example_config (example_tree ''w'') (Some ''s'') of
        Inl e \<Rightarrow> None
      | Inr p \<Rightarrow> Some (RObj (map (\<lambda>(k, v). (k,
          case v of JInt i \<Rightarrow> RInt i | JStr s \<Rightarrow> RStr s | _ \<Rightarrow>
            RObj [(''format'', RStr ''gguf''), (''quantization'', RStr ''Q4_K_M''),
              (''entrypoint'', RStr ''model.gguf''), (''max_input'', RObj [(''tokens'', RInt 512)]),
              (''preprocessing'', RObj [(''tokenizer'', RStr ''tokenizer.json'')]),
              (''base_model'', RStr EXPECTED_BASE_MODEL)])) p)))"

definition example_stat :: stat_result where
  "example_stat =
     \<lparr>st_dev = 1, st_ino = 2, st_mode = 8 * 4096 + mode_0600, st_uid = 5, st_gid = 5, st_nlink = 1,
      st_size = 9, st_mtime_ns = 0, st_ctime_ns = 0\<rparr>"

theorem validated_binding_pins_inputs_witness:
  "\<exists>p. validate_binding hashing_lib Some example_raw_binding example_config 5 (Some example_stat)
     (Some []) (rev (example_tree ''w'')) (Some ''s'') = Inr p \<and>
     published hashing_lib (example_tree ''w'') = published hashing_lib (rev (example_tree ''w''))"
proof -
  let ?w = "write_binding hashing_lib example_config 5 example_stat (example_tree ''w'') (Some ''s'')"
  let ?v = "validate_binding hashing_lib Some example_raw_binding example_config 5 (Some example_stat)
     (Some []) (rev (example_tree ''w'')) (Some ''s'')"
  have "\<not> isl (artifact_digest hashing_lib (example_tree ''w''))" by code_simp
  then obtain a n s where d: "artifact_digest hashing_lib (example_tree ''w'') = Inr (a, n, s)"
    by (cases "artifact_digest hashing_lib (example_tree ''w'')") auto
  have "artifact_digest hashing_lib (rev (example_tree ''w'')) =
      artifact_digest hashing_lib (example_tree ''w'')" by code_simp
  with d have d': "artifact_digest hashing_lib (rev (example_tree ''w'')) = Inr (a, n, s)" by simp
  note e = expected_binding_def digest_file_def
  obtain payload meta where w: "?w = Inr (payload, meta)"
    by (simp add: write_binding_def e d)
  obtain r where r: "example_raw_binding [] = Some r" "lax_value r = JObj payload"
    using w by (auto simp: write_binding_def example_raw_binding_def e d load_spec_def
        example_config_def dict_update_def)
  have "py_eq (JObj payload) (JObj payload)"
    using w by (auto simp: write_binding_def e d load_spec_def num_eq_def)
  moreover have "expected_binding hashing_lib example_config (rev (example_tree ''w'')) (Some ''s'') = Inr payload"
    using w by (auto simp: write_binding_def e d d')
  moreover have "private_regular_file (Some example_stat) 5 ''selfcheck binding'' = Inr ()"
    by (simp add: private_regular_file_def example_stat_def mode_defs mode_0600_def)
  ultimately have v: "?v = Inr payload"
    using r by (simp add: validate_binding_def del: py_eq.simps)
  have free: "nul_free_lib hashing_lib (artifact_files (example_tree ''w''))"
    "nul_free_lib hashing_lib (artifact_files (rev (example_tree ''w'')))"
    by code_simp+
  have inj: "inj_on (sha256_hex hashing_lib)
      (set (hashed_inputs hashing_lib (example_tree ''w'')) \<union>
       set (hashed_inputs hashing_lib (rev (example_tree ''w''))) \<union> set_option (Some ''s'') \<union>
       set_option (Some ''s''))"
    by code_simp
  show ?thesis
    using validated_binding_pins_inputs [OF w _ r v free inj] v by auto
qed

end
