(* ===== verification/ArtifactCompetition.thy ===== *)
theory ArtifactCompetition
  imports Binding
begin

text \<open>
  \<^verbatim>\<open>artifact_competition.py\<close>: the root-owned file that authorises one artifact digest for
  one competition. It is read through \<^verbatim>\<open>protected_file.py\<close>; its client lemmas come from
  an interpretation of that reader's contract.
\<close>

definition MAX_ARTIFACT_COMPETITION_BINDING_BYTES :: nat where
  "MAX_ARTIFACT_COMPETITION_BINDING_BYTES = 4096"

definition competition_digest_rx :: rx where
  "competition_digest_rx = Cat (Lit ''sha256:'') (Rep is_hex 64 (Some 64))"

definition competition_name_rx :: rx where
  "competition_name_rx =
     Cat (Class is_lower)
       (Rep (\<lambda>c. is_lower c \<or> is_digit c \<or> c = CHR ''-'') 0 (Some 31))"

definition FIELDS :: "string list" where
  "FIELDS = [''schema_version'', ''artifact_digest'', ''track'', ''hardware_class'']"

definition bad_binding :: "string \<Rightarrow> exc" where
  "bad_binding t = Exc ArtifactCompetitionBindingError t"

definition read_private_binding :: "file_session \<Rightarrow> string res" where
  "read_private_binding session =
     (case read_root_service_file session ''artifact competition binding''
             MAX_ARTIFACT_COMPETITION_BINDING_BYTES of
        Inl e \<Rightarrow> if isinstance e ProtectedFileError then Inl (bad_binding (exc_text e)) else Inl e
      | Inr payload \<Rightarrow>
          require (payload \<noteq> []) (bad_binding ''artifact competition binding must not be empty'')
          (Inr payload))"

definition strict_json_object :: "(string \<Rightarrow> raw option) \<Rightarrow> string \<Rightarrow> dict res" where
  "strict_json_object parse raw =
     rbind (load_strict parse raw) (\<lambda>v.
     case as_obj v of None \<Rightarrow> fail ValueError ''JSON value is not an object'' | Some d \<Rightarrow> Inr d)"

definition parse_binding ::
    "(string \<Rightarrow> string option) \<Rightarrow> (string \<Rightarrow> raw option) \<Rightarrow> file_session \<Rightarrow> dict res" where
  "parse_binding decode parse session =
     rbind (read_private_binding session) (\<lambda>encoded.
     case decode encoded of
       None \<Rightarrow> Inl (bad_binding ''artifact competition binding is not strict UTF-8'')
     | Some raw \<Rightarrow>
         (case strict_json_object parse raw of
            Inl e \<Rightarrow> if isinstance e ValueError
                     then Inl (bad_binding ''artifact competition binding is not strict JSON'')
                     else Inl e
          | Inr observed \<Rightarrow>
              require (set (map fst observed) = set FIELDS)
                (bad_binding ''artifact competition binding has missing or extra fields'') (
              require (as_int (dget observed ''schema_version'') = Some 1)
                (bad_binding ''artifact competition binding has an unsupported schema version'') (
              require (\<exists>d \<in> set_option (as_str (dget observed ''artifact_digest'')).
                         matches competition_digest_rx d)
                (bad_binding ''artifact competition binding has a non-canonical artifact digest'') (
              require (\<exists>t \<in> set_option (as_str (dget observed ''track'')). matches competition_name_rx t)
                (bad_binding ''artifact competition binding has an invalid track'') (
              require (\<exists>t \<in> set_option (as_str (dget observed ''hardware_class'')).
                         matches competition_name_rx t)
                (bad_binding ''artifact competition binding has an invalid hardware class'')
              (Inr observed)))))))"

definition validate_artifact_competition_binding ::
    "stdlib \<Rightarrow> (string \<Rightarrow> string option) \<Rightarrow> (string \<Rightarrow> raw option) \<Rightarrow> controller_config \<Rightarrow>
     file_session \<Rightarrow> tree \<Rightarrow> dict res" where
  "validate_artifact_competition_binding lib decode parse config session listing =
     rbind (parse_binding decode parse session) (\<lambda>observed.
     require ((dget observed ''track'', dget observed ''hardware_class'') =
              (JStr (c_track config), JStr (c_hardware_class config)))
       (bad_binding (''artifact competition binding targets '' @ py_str (dget observed ''track'') @ ''/''
          @ py_str (dget observed ''hardware_class'') @ '', but the controller targets ''
          @ c_track config @ ''/'' @ c_hardware_class config)) (
     rbind (case artifact_digest lib listing of
              Inl e \<Rightarrow>
                if isinstance e PreflightError \<or> isinstance e OSError
                then Inl (bad_binding ''the current artifact tree digest cannot be established'')
                else Inl e
            | Inr r \<Rightarrow> Inr r) (\<lambda>(current_digest, _).
     require (dget observed ''artifact_digest'' = JStr current_digest)
       (bad_binding ''artifact competition binding digest does not match the current artifact tree'')
     (Inr observed))))"

section \<open>The reader behind the contract\<close>

lemma read_private_binding_Inr:
  "read_private_binding session = Inr b \<longleftrightarrow>
     read_root_service_file session ''artifact competition binding''
       MAX_ARTIFACT_COMPETITION_BINDING_BYTES = Inr b \<and> b \<noteq> []"
  by (auto simp: read_private_binding_def require_Inr_iff split: sum.splits if_splits)

interpretation binding_file: secure_reader
    read_private_binding
    "\<lambda>m. \<exists>egid. service_file m MAX_ARTIFACT_COMPETITION_BINDING_BYTES egid"
    MAX_ARTIFACT_COMPETITION_BINDING_BYTES
  by unfold_locales
    (auto simp: read_private_binding_Inr service_file_def dest!: root_file.reader_ok)

text \<open>What an accepted binding says.\<close>

definition authorises :: "dict \<Rightarrow> string \<Rightarrow> string \<Rightarrow> string \<Rightarrow> bool" where
  "authorises observed digest track hardware_class \<longleftrightarrow>
     set (map fst observed) = set FIELDS \<and> dget observed ''schema_version'' = JInt 1 \<and>
     dget observed ''artifact_digest'' = JStr digest \<and> dget observed ''track'' = JStr track \<and>
     dget observed ''hardware_class'' = JStr hardware_class"

lemma strict_json_object_Inr:
  "strict_json_object parse raw = Inr d \<longleftrightarrow>
     (\<exists>r. parse raw = Some r \<and> strict_value r = Some (JObj d))"
  by (auto simp: strict_json_object_def load_strict_Inr rbind_Inr_iff case_option_res_iffs)

lemma parse_binding_Inr:
  assumes "parse_binding decode parse session = Inr d"
  shows "(\<exists>b t r. read_private_binding session = Inr b \<and> decode b = Some t \<and> parse t = Some r \<and>
        strict_value r = Some (JObj d)) \<and>
     set (map fst d) = set FIELDS \<and> dget d ''schema_version'' = JInt 1"
proof -
  from assms obtain b t where b: "read_private_binding session = Inr b" "decode b = Some t"
    and s: "strict_json_object parse t = Inr d"
    and "set (map fst d) = set FIELDS" "dget d ''schema_version'' = JInt 1"
    unfolding parse_binding_def rbind_Inr_iff case_option_res_iffs handler_Inr_iff require_Inr_iff
      sum.inject as_type_iffs
    by blast
  then show ?thesis using s by (auto simp: strict_json_object_Inr)
qed

abbreviation binding_errors :: "exc_class set" where
  "binding_errors \<equiv> {ArtifactCompetitionBindingError, RecursionError}"

lemma strict_json_object_raises:
  "strict_json_object parse raw = Inl e \<Longrightarrow> isinstance e ValueError \<or> exc_cls e = RecursionError"
  by (cases e) (auto simp: strict_json_object_def rbind_Inl_iff case_option_res_iffs dest!: load_strict_Inl)

lemma parse_binding_raises: "raises_only binding_errors (parse_binding decode parse session)"
  unfolding parse_binding_def read_private_binding_def bad_binding_def
  by (auto intro!: raises_intros simp: raises_only_def [of _ "Inl e" for e]
      dest: isinstance_self [OF read_root_service_file_error] dest!: strict_json_object_raises)

lemma digest_stream_error: "digest_stream lib fs = Inl e \<Longrightarrow> exc_cls e = OSError"
  by (induction fs)
    (auto simp: rbind_Inl_iff digest_file_def syscall_def split: option.splits)

lemma artifact_digest_error:
  "artifact_digest lib listing = Inl e \<Longrightarrow> exc_cls e = PreflightError \<or> exc_cls e = OSError"
  by (auto simp: artifact_digest_def Let_def res_err_iffs dest!: digest_stream_error)

lemma validate_competition_raises:
  "raises_only binding_errors
     (validate_artifact_competition_binding lib decode parse config session listing)"
  unfolding validate_artifact_competition_binding_def bad_binding_def
  by (auto intro!: raises_intros parse_binding_raises dest!: artifact_digest_error isinstance_self)

lemma validate_competition_Inr:
  assumes "validate_artifact_competition_binding lib decode parse config session listing = Inr d"
  shows "parse_binding decode parse session = Inr d \<and>
     (\<exists>digest n sz. artifact_digest lib listing = Inr (digest, n, sz) \<and>
        authorises d digest (c_track config) (c_hardware_class config))"
proof -
  from assms have p: "parse_binding decode parse session = Inr d"
    and "dget d ''track'' = JStr (c_track config)"
    "dget d ''hardware_class'' = JStr (c_hardware_class config)"
    and "\<exists>digest n sz. artifact_digest lib listing = Inr (digest, n, sz) \<and>
        dget d ''artifact_digest'' = JStr digest"
    by (auto simp: validate_artifact_competition_binding_def res_iffs split: sum.splits if_splits)
  with parse_binding_Inr [OF p] show ?thesis by (auto simp: authorises_def)
qed

section \<open>Properties\<close>

text \<open>
  Validating the artifact competition binding either raises
  \<open>ArtifactCompetitionBindingError\<close> (or \<open>RecursionError\<close>, for a binding nested beyond the
  recursion limit), or proves that the binding is a
  root-owned, unchanged file of at most 4096 bytes that was read completely, holds exactly
  the four fields without a duplicate key, names the configured track and hardware class,
  and authorises exactly the digest of the current artifact tree.
\<close>

theorem validate_artifact_competition_binding_outcome:
  "case validate_artifact_competition_binding lib decode parse config session listing of
     Inl e \<Rightarrow> exc_cls e \<in> binding_errors
   | Inr d \<Rightarrow>
       (\<exists>bytes m egid. read_private_binding session = Inr bytes \<and> length bytes \<le> 4096 \<and>
          opened_before session = Some m \<and> service_file m 4096 egid) \<and>
       keys_unique (JObj d) \<and>
       (\<exists>digest n sz. artifact_digest lib listing = Inr (digest, n, sz) \<and>
          authorises d digest (c_track config) (c_hardware_class config))"
proof (cases "validate_artifact_competition_binding lib decode parse config session listing")
  case (Inl e)
  then have "exc_cls e \<in> binding_errors"
    using raises_onlyD [OF validate_competition_raises] by blast
  with Inl show ?thesis by simp
next
  case (Inr d)
  then have p: "parse_binding decode parse session = Inr d"
    and a: "\<exists>digest n sz. artifact_digest lib listing = Inr (digest, n, sz) \<and>
        authorises d digest (c_track config) (c_hardware_class config)"
    by (auto dest: validate_competition_Inr)
  from parse_binding_Inr [OF p] obtain b r where b: "read_private_binding session = Inr b"
    and "strict_value r = Some (JObj d)" by auto
  then have "keys_unique (JObj d)" by (auto dest: strict_keys_unique_aux(1))
  moreover have "length b \<le> 4096"
    using binding_file.reader_bounded [OF b] by (simp add: MAX_ARTIFACT_COMPETITION_BINDING_BYTES_def)
  moreover have "\<exists>m egid. opened_before session = Some m \<and> service_file m 4096 egid"
    using binding_file.reader_ok [OF b] by (auto simp: MAX_ARTIFACT_COMPETITION_BINDING_BYTES_def)
  ultimately show ?thesis using Inr a b by auto
qed

text \<open>
  One authorised file admits one tree: if the same binding is accepted for two artifact
  trees, they publish the same names and contents, the digest being injective on what is
  hashed for them.
\<close>

lemma binding_admits_one_tree:
  assumes "validate_artifact_competition_binding lib decode parse config session s = Inr d"
    and "validate_artifact_competition_binding lib decode parse config' session t = Inr d'"
    and "nul_free_lib lib (artifact_files s)" and "nul_free_lib lib (artifact_files t)"
    and "inj_on (sha256_hex lib) (set (hashed_inputs lib s) \<union> set (hashed_inputs lib t))"
  shows "published lib s = published lib t"
proof -
  note 1 = validate_competition_Inr [OF assms(1)] and 2 = validate_competition_Inr [OF assms(2)]
  then have "d = d'" by auto
  with 1 2 obtain digest where "\<exists>n sz. artifact_digest lib s = Inr (digest, n, sz)"
    and "\<exists>n sz. artifact_digest lib t = Inr (digest, n, sz)"
    by (auto simp: authorises_def)
  then show ?thesis using artifact_digest_inj assms(3-5) by blast
qed

end
