(* ===== verification/Redaction.thy ===== *)
theory Redaction
  imports PyJson
begin

text \<open>
  \<^verbatim>\<open>redaction.py\<close>: what is removed from every text and JSON value before it is logged or
  persisted. Each \<open>re.sub\<close> is a scanner \<open>resub\<close> with a matcher that gives the length of
  the match at a position and its replacement; the three patterns never need to backtrack,
  because each repetition is over a class that excludes what follows it.
\<close>

definition REDACTED :: string where "REDACTED = ''[REDACTED]''"

section \<open>Pattern substitution\<close>

text \<open>A word character of \<open>\b\<close>, below U+0100.\<close>

definition is_word :: "char \<Rightarrow> bool" where
  "is_word c \<longleftrightarrow>
     (let n = code c in
      is_alnum c \<or> n = 95 \<or> n \<in> {170, 178, 179, 181, 185, 186, 188, 189, 190} \<or>
      (192 \<le> n \<and> n \<noteq> 215 \<and> n \<noteq> 247))"

definition boundary :: "char option \<Rightarrow> bool" where
  "boundary prev = (case prev of None \<Rightarrow> True | Some c \<Rightarrow> \<not> is_word c)"

definition prefix_ci :: "string \<Rightarrow> string \<Rightarrow> bool" where
  "prefix_ci p s \<longleftrightarrow> py_lower (take (length p) s) = p"

type_synonym matcher = "char option \<Rightarrow> string \<Rightarrow> (nat \<times> string) option"

text \<open>
  \<open>pattern.sub(...)\<close>: \<open>skip\<close> counts the characters of the current match still to pass over;
  \<open>prev\<close> is the character before the position in the original text.
\<close>

fun resub :: "matcher \<Rightarrow> nat \<Rightarrow> char option \<Rightarrow> string \<Rightarrow> string" where
  "resub m skip prev [] = []"
| "resub m (Suc k) prev (c # s) = resub m k (Some c) s"
| "resub m 0 prev (c # s) =
     (case m prev (c # s) of
        None \<Rightarrow> c # resub m 0 (Some c) s
      | Some (n, out) \<Rightarrow> out @ resub m (n - 1) (Some c) s)"

text \<open>\<open>_BEARER\<close>: \<open>\b(bearer\s+)[A-Za-z0-9._~+/=-]+\<close>, ignoring case.\<close>

definition is_bearer_char :: "char \<Rightarrow> bool" where
  "is_bearer_char c \<longleftrightarrow> is_alnum c \<or> c \<in> set ''._~+/=-''"

definition match_bearer :: matcher where
  "match_bearer prev s =
     (if boundary prev \<and> prefix_ci ''bearer'' s then
        let space = takeWhile is_space (drop 6 s);
            start = 6 + length space;
            token = takeWhile is_bearer_char (drop start s)
        in if space \<noteq> [] \<and> token \<noteq> [] then Some (start + length token, take start s @ REDACTED)
           else None
      else None)"

text \<open>
  \<open>_ASSIGNMENT\<close>: a credential keyword at a word boundary, a colon or equals sign between
  optional white space, and a value without white space, comma or semicolon.
\<close>

definition assignment_keywords :: "string list" where
  "assignment_keywords =
     [''token'', ''secret'', ''password'', ''passwd'', ''apikey'', ''api_key'', ''api-key'',
      ''credential'', ''signature'']"

definition match_assignment :: matcher where
  "match_assignment prev s =
     (if \<not> boundary prev then None
      else case find (\<lambda>k. prefix_ci k s) assignment_keywords of
        None \<Rightarrow> None
      | Some k \<Rightarrow>
          let ahead = length k + length (takeWhile is_space (drop (length k) s)) in
          (case drop ahead s of
             [] \<Rightarrow> None
           | c # rest \<Rightarrow>
               if c = CHR '':'' \<or> c = CHR ''='' then
                 let start = ahead + 1 + length (takeWhile is_space rest);
                     val = takeWhile (\<lambda>x. \<not> is_space x \<and> x \<noteq> CHR '','' \<and> x \<noteq> CHR '';'') (drop start s)
                 in if val \<noteq> [] then Some (start + length val, take start s @ REDACTED) else None
               else None))"

text \<open>\<open>_URL_CREDS\<close>: \<open>(https?://)([^/@\s:]+):([^/@\s]+)@\<close>, ignoring case.\<close>

definition match_url_creds :: matcher where
  "match_url_creds prev s =
     (case find (\<lambda>k. prefix_ci k s) [''https://'', ''http://''] of
        None \<Rightarrow> None
      | Some k \<Rightarrow>
          let rest = drop (length k) s;
              user = takeWhile (\<lambda>x. x \<noteq> CHR ''/'' \<and> x \<noteq> CHR ''@'' \<and> x \<noteq> CHR '':'' \<and> \<not> is_space x) rest
          in (case drop (length user) rest of
                [] \<Rightarrow> None
              | c # rest' \<Rightarrow>
                  let pw = takeWhile (\<lambda>x. x \<noteq> CHR ''/'' \<and> x \<noteq> CHR ''@'' \<and> \<not> is_space x) rest' in
                  (case drop (length pw) rest' of
                     [] \<Rightarrow> None
                   | d # _ \<Rightarrow>
                       if user \<noteq> [] \<and> c = CHR '':'' \<and> pw \<noteq> [] \<and> d = CHR ''@''
                       then Some (length k + length user + length pw + 2,
                                  take (length k) s @ REDACTED @ ''@'')
                       else None)))"

section \<open>Redaction\<close>

text \<open>\<open>sorted(found, key=len, reverse=True)\<close> is stable.\<close>

definition longest_first :: "string list \<Rightarrow> string list" where
  "longest_first ss = sort_key (\<lambda>s. - int (length s)) ss"

text \<open>\<open>set(found)\<close> has no order: secrets of one length may come in any order.\<close>

definition secret_values :: "(string \<times> string) list \<Rightarrow> string list" where
  "secret_values env =
     longest_first (remdups
       (map snd (filter (\<lambda>(key, v). v \<noteq> [] \<and> length v \<ge> 4 \<and>
          list_ex (\<lambda>marker. occurs marker (py_upper key))
            [''TOKEN'', ''SECRET'', ''PASSWORD'', ''PASSWD'', ''API_KEY'', ''CREDENTIAL'']) env)))"

definition drop_secrets :: "string list \<Rightarrow> string \<Rightarrow> string" where
  "drop_secrets secrets text =
     fold (\<lambda>secret t. py_replace secret REDACTED t)
       (longest_first (filter (\<lambda>s. length s \<ge> 4) secrets)) text"

definition redact_text :: "string \<Rightarrow> string list \<Rightarrow> string" where
  "redact_text text secrets =
     resub match_url_creds 0 None
       (resub match_assignment 0 None
         (resub match_bearer 0 None (drop_secrets secrets text)))"

definition SENSITIVE_QUERY :: "string list" where
  "SENSITIVE_QUERY =
     [''token'', ''access_token'', ''api_key'', ''apikey'', ''key'', ''secret'', ''signature'',
      ''credential'']"

definition safe_source :: "stdlib \<Rightarrow> string \<Rightarrow> string list \<Rightarrow> string res" where
  "safe_source lib source secrets =
     (let clean = resub match_url_creds 0 None (resub match_bearer 0 None (drop_secrets secrets source));
          (scheme, found, locator) = partition_at CHR '':'' clean in
      if \<not> found then Inr clean
      else if scheme \<notin> {''http'', ''https''} then Inr (hd (split_on CHR ''?'' clean))
      else
        rbind (url_split lib (if prefix ''//'' locator then clean
                              else scheme @ ''://'' @ dropWhile (\<lambda>c. c = CHR ''/'') locator)) (\<lambda>parsed.
        let netloc = (case u_hostname parsed of None \<Rightarrow> [] | Some h \<Rightarrow> h) @
                     (case u_port parsed of None \<Rightarrow> []
                      | Some p \<Rightarrow> if p \<noteq> 0 then '':'' @ text_of_int p else []);
            query = url_encode lib
              (map (\<lambda>(key, v). (key, if py_lower key \<in> set SENSITIVE_QUERY then REDACTED else v))
                 (u_query parsed));
            rendered = url_unsplit lib scheme netloc (u_path parsed) query in
        Inr (scheme @ '':'' @ remove_prefix (scheme @ ''://'') rendered)))"

definition sensitive_key :: "string \<Rightarrow> bool" where
  "sensitive_key key \<longleftrightarrow>
     list_ex (\<lambda>marker. occurs marker (py_upper key))
       [''TOKEN'', ''SECRET'', ''PASSWORD'', ''API_KEY'', ''CREDENTIAL'']"

fun sanitize :: "stdlib \<Rightarrow> string list \<Rightarrow> string \<Rightarrow> json \<Rightarrow> json res"
  and sanitize_list :: "stdlib \<Rightarrow> string list \<Rightarrow> json list \<Rightarrow> json list res"
  and sanitize_items :: "stdlib \<Rightarrow> string list \<Rightarrow> dict \<Rightarrow> dict res" where
  "sanitize lib secrets key v =
     (if sensitive_key key then Inr (if truthy v then JStr REDACTED else v)
      else case v of
        JObj d \<Rightarrow> map_sum id JObj (sanitize_items lib secrets d)
      | JList xs \<Rightarrow> map_sum id JList (sanitize_list lib secrets xs)
      | JStr s \<Rightarrow> (if py_lower key = ''source'' then map_sum id JStr (safe_source lib s secrets)
                  else Inr (JStr (redact_text s secrets)))
      | _ \<Rightarrow> Inr v)"
| "sanitize_list lib secrets [] = Inr []"
| "sanitize_list lib secrets (x # xs) =
     rbind (sanitize lib secrets [] x) (\<lambda>y.
     rbind (sanitize_list lib secrets xs) (\<lambda>ys. Inr (y # ys)))"
| "sanitize_items lib secrets [] = Inr []"
| "sanitize_items lib secrets ((k, v) # d) =
     rbind (sanitize lib secrets k v) (\<lambda>w.
     rbind (sanitize_items lib secrets d) (\<lambda>e. Inr ((k, w) # e)))"

text \<open>\<open>RedactingFilter.filter\<close>: message and \<open>exc_info\<close> of a record, before and after.\<close>

definition redacting_filter ::
    "string list \<Rightarrow> string \<times> string option \<Rightarrow> string \<times> string option" where
  "redacting_filter secrets record = (redact_text (fst record) secrets, None)"

section \<open>Secrets do not survive\<close>

text \<open>
  A text without brackets that is not part of the word between the brackets: it cannot
  arise by inserting the marker, so its occurrences can only be inherited.
\<close>

definition inheritable :: "string \<Rightarrow> bool" where
  "inheritable x \<longleftrightarrow> CHR ''['' \<notin> set x \<and> CHR '']'' \<notin> set x \<and> \<not> occurs x ''REDACTED''"

lemma occurs_iff: "occurs x s \<longleftrightarrow> (\<exists>a b. s = a @ x @ b)"
proof -
  have "occurs x s \<longleftrightarrow> (\<exists>t. suffix t s \<and> prefix x t)"
    by (auto simp: occurs_def list_ex_iff in_set_suffixes)
  also have "\<dots> \<longleftrightarrow> (\<exists>a b. s = a @ x @ b)"
    by (auto simp: prefix_def suffix_def)
  finally show ?thesis .
qed

lemma occurs_append: "occurs x s \<Longrightarrow> occurs x (a @ s @ b)"
  unfolding occurs_iff by (metis append.assoc)

lemma occurs_parts: "occurs x s \<Longrightarrow> occurs x (a @ s)" "occurs x s \<Longrightarrow> occurs x (s @ b)"
  using occurs_append [of x s a "[]"] occurs_append [of x s "[]" b] by simp_all

text \<open>An occurrence of a text without the character \<open>c\<close> lies on one side of it.\<close>

lemma occurs_split_at:
  assumes "occurs x (u @ c # v)" and "c \<notin> set x"
  shows "occurs x u \<or> occurs x v"
proof -
  from assms(1) obtain a b where e: "u @ c # v = a @ x @ b" by (auto simp: occurs_iff)
  then consider (right) us where "u @ us = a" "c # v = us @ x @ b"
    | (left) us where "u = a @ us" "us @ c # v = x @ b"
    by (auto simp: append_eq_append_conv2)
  then show ?thesis
  proof cases
    case right
    show ?thesis
    proof (cases us)
      case Nil
      with right assms(2) have "x = []" by (cases x) auto
      then show ?thesis by (auto simp: occurs_iff)
    next
      case (Cons d ds)
      with right have "v = ds @ x @ b" by simp
      then show ?thesis by (auto simp: occurs_iff)
    qed
  next
    case left
    then consider (in_u) ws where "us = x @ ws" | (over) w ws where "x = us @ w # ws"
      by (fastforce simp: append_eq_append_conv2 Cons_eq_append_conv)
    then show ?thesis
    proof cases
      case in_u
      with left have "u = a @ x @ ws" by simp
      then show ?thesis by (auto simp: occurs_iff)
    next
      case over
      with left(2) have "w = c" by simp
      with over assms(2) show ?thesis by simp
    qed
  qed
qed

lemma occurs_redacted:
  assumes "occurs x (u @ REDACTED @ v)" and "inheritable x"
  shows "occurs x u \<or> occurs x v"
proof -
  from assms have "occurs x u \<or> occurs x (''REDACTED]'' @ v)"
    using occurs_split_at [of x u "CHR ''[''" "''REDACTED]'' @ v"]
    by (auto simp: REDACTED_def inheritable_def)
  then show ?thesis
    using occurs_split_at [of x "''REDACTED''" "CHR '']''" v] assms(2)
    by (auto simp: inheritable_def)
qed

lemma py_replace_inherits:
  "occurs x (u @ py_replace old REDACTED s) \<Longrightarrow> inheritable x \<Longrightarrow> occurs x (u @ s)"
proof (induction "length s" arbitrary: s u rule: less_induct)
  case less
  show ?case
  proof (cases "old \<noteq> [] \<and> s \<noteq> []")
    case False
    with less.prems show ?thesis by (simp add: py_replace.simps)
  next
    case ne: True
    show ?thesis
    proof (cases "prefix old s")
      case True
      with ne have r: "py_replace old REDACTED s = REDACTED @ py_replace old REDACTED (drop (length old) s)"
        by (subst py_replace.simps) simp
      have s: "s = old @ drop (length old) s" using True by (auto simp: prefix_def)
      from less.prems r have "occurs x u \<or> occurs x ([] @ py_replace old REDACTED (drop (length old) s))"
        using occurs_redacted by simp
      then show ?thesis
      proof
        assume "occurs x ([] @ py_replace old REDACTED (drop (length old) s))"
        then have "occurs x (drop (length old) s)"
          using less.hyps [of "drop (length old) s" "[]"] less.prems(2) ne
          by (cases s; cases old) auto
        then have "occurs x (old @ drop (length old) s)" by (rule occurs_parts)
        then show ?thesis using s occurs_parts(1) by metis
      qed (rule occurs_parts)
    next
      case False
      with ne have r: "py_replace old REDACTED s = hd s # py_replace old REDACTED (tl s)"
        by (subst py_replace.simps) simp
      with less.hyps [of "tl s" "u @ [hd s]"] less.prems ne show ?thesis
        by (cases s) auto
    qed
  qed
qed

lemma py_replace_prefix:
  "prefix y (py_replace old REDACTED s) \<Longrightarrow> CHR ''['' \<notin> set y \<Longrightarrow> prefix y s"
proof (induction y arbitrary: s)
  case (Cons c y)
  show ?case
  proof (cases "old \<noteq> [] \<and> s \<noteq> []")
    case ne: True
    show ?thesis
    proof (cases "prefix old s")
      case True
      with ne have "prefix (c # y) (REDACTED @ py_replace old REDACTED (drop (length old) s))"
        using Cons.prems(1) by (subst (asm) py_replace.simps) simp
      with Cons.prems(2) show ?thesis by (simp add: REDACTED_def)
    next
      case False
      with ne have "prefix (c # y) (hd s # py_replace old REDACTED (tl s))"
        using Cons.prems(1) by (subst (asm) py_replace.simps) simp
      with Cons ne show ?thesis by (cases s) auto
    qed
  next
    case False
    then have "py_replace old REDACTED s = s" by (subst py_replace.simps) auto
    with Cons.prems show ?thesis by simp
  qed
qed simp

lemma py_replace_removes:
  "inheritable x \<Longrightarrow> x \<noteq> [] \<Longrightarrow> \<not> occurs x (py_replace x REDACTED s)"
proof (induction "length s" arbitrary: s rule: less_induct)
  case less
  show ?case
  proof (cases "s = []")
    case True
    with less.prems show ?thesis by (auto simp: py_replace.simps occurs_iff)
  next
    case ne: False
    show ?thesis
    proof (cases "prefix x s")
      case True
      with ne less.prems have "py_replace x REDACTED s = [] @ REDACTED @ py_replace x REDACTED (drop (length x) s)"
        by (subst py_replace.simps) simp
      moreover have "\<not> occurs x (py_replace x REDACTED (drop (length x) s))"
        using less ne by (cases s; cases x) auto
      moreover have "\<not> occurs x []" using less.prems by (auto simp: occurs_iff)
      ultimately show ?thesis using occurs_redacted less.prems(1) by metis
    next
      case False
      have r: "py_replace x REDACTED s = hd s # py_replace x REDACTED (tl s)"
        using ne False less.prems by (subst py_replace.simps) simp
      show ?thesis
      proof
        assume "occurs x (py_replace x REDACTED s)"
        then obtain a b where e: "py_replace x REDACTED s = a @ x @ b" by (auto simp: occurs_iff)
        show False
        proof (cases a)
          case Nil
          \<comment> \<open>an occurrence at the start would be inherited from the start of the text\<close>
          with e have "prefix x (py_replace x REDACTED s)" by simp
          then have "prefix x s" by (rule py_replace_prefix) (use less.prems in \<open>simp add: inheritable_def\<close>)
          with False show False ..
        next
          case (Cons c cs)
          with e r have "py_replace x REDACTED (tl s) = cs @ x @ b" by simp
          moreover have "\<not> occurs x (py_replace x REDACTED (tl s))"
            using less ne by (cases s) auto
          ultimately show False by (auto simp: occurs_iff)
        qed
      qed
    qed
  qed
qed

text \<open>What every matcher guarantees: it keeps a front of the match, the marker and a back.\<close>

definition redacting :: "matcher \<Rightarrow> bool" where
  "redacting m \<longleftrightarrow>
     (\<forall>prev s n out. m prev s = Some (n, out) \<longrightarrow>
        (\<exists>a b. out = a @ REDACTED @ b \<and> prefix a s \<and> suffix b (take n s)))"

lemma resub_skip: "resub m k prev s = resub m 0 (if k = 0 then prev else last (prev # map Some (take k s))) (drop k s)"
proof (induction k arbitrary: prev s)
  case (Suc k)
  then show ?case by (cases s) (auto simp del: resub.simps(3))
qed simp

lemma resub_inherits:
  assumes "redacting m"
  shows "occurs x (u @ resub m 0 prev s) \<Longrightarrow> inheritable x \<Longrightarrow> occurs x (u @ s)"
proof (induction "length s" arbitrary: s u prev rule: less_induct)
  case less
  show ?case
  proof (cases s)
    case (Cons c cs)
    show ?thesis
    proof (cases "m prev s")
      case None
      with Cons less.hyps [of cs "u @ [c]" "Some c"] less.prems show ?thesis by simp
    next
      case (Some no)
      obtain n out where no: "no = (n, out)" by (cases no)
      with Some assms obtain a b where ab: "out = a @ REDACTED @ b" "prefix a s" "suffix b (take n s)"
        unfolding redacting_def by blast
      let ?rest = "resub m (n - 1) (Some c) cs"
      have "occurs x ((u @ a) @ REDACTED @ (b @ ?rest))"
        using less.prems Cons Some no ab by simp
      then have "occurs x (u @ a) \<or> occurs x (b @ ?rest)"
        by (rule occurs_redacted [OF _ less.prems(2)])
      then show ?thesis
      proof
        assume "occurs x (u @ a)"
        with ab(2) show ?thesis by (auto simp: prefix_def dest: occurs_parts(2) [of x "u @ a"])
      next
        assume "occurs x (b @ ?rest)"
        then have "occurs x (b @ drop (n - 1) cs)"
          unfolding resub_skip [of m "n - 1"] using less Cons by simp
        moreover have "suffix (b @ drop (n - 1) cs) s" if "n \<noteq> 0"
        proof -
          have "take n s @ drop n s = s" by simp
          moreover have "drop n s = drop (n - 1) cs" using Cons that by (cases n) auto
          ultimately show ?thesis using ab(3) by (metis suffix_def append.assoc)
        qed
        moreover have "suffix (b @ drop (n - 1) cs) s" if "n = 0"
          using that ab(3) Cons by (simp add: suffix_ConsI)
        ultimately have "suffix (b @ drop (n - 1) cs) s" by blast
        with \<open>occurs x (b @ drop (n - 1) cs)\<close> show ?thesis
          by (auto simp: suffix_def occurs_parts(1))
      qed
    qed
  qed (use less.prems in simp)
qed

lemma redacting_front:
  assumes "\<And>prev s n out. m prev s = Some (n, out) \<Longrightarrow> \<exists>i. out = take i s @ REDACTED"
  shows "redacting m"
  unfolding redacting_def
proof (intro allI impI)
  fix prev s n out
  assume "m prev s = Some (n, out)"
  then obtain i where "out = take i s @ REDACTED" using assms by blast
  then show "\<exists>a b. out = a @ REDACTED @ b \<and> prefix a s \<and> suffix b (take n s)"
    by (intro exI [of _ "take i s"] exI [of _ "[]"]) (simp add: take_is_prefix)
qed

lemma match_bearer_redacting: "redacting match_bearer"
  by (rule redacting_front) (auto simp: match_bearer_def Let_def split: if_splits)

lemma match_assignment_redacting: "redacting match_assignment"
  by (rule redacting_front)
    (auto simp: match_assignment_def Let_def split: if_splits option.splits list.splits)

lemma prefix_ci_length: "prefix_ci p s \<Longrightarrow> length p \<le> length s"
  unfolding prefix_ci_def py_lower_def by (metis length_map length_take min.cobounded1 min_def)

lemma match_url_creds_shape:
  assumes "match_url_creds prev s = Some (n, out)"
  obtains k user pw rest where "s = k @ user @ CHR '':'' # pw @ CHR ''@'' # rest"
    and "n = length (k @ user @ CHR '':'' # pw @ ''@'')" and "out = k @ REDACTED @ ''@''"
proof -
  define us where "us x \<longleftrightarrow> x \<noteq> CHR ''/'' \<and> x \<noteq> CHR ''@'' \<and> x \<noteq> CHR '':'' \<and> \<not> is_space x" for x
  define ps where "ps x \<longleftrightarrow> x \<noteq> CHR ''/'' \<and> x \<noteq> CHR ''@'' \<and> \<not> is_space x" for x
  obtain p where f: "find (\<lambda>k. prefix_ci k s) [''https://'', ''http://''] = Some p"
    using assms by (cases "find (\<lambda>k. prefix_ci k s) [''https://'', ''http://'']")
      (simp_all only: match_url_creds_def option.case option.distinct)
  then have p: "prefix_ci p s" by (metis find_Some_iff)
  define user where "user = takeWhile us (drop (length p) s)"
  note m = assms [unfolded match_url_creds_def f option.case Let_def, folded us_def ps_def user_def]
  obtain c rest' where u: "drop (length user) (drop (length p) s) = c # rest'"
    using m by (cases "drop (length user) (drop (length p) s)") (simp_all only: list.case option.distinct)
  define pw where "pw = takeWhile ps rest'"
  note m' = m [unfolded u list.case, folded pw_def]
  obtain d rest where r: "drop (length pw) rest' = d # rest"
    using m' by (cases "drop (length pw) rest'") (simp_all only: list.case option.distinct)
  have cd: "c = CHR '':''" "d = CHR ''@''"
    and out: "n = length p + length user + length pw + 2" "out = take (length p) s @ REDACTED @ ''@''"
    using m' [unfolded r list.case] by (auto split: if_splits)
  have "drop (length p) s = user @ CHR '':'' # rest'"
    using u cd(1) by (metis user_def append_eq_conv_conj takeWhile_dropWhile_id)
  moreover have "rest' = pw @ CHR ''@'' # rest"
    using r cd(2) by (metis pw_def append_eq_conv_conj takeWhile_dropWhile_id)
  moreover have "length (take (length p) s) = length p" using prefix_ci_length [OF p] by simp
  ultimately show thesis
    using out that [of "take (length p) s" user pw rest] append_take_drop_id [of "length p" s]
    by simp
qed

lemma match_url_creds_redacting: "redacting match_url_creds"
  unfolding redacting_def
proof (intro allI impI)
  fix prev s n out
  assume "match_url_creds prev s = Some (n, out)"
  then obtain k user pw rest where s: "s = k @ user @ CHR '':'' # pw @ CHR ''@'' # rest"
    and "n = length (k @ user @ CHR '':'' # pw @ ''@'')" "out = k @ REDACTED @ ''@''"
    by (rule match_url_creds_shape)
  then show "\<exists>a b. out = a @ REDACTED @ b \<and> prefix a s \<and> suffix b (take n s)"
    by (intro exI [of _ k] exI [of _ "''@''"]) (simp add: suffix_def)
qed

lemma drop_secrets_inherits:
  assumes "inheritable x" and "occurs x (fold (\<lambda>secret t. py_replace secret REDACTED t) ss str)"
  shows "occurs x str"
  using assms(2)
proof (induction ss arbitrary: str)
  case (Cons s ss)
  then have "occurs x (py_replace s REDACTED str)" by simp
  with py_replace_inherits [of x "[]"] assms(1) show ?case by simp
qed simp

lemma drop_secrets_removes:
  assumes "inheritable x" and "x \<in> set ss" and "x \<noteq> []"
  shows "\<not> occurs x (fold (\<lambda>secret t. py_replace secret REDACTED t) ss str)"
  using assms(2)
proof (induction ss arbitrary: str)
  case (Cons s ss)
  show ?case
  proof (cases "x = s")
    case True
    then show ?thesis
      using drop_secrets_inherits [OF assms(1), of ss] py_replace_removes [OF assms(1,3)] by auto
  next
    case False
    with Cons show ?thesis by simp
  qed
qed simp

lemma resub_front_inherits:
  "redacting m \<Longrightarrow> inheritable x \<Longrightarrow> occurs x (resub m 0 prev s) \<Longrightarrow> occurs x s"
  using resub_inherits [of m x "[]"] by simp

lemma redact_text_hides:
  assumes "x \<in> set secrets" and "4 \<le> length x" and "inheritable x"
  shows "\<not> occurs x (redact_text str secrets)"
proof
  assume "occurs x (redact_text str secrets)"
  then have "occurs x (drop_secrets secrets str)"
    unfolding redact_text_def
    using resub_front_inherits assms(3) match_bearer_redacting match_assignment_redacting
      match_url_creds_redacting by meson
  moreover have "\<not> occurs x (drop_secrets secrets str)"
    unfolding drop_secrets_def
    by (rule drop_secrets_removes) (use assms in \<open>auto simp: longest_first_def\<close>)
  ultimately show False by contradiction
qed

section \<open>Sanitised values\<close>

lemma hd_split_prefix: "\<exists>t. s = hd (split_on c s) @ t"
proof (induction s)
  case (Cons d s)
  then obtain t where "s = hd (split_on c s) @ t" ..
  then show ?case by (auto split: list.splits intro: exI [of _ s])
qed simp

lemma safe_source_hides:
  assumes "x \<in> set secrets" and "4 \<le> length x" and "inheritable x"
    and "safe_source lib src secrets = Inr t"
  shows "occurs x t \<Longrightarrow> prefix ''http:'' t \<or> prefix ''https:'' t"
proof -
  assume occ: "occurs x t"
  define clean where
    "clean = resub match_url_creds 0 None (resub match_bearer 0 None (drop_secrets secrets src))"
  have "\<not> occurs x (drop_secrets secrets src)"
    unfolding drop_secrets_def
    by (rule drop_secrets_removes) (use assms in \<open>auto simp: longest_first_def\<close>)
  then have clean: "\<not> occurs x clean"
    unfolding clean_def
    using resub_front_inherits assms(3) match_bearer_redacting match_url_creds_redacting by meson
  have "\<not> occurs x (hd (split_on CHR ''?'' clean))"
    using clean hd_split_prefix [of clean "CHR ''?''"] occurs_parts(2) by metis
  with clean occ assms(4) show ?thesis
    unfolding safe_source_def clean_def [symmetric] Let_def
    by (auto simp: rbind_Inr_iff split: prod.splits if_splits)
qed

text \<open>
  A value shows a text when some string in it, at any depth, contains it; the value of a
  \<open>source\<close> key that is an \<open>http\<close> or \<open>https\<close> location is left out, because it is rebuilt by
  \<^verbatim>\<open>urllib.parse\<close>.
\<close>

fun shows_text :: "string \<Rightarrow> string \<Rightarrow> json \<Rightarrow> bool"
  and list_shows_text :: "string \<Rightarrow> json list \<Rightarrow> bool"
  and dict_shows_text :: "string \<Rightarrow> dict \<Rightarrow> bool" where
  "shows_text x key v =
     (case v of
        JStr s \<Rightarrow> occurs x s \<and>
          \<not> (py_lower key = ''source'' \<and> (prefix ''http:'' s \<or> prefix ''https:'' s))
      | JList vs \<Rightarrow> list_shows_text x vs
      | JObj d \<Rightarrow> dict_shows_text x d
      | _ \<Rightarrow> False)"
| "list_shows_text x [] = False"
| "list_shows_text x (v # vs) = (shows_text x [] v \<or> list_shows_text x vs)"
| "dict_shows_text x [] = False"
| "dict_shows_text x ((k, v) # d) = (shows_text x k v \<or> dict_shows_text x d)"

lemma sanitize_hides_all:
  assumes len: "4 \<le> length x" and inh: "inheritable x"
  shows "x \<in> set secrets \<Longrightarrow> sanitize lib secrets key v = Inr w \<Longrightarrow> \<not> shows_text x key w"
    and "x \<in> set secrets \<Longrightarrow> sanitize_list lib secrets vs = Inr ws \<Longrightarrow> \<not> list_shows_text x ws"
    and "x \<in> set secrets \<Longrightarrow> sanitize_items lib secrets d = Inr e \<Longrightarrow> \<not> dict_shows_text x e"
proof (induction lib secrets key v and lib secrets vs and lib secrets d
    arbitrary: w and ws and e rule: sanitize_sanitize_list_sanitize_items.induct)
  case (1 lib secrets key v)
  have ne: "\<not> occurs x []" using len by (auto simp: occurs_iff)
  then have red: "\<not> occurs x REDACTED"
    using occurs_redacted [of x "[]" "[]"] inh by auto
  show ?case
  proof (cases "sensitive_key key")
    case True
    with 1 red ne show ?thesis by (cases v) (auto split: if_splits)
  next
    case False
    show ?thesis
    proof (cases v)
      case (JStr s)
      with 1 False show ?thesis
        using safe_source_hides [OF "1.prems"(1) len inh, of lib s]
          redact_text_hides [OF "1.prems"(1) len inh, of s]
        by (auto split: if_splits simp: map_sum_Inr)
    next
      case (JList xs)
      with 1 False show ?thesis by (auto simp: map_sum_Inr)
    next
      case (JObj d)
      with 1 False show ?thesis by (auto simp: map_sum_Inr)
    qed (use 1 False in auto)
  qed
qed (auto simp: rbind_Inr_iff)

text \<open>At a sensitive key, at any depth, stands only the marker or a falsy value.\<close>

fun masked :: "string \<Rightarrow> json \<Rightarrow> bool"
  and list_masked :: "json list \<Rightarrow> bool"
  and dict_masked :: "dict \<Rightarrow> bool" where
  "masked key v =
     (if sensitive_key key then v = JStr REDACTED \<or> \<not> truthy v
      else case v of JList vs \<Rightarrow> list_masked vs | JObj d \<Rightarrow> dict_masked d | _ \<Rightarrow> True)"
| "list_masked [] = True"
| "list_masked (v # vs) = (masked [] v \<and> list_masked vs)"
| "dict_masked [] = True"
| "dict_masked ((k, v) # d) = (masked k v \<and> dict_masked d)"

lemma sanitize_masks:
  "sanitize lib secrets key v = Inr w \<Longrightarrow> masked key w"
  "sanitize_list lib secrets vs = Inr ws \<Longrightarrow> list_masked ws"
  "sanitize_items lib secrets d = Inr e \<Longrightarrow> dict_masked e"
proof (induction lib secrets key v and lib secrets vs and lib secrets d
    arbitrary: w and ws and e rule: sanitize_sanitize_list_sanitize_items.induct)
  case (1 lib secrets key v)
  show ?case
  proof (cases "sensitive_key key")
    case True
    with 1 show ?thesis by (auto split: if_splits)
  next
    case False
    with 1 show ?thesis by (cases v) (auto simp: map_sum_Inr split: if_splits)
  qed
qed (auto simp: rbind_Inr_iff simp del: masked.simps)

text \<open>
  C27: sanitising masks sensitive keys and configured secrets. In the sanitised value, at any
  depth, a key whose name contains TOKEN, SECRET, PASSWORD, API_KEY or CREDENTIAL has only the
  marker \<open>[REDACTED]\<close> or a falsy value; and no string contains a configured secret of at least
  four characters (the location of an \<open>http\<close> source apart, which the URL functions rebuild)
  that the marker cannot re-create: one without brackets and not a part of the word between them.
\<close>

theorem sanitize_hides_secrets:
  assumes "sanitize lib secrets key v = Inr w"
  shows "masked key w \<and>
    (\<forall>secret \<in> set secrets. 4 \<le> length secret \<and> inheritable secret \<longrightarrow> \<not> shows_text secret key w)"
  using sanitize_masks(1) sanitize_hides_all(1) assms by blast

definition leaky_value :: json where
  "leaky_value =
     JObj [(''m'', JStr ''k=hunt7''), (''t'', JList [JStr ''http://u:hunt7@h'', JInt 3]),
       (''d'', JObj [(''api_token'', JStr ''x1'')])]"

theorem sanitize_hides_secrets_witness:
  "\<exists>w. sanitize example_lib [''hunt7''] [] leaky_value = Inr w \<and>
     shows_text ''hunt7'' [] leaky_value \<and> \<not> masked [] leaky_value \<and>
     \<not> shows_text ''hunt7'' [] w \<and> masked [] w"
proof -
  let ?r = "sanitize example_lib [''hunt7''] [] leaky_value"
  have keys: "\<not> sensitive_key ''m''" "\<not> sensitive_key ''t''" "\<not> sensitive_key []" "\<not> sensitive_key ''d''"
    "sensitive_key ''api_token''" "py_lower ''m'' \<noteq> ''source''" "py_lower [] \<noteq> ''source''"
    by code_simp+
  then have "\<not> isl ?r" by (simp add: leaky_value_def)
  then obtain w where w: "?r = Inr w" by (cases ?r) auto
  moreover have "inheritable ''hunt7''" by code_simp
  moreover have "shows_text ''hunt7'' [] leaky_value" by code_simp
  moreover have "\<not> masked [] leaky_value" using keys by (simp add: leaky_value_def REDACTED_def)
  ultimately show ?thesis using sanitize_hides_secrets [OF w] by simp
qed

section \<open>What sanitising keeps\<close>

lemma sanitize_items_map_of:
  assumes "sanitize_items lib secrets d = Inr e"
  shows "map fst e = map fst d"
    and "map_of d k = None \<Longrightarrow> map_of e k = None"
    and "map_of d k = Some v \<Longrightarrow> \<exists>w. sanitize lib secrets k v = Inr w \<and> map_of e k = Some w"
proof -
  have "map fst e = map fst d \<and> (map_of d k = None \<longrightarrow> map_of e k = None) \<and>
      (\<forall>v. map_of d k = Some v \<longrightarrow> (\<exists>w. sanitize lib secrets k v = Inr w \<and> map_of e k = Some w))"
    using assms
  proof (induction d arbitrary: e)
    case (Cons kv d)
    obtain k' v where kv: "kv = (k', v)" by (cases kv)
    with Cons.prems obtain w e' where "sanitize lib secrets k' v = Inr w"
      "sanitize_items lib secrets d = Inr e'" "e = (k', w) # e'"
      by (auto simp: rbind_Inr_iff simp del: sanitize.simps)
    with Cons.IH [of e'] kv show ?case by (auto simp del: sanitize.simps)
  qed simp
  then show "map fst e = map fst d" and "map_of d k = None \<Longrightarrow> map_of e k = None"
    and "map_of d k = Some v \<Longrightarrow> \<exists>w. sanitize lib secrets k v = Inr w \<and> map_of e k = Some w"
    by blast+
qed

text \<open>Numbers, truth values and null pass through under a key that is not sensitive.\<close>

fun plain_scalar :: "json \<Rightarrow> bool" where
  "plain_scalar JNull = True"
| "plain_scalar (JBool b) = True"
| "plain_scalar (JInt i) = True"
| "plain_scalar (JFloat f) = True"
| "plain_scalar _ = False"

lemma sanitize_scalar:
  "plain_scalar v \<Longrightarrow> \<not> sensitive_key k \<Longrightarrow> sanitize lib secrets k v = Inr v"
  by (cases v) auto

lemma sanitize_text:
  "\<not> sensitive_key k \<Longrightarrow> py_lower k \<noteq> ''source'' \<Longrightarrow> redact_text s secrets = s \<Longrightarrow>
     sanitize lib secrets k (JStr s) = Inr (JStr s)"
  by simp

lemma sanitize_any_text:
  "\<not> sensitive_key k \<Longrightarrow> py_lower k \<noteq> ''source'' \<Longrightarrow> sanitize lib secrets k (JStr s) = Inr (JStr (redact_text s secrets))"
  "\<not> sensitive_key k \<Longrightarrow> py_lower k = ''source'' \<Longrightarrow> sanitize lib secrets k (JStr s) = map_sum id JStr (safe_source lib s secrets)"
  by simp_all

lemma sanitize_source:
  "\<not> sensitive_key k \<Longrightarrow> py_lower k = ''source'' \<Longrightarrow> safe_source lib s secrets = Inr s \<Longrightarrow>
     sanitize lib secrets k (JStr s) = Inr (JStr s)"
  by simp

text \<open>A text no pattern can match, and that holds no secret, is left alone.\<close>

definition unremarkable :: "string \<Rightarrow> bool" where
  "unremarkable s \<longleftrightarrow>
     \<not> list_ex is_space s \<and> CHR ''@'' \<notin> set s \<and>
     \<not> list_ex (\<lambda>k. set k \<subseteq> set (py_lower s)) assignment_keywords"

lemma resub_id:
  "(\<And>prev u. suffix u s \<Longrightarrow> u \<noteq> [] \<Longrightarrow> m prev u = None) \<Longrightarrow> resub m 0 prev s = s"
proof (induction s arbitrary: prev)
  case (Cons c s)
  have "m prev (c # s) = None" by (rule Cons.prems) simp_all
  moreover have "resub m 0 (Some c) s = s"
    by (rule Cons.IH) (auto intro: Cons.prems suffix_ConsI)
  ultimately show ?case by simp
qed simp

lemma prefix_ci_set: "prefix_ci p u \<Longrightarrow> suffix u s \<Longrightarrow> set p \<subseteq> set (py_lower s)"
proof -
  assume p: "prefix_ci p u" and u: "suffix u s"
  have "set p = lower_char ` set (take (length p) u)"
    using arg_cong [OF p [unfolded prefix_ci_def py_lower_def], of set] by simp
  also have "\<dots> \<subseteq> lower_char ` set s"
    using set_take_subset [of "length p" u] u by (auto simp: suffix_def)
  finally show ?thesis by (simp add: py_lower_def)
qed

lemma py_replace_absent: "\<not> occurs old s \<Longrightarrow> py_replace old new s = s"
proof (induction s)
  case (Cons c s)
  have "\<not> prefix old (c # s)" using Cons.prems unfolding occurs_iff prefix_def by (metis append_Nil)
  moreover have "\<not> occurs old s" using Cons.prems occurs_parts(1) [of old s "[c]"] by auto
  ultimately show ?case using Cons.IH by (subst py_replace.simps) simp
qed (simp add: py_replace.simps)

lemma drop_secrets_absent:
  assumes "\<forall>x \<in> set secrets. 4 \<le> length x \<longrightarrow> \<not> occurs x s"
  shows "drop_secrets secrets s = s"
proof -
  have "fold (\<lambda>secret t. py_replace secret REDACTED t) ss s = s"
    if "\<forall>x \<in> set ss. \<not> occurs x s" for ss
    using that by (induction ss) (simp_all add: py_replace_absent)
  then show ?thesis using assms by (auto simp: drop_secrets_def longest_first_def)
qed

lemma redact_text_unremarkable:
  assumes "unremarkable s" and "\<forall>x \<in> set secrets. 4 \<le> length x \<longrightarrow> \<not> occurs x s"
  shows "redact_text s secrets = s"
proof -
  have part: "set u \<subseteq> set s" if "suffix u s" for u using that by (auto simp: suffix_def)
  have "match_bearer prev u = None" if "suffix u s" for prev u
  proof -
    have "takeWhile is_space (drop 6 u) = []"
    proof (cases "drop 6 u")
      case (Cons c cs)
      then have "c \<in> set s" using part [OF that] in_set_dropD [of c 6 u] by auto
      with Cons assms(1) show ?thesis by (simp add: unremarkable_def list_ex_iff)
    qed simp
    then show ?thesis by (simp add: match_bearer_def)
  qed
  moreover have "match_assignment prev u = None" if "suffix u s" for prev u
  proof -
    have "find (\<lambda>k. prefix_ci k u) assignment_keywords = None"
      using assms(1) prefix_ci_set [OF _ that]
      unfolding find_None_iff unremarkable_def list_ex_iff by blast
    then show ?thesis by (simp add: match_assignment_def)
  qed
  moreover have "match_url_creds prev u = None" if u: "suffix u s" for prev u
  proof (cases "match_url_creds prev u")
    case (Some no)
    then obtain n out where "match_url_creds prev u = Some (n, out)" by (cases no) auto
    then have "CHR ''@'' \<in> set u" by (auto elim!: match_url_creds_shape)
    with part [OF u] assms(1) show ?thesis by (auto simp: unremarkable_def)
  qed
  ultimately show ?thesis
    by (simp add: redact_text_def drop_secrets_absent [OF assms(2)] resub_id)
qed

text \<open>A digest text is unremarkable: every keyword has a letter no digest holds.\<close>

lemma digest_unremarkable:
  assumes "prefix ''sha256:'' s" and "list_all is_hex (drop 7 s)"
  shows "unremarkable s"
proof -
  from assms(1) have s: "s = ''sha256:'' @ drop 7 s" by (auto simp: prefix_def)
  have hex: "code c \<in> {48..57} \<union> {97..102}" if "c \<in> set (drop 7 s)" for c
    using assms(2) that by (auto simp: list_all_iff is_hex_def is_digit_def)
  then have chars: "c \<in> set ''sha256:'' \<or> code c \<in> {48..57} \<union> {97..102}" if "c \<in> set s" for c
    using that by (subst (asm) s) auto
  have low: "lower_char c = c" if "c \<in> set s" for c
    using chars [OF that] by (auto simp: lower_char_def is_upper_def code_def)
  then have lower: "py_lower s = s" by (simp add: py_lower_def map_idI)
  have "\<not> (c \<in> set ''sha256:'' \<or> code c \<in> {48..57} \<union> {97..102})" if "c \<in> set ''tkrpgn@''" for c
    using that by (auto simp: code_def)
  then have "c \<notin> set s" if "c \<in> set ''tkrpgn@''" for c
    using chars [of c] that by blast
  moreover have "list_all (list_ex (\<lambda>c. c \<in> set ''tkrpgn@'')) assignment_keywords" by code_simp
  moreover have "\<not> is_space c" if "c \<in> set s" for c
    using chars [OF that] by (auto simp: is_space_def code_def Let_def)
  moreover have "CHR ''@'' \<in> set ''tkrpgn@''" by simp
  ultimately show ?thesis
    unfolding unremarkable_def lower list_ex_iff list_all_iff by blast
qed

declare sanitize.simps [simp del]

section \<open>When sanitising cannot fail\<close>

lemma set_update_subset: "set (AList.update k v d) \<subseteq> insert (k, v) (set d)"
  by (induction d) auto

lemma set_dict_update_subset: "set (dict_update d e) \<subseteq> set d \<union> set e"
proof (induction e arbitrary: d)
  case (Cons kv e)
  obtain k v where kv: "kv = (k, v)" by (cases kv)
  have "set (dict_update d (kv # e)) \<subseteq> set (AList.update k v d) \<union> set e"
    using Cons.IH [of "AList.update k v d"] by (simp add: dict_update_def kv)
  then show ?case using set_update_subset [of k v d] kv by fastforce
qed (simp add: dict_update_def)

text \<open>Values without a text under a \<open>source\<close> key, at any depth.\<close>

fun sourceless :: "string \<Rightarrow> json \<Rightarrow> bool"
  and sourceless_list :: "json list \<Rightarrow> bool"
  and sourceless_items :: "dict \<Rightarrow> bool" where
  "sourceless key v =
     (case v of
        JStr s \<Rightarrow> py_lower key \<noteq> ''source''
      | JList vs \<Rightarrow> sourceless_list vs
      | JObj d \<Rightarrow> sourceless_items d
      | _ \<Rightarrow> True)"
| "sourceless_list [] = True"
| "sourceless_list (v # vs) = (sourceless [] v \<and> sourceless_list vs)"
| "sourceless_items [] = True"
| "sourceless_items ((k, v) # d) = (sourceless k v \<and> sourceless_items d)"

lemma sourceless_sanitize:
  "sourceless key v \<Longrightarrow> \<exists>w. sanitize lib secrets key v = Inr w"
  "sourceless_list vs \<Longrightarrow> \<exists>ws. sanitize_list lib secrets vs = Inr ws"
  "sourceless_items d \<Longrightarrow> \<exists>e. sanitize_items lib secrets d = Inr e"
proof (induction key v and vs and d rule: sourceless_sourceless_list_sourceless_items.induct)
  case (1 key v)
  then show ?case by (subst sanitize.simps) (auto split: json.splits)
qed (auto simp: rbind_Inr_iff)

lemma sourceless_items_iff: "sourceless_items d \<longleftrightarrow> (\<forall>(k, v) \<in> set d. sourceless k v)"
  by (induction d) (auto simp del: sourceless.simps)

lemma sourceless_update:
  "sourceless_items d \<Longrightarrow> sourceless_items e \<Longrightarrow> sourceless_items (dict_update d e)"
  unfolding sourceless_items_iff using set_dict_update_subset [of d e] by blast

end
