(* ===== verification/State.thy ===== *)
theory State
  imports Redaction
begin

text \<open>
  \<^verbatim>\<open>state.py\<close>: the durable state of the controller. The directory is a map from the five
  JSON files to what the operating system shows of them; writing a file is atomic, and each
  write or removal may fail before it takes effect or after (the directory entry is replaced
  but not yet synced). A value written as JSON loads back as itself. The wall clock is a
  sequence of readings, one per call of \<open>time.time()\<close>.
\<close>

section \<open>The directory\<close>

datatype slot = Status | Health | Rank | Refusal | Pending

instantiation slot :: enum
begin

definition enum_slot :: "slot list" where
  "enum_slot = [Status, Health, Rank, Refusal, Pending]"

definition enum_all_slot :: "(slot \<Rightarrow> bool) \<Rightarrow> bool" where
  "enum_all_slot P = list_all P [Status, Health, Rank, Refusal, Pending]"

definition enum_ex_slot :: "(slot \<Rightarrow> bool) \<Rightarrow> bool" where
  "enum_ex_slot P = list_ex P [Status, Health, Rank, Refusal, Pending]"

instance
  by standard (auto simp: enum_slot_def enum_all_slot_def enum_ex_slot_def, (metis slot.exhaust)+)

end

text \<open>
  What \<open>json.loads(path.read_text())\<close> sees of the bytes. \<open>LongNumber\<close>: an integer literal with
  more digits than \<open>int\<close> converts; \<open>TooDeep\<close>: nesting beyond the recursion limit.
\<close>

datatype content = Doc json | NotJson | NotUtf8 | LongNumber | TooDeep | Denied

text \<open>
  \<open>Hidden\<close>: the metadata cannot be read (no permission on the directory). \<open>LinkTo\<close>: a
  symbolic link, to a regular file or to something else.
\<close>

datatype jfile = Missing | Irregular | Hidden | LinkTo "content option" | Regular content

datatype write_outcome = Done | Lost | Unsynced

datatype lock_state = LockFree | LockOther | LockMine | LockBroken

record store =
  disk :: "slot \<Rightarrow> jfile"
  faults :: "write_outcome list"
  ticks :: nat
  lock :: lock_state

text \<open>What does not change while a process runs.\<close>

record store_env =
  e_lib :: stdlib
  e_secrets :: "string list"
  e_pid :: int
  e_time :: "nat \<Rightarrow> rat"
  e_utc :: "rat \<Rightarrow> string"

definition SCHEMA_VERSION :: int where "SCHEMA_VERSION = 1"

section \<open>Reading\<close>

text \<open>\<open>json.loads\<close> of the content: only \<open>OSError\<close> and \<open>JSONDecodeError\<close> are handled by the readers.\<close>

definition load_content :: "content \<Rightarrow> json res" where
  "load_content c =
     (case c of
        Doc v \<Rightarrow> Inr v
      | NotJson \<Rightarrow> fail JSONDecodeError ''invalid JSON''
      | NotUtf8 \<Rightarrow> fail UnicodeDecodeError ''invalid UTF-8''
      | LongNumber \<Rightarrow> fail ValueError ''integer string conversion limit exceeded''
      | TooDeep \<Rightarrow> fail RecursionError ''maximum recursion depth exceeded''
      | Denied \<Rightarrow> fail OSError ''unreadable'')"

definition handled_load :: "content \<Rightarrow> json res \<Rightarrow> json res" where
  "handled_load c dflt =
     (case load_content c of
        Inl e \<Rightarrow> if isinstance e OSError \<or> isinstance e JSONDecodeError then dflt else Inl e
      | Inr v \<Rightarrow> Inr v)"

definition read_file :: "jfile \<Rightarrow> dict res" where
  "read_file f =
     (let loaded = (\<lambda>c. map_sum id (\<lambda>v. case as_obj v of None \<Rightarrow> [] | Some d \<Rightarrow> d)
                         (handled_load c (Inr (JObj [])))) in
      case f of
        Regular c \<Rightarrow> loaded c
      | LinkTo (Some c) \<Rightarrow> loaded c
      | Hidden \<Rightarrow> fail OSError ''metadata unavailable''
      | _ \<Rightarrow> Inr [])"

definition read_marker :: "jfile \<Rightarrow> dict \<Rightarrow> dict res" where
  "read_marker f invalid =
     (case f of
        Missing \<Rightarrow> Inr []
      | Regular c \<Rightarrow>
          map_sum id (\<lambda>v. case as_obj v of None \<Rightarrow> invalid | Some d \<Rightarrow> if d = [] then invalid else d)
            (handled_load c (Inr (JObj invalid)))
      | _ \<Rightarrow> Inr invalid)"

definition read_slot :: "slot \<Rightarrow> ('a store_scheme, dict) prog" where
  "read_slot p = (\<lambda>w. (read_file (disk w p), w))"

abbreviation read_status :: "('a store_scheme, dict) prog" where "read_status \<equiv> read_slot Status"
abbreviation read_health :: "('a store_scheme, dict) prog" where "read_health \<equiv> read_slot Health"
abbreviation read_rank :: "('a store_scheme, dict) prog" where "read_rank \<equiv> read_slot Rank"

definition invalid_refusal :: dict where
  "invalid_refusal =
     [(''schema_version'', JInt SCHEMA_VERSION), (''authorization_latched'', JBool True),
      (''authorization_reason'', JStr ''authorization refusal marker is unreadable or invalid; operator review is required''),
      (''marker_invalid'', JBool True)]"

definition refusal_of :: "jfile \<Rightarrow> dict res" where
  "refusal_of f =
     rbind (read_marker f invalid_refusal) (\<lambda>marker.
     if marker = [] \<or> dget marker ''marker_invalid'' = JBool True then Inr marker
     else if \<not> py_eq (dget marker ''schema_version'') (JInt SCHEMA_VERSION)
        \<or> dget marker ''authorization_latched'' \<noteq> JBool True
        \<or> as_str (dget marker ''authorization_reason'') = None
        \<or> as_str (dget marker ''authorization_reason'') = Some []
     then Inr invalid_refusal
     else Inr marker)"

definition read_authorization_refusal :: "('a store_scheme, dict) prog" where
  "read_authorization_refusal = (\<lambda>w. (refusal_of (disk w Refusal), w))"

definition valid_fingerprint :: "json \<Rightarrow> bool" where
  "valid_fingerprint v =
     (case as_str v of
        None \<Rightarrow> False
      | Some s \<Rightarrow> prefix ''sha256:'' s \<and>
          length (remove_prefix ''sha256:'' s) = 64 \<and> list_all is_hex (remove_prefix ''sha256:'' s))"

definition invalid_pending :: dict where
  "invalid_pending =
     [(''schema_version'', JInt SCHEMA_VERSION), (''submission_pending'', JBool True),
      (''reason'', JStr ''submission pending marker is unreadable or invalid; operator review is required''),
      (''marker_invalid'', JBool True)]"

definition nonempty_text :: "json \<Rightarrow> bool" where
  "nonempty_text v = (case as_str v of None \<Rightarrow> False | Some s \<Rightarrow> s \<noteq> [])"

definition pending_of :: "jfile \<Rightarrow> dict res" where
  "pending_of f =
     rbind (read_marker f invalid_pending) (\<lambda>marker.
     if marker = [] \<or> dget marker ''marker_invalid'' = JBool True then Inr marker
     else if \<not> py_eq (dget marker ''schema_version'') (JInt SCHEMA_VERSION)
        \<or> dget marker ''submission_pending'' \<noteq> JBool True
        \<or> (case as_int (dget marker ''round'') of None \<Rightarrow> True | Some i \<Rightarrow> i < 0)
        \<or> \<not> nonempty_text (dget marker ''source'')
        \<or> \<not> nonempty_text (dget marker ''hotkey'')
        \<or> \<not> valid_fingerprint (dget marker ''commitment_fingerprint'')
     then Inr invalid_pending
     else Inr marker)"

definition read_submission_pending :: "('a store_scheme, dict) prog" where
  "read_submission_pending = (\<lambda>w. (pending_of (disk w Pending), w))"

section \<open>Writing\<close>

definition tick :: "store_env \<Rightarrow> ('a store_scheme, rat) prog" where
  "tick E = (\<lambda>w. (Inr (e_time E (ticks w)), w\<lparr>ticks := Suc (ticks w)\<rparr>))"

definition timestamp_of :: "store_env \<Rightarrow> rat option \<Rightarrow> ('a store_scheme, rat) prog" where
  "timestamp_of E now = (case now of None \<Rightarrow> tick E | Some t \<Rightarrow> ret t)"

text \<open>
  One change of a directory entry: \<open>_atomic_json\<close> replaces it, \<open>unlink\<close> removes it; the
  closing \<open>_fsync_root\<close> may fail after the change.
\<close>

definition change_entry :: "slot \<Rightarrow> jfile \<Rightarrow> ('a store_scheme, unit) prog" where
  "change_entry p f = (\<lambda>w.
     case faults w of
       [] \<Rightarrow> (Inr (), w\<lparr>disk := (disk w)(p := f)\<rparr>)
     | Done # os \<Rightarrow> (Inr (), w\<lparr>faults := os, disk := (disk w)(p := f)\<rparr>)
     | Lost # os \<Rightarrow> (fail OSError ''not written'', w\<lparr>faults := os\<rparr>)
     | Unsynced # os \<Rightarrow>
         (fail OSError ''directory not synced'', w\<lparr>faults := os, disk := (disk w)(p := f)\<rparr>))"

definition atomic_json :: "slot \<Rightarrow> dict \<Rightarrow> ('a store_scheme, unit) prog" where
  "atomic_json p payload = change_entry p (Regular (Doc (JObj payload)))"

text \<open>\<open>sanitize(payload, self.secrets)\<close> of a mapping.\<close>

definition clean :: "store_env \<Rightarrow> dict \<Rightarrow> ('a store_scheme, dict) prog" where
  "clean E d = lift_res (sanitize_items (e_lib E) (e_secrets E) d)"

definition refusal_payload :: "store_env \<Rightarrow> string \<Rightarrow> dict \<Rightarrow> rat \<Rightarrow> dict" where
  "refusal_payload E message details timestamp =
     dict_update
       (dict_update
         [(''schema_version'', JInt SCHEMA_VERSION), (''authorization_latched'', JBool True),
          (''authorization_reason'', JStr message), (''latched_at'', JStr (e_utc E timestamp)),
          (''latched_at_epoch'', JFloat (Fin timestamp))] details)
       [(''schema_version'', JInt SCHEMA_VERSION), (''authorization_latched'', JBool True),
        (''authorization_reason'', JStr message)]"

definition latch_authorization_refusal ::
    "store_env \<Rightarrow> string \<Rightarrow> dict \<Rightarrow> rat option \<Rightarrow> ('a store_scheme, dict) prog" where
  "latch_authorization_refusal E message details now =
     pbind read_authorization_refusal (\<lambda>existing.
     if existing \<noteq> [] \<and> dget existing ''marker_invalid'' \<noteq> JBool True then ret existing
     else
       pbind (timestamp_of E now) (\<lambda>timestamp.
       pbind (clean E (refusal_payload E message details timestamp)) (\<lambda>payload.
       pseq (atomic_json Refusal payload) (ret payload))))"

definition pending_core :: "int \<Rightarrow> string \<Rightarrow> string \<Rightarrow> string \<Rightarrow> dict" where
  "pending_core round_index source hotkey commitment_fingerprint =
     [(''schema_version'', JInt SCHEMA_VERSION), (''submission_pending'', JBool True),
      (''round'', JInt round_index), (''source'', JStr source), (''hotkey'', JStr hotkey),
      (''commitment_fingerprint'', JStr commitment_fingerprint)]"

definition pending_payload ::
    "store_env \<Rightarrow> int \<Rightarrow> string \<Rightarrow> string \<Rightarrow> string \<Rightarrow> dict \<Rightarrow> rat \<Rightarrow> dict" where
  "pending_payload E round_index source hotkey commitment_fingerprint details timestamp =
     (let core = pending_core round_index source hotkey commitment_fingerprint in
      dict_update
        (dict_update (core @ [(''created_at'', JStr (e_utc E timestamp)),
                              (''created_at_epoch'', JFloat (Fin timestamp))]) details) core)"

definition mark_submission_pending ::
    "store_env \<Rightarrow> int \<Rightarrow> string \<Rightarrow> string \<Rightarrow> string \<Rightarrow> dict \<Rightarrow> rat option \<Rightarrow>
     ('a store_scheme, dict) prog" where
  "mark_submission_pending E round_index source hotkey commitment_fingerprint details now =
     pseq (guard (\<not> (round_index < 0 \<or> source = [] \<or> hotkey = [] \<or>
                    \<not> valid_fingerprint (JStr commitment_fingerprint)))
       (Exc ControllerError ''submission pending marker fields are invalid'')) (
     pbind read_submission_pending (\<lambda>existing.
     pseq (guard (existing = [])
       (Exc ControllerError ''a submission pending marker already exists; read-only reconciliation is required'')) (
     pbind (timestamp_of E now) (\<lambda>timestamp.
     pbind (clean E (pending_payload E round_index source hotkey commitment_fingerprint details
                       timestamp)) (\<lambda>payload.
     pseq (atomic_json Pending payload) (ret payload))))))"

definition unlink_pending :: "('a store_scheme, unit) prog" where
  "unlink_pending = (\<lambda>w.
     case faults w of
       Lost # os \<Rightarrow>
         (fail ControllerError ''verified submission pending marker could not be removed'',
          w\<lparr>faults := os\<rparr>)
     | _ \<Rightarrow> change_entry Pending Missing w)"

definition clear_submission_pending :: "string \<Rightarrow> ('a store_scheme, unit) prog" where
  "clear_submission_pending commitment_fingerprint =
     pbind read_submission_pending (\<lambda>pending.
     pseq (guard (pending \<noteq> [])
       (Exc ControllerError ''submission pending marker disappeared before reconciliation'')) (
     pseq (guard (dget pending ''marker_invalid'' \<noteq> JBool True)
       (Exc ControllerError ''invalid submission pending marker cannot be cleared automatically'')) (
     pseq (guard (dget pending ''commitment_fingerprint'' = JStr commitment_fingerprint)
       (Exc ControllerError ''submission pending marker does not match the verified commitment''))
     unlink_pending)))"

definition write_rank :: "store_env \<Rightarrow> dict \<Rightarrow> ('a store_scheme, unit) prog" where
  "write_rank E payload = pbind (clean E payload) (atomic_json Rank)"

definition reserved :: "string list" where
  "reserved =
     [''schema_version'', ''updated_at'', ''updated_at_epoch'', ''pid'', ''phase'', ''ok'', ''message'']"

definition status_head :: "store_env \<Rightarrow> rat \<Rightarrow> string \<Rightarrow> bool \<Rightarrow> string \<Rightarrow> dict" where
  "status_head E timestamp phase ok message =
     [(''schema_version'', JInt SCHEMA_VERSION), (''updated_at'', JStr (e_utc E timestamp)),
      (''updated_at_epoch'', JFloat (Fin timestamp)), (''pid'', JInt (e_pid E)),
      (''phase'', JStr phase), (''ok'', JBool ok), (''message'', JStr message)]"

definition status_payload ::
    "store_env \<Rightarrow> rat \<Rightarrow> string \<Rightarrow> bool \<Rightarrow> string \<Rightarrow> dict \<Rightarrow> dict \<Rightarrow> dict" where
  "status_payload E timestamp phase ok message previous details =
     dict_update
       (dict_update (dict_without reserved previous) (status_head E timestamp phase ok message))
       (dict_without reserved details)"

definition health_of :: "dict \<Rightarrow> dict" where
  "health_of payload =
     [(''schema_version'', JInt SCHEMA_VERSION),
      (''ok'', JBool (truthy (dget_or (JBool False) payload ''ok''))),
      (''phase'', JStr (py_str (dget_or (JStr ''unknown'') payload ''phase''))),
      (''message'', JStr (py_str (dget_or (JStr []) payload ''message''))),
      (''round'', dget payload ''round''), (''last_success_round'', dget payload ''last_success_round''),
      (''updated_at'', dget payload ''updated_at''),
      (''updated_at_epoch'', dget payload ''updated_at_epoch'')]"

text \<open>\<open>StateStore.write\<close>.\<close>

definition write_state ::
    "store_env \<Rightarrow> string \<Rightarrow> bool \<Rightarrow> string \<Rightarrow> rat option \<Rightarrow> dict \<Rightarrow> dict option \<Rightarrow>
     ('a store_scheme, dict) prog" where
  "write_state E phase ok message now details preserve =
     pbind (timestamp_of E now) (\<lambda>timestamp.
     pbind (case preserve of None \<Rightarrow> read_status | Some d \<Rightarrow> ret d) (\<lambda>previous.
     pbind (clean E (status_payload E timestamp phase ok message previous details)) (\<lambda>payload.
     pseq (atomic_json Status payload) (
     pseq (atomic_json Health (health_of payload))
     (ret payload)))))"

definition verified_details :: "store_env \<Rightarrow> int \<Rightarrow> rat \<Rightarrow> dict" where
  "verified_details E round_index timestamp =
     [(''round'', JInt round_index), (''last_success_round'', JInt round_index),
      (''last_success_at'', JStr (e_utc E timestamp)),
      (''last_success_at_epoch'', JFloat (Fin timestamp)),
      (''last_verified_at'', JStr (e_utc E timestamp)),
      (''last_verified_at_epoch'', JFloat (Fin timestamp)), (''consecutive_failures'', JInt 0)]"

definition mark_verified ::
    "store_env \<Rightarrow> int \<Rightarrow> string \<Rightarrow> dict \<Rightarrow> rat option \<Rightarrow> ('a store_scheme, dict) prog" where
  "mark_verified E round_index message details now =
     pbind (timestamp_of E now) (\<lambda>timestamp.
     write_state E ''verified'' True message (Some timestamp)
       (dict_update details (verified_details E round_index timestamp)) None)"

definition heartbeat :: "store_env \<Rightarrow> rat option \<Rightarrow> ('a store_scheme, dict) prog" where
  "heartbeat E now =
     pbind read_status (\<lambda>previous.
     if previous = [] then
       write_state E ''starting'' False ''controller has not completed preflight'' None [] None
     else
       write_state E (py_str (dget_or (JStr ''unknown'') previous ''phase''))
         (truthy (dget_or (JBool False) previous ''ok''))
         (py_str (dget_or (JStr []) previous ''message'')) now
         (dict_without reserved previous) (Some previous))"

section \<open>Health\<close>

text \<open>\<open>max(0.0, x)\<close> keeps its first argument unless the second is greater, so NaN gives 0.\<close>

definition max_zero :: "pyfloat \<Rightarrow> pyfloat" where
  "max_zero x = (if float_gt x 0 then x else Fin 0)"

definition health_age :: "stdlib \<Rightarrow> rat \<Rightarrow> dict \<Rightarrow> pyfloat res" where
  "health_age lib timestamp current =
     (case float_at lib current ''updated_at_epoch'' of
        Inr f \<Rightarrow> Inr (max_zero (minus_float timestamp f))
      | Inl e \<Rightarrow>
          if isinstance e KeyError \<or> isinstance e TypeError \<or> isinstance e ValueError
          then Inr PosInf else Inl e)"

text \<open>Rounding half to even.\<close>

definition round_even :: "rat \<Rightarrow> int" where
  "round_even q =
     (let f = \<lfloor>q\<rfloor>; d = q - of_int f in
      if d < 1 / 2 then f else if d > 1 / 2 then f + 1 else if even f then f else f + 1)"

definition age_text :: "pyfloat \<Rightarrow> string" where
  "age_text a = (case a of Fin q \<Rightarrow> text_of_int (round_even q) | _ \<Rightarrow> ''inf'')"

definition health ::
    "store_env \<Rightarrow> int \<Rightarrow> rat option \<Rightarrow> ('a store_scheme, bool \<times> dict) prog" where
  "health E max_age_seconds now =
     pbind read_health (\<lambda>current.
     if current = [] then
       ret (False, [(''schema_version'', JInt SCHEMA_VERSION), (''ok'', JBool False),
                    (''phase'', JStr ''missing''), (''message'', JStr ''no health state'')])
     else
       pbind (timestamp_of E now) (\<lambda>timestamp.
       pbind (lift_res (health_age (e_lib E) timestamp current)) (\<lambda>age.
       let current = dict_update current [(''age_seconds'',
             (case age of Fin q \<Rightarrow> JFloat (Fin (of_int (round_even (q * 1000)) / 1000)) | _ \<Rightarrow> JNull))];
           current = (if float_gt age (of_int max_age_seconds)
             then dict_update current [(''ok'', JBool False),
               (''message'', JStr (''health state is stale ('' @ age_text age @ ''s old)''))]
             else current) in
       ret (truthy (dget_or (JBool False) current ''ok''), current))))"

section \<open>The lock\<close>

text \<open>
  \<open>LockBroken\<close>: the lock file cannot be opened, written or synced. Leaving the block releases
  the lock whatever the body did.
\<close>

definition with_lock :: "('a store_scheme, 'b) prog \<Rightarrow> ('a store_scheme, 'b) prog" where
  "with_lock body = (\<lambda>w.
     case lock w of
       LockBroken \<Rightarrow> (fail OSError ''lock file'', w)
     | LockOther \<Rightarrow> (fail AlreadyRunning ''another controller holds the lock'', w)
     | LockMine \<Rightarrow> (fail AlreadyRunning ''another controller holds the lock'', w)
     | LockFree \<Rightarrow>
         (case body (w\<lparr>lock := LockMine\<rparr>) of (r, w') \<Rightarrow> (r, w'\<lparr>lock := LockFree\<rparr>)))"

section \<open>Reading back\<close>

lemma read_file_simps [simp]:
  "read_file Missing = Inr []"
  "read_file (Regular (Doc (JObj d))) = Inr d"
  by (simp_all add: read_file_def handled_load_def load_content_def)

text \<open>The exceptions of \<open>json.loads\<close> that no reader of the store handles.\<close>

definition escaping :: "content \<Rightarrow> exc option" where
  "escaping c =
     (case c of
        NotUtf8 \<Rightarrow> Some (Exc UnicodeDecodeError ''invalid UTF-8'')
      | LongNumber \<Rightarrow> Some (Exc ValueError ''integer string conversion limit exceeded'')
      | TooDeep \<Rightarrow> Some (Exc RecursionError ''maximum recursion depth exceeded'')
      | _ \<Rightarrow> None)"

lemma escaping_simps [simp]:
  "escaping (Doc v) = None" "escaping NotJson = None" "escaping Denied = None"
  by (simp_all add: escaping_def)

lemma handled_load_cases:
  "handled_load c dflt =
     (case escaping c of Some e \<Rightarrow> Inl e | None \<Rightarrow> (case c of Doc v \<Rightarrow> Inr v | _ \<Rightarrow> dflt))"
  by (cases c) (simp_all add: handled_load_def load_content_def escaping_def)

lemma read_marker_Inr:
  "invalid \<noteq> [] \<Longrightarrow> read_marker f invalid = Inr m \<Longrightarrow> m = [] \<longleftrightarrow> f = Missing"
  by (cases f)
    (auto simp: read_marker_def handled_load_cases split: content.splits option.splits if_splits)

lemma read_marker_error:
  "read_marker f invalid = Inl e \<longleftrightarrow> (\<exists>c. f = Regular c \<and> escaping c = Some e)"
  by (cases f) (auto simp: read_marker_def handled_load_cases split: content.splits option.splits)

lemma invalid_markers [simp]: "invalid_refusal \<noteq> []" "invalid_pending \<noteq> []"
  by (simp_all add: invalid_refusal_def invalid_pending_def)

text \<open>A well formed marker of each kind.\<close>

definition valid_refusal :: "dict \<Rightarrow> bool" where
  "valid_refusal m \<longleftrightarrow>
     py_eq (dget m ''schema_version'') (JInt SCHEMA_VERSION) \<and>
     dget m ''authorization_latched'' = JBool True \<and> nonempty_text (dget m ''authorization_reason'')"

definition valid_pending :: "dict \<Rightarrow> bool" where
  "valid_pending m \<longleftrightarrow>
     py_eq (dget m ''schema_version'') (JInt SCHEMA_VERSION) \<and>
     dget m ''submission_pending'' = JBool True \<and>
     (\<exists>i. dget m ''round'' = JInt i \<and> 0 \<le> i) \<and>
     nonempty_text (dget m ''source'') \<and> nonempty_text (dget m ''hotkey'') \<and>
     valid_fingerprint (dget m ''commitment_fingerprint'')"

definition marked_invalid :: "dict \<Rightarrow> bool" where
  "marked_invalid m \<longleftrightarrow> dget m ''marker_invalid'' = JBool True"

lemma marked_invalid_markers [simp]: "marked_invalid invalid_refusal" "marked_invalid invalid_pending"
  by (simp_all add: marked_invalid_def invalid_refusal_def invalid_pending_def dget_def)

lemma refusal_of_Inr:
  assumes "refusal_of f = Inr m"
  shows "(m = [] \<longleftrightarrow> f = Missing) \<and> (m \<noteq> [] \<longrightarrow> marked_invalid m \<or> valid_refusal m)"
proof -
  from assms obtain r where r: "read_marker f invalid_refusal = Inr r"
    by (auto simp: refusal_of_def rbind_Inr_iff)
  have "r = [] \<longleftrightarrow> f = Missing" by (rule read_marker_Inr [OF _ r]) simp
  with r assms show ?thesis
    by (auto simp: refusal_of_def marked_invalid_def [symmetric] valid_refusal_def nonempty_text_def
        simp del: py_eq.simps split: if_splits option.splits)
qed

lemma pending_of_Inr:
  assumes "pending_of f = Inr m"
  shows "(m = [] \<longleftrightarrow> f = Missing) \<and> (m \<noteq> [] \<longrightarrow> marked_invalid m \<or> valid_pending m)"
proof -
  from assms obtain r where r: "read_marker f invalid_pending = Inr r"
    by (auto simp: pending_of_def rbind_Inr_iff)
  have "r = [] \<longleftrightarrow> f = Missing" by (rule read_marker_Inr [OF _ r]) simp
  with r assms show ?thesis
    by (auto simp: pending_of_def marked_invalid_def [symmetric] valid_pending_def
        simp del: py_eq.simps split: if_splits option.splits)
qed

lemma marker_errors:
  "refusal_of f = Inl e \<longleftrightarrow> (\<exists>c. f = Regular c \<and> escaping c = Some e)"
  "pending_of f = Inl e \<longleftrightarrow> (\<exists>c. f = Regular c \<and> escaping c = Some e)"
  by (auto simp: refusal_of_def pending_of_def rbind_Inl_iff read_marker_error split: if_splits)

lemma pending_of_doc:
  assumes "m \<noteq> []"
  shows "pending_of (Regular (Doc (JObj m))) =
    Inr (if marked_invalid m \<or> valid_pending m then m else invalid_pending)"
  using assms
  by (auto simp: pending_of_def read_marker_def handled_load_cases marked_invalid_def
      valid_pending_def simp del: py_eq.simps split: option.splits)

lemma refusal_of_doc:
  assumes "m \<noteq> []"
  shows "refusal_of (Regular (Doc (JObj m))) =
    Inr (if marked_invalid m \<or> valid_refusal m then m else invalid_refusal)"
  using assms
  by (auto simp: refusal_of_def read_marker_def handled_load_cases marked_invalid_def
      valid_refusal_def nonempty_text_def simp del: py_eq.simps split: option.splits)

lemma readers_exec [simp, prog_simps]:
  "read_slot p w = (read_file (disk w p), w)"
  "read_authorization_refusal w = (refusal_of (disk w Refusal), w)"
  "read_submission_pending w = (pending_of (disk w Pending), w)"
  by (simp_all add: read_slot_def read_authorization_refusal_def read_submission_pending_def)

section \<open>Which files an operation touches\<close>

definition touches :: "slot set \<Rightarrow> 'a store_scheme \<Rightarrow> 'a store_scheme \<Rightarrow> bool" where
  "touches S w w' \<longleftrightarrow>
     (\<forall>p. p \<notin> S \<longrightarrow> disk w' p = disk w p) \<and> lock w' = lock w \<and>
     (faults w = [] \<longrightarrow> faults w' = []) \<and> store.more w' = store.more w"

interpretation touching: effect_relation "touches S" for S
  by unfold_locales (auto simp: touches_def)

lemma touches_mono: "touches S w w' \<Longrightarrow> S \<subseteq> T \<Longrightarrow> touches T w w'"
  by (auto simp: touches_def)

lemma touches_readers [stays_intros]:
  "stays (touches S) (read_slot p)"
  "stays (touches S) read_authorization_refusal"
  "stays (touches S) read_submission_pending"
  by (auto simp: stays_def touches_def)

lemma touches_clock [stays_intros]:
  "stays (touches S) (tick E)" "stays (touches S) (timestamp_of E now)"
  by (auto simp: stays_def touches_def tick_def timestamp_of_def split: option.splits)

lemma touches_change_entry [stays_intros]: "p \<in> S \<Longrightarrow> stays (touches S) (change_entry p f)"
  by (auto simp: stays_def touches_def change_entry_def split: list.split write_outcome.split)

lemma touches_atomic_json [stays_intros]: "p \<in> S \<Longrightarrow> stays (touches S) (atomic_json p d)"
  by (simp add: atomic_json_def touches_change_entry)

lemma touches_clean [stays_intros]: "stays (touches S) (clean E d)"
  by (simp add: clean_def touching.stays_pure)

lemma touches_write_state [stays_intros]:
  "{Status, Health} \<subseteq> S \<Longrightarrow> stays (touches S) (write_state E ph ok msg now det pre)"
  by (auto simp: write_state_def intro!: stays_intros)

lemma touches_latch [stays_intros]:
  "Refusal \<in> S \<Longrightarrow> stays (touches S) (latch_authorization_refusal E msg det now)"
  by (auto simp: latch_authorization_refusal_def Let_def intro!: stays_intros)

lemma touches_mark_pending [stays_intros]:
  "Pending \<in> S \<Longrightarrow> stays (touches S) (mark_submission_pending E r src hk fp det now)"
  by (auto simp: mark_submission_pending_def Let_def intro!: stays_intros)

lemma touches_unlink_pending [stays_intros]: "Pending \<in> S \<Longrightarrow> stays (touches S) unlink_pending"
  by (auto simp: stays_def touches_def unlink_pending_def change_entry_def
      split: list.split write_outcome.split)

lemma touches_clear_pending [stays_intros]:
  "Pending \<in> S \<Longrightarrow> stays (touches S) (clear_submission_pending fp)"
  by (auto simp: clear_submission_pending_def intro!: stays_intros)

lemma touches_mark_verified [stays_intros]:
  "{Status, Health} \<subseteq> S \<Longrightarrow> stays (touches S) (mark_verified E r msg det now)"
  by (auto simp: mark_verified_def intro!: stays_intros)

lemma touches_heartbeat [stays_intros]:
  "{Status, Health} \<subseteq> S \<Longrightarrow> stays (touches S) (heartbeat E now)"
  by (auto simp: heartbeat_def intro!: stays_intros)

lemma touches_write_rank [stays_intros]: "Rank \<in> S \<Longrightarrow> stays (touches S) (write_rank E d)"
  by (auto simp: write_rank_def intro!: stays_intros)

lemma touches_health [stays_intros]: "stays (touches {}) (health E mx now)"
  by (auto simp: health_def Let_def intro!: stays_intros)

section \<open>What an operation writes\<close>

abbreviation holds :: "dict \<Rightarrow> jfile" where "holds d \<equiv> Regular (Doc (JObj d))"

lemma change_entry_Inr:
  "change_entry p f w = (Inr u, w') \<Longrightarrow> disk w' = (disk w)(p := f)"
  by (auto simp: change_entry_def split: list.splits write_outcome.splits)

lemma change_entry_Inl:
  "change_entry p f w = (Inl e, w') \<Longrightarrow>
     exc_cls e = OSError \<and> (disk w' = disk w \<or> disk w' = (disk w)(p := f))"
  by (auto simp: change_entry_def split: list.splits write_outcome.splits)

lemma clean_exec [simp, prog_simps]:
  "clean E d w = (sanitize_items (e_lib E) (e_secrets E) d, w)"
  by (simp add: clean_def)

lemma timestamp_same:
  "timestamp_of E now w = (r, w') \<Longrightarrow>
     (\<exists>t. r = Inr t \<and> (now = Some t \<or> now = None)) \<and> disk w' = disk w \<and> faults w' = faults w"
  by (auto simp: timestamp_of_def tick_def split: option.splits)

text \<open>Marking: the marker on disk is the sanitised record, and nothing was pending before.\<close>

lemma mark_pending_Inr:
  assumes "mark_submission_pending E rd src hk fp det now w = (Inr m, w')"
  shows "disk w Pending = Missing \<and> disk w' = (disk w)(Pending := holds m) \<and>
    0 \<le> rd \<and> src \<noteq> [] \<and> hk \<noteq> [] \<and> valid_fingerprint (JStr fp) \<and>
    (\<exists>payload. sanitize_items (e_lib E) (e_secrets E) payload = Inr m \<and>
       (\<forall>k v. map_of (pending_core rd src hk fp) k = Some v \<longrightarrow> map_of payload k = Some v))"
proof -
  define pl where "pl = pending_payload E rd src hk fp det"
  have core: "map_of (pl t) k = Some v"
    if "map_of (pending_core rd src hk fp) k = Some v" for t k v
    using that unfolding pl_def pending_payload_def Let_def
    by (subst map_of_dict_update_distinct) (auto simp: pending_core_def map_add_def split: option.split)
  have fields: "0 \<le> rd" "src \<noteq> []" "hk \<noteq> []" "valid_fingerprint (JStr fp)"
    using assms by (auto simp: mark_submission_pending_def guard_def split: if_splits)
  then have "pbind read_submission_pending (\<lambda>existing.
     pseq (guard (existing = [])
       (Exc ControllerError ''a submission pending marker already exists; read-only reconciliation is required'')) (
     pbind (timestamp_of E now) (\<lambda>timestamp.
     pbind (clean E (pl timestamp)) (\<lambda>payload.
     pseq (atomic_json Pending payload) (ret payload))))) w = (Inr m, w')"
    using assms by (simp add: mark_submission_pending_def guard_def pl_def)
  then obtain w1 t where "pending_of (disk w Pending) = Inr []"
    and "disk w1 = disk w" and s: "sanitize_items (e_lib E) (e_secrets E) (pl t) = Inr m"
    and a: "atomic_json Pending m w1 = (Inr (), w')"
    by (elim pbind_InrD)
      (auto simp: guard_def dest!: timestamp_same split: if_splits)
  moreover from this have "disk w Pending = Missing" using pending_of_Inr by blast
  ultimately show ?thesis
    using fields core change_entry_Inr [OF a [unfolded atomic_json_def]] by auto
qed

text \<open>Clearing: only a valid marker with this fingerprint is removed.\<close>

lemma unlink_pending_effect:
  assumes "unlink_pending w = (r, w')"
  shows "(r = Inr () \<longrightarrow> disk w' = (disk w)(Pending := Missing)) \<and>
    (disk w' = disk w \<or> disk w' = (disk w)(Pending := Missing))"
  using assms
  by (auto simp: unlink_pending_def change_entry_def split: list.splits write_outcome.splits)

lemma clear_pending_effect:
  assumes "clear_submission_pending fp w = (r, w')"
  shows "disk w' = disk w \<or>
    (disk w' = (disk w)(Pending := Missing) \<and>
     (\<exists>m. pending_of (disk w Pending) = Inr m \<and> valid_pending m \<and>
        dget m ''commitment_fingerprint'' = JStr fp))"
    and "r = Inr () \<Longrightarrow> disk w' = (disk w)(Pending := Missing) \<and>
     (\<exists>m. pending_of (disk w Pending) = Inr m \<and> valid_pending m \<and>
        dget m ''commitment_fingerprint'' = JStr fp)"
proof -
  have "disk w' = disk w \<and> r \<noteq> Inr () \<or>
    ((r = Inr () \<longrightarrow> disk w' = (disk w)(Pending := Missing)) \<and>
     (disk w' = disk w \<or> disk w' = (disk w)(Pending := Missing)) \<and>
     (\<exists>m. pending_of (disk w Pending) = Inr m \<and> valid_pending m \<and>
        dget m ''commitment_fingerprint'' = JStr fp))"
  proof (cases "pending_of (disk w Pending)")
    case (Inl e)
    with assms show ?thesis by (auto simp: clear_submission_pending_def pbind_def)
  next
    case (Inr m)
    with assms pending_of_Inr [OF Inr] unlink_pending_effect [of w r w'] show ?thesis
      by (auto simp: clear_submission_pending_def pbind_def guard_def marked_invalid_def
          split: if_splits)
  qed
  then show "disk w' = disk w \<or>
    (disk w' = (disk w)(Pending := Missing) \<and>
     (\<exists>m. pending_of (disk w Pending) = Inr m \<and> valid_pending m \<and>
        dget m ''commitment_fingerprint'' = JStr fp))"
    and "r = Inr () \<Longrightarrow> disk w' = (disk w)(Pending := Missing) \<and>
     (\<exists>m. pending_of (disk w Pending) = Inr m \<and> valid_pending m \<and>
        dget m ''commitment_fingerprint'' = JStr fp)"
    by auto
qed

text \<open>Writing the status: head and details, over what was there before.\<close>

lemma map_of_status_payload:
  "map_of (status_payload E t ph ok msg previous details) k =
     (if k \<in> set reserved then map_of (status_head E t ph ok msg) k
      else (map_of previous ++ map_of (rev details)) k)"
proof -
  have head: "distinct (map fst (status_head E t ph ok msg))" by (simp add: status_head_def)
  have keys: "map_of (status_head E t ph ok msg) k = None \<longleftrightarrow> k \<notin> set reserved"
    by (auto simp: status_head_def reserved_def map_of_eq_None_iff)
  have "rev (dict_without reserved details) = dict_without reserved (rev details)"
    by (simp add: dict_without_def rev_filter)
  then show ?thesis
    using keys
    by (auto simp: status_payload_def map_of_dict_update [of _ "dict_without _ _"]
        map_of_dict_update_distinct [OF head] map_of_dict_without map_add_def split: option.splits)
qed

lemma write_state_Inr:
  assumes "write_state E ph ok msg now details preserve w = (Inr p, w')"
  shows "\<exists>t previous. (now = Some t \<or> now = None) \<and>
    (case preserve of None \<Rightarrow> read_file (disk w Status) = Inr previous | Some d \<Rightarrow> previous = d) \<and>
    sanitize_items (e_lib E) (e_secrets E) (status_payload E t ph ok msg previous details) = Inr p \<and>
    disk w' = (disk w)(Status := holds p, Health := holds (health_of p))"
proof -
  from assms obtain t w1 previous w2 w3 where 1: "timestamp_of E now w = (Inr t, w1)"
    and 2: "(case preserve of None \<Rightarrow> read_status | Some d \<Rightarrow> ret d) w1 = (Inr previous, w2)"
    and 3: "sanitize_items (e_lib E) (e_secrets E) (status_payload E t ph ok msg previous details) = Inr p"
    and 4: "atomic_json Status p w2 = (Inr (), w3)" "atomic_json Health (health_of p) w3 = (Inr (), w')"
    unfolding write_state_def by (elim pbind_InrD) auto
  have "disk w2 = disk w1" using 2 by (auto split: option.splits)
  with timestamp_same [OF 1] change_entry_Inr [OF 4(1) [unfolded atomic_json_def]]
    change_entry_Inr [OF 4(2) [unfolded atomic_json_def]] 2 3
  show ?thesis
    by (intro exI [of _ t] exI [of _ previous]) (auto split: option.splits)
qed

lemma write_state_Inl:
  assumes "write_state E ph ok msg now details preserve w = (Inl e, w')"
  shows "\<exists>p. disk w' = disk w \<or> disk w' = (disk w)(Status := holds p) \<or>
    disk w' = (disk w)(Status := holds p, Health := holds (health_of p))"
  using assms unfolding write_state_def
proof (elim pbind_InlD pbind_InrD, goal_cases)
  case 1
  then show ?case by (auto dest: timestamp_same)
next
  case (2 t w1)
  then show ?case by (auto dest!: timestamp_same split: option.splits)
next
  case (3 t w1 previous w2)
  then show ?case by (auto dest!: timestamp_same split: option.splits)
next
  case (4 t w1 previous w2 p w3)
  then have "disk w3 = disk w" by (auto dest!: timestamp_same split: option.splits)
  with change_entry_Inl [OF 4(4) [unfolded atomic_json_def]] show ?case by auto
next
  case (5 t w1 previous w2 p w3 u w4)
  then have "disk w3 = disk w" by (auto dest!: timestamp_same split: option.splits)
  with change_entry_Inr [OF 5(4) [unfolded atomic_json_def]]
    change_entry_Inl [OF 5(5) [unfolded atomic_json_def]]
  show ?case by (intro exI [of _ p]) auto
qed auto

lemma sanitized_scalar:
  assumes "sanitize_items lib secrets d = Inr e" and "map_of d k = Some v"
    and "plain_scalar v" and "\<not> sensitive_key k"
  shows "map_of e k = Some v"
  using sanitize_items_map_of(3) [OF assms(1,2)] sanitize_scalar [OF assms(3,4)] by auto

lemma reserved_keys_plain:
  "\<not> sensitive_key ''ok''" "\<not> sensitive_key ''updated_at_epoch''" "\<not> sensitive_key ''round''"
  "\<not> sensitive_key ''last_success_round''" "\<not> sensitive_key ''last_verified_at_epoch''"
  "\<not> sensitive_key ''schema_version''" "\<not> sensitive_key ''submission_pending''"
  "\<not> sensitive_key ''commitment_fingerprint''" "\<not> sensitive_key ''source''"
  "\<not> sensitive_key ''hotkey''" "\<not> sensitive_key ''authorization_latched''"
  "\<not> sensitive_key ''authorization_reason''"
  by code_simp+

section \<open>Properties\<close>

lemma escaping_Some:
  "escaping c = Some e \<Longrightarrow>
     (Regular c, exc_cls e) \<in> {(Regular NotUtf8, UnicodeDecodeError), (Regular LongNumber, ValueError),
       (Regular TooDeep, RecursionError)}"
  by (cases c) (auto simp: escaping_def)

text \<open>
  C22: the two safety markers fail closed. Only a missing file reads as "no marker"; whatever
  else is at the path (a link, a directory, unreadable, malformed or foreign content) reads as
  a marker that is either well formed or flagged invalid. Three kinds of regular file raise
  instead: one that is not UTF-8, one with an integer literal beyond the digit limit of \<open>int\<close>,
  and one nested beyond the recursion limit.
\<close>

theorem markers_fail_closed:
  "(case refusal_of f of
      Inl e \<Rightarrow> (f, exc_cls e) \<in> {(Regular NotUtf8, UnicodeDecodeError), (Regular LongNumber, ValueError),
                 (Regular TooDeep, RecursionError)}
    | Inr m \<Rightarrow> if f = Missing then m = [] else m \<noteq> [] \<and> (marked_invalid m \<or> valid_refusal m)) \<and>
   (case pending_of f of
      Inl e \<Rightarrow> (f, exc_cls e) \<in> {(Regular NotUtf8, UnicodeDecodeError), (Regular LongNumber, ValueError),
                 (Regular TooDeep, RecursionError)}
    | Inr m \<Rightarrow> if f = Missing then m = [] else m \<noteq> [] \<and> (marked_invalid m \<or> valid_pending m))"
proof (intro conjI)
  show "case refusal_of f of
      Inl e \<Rightarrow> (f, exc_cls e) \<in> {(Regular NotUtf8, UnicodeDecodeError), (Regular LongNumber, ValueError),
                 (Regular TooDeep, RecursionError)}
    | Inr m \<Rightarrow> if f = Missing then m = [] else m \<noteq> [] \<and> (marked_invalid m \<or> valid_refusal m)"
    using refusal_of_Inr [of f] marker_errors(1) [of f] escaping_Some
    by (cases "refusal_of f") fastforce+
  show "case pending_of f of
      Inl e \<Rightarrow> (f, exc_cls e) \<in> {(Regular NotUtf8, UnicodeDecodeError), (Regular LongNumber, ValueError),
                 (Regular TooDeep, RecursionError)}
    | Inr m \<Rightarrow> if f = Missing then m = [] else m \<noteq> [] \<and> (marked_invalid m \<or> valid_pending m)"
    using pending_of_Inr [of f] marker_errors(2) [of f] escaping_Some
    by (cases "pending_of f") fastforce+
qed

text \<open>
  Health follows the last status write: when a write with clock reading \<open>t\<close> succeeds, a
  health check at \<open>t'\<close> with age limit \<open>m\<close> reports healthy exactly when that write said ok and
  \<open>t'\<close> is at most \<open>m\<close> after \<open>t\<close>, whatever details the write carried or preserved. When a
  write fails, the health file never runs ahead: nothing changed, or the status alone, or
  both to the same complete payload.
\<close>

theorem health_follows_write:
  "case write_state E ph ok msg (Some t) details preserve w of
     (Inl e, w') \<Rightarrow>
       (\<exists>p. disk w' = disk w \<or> disk w' = (disk w)(Status := holds p) \<or>
            disk w' = (disk w)(Status := holds p, Health := holds (health_of p)))
   | (Inr p, w') \<Rightarrow>
       (case health E m (Some t') w' of
          (Inl e, _) \<Rightarrow> False
        | (Inr (healthy, d), w'') \<Rightarrow>
            w'' = w' \<and> (healthy \<longleftrightarrow> ok \<and> max 0 (t' - t) \<le> of_int m))"
proof -
  obtain r w' where run: "write_state E ph ok msg (Some t) details preserve w = (r, w')"
    by (cases "write_state E ph ok msg (Some t) details preserve w")
  show ?thesis
  proof (cases r)
    case (Inr p)
    from write_state_Inr [OF run [unfolded Inr]] obtain previous where
      p: "sanitize_items (e_lib E) (e_secrets E) (status_payload E t ph ok msg previous details) = Inr p"
      and disk: "disk w' = (disk w)(Status := holds p, Health := holds (health_of p))"
      by auto
    have keys: "''ok'' \<in> set reserved" "''updated_at_epoch'' \<in> set reserved"
      by (simp_all add: reserved_def)
    have "map_of p ''ok'' = Some (JBool ok)"
      by (rule sanitized_scalar [OF p])
        (simp_all add: map_of_status_payload keys reserved_keys_plain, simp add: status_head_def)
    moreover have "map_of p ''updated_at_epoch'' = Some (JFloat (Fin t))"
      by (rule sanitized_scalar [OF p])
        (simp_all add: map_of_status_payload keys reserved_keys_plain, simp add: status_head_def)
    ultimately have h: "map_of (health_of p) ''ok'' = Some (JBool ok)"
      "map_of (health_of p) ''updated_at_epoch'' = Some (JFloat (Fin t))"
      by (simp_all add: health_of_def dget_or_def dget_def)
    then have age: "health_age (e_lib E) t' (health_of p) = Inr (max_zero (Fin (t' - t)))"
      by (simp add: health_age_def float_at_def)
    have ok: "map_of (dict_update (health_of p) [(''age_seconds'', v)]) ''ok'' = Some (JBool ok)" for v
      using h(1) by (simp add: map_of_dict_update)
    have "health_of p \<noteq> []" by (simp add: health_of_def)
    then have "health E m (Some t') w' =
        (Inr (ok \<and> \<not> float_gt (max_zero (Fin (t' - t))) (of_int m),
              snd (projr (fst (health E m (Some t') w')))), w')"
      by (simp add: health_def disk timestamp_of_def pbind_def age Let_def dget_or_def ok
          map_of_dict_update) (simp add: h(1))
    then obtain d where "health E m (Some t') w' =
        (Inr (ok \<and> \<not> float_gt (max_zero (Fin (t' - t))) (of_int m), d), w')"
      by blast
    moreover have "\<not> float_gt (max_zero (Fin (t' - t))) (of_int m) \<longleftrightarrow> max 0 (t' - t) \<le> of_int m"
      by (auto simp: max_zero_def max_def not_less)
    ultimately show ?thesis by (simp add: run Inr)
  next
    case (Inl e)
    with run write_state_Inl [of E ph ok msg "Some t" details preserve w e w'] show ?thesis by simp
  qed
qed

definition example_env :: store_env where
  "example_env = \<lparr>e_lib = example_lib, e_secrets = [], e_pid = 1, e_time = of_nat, e_utc = (\<lambda>_. ''T'')\<rparr>"

definition empty_store :: store where
  "empty_store = \<lparr>disk = (\<lambda>_. Missing), faults = [], ticks = 0, lock = LockFree\<rparr>"

text \<open>
  C23: a recorded submission stays visible, exactly as recorded. When \<open>mark_submission_pending\<close>
  returns a marker, nothing was pending before, and the marker holds the round that was passed
  and the redacted source, hot key and fingerprint (with no secret in them, the texts that were
  passed). The very next read returns that marker, or, when redaction emptied a field or broke
  the fingerprint, the marker of an invalid record: never nothing.
\<close>

theorem mark_then_read:
  assumes "mark_submission_pending E rd src hk fp details now w = (Inr m, w')"
  shows "read_submission_pending w = (Inr [], w) \<and>
    (\<exists>source. safe_source (e_lib E) src (e_secrets E) = Inr source \<and>
       dget m ''round'' = JInt rd \<and> dget m ''source'' = JStr source \<and>
       dget m ''hotkey'' = JStr (redact_text hk (e_secrets E)) \<and>
       dget m ''commitment_fingerprint'' = JStr (redact_text fp (e_secrets E)) \<and>
       read_submission_pending w' =
         (Inr (if marked_invalid m \<or> source \<noteq> [] \<and> redact_text hk (e_secrets E) \<noteq> [] \<and>
                  valid_fingerprint (JStr (redact_text fp (e_secrets E)))
               then m else invalid_pending), w'))"
proof -
  from mark_pending_Inr [OF assms(1)] obtain payload where
    before: "disk w Pending = Missing" and after: "disk w' = (disk w)(Pending := holds m)"
    and args: "0 \<le> rd"
    and s: "sanitize_items (e_lib E) (e_secrets E) payload = Inr m"
    and core: "\<And>k v. map_of (pending_core rd src hk fp) k = Some v \<Longrightarrow> map_of payload k = Some v"
    by blast
  have scalars: "map_of m ''round'' = Some (JInt rd)" "map_of m ''submission_pending'' = Some (JBool True)"
    "map_of m ''schema_version'' = Some (JInt SCHEMA_VERSION)"
    by (rule sanitized_scalar [OF s core]; simp add: pending_core_def reserved_keys_plain)+
  have lower: "py_lower ''source'' = ''source''" "py_lower ''hotkey'' \<noteq> ''source''"
    "py_lower ''commitment_fingerprint'' \<noteq> ''source''" by code_simp+
  have fields: "map_of payload ''source'' = Some (JStr src)" "map_of payload ''hotkey'' = Some (JStr hk)"
    "map_of payload ''commitment_fingerprint'' = Some (JStr fp)"
    by (rule core; simp add: pending_core_def)+
  have texts: "map_of m ''hotkey'' = Some (JStr (redact_text hk (e_secrets E)))"
    "map_of m ''commitment_fingerprint'' = Some (JStr (redact_text fp (e_secrets E)))"
    using fields(2,3) sanitize_items_map_of(3) [OF s] lower(2,3) reserved_keys_plain
    by (fastforce simp: sanitize_any_text)+
  obtain source where source: "safe_source (e_lib E) src (e_secrets E) = Inr source"
    "map_of m ''source'' = Some (JStr source)"
    using fields(1) sanitize_items_map_of(3) [OF s] lower(1) reserved_keys_plain(9)
    by (fastforce simp: sanitize_any_text map_sum_Inr)
  have "m \<noteq> []" using scalars by auto
  moreover have "valid_pending m \<longleftrightarrow> source \<noteq> [] \<and> redact_text hk (e_secrets E) \<noteq> [] \<and>
      valid_fingerprint (JStr (redact_text fp (e_secrets E)))"
    using scalars texts source(2) args
    by (simp add: valid_pending_def dget_def nonempty_text_def SCHEMA_VERSION_def num_eq_def)
  ultimately have "pending_of (disk w' Pending) = Inr (if marked_invalid m \<or> source \<noteq> [] \<and>
      redact_text hk (e_secrets E) \<noteq> [] \<and> valid_fingerprint (JStr (redact_text fp (e_secrets E)))
      then m else invalid_pending)"
    using after by (simp add: pending_of_doc)
  moreover have "pending_of (disk w Pending) = Inr []" using before by (simp add: pending_of_def read_marker_def)
  ultimately show ?thesis
    using scalars texts source by (intro conjI exI [of _ source]) (simp_all add: dget_def)
qed

theorem mark_then_read_witness:
  "\<exists>m w'. mark_submission_pending example_env 7 ''s3:b/k'' ''5H'' (''sha256:'' @ replicate 64 CHR ''a'') [] (Some 5)
       empty_store = (Inr m, w') \<and>
     read_submission_pending w' = (Inr m, w') \<and> dget m ''round'' = JInt 7 \<and> dget m ''hotkey'' = JStr ''5H'' \<and>
     dget m ''source'' = JStr ''s3:b/k''"
proof -
  let ?fp = "''sha256:'' @ replicate 64 CHR ''a''"
  let ?E = example_env and ?w = empty_store
  have "unremarkable ?fp" by (rule digest_unremarkable) (simp_all add: list_all_iff is_hex_def code_def)
  then have fp': "redact_text ?fp [] = ?fp" by (simp add: redact_text_unremarkable)
  have plain: "redact_text ''5H'' [] = ''5H''" "safe_source example_lib ''s3:b/k'' [] = Inr ''s3:b/k''"
    by code_simp+
  note plain = plain(1) fp' plain(2)
  have fp: "valid_fingerprint (JStr ?fp)" by code_simp
  have lower: "py_lower ''source'' = ''source''" "py_lower ''hotkey'' \<noteq> ''source''"
    "py_lower ''commitment_fingerprint'' \<noteq> ''source''" "py_lower ''created_at'' \<noteq> ''source''"
    "\<not> sensitive_key ''created_at''" "\<not> sensitive_key ''created_at_epoch''"
    "redact_text ''T'' [] = ''T''"
    by code_simp+
  have "\<not> isl (fst (mark_submission_pending ?E 7 ''s3:b/k'' ''5H'' ?fp [] (Some 5) ?w))"
    using fp plain lower reserved_keys_plain
    by (simp add: mark_submission_pending_def example_env_def empty_store_def pbind_def timestamp_of_def Let_def
        pending_of_def read_marker_def pending_payload_def pending_core_def dict_update_def atomic_json_def
        change_entry_def sanitize_scalar sanitize_text sanitize_source)
  then obtain m w' where run:
    "mark_submission_pending ?E 7 ''s3:b/k'' ''5H'' ?fp [] (Some 5) ?w = (Inr m, w')"
    by (cases "mark_submission_pending ?E 7 ''s3:b/k'' ''5H'' ?fp [] (Some 5) ?w"; cases "fst (mark_submission_pending ?E 7 ''s3:b/k'' ''5H'' ?fp [] (Some 5) ?w)") auto
  have "e_lib ?E = example_lib" "e_secrets ?E = []" by (simp_all add: example_env_def)
  with mark_then_read [OF run] plain fp run show ?thesis by auto
qed

section \<open>Runs of the store\<close>

text \<open>The operations that change the directory, as events, in any order and with any faults.\<close>

datatype store_event =
    Latch | Mark int string string string | Clear string | StatusWrite | RankWrite

inductive store_step :: "store_env \<Rightarrow> store_event \<Rightarrow> store \<Rightarrow> store \<Rightarrow> bool" for E where
  latch_step:
    "latch_authorization_refusal E msg det now w = (r, w') \<Longrightarrow> store_step E Latch w w'"
| mark_step:
    "mark_submission_pending E rd src hk fp det now w = (r, w') \<Longrightarrow>
       store_step E (Mark rd src hk fp) w w'"
| clear_step: "clear_submission_pending fp w = (r, w') \<Longrightarrow> store_step E (Clear fp) w w'"
| write_step:
    "write_state E ph ok msg now det pre w = (r, w') \<Longrightarrow> store_step E StatusWrite w w'"
| verified_step: "mark_verified E rd msg det now w = (r, w') \<Longrightarrow> store_step E StatusWrite w w'"
| heartbeat_step: "heartbeat E now w = (r, w') \<Longrightarrow> store_step E StatusWrite w w'"
| rank_step: "write_rank E d w = (r, w') \<Longrightarrow> store_step E RankWrite w w'"

inductive store_run :: "store_env \<Rightarrow> store_event list \<Rightarrow> store \<Rightarrow> store \<Rightarrow> bool" for E where
  run_none: "store_run E [] w w"
| run_step: "store_run E es u v \<Longrightarrow> store_step E e v w \<Longrightarrow> store_run E (es @ [e]) u w"

inductive_cases store_stepE: "store_step E e w w'"

lemma latch_effect:
  assumes "latch_authorization_refusal E msg det now w = (r, w')"
  shows "disk w' Refusal = disk w Refusal \<or> (\<exists>m. m \<noteq> [] \<and> disk w' Refusal = holds m)"
    and "refusal_of (disk w Refusal) = Inr m \<Longrightarrow> m \<noteq> [] \<Longrightarrow> \<not> marked_invalid m \<Longrightarrow>
      r = Inr m \<and> w' = w"
    and "r = Inr p \<Longrightarrow> disk w' Refusal \<noteq> Missing"
proof -
  define pl where "pl = refusal_payload E msg det"
  have pl: "map_of (pl t) ''authorization_latched'' = Some (JBool True)" for t
    by (simp add: pl_def refusal_payload_def map_of_dict_update)
  have ne: "p \<noteq> []" if "sanitize_items (e_lib E) (e_secrets E) (pl t) = Inr p" for t p
    using sanitize_items_map_of(3) [OF that pl] by auto
  have def: "latch_authorization_refusal E msg det now =
     pbind read_authorization_refusal (\<lambda>existing.
     if existing \<noteq> [] \<and> \<not> marked_invalid existing then ret existing
     else pbind (timestamp_of E now) (\<lambda>t. pbind (clean E (pl t)) (\<lambda>p.
          pseq (atomic_json Refusal p) (ret p))))"
    unfolding latch_authorization_refusal_def marked_invalid_def pl_def by (rule refl)
  show "refusal_of (disk w Refusal) = Inr m \<Longrightarrow> m \<noteq> [] \<Longrightarrow> \<not> marked_invalid m \<Longrightarrow>
      r = Inr m \<and> w' = w"
    using assms by (simp add: def pbind_def)
  have "(\<exists>e. r = Inl e) \<and> disk w' = disk w \<or>
    (\<exists>m. refusal_of (disk w Refusal) = Inr m \<and> m \<noteq> [] \<and> disk w' = disk w) \<or>
    (\<exists>p. p \<noteq> [] \<and> (disk w' = disk w \<and> (\<exists>e. r = Inl e) \<or> disk w' = (disk w)(Refusal := holds p)))"
  proof (cases "refusal_of (disk w Refusal)")
    case (Inr m)
    show ?thesis
    proof (cases "m \<noteq> [] \<and> \<not> marked_invalid m")
      case True
      with assms Inr show ?thesis by (auto simp: def pbind_def)
    next
      case False
      obtain rt w1 where t: "timestamp_of E now w = (rt, w1)" by (cases "timestamp_of E now w")
      with timestamp_same [OF t] obtain ts where rt: "rt = Inr ts" and d1: "disk w1 = disk w" by auto
      show ?thesis
      proof (cases "sanitize_items (e_lib E) (e_secrets E) (pl ts)")
        case (Inl e)
        with assms \<open>refusal_of _ = _\<close> False t rt have "r = Inl e \<and> w' = w1"
          by (auto simp: def pbind_def)
        with d1 show ?thesis by simp
      next
        case (Inr p)
        obtain ra w2 where a: "atomic_json Refusal p w1 = (ra, w2)"
          by (cases "atomic_json Refusal p w1")
        have res: "w' = w2" "ra = Inr () \<and> r = Inr p \<or> (\<exists>e. ra = Inl e \<and> r = Inl e)"
          using assms \<open>refusal_of _ = _\<close> False t rt Inr a
          by (auto simp: def pbind_def split: sum.splits)
        from a have "ra = Inr () \<Longrightarrow> disk w2 = (disk w)(Refusal := holds p)"
          "ra = Inl e \<Longrightarrow> disk w2 = disk w \<or> disk w2 = (disk w)(Refusal := holds p)" for e
          using change_entry_Inr [of Refusal "holds p" w1 "()" w2]
            change_entry_Inl [of Refusal "holds p" w1 e w2] d1
          by (auto simp: atomic_json_def)
        with res ne [OF Inr] show ?thesis by auto
      qed
    qed
  next
    case (Inl e)
    with assms have "r = Inl e \<and> w' = w" by (auto simp: def pbind_def)
    then show ?thesis by simp
  qed
  then show "disk w' Refusal = disk w Refusal \<or> (\<exists>m. m \<noteq> [] \<and> disk w' Refusal = holds m)"
    and "r = Inr p \<Longrightarrow> disk w' Refusal \<noteq> Missing"
    using refusal_of_Inr [of "disk w Refusal"] by auto
qed

lemma mark_effect:
  assumes "mark_submission_pending E rd src hk fp det now w = (r, w')"
    and "disk w Pending \<noteq> Missing"
  shows "disk w' = disk w"
proof -
  have "pending_of (disk w Pending) \<noteq> Inr []" using assms(2) pending_of_Inr by blast
  with assms(1) show ?thesis
    by (auto simp: mark_submission_pending_def guard_def pbind_def split: if_splits sum.splits)
qed

lemma store_step_touches:
  assumes "store_step E e w w'"
  shows "touches (case e of Latch \<Rightarrow> {Refusal} | Mark _ _ _ _ \<Rightarrow> {Pending} | Clear _ \<Rightarrow> {Pending}
      | StatusWrite \<Rightarrow> {Status, Health} | RankWrite \<Rightarrow> {Rank}) w w'"
  using assms
  by (cases rule: store_step.cases)
    (auto intro: staysD [OF touches_latch] staysD [OF touches_mark_pending]
      staysD [OF touches_clear_pending] staysD [OF touches_write_state]
      staysD [OF touches_mark_verified] staysD [OF touches_heartbeat] staysD [OF touches_write_rank])

lemma store_step_refusal:
  assumes "store_step E e w w'"
  shows "disk w Refusal \<noteq> Missing \<Longrightarrow> disk w' Refusal \<noteq> Missing"
    and "refusal_of (disk w Refusal) = Inr m \<Longrightarrow> m \<noteq> [] \<Longrightarrow> \<not> marked_invalid m \<Longrightarrow>
      disk w' Refusal = disk w Refusal"
proof -
  have other: "disk w' Refusal = disk w Refusal" if "e \<noteq> Latch"
    using store_step_touches [OF assms] that by (cases e) (auto simp: touches_def)
  have latch: "\<exists>msg det now r. latch_authorization_refusal E msg det now w = (r, w')" if "e = Latch"
    using assms that by (cases rule: store_step.cases) auto
  show "disk w Refusal \<noteq> Missing \<Longrightarrow> disk w' Refusal \<noteq> Missing"
    using other latch latch_effect(1) by (cases "e = Latch") fastforce+
  show "disk w' Refusal = disk w Refusal"
    if "refusal_of (disk w Refusal) = Inr m" "m \<noteq> []" "\<not> marked_invalid m"
    using other latch latch_effect(2) [OF _ that] by (cases "e = Latch") blast+
qed

lemma store_step_pending:
  assumes "store_step E e w w'" and "disk w Pending \<noteq> Missing"
  shows "disk w' Pending = disk w Pending \<or>
    (\<exists>fp m. e = Clear fp \<and> pending_of (disk w Pending) = Inr m \<and> valid_pending m \<and>
       dget m ''commitment_fingerprint'' = JStr fp)"
  using assms(1)
proof (cases rule: store_step.cases)
  case (mark_step rd src hk fp det now r)
  with mark_effect assms(2) show ?thesis by fastforce
next
  case (clear_step fp r)
  with clear_pending_effect(1) show ?thesis by fastforce
qed (use store_step_touches [OF assms(1)] in \<open>auto simp: touches_def\<close>)

text \<open>
  C21: refusals and uncertain submissions are sticky. Over any run of the store's operations,
  with any interleaving and any write faults: an authorization refusal marker never
  disappears and a well formed one is never changed (the first refusal wins); and a pending
  submission marker stays byte for byte unless the run clears exactly its own, well formed,
  fingerprint.
\<close>

theorem markers_sticky:
  assumes "store_run E es w w'"
  shows "(disk w Refusal \<noteq> Missing \<longrightarrow> disk w' Refusal \<noteq> Missing) \<and>
    (\<forall>m. refusal_of (disk w Refusal) = Inr m \<and> m \<noteq> [] \<and> \<not> marked_invalid m \<longrightarrow>
       disk w' Refusal = disk w Refusal) \<and>
    (disk w Pending \<noteq> Missing \<longrightarrow>
       disk w' Pending = disk w Pending \<or>
       (\<exists>fp m. Clear fp \<in> set es \<and> pending_of (disk w Pending) = Inr m \<and> valid_pending m \<and>
          dget m ''commitment_fingerprint'' = JStr fp))"
  using assms
proof (induction rule: store_run.induct)
  case (run_step es u v e w)
  have 1: "disk u Refusal \<noteq> Missing \<longrightarrow> disk w Refusal \<noteq> Missing"
    using run_step.IH store_step_refusal(1) [OF run_step.hyps(2)] by blast
  have 2: "disk w Refusal = disk u Refusal"
    if "refusal_of (disk u Refusal) = Inr m" "m \<noteq> []" "\<not> marked_invalid m" for m
  proof -
    have "disk v Refusal = disk u Refusal" using run_step.IH that by blast
    with store_step_refusal(2) [OF run_step.hyps(2)] that show ?thesis by metis
  qed
  have 3: "disk w Pending = disk u Pending \<or>
       (\<exists>fp m. Clear fp \<in> set (es @ [e]) \<and> pending_of (disk u Pending) = Inr m \<and> valid_pending m \<and>
          dget m ''commitment_fingerprint'' = JStr fp)" if "disk u Pending \<noteq> Missing"
  proof (cases "disk v Pending = disk u Pending")
    case True
    with store_step_pending [OF run_step.hyps(2)] that show ?thesis by auto
  next
    case False
    with run_step.IH that show ?thesis by auto
  qed
  from 1 2 3 show ?case by blast
qed auto

theorem markers_sticky_witness:
  "\<exists>E w w'. store_run E [StatusWrite] w (w' :: store) \<and> disk w' Refusal \<noteq> Missing"
proof -
  define E :: store_env where
    "E = \<lparr>e_lib = example_lib, e_secrets = [], e_pid = 1, e_time = (\<lambda>n. of_nat n), e_utc = (\<lambda>_. ''T'')\<rparr>"
  define w :: store where
    "w = \<lparr>disk = (\<lambda>_. Irregular), faults = [], ticks = 0, lock = LockFree\<rparr>"
  obtain r w' where "heartbeat E (Some 3) w = (r, w')" by (cases "heartbeat E (Some 3) w")
  then have "store_run E ([] @ [StatusWrite]) w w'"
    by (rule store_run.run_step [OF store_run.run_none heartbeat_step])
  then have run: "store_run E [StatusWrite] w w'" by simp
  have "disk w Refusal \<noteq> Missing" by (simp add: w_def)
  with markers_sticky [OF run] run show ?thesis by blast
qed

end
