(* ===== verification/Models.thy ===== *)
theory Models
  imports PyJson
begin

text \<open>
  \<^verbatim>\<open>models.py\<close>: the frozen dataclasses the components exchange and their dictionary forms.
  The field \<open>native\<close> of a packaged artifact is the upstream manifest it was built from; it
  takes no part in \<open>public_dict\<close>, and no code compares packaged artifacts.
\<close>

record round_window =
  w_index :: int
  w_start_block :: int
  w_close_block :: int
  w_end_block :: int
  w_phase :: string
  w_source :: string
  w_config_hash :: string
  w_seed_block :: int
  w_block_hash :: string
  w_max_size_bytes :: int
  w_max_rss_bytes :: int
  w_max_p95_ms :: int
  w_mechanism_version :: string
  w_corpus_version :: string
  w_corpus_digest :: string
  w_metric :: string
  w_emission_share :: pyfloat
  w_cpu_seconds_per_artifact :: int
  w_tasks_per_round :: int
  w_environment_digest :: string

text \<open>The constructor with the six required fields and every default.\<close>

definition make_window ::
    "int \<Rightarrow> int \<Rightarrow> int \<Rightarrow> int \<Rightarrow> string \<Rightarrow> string \<Rightarrow> round_window" where
  "make_window idx start close fin phase src =
     \<lparr>w_index = idx, w_start_block = start, w_close_block = close, w_end_block = fin,
      w_phase = phase, w_source = src, w_config_hash = [], w_seed_block = 0, w_block_hash = [],
      w_max_size_bytes = 0, w_max_rss_bytes = 0, w_max_p95_ms = 0, w_mechanism_version = [],
      w_corpus_version = [], w_corpus_digest = [], w_metric = [], w_emission_share = Fin 0,
      w_cpu_seconds_per_artifact = 0, w_tasks_per_round = 0, w_environment_digest = []\<rparr>"

definition accepts_submissions :: "round_window \<Rightarrow> bool" where
  "accepts_submissions w \<longleftrightarrow> w_phase w = ''submissions''"

definition accepts_at :: "round_window \<Rightarrow> int \<Rightarrow> int \<Rightarrow> bool" where
  "accepts_at w block margin_blocks \<longleftrightarrow>
     accepts_submissions w \<and> w_start_block w \<le> block \<and> block < w_close_block w - margin_blocks"

definition window_dict :: "round_window \<Rightarrow> dict" where
  "window_dict w =
     [(''index'', JInt (w_index w)), (''start_block'', JInt (w_start_block w)),
      (''close_block'', JInt (w_close_block w)), (''end_block'', JInt (w_end_block w)),
      (''phase'', JStr (w_phase w)), (''source'', JStr (w_source w)),
      (''config_hash'', JStr (w_config_hash w)), (''seed_block'', JInt (w_seed_block w)),
      (''block_hash'', JStr (w_block_hash w)), (''max_size_bytes'', JInt (w_max_size_bytes w)),
      (''max_rss_bytes'', JInt (w_max_rss_bytes w)), (''max_p95_ms'', JInt (w_max_p95_ms w)),
      (''mechanism_version'', JStr (w_mechanism_version w)),
      (''corpus_version'', JStr (w_corpus_version w)),
      (''corpus_digest'', JStr (w_corpus_digest w)), (''metric'', JStr (w_metric w)),
      (''emission_share'', JFloat (w_emission_share w)),
      (''cpu_seconds_per_artifact'', JInt (w_cpu_seconds_per_artifact w)),
      (''tasks_per_round'', JInt (w_tasks_per_round w)),
      (''environment_digest'', JStr (w_environment_digest w))]"

record preflight_snapshot =
  p_hotkey :: string
  p_uid :: int
  p_chain_head :: int
  p_upstream_version :: string
  p_upstream_commit :: string

definition snapshot_dict :: "preflight_snapshot \<Rightarrow> dict" where
  "snapshot_dict p =
     [(''hotkey'', JStr (p_hotkey p)), (''uid'', JInt (p_uid p)),
      (''chain_head'', JInt (p_chain_head p)), (''upstream_version'', JStr (p_upstream_version p)),
      (''upstream_commit'', JStr (p_upstream_commit p))]"

text \<open>
  The attributes of the upstream manifest object that the code reads; \<open>mf_digest\<close> is the answer
  of its method \<open>digest\<close>, \<open>mf_sealed\<close> whether \<open>sealed\<close> is not \<open>None\<close>.
\<close>

record manifest =
  mf_round_index :: int
  mf_source :: string
  mf_hotkey :: string
  mf_digest :: string
  mf_artifact_digest :: string
  mf_files :: "string list"
  mf_total_bytes :: int
  mf_sealed :: bool
  mf_signature :: string

record packaged_artifact =
  k_round_index :: int
  k_source :: string
  k_hotkey :: string
  k_manifest_digest :: string
  k_artifact_digest :: string
  k_file_count :: int
  k_total_bytes :: int
  k_sealed :: bool
  k_native :: "manifest option"

definition public_dict :: "packaged_artifact \<Rightarrow> dict" where
  "public_dict k =
     [(''round_index'', JInt (k_round_index k)), (''source'', JStr (k_source k)),
      (''hotkey'', JStr (k_hotkey k)), (''manifest_digest'', JStr (k_manifest_digest k)),
      (''artifact_digest'', JStr (k_artifact_digest k)), (''file_count'', JInt (k_file_count k)),
      (''total_bytes'', JInt (k_total_bytes k)), (''sealed'', JBool (k_sealed k))]"

record publish_receipt =
  r_round_index :: int
  r_payload :: string

record verification_proofs =
  v_source :: bool
  v_provenance :: bool
  v_on_chain :: bool
  v_source_full :: bool

definition proofs_complete :: "verification_proofs \<Rightarrow> bool" where
  "proofs_complete v \<longleftrightarrow> v_source v \<and> v_provenance v \<and> v_on_chain v \<and> v_source_full v"

definition proofs_dict :: "verification_proofs \<Rightarrow> dict" where
  "proofs_dict v =
     [(''source'', JBool (v_source v)), (''provenance'', JBool (v_provenance v)),
      (''on_chain'', JBool (v_on_chain v)), (''source_full'', JBool (v_source_full v))]"

definition no_proofs :: verification_proofs where
  "no_proofs = \<lparr>v_source = False, v_provenance = False, v_on_chain = False, v_source_full = False\<rparr>"

text \<open>A larger safety margin only shrinks the blocks at which a round accepts submissions.\<close>

lemma accepts_at_antimono:
  "accepts_at w block m \<Longrightarrow> m' \<le> m \<Longrightarrow> accepts_at w block m'"
  by (auto simp: accepts_at_def)

end
