(* ===== verification/Coordinator.thy ===== *)
theory Coordinator
  imports Models Config
begin

text \<open>
  \<^verbatim>\<open>coordinator.py\<close>: the decision whether a round the coordinator serves can be trusted. The
  HTTP exchange of \<open>fetch_current_round\<close> is its answer (the bytes read, or a transport
  failure); everything the code decides from that answer is modelled.
\<close>

definition MAX_RESPONSE_BYTES :: nat where "MAX_RESPONSE_BYTES = 1024 * 1024"

definition sha256_rx :: rx where "sha256_rx = Cat (Lit ''sha256:'') (Rep is_hex 64 (Some 64))"
definition block_hash_rx :: rx where "block_hash_rx = Cat (Lit ''0x'') (Rep is_hex 64 (Some 64))"
definition environment_digest_rx :: rx where
  "environment_digest_rx = Cat (Lit ''env:'') (Rep is_hex 16 (Some 16))"

definition refused :: "string \<Rightarrow> exc" where "refused t = Exc RoundRefused t"
definition not_open :: "string \<Rightarrow> exc" where "not_open t = Exc RoundNotOpen t"

section \<open>Fetching\<close>

definition canonical_hash :: "stdlib \<Rightarrow> json \<Rightarrow> string res" where
  "canonical_hash lib config =
     (case dumps lib config of
        None \<Rightarrow> Inl (refused ''coordinator served a non-canonical config'')
      | Some raw \<Rightarrow> Inr (''sha256:'' @ sha256_hex lib raw))"

text \<open>
  \<open>answer\<close> is the body the server would send (\<open>None\<close>: the request fails); the code reads
  at most one byte more than the limit.
\<close>

definition fetch_current_round :: "(string \<Rightarrow> raw option) \<Rightarrow> string option \<Rightarrow> dict res" where
  "fetch_current_round parse answer =
     (case answer of
        None \<Rightarrow> Inl (refused ''coordinator unavailable'')
      | Some body \<Rightarrow>
          let raw = take (MAX_RESPONSE_BYTES + 1) body in
          require (\<not> length raw > MAX_RESPONSE_BYTES)
            (refused ''coordinator round response exceeds 1 MiB'') (
          case load_strict parse raw of
            Inl e \<Rightarrow> if isinstance e JSONDecodeError \<or> isinstance e ValueError
                     then Inl (refused (''coordinator returned invalid JSON: '' @ exc_text e))
                     else Inl e
          | Inr payload \<Rightarrow>
              (case as_obj payload of
                 Some d \<Rightarrow> if d = [] then Inl (not_open ''coordinator returned no current round'')
                           else Inr d
               | None \<Rightarrow> Inl (not_open ''coordinator returned no current round''))))"

section \<open>Field checks\<close>

definition strict_int :: "dict \<Rightarrow> string \<Rightarrow> string \<Rightarrow> int res" where
  "strict_int payload key context =
     (case as_int (dget payload key) of
        None \<Rightarrow> Inl (refused (''coordinator '' @ context @ '' has no integer '' @ key))
      | Some v \<Rightarrow> Inr v)"

definition positive_int :: "dict \<Rightarrow> string \<Rightarrow> string \<Rightarrow> int res" where
  "positive_int payload key context =
     rbind (strict_int payload key context) (\<lambda>v.
     require (\<not> v \<le> 0) (refused (''coordinator '' @ context @ '' has no positive '' @ key))
     (Inr v))"

text \<open>\<open>isinstance(v, dict)\<close>, else the given refusal; \<open>d.get(k) if isinstance(d, dict) else None\<close>.\<close>

definition need_obj :: "json \<Rightarrow> exc \<Rightarrow> (dict \<Rightarrow> 'a res) \<Rightarrow> 'a res" where
  "need_obj v e k = (case as_obj v of None \<Rightarrow> Inl e | Some d \<Rightarrow> k d)"

definition obj_get :: "json \<Rightarrow> string \<Rightarrow> json" where
  "obj_get v key = (case as_obj v of None \<Rightarrow> JNull | Some d \<Rightarrow> dget d key)"

text \<open>
  \<open>isinstance(v, bool) or not isinstance(v, (int, float)) or float(v) != expected\<close> leads to
  the refusal; \<open>float\<close> of a huge integer raises \<open>OverflowError\<close>.
\<close>

definition need_float :: "json \<Rightarrow> pyfloat \<Rightarrow> exc \<Rightarrow> pyfloat res" where
  "need_float v expected e =
     (case v of
        JInt i \<Rightarrow> rbind (float_of_int i) (\<lambda>f. require (num_eq f expected) e (Inr f))
      | JFloat f \<Rightarrow> require (num_eq f expected) e (Inr f)
      | _ \<Rightarrow> Inl e)"

section \<open>The signed v0.3 profile\<close>

record v030_fields =
  f_seed_block :: int
  f_block_hash :: string
  f_mechanism_version :: string
  f_corpus_version :: string
  f_corpus_digest :: string
  f_metric :: string
  f_emission_share :: pyfloat
  f_cpu_seconds_per_artifact :: int
  f_tasks_per_round :: int
  f_environment_digest :: string

text \<open>Version, mechanism, corpus, track rules and class rules of the served config.\<close>

definition validate_v030_rules :: "dict \<Rightarrow> string \<Rightarrow> string \<Rightarrow> pyfloat res" where
  "validate_v030_rules config track hardware_class =
     require (as_int (dget config ''version'') = Some SIGNED_V030_CONFIG_VERSION)
       (refused ''coordinator config version is not the signed one'') (
     require (dget config ''mechanism_version'' = JStr SIGNED_V030_MECHANISM_VERSION)
       (refused ''coordinator mechanism is not the signed one'') (
     require (dget config ''corpus_version'' = JStr SIGNED_V030_CORPUS_VERSION)
       (refused ''coordinator corpus version is not the signed one'') (
     need_obj (obj_get (dget config ''tracks'') track)
       (refused (''coordinator config has no track rules for '' @ track)) (\<lambda>rules.
     require (dget rules ''metric'' = JStr SIGNED_V030_METRIC)
       (refused ''coordinator metric is not the signed one'') (
     rbind (need_float (dget rules ''emission_share'') SIGNED_V030_EMISSION_SHARE
              (refused ''coordinator emission share is not the signed one'')) (\<lambda>emission.
     rbind (need_float (obj_get (dget config ''class_weights'') hardware_class) (Fin 1)
              (refused (''coordinator config has no unit class weight for '' @ hardware_class))) (\<lambda>_.
     need_obj (obj_get (dget config ''classes'') hardware_class)
       (refused (''coordinator config has no class rules for '' @ hardware_class)) (\<lambda>class_rule.
     rbind (positive_int class_rule ''max_size_bytes'' (''class '' @ hardware_class)) (\<lambda>_.
     rbind (positive_int class_rule ''max_rss_bytes'' (''class '' @ hardware_class)) (\<lambda>_.
     rbind (positive_int class_rule ''max_p95_ms'' (''class '' @ hardware_class)) (\<lambda>_.
     Inr emission)))))))))))"

text \<open>
  \<open>allowed\<close> is a non-empty list of non-empty strings that equals \<open>sorted(set(allowed))\<close>.
\<close>

definition canonical_allowlist :: "json \<Rightarrow> string list option" where
  "canonical_allowlist v =
     (case as_list v of
        None \<Rightarrow> None
      | Some xs \<Rightarrow>
          if xs = [] \<or> list_ex (\<lambda>x. as_str x = None \<or> as_str x = Some []) xs then None
          else let ss = map (\<lambda>x. the (as_str x)) xs
               in if ss = sort (remdups ss) then Some ss else None)"

definition validate_v030_arena ::
    "dict \<Rightarrow> dict \<Rightarrow> string \<Rightarrow> string \<Rightarrow> string \<Rightarrow> (int \<times> int \<times> string) res" where
  "validate_v030_arena config arena track hardware_class base_model =
     (let place = track @ ''/'' @ hardware_class in
      case canonical_allowlist (dget arena ''allowed_base_models'') of
        None \<Rightarrow> Inl (refused (''coordinator config publishes no canonical base-model allowlist for '' @ place))
      | Some allowed \<Rightarrow>
          require (base_model \<noteq> [])
            (refused ''signed v0.3 activation has no selected base model'') (
          require (base_model \<in> set allowed)
            (refused (''base model '' @ base_model @ '' is not allowed in the served arena'')) (
          rbind (positive_int arena ''cpu_seconds_per_artifact'' (''arena '' @ place)) (\<lambda>cpu_seconds.
          rbind (positive_int arena ''tasks_per_round'' (''arena '' @ place)) (\<lambda>tasks.
          rbind (positive_int config ''tasks_per_round'' ''config'') (\<lambda>_.
          case as_str (dget arena ''environment_digest'') of
            None \<Rightarrow> Inl (refused (''coordinator config has no valid environment digest for '' @ place))
          | Some environment \<Rightarrow>
              require (matches environment_digest_rx environment)
                (refused (''coordinator config has no valid environment digest for '' @ place))
              (Inr (cpu_seconds, tasks, environment))))))))"

text \<open>Corpus digest, seed block and seed hash of the served round.\<close>

definition validate_v030_seed :: "dict \<Rightarrow> (string \<times> int \<times> string) res" where
  "validate_v030_seed payload =
     (case as_str (dget payload ''corpus_digest'') of
        None \<Rightarrow> Inl (refused ''coordinator round has no valid corpus digest'')
      | Some corpus_digest \<Rightarrow>
          require (matches sha256_rx corpus_digest)
            (refused ''coordinator round has no valid corpus digest'') (
          rbind (strict_int payload ''seed_block'' ''round'') (\<lambda>seed.
          rbind (strict_int payload ''close_block'' ''round'') (\<lambda>close.
          let phase = dget payload ''phase''; block_hash = dget payload ''block_hash'' in
          require (\<not> seed \<noteq> close)
            (refused ''coordinator round seed block does not equal its close block'') (
          require (\<not> (phase = JStr ''submissions'' \<and> block_hash \<noteq> JStr []))
            (refused ''coordinator submissions phase must not reveal a seed block hash'') (
          require (\<not> (phase = JStr ''evaluation'' \<and>
                     \<not> (\<exists>h \<in> set_option (as_str block_hash). matches block_hash_rx h)))
            (refused ''coordinator evaluation phase has no canonical seed block hash'')
          (Inr (corpus_digest, seed, py_str block_hash))))))))"

definition validate_v030_config ::
    "dict \<Rightarrow> dict \<Rightarrow> string \<Rightarrow> string \<Rightarrow> string \<Rightarrow> dict \<Rightarrow> v030_fields res" where
  "validate_v030_config payload config track hardware_class base_model arena =
     rbind (validate_v030_rules config track hardware_class) (\<lambda>emission.
     rbind (validate_v030_arena config arena track hardware_class base_model)
       (\<lambda>(cpu_seconds, tasks, environment).
     rbind (validate_v030_seed payload) (\<lambda>(corpus_digest, seed, block_hash).
     Inr \<lparr>f_seed_block = seed, f_block_hash = block_hash,
          f_mechanism_version = SIGNED_V030_MECHANISM_VERSION,
          f_corpus_version = SIGNED_V030_CORPUS_VERSION, f_corpus_digest = corpus_digest,
          f_metric = SIGNED_V030_METRIC, f_emission_share = emission,
          f_cpu_seconds_per_artifact = cpu_seconds, f_tasks_per_round = tasks,
          f_environment_digest = environment\<rparr>)))"

section \<open>The served round\<close>

record served_bounds =
  b_index :: int
  b_start :: int
  b_close :: int
  b_end :: int
  b_phase :: string

text \<open>Bounds, freshness and phase against the chain head.\<close>

definition validate_bounds :: "dict \<Rightarrow> int \<Rightarrow> served_bounds res" where
  "validate_bounds payload chain_head =
     (let phase_value = dget payload ''phase''; state_value = dget payload ''state'' in
      require (\<not> (phase_value = JStr ''scheduled'' \<or> state_value = JStr ''scheduled''))
        (not_open ''coordinator round is scheduled but not open'') (
      rbind (strict_int payload ''round'' ''round'') (\<lambda>idx.
      rbind (strict_int payload ''start_block'' ''round'') (\<lambda>start.
      rbind (strict_int payload ''close_block'' ''round'') (\<lambda>close.
      rbind (strict_int payload ''end_block'' ''round'') (\<lambda>fin.
      let phase = (if truthy phase_value then py_str phase_value else []) in
      require (\<not> (idx < 0 \<or> \<not> (start < close \<and> close < fin)))
        (refused ''coordinator returned invalid round bounds'') (
      require (\<not> chain_head < start)
        (not_open (''coordinator round '' @ text_of_int idx @ '' starts at '' @ text_of_int start
           @ ''; chain head is '' @ text_of_int chain_head)) (
      require (\<not> chain_head \<ge> fin)
        (refused (''coordinator round '' @ text_of_int idx @ '' is stale for chain head ''
           @ text_of_int chain_head @ '' (window '' @ text_of_int start @ ''..''
           @ text_of_int (fin - 1) @ '')'')) (
      require (phase \<in> {''submissions'', ''evaluation''})
        (refused ''coordinator returned unsupported phase'') (
      require (\<not> (phase = ''submissions'' \<and> chain_head \<ge> close))
        (refused ''coordinator says submissions while the chain is at/after close'') (
      require (\<not> (phase = ''evaluation'' \<and> chain_head < close))
        (refused ''coordinator says evaluation before the close block'')
      (Inr \<lparr>b_index = idx, b_start = start, b_close = close, b_end = fin, b_phase = phase\<rparr>))))))))))))"

text \<open>The config the round commits to, and the arena it opens for this competition.\<close>

definition validate_committed_config ::
    "stdlib \<Rightarrow> dict \<Rightarrow> string \<Rightarrow> string \<Rightarrow> bool \<Rightarrow> (dict \<times> string \<times> dict) res" where
  "validate_committed_config lib payload track hardware_class require_anchored =
     (let anchored = (dget payload ''anchored'' = JBool True); place = track @ ''/'' @ hardware_class in
      require (\<not> (require_anchored \<and> \<not> anchored))
        (refused ''coordinator round is not anchored on chain'') (
      need_obj (dget payload ''config'')
        (refused ''coordinator round has no served config/config hash'') (\<lambda>config.
      case as_str (dget payload ''config_hash'') of
        None \<Rightarrow> Inl (refused ''coordinator round has no served config/config hash'')
      | Some config_hash \<Rightarrow>
          require (matches sha256_rx config_hash)
            (refused ''coordinator round has no served config/config hash'') (
          rbind (canonical_hash lib (JObj config)) (\<lambda>h.
          require (\<not> h \<noteq> config_hash)
            (refused ''coordinator served config does not match its config hash'') (
          require (\<exists>cs \<in> set_option (as_list (dget config ''competitions'')).
                     py_in (JList [JStr track, JStr hardware_class]) cs)
            (refused (''coordinator config does not open '' @ place)) (
          need_obj (obj_get (dget config ''arenas'') place)
            (refused (''coordinator config has no arena rules for '' @ place)) (\<lambda>arena.
          Inr (config, config_hash, arena)))))))))"

text \<open>The allowlist check of the unsigned profile.\<close>

definition check_base_model :: "dict \<Rightarrow> string \<Rightarrow> string \<Rightarrow> string \<Rightarrow> unit res" where
  "check_base_model arena track hardware_class base_model =
     (case as_list (dget arena ''allowed_base_models'') of
        None \<Rightarrow> Inl (refused (''coordinator config publishes no base-model allowlist for '' @ track @ ''/'' @ hardware_class))
      | Some allowed \<Rightarrow>
          require (allowed \<noteq> [])
            (refused (''coordinator config publishes no base-model allowlist for '' @ track @ ''/'' @ hardware_class)) (
          require (py_in (JStr base_model) allowed)
            (refused (''base model '' @ base_model @ '' is not allowed in the served arena''))
          (Inr ())))"

definition ceiling :: "bool \<Rightarrow> dict \<Rightarrow> dict \<Rightarrow> string \<Rightarrow> string \<Rightarrow> int res" where
  "ceiling strict_v030 overrides class_rules place cname =
     (let raw = (if strict_v030 then dget overrides cname
                 else dget_or (dget class_rules cname) overrides cname) in
      case as_int raw of
        None \<Rightarrow> Inl (refused (''anchored config has no positive '' @ cname @ '' for '' @ place))
      | Some v \<Rightarrow>
          require (\<not> v \<le> 0)
            (refused (''anchored config has no positive '' @ cname @ '' for '' @ place)) (Inr v))"

definition or_empty :: "json \<Rightarrow> dict" where
  "or_empty v = (case as_obj v of None \<Rightarrow> [] | Some d \<Rightarrow> d)"

text \<open>\<open>{key: old.get(key) for key in expected} == expected\<close>.\<close>

definition same_fields :: "dict \<Rightarrow> dict \<Rightarrow> bool" where
  "same_fields old expected \<longleftrightarrow> list_all (\<lambda>(k, v). py_eq (dget old k) v) expected"

definition legacy_identity :: "served_bounds \<Rightarrow> string \<Rightarrow> dict" where
  "legacy_identity b config_hash =
     [(''start_block'', JInt (b_start b)), (''close_block'', JInt (b_close b)),
      (''end_block'', JInt (b_end b)), (''config_hash'', JStr config_hash)]"

definition v030_identity :: "served_bounds \<Rightarrow> string \<Rightarrow> v030_fields \<Rightarrow> dict" where
  "v030_identity b config_hash v030 =
     [(''round'', JInt (b_index b)), (''start_block'', JInt (b_start b)),
      (''seed_block'', JInt (f_seed_block v030)), (''close_block'', JInt (b_close b)),
      (''end_block'', JInt (b_end b)), (''config_hash'', JStr config_hash),
      (''mechanism_version'', JStr (f_mechanism_version v030)),
      (''corpus_version'', JStr (f_corpus_version v030)),
      (''corpus_digest'', JStr (f_corpus_digest v030))]"

text \<open>The comparison with the last round this controller accepted.\<close>

definition check_previous ::
    "dict \<Rightarrow> served_bounds \<Rightarrow> string \<Rightarrow> v030_fields option \<Rightarrow> unit res" where
  "check_previous previous b config_hash v030 =
     (let previous_index = dget previous ''last_coordinator_round'';
          old_window = dget previous ''last_coordinator_window'';
          idx = text_of_int (b_index b) in
      require (\<not> (\<exists>i \<in> set_option (int_like previous_index). b_index b < i))
        (refused (''coordinator rolled back from observed round '' @ py_str previous_index
           @ '' to '' @ idx)) (
      if \<not> py_eq previous_index (JInt (b_index b)) then Inr ()
      else
        need_obj old_window
          (refused (''coordinator round '' @ idx @ '' has no complete previously observed window''))
          (\<lambda>old.
        case v030 of
          Some f \<Rightarrow>
            require (same_fields old (v030_identity b config_hash f))
              (refused (''coordinator changed the already observed identity for round '' @ idx)) (
            let old_phase = dget old ''phase''; old_hash = dget old ''block_hash'' in
            if old_phase = JStr ''submissions'' then
              require (\<not> (old_hash \<noteq> JStr [] \<or> b_phase b \<notin> {''submissions'', ''evaluation''}))
                (refused (''coordinator changed the observed seed state for round '' @ idx)) (Inr ())
            else if old_phase = JStr ''evaluation'' then
              require (\<not> (b_phase b \<noteq> ''evaluation'' \<or> old_hash \<noteq> JStr (f_block_hash f)))
                (refused (''coordinator regressed or changed evaluation for round '' @ idx)) (Inr ())
            else Inl (refused (''coordinator round '' @ idx
                        @ '' has an invalid previously observed phase'')))
        | None \<Rightarrow>
            require (same_fields old (legacy_identity b config_hash))
              (refused (''coordinator changed the already observed window for round '' @ idx))
            (Inr ()))))"

definition served_window ::
    "served_bounds \<Rightarrow> string \<Rightarrow> int \<Rightarrow> int \<Rightarrow> int \<Rightarrow> v030_fields option \<Rightarrow> round_window" where
  "served_window b config_hash max_size rss p95 v030 =
     (let w = (make_window (b_index b) (b_start b) (b_close b) (b_end b) (b_phase b) ''coordinator'')
                \<lparr>w_config_hash := config_hash, w_max_size_bytes := max_size, w_max_rss_bytes := rss,
                 w_max_p95_ms := p95\<rparr> in
      case v030 of
        None \<Rightarrow> w
      | Some f \<Rightarrow>
          w\<lparr>w_seed_block := f_seed_block f, w_block_hash := f_block_hash f,
            w_mechanism_version := f_mechanism_version f, w_corpus_version := f_corpus_version f,
            w_corpus_digest := f_corpus_digest f, w_metric := f_metric f,
            w_emission_share := f_emission_share f,
            w_cpu_seconds_per_artifact := f_cpu_seconds_per_artifact f,
            w_tasks_per_round := f_tasks_per_round f,
            w_environment_digest := f_environment_digest f\<rparr>)"

text \<open>The arguments \<open>validate_served_round\<close> takes besides the payload.\<close>

record round_request =
  q_chain_head :: int
  q_track :: string
  q_hardware_class :: string
  q_require_anchored :: bool
  q_previous_status :: dict
  q_base_model :: string
  q_strict_v030 :: bool

text \<open>Which profile's extra checks apply; the fields of the signed one are kept.\<close>

definition request_profile ::
    "round_request \<Rightarrow> dict \<Rightarrow> dict \<Rightarrow> dict \<Rightarrow> v030_fields option res" where
  "request_profile q payload config arena =
     (if q_strict_v030 q then
        map_sum id Some (validate_v030_config payload config (q_track q) (q_hardware_class q)
                           (q_base_model q) arena)
      else if q_base_model q \<noteq> [] then
        map_sum id (\<lambda>_. None) (check_base_model arena (q_track q) (q_hardware_class q) (q_base_model q))
      else Inr None)"

definition validate_served_round :: "stdlib \<Rightarrow> round_request \<Rightarrow> dict \<Rightarrow> round_window res" where
  "validate_served_round lib q payload =
     (let track = q_track q; hardware_class = q_hardware_class q;
          place = track @ ''/'' @ hardware_class in
      rbind (validate_bounds payload (q_chain_head q)) (\<lambda>b.
      rbind (validate_committed_config lib payload track hardware_class (q_require_anchored q))
        (\<lambda>(config, config_hash, arena).
      rbind (request_profile q payload config arena) (\<lambda>v030.
      let overrides = or_empty (dget arena ''ceilings'');
          class_rules = or_empty (obj_get (dget config ''classes'') hardware_class) in
      rbind (ceiling (q_strict_v030 q) overrides class_rules place ''max_size_bytes'') (\<lambda>max_size.
      rbind (ceiling (q_strict_v030 q) overrides class_rules place ''max_rss_bytes'') (\<lambda>rss.
      rbind (ceiling (q_strict_v030 q) overrides class_rules place ''max_p95_ms'') (\<lambda>p95.
      rbind (check_previous (q_previous_status q) b config_hash v030) (\<lambda>_.
      Inr (served_window b config_hash max_size rss p95 v030)))))))))"

text \<open>The last statement of \<open>resolve_round\<close>: the schedule computed from the chain alone.\<close>

definition fallback_window :: "int \<Rightarrow> round_window \<Rightarrow> round_window" where
  "fallback_window chain_head chain_round =
     make_window (w_index chain_round) (w_start_block chain_round) (w_close_block chain_round)
       (w_end_block chain_round)
       (if chain_head < w_close_block chain_round then ''submissions'' else ''evaluation'')
       ''chain-fallback''"

definition resolve_round ::
    "stdlib \<Rightarrow> round_request \<Rightarrow> dict res \<Rightarrow> round_window \<Rightarrow> bool \<Rightarrow> round_window res" where
  "resolve_round lib q fetched chain_round allow_chain_fallback =
     (case rbind fetched (validate_served_round lib q) of
        Inr w \<Rightarrow> Inr w
      | Inl e \<Rightarrow>
          if isinstance e RoundRefused
          then (if q_strict_v030 q \<or> \<not> allow_chain_fallback then Inl e
                else Inr (fallback_window (q_chain_head q) chain_round))
          else Inl e)"

section \<open>What an accepted round satisfies\<close>

lemma strict_int_Inr [simp]: "strict_int d k c = Inr v \<longleftrightarrow> dget d k = JInt v"
  by (auto simp: strict_int_def split: option.splits)

lemma positive_int_Inr [simp]: "positive_int d k c = Inr v \<longleftrightarrow> dget d k = JInt v \<and> v > 0"
  by (auto simp: positive_int_def res_iffs)

lemma need_obj_Inr [simp]: "need_obj v e k = Inr y \<longleftrightarrow> (\<exists>d. v = JObj d \<and> k d = Inr y)"
  by (cases v) (simp_all add: need_obj_def)

lemma ceiling_Inr:
  "ceiling strict overrides rules place cname = Inr v \<longleftrightarrow>
     v > 0 \<and> (if strict then dget overrides cname
              else dget_or (dget rules cname) overrides cname) = JInt v"
  by (auto simp: ceiling_def Let_def res_iffs split: option.splits)

definition bounds_hold :: "int \<Rightarrow> int \<Rightarrow> int \<Rightarrow> int \<Rightarrow> int \<Rightarrow> string \<Rightarrow> bool" where
  "bounds_hold head idx start close fin phase \<longleftrightarrow>
     0 \<le> idx \<and> start < close \<and> close < fin \<and> start \<le> head \<and> head < fin \<and>
     phase = (if head < close then ''submissions'' else ''evaluation'')"

lemma text_of_int_chars: "c \<in> set (text_of_int i) \<Longrightarrow> is_digit c \<or> c = CHR ''-''"
  using text_of_nat_digits [of "nat i"] text_of_nat_digits [of "nat (- i)"]
  by (auto simp: text_of_int_def list_all_iff split: if_splits)

lemma phase_text:
  assumes "py_str v = ph" and "ph = ''submissions'' \<or> ph = ''evaluation''"
  shows "v = JStr ph"
proof (cases v)
  case (JInt i)
  from assms(2) have "CHR ''s'' \<in> set ph \<or> CHR ''e'' \<in> set ph" by auto
  with text_of_int_chars [of "CHR ''s''" i] text_of_int_chars [of "CHR ''e''" i] JInt assms(1)
  show ?thesis by (auto simp: is_digit_def code_def)
next
  case (JFloat f)
  have "CHR ''.'' \<notin> set ph" using assms(2) by auto
  with JFloat assms show ?thesis by (cases f) (auto split: if_splits)
qed (use assms in \<open>auto split: if_splits\<close>)

lemma validate_bounds_Inr:
  "validate_bounds payload head = Inr b \<longleftrightarrow>
     dget payload ''phase'' = JStr (b_phase b) \<and> dget payload ''state'' \<noteq> JStr ''scheduled'' \<and>
     dget payload ''round'' = JInt (b_index b) \<and> dget payload ''start_block'' = JInt (b_start b) \<and>
     dget payload ''close_block'' = JInt (b_close b) \<and> dget payload ''end_block'' = JInt (b_end b) \<and>
     bounds_hold head (b_index b) (b_start b) (b_close b) (b_end b) (b_phase b)"
  (is "?lhs \<longleftrightarrow> ?rhs")
proof
  assume ?lhs
  then have phase: "(if truthy (dget payload ''phase'') then py_str (dget payload ''phase'') else []) = b_phase b"
    and "b_phase b = ''submissions'' \<or> b_phase b = ''evaluation''"
    by (auto simp: validate_bounds_def Let_def res_iffs)
  then have "dget payload ''phase'' = JStr (b_phase b)"
    using phase_text [of "dget payload ''phase''" "b_phase b"] by (auto split: if_splits)
  with \<open>?lhs\<close> show ?rhs
    by (auto simp: validate_bounds_def Let_def res_iffs bounds_hold_def)
next
  assume ?rhs
  then show ?lhs
    by (cases b) (auto simp: validate_bounds_def Let_def res_iffs bounds_hold_def split: if_splits)
qed

lemma validate_committed_config_Inr:
  "validate_committed_config lib payload track hc anchor = Inr (config, h, arena) \<longleftrightarrow>
     (anchor \<longrightarrow> dget payload ''anchored'' = JBool True) \<and>
     dget payload ''config'' = JObj config \<and> dget payload ''config_hash'' = JStr h \<and>
     matches sha256_rx h \<and> canonical_hash lib (JObj config) = Inr h \<and>
     (\<exists>cs. dget config ''competitions'' = JList cs \<and> py_in (JList [JStr track, JStr hc]) cs) \<and>
     obj_get (dget config ''arenas'') (track @ ''/'' @ hc) = JObj arena"
  by (auto simp: validate_committed_config_def Let_def res_iffs Bex_def split: option.splits)

lemma canonical_hash_Inr:
  "canonical_hash lib config = Inr h \<longleftrightarrow>
     (\<exists>t. dumps lib config = Some t \<and> h = ''sha256:'' @ sha256_hex lib t)"
  by (auto simp: canonical_hash_def split: option.splits)

lemma validate_v030_seed_Inr:
  assumes "validate_v030_seed payload = Inr (corpus, seed, h)"
  shows "dget payload ''corpus_digest'' = JStr corpus \<and> matches sha256_rx corpus \<and>
    dget payload ''seed_block'' = JInt seed \<and> dget payload ''close_block'' = JInt seed \<and>
    (dget payload ''phase'' = JStr ''submissions'' \<longrightarrow> h = []) \<and>
    (dget payload ''phase'' = JStr ''evaluation'' \<longrightarrow> matches block_hash_rx h)"
  using assms by (auto simp: validate_v030_seed_def Let_def res_iffs split: option.splits)

lemma canonical_allowlist_Some:
  assumes "canonical_allowlist v = Some ss"
  shows "v = JList (map JStr ss)"
proof -
  obtain xs where xs: "v = JList xs" "\<forall>x \<in> set xs. as_str x \<noteq> None" "ss = map (\<lambda>x. the (as_str x)) xs"
    using assms by (auto simp: canonical_allowlist_def Let_def list_ex_iff split: option.splits if_splits)
  then have "map JStr ss = xs" by (auto intro!: map_idI)
  with xs show ?thesis by simp
qed

lemma validate_v030_arena_Inr:
  assumes "validate_v030_arena config arena track hc bm = Inr (cpu, tasks, env)"
  shows "bm \<noteq> [] \<and> (\<exists>ss. dget arena ''allowed_base_models'' = JList (map JStr ss) \<and> bm \<in> set ss) \<and>
    cpu > 0 \<and> tasks > 0 \<and> matches environment_digest_rx env"
  using assms canonical_allowlist_Some
  by (fastforce simp: validate_v030_arena_def Let_def res_iffs split: option.splits)

definition base_model_allowed :: "dict \<Rightarrow> string \<Rightarrow> bool" where
  "base_model_allowed arena bm \<longleftrightarrow>
     (\<exists>xs \<in> set_option (as_list (dget arena ''allowed_base_models'')). JStr bm \<in> set xs)"

lemma request_profile_Inr:
  assumes "request_profile q payload config arena = Inr v030"
  shows "(v030 = None \<longleftrightarrow> \<not> q_strict_v030 q) \<and>
    (q_strict_v030 q \<or> q_base_model q \<noteq> [] \<longrightarrow> base_model_allowed arena (q_base_model q))"
proof (cases "q_strict_v030 q")
  case True
  with assms show ?thesis
    by (auto simp: request_profile_def map_sum_Inr validate_v030_config_def res_iffs
        base_model_allowed_def dest!: validate_v030_arena_Inr)
next
  case False
  with assms show ?thesis
    by (auto simp: request_profile_def map_sum_Inr check_base_model_def base_model_allowed_def
        res_iffs py_in_def list_ex_iff split: option.splits if_splits)
qed

text \<open>The accepting path of \<open>validate_served_round\<close>, as one decomposition.\<close>

lemma validate_served_round_InrE:
  assumes "validate_served_round lib q payload = Inr w"
  obtains b config h arena v030 max_size rss p95
  where "validate_bounds payload (q_chain_head q) = Inr b"
    and "validate_committed_config lib payload (q_track q) (q_hardware_class q)
           (q_require_anchored q) = Inr (config, h, arena)"
    and "request_profile q payload config arena = Inr v030"
    and "max_size > 0" and "rss > 0" and "p95 > 0"
    and "check_previous (q_previous_status q) b h v030 = Inr ()"
    and "w = served_window b h max_size rss p95 v030"
proof -
  from assms obtain b cfg v030 max_size rss p95 where
    "validate_bounds payload (q_chain_head q) = Inr b"
    and c: "validate_committed_config lib payload (q_track q) (q_hardware_class q)
           (q_require_anchored q) = Inr cfg"
    and rest: "request_profile q payload (fst cfg) (snd (snd cfg)) = Inr v030"
    "max_size > 0" "rss > 0" "p95 > 0"
    "check_previous (q_previous_status q) b (fst (snd cfg)) v030 = Inr ()"
    "w = served_window b (fst (snd cfg)) max_size rss p95 v030"
    unfolding validate_served_round_def Let_def rbind_Inr_iff case_prod_beta ceiling_Inr
    by (clarsimp; blast)
  with that [of b "fst cfg" "fst (snd cfg)" "snd (snd cfg)"] show thesis by simp
qed

lemma served_window_fields [simp]:
  "w_index (served_window b h s r p v) = b_index b"
  "w_start_block (served_window b h s r p v) = b_start b"
  "w_close_block (served_window b h s r p v) = b_close b"
  "w_end_block (served_window b h s r p v) = b_end b"
  "w_phase (served_window b h s r p v) = b_phase b"
  "w_source (served_window b h s r p v) = ''coordinator''"
  "w_config_hash (served_window b h s r p v) = h"
  "w_max_size_bytes (served_window b h s r p v) = s"
  "w_max_rss_bytes (served_window b h s r p v) = r"
  "w_max_p95_ms (served_window b h s r p v) = p"
  by (simp_all add: served_window_def make_window_def Let_def split: option.split)

section \<open>Properties\<close>

definition example_round :: dict where
  "example_round =
     [(''round'', JInt 7), (''start_block'', JInt 100), (''close_block'', JInt 200),
      (''end_block'', JInt 220), (''phase'', JStr ''submissions''), (''anchored'', JBool True),
      (''config_hash'', JStr (''sha256:'' @ replicate 64 CHR ''a'')),
      (''config'', JObj
        [(''competitions'', JList [JList [JStr ''t'', JStr ''h'']]),
         (''arenas'', JObj [(''t/h'', JObj [(''allowed_base_models'', JList [JStr ''m'']),
           (''ceilings'', JObj [(''max_size_bytes'', JInt 5), (''max_rss_bytes'', JInt 6),
             (''max_p95_ms'', JInt 7)])])])])]"

definition example_request :: "int \<Rightarrow> dict \<Rightarrow> round_request" where
  "example_request head previous =
     \<lparr>q_chain_head = head, q_track = ''t'', q_hardware_class = ''h'', q_require_anchored = True,
      q_previous_status = previous, q_base_model = ''m'', q_strict_v030 = False\<rparr>"

text \<open>
  C19: a round the coordinator serves is accepted only if it is sound: its bounds are ordered
  and contain the chain head, its phase is the one the head determines, its config is the one
  whose canonical serialisation has the committed hash, the competition is open in that
  config, the round is anchored when the policy asks for it, the selected base model is in
  the published allowlist, and the three resource ceilings are positive.
\<close>

theorem validate_served_round_sound:
  assumes "validate_served_round lib q payload = Inr w"
  shows "w_source w = ''coordinator'' \<and>
    bounds_hold (q_chain_head q) (w_index w) (w_start_block w) (w_close_block w) (w_end_block w)
      (w_phase w) \<and>
    dget payload ''round'' = JInt (w_index w) \<and>
    dget payload ''config_hash'' = JStr (w_config_hash w) \<and>
    (q_require_anchored q \<longrightarrow> dget payload ''anchored'' = JBool True) \<and>
    w_max_size_bytes w > 0 \<and> w_max_rss_bytes w > 0 \<and> w_max_p95_ms w > 0 \<and>
    (\<exists>config arena text cs.
       dget payload ''config'' = JObj config \<and> dumps lib (JObj config) = Some text \<and>
       w_config_hash w = ''sha256:'' @ sha256_hex lib text \<and>
       dget config ''competitions'' = JList cs \<and>
       py_in (JList [JStr (q_track q), JStr (q_hardware_class q)]) cs \<and>
       obj_get (dget config ''arenas'') (q_track q @ ''/'' @ q_hardware_class q) = JObj arena \<and>
       (q_strict_v030 q \<or> q_base_model q \<noteq> [] \<longrightarrow> base_model_allowed arena (q_base_model q)))"
  using assms
proof (cases rule: validate_served_round_InrE)
  case (1 b config h arena v030 max_size rss p95)
  with request_profile_Inr [OF 1(3)] show ?thesis
    by (auto simp: validate_bounds_Inr validate_committed_config_Inr canonical_hash_Inr)
qed

theorem validate_served_round_sound_witness:
  "\<exists>w. validate_served_round example_lib (example_request 150 []) example_round = Inr w \<and>
     w_phase w = ''submissions'' \<and> w_max_p95_ms w > 0"
proof -
  let ?r = "validate_served_round example_lib (example_request 150 []) example_round"
  have "\<not> isl ?r" "w_phase (projr ?r) = ''submissions''" by code_simp+
  then obtain w where w: "?r = Inr w" "w_phase w = ''submissions''" by (cases ?r) auto
  with validate_served_round_sound [OF w(1)] show ?thesis by auto
qed

text \<open>
  C20: the coordinator cannot roll back: once the status names an observed round, only that
  round or a later one is accepted, and the same round is accepted again only with a
  complete recorded window whose start, close and end blocks and config hash it repeats; in
  the signed profile its mechanism, corpus and seed block repeat as well, an evaluation
  round never returns to submissions, and a revealed seed hash never changes.
\<close>

theorem validate_served_round_monotone:
  assumes "validate_served_round lib q payload = Inr w"
    and "dget (q_previous_status q) ''last_coordinator_round'' = JInt i"
  shows "i \<le> w_index w \<and>
    (w_index w = i \<longrightarrow>
      (\<exists>old. dget (q_previous_status q) ''last_coordinator_window'' = JObj old \<and>
        py_eq (dget old ''start_block'') (JInt (w_start_block w)) \<and>
        py_eq (dget old ''close_block'') (JInt (w_close_block w)) \<and>
        py_eq (dget old ''end_block'') (JInt (w_end_block w)) \<and>
        dget old ''config_hash'' = JStr (w_config_hash w) \<and>
        (q_strict_v030 q \<longrightarrow>
          py_eq (dget old ''seed_block'') (JInt (w_seed_block w)) \<and>
          dget old ''mechanism_version'' = JStr (w_mechanism_version w) \<and>
          dget old ''corpus_version'' = JStr (w_corpus_version w) \<and>
          dget old ''corpus_digest'' = JStr (w_corpus_digest w) \<and>
          (dget old ''phase'' = JStr ''submissions'' \<and> dget old ''block_hash'' = JStr [] \<or>
           dget old ''phase'' = JStr ''evaluation'' \<and> w_phase w = ''evaluation'' \<and>
             dget old ''block_hash'' = JStr (w_block_hash w)))))"
  using assms(1)
proof (cases rule: validate_served_round_InrE)
  case (1 b config h arena v030 max_size rss p95)
  have strict: "v030 = None \<longleftrightarrow> \<not> q_strict_v030 q"
    using request_profile_Inr [OF 1(3)] by simp
  show ?thesis
  proof (cases v030)
    case None
    with 1 strict assms(2) show ?thesis
      by (auto simp: check_previous_def Let_def res_iffs same_fields_def legacy_identity_def num_eq_def)
  next
    case (Some f)
    then have w: "w = served_window b h max_size rss p95 (Some f)" using 1 by simp
    have "w_seed_block w = f_seed_block f" "w_mechanism_version w = f_mechanism_version f"
      "w_corpus_version w = f_corpus_version f" "w_corpus_digest w = f_corpus_digest f"
      "w_block_hash w = f_block_hash f"
      by (simp_all add: w served_window_def make_window_def Let_def)
    with 1 Some strict assms(2) show ?thesis
      by (auto simp: check_previous_def Let_def res_iffs same_fields_def v030_identity_def num_eq_def
          split: if_splits)
  qed
qed

definition example_seen :: dict where
  "example_seen =
     [(''last_coordinator_round'', JInt 7),
      (''last_coordinator_window'', JObj
        [(''start_block'', JInt 100), (''close_block'', JInt 200), (''end_block'', JInt 220),
         (''config_hash'', JStr (''sha256:'' @ replicate 64 CHR ''a''))])]"

theorem validate_served_round_monotone_witness:
  "\<exists>w. validate_served_round example_lib (example_request 150 example_seen) example_round = Inr w \<and>
     7 \<le> w_index w \<and> w_index w = 7"
proof -
  let ?r = "validate_served_round example_lib (example_request 150 example_seen) example_round"
  have "\<not> isl ?r" "w_index (projr ?r) = 7" by code_simp+
  then obtain w where w: "?r = Inr w" "w_index w = 7" by (cases ?r) auto
  have "dget (q_previous_status (example_request 150 example_seen)) ''last_coordinator_round'' = JInt 7"
    by code_simp
  with validate_served_round_monotone [OF w(1), of 7] w show ?thesis by auto
qed

section \<open>Outcomes\<close>

lemma raises_refused [raises_intros]:
  "RoundRefused \<in> C \<Longrightarrow> raises_only C (Inl (refused t))"
  "RoundNotOpen \<in> C \<Longrightarrow> raises_only C (Inl (not_open t))"
  "RoundRefused \<in> C \<Longrightarrow> (ok \<Longrightarrow> raises_only C k) \<Longrightarrow> raises_only C (require ok (refused t) k)"
  "RoundNotOpen \<in> C \<Longrightarrow> (ok \<Longrightarrow> raises_only C k) \<Longrightarrow> raises_only C (require ok (not_open t) k)"
  by (cases ok; simp add: refused_def not_open_def raises_only_def)+

lemma raises_need_obj [raises_intros]:
  "RoundRefused \<in> C \<Longrightarrow> (\<And>d. raises_only C (k d)) \<Longrightarrow> raises_only C (need_obj v (refused t) k)"
  by (auto simp: need_obj_def split: option.split intro: raises_intros)

abbreviation round_errors :: "exc_class set" where
  "round_errors \<equiv> {RoundRefused, RoundNotOpen, OverflowError}"

lemma raises_field_checks [raises_intros]:
  "raises_only round_errors (strict_int d k c)"
  "raises_only round_errors (positive_int d k c)"
  "raises_only round_errors (ceiling st ov ru pl cn)"
  "raises_only round_errors (float_of_int i)"
  by (auto simp: strict_int_def positive_int_def ceiling_def Let_def float_of_int_def
      split: option.split intro!: raises_intros)

lemma raises_need_float [raises_intros]:
  "raises_only round_errors (need_float v f (refused t))"
  by (cases v) (auto simp: need_float_def intro!: raises_intros)

lemma raises_validate_bounds [raises_intros]:
  "raises_only round_errors (validate_bounds payload head)"
  by (auto simp: validate_bounds_def Let_def intro!: raises_intros)

lemma raises_committed_config [raises_intros]:
  "raises_only round_errors (validate_committed_config lib payload track hc anchor)"
  by (auto simp: validate_committed_config_def canonical_hash_def Let_def intro!: raises_intros
      split: option.split)

lemma raises_v030 [raises_intros]:
  "raises_only round_errors (validate_v030_rules config track hc)"
  "raises_only round_errors (validate_v030_arena config arena track hc bm)"
  "raises_only round_errors (validate_v030_seed payload)"
  by (auto simp: validate_v030_rules_def validate_v030_arena_def validate_v030_seed_def Let_def
      intro!: raises_intros split: option.split)

lemma raises_request_profile [raises_intros]:
  "raises_only round_errors (request_profile q payload config arena)"
  by (auto simp: request_profile_def validate_v030_config_def check_base_model_def
      intro!: raises_intros split: option.split)

lemma raises_check_previous [raises_intros]:
  "raises_only round_errors (check_previous previous b h v030)"
  by (auto simp: check_previous_def Let_def intro!: raises_intros split: option.split)

lemma raises_validate_served_round:
  "raises_only round_errors (validate_served_round lib q payload)"
  by (auto simp: validate_served_round_def Let_def intro!: raises_intros)

lemma raises_fetch:
  "raises_only (insert RecursionError round_errors) (fetch_current_round parse answer)"
  unfolding fetch_current_round_def Let_def raises_only_def
  by (auto simp: require_def refused_def not_open_def isinstance_self dest!: load_strict_Inl
      split: option.splits sum.splits if_splits)

text \<open>
  Resolving a round from the coordinator's answer has three outcomes. A window the
  coordinator served passed every check; the schedule computed from the chain is returned
  only for the unsigned profile with the fallback policy, for a refused round, and carries no
  config hash; otherwise the exception itself (a refusal, the overflow of a huge number the
  coordinator served, or its recursion error) reaches the caller.
\<close>

theorem resolve_round_outcomes:
  "case resolve_round lib q (fetch_current_round parse answer) chain_round fallback of
     Inr w \<Rightarrow>
       (\<exists>payload. fetch_current_round parse answer = Inr payload \<and>
                  validate_served_round lib q payload = Inr w) \<or>
       (\<not> q_strict_v030 q \<and> fallback \<and> w = fallback_window (q_chain_head q) chain_round \<and>
        w_source w = ''chain-fallback'' \<and> w_config_hash w = [])
   | Inl e \<Rightarrow> exc_cls e \<in> {RoundRefused, RoundNotOpen, OverflowError, RecursionError} \<and>
       \<not> (\<not> q_strict_v030 q \<and> fallback \<and> exc_cls e \<notin> {OverflowError, RecursionError})"
proof -
  define r where "r = rbind (fetch_current_round parse answer) (validate_served_round lib q)"
  have "raises_only (insert RecursionError round_errors) (validate_served_round lib q payload)" for payload
    using raises_validate_served_round [of lib q payload] by (auto simp: raises_only_def)
  then have only: "raises_only (insert RecursionError round_errors) r"
    unfolding r_def by (intro raises_intros raises_fetch)
  show ?thesis
  proof (cases r)
    case (Inr w)
    then have "\<exists>payload. fetch_current_round parse answer = Inr payload \<and>
        validate_served_round lib q payload = Inr w"
      by (simp add: r_def rbind_Inr_iff)
    with Inr show ?thesis unfolding resolve_round_def r_def [symmetric] by simp
  next
    case (Inl e)
    with only have cls: "exc_cls e \<in> insert RecursionError round_errors" by (rule raises_onlyD)
    then have "isinstance e RoundRefused \<longleftrightarrow> exc_cls e \<notin> {OverflowError, RecursionError}"
      by (cases e) auto
    with Inl cls show ?thesis
      unfolding resolve_round_def r_def [symmetric]
      by (auto simp: fallback_window_def make_window_def)
  qed
qed

end
