(* ===== verification/Hoare.thy ===== *)
theory Hoare
  imports Prelude
begin

text \<open>
  Hoare triples over stateful code that may raise (\<^verbatim>\<open>Prelude\<close>): what a run
  from a state satisfying \<open>P\<close> guarantees when it returns and when it raises. The rules in
  \<open>triple_intros\<close> follow the program combinators.
\<close>

section \<open>Hoare triples\<close>

text \<open>
  Total over outcomes: from \<open>P\<close>, a normal return satisfies \<open>Q\<close> and an exception \<open>X\<close>.
\<close>

named_theorems triple_intros "Hoare rules of the program combinators"

definition triple ::
    "('w \<Rightarrow> bool) \<Rightarrow> ('w, 'a) prog \<Rightarrow> ('a \<Rightarrow> 'w \<Rightarrow> bool) \<Rightarrow> (exc \<Rightarrow> 'w \<Rightarrow> bool) \<Rightarrow> bool" where
  "triple P m Q X \<longleftrightarrow>
     (\<forall>w. P w \<longrightarrow> (case m w of (Inr x, w') \<Rightarrow> Q x w' | (Inl e, w') \<Rightarrow> X e w'))"

lemma tripleI:
  "(\<And>w x w'. P w \<Longrightarrow> m w = (Inr x, w') \<Longrightarrow> Q x w') \<Longrightarrow>
   (\<And>w e w'. P w \<Longrightarrow> m w = (Inl e, w') \<Longrightarrow> X e w') \<Longrightarrow> triple P m Q X"
  by (auto simp: triple_def split: prod.split sum.split)

lemma tripleD:
  "triple P m Q X \<Longrightarrow> P w \<Longrightarrow> m w = (Inr x, w') \<Longrightarrow> Q x w'"
  "triple P m Q X \<Longrightarrow> P w \<Longrightarrow> m w = (Inl e, w') \<Longrightarrow> X e w'"
  by (auto simp: triple_def split: prod.splits sum.splits)

lemma triple_conseq:
  "triple P m Q X \<Longrightarrow> (\<And>w. P' w \<Longrightarrow> P w) \<Longrightarrow> (\<And>x w. Q x w \<Longrightarrow> Q' x w) \<Longrightarrow>
   (\<And>e w. X e w \<Longrightarrow> X' e w) \<Longrightarrow> triple P' m Q' X'"
  by (fastforce simp: triple_def split: prod.splits sum.splits)

lemma triple_ret [triple_intros]: "(\<And>w. P w \<Longrightarrow> Q x w) \<Longrightarrow> triple P (ret x) Q X"
  by (simp add: triple_def)

lemma triple_throw [triple_intros]: "(\<And>w. P w \<Longrightarrow> X e w) \<Longrightarrow> triple P (throw e) Q X"
  by (simp add: triple_def)

lemma triple_guard [triple_intros]:
  "(\<And>w. ok \<Longrightarrow> P w \<Longrightarrow> Q () w) \<Longrightarrow> (\<And>w. \<not> ok \<Longrightarrow> P w \<Longrightarrow> X e w) \<Longrightarrow> triple P (guard ok e) Q X"
  by (auto simp: triple_def guard_def)

lemma triple_pbind [triple_intros]:
  "triple P m M X \<Longrightarrow> (\<And>x. triple (M x) (k x) Q X) \<Longrightarrow> triple P (pbind m k) Q X"
  by (fastforce simp: triple_def pbind_def split: prod.splits sum.splits)

lemma triple_try_else [triple_intros]:
  "triple P m M X1 \<Longrightarrow> (\<And>x. triple (M x) (k x) Q X) \<Longrightarrow> (\<And>e. triple (X1 e) (h e) Q X) \<Longrightarrow>
     triple P (try_else m h k) Q X"
  by (fastforce simp: triple_def try_else_def split: prod.splits sum.splits)

lemma triple_catch [triple_intros]:
  "triple P m Q X1 \<Longrightarrow> (\<And>e. triple (X1 e) (h e) Q X) \<Longrightarrow> triple P (catch m h) Q X"
  by (fastforce simp: triple_def catch_def split: prod.splits sum.splits)

lemma triple_if [triple_intros]:
  "(b \<Longrightarrow> triple P m Q X) \<Longrightarrow> (\<not> b \<Longrightarrow> triple P n Q X) \<Longrightarrow> triple P (if b then m else n) Q X"
  by simp

lemma triple_False [simp]: "triple (\<lambda>w. False) m Q X"
  by (simp add: triple_def)

lemma triple_assume: "(b \<Longrightarrow> triple P m Q X) \<Longrightarrow> triple (\<lambda>w. P w \<and> b) m Q X"
  by (auto simp: triple_def)

text \<open>A frame becomes a triple: what a relation keeps is kept.\<close>

lemma triple_of_stays:
  assumes "stays R m" and "\<And>w w'. P w \<Longrightarrow> R w w' \<Longrightarrow> P w'"
  shows "triple P m (\<lambda>_. P) (\<lambda>_. P)"
  using assms staysD [OF assms(1)] by (intro tripleI) blast+

section \<open>Logs of events\<close>

text \<open>Every event of a log, newest first, is allowed by the events before it.\<close>

fun guarded_log :: "('e \<Rightarrow> 'e list \<Rightarrow> bool) \<Rightarrow> 'e list \<Rightarrow> bool" where
  "guarded_log ok [] = True"
| "guarded_log ok (e # es) = (ok e es \<and> guarded_log ok es)"

lemma guarded_log_split: "guarded_log ok (later @ e # earlier) \<Longrightarrow> ok e earlier"
  by (induction later) auto

lemma guarded_log_append:
  "list_all (\<lambda>e. \<forall>l. ok e l) es \<Longrightarrow> guarded_log ok (es @ l) \<longleftrightarrow> guarded_log ok l"
  by (induction es) auto

end
