(* ===== verification/World.thy ===== *)
theory World
  imports State Models Coordinator Hoare
begin

text \<open>
  What \<^verbatim>\<open>controller.py\<close> runs against: the durable store of \<^verbatim>\<open>state.py\<close>, the backend
  (the \<^verbatim>\<open>Backend\<close> protocol of \<^verbatim>\<open>backend.py\<close>) and the round fetcher as arbitrary operations on
  an external state of any type, the stop event, and the remembered preflight snapshot.
  \<open>calls\<close> records, newest first, every backend call together with its success and the
  pending-submission file at the moment of the call; no definition reads it.
\<close>

datatype operation =
    Preflight | Block | ChainRound int | FetchRound | VerifyAnchor round_window
  | ValidateRound round_window | AssertRegistered | ValidateCompetition | LoadLocal
  | Package int string | ValidateCommitment packaged_artifact | Upload packaged_artifact
  | VerifySource packaged_artifact bool | VerifyProvenance packaged_artifact int
  | VerifyOnChain packaged_artifact | Publish packaged_artifact | CloseBackend

datatype event = Event (ev_op: operation) (ev_ok: bool) (ev_pending: jfile)

record 'x world = store +
  ext :: 'x
  calls :: "event list"
  stop_after :: nat
  remembered :: "preflight_snapshot option"

text \<open>Each operation may answer or raise anything and may change the external state.\<close>

record 'x backend =
  b_preflight :: "'x \<Rightarrow> preflight_snapshot res \<times> 'x"
  b_block :: "'x \<Rightarrow> int res \<times> 'x"
  b_chain_round :: "int \<Rightarrow> 'x \<Rightarrow> round_window res \<times> 'x"
  b_fetch_round :: "string \<Rightarrow> int \<Rightarrow> 'x \<Rightarrow> dict res \<times> 'x"
  b_verify_round_anchor :: "round_window \<Rightarrow> 'x \<Rightarrow> unit res \<times> 'x"
  b_validate_round :: "round_window \<Rightarrow> 'x \<Rightarrow> unit res \<times> 'x"
  b_assert_registered :: "'x \<Rightarrow> unit res \<times> 'x"
  b_validate_competition :: "'x \<Rightarrow> string res \<times> 'x"
  b_load_local :: "'x \<Rightarrow> packaged_artifact option res \<times> 'x"
  b_package :: "int \<Rightarrow> string \<Rightarrow> 'x \<Rightarrow> packaged_artifact res \<times> 'x"
  b_validate_commitment :: "packaged_artifact \<Rightarrow> 'x \<Rightarrow> string res \<times> 'x"
  b_upload :: "packaged_artifact \<Rightarrow> 'x \<Rightarrow> unit res \<times> 'x"
  b_verify_source :: "packaged_artifact \<Rightarrow> bool \<Rightarrow> 'x \<Rightarrow> unit res \<times> 'x"
  b_verify_provenance :: "packaged_artifact \<Rightarrow> int \<Rightarrow> 'x \<Rightarrow> unit res \<times> 'x"
  b_verify_on_chain :: "packaged_artifact \<Rightarrow> 'x \<Rightarrow> string res \<times> 'x"
  b_publish :: "packaged_artifact \<Rightarrow> 'x \<Rightarrow> publish_receipt res \<times> 'x"
  b_close :: "'x \<Rightarrow> unit res \<times> 'x"

definition bcall :: "operation \<Rightarrow> ('x \<Rightarrow> 'a res \<times> 'x) \<Rightarrow> ('x world, 'a) prog" where
  "bcall op f = (\<lambda>w.
     case f (ext w) of (r, x) \<Rightarrow>
       (r, w\<lparr>ext := x, calls := Event op (\<not> isl r) (disk w Pending) # calls w\<rparr>))"

text \<open>
  The stop event: it becomes set after \<open>stop_after\<close> further polls, and stays set. A poll is
  \<open>is_set()\<close> or the answer of \<open>wait(...)\<close>.
\<close>

definition poll_stop :: "('x world, bool) prog" where
  "poll_stop = (\<lambda>w.
     if stop_after w = 0 then (Inr True, w)
     else (Inr False, w\<lparr>stop_after := stop_after w - 1\<rparr>))"

definition remember :: "preflight_snapshot \<Rightarrow> ('x world, unit) prog" where
  "remember s = (\<lambda>w. (Inr (), w\<lparr>remembered := Some s\<rparr>))"

text \<open>\<open>try: m finally: fin\<close>; an exception of \<open>fin\<close> replaces the outcome.\<close>

definition finally_do :: "('w, 'a) prog \<Rightarrow> ('w, unit) prog \<Rightarrow> ('w, 'a) prog" where
  "finally_do m fin = (\<lambda>w.
     case m w of (r, w1) \<Rightarrow>
       (case fin w1 of (Inl e, w2) \<Rightarrow> (Inl e, w2) | (Inr _, w2) \<Rightarrow> (r, w2)))"

text \<open>The outcome of a computation as a value.\<close>

definition attempt :: "('w, 'a) prog \<Rightarrow> ('w, 'a res) prog" where
  "attempt m = (\<lambda>w. case m w of (r, w') \<Rightarrow> (Inr r, w'))"

lemma with_lock_cases:
  assumes "with_lock m w = (r, w')"
  obtains (taken) e where "lock w \<noteq> LockFree" "r = Inl e" "w' = w"
    | (held) w1 where "lock w = LockFree" "m (w\<lparr>lock := LockMine\<rparr>) = (r, w1)"
        "w' = w1\<lparr>lock := LockFree\<rparr>"
  using assms by (cases "lock w") (auto simp: with_lock_def split: prod.splits)

end
