(* ===== verification/Controller.thy ===== *)
theory Controller
  imports World
begin

text \<open>
  \<^verbatim>\<open>controller.py\<close>: preflight, the cycle over the current round, submission with its durable
  pending marker, read-only reconciliation after an uncertain submission, the authorization
  latch, and the run loop with its exit codes. Logging and the line printed on standard error
  are left out; the rank monitor is an observer thread that only writes the rank file, which
  no definition here reads.
\<close>

section \<open>Details\<close>

definition opt_int :: "int option \<Rightarrow> json" where
  "opt_int v = (case v of None \<Rightarrow> JNull | Some i \<Rightarrow> JInt i)"

definition static_details :: "controller_config \<Rightarrow> dict" where
  "static_details c =
     [(''dry_run'', JBool (c_dry_run c)), (''netuid'', JInt (c_netuid c)),
      (''network'', JStr (c_network c)), (''expected_uid'', JInt (c_expected_uid c)),
      (''wallet_name'', JStr (c_wallet_name c)), (''wallet_hotkey'', JStr (c_wallet_hotkey c)),
      (''competition'', JStr (c_track c @ ''/'' @ c_hardware_class c)),
      (''protocol_profile'',
        JStr (if uses_signed_v030 c then ''signed-v0.3'' else ''legacy-v0.1.14'')),
      (''upstream_release'', JStr (upstream_release c)),
      (''provenance_required'', JBool (provenance_required c)),
      (''v030_activation_block'', opt_int (c_v030_activation_block c)),
      (''source'', JNull), (''source_template'', JStr (c_source_template c)),
      (''transaction_authorization'', JObj
        [(''call'', JStr ''Commitments.set_commitment''), (''netuid'', JInt 92), (''uid'', JInt 32),
         (''wallet_hotkey'', JStr ''you-hot1''), (''authorized_max_fee_rao'', JInt 0),
         (''authorized_max_deposit_rao'', JInt 0),
         (''fee_and_deposit_check'', JStr ''performed immediately before signing''),
         (''tip_rao'', JInt 0), (''mev_protection'', JBool False)])]"

definition coordinator_window_details :: "round_window \<Rightarrow> dict" where
  "coordinator_window_details w =
     (if w_mechanism_version w = [] then
        [(''start_block'', JInt (w_start_block w)), (''close_block'', JInt (w_close_block w)),
         (''end_block'', JInt (w_end_block w)), (''config_hash'', JStr (w_config_hash w))]
      else
        [(''round'', JInt (w_index w)), (''start_block'', JInt (w_start_block w)),
         (''seed_block'', JInt (w_seed_block w)), (''close_block'', JInt (w_close_block w)),
         (''end_block'', JInt (w_end_block w)), (''phase'', JStr (w_phase w)),
         (''block_hash'', JStr (w_block_hash w)), (''config_hash'', JStr (w_config_hash w)),
         (''mechanism_version'', JStr (w_mechanism_version w)),
         (''corpus_version'', JStr (w_corpus_version w)),
         (''corpus_digest'', JStr (w_corpus_digest w))])"

definition round_details ::
    "controller_config \<Rightarrow> preflight_snapshot \<Rightarrow> round_window \<Rightarrow> int \<Rightarrow> string \<Rightarrow> dict" where
  "round_details c snapshot window head source =
     dict_update
       (dict_update (static_details c)
         [(''preflight'', JObj (snapshot_dict snapshot)), (''round'', JInt (w_index window)),
          (''chain_head'', JInt head), (''round_window'', JObj (window_dict window)),
          (''source'', JStr source)])
       (if w_source window = ''coordinator'' then
          [(''last_coordinator_round'', JInt (w_index window)),
           (''last_coordinator_window'', JObj (coordinator_window_details window))]
        else [])"

definition planned_actions :: json where
  "planned_actions = JList (map JStr
     [''package unsealed round-specific manifest'', ''upload artifact and manifest'',
      ''download and hash full remote artifact'', ''satisfy the signed upstream provenance policy'',
      ''estimate 0-rao fee and confirm 0-rao commitment deposits'',
      ''publish one direct Commitments.set_commitment with the hotkey'',
      ''read exact commitment back from chain''])"

definition payload_fingerprint :: "store_env \<Rightarrow> string \<Rightarrow> string" where
  "payload_fingerprint E payload = ''sha256:'' @ sha256_hex (e_lib E) (utf8_encode payload)"

definition local_matches :: "packaged_artifact option \<Rightarrow> int \<Rightarrow> string \<Rightarrow> string \<Rightarrow> bool" where
  "local_matches local round_index source hotkey =
     (case local of
        None \<Rightarrow> False
      | Some k \<Rightarrow> \<not> k_sealed k \<and> k_round_index k = round_index \<and> k_source k = source \<and>
          k_hotkey k = hotkey)"

definition proofs_valid_for ::
    "dict \<Rightarrow> int \<Rightarrow> string \<Rightarrow> string \<Rightarrow> packaged_artifact option \<Rightarrow> bool" where
  "proofs_valid_for state round_index source hotkey packaged =
     (case (packaged, as_obj (dget state ''artifact'')) of
        (Some k, Some artifact) \<Rightarrow>
          dget state ''ok'' = JBool True \<and>
          py_eq (dget state ''round'') (JInt round_index) \<and>
          py_eq (dget state ''last_success_round'') (JInt round_index) \<and>
          dget state ''source'' = JStr source \<and>
          py_eq (JObj artifact) (JObj (public_dict k)) \<and>
          dget artifact ''source'' = JStr source \<and> dget artifact ''hotkey'' = JStr hotkey \<and>
          (case as_obj (dget state ''proofs'') of
             None \<Rightarrow> False
           | Some proofs \<Rightarrow>
               list_all (\<lambda>key. dget proofs key = JBool True)
                 [''source'', ''source_full'', ''provenance'', ''on_chain''])
      | _ \<Rightarrow> False)"

definition verification_due ::
    "controller_config \<Rightarrow> store_env \<Rightarrow> dict \<Rightarrow> ('x world, bool) prog" where
  "verification_due c E state =
     pbind (tick E) (\<lambda>now.
     case float_at (e_lib E) state ''last_verified_at_epoch'' of
       Inl e \<Rightarrow>
         if isinstance e KeyError \<or> isinstance e TypeError \<or> isinstance e ValueError
         then ret True else throw e
     | Inr f \<Rightarrow> ret (float_ge (minus_float now f) (of_int (c_verify_interval_seconds c))))"

definition no_proof_details :: "controller_config \<Rightarrow> dict" where
  "no_proof_details c =
     dict_update (static_details c) [(''proofs'', JObj (proofs_dict no_proofs))]"

text \<open>\<open>int(previous.get("consecutive_failures", 0) or 0) + 1\<close>.\<close>

definition next_failures :: "dict \<Rightarrow> int res" where
  "next_failures previous =
     (let v = dget_or (JInt 0) previous ''consecutive_failures'' in
      rbind (int_of (if truthy v then v else JInt 0)) (\<lambda>n. Inr (n + 1)))"

section \<open>Failures and the latch\<close>

definition authorization_latch_reason :: "('x world, string option) prog" where
  "authorization_latch_reason =
     try_else read_authorization_refusal
       (\<lambda>_. ret (Some ''authorization refusal marker could not be checked; operator review is required''))
       (\<lambda>marker.
         if marker \<noteq> [] then
           ret (Some (case as_str (dget marker ''authorization_reason'') of
             Some r \<Rightarrow> if r \<noteq> [] then r
                       else ''authorization refusal marker is invalid; operator review is required''
           | None \<Rightarrow> ''authorization refusal marker is invalid; operator review is required''))
         else
           pbind read_status (\<lambda>previous.
           if dget previous ''authorization_latched'' = JBool True then
             ret (Some (case as_str (dget previous ''authorization_reason'') of
               Some r \<Rightarrow> if r \<noteq> [] then r else ''legacy authorization latch requires operator review''
             | None \<Rightarrow> ''legacy authorization latch requires operator review''))
           else ret None))"

definition refuse_if_latched :: "('x world, unit) prog" where
  "refuse_if_latched =
     pbind authorization_latch_reason (\<lambda>reason.
     case reason of
       None \<Rightarrow> ret ()
     | Some r \<Rightarrow> throw (Exc AuthorizationRefused (''transaction authorization remains latched: '' @ r)))"

definition waiting_for_trusted_round ::
    "controller_config \<Rightarrow> store_env \<Rightarrow> exc \<Rightarrow> ('x world, unit) prog" where
  "waiting_for_trusted_round c E e =
     pseq (write_state E ''waiting'' False (redact_text (exc_message e) (e_secrets E)) None
             (no_proof_details c) None) (ret ())"

definition failure ::
    "controller_config \<Rightarrow> store_env \<Rightarrow> string \<Rightarrow> exc \<Rightarrow> ('x world, unit) prog" where
  "failure c E phase e =
     pbind read_status (\<lambda>previous.
     pbind (lift_res (next_failures previous)) (\<lambda>failures.
     pseq (write_state E phase False (redact_text (exc_message e) (e_secrets E)) None
             (dict_update (static_details c)
               [(''consecutive_failures'', JInt failures), (''proofs'', JObj (proofs_dict no_proofs))])
             None)
     (ret ())))"

definition refusal_details :: "controller_config \<Rightarrow> string \<Rightarrow> int \<Rightarrow> dict" where
  "refusal_details c message failures =
     dict_update (static_details c)
       [(''authorization_latched'', JBool True), (''authorization_reason'', JStr message),
        (''consecutive_failures'', JInt failures), (''proofs'', JObj (proofs_dict no_proofs))]"

definition authorization_failure ::
    "controller_config \<Rightarrow> store_env \<Rightarrow> exc \<Rightarrow> ('x world, unit) prog" where
  "authorization_failure c E e =
     pbind (catch (pbind read_status (\<lambda>previous. lift_res (next_failures previous)))
              (\<lambda>_. ret 1)) (\<lambda>failures.
     let message = redact_text (exc_message e) (e_secrets E);
         details = refusal_details c message failures in
     pseq (catch (pseq (latch_authorization_refusal E message details None) (ret ())) (\<lambda>_. ret ())) (
     pseq (catch (pseq (write_state E ''authorization_refused'' False message None details None)
                    (ret ())) (\<lambda>_. ret ()))
     (ret ())))"

section \<open>Preflight\<close>

definition preflight ::
    "'x backend \<Rightarrow> controller_config \<Rightarrow> store_env \<Rightarrow> ('x world, preflight_snapshot) prog" where
  "preflight B c E =
     pseq refuse_if_latched (
     pseq (write_state E ''preflight'' False
             ''validating pinned runtime, artifact, wallet, UID, and live competition'' None
             (static_details c) None) (
     pbind (bcall Preflight (b_preflight B)) (\<lambda>snapshot.
     pseq (remember snapshot) (
     pseq (write_state E ''ready'' False ''preflight passed; no round has been fully verified yet''
             None (dict_update (static_details c)
                     [(''preflight'', JObj (snapshot_dict snapshot))]) None)
     (ret snapshot)))))"

definition preflight_only ::
    "'x backend \<Rightarrow> controller_config \<Rightarrow> store_env \<Rightarrow> ('x world, int) prog" where
  "preflight_only B c E =
     with_lock (finally_do
       (catch (pseq (preflight B c E) (ret 0)) (\<lambda>e.
          if isinstance e AuthorizationRefused then pseq (authorization_failure c E e) (ret 3)
          else if isinstance e ControllerError
          then pseq (failure c E ''preflight_refused'' e) (ret 2)
          else pseq (failure c E ''preflight_error'' e) (ret 1)))
       (bcall CloseBackend (b_close B)))"

section \<open>The round\<close>

definition round_request_of ::
    "controller_config \<Rightarrow> int \<Rightarrow> dict \<Rightarrow> round_request" where
  "round_request_of c head previous =
     \<lparr>q_chain_head = head, q_track = c_track c, q_hardware_class = c_hardware_class c,
      q_require_anchored = c_require_anchored_coordinator c, q_previous_status = previous,
      q_base_model = c_base_model c, q_strict_v030 = uses_signed_v030 c\<rparr>"

text \<open>The status write that records an accepted coordinator round; it keeps phase and verdict.\<close>

definition remember_round ::
    "store_env \<Rightarrow> dict \<Rightarrow> round_window \<Rightarrow> ('x world, unit) prog" where
  "remember_round E previous window =
     (let previous = dict_update previous
           [(''last_coordinator_round'', JInt (w_index window)),
            (''last_coordinator_window'', JObj (coordinator_window_details window))] in
      pseq (write_state E (py_str (dget_or (JStr ''round_resolved'') previous ''phase''))
              (truthy (dget_or (JBool False) previous ''ok''))
              (py_str (dget_or (JStr ''trusted coordinator round resolved'') previous ''message''))
              None previous (Some previous)) (ret ()))"

definition controller_resolve_round ::
    "'x backend \<Rightarrow> controller_config \<Rightarrow> store_env \<Rightarrow> int \<Rightarrow> ('x world, round_window) prog" where
  "controller_resolve_round B c E head =
     pbind (bcall (ChainRound head) (b_chain_round B head)) (\<lambda>chain_round.
     pbind read_status (\<lambda>previous.
     pbind (attempt (bcall FetchRound
              (b_fetch_round B (c_coordinator_url c) (c_coordinator_timeout_seconds c)))) (\<lambda>fetched.
     pbind (lift_res (resolve_round (e_lib E) (round_request_of c head previous) fetched chain_round
              (c_allow_chain_schedule_fallback c))) (\<lambda>window.
     pseq (catch
             (pseq (bcall (VerifyAnchor window) (b_verify_round_anchor B window))
                   (bcall (ValidateRound window) (b_validate_round B window)))
             (\<lambda>e. if isinstance e VerificationError \<and> uses_signed_v030 c
                  then throw (Exc RoundRefused
                         (''trusted signed-v0.3 round is unavailable: '' @ exc_text e))
                  else throw e)) (
     pseq (if w_source window = ''coordinator'' then remember_round E previous window else ret ())
     (ret window))))))"

definition round_identity :: "round_window \<Rightarrow> int list \<times> string list" where
  "round_identity w =
     ([w_index w, w_start_block w, w_seed_block w, w_close_block w, w_end_block w],
      [w_phase w, w_block_hash w, w_config_hash w, w_mechanism_version w, w_corpus_version w,
       w_corpus_digest w])"

definition refresh_same_round ::
    "'x backend \<Rightarrow> controller_config \<Rightarrow> store_env \<Rightarrow> round_window \<Rightarrow>
     ('x world, int \<times> round_window) prog" where
  "refresh_same_round B c E expected =
     pbind (bcall Block (b_block B)) (\<lambda>head.
     pseq (guard (\<not> (\<exists>a \<in> set_option (c_v030_activation_block c). head < a))
       (Exc RoundRefused (''signed v0.3 activation height is above chain head '' @ text_of_int head))) (
     pbind (controller_resolve_round B c E head) (\<lambda>observed.
     pseq (guard (\<not> round_identity observed \<noteq> round_identity expected)
       (Exc RoundRefused ''trusted round changed while preparing the submission''))
     (ret (head, observed)))))"

definition assert_deadline ::
    "controller_config \<Rightarrow> round_window \<Rightarrow> int \<Rightarrow> string \<Rightarrow> ('x world, unit) prog" where
  "assert_deadline c window block action =
     guard (accepts_at window block (c_deadline_margin_blocks c))
       (Exc RoundRefused (''refusing to '' @ action @ '' at block '' @ text_of_int block
          @ ''; safe cutoff is ''
          @ text_of_int (w_close_block window - c_deadline_margin_blocks c)))"

section \<open>Verification\<close>

definition with_artifact :: "dict \<Rightarrow> packaged_artifact \<Rightarrow> dict" where
  "with_artifact common packaged =
     dict_update common [(''artifact'', JObj (public_dict packaged))]"

definition report :: "store_env \<Rightarrow> string \<Rightarrow> string \<Rightarrow> dict \<Rightarrow> ('x world, unit) prog" where
  "report E phase message details =
     pseq (write_state E phase False message None details None) (ret ())"

definition verified ::
    "store_env \<Rightarrow> round_window \<Rightarrow> packaged_artifact \<Rightarrow> string \<Rightarrow> dict \<Rightarrow> bool \<Rightarrow> string \<Rightarrow>
     ('x world, string) prog" where
  "verified E window packaged payload common source_full message =
     (let proofs = \<lparr>v_source = True, v_provenance = True, v_on_chain = True, v_source_full = source_full\<rparr> in
      pseq (guard (proofs_complete proofs) (Exc VerificationError ''internal proof set is incomplete'')) (
      pbind (tick E) (\<lambda>now.
      pseq (mark_verified E (w_index window) message
              (dict_update (with_artifact common packaged)
                [(''proofs'', JObj (proofs_dict proofs)),
                 (''commitment_fingerprint'', JStr (payload_fingerprint E payload))])
              (Some now))
      (ret ''verified''))))"

definition reverify ::
    "'x backend \<Rightarrow> controller_config \<Rightarrow> store_env \<Rightarrow> preflight_snapshot \<Rightarrow> round_window \<Rightarrow> int \<Rightarrow>
     string \<Rightarrow> packaged_artifact \<Rightarrow> ('x world, string) prog" where
  "reverify B c E snapshot window head source packaged =
     pseq (bcall AssertRegistered (b_assert_registered B)) (
     let common = round_details c snapshot window head source in
     pseq (report E ''reverifying'' ''refreshing remote manifest, provenance policy, and on-chain proof''
             (with_artifact common packaged)) (
     pseq (bcall (VerifySource packaged True) (b_verify_source B packaged True)) (
     pseq (bcall (VerifyProvenance packaged (w_close_block window))
             (b_verify_provenance B packaged (w_close_block window))) (
     pbind (bcall (VerifyOnChain packaged) (b_verify_on_chain B packaged)) (\<lambda>payload.
     verified E window packaged payload common True
       ''periodic source, provenance policy, and on-chain verification passed'')))))"

section \<open>Reconciling an uncertain submission\<close>

text \<open>The field checks of the pending marker: round, source, hot key, fingerprint, provenance block.\<close>

definition pending_fields :: "dict \<Rightarrow> int \<Rightarrow> (int \<times> string \<times> string \<times> string \<times> int) option" where
  "pending_fields pending head =
     (case (as_int (dget pending ''round''), as_str (dget pending ''source''),
            as_str (dget pending ''hotkey''), as_str (dget pending ''commitment_fingerprint''),
            as_int (dget pending ''provenance_block'')) of
        (Some r, Some s, Some h, Some f, Some b) \<Rightarrow>
          if s = [] \<or> h = [] \<or> \<not> prefix ''sha256:'' f \<or> b < 0 \<or> b > head then None
          else Some (r, s, h, f, b)
      | _ \<Rightarrow> None)"

abbreviation refuse_authorization :: "string \<Rightarrow> exc" where
  "refuse_authorization t \<equiv> Exc AuthorizationRefused t"

text \<open>\<open>except Exception as exc: raise AuthorizationRefused(...) from exc\<close>.\<close>

definition or_refuse :: "string \<Rightarrow> ('w, 'a) prog \<Rightarrow> ('w, 'a) prog" where
  "or_refuse t m = catch m (\<lambda>_. throw (refuse_authorization t))"

definition reconcile_pending ::
    "'x backend \<Rightarrow> controller_config \<Rightarrow> store_env \<Rightarrow> preflight_snapshot \<Rightarrow> round_window \<Rightarrow> int \<Rightarrow>
     string \<Rightarrow> packaged_artifact option \<Rightarrow> dict \<Rightarrow> ('x world, string) prog" where
  "reconcile_pending B c E snapshot window head source local pending =
     pseq (guard (\<not> (dget pending ''marker_invalid'' = JBool True \<or>
                    dget pending ''submission_pending'' \<noteq> JBool True))
       (refuse_authorization ''submission pending marker is invalid; operator review is required'')) (
     case pending_fields pending head of
       None \<Rightarrow> throw (refuse_authorization ''submission pending marker fields are invalid; operator review is required'')
     | Some (pending_round, pending_source, pending_hotkey, pending_fingerprint, provenance_block) \<Rightarrow>
     pseq (guard (\<not> (pending_round \<noteq> w_index window \<or> pending_source \<noteq> source
                     \<or> pending_hotkey \<noteq> p_hotkey snapshot))
       (refuse_authorization ''submission pending marker does not match the current round, source, and hotkey'')) (
     pseq (guard (local_matches local (w_index window) source (p_hotkey snapshot))
       (refuse_authorization ''submission pending marker has no matching local signed manifest'')) (
     case local of
       None \<Rightarrow> throw (refuse_authorization ''submission pending marker has no matching local signed manifest'')
     | Some packaged \<Rightarrow>
     pbind (or_refuse ''pending commitment cannot be reconstructed exactly; operator review is required''
              (bcall (ValidateCommitment packaged) (b_validate_commitment B packaged))) (\<lambda>encoded.
     let fingerprint = payload_fingerprint E encoded in
     pseq (guard (\<not> fingerprint \<noteq> pending_fingerprint)
       (refuse_authorization ''pending marker fingerprint differs from the local signed commitment'')) (
     let common = round_details c snapshot window head source in
     pseq (report E ''reconciling_submission''
             ''performing read-only reconciliation of an uncertain submission''
             (dict_update (with_artifact common packaged)
               [(''commitment_fingerprint'', JStr fingerprint), (''submission_pending'', JBool True)])) (
     pbind (or_refuse ''pending submission is not proven exact on chain; operator review is required''
              (pseq (bcall AssertRegistered (b_assert_registered B))
                    (bcall (VerifyOnChain packaged) (b_verify_on_chain B packaged)))) (\<lambda>payload.
     pseq (guard (\<not> payload_fingerprint E payload \<noteq> fingerprint)
       (refuse_authorization ''on-chain readback differs from the pending commitment fingerprint'')) (
     pseq (or_refuse ''pending submission proof bundle could not be reverified; operator review is required''
             (pseq (bcall (VerifySource packaged True) (b_verify_source B packaged True))
                   (bcall (VerifyProvenance packaged provenance_block)
                      (b_verify_provenance B packaged provenance_block)))) (
     pseq (or_refuse ''exact on-chain submission was verified but its pending marker could not be cleared''
             (clear_submission_pending fingerprint))
     (verified E window packaged payload common True
        ''pending submission reconciled read-only; source, provenance policy, and exact on-chain commitment verified''))))))))))"

section \<open>Submitting\<close>

definition binding_mismatch :: exc where
  "binding_mismatch = Exc ArtifactCompetitionBindingError
     ''selected packaged artifact digest differs from the authorized artifact competition binding''"

definition assert_packaged_binding ::
    "'x backend \<Rightarrow> packaged_artifact \<Rightarrow> ('x world, unit) prog" where
  "assert_packaged_binding B packaged =
     pbind (bcall ValidateCompetition (b_validate_competition B)) (\<lambda>bound_artifact_digest.
     guard (k_artifact_digest packaged = bound_artifact_digest) binding_mismatch)"

text \<open>The artifact to submit: the current local one, or a freshly packaged one.\<close>

definition select_package ::
    "'x backend \<Rightarrow> controller_config \<Rightarrow> store_env \<Rightarrow> round_window \<Rightarrow> int \<Rightarrow> string \<Rightarrow> dict \<Rightarrow> bool \<Rightarrow>
     packaged_artifact option \<Rightarrow> ('x world, packaged_artifact) prog" where
  "select_package B c E window head source common reusable local =
     (if reusable then
        (case local of
           None \<Rightarrow> throw (Exc VerificationError ''reusable local artifact unexpectedly disappeared'')
         | Some packaged \<Rightarrow>
             pseq (report E ''recovering'' ''reusing a current signed manifest after restart/interruption''
                     (with_artifact common packaged))
             (ret packaged))
      else
        pseq (assert_deadline c window head ''package'') (
        pseq (report E ''packaging''
                (''signing an unsealed manifest for round '' @ text_of_int (w_index window)) common) (
        pbind (bcall (Package (w_index window) source) (b_package B (w_index window) source)) (\<lambda>packaged.
        pseq (guard (\<not> k_sealed packaged)
          (Exc VerificationError ''backend returned a sealed artifact''))
        (ret packaged)))))"

text \<open>Probe the remote copy of a reused artifact; upload when there is none.\<close>

definition ensure_remote ::
    "'x backend \<Rightarrow> controller_config \<Rightarrow> store_env \<Rightarrow> round_window \<Rightarrow> dict \<Rightarrow> bool \<Rightarrow>
     packaged_artifact \<Rightarrow> ('x world, unit) prog" where
  "ensure_remote B c E window artifact_details reusable packaged =
     pbind (if reusable then
              pseq (report E ''verifying_source''
                      ''checking whether the complete exact remote artifact already exists''
                      artifact_details)
              (catch (pseq (bcall (VerifySource packaged True) (b_verify_source B packaged True)) (ret True))
                 (\<lambda>e. if isinstance e VerificationError then ret False else throw e))
            else ret False) (\<lambda>remote_ready.
     if remote_ready then ret ()
     else
       pbind (refresh_same_round B c E window) (\<lambda>(upload_head, refreshed).
       pseq (assert_deadline c refreshed upload_head ''upload'') (
       pseq (report E ''uploading'' ''uploading the round-specific artifact tree and manifest''
               (dict_update artifact_details [(''chain_head'', JInt upload_head)])) (
       pseq (assert_packaged_binding B packaged) (
       pseq (bcall (Upload packaged) (b_upload B packaged)) (
       pseq (report E ''verifying_source'' ''fetching and hashing the complete remote artifact''
               artifact_details)
       (bcall (VerifySource packaged True) (b_verify_source B packaged True))))))))"

text \<open>Record the pending marker, or refuse.\<close>

definition record_pending ::
    "store_env \<Rightarrow> packaged_artifact \<Rightarrow> string \<Rightarrow> int \<Rightarrow> ('x world, unit) prog" where
  "record_pending E packaged commitment_fingerprint provenance_block =
     or_refuse ''commitment was not submitted because its durable pending marker could not be recorded''
       (pbind (tick E) (\<lambda>now.
        pseq (mark_submission_pending E (k_round_index packaged) (k_source packaged)
                (k_hotkey packaged) commitment_fingerprint
                [(''provenance_block'', JInt provenance_block)] (Some now))
        (ret ())))"

text \<open>Clear the marker and re-raise; when clearing fails, refuse instead.\<close>

definition clear_and_raise :: "string \<Rightarrow> string \<Rightarrow> exc \<Rightarrow> ('x world, 'a) prog" where
  "clear_and_raise commitment_fingerprint t e =
     pseq (or_refuse t (clear_submission_pending commitment_fingerprint)) (throw e)"

definition broadcast_checks ::
    "'x backend \<Rightarrow> controller_config \<Rightarrow> store_env \<Rightarrow> round_window \<Rightarrow> packaged_artifact \<Rightarrow>
     ('x world, unit) prog" where
  "broadcast_checks B c E window packaged =
     pbind (refresh_same_round B c E window) (\<lambda>(broadcast_head, broadcast_window).
     pseq (assert_deadline c broadcast_window broadcast_head ''publish'') (
     pseq (bcall AssertRegistered (b_assert_registered B))
     (assert_packaged_binding B packaged)))"

text \<open>The one call that changes the chain, and the exact readback.\<close>

definition broadcast ::
    "'x backend \<Rightarrow> store_env \<Rightarrow> dict \<Rightarrow> packaged_artifact \<Rightarrow> string \<Rightarrow> ('x world, string) prog" where
  "broadcast B E artifact_details packaged commitment_fingerprint =
     pbind (bcall (Publish packaged) (b_publish B packaged)) (\<lambda>receipt.
     pseq (guard (\<not> r_round_index receipt \<noteq> k_round_index packaged)
       (refuse_authorization ''publish receipt names a different round; submission outcome is ambiguous'')) (
     pseq (report E ''verifying_on_chain'' ''reading the exact commitment back from chain''
             artifact_details) (
     pbind (bcall (VerifyOnChain packaged) (b_verify_on_chain B packaged)) (\<lambda>payload.
     pseq (guard (\<not> payload_fingerprint E payload \<noteq> commitment_fingerprint)
       (refuse_authorization ''post-submission chain readback differs from the pending commitment''))
     (ret payload)))))"

definition broadcast_outcome ::
    "'x backend \<Rightarrow> store_env \<Rightarrow> dict \<Rightarrow> packaged_artifact \<Rightarrow> string \<Rightarrow> ('x world, string) prog" where
  "broadcast_outcome B E artifact_details packaged commitment_fingerprint =
     catch (broadcast B E artifact_details packaged commitment_fingerprint) (\<lambda>e.
       if isinstance e ArtifactCompetitionBindingError then
         clear_and_raise commitment_fingerprint ''commitment was not submitted after artifact binding refusal, but its pending marker could not be cleared'' e
       else if isinstance e AuthorizationRefused then throw e
       else throw (refuse_authorization ''submission outcome is ambiguous after publish began; operator review is required''))"

definition publish_commitment ::
    "'x backend \<Rightarrow> controller_config \<Rightarrow> store_env \<Rightarrow> round_window \<Rightarrow> dict \<Rightarrow> packaged_artifact \<Rightarrow>
     string \<Rightarrow> int \<Rightarrow> ('x world, string) prog" where
  "publish_commitment B c E window artifact_details packaged encoded provenance_block =
     pbind (refresh_same_round B c E window) (\<lambda>(refreshed_head, refreshed).
     pseq (assert_deadline c refreshed refreshed_head ''publish'') (
     pseq (report E ''publishing'' ''submitting the signed commitment on chain''
             (dict_update artifact_details [(''chain_head'', JInt refreshed_head)])) (
     pseq (bcall AssertRegistered (b_assert_registered B)) (
     let commitment_fingerprint = payload_fingerprint E encoded in
     pseq (record_pending E packaged commitment_fingerprint provenance_block) (
     pseq (catch (broadcast_checks B c E window packaged)
             (clear_and_raise commitment_fingerprint ''commitment was not submitted, but its pending marker could not be cleared'')) (
     pbind (broadcast_outcome B E artifact_details packaged commitment_fingerprint) (\<lambda>payload.
     pseq (or_refuse ''exact on-chain submission was verified but its pending marker could not be cleared''
             (clear_submission_pending commitment_fingerprint))
     (ret payload))))))))"

definition submit ::
    "'x backend \<Rightarrow> controller_config \<Rightarrow> store_env \<Rightarrow> preflight_snapshot \<Rightarrow> round_window \<Rightarrow> int \<Rightarrow>
     string \<Rightarrow> packaged_artifact option \<Rightarrow> ('x world, string) prog" where
  "submit B c E snapshot window head source local =
     pbind (bcall ValidateCompetition (b_validate_competition B)) (\<lambda>bound_artifact_digest.
     pseq (bcall AssertRegistered (b_assert_registered B)) (
     let common = round_details c snapshot window head source;
         reusable = local_matches local (w_index window) source (p_hotkey snapshot) in
     pbind (select_package B c E window head source common reusable local) (\<lambda>packaged.
     pseq (guard (\<not> k_artifact_digest packaged \<noteq> bound_artifact_digest) binding_mismatch) (
     let artifact_details = with_artifact common packaged in
     pseq (report E ''validating_commitment''
             ''validating exact chain encoding before any external upload'' artifact_details) (
     pbind (bcall (ValidateCommitment packaged) (b_validate_commitment B packaged)) (\<lambda>encoded.
     let artifact_details = dict_update artifact_details
           [(''commitment_fingerprint'', JStr (payload_fingerprint E encoded))] in
     pbind (bcall Block (b_block B)) (\<lambda>provenance_block.
     pseq (report E ''verifying_provenance'' ''checking the signed upstream provenance policy''
             (dict_update artifact_details [(''chain_head'', JInt provenance_block)])) (
     pseq (bcall (VerifyProvenance packaged provenance_block)
             (b_verify_provenance B packaged provenance_block)) (
     pseq (ensure_remote B c E window artifact_details reusable packaged) (
     pbind (catch (bcall (VerifyOnChain packaged) (b_verify_on_chain B packaged)) (\<lambda>e.
              if isinstance e VerificationError
              then publish_commitment B c E window artifact_details packaged encoded provenance_block
              else throw e)) (\<lambda>payload.
     verified E window packaged payload common True
       ''source, provenance policy, and exact on-chain commitment verified'')))))))))))"

section \<open>The cycle\<close>

definition cycle ::
    "'x backend \<Rightarrow> controller_config \<Rightarrow> store_env \<Rightarrow> preflight_snapshot \<Rightarrow> ('x world, string) prog" where
  "cycle B c E snapshot =
     pseq refuse_if_latched (
     pseq (bcall AssertRegistered (b_assert_registered B)) (
     pbind (bcall Block (b_block B)) (\<lambda>head.
     if \<exists>a \<in> set_option (c_v030_activation_block c). head < a then
       pseq (report E ''waiting'' (''signed v0.3 activation is blocked; current head is '' @ text_of_int head)
               (dict_update (static_details c)
                 [(''preflight'', JObj (snapshot_dict snapshot)), (''chain_head'', JInt head),
                  (''proofs'', JObj (proofs_dict no_proofs))]))
       (ret ''waiting'')
     else
     pbind (controller_resolve_round B c E head) (\<lambda>window.
     pbind (lift_res (source_for c (w_index window) (p_hotkey snapshot))) (\<lambda>source.
     let common = round_details c snapshot window head source in
     pbind read_status (\<lambda>previous.
     pbind read_submission_pending (\<lambda>pending.
     if pending \<noteq> [] then
       pbind (bcall LoadLocal (b_load_local B)) (\<lambda>local.
       reconcile_pending B c E snapshot window head source local pending)
     else if c_dry_run c then
       (if \<not> accepts_at window head (c_deadline_margin_blocks c) then
          pseq (report E ''waiting'' (''round '' @ text_of_int (w_index window)
                  @ '' is outside the safe submission window'') common)
          (ret ''waiting'')
        else
          pseq (report E ''dry_run'' (''dry-run plan is valid for round '' @ text_of_int (w_index window)
                  @ ''; no package, upload, signature, or chain write was attempted'')
                  (dict_update common [(''planned_actions'', planned_actions)]))
          (ret ''dry_run''))
     else
     pbind (bcall LoadLocal (b_load_local B)) (\<lambda>local.
     let matching = local_matches local (w_index window) source (p_hotkey snapshot);
         proofs_valid = (matching \<and>
           proofs_valid_for previous (w_index window) source (p_hotkey snapshot) local) in
     if \<not> accepts_at window head (c_deadline_margin_blocks c) then
       pbind (if matching then (if \<not> proofs_valid then ret True else verification_due c E previous)
              else ret False) (\<lambda>due.
       case (if due then local else None) of
         Some packaged \<Rightarrow> reverify B c E snapshot window head source packaged
       | None \<Rightarrow>
           pseq (write_state E ''waiting'' proofs_valid
                   (''round '' @ text_of_int (w_index window) @ '' is outside the safe submission window; ''
                    @ (if proofs_valid then ''matching commitment remains verified''
                       else ''no verified commitment'')) None common None)
           (ret ''waiting''))
     else if matching then
       (if proofs_valid \<and> dget previous ''ok'' = JBool True then
          pbind (verification_due c E previous) (\<lambda>due.
          if \<not> due then
            pbind (tick E) (\<lambda>now. pseq (heartbeat E (Some now)) (ret ''verified''))
          else
            (case local of
               None \<Rightarrow> throw (Exc VerificationError ''matching local artifact unexpectedly disappeared'')
             | Some packaged \<Rightarrow> reverify B c E snapshot window head source packaged))
        else if proofs_valid then
          (case local of
             None \<Rightarrow> throw (Exc VerificationError ''matching local artifact unexpectedly disappeared'')
           | Some packaged \<Rightarrow> reverify B c E snapshot window head source packaged)
        else submit B c E snapshot window head source local)
     else submit B c E snapshot window head source local))))))))"

section \<open>The run loop\<close>

definition stop_cleanly :: "controller_config \<Rightarrow> store_env \<Rightarrow> ('x world, int) prog" where
  "stop_cleanly c E =
     pseq (report E ''stopped'' ''controller stopped cleanly'' (static_details c)) (ret 0)"

text \<open>What a step of a loop decides: the process returns a code, or the loop has a value.\<close>

datatype 'a decision = Return int | Proceed 'a

text \<open>
  The preflight loop. Each iteration either leaves the loop or polls the stop event, so the
  number of further polls bounds it; \<open>None\<close> means that the fuel was too small.
\<close>

fun preflight_loop ::
    "nat \<Rightarrow> 'x backend \<Rightarrow> controller_config \<Rightarrow> store_env \<Rightarrow> bool \<Rightarrow>
     ('x world, preflight_snapshot decision option) prog" where
  "preflight_loop 0 B c E once = ret None"
| "preflight_loop (Suc n) B c E once =
     try_else (preflight B c E)
       (\<lambda>e.
         if isinstance e AuthorizationRefused \<or> \<not> isinstance e ControllerError then throw e
         else
           pseq (failure c E (if isinstance e ArtifactCompetitionBindingError
                              then ''artifact_competition_refused'' else ''preflight_refused'') e) (
           if once then ret (Some (Return 2))
           else
             pbind poll_stop (\<lambda>stop.
             if stop then pbind (stop_cleanly c E) (\<lambda>rc. ret (Some (Return rc)))
             else preflight_loop n B c E once)))
       (\<lambda>snapshot. ret (Some (Proceed snapshot)))"

text \<open>One cycle with the handlers of the loop body.\<close>

definition handled_cycle ::
    "'x backend \<Rightarrow> controller_config \<Rightarrow> store_env \<Rightarrow> preflight_snapshot \<Rightarrow>
     ('x world, string decision) prog" where
  "handled_cycle B c E snapshot =
     try_else (cycle B c E snapshot)
       (\<lambda>e.
         if isinstance e AuthorizationRefused then pseq (authorization_failure c E e) (ret (Return 3))
         else if isinstance e ArtifactCompetitionBindingError then
           pseq (failure c E ''artifact_competition_refused'' e) (ret (Proceed ''refused''))
         else if isinstance e RoundRefused then
           (if uses_signed_v030 c
            then pseq (waiting_for_trusted_round c E e) (ret (Proceed ''waiting''))
            else pseq (failure c E ''round_refused'' e) (ret (Proceed ''refused'')))
         else pseq (failure c E ''error'' e) (ret (Proceed ''error'')))
       (\<lambda>outcome. ret (Proceed outcome))"

text \<open>\<open>while not stop\<close>; the wait at the end of the body is a poll whose answer is not used.\<close>

fun cycle_loop ::
    "nat \<Rightarrow> 'x backend \<Rightarrow> controller_config \<Rightarrow> store_env \<Rightarrow> preflight_snapshot \<Rightarrow> bool \<Rightarrow>
     ('x world, int option) prog" where
  "cycle_loop 0 B c E snapshot once = ret None"
| "cycle_loop (Suc n) B c E snapshot once =
     pbind poll_stop (\<lambda>stop.
     if stop then pbind (stop_cleanly c E) (\<lambda>rc. ret (Some rc))
     else
       pbind (handled_cycle B c E snapshot) (\<lambda>d.
       case d of
         Return rc \<Rightarrow> ret (Some rc)
       | Proceed outcome \<Rightarrow>
           if once then ret (Some (if outcome \<in> {''verified'', ''dry_run''} then 0 else 2))
           else pbind poll_stop (\<lambda>_. cycle_loop n B c E snapshot once)))"

definition run_body ::
    "nat \<Rightarrow> 'x backend \<Rightarrow> controller_config \<Rightarrow> store_env \<Rightarrow> bool \<Rightarrow> ('x world, int option) prog" where
  "run_body n B c E once =
     pbind (preflight_loop n B c E once) (\<lambda>d.
     case d of
       None \<Rightarrow> ret None
     | Some (Return rc) \<Rightarrow> ret (Some rc)
     | Some (Proceed snapshot) \<Rightarrow> cycle_loop n B c E snapshot once)"

definition run_with ::
    "nat \<Rightarrow> 'x backend \<Rightarrow> controller_config \<Rightarrow> store_env \<Rightarrow> bool \<Rightarrow> ('x world, int option) prog" where
  "run_with n B c E once =
     with_lock (finally_do
       (catch (run_body n B c E once) (\<lambda>e.
          if isinstance e AuthorizationRefused
          then pseq (authorization_failure c E e) (ret (Some 3))
          else if isinstance e ControllerError
          then pseq (failure c E ''preflight_refused'' e) (ret (Some 2))
          else pseq (failure c E ''fatal'' e) (ret (Some 1))))
       (bcall CloseBackend (b_close B)))"

text \<open>\<open>run\<close>: the polls left before the stop event is set are enough fuel for both loops.\<close>

definition run ::
    "'x backend \<Rightarrow> controller_config \<Rightarrow> store_env \<Rightarrow> bool \<Rightarrow> ('x world, int option) prog" where
  "run B c E once = (\<lambda>w. run_with (Suc (stop_after w)) B c E once w)"


end
