(* ===== verification/ControllerFrames.thy ===== *)
theory ControllerFrames
  imports Controller
begin

text \<open>
  Frames of the controller: which backend operations each part can call, that no part but the
  stop event's polls uses up polls, and that the fuel of the run loop is always enough.
\<close>

section \<open>Rules for the further combinators\<close>

context effect_relation
begin

lemma stays_attempt [stays_intros]: "stays R m \<Longrightarrow> stays R (attempt m)"
  by (metis (mono_tags, lifting) attempt_def case_prod_beta snd_conv stays_def)

lemma stays_finally [stays_intros]:
  assumes "stays R m" and "stays R fin"
  shows "stays R (finally_do m fin)"
proof (rule staysI)
  fix w r w'
  assume run: "finally_do m fin w = (r, w')"
  obtain r1 w1 where m: "m w = (r1, w1)" by (cases "m w")
  obtain r2 w2 where f: "fin w1 = (r2, w2)" by (cases "fin w1")
  from run m f have "w' = w2" by (auto simp: finally_do_def split: sum.splits)
  with staysD [OF assms(1) m] staysD [OF assms(2) f] show "R w w'" by (metis trans)
qed

lemma stays_or_refuse [stays_intros]: "stays R m \<Longrightarrow> stays R (or_refuse t m)"
  by (simp add: or_refuse_def stays_catch stays_pure)

lemma stays_case_decision [stays_intros]:
  "(\<And>n. stays R (f n)) \<Longrightarrow> (\<And>x. stays R (g x)) \<Longrightarrow>
     stays R (case d of Return n \<Rightarrow> f n | Proceed x \<Rightarrow> g x)"
  by (simp split: decision.split)

end

section \<open>What a part of the controller can do\<close>

text \<open>The kinds of backend calls, and the things in the world a part may change.\<close>

datatype kind = Reading | Loading | Packaging | Uploading | Publishing

fun kind_of :: "operation \<Rightarrow> kind" where
  "kind_of (Package i s) = Packaging"
| "kind_of (Upload k) = Uploading"
| "kind_of (Publish k) = Publishing"
| "kind_of LoadLocal = Loading"
| "kind_of _ = Reading"

datatype resource = File slot | Polls

definition confined :: "kind set \<Rightarrow> resource set \<Rightarrow> 'x world \<Rightarrow> 'x world \<Rightarrow> bool" where
  "confined K S w w' \<longleftrightarrow>
     (\<exists>es. calls w' = es @ calls w \<and> (\<forall>e \<in> set es. kind_of (ev_op e) \<in> K)) \<and>
     (\<forall>p. File p \<notin> S \<longrightarrow> disk w' p = disk w p) \<and>
     (calls w' = calls w \<longrightarrow> ext w' = ext w) \<and>
     (Polls \<notin> S \<longrightarrow> stop_after w' = stop_after w) \<and> stop_after w' \<le> stop_after w \<and>
     lock w' = lock w \<and> (faults w = [] \<longrightarrow> faults w' = [])"

interpretation framed: effect_relation "confined K S" for K S
proof unfold_locales
  fix u v w :: "'a world"
  assume uv: "confined K S u v" and vw: "confined K S v w"
  then obtain es fs where "calls v = es @ calls u" "\<forall>e \<in> set es. kind_of (ev_op e) \<in> K"
    "calls w = fs @ calls v" "\<forall>e \<in> set fs. kind_of (ev_op e) \<in> K"
    unfolding confined_def by blast
  then have "\<exists>gs. calls w = gs @ calls u \<and> (\<forall>e \<in> set gs. kind_of (ev_op e) \<in> K)"
    by (intro exI [of _ "fs @ es"]) auto
  moreover have "calls w = calls u \<longrightarrow> calls v = calls u \<and> calls w = calls v"
    using \<open>calls v = es @ calls u\<close> \<open>calls w = fs @ calls v\<close> by simp
  ultimately show "confined K S u w" using uv vw unfolding confined_def by force
qed (simp add: confined_def)

lemma confined_mono:
  assumes "confined K S w w'" and "K \<subseteq> K'" and "S \<subseteq> S'"
  shows "confined K' S' w w'"
  using assms unfolding confined_def by blast

lemma stays_within_mono:
  "stays (confined K S) m \<Longrightarrow> K \<subseteq> K' \<Longrightarrow> S \<subseteq> S' \<Longrightarrow> stays (confined K' S') m"
  by (erule stays_mono) (rule confined_mono)

lemma touches_world:
  assumes "touches T w (w' :: 'x world)"
  shows "calls w' = calls w" "stop_after w' = stop_after w" "ext w' = ext w"
    "remembered w' = remembered w"
  using assms by (cases w; cases w'; simp add: touches_def)+

lemma confined_store:
  "stays (touches T) (m :: ('x world, 'a) prog) \<Longrightarrow> File ` T \<subseteq> S \<Longrightarrow> stays (confined K S) m"
  by (erule stays_mono) (auto simp: confined_def touches_world, auto simp: touches_def)

lemma confined_bcall [stays_intros]: "kind_of op \<in> K \<Longrightarrow> stays (confined K S) (bcall op f)"
  by (auto simp: stays_def confined_def bcall_def split: prod.split)

lemma confined_world [stays_intros]:
  "Polls \<in> S \<Longrightarrow> stays (confined K S) poll_stop" "stays (confined K S) (remember s)"
  by (auto simp: stays_def poll_stop_def remember_def confined_def)

lemma confined_reads [stays_intros]:
  "stays (confined K S) (tick E)"
  "stays (confined K S) (read_slot p)"
  "stays (confined K S) read_authorization_refusal"
  "stays (confined K S) read_submission_pending"
  by (rule confined_store [where T = "{}"]; auto intro: stays_intros)+

lemma confined_state [stays_intros]:
  "{File Status, File Health} \<subseteq> S \<Longrightarrow> stays (confined K S) (write_state E ph ok msg now det pre)"
  "{File Status, File Health} \<subseteq> S \<Longrightarrow> stays (confined K S) (mark_verified E rd msg det now)"
  "{File Status, File Health} \<subseteq> S \<Longrightarrow> stays (confined K S) (heartbeat E now)"
  by (rule confined_store [where T = "{Status, Health}"]; auto intro: stays_intros)+

lemma confined_markers [stays_intros]:
  "File Refusal \<in> S \<Longrightarrow> stays (confined K S) (latch_authorization_refusal E msg det now)"
  "File Pending \<in> S \<Longrightarrow> stays (confined K S) (mark_submission_pending E rd src hk fp det now)"
  "File Pending \<in> S \<Longrightarrow> stays (confined K S) (clear_submission_pending fp)"
  by (rule confined_store [where T = "{Refusal}"], auto intro: stays_intros)
    (rule confined_store [where T = "{Pending}"]; auto intro: stays_intros)+

lemma confined_lock [stays_intros]:
  assumes "stays (confined K S) m"
  shows "stays (confined K S) (with_lock m :: ('x world, 'a) prog)"
proof (rule staysI)
  fix w r and w' :: "'x world"
  assume run: "with_lock m w = (r, w')"
  show "confined K S w w'"
  proof (cases "lock w")
    case LockFree
    obtain r1 w1 where m: "m (w\<lparr>lock := LockMine\<rparr>) = (r1, w1)" by (cases "m (w\<lparr>lock := LockMine\<rparr>)")
    with run LockFree have "w' = w1\<lparr>lock := LockFree\<rparr>" by (simp add: with_lock_def)
    with staysD [OF assms m] LockFree show ?thesis by (simp add: confined_def)
  qed (use run in \<open>auto simp: with_lock_def framed.refl\<close>)
qed

text \<open>Parts that report progress and read through the backend.\<close>

abbreviation status_files :: "resource set" where
  "status_files \<equiv> {File Status, File Health}"

lemma confined_latch_check [stays_intros]:
  "stays (confined K S) authorization_latch_reason" "stays (confined K S) refuse_if_latched"
  by (auto simp: authorization_latch_reason_def refuse_if_latched_def intro!: stays_intros)

lemma confined_due [stays_intros]: "stays (confined K S) (verification_due c E state)"
  by (auto simp: verification_due_def intro!: stays_intros split: sum.split)

lemma confined_deadline [stays_intros]: "stays (confined K S) (assert_deadline c window block action)"
  by (auto simp: assert_deadline_def intro!: stays_intros)

lemma confined_reports [stays_intros]:
  assumes "status_files \<subseteq> S"
  shows "stays (confined K S) (report E ph msg det)"
    "stays (confined K S) (failure c E ph e)"
    "stays (confined K S) (waiting_for_trusted_round c E e)"
    "stays (confined K S) (remember_round E previous window)"
    "stays (confined K S) (verified E window packaged payload common full msg)"
  using assms
  by (auto simp: report_def failure_def waiting_for_trusted_round_def remember_round_def
      verified_def Let_def intro!: stays_intros)

lemma confined_stop [stays_intros]: "status_files \<subseteq> S \<Longrightarrow> stays (confined K S) (stop_cleanly c E)"
  by (auto simp: stop_cleanly_def intro!: stays_intros)

lemma confined_authorization_failure [stays_intros]:
  "status_files \<union> {File Refusal} \<subseteq> S \<Longrightarrow> stays (confined K S) (authorization_failure c E e)"
  by (auto simp: authorization_failure_def Let_def intro!: stays_intros)

lemma confined_binding [stays_intros]:
  "Reading \<in> K \<Longrightarrow> stays (confined K S) (assert_packaged_binding B packaged)"
  by (auto simp: assert_packaged_binding_def intro!: stays_intros)

lemma confined_resolve [stays_intros]:
  assumes "Reading \<in> K" and "status_files \<subseteq> S"
  shows "stays (confined K S) (controller_resolve_round B c E head)"
  using assms by (auto simp: controller_resolve_round_def Let_def intro!: stays_intros)

lemma confined_refresh [stays_intros]:
  assumes "Reading \<in> K" and "status_files \<subseteq> S"
  shows "stays (confined K S) (refresh_same_round B c E expected)"
  using assms by (auto simp: refresh_same_round_def intro!: stays_intros)

lemma confined_preflight [stays_intros]:
  assumes "Reading \<in> K" and "status_files \<subseteq> S"
  shows "stays (confined K S) (preflight B c E)"
  using assms by (auto simp: preflight_def intro!: stays_intros)

lemma confined_reverify [stays_intros]:
  assumes "Reading \<in> K" and "status_files \<subseteq> S"
  shows "stays (confined K S) (reverify B c E snapshot window head source packaged)"
  using assms by (auto simp: reverify_def Let_def intro!: stays_intros)

lemma confined_broadcast_checks [stays_intros]:
  assumes "Reading \<in> K" and "status_files \<subseteq> S"
  shows "stays (confined K S) (broadcast_checks B c E window packaged)"
  using assms by (auto simp: broadcast_checks_def intro!: stays_intros)

lemma confined_select [stays_intros]:
  assumes "Packaging \<in> K" and "status_files \<subseteq> S"
  shows "stays (confined K S) (select_package B c E window head source common reusable local)"
  using assms by (auto simp: select_package_def Let_def intro!: stays_intros)

lemma confined_remote [stays_intros]:
  assumes "{Reading, Uploading} \<subseteq> K" and "status_files \<subseteq> S"
  shows "stays (confined K S) (ensure_remote B c E window details reusable packaged)"
  using assms by (auto simp: ensure_remote_def Let_def intro!: stays_intros)

text \<open>Parts that handle the pending marker.\<close>

lemma confined_marker_parts [stays_intros]:
  assumes "File Pending \<in> S"
  shows "stays (confined K S) (record_pending E packaged fp block)"
    "stays (confined K S) (clear_and_raise fp t e)"
  using assms by (auto simp: record_pending_def clear_and_raise_def intro!: stays_intros)

lemma confined_reconcile [stays_intros]:
  assumes "Reading \<in> K" and "status_files \<union> {File Pending} \<subseteq> S"
  shows "stays (confined K S) (reconcile_pending B c E snapshot window head source local pending)"
  using assms by (auto simp: reconcile_pending_def Let_def intro!: stays_intros)

lemma confined_broadcast [stays_intros]:
  assumes "{Reading, Publishing} \<subseteq> K" and "status_files \<subseteq> S"
  shows "stays (confined K S) (broadcast B E details packaged fp)"
  using assms by (auto simp: broadcast_def intro!: stays_intros)

lemma confined_publish [stays_intros]:
  assumes "{Reading, Publishing} \<subseteq> K" and "status_files \<union> {File Pending} \<subseteq> S"
  shows "stays (confined K S) (publish_commitment B c E window details packaged encoded block)"
    "stays (confined K S) (broadcast_outcome B E details packaged fp)"
  using assms
  by (auto simp: publish_commitment_def broadcast_outcome_def Let_def intro!: stays_intros)

lemma confined_submit [stays_intros]:
  assumes "{Reading, Packaging, Uploading, Publishing} \<subseteq> K"
    and "status_files \<union> {File Pending} \<subseteq> S"
  shows "stays (confined K S) (submit B c E snapshot window head source local)"
  using assms by (auto simp: submit_def Let_def intro!: stays_intros)

lemma confined_cycle [stays_intros]:
  assumes "status_files \<union> {File Pending} \<subseteq> S"
  shows "stays (confined UNIV S) (cycle B c E snapshot)"
  using assms by (auto simp: cycle_def Let_def intro!: stays_intros)

text \<open>A dry run reaches no part that packages, uploads or publishes.\<close>

lemma confined_dry_cycle:
  assumes "c_dry_run c" and "{Reading, Loading} \<subseteq> K" and "status_files \<union> {File Pending} \<subseteq> S"
  shows "stays (confined K S) (cycle B c E snapshot)"
  using assms by (auto simp: cycle_def Let_def intro!: stays_intros)

lemma confined_handled_cycle:
  assumes "stays (confined K S) (cycle B c E snapshot)"
    and "status_files \<union> {File Refusal} \<subseteq> S"
  shows "stays (confined K S) (handled_cycle B c E snapshot)"
  using assms by (auto simp: handled_cycle_def intro!: stays_intros)

lemma confined_preflight_loop:
  assumes "Reading \<in> K" and "status_files \<union> {Polls} \<subseteq> S"
  shows "stays (confined K S) (preflight_loop n B c E once)"
  using assms by (induction n) (auto intro!: stays_intros)

lemma confined_cycle_loop:
  assumes "stays (confined K S) (cycle B c E snapshot)"
    and "status_files \<union> {File Refusal, Polls} \<subseteq> S"
  shows "stays (confined K S) (cycle_loop n B c E snapshot once)"
  using assms by (induction n) (auto intro!: stays_intros confined_handled_cycle)

lemma confined_run:
  assumes "\<And>snapshot. stays (confined K S) (cycle B c E snapshot)" and "Reading \<in> K"
    and "status_files \<union> {File Refusal, Polls} \<subseteq> S"
  shows "stays (confined K S) (run_body n B c E once)" "stays (confined K S) (run_with n B c E once)"
  using assms
  by (auto simp: run_with_def run_body_def
      intro!: stays_intros confined_preflight_loop confined_cycle_loop)

section \<open>The fuel of the run loop\<close>

text \<open>No step of a loop other than a poll changes the number of polls left.\<close>

lemma polls_kept:
  assumes "stays (confined UNIV (UNIV - {Polls})) m" and "m w = (r, w')"
  shows "stop_after w' = stop_after w"
  using staysD [OF assms] by (simp add: confined_def)

lemma polls_bounded:
  assumes "stays (confined UNIV UNIV) m" and "m w = (r, w')"
  shows "stop_after w' \<le> stop_after w"
  using staysD [OF assms] by (simp add: confined_def)

lemma preflight_loop_returns:
  assumes "stop_after w < n" and "preflight_loop n B c E once w = (r, w')"
  shows "r \<noteq> Inr None"
  using assms
proof (induction n arbitrary: w)
  case (Suc n)
  obtain r1 w1 where p: "preflight B c E w = (r1, w1)" by (cases "preflight B c E w")
  have s1: "stop_after w1 = stop_after w"
    by (rule polls_kept [where m = "preflight B c E", OF _ p]) (auto intro!: stays_intros)
  show ?case
  proof (cases r1)
    case (Inr snapshot)
    with Suc.prems p show ?thesis by (auto simp: try_else_def)
  next
    case (Inl e)
    define phase where "phase = (if isinstance e ArtifactCompetitionBindingError
        then ''artifact_competition_refused'' else ''preflight_refused'')"
    obtain r2 w2 where f: "failure c E phase e w1 = (r2, w2)" by (cases "failure c E phase e w1")
    have s2: "stop_after w2 = stop_after w1"
      by (rule polls_kept [where m = "failure c E phase e", OF _ f]) (auto intro!: stays_intros)
    obtain r3 w3 where s: "stop_cleanly c E w2 = (r3, w3)" by (cases "stop_cleanly c E w2")
    show ?thesis
    proof (cases "isinstance e AuthorizationRefused \<or> \<not> isinstance e ControllerError \<or> once
        \<or> (\<exists>d. r2 = Inl d) \<or> stop_after w2 = 0")
      case True
      with Suc.prems p Inl f s show ?thesis
        by (auto simp: try_else_def pbind_def poll_stop_def phase_def split: if_splits sum.splits)
    next
      case False
      then have "preflight_loop n B c E once (w2\<lparr>stop_after := stop_after w2 - 1\<rparr>) = (r, w')"
        using Suc.prems p Inl f
        by (auto simp: try_else_def pbind_def poll_stop_def phase_def split: sum.splits)
      moreover have "stop_after (w2\<lparr>stop_after := stop_after w2 - 1\<rparr>) < n"
        using False s1 s2 Suc.prems(1) by (simp, linarith)
      ultimately show ?thesis by (rule Suc.IH [rotated])
    qed
  qed
qed simp

lemma cycle_loop_returns:
  assumes "stop_after w < n" and "cycle_loop n B c E snapshot once w = (r, w')"
  shows "r \<noteq> Inr None"
  using assms
proof (induction n arbitrary: w)
  case (Suc n)
  show ?case
  proof (cases "stop_after w = 0")
    case True
    obtain r3 w3 where s: "stop_cleanly c E w = (r3, w3)" by (cases "stop_cleanly c E w")
    with True Suc.prems show ?thesis
      by (auto simp: pbind_def poll_stop_def split: sum.splits)
  next
    case False
    define w0 where "w0 = w\<lparr>stop_after := stop_after w - 1\<rparr>"
    have poll: "poll_stop w = (Inr False, w0)" using False by (simp add: poll_stop_def w0_def)
    obtain r1 w1 where h: "handled_cycle B c E snapshot w0 = (r1, w1)"
      by (cases "handled_cycle B c E snapshot w0")
    have s1: "stop_after w1 = stop_after w0"
      by (rule polls_kept [where m = "handled_cycle B c E snapshot", OF _ h]) (auto intro!: stays_intros confined_handled_cycle)
    obtain r2 w2 where p: "poll_stop w1 = (Inr r2, w2)" and s2: "stop_after w2 \<le> stop_after w1"
      by (cases "stop_after w1 = 0") (auto simp: poll_stop_def)
    have run: "(case r1 of Inl e \<Rightarrow> (Inl e, w1) | Inr (Return rc) \<Rightarrow> (Inr (Some rc), w1)
        | Inr (Proceed outcome) \<Rightarrow>
            if once then (Inr (Some (if outcome \<in> {''verified'', ''dry_run''} then 0 else 2)), w1)
            else cycle_loop n B c E snapshot once w2) = (r, w')"
      using Suc.prems(2) poll h p
      by (auto simp: pbind_def split: sum.splits decision.splits)
    have "stop_after w2 < n" using s1 s2 False Suc.prems(1) by (simp add: w0_def)
    with Suc.IH [of w2] run show ?thesis
      by (auto split: sum.splits decision.splits if_splits)
  qed
qed simp

end
