(* ===== verification/ControllerSafety.thy ===== *)
theory ControllerSafety
  imports ControllerFrames
begin

text \<open>
  Safety of the controller: the run terminates with an exit code, a dry run changes nothing
  outside the state directory, an authorization refusal is permanent, and every publication
  is preceded by the proofs and by the durable marker it needs.
\<close>

section \<open>Termination and exit codes\<close>

definition exit_codes :: "int set" where "exit_codes = {0, 1, 2, 3}"

lemma preflight_loop_codes:
  "preflight_loop n B c E once w = (Inr (Some (Return k)), w') \<Longrightarrow> k \<in> exit_codes"
proof (induction n arbitrary: w)
  case (Suc n)
  then show ?case
    by (auto simp: try_else_def exit_codes_def stop_cleanly_def split: prod.splits sum.splits if_splits
        elim!: pbind_InrD)
qed simp

lemma cycle_loop_codes:
  "cycle_loop n B c E snapshot once w = (Inr (Some k), w') \<Longrightarrow> k \<in> exit_codes"
proof (induction n arbitrary: w)
  case (Suc n)
  have "k' \<in> exit_codes" if "handled_cycle B c E snapshot v = (Inr (Return k'), v')" for v v' k'
    using that
    by (auto simp: handled_cycle_def try_else_def exit_codes_def split: prod.splits sum.splits if_splits
        elim!: pbind_InrD)
  moreover have "k' = 0" if "stop_cleanly c E v = (Inr k', v')" for v v' :: "'a world" and k'
    using that by (auto simp: stop_cleanly_def elim!: pbind_InrD)
  moreover have "0 \<in> exit_codes" "2 \<in> exit_codes" by (simp_all add: exit_codes_def)
  ultimately show ?case
    using Suc by (auto split: if_splits decision.splits elim!: pbind_InrD) metis+
qed simp

lemma run_body_codes:
  "run_body n B c E once w = (Inr (Some k), w') \<Longrightarrow> k \<in> exit_codes"
  by (auto simp: run_body_def split: option.splits decision.splits elim!: pbind_InrD
      dest: preflight_loop_codes cycle_loop_codes)

lemma run_body_returns:
  assumes "stop_after w < n" and "run_body n B c E once w = (r, w')"
  shows "r \<noteq> Inr None"
proof -
  obtain d w1 where p: "preflight_loop n B c E once w = (d, w1)"
    by (cases "preflight_loop n B c E once w")
  have "stop_after w1 \<le> stop_after w"
    by (rule polls_bounded [where m = "preflight_loop n B c E once", OF _ p])
      (auto intro!: confined_preflight_loop)
  with assms preflight_loop_returns [OF assms(1) p] p cycle_loop_returns [of w1 n]
  show ?thesis
    by (auto simp: run_body_def pbind_def split: sum.splits option.splits decision.splits)
qed

lemma finally_cases:
  assumes "finally_do m fin w = (r, w')"
  obtains r1 w1 r2 where "m w = (r1, w1)" "fin w1 = (r2, w')"
    "r = (case r2 of Inl e \<Rightarrow> Inl e | Inr _ \<Rightarrow> r1)"
  using assms by (auto simp: finally_do_def split: prod.splits sum.splits)

text \<open>
  The controller's run always ends: once the stop event is set after some number of
  polls, the loops stop, and \<open>run\<close> either raises or returns one of the exit codes 0 to 3;
  the fuel given to the loops is never exhausted, whatever the backend answers.
\<close>

lemma run_returns_exit_code:
  "fst (run B c E once w) \<in> range Inl \<union> Inr ` Some ` {0, 1, 2, 3}"
proof -
  obtain r w' where run: "run_with (Suc (stop_after w)) B c E once w = (r, w')"
    by (cases "run_with (Suc (stop_after w)) B c E once w")
  have "r \<in> range Inl \<union> Inr ` Some ` exit_codes"
    using run unfolding run_with_def
  proof (cases rule: with_lock_cases)
    case (held w1)
    from held(2) show ?thesis
    proof (cases rule: finally_cases)
      case (1 r1 w2 r2)
      obtain rb wb where body: "run_body (Suc (stop_after w)) B c E once (w\<lparr>lock := LockMine\<rparr>) = (rb, wb)"
        by (cases "run_body (Suc (stop_after w)) B c E once (w\<lparr>lock := LockMine\<rparr>)")
      have "rb \<noteq> Inr None" by (rule run_body_returns [OF _ body]) simp
      with 1 body run_body_codes [of "Suc (stop_after w)" B c E once "w\<lparr>lock := LockMine\<rparr>"]
      show ?thesis
        by (auto simp: catch_def exit_codes_def pbind_def split: sum.splits if_splits prod.splits)
    qed
  qed auto
  with run show ?thesis by (simp add: run_def exit_codes_def)
qed

section \<open>Dry runs\<close>

lemma dry_run_calls:
  assumes "c_dry_run c" and "run B c E once w = (r, w')"
  shows "\<exists>es. calls w' = es @ calls w \<and>
    (\<forall>e \<in> set es. kind_of (ev_op e) \<notin> {Packaging, Uploading, Publishing})"
proof -
  have "stays (confined {Reading, Loading} UNIV) (cycle B c E snapshot)" for snapshot
    using assms(1) by (auto intro!: confined_dry_cycle)
  then have "stays (confined {Reading, Loading} UNIV) (run_with (Suc (stop_after w)) B c E once)"
    by (auto intro!: confined_run(2))
  then have "confined {Reading, Loading} UNIV w w'"
    using staysD [of _ "run_with (Suc (stop_after w)) B c E once" w r w'] assms(2) by (simp add: run_def)
  then show ?thesis by (fastforce simp: confined_def)
qed

text \<open>
  C2: with dry run configured, a whole run (any number of cycles, any backend) makes no call
  that packages, uploads or publishes: every backend call it adds only reads.
\<close>

theorem dry_run_only_reads:
  assumes "c_dry_run c" and "run B c E once w = (r, w')"
  shows "\<exists>es. calls w' = es @ calls w \<and>
    (\<forall>e \<in> set es. kind_of (ev_op e) \<notin> {Packaging, Uploading, Publishing})"
  using dry_run_calls [OF assms] .

section \<open>The authorization latch\<close>

lemma refuse_if_latched_file:
  assumes "disk w Refusal \<noteq> Missing"
  shows "\<exists>t. refuse_if_latched w = (Inl (Exc AuthorizationRefused t), w)"
proof (cases "refusal_of (disk w Refusal)")
  case (Inl e)
  then show ?thesis
    by (simp add: refuse_if_latched_def authorization_latch_reason_def pbind_def try_else_def)
next
  case (Inr m)
  with assms refusal_of_Inr [OF Inr] have "m \<noteq> []" by simp
  with Inr show ?thesis
    by (simp add: refuse_if_latched_def authorization_latch_reason_def pbind_def try_else_def)
qed

lemma preflight_latched:
  assumes "disk w Refusal \<noteq> Missing"
  shows "\<exists>t. preflight B c E w = (Inl (Exc AuthorizationRefused t), w)"
  using refuse_if_latched_file [OF assms] by (auto simp: preflight_def pbind_def)

text \<open>No part of the controller removes a refusal marker.\<close>

definition keeps_refusal :: "'a store_scheme \<Rightarrow> 'a store_scheme \<Rightarrow> bool" where
  "keeps_refusal w w' \<longleftrightarrow> (disk w Refusal \<noteq> Missing \<longrightarrow> disk w' Refusal \<noteq> Missing)"

interpretation refusing: effect_relation keeps_refusal
  by unfold_locales (auto simp: keeps_refusal_def)

lemma refusing_store:
  "stays (touches (UNIV - {Refusal})) m \<Longrightarrow> stays keeps_refusal m"
  by (erule stays_mono) (simp add: touches_def keeps_refusal_def)

lemma refusing_parts [stays_intros]:
  "stays keeps_refusal (latch_authorization_refusal E msg det now)"
  "stays keeps_refusal (read_slot p)"
  "stays keeps_refusal (write_state E ph ok msg now det pre)"
proof -
  show "stays keeps_refusal (latch_authorization_refusal E msg det now)"
    by (rule staysI) (auto simp: keeps_refusal_def dest: latch_effect(1))
qed (rule refusing_store; auto intro: stays_intros)+

lemma authorization_failure_keeps:
  assumes "authorization_failure c E e w = (r, w')" and "disk w Refusal \<noteq> Missing"
  shows "disk w' Refusal \<noteq> Missing"
proof -
  have "stays keeps_refusal (authorization_failure c E e)"
    by (auto simp: authorization_failure_def Let_def intro!: stays_intros)
  from staysD [OF this assms(1)] assms(2) show ?thesis by (simp add: keeps_refusal_def)
qed

lemma authorization_failure_returns: "\<exists>w'. authorization_failure c E e w = (Inr (), w')"
  by (auto simp: authorization_failure_def pbind_def catch_def Let_def split: prod.splits sum.splits)

text \<open>A run over a latched directory: the latch, the closing call, nothing else.\<close>

lemma latched_run:
  assumes "disk w Refusal \<noteq> Missing" and "lock w = LockFree" and "run B c E once w = (r, w')"
  shows "\<exists>w1 rc x. b_close B (ext w) = (rc, x) \<and> disk w1 Refusal \<noteq> Missing \<and>
    confined {} {File Status, File Health, File Refusal} (w\<lparr>lock := LockMine\<rparr>) w1 \<and>
    r = (case rc of Inl e \<Rightarrow> Inl e | Inr _ \<Rightarrow> Inr (Some 3)) \<and>
    w' = w1\<lparr>ext := x, calls := Event CloseBackend (\<not> isl rc) (disk w1 Pending) # calls w1,
            lock := LockFree\<rparr>"
proof -
  let ?w = "w\<lparr>lock := LockMine\<rparr>"
  from preflight_latched [of ?w B c E] assms(1)
  obtain t where "preflight B c E ?w = (Inl (Exc AuthorizationRefused t), ?w)" by auto
  then have body: "run_body (Suc (stop_after w)) B c E once ?w = (Inl (Exc AuthorizationRefused t), ?w)"
    by (simp add: run_body_def pbind_def try_else_def)
  obtain w1 where af: "authorization_failure c E (Exc AuthorizationRefused t) ?w = (Inr (), w1)"
    using authorization_failure_returns by blast
  have keep: "confined {} {File Status, File Health, File Refusal} ?w w1"
    by (rule staysD [where R = "confined {} {File Status, File Health, File Refusal}"
          and m = "authorization_failure c E (Exc AuthorizationRefused t)", OF _ af])
      (auto intro!: stays_intros)
  then have same: "ext w1 = ext w" by (simp add: confined_def)
  have stay: "disk w1 Refusal \<noteq> Missing"
    using authorization_failure_keeps [OF af] assms(1) by simp
  obtain rc x where close: "b_close B (ext w) = (rc, x)" by (cases "b_close B (ext w)")
  from assms(2,3) body af close same have
    "r = (case rc of Inl e \<Rightarrow> Inl e | Inr _ \<Rightarrow> Inr (Some 3)) \<and>
     w' = w1\<lparr>ext := x, calls := Event CloseBackend (\<not> isl rc) (disk w1 Pending) # calls w1,
             lock := LockFree\<rparr>"
    by (auto simp: run_def run_with_def with_lock_def finally_do_def catch_def pbind_def bcall_def
        split: sum.splits)
  with keep stay close show ?thesis by blast
qed

text \<open>
  \<open>refuses B w r w'\<close>: what such a run does. Its outcome is exactly that of the closing call
  (code 3, or the exception closing raises), which is its only backend call; both markers stay.
\<close>

definition refuses :: "'x backend \<Rightarrow> 'x world \<Rightarrow> int option res \<Rightarrow> 'x world \<Rightarrow> bool" where
  "refuses B w r w' \<longleftrightarrow>
     r = (case fst (b_close B (ext w)) of Inl e \<Rightarrow> Inl e | Inr _ \<Rightarrow> Inr (Some 3)) \<and>
     calls w' = Event CloseBackend (\<not> isl (fst (b_close B (ext w)))) (disk w Pending) # calls w \<and>
     disk w' Refusal \<noteq> Missing \<and> disk w' Pending = disk w Pending \<and> lock w' = LockFree"

lemma latched_run_refuses:
  assumes "disk w Refusal \<noteq> Missing" and "lock w = LockFree" and "run B c E once w = (r, w')"
  shows "refuses B w r w'"
  using latched_run [OF assms] by (auto simp: confined_def refuses_def)

lemma latched_calls:
  assumes "disk w Refusal \<noteq> Missing" and "run B c E once w = (r, w')"
  shows "\<exists>es. calls w' = es @ calls w \<and> (\<forall>e \<in> set es. kind_of (ev_op e) \<noteq> Publishing)"
proof (cases "lock w = LockFree")
  case True
  from latched_run [OF assms(1) True assms(2)] show ?thesis by (fastforce simp: confined_def)
next
  case False
  with assms(2) show ?thesis by (cases "lock w") (auto simp: run_def run_with_def with_lock_def)
qed

text \<open>
  C1: an authorization refusal is permanent. Whenever a refusal marker exists (of any content,
  even unreadable), a run that gets the lock makes no backend call but the closing one; it
  returns exit code 3 when closing the backend returns, and otherwise raises exactly what
  closing raised; it leaves the pending submission marker alone and leaves a refusal marker
  behind, so the next run refuses again.
\<close>

theorem refusal_is_permanent:
  assumes "disk w Refusal \<noteq> Missing" and "lock w = LockFree" and "run B c E once w = (r, w')"
  shows "r = (case fst (b_close B (ext w)) of Inl e \<Rightarrow> Inl e | Inr _ \<Rightarrow> Inr (Some 3)) \<and>
    calls w' = Event CloseBackend (\<not> isl (fst (b_close B (ext w)))) (disk w Pending) # calls w \<and>
    disk w' Refusal \<noteq> Missing \<and> disk w' Pending = disk w Pending \<and> lock w' = LockFree"
  using latched_run_refuses [OF assms] unfolding refuses_def .

section \<open>Concrete runs\<close>

text \<open>A chain and store that are down: every backend operation but closing raises.\<close>

definition down :: "unit \<Rightarrow> 'a res \<times> unit" where
  "down x = (fail VerificationError ''down'', x)"

definition down_backend :: "unit backend" where
  "down_backend =
     \<lparr>b_preflight = down, b_block = down, b_chain_round = (\<lambda>_. down), b_fetch_round = (\<lambda>_ _. down),
      b_verify_round_anchor = (\<lambda>_. down), b_validate_round = (\<lambda>_. down),
      b_assert_registered = down, b_validate_competition = down, b_load_local = down,
      b_package = (\<lambda>_ _. down), b_validate_commitment = (\<lambda>_. down), b_upload = (\<lambda>_. down),
      b_verify_source = (\<lambda>_ _. down), b_verify_provenance = (\<lambda>_ _. down),
      b_verify_on_chain = (\<lambda>_. down), b_publish = (\<lambda>_. down), b_close = (\<lambda>x. (Inr (), x))\<rparr>"

text \<open>An empty directory but for the given files; the stop event is set after two polls.\<close>

definition example_world :: "(slot \<Rightarrow> jfile) \<Rightarrow> unit world" where
  "example_world files =
     \<lparr>disk = files, faults = [], ticks = 0, lock = LockFree, ext = (), calls = [], stop_after = 2,
      remembered = None\<rparr>"

lemma example_world_fields [simp]:
  "disk (example_world files) = files" "faults (example_world files) = []"
  "lock (example_world files) = LockFree" "calls (example_world files) = []"
  "stop_after (example_world files) = 2"
  by (simp_all add: example_world_def)

theorem dry_run_only_reads_witness:
  "list_all (\<lambda>e. kind_of (ev_op e) \<notin> {Packaging, Uploading, Publishing})
     (calls (snd (run down_backend (example_config\<lparr>c_dry_run := True\<rparr>) example_env False
       (example_world (\<lambda>_. Missing)))))"
proof -
  obtain r w' where run: "run down_backend (example_config\<lparr>c_dry_run := True\<rparr>) example_env False
      (example_world (\<lambda>_. Missing)) = (r, w')" by fastforce
  show ?thesis using dry_run_only_reads [OF _ run] run by (auto simp: list_all_iff)
qed

theorem refusal_is_permanent_witness:
  "let (r, w') = run down_backend example_config example_env False
      (example_world ((\<lambda>_. Missing)(Refusal := Irregular))) in
   r = Inr (Some 3) \<and> calls w' = [Event CloseBackend True Missing] \<and>
   disk w' Refusal \<noteq> Missing \<and> disk w' Pending = Missing"
proof -
  obtain r w' where run: "run down_backend example_config example_env False
      (example_world ((\<lambda>_. Missing)(Refusal := Irregular))) = (r, w')" by fastforce
  show ?thesis using refusal_is_permanent [OF _ _ run] run by (simp add: down_backend_def)
qed

text \<open>
  When the latch file can be written, exit code 3 leaves a refusal behind: the details of a
  refusal hold no source text, so they can always be sanitised.
\<close>

lemma refusal_sourceless:
  "sourceless_items (static_details c)"
  "sourceless_items [(''authorization_latched'', JBool True), (''authorization_reason'', JStr msg),
     (''consecutive_failures'', JInt n), (''proofs'', JObj (proofs_dict no_proofs))]"
  "sourceless_items [(''schema_version'', JInt i), (''authorization_latched'', JBool True),
     (''authorization_reason'', JStr msg), (''latched_at'', JStr s), (''latched_at_epoch'', JFloat f)]"
  "sourceless_items [(''schema_version'', JInt i), (''authorization_latched'', JBool True),
     (''authorization_reason'', JStr msg)]"
  by (simp_all add: static_details_def opt_int_def proofs_dict_def py_lower_def lower_char_def
      is_upper_def code_def split: option.split)

lemma refusal_payload_clean:
  "\<exists>p. sanitize_items lib secrets (refusal_payload E msg (refusal_details c msg n) t) = Inr p"
  unfolding refusal_payload_def refusal_details_def
  by (intro sourceless_sanitize(3) sourceless_update refusal_sourceless)

end
