(* ===== verification/CycleFacts.thy ===== *)
theory CycleFacts
  imports ControllerSafety
begin

text \<open>
  Reasoning about one cycle over the log of backend calls. \<open>recent\<close> is the part of the log
  since the local artifact was loaded, which each cycle does once; a fact is a predicate some
  event of that part satisfies. \<open>cycle_facts\<close> is the interface of such proofs: an invariant
  that a set of harmless calls keeps, under which facts accumulate step by step.
\<close>

definition recent :: "event list \<Rightarrow> event list" where
  "recent es = takeWhile (\<lambda>e. ev_op e \<noteq> LoadLocal) es"

definition succeeded :: "operation \<Rightarrow> event \<Rightarrow> bool" where
  "succeeded op e \<longleftrightarrow> ev_op e = op \<and> ev_ok e"

definition failed :: "operation \<Rightarrow> event \<Rightarrow> bool" where
  "failed op e \<longleftrightarrow> ev_op e = op \<and> \<not> ev_ok e"

definition known :: "('x world \<Rightarrow> bool) \<Rightarrow> (event \<Rightarrow> bool) list \<Rightarrow> 'x world \<Rightarrow> bool" where
  "known I Ps w \<longleftrightarrow> I w \<and> (\<forall>P \<in> set Ps. list_ex P (recent (calls w)))"

lemma recent_append:
  assumes "\<forall>e \<in> set es. kind_of (ev_op e) \<noteq> Loading"
  shows "recent (es @ fs) = es @ recent fs"
proof -
  have "\<forall>e \<in> set es. ev_op e \<noteq> LoadLocal" using assms by auto
  then show ?thesis unfolding recent_def by (induction es) auto
qed

lemma known_weaken: "known I Ps w \<Longrightarrow> set Qs \<subseteq> set Ps \<Longrightarrow> known I Qs w"
  by (auto simp: known_def)

lemma known_tail: "known I (P # Ps) w \<Longrightarrow> known I Ps w"
  by (simp add: known_def)

lemma known_inv: "known I Ps w \<Longrightarrow> I w"
  by (simp add: known_def)

lemma known_seen: "known I (P # Ps) w \<Longrightarrow> list_ex P (recent (calls w))"
  by (simp add: known_def)

lemma known_replace:
  assumes "known I (P # Ps) w" and "\<And>e. P e \<Longrightarrow> Q e"
  shows "known I (Q # Ps) w"
  using assms by (auto simp: known_def list_ex_iff)

text \<open>The facts of one call.\<close>

lemma bcall_InrD:
  "bcall op f w = (Inr x, w') \<Longrightarrow>
     calls w' = Event op True (disk w Pending) # calls w \<and> disk w' = disk w"
  by (auto simp: bcall_def split: prod.splits)

lemma bcall_InlD:
  "bcall op f w = (Inl e, w') \<Longrightarrow>
     calls w' = Event op False (disk w Pending) # calls w \<and> disk w' = disk w"
  by (auto simp: bcall_def split: prod.splits)

lemma confined_calls: "confined {} S w w' \<Longrightarrow> calls w' = calls w"
  by (auto simp: confined_def)

locale cycle_facts =
  fixes I :: "'x world \<Rightarrow> bool"
    and G :: "'x world \<Rightarrow> bool"
    and K :: "kind set"
    and S :: "resource set"
  assumes keeps: "confined K S w w' \<Longrightarrow> I w \<Longrightarrow> I w'"
    and no_load: "Loading \<notin> K"
    and weaker: "I w \<Longrightarrow> G w"
begin

lemma known_frame:
  assumes "confined K S w w'" and "known I Ps w"
  shows "known I Ps w'"
proof -
  from assms(1) obtain es where es: "calls w' = es @ calls w" "\<forall>e \<in> set es. kind_of (ev_op e) \<in> K"
    unfolding confined_def by blast
  with no_load have "\<forall>e \<in> set es. kind_of (ev_op e) \<noteq> Loading" by auto
  with es(1) have "recent (calls w') = es @ recent (calls w)" by (simp add: recent_append)
  with assms keeps show ?thesis by (auto simp: known_def)
qed

lemma known_result: "known I Ps w \<Longrightarrow> G w"
  by (simp add: known_def weaker)

text \<open>A part that only makes harmless calls keeps every fact.\<close>

lemma quiet:
  "stays (confined K S) m \<Longrightarrow> triple (known I Ps) m (\<lambda>_. known I Ps) (\<lambda>_. known I Ps)"
  by (erule triple_of_stays) (rule known_frame)

lemma quiet_part: "stays (confined K S) m \<Longrightarrow> triple (known I Ps) m (\<lambda>_. known I Ps) (\<lambda>_. G)"
  by (rule triple_conseq [OF quiet]) (auto intro: known_result)

lemma quiet_last: "stays (confined K S) m \<Longrightarrow> triple (known I Ps) m (\<lambda>_. G) (\<lambda>_. G)"
  by (rule triple_conseq [OF quiet]) (auto intro: known_result)

lemma step:
  "stays (confined K S) m \<Longrightarrow> (\<And>x. triple (known I Ps) (k x) Q (\<lambda>_. G)) \<Longrightarrow>
     triple (known I Ps) (pbind m k) Q (\<lambda>_. G)"
  by (rule triple_pbind [OF quiet_part])

text \<open>A call adds its own fact.\<close>

lemma call:
  assumes "kind_of op \<in> K"
  shows "triple (known I Ps) (bcall op f)
    (\<lambda>_. known I (succeeded op # Ps)) (\<lambda>_. known I (failed op # Ps))"
proof (rule tripleI)
  have frame: "known I Ps w'" if "known I Ps w" "bcall op f w = (r, w')" for w r w'
  proof (rule known_frame [OF _ that(1)])
    show "confined K S w w'"
      by (rule staysD [where R = "confined K S" and m = "bcall op f"])
        (rule confined_bcall [OF assms], rule that(2))
  qed
  have load: "op \<noteq> LoadLocal" using assms no_load by auto
  show "known I (succeeded op # Ps) w'" if "known I Ps w" "bcall op f w = (Inr x, w')" for w x w'
    using frame [OF that] bcall_InrD [OF that(2)] load
    by (auto simp: known_def succeeded_def recent_def)
  show "known I (failed op # Ps) w'" if "known I Ps w" "bcall op f w = (Inl e, w')" for w e w'
    using frame [OF that] bcall_InlD [OF that(2)] load
    by (auto simp: known_def failed_def recent_def)
qed

lemma call_part:
  "kind_of op \<in> K \<Longrightarrow>
     triple (known I Ps) (bcall op f) (\<lambda>_. known I (succeeded op # Ps)) (\<lambda>_. G)"
  by (rule triple_conseq [OF call]) (auto intro: known_result)

lemma call_step:
  "kind_of op \<in> K \<Longrightarrow> (\<And>x. triple (known I (succeeded op # Ps)) (k x) Q (\<lambda>_. G)) \<Longrightarrow>
     triple (known I Ps) (pbind (bcall op f) k) Q (\<lambda>_. G)"
  by (rule triple_pbind [OF call_part])

end

lemma load_known:
  fixes J :: "'x world \<Rightarrow> bool"
  assumes "\<And>w w' ok. I w \<Longrightarrow> confined {Loading} {} w w' \<Longrightarrow>
      calls w' = Event LoadLocal ok (disk w Pending) # calls w \<Longrightarrow> J w'"
    and "\<And>x. triple (known J []) (k x) Q (\<lambda>_. G)" and "\<And>w. J w \<Longrightarrow> G w"
  shows "triple I (pbind (bcall LoadLocal f) k) Q (\<lambda>_. G)"
proof (rule triple_pbind)
  have frame: "confined {Loading} {} w w'" if "bcall LoadLocal f w = (r, w')"
    for w w' :: "'x world" and r
    by (rule staysD [where R = "confined {Loading} {}" and m = "bcall LoadLocal f", OF _ that])
      (rule confined_bcall, simp)
  show "triple I (bcall LoadLocal f) (\<lambda>_. known J []) (\<lambda>_. G)"
    by (rule tripleI; frule frame)
      (auto simp: known_def dest!: bcall_InrD bcall_InlD intro: assms(1,3))
qed (rule assms(2))

abbreviation quiet_kinds :: "kind set" where
  "quiet_kinds \<equiv> {Reading, Packaging, Uploading}"

end
