(* ===== verification/PublishGuard.thy ===== *)
theory PublishGuard
  imports CycleFacts
begin

text \<open>
  What must have happened before the controller lets the backend publish. The log of a world
  holds every backend call with its success and the pending file at that moment, newest
  first, so "published only after" is a predicate over logs (\<open>well_guarded\<close>) and the
  controller keeps it.
\<close>

section \<open>Guarded logs\<close>

fun proves_provenance :: "packaged_artifact \<Rightarrow> event \<Rightarrow> bool" where
  "proves_provenance k (Event (VerifyProvenance k' b) ok p) \<longleftrightarrow> k' = k \<and> ok"
| "proves_provenance k _ \<longleftrightarrow> False"

text \<open>The pending file is a submission marker for this artifact's round and hot key.\<close>

definition marks :: "store_env \<Rightarrow> packaged_artifact \<Rightarrow> jfile \<Rightarrow> bool" where
  "marks E k f \<longleftrightarrow>
     (case f of
        Regular (Doc (JObj m)) \<Rightarrow>
          dget m ''submission_pending'' = JBool True \<and>
          dget m ''round'' = JInt (k_round_index k) \<and>
          dget m ''hotkey'' = JStr (redact_text (k_hotkey k) (e_secrets E))
      | _ \<Rightarrow> False)"

text \<open>
  The calls right before a publication: the round resolved again (head, schedule, fetch,
  anchor, policy), the registration and the artifact binding checked again, all of them
  successful, and the head inside the safe part of the round's submission window.
\<close>

definition just_rechecked :: "controller_config \<Rightarrow> event list \<Rightarrow> bool" where
  "just_rechecked c es \<longleftrightarrow>
     (case es of
        e1 # e2 # e3 # e4 # e5 # e6 # e7 # _ \<Rightarrow>
          succeeded ValidateCompetition e1 \<and> succeeded AssertRegistered e2 \<and>
          (case ev_op e3 of
             ValidateRound win \<Rightarrow>
               ev_ok e3 \<and> succeeded (VerifyAnchor win) e4 \<and> ev_op e5 = FetchRound \<and>
               (case ev_op e6 of
                  ChainRound head \<Rightarrow>
                    ev_ok e6 \<and> succeeded Block e7 \<and>
                    accepts_at win head (c_deadline_margin_blocks c) \<and>
                    (case c_v030_activation_block c of None \<Rightarrow> True | Some a \<Rightarrow> a \<le> head)
                | _ \<Rightarrow> False)
           | _ \<Rightarrow> False)
      | _ \<Rightarrow> False)"

definition may_publish ::
    "controller_config \<Rightarrow> store_env \<Rightarrow> packaged_artifact \<Rightarrow> jfile \<Rightarrow> event list \<Rightarrow> bool" where
  "may_publish c E k pending es \<longleftrightarrow>
     marks E k pending \<and> just_rechecked c es \<and>
     list_ex (succeeded (ValidateCommitment k)) (recent es) \<and>
     list_ex (proves_provenance k) (recent es) \<and>
     list_ex (succeeded (VerifySource k True)) (recent es) \<and>
     list_ex (failed (VerifyOnChain k)) (recent es) \<and>
     \<not> list_ex (\<lambda>e. kind_of (ev_op e) = Publishing) (recent es)"

fun well_guarded :: "controller_config \<Rightarrow> store_env \<Rightarrow> event list \<Rightarrow> bool" where
  "well_guarded c E [] = True"
| "well_guarded c E (e # es) =
     ((case ev_op e of Publish k \<Rightarrow> may_publish c E k (ev_pending e) es | _ \<Rightarrow> True) \<and>
      well_guarded c E es)"

section \<open>Frames\<close>

abbreviation guarded :: "controller_config \<Rightarrow> store_env \<Rightarrow> 'x world \<Rightarrow> bool" where
  "guarded c E w \<equiv> well_guarded c E (calls w)"

lemma well_guarded_append:
  assumes "\<forall>e \<in> set es. kind_of (ev_op e) \<noteq> Publishing"
  shows "well_guarded c E (es @ fs) \<longleftrightarrow> well_guarded c E fs"
  using assms by (induction es) (auto split: operation.split)

text \<open>Inside a cycle: guarded, and nothing published yet.\<close>

definition unpublished :: "controller_config \<Rightarrow> store_env \<Rightarrow> 'x world \<Rightarrow> bool" where
  "unpublished c E w \<longleftrightarrow>
     guarded c E w \<and> \<not> list_ex (\<lambda>e. kind_of (ev_op e) = Publishing) (recent (calls w))"

abbreviation facts ::
    "controller_config \<Rightarrow> store_env \<Rightarrow> (event \<Rightarrow> bool) list \<Rightarrow> 'x world \<Rightarrow> bool" where
  "facts c E \<equiv> known (unpublished c E)"

lemma quiet_calls:
  assumes "confined K S w w'" and "K \<subseteq> insert Loading quiet_kinds"
  obtains es where "calls w' = es @ calls w" "\<forall>e \<in> set es. kind_of (ev_op e) \<in> K"
    "\<forall>e \<in> set es. kind_of (ev_op e) \<noteq> Publishing"
proof -
  from assms(1) obtain es where es: "calls w' = es @ calls w" "\<forall>e \<in> set es. kind_of (ev_op e) \<in> K"
    unfolding confined_def by blast
  moreover from this assms(2) have "\<forall>e \<in> set es. kind_of (ev_op e) \<noteq> Publishing" by force
  ultimately show ?thesis by (rule that)
qed

lemma guarded_frame:
  assumes "confined (insert Loading quiet_kinds) S w w'" and "guarded c E w"
  shows "guarded c E w'"
proof -
  obtain es where "calls w' = es @ calls w" "\<forall>e \<in> set es. kind_of (ev_op e) \<noteq> Publishing"
    by (rule quiet_calls [OF assms(1)]) auto
  with assms(2) show ?thesis by (simp add: well_guarded_append)
qed

lemma unpublished_frame:
  assumes "confined quiet_kinds S w w'" and "unpublished c E w"
  shows "unpublished c E w'"
proof -
  obtain es where es: "calls w' = es @ calls w" "\<forall>e \<in> set es. kind_of (ev_op e) \<in> quiet_kinds"
    "\<forall>e \<in> set es. kind_of (ev_op e) \<noteq> Publishing"
    by (rule quiet_calls [OF assms(1)]) auto
  then have "\<forall>e \<in> set es. kind_of (ev_op e) \<noteq> Loading" by force
  with es assms(2) show ?thesis
    by (auto simp: unpublished_def recent_append well_guarded_append list_ex_iff)
qed

interpretation pub: cycle_facts "unpublished c E" "guarded c E" quiet_kinds UNIV for c E
  by unfold_locales (erule (1) unpublished_frame, auto simp: unpublished_def)

lemma quiet_triple:
  "stays (confined (insert Loading quiet_kinds) S) m \<Longrightarrow>
     triple (guarded c E) m (\<lambda>_. guarded c E) (\<lambda>_. guarded c E)"
  by (erule triple_of_stays) (rule guarded_frame)

section \<open>The parts of a submission\<close>

lemma marked_fields:
  assumes "mark_submission_pending E rd src hk fp det now w = (Inr m, w')"
  shows "disk w' Pending = holds m" "dget m ''submission_pending'' = JBool True"
    "dget m ''round'' = JInt rd" "dget m ''hotkey'' = JStr (redact_text hk (e_secrets E))"
proof -
  from mark_pending_Inr [OF assms] obtain payload where
    "disk w' = (disk w)(Pending := holds m)"
    and s: "sanitize_items (e_lib E) (e_secrets E) payload = Inr m"
    and core: "\<And>k v. map_of (pending_core rd src hk fp) k = Some v \<Longrightarrow> map_of payload k = Some v"
    by blast
  then show "disk w' Pending = holds m" by simp
  have "map_of m ''round'' = Some (JInt rd)" "map_of m ''submission_pending'' = Some (JBool True)"
    by (rule sanitized_scalar [OF s core]; simp add: pending_core_def reserved_keys_plain)+
  then show "dget m ''submission_pending'' = JBool True" "dget m ''round'' = JInt rd"
    by (simp_all add: dget_def)
  have lower: "py_lower ''hotkey'' \<noteq> ''source''" by code_simp
  have "map_of payload ''hotkey'' = Some (JStr hk)" by (rule core) (simp add: pending_core_def)
  moreover have "sanitize (e_lib E) (e_secrets E) ''hotkey'' (JStr hk) = Inr (JStr (redact_text hk (e_secrets E)))"
    using lower reserved_keys_plain(10) by (subst sanitize.simps) simp
  ultimately have "map_of m ''hotkey'' = Some (JStr (redact_text hk (e_secrets E)))"
    using sanitize_items_map_of(3) [OF s] by fastforce
  then show "dget m ''hotkey'' = JStr (redact_text hk (e_secrets E))" by (simp add: dget_def)
qed

lemma catch_throw_InrD:
  assumes "catch m h w = (Inr x, w')" and "\<And>e v. \<not> (\<exists>y v'. h e v = (Inr y, v'))"
  shows "m w = (Inr x, w')"
  using assms by (auto simp: catch_def split: prod.splits sum.splits)

lemma or_refuse_InrD: "or_refuse t m w = (Inr x, w') \<Longrightarrow> m w = (Inr x, w')"
  unfolding or_refuse_def by (erule catch_throw_InrD) simp

lemma record_pending_marks:
  assumes "record_pending E k fp b w = (Inr u, w')"
  shows "marks E k (disk w' Pending)"
proof -
  from or_refuse_InrD [OF assms [unfolded record_pending_def]]
  obtain now w1 m where "mark_submission_pending E (k_round_index k) (k_source k) (k_hotkey k) fp
      [(''provenance_block'', JInt b)] (Some now) w1 = (Inr m, w')"
    by (auto elim!: pbind_InrD)
  from marked_fields [OF this] show ?thesis by (simp add: marks_def)
qed

lemma attempt_bcall:
  "attempt (bcall op f) w = (r, w') \<Longrightarrow> \<exists>ok. calls w' = Event op ok (disk w Pending) # calls w"
  by (auto simp: attempt_def bcall_def split: prod.splits)

lemma resolve_round_log:
  assumes "controller_resolve_round B c E head w = (Inr win, w')"
  shows "\<exists>p1 p2 p3 ok p4. calls w' = Event (ValidateRound win) True p1 # Event (VerifyAnchor win) True p2
    # Event FetchRound ok p3 # Event (ChainRound head) True p4 # calls w"
proof -
  from assms obtain x w1 d w2 f w3 w4 win' u w5 v w6 where
    1: "bcall (ChainRound head) (b_chain_round B head) w = (Inr x, w1)"
    and 2: "read_status w1 = (Inr d, w2)"
    and 3: "attempt (bcall FetchRound
        (b_fetch_round B (c_coordinator_url c) (c_coordinator_timeout_seconds c))) w2 = (Inr f, w3)"
    and 4: "lift_res (resolve_round (e_lib E) (round_request_of c head d) f x
        (c_allow_chain_schedule_fallback c)) w3 = (Inr win', w4)"
    and 5: "catch (pseq (bcall (VerifyAnchor win') (b_verify_round_anchor B win'))
        (bcall (ValidateRound win') (b_validate_round B win')))
        (\<lambda>e. if isinstance e VerificationError \<and> uses_signed_v030 c
             then throw (Exc RoundRefused
                (''trusted signed-v0.3 round is unavailable: '' @ exc_text e))
             else throw e) w4 = (Inr u, w5)"
    and 6: "(if w_source win' = ''coordinator'' then remember_round E d win' else ret ()) w5 = (Inr v, w6)"
    and 7: "ret win' w6 = (Inr win, w')"
    unfolding controller_resolve_round_def by (elim pbind_InrD) blast
  have "w2 = w1" "w4 = w3" "win' = win" "w6 = w'" using 2 4 7 by (auto simp: read_slot_def)
  moreover from attempt_bcall [OF 3] obtain ok where
    "calls w3 = Event FetchRound ok (disk w2 Pending) # calls w2" ..
  moreover have "pseq (bcall (VerifyAnchor win') (b_verify_round_anchor B win'))
      (bcall (ValidateRound win') (b_validate_round B win')) w4 = (Inr u, w5)"
    using 5 by (rule catch_throw_InrD) auto
  then obtain p1 p2 where "calls w5 = Event (ValidateRound win') True p1 # Event (VerifyAnchor win') True p2 # calls w4"
    by (auto elim!: pbind_InrD dest!: bcall_InrD)
  moreover have "confined {} UNIV w5 w6"
    by (rule staysD [where m = "if w_source win' = ''coordinator'' then remember_round E d win' else ret ()", OF _ 6])
      (auto intro!: stays_intros)
  then have "calls w6 = calls w5" by (rule confined_calls)
  moreover note bcall_InrD [OF 1]
  ultimately show ?thesis by auto
qed

lemma refresh_log:
  assumes "refresh_same_round B c E expected w = (Inr (head, win), w')"
  shows "(\<exists>p1 p2 p3 ok p4 p5. calls w' = Event (ValidateRound win) True p1
      # Event (VerifyAnchor win) True p2 # Event FetchRound ok p3 # Event (ChainRound head) True p4
      # Event Block True p5 # calls w) \<and>
    (case c_v030_activation_block c of None \<Rightarrow> True | Some a \<Rightarrow> a \<le> head)"
proof -
  from assms obtain w1 w2 where 1: "bcall Block (b_block B) w = (Inr head, w1)"
    and act: "\<not> (\<exists>a \<in> set_option (c_v030_activation_block c). head < a)"
    and 2: "controller_resolve_round B c E head w1 = (Inr win, w2)" and "w' = w2"
    unfolding refresh_same_round_def guard_def by (auto elim!: pbind_InrD split: if_splits)
  with resolve_round_log [OF 2] bcall_InrD [OF 1] show ?thesis
    by (auto split: option.split)
qed

lemma broadcast_checks_log:
  assumes "broadcast_checks B c E window k w = (Inr u, w')"
  shows "just_rechecked c (calls w')"
proof -
  from assms obtain head win w1 w2 w3 d where 1: "refresh_same_round B c E window w = (Inr (head, win), w1)"
    and acc: "accepts_at win head (c_deadline_margin_blocks c)"
    and 2: "bcall AssertRegistered (b_assert_registered B) w1 = (Inr (), w2)"
    and 3: "bcall ValidateCompetition (b_validate_competition B) w2 = (Inr d, w3)" and "w' = w3"
    unfolding broadcast_checks_def assert_packaged_binding_def assert_deadline_def guard_def
    by (auto elim!: pbind_InrD split: if_splits)
  with refresh_log [OF 1] bcall_InrD [OF 2] bcall_InrD [OF 3] acc show ?thesis
    by (auto simp: just_rechecked_def succeeded_def split: option.splits)
qed

section \<open>Publishing happens only when guarded\<close>

text \<open>Where a publication is allowed, publishing keeps the log guarded.\<close>

lemma publish_call:
  assumes "facts c E Ps w" and "may_publish c E k (disk w Pending) (calls w)"
    and "bcall (Publish k) f w = (r, w')"
  shows "guarded c E w'"
  using assms by (auto simp: bcall_def known_def unpublished_def split: prod.splits)

definition publish_ready :: "packaged_artifact \<Rightarrow> (event \<Rightarrow> bool) list" where
  "publish_ready k =
     [succeeded (VerifySource k True), proves_provenance k, succeeded (ValidateCommitment k),
      failed (VerifyOnChain k)]"

lemma broadcast_guarded:
  "triple (\<lambda>w. facts c E (publish_ready k) w \<and> marks E k (disk w Pending) \<and> just_rechecked c (calls w))
     (broadcast_outcome B E det k fp) (\<lambda>_. guarded c E) (\<lambda>_. guarded c E)"
proof -
  have "triple (\<lambda>w. facts c E (publish_ready k) w \<and> marks E k (disk w Pending) \<and> just_rechecked c (calls w))
     (bcall (Publish k) (b_publish B k)) (\<lambda>_. guarded c E) (\<lambda>_. guarded c E)"
    by (rule tripleI; rule publish_call [where Ps = "publish_ready k"])
      (auto simp: may_publish_def known_def unpublished_def publish_ready_def)
  then have "triple (\<lambda>w. facts c E (publish_ready k) w \<and> marks E k (disk w Pending) \<and> just_rechecked c (calls w))
     (broadcast B E det k fp) (\<lambda>_. guarded c E) (\<lambda>_. guarded c E)"
    unfolding broadcast_def
    by (rule triple_pbind) (rule quiet_triple [where S = UNIV], auto intro!: stays_intros)
  then show ?thesis
    unfolding broadcast_outcome_def
    by (rule triple_catch) (rule quiet_triple [where S = UNIV], auto intro!: stays_intros)
qed

lemma publish_guarded:
  fixes B :: "'x backend"
  shows "triple (facts c E (publish_ready k)) (publish_commitment B c E win det k encoded b)
     (\<lambda>_. guarded c E) (\<lambda>_. guarded c E)"
proof -
  define F :: "'x world \<Rightarrow> bool" where "F = facts c E (publish_ready k)"
  define M where "M = (\<lambda>w :: 'x world. F w \<and> marks E k (disk w Pending))"
  have quietF: "triple F m (\<lambda>_. F) (\<lambda>_. guarded c E)"
    if "stays (confined quiet_kinds UNIV) m" for m :: "('x world, 'a) prog"
    unfolding F_def by (rule pub.quiet_part [OF that])
  have mark: "triple F (record_pending E k fp b) (\<lambda>_. M) (\<lambda>_. guarded c E)" for fp
  proof (rule tripleI)
    fix w x w'
    assume w: "F w" "record_pending E k fp b w = (Inr x, w')"
    have "F w'"
      by (rule tripleD(1) [where m = "record_pending E k fp b", OF quietF w]) (auto intro!: stays_intros)
    with record_pending_marks [OF w(2)] show "M w'" by (simp add: M_def)
  next
    fix w e w'
    assume w: "F w" "record_pending E k fp b w = (Inl e, w')"
    show "guarded c E w'"
      by (rule tripleD(2) [where m = "record_pending E k fp b", OF quietF w]) (auto intro!: stays_intros)
  qed
  have recheck: "triple M (broadcast_checks B c E win k)
      (\<lambda>_ w. F w \<and> marks E k (disk w Pending) \<and> just_rechecked c (calls w)) (\<lambda>_. guarded c E)"
  proof (rule tripleI)
    fix w x w'
    assume w: "M w" "broadcast_checks B c E win k w = (Inr x, w')"
    then have "F w" by (simp add: M_def)
    have conf: "confined quiet_kinds (UNIV - {File Pending}) w w'"
      by (rule staysD [where m = "broadcast_checks B c E win k", OF _ w(2)]) (auto intro!: stays_intros)
    then have "confined quiet_kinds UNIV w w'" by (rule confined_mono) auto
    with \<open>F w\<close> have "F w'" unfolding F_def by (rule pub.known_frame [rotated])
    moreover have "disk w' Pending = disk w Pending" using conf by (simp add: confined_def)
    ultimately show "F w' \<and> marks E k (disk w' Pending) \<and> just_rechecked c (calls w')"
      using w(1) broadcast_checks_log [OF w(2)] by (simp add: M_def)
  next
    fix w e w'
    assume w: "M w" "broadcast_checks B c E win k w = (Inl e, w')"
    then have "F w" by (simp add: M_def)
    then show "guarded c E w'"
      by (rule tripleD(2) [where m = "broadcast_checks B c E win k", OF quietF _ w(2), rotated]) (auto intro!: stays_intros)
  qed
  have clear: "triple (guarded c E) (clear_and_raise fp t e :: ('x world, unit) prog) Q (\<lambda>_. guarded c E)"
    for fp t e Q
  proof (rule tripleI)
    fix w x w'
    assume "(clear_and_raise fp t e :: ('x world, unit) prog) w = (Inr x, w')"
    then show "Q x w'" by (auto simp: clear_and_raise_def elim!: pbind_InrD)
  next
    fix w d w'
    assume w: "guarded c E w" "(clear_and_raise fp t e :: ('x world, unit) prog) w = (Inl d, w')"
    show "guarded c E w'"
      by (rule tripleD(2) [where m = "clear_and_raise fp t e", OF quiet_triple [where S = UNIV] w]) (auto intro!: stays_intros)
  qed
  have rest: "triple (guarded c E) m (\<lambda>_. guarded c E) (\<lambda>_. guarded c E)"
    if "stays (confined quiet_kinds UNIV) m" for m :: "('x world, 'a) prog"
    by (rule quiet_triple [where S = UNIV]) (rule stays_within_mono [OF that]; auto)
  show ?thesis
    unfolding publish_commitment_def Let_def
    apply (rule pub.step)
    subgoal by (auto intro!: stays_intros)
    apply (simp only: case_prod_unfold)
    apply (rule pub.step)
    subgoal by (auto intro!: stays_intros)
    apply (rule pub.step)
    subgoal by (auto intro!: stays_intros)
    apply (rule pub.step)
    subgoal by (auto intro!: stays_intros)
    apply (rule triple_pbind [OF mark [unfolded F_def]])
    apply (rule triple_pbind [OF triple_catch [OF recheck [unfolded F_def] clear]])
    apply (rule triple_pbind [OF broadcast_guarded])
    apply (rule triple_pbind [OF rest])
    by (auto intro!: stays_intros triple_ret)
qed

lemma quiet_guarded:
  "stays (confined quiet_kinds UNIV) m \<Longrightarrow> triple (guarded c E) m (\<lambda>_. guarded c E) (\<lambda>_. guarded c E)"
  by (rule quiet_triple [where S = UNIV]) (erule stays_within_mono; auto)

lemma probe_remote:
  "triple (facts c E Ps)
     (catch (pseq (bcall (VerifySource k True) f) (ret True))
        (\<lambda>e. if isinstance e VerificationError then ret False else throw e))
     (\<lambda>found. if found then facts c E (succeeded (VerifySource k True) # Ps) else facts c E Ps)
     (\<lambda>_. guarded c E)"
proof (rule triple_catch)
  show "triple (facts c E Ps) (pseq (bcall (VerifySource k True) f) (ret True))
      (\<lambda>found. if found then facts c E (succeeded (VerifySource k True) # Ps) else facts c E Ps)
      (\<lambda>_. facts c E (failed (VerifySource k True) # Ps))"
    by (rule triple_pbind [OF pub.call]) (auto intro!: triple_ret)
  show "triple (facts c E (failed (VerifySource k True) # Ps))
      (if isinstance e VerificationError then ret False else throw e)
      (\<lambda>found. if found then facts c E (succeeded (VerifySource k True) # Ps) else facts c E Ps)
      (\<lambda>_. guarded c E)" for e
    by (auto intro!: triple_intros dest: known_tail intro: pub.known_result)
qed

lemma ensure_remote_facts:
  "triple (facts c E Ps) (ensure_remote B c E win det reusable k)
     (\<lambda>_. facts c E (succeeded (VerifySource k True) # Ps)) (\<lambda>_. guarded c E)"
proof -
  let ?V = "succeeded (VerifySource k True)"
  have probe: "triple (facts c E Ps)
      (if reusable then
         pseq (report E ph msg det)
           (catch (pseq (bcall (VerifySource k True) f) (ret True))
              (\<lambda>e. if isinstance e VerificationError then ret False else throw e))
       else ret False)
      (\<lambda>found. if found then facts c E (?V # Ps) else facts c E Ps) (\<lambda>_. guarded c E)" for ph msg f
    by (intro triple_if pub.step probe_remote triple_ret) (auto intro!: stays_intros)
  have last: "triple (facts c E Ps) (bcall (VerifySource k True) f) (\<lambda>_. facts c E (?V # Ps)) (\<lambda>_. guarded c E)"
    for f
    by (rule triple_conseq [OF pub.call]) (auto intro: pub.known_result)
  have upload: "triple (facts c E Ps)
      (pbind (refresh_same_round B c E win) (\<lambda>(upload_head, refreshed).
       pseq (assert_deadline c refreshed upload_head ''upload'') (
       pseq (report E ''uploading'' ''uploading the round-specific artifact tree and manifest''
               (dict_update det [(''chain_head'', JInt upload_head)])) (
       pseq (assert_packaged_binding B k) (
       pseq (bcall (Upload k) (b_upload B k)) (
       pseq (report E ''verifying_source'' ''fetching and hashing the complete remote artifact'' det)
       (bcall (VerifySource k True) (b_verify_source B k True))))))))
      (\<lambda>_. facts c E (?V # Ps)) (\<lambda>_. guarded c E)"
    by (simp only: case_prod_unfold)
      (intro pub.step last; auto intro!: stays_intros)
  show ?thesis
    unfolding ensure_remote_def
  proof (rule triple_pbind [OF probe])
    show "triple ((\<lambda>found. if found then facts c E (?V # Ps) else facts c E Ps) x)
      (if x then ret () else
       pbind (refresh_same_round B c E win) (\<lambda>(upload_head, refreshed).
       pseq (assert_deadline c refreshed upload_head ''upload'') (
       pseq (report E ''uploading'' ''uploading the round-specific artifact tree and manifest''
               (dict_update det [(''chain_head'', JInt upload_head)])) (
       pseq (assert_packaged_binding B k) (
       pseq (bcall (Upload k) (b_upload B k)) (
       pseq (report E ''verifying_source'' ''fetching and hashing the complete remote artifact'' det)
       (bcall (VerifySource k True) (b_verify_source B k True))))))))
      (\<lambda>_. facts c E (?V # Ps)) (\<lambda>_. guarded c E)" for x
      using upload by (cases x) (auto intro: triple_ret)
  qed
qed

lemma submit_guarded:
  "triple (facts c E []) (submit B c E snapshot window head source local)
     (\<lambda>_. guarded c E) (\<lambda>_. guarded c E)"
proof -
  have prov: "facts c E (proves_provenance k # Ps) w"
    if "facts c E (succeeded (VerifyProvenance k b) # Ps) w" for k b Ps and w :: "'a world"
  proof -
    have "proves_provenance k e" if "succeeded (VerifyProvenance k b) e" for e
      using that by (cases e) (auto simp: succeeded_def)
    then have "list_ex (proves_provenance k) es" if "list_ex (succeeded (VerifyProvenance k b)) es" for es
      using that by (auto simp: list_ex_iff)
    with that show ?thesis by (simp add: known_def unpublished_def)
  qed
  have onchain: "triple (facts c E [succeeded (VerifySource k True), proves_provenance k,
        succeeded (ValidateCommitment k)])
      (catch (bcall (VerifyOnChain k) (b_verify_on_chain B k)) (\<lambda>e.
         if isinstance e VerificationError then publish_commitment B c E window det k encoded b
         else throw e)) (\<lambda>_. guarded c E) (\<lambda>_. guarded c E)" for k det encoded b
  proof (rule triple_catch)
    show "triple (facts c E [succeeded (VerifySource k True), proves_provenance k,
        succeeded (ValidateCommitment k)]) (bcall (VerifyOnChain k) (b_verify_on_chain B k))
        (\<lambda>_. guarded c E) (\<lambda>_. facts c E (publish_ready k))"
      by (rule triple_conseq [OF pub.call])
        (auto intro: pub.known_result known_weaken simp: publish_ready_def)
    show "triple (facts c E (publish_ready k))
        (if isinstance e VerificationError then publish_commitment B c E window det k encoded b
         else throw e) (\<lambda>_. guarded c E) (\<lambda>_. guarded c E)" for e
      by (auto intro!: triple_intros publish_guarded intro: pub.known_result)
  qed
  have tail: "triple (facts c E [succeeded (VerifyProvenance k b), succeeded (ValidateCommitment k)])
      (pseq (ensure_remote B c E window det reusable k) (
       pbind (catch (bcall (VerifyOnChain k) (b_verify_on_chain B k)) (\<lambda>e.
         if isinstance e VerificationError then publish_commitment B c E window det k encoded b
         else throw e)) (\<lambda>payload. verified E window k payload common True msg)))
      (\<lambda>_. guarded c E) (\<lambda>_. guarded c E)" for k b det reusable encoded common msg
  proof (rule triple_conseq)
    show "triple (facts c E [proves_provenance k, succeeded (ValidateCommitment k)])
      (pseq (ensure_remote B c E window det reusable k) (
       pbind (catch (bcall (VerifyOnChain k) (b_verify_on_chain B k)) (\<lambda>e.
         if isinstance e VerificationError then publish_commitment B c E window det k encoded b
         else throw e)) (\<lambda>payload. verified E window k payload common True msg)))
      (\<lambda>_. guarded c E) (\<lambda>_. guarded c E)"
      apply (rule triple_pbind [OF ensure_remote_facts])
      apply (rule triple_pbind [OF onchain])
      apply (rule quiet_guarded)
      by (auto intro!: stays_intros)
  qed (auto intro: prov)
  show ?thesis
    unfolding submit_def Let_def
    by (intro pub.step pub.call_step tail) (auto intro!: stays_intros)
qed

section \<open>The cycle and the run\<close>

lemma step_guarded:
  assumes "stays (confined (insert Loading quiet_kinds) UNIV) m"
    and "\<And>x. triple (guarded c E) (k x) Q (\<lambda>_. guarded c E)"
  shows "triple (guarded c E) (pbind m k) Q (\<lambda>_. guarded c E)"
  by (rule triple_pbind [OF quiet_triple [OF assms(1)] assms(2)])

lemma load_facts:
  assumes "\<And>x. triple (facts c E []) (k x) Q (\<lambda>w. guarded c E)"
  shows "triple (guarded c E) (pbind (bcall LoadLocal f) k) Q (\<lambda>w. guarded c E)"
  by (rule load_known [OF _ assms]) (auto simp: unpublished_def recent_def)

lemma cycle_guarded:
  "triple (guarded c E) (cycle B c E snapshot) (\<lambda>_. guarded c E) (\<lambda>_. guarded c E)"
  unfolding cycle_def Let_def
  apply (rule step_guarded, (auto intro!: stays_intros)[1])+
  apply (rule triple_if, rule quiet_triple [where S = UNIV], (auto intro!: stays_intros)[1])
  apply (rule step_guarded, (auto intro!: stays_intros)[1])+
  apply (rule triple_if, rule quiet_triple [where S = UNIV], (auto intro!: stays_intros)[1])
  apply (rule triple_if, rule quiet_triple [where S = UNIV], (auto intro!: stays_intros)[1])
  apply (rule load_facts)
  apply (rule triple_if, rule pub.quiet_last, (auto intro!: stays_intros split: option.split)[1])
  apply (rule triple_if)
   apply (rule triple_if, rule pub.quiet_last, (auto intro!: stays_intros split: option.split)[1])
   apply (rule triple_if, rule pub.quiet_last, (auto intro!: stays_intros split: option.split)[1])
  by (rule submit_guarded)+

text \<open>As a relation, so that it composes over the loops.\<close>

definition guarding ::
    "controller_config \<Rightarrow> store_env \<Rightarrow> 'x world \<Rightarrow> 'x world \<Rightarrow> bool" where
  "guarding c E w w' \<longleftrightarrow> (guarded c E w \<longrightarrow> guarded c E w')"

interpretation publishing: effect_relation "guarding c E" for c E
  by unfold_locales (auto simp: guarding_def)

lemma guarding_triple:
  "triple (guarded c E) m (\<lambda>_. guarded c E) (\<lambda>_. guarded c E) \<Longrightarrow> stays (guarding c E) m"
  by (rule staysI) (auto simp: guarding_def triple_def split: prod.splits sum.splits)

lemma guarding_quiet:
  "stays (confined (insert Loading quiet_kinds) UNIV) m \<Longrightarrow> stays (guarding c E) m"
  by (rule guarding_triple) (rule quiet_triple)

lemma guarding_parts [stays_intros]:
  "stays (guarding c E) (preflight B c E)" "stays (guarding c E) poll_stop"
  "stays (guarding c E) (failure c E ph e)" "stays (guarding c E) (stop_cleanly c E)"
  "stays (guarding c E) (authorization_failure c E e)"
  "stays (guarding c E) (waiting_for_trusted_round c E e)"
  "kind_of op \<noteq> Publishing \<Longrightarrow> stays (guarding c E) (bcall op f)"
  by (rule guarding_quiet; cases "kind_of op"; auto intro!: stays_intros)+

lemma guarding_handled_cycle [stays_intros]: "stays (guarding c E) (handled_cycle B c E snapshot)"
  by (auto simp: handled_cycle_def intro!: stays_intros guarding_triple [OF cycle_guarded])

lemma guarding_loops [stays_intros]:
  "stays (guarding c E) (preflight_loop n B c E once)"
  "stays (guarding c E) (cycle_loop n B c E snapshot once)"
  by (induction n) (auto intro!: stays_intros)

lemma guarding_lock [stays_intros]:
  assumes "stays (guarding c E) m"
  shows "stays (guarding c E) (with_lock m :: ('x world, 'a) prog)"
proof (rule staysI)
  fix w r and w' :: "'x world"
  assume "with_lock m w = (r, w')"
  then show "guarding c E w w'"
  proof (cases rule: with_lock_cases)
    case (held w1)
    from staysD [OF assms held(2)] held(3) show ?thesis by (simp add: guarding_def)
  qed (simp add: guarding_def)
qed

text \<open>
  C3: nothing is published without its proofs. In every run, whatever the backend answers,
  each call that publishes an artifact comes after, in the same cycle: the exact encoding of
  its commitment validated, its provenance verified, its complete remote copy verified, and
  its absence from the chain observed; with the submission marker for its round and hot key
  on disk; immediately after the round was resolved and anchored again with the chain head
  inside the safe submission window, and registration and artifact binding were checked
  again; and at most one artifact is published per cycle.
\<close>

theorem every_publication_guarded:
  assumes "well_guarded c E (calls w)" and "run B c E once w = (r, w')"
  shows "well_guarded c E (calls w')"
proof -
  have "stays (guarding c E) (run_with (Suc (stop_after w)) B c E once)"
    by (auto simp: run_with_def run_body_def intro!: stays_intros)
  from staysD [where m = "run_with (Suc (stop_after w)) B c E once", OF this] assms show ?thesis
    by (simp add: run_def guarding_def)
qed

theorem every_publication_guarded_witness:
  "well_guarded example_config example_env
     (calls (snd (run down_backend example_config example_env False (example_world (\<lambda>_. Missing)))))"
proof -
  obtain r w' where run: "run down_backend example_config example_env False
      (example_world (\<lambda>_. Missing)) = (r, w')" by fastforce
  show ?thesis using every_publication_guarded [OF _ run] run by simp
qed

end
