(* ===== verification/PendingSafety.thy ===== *)
theory PendingSafety
  imports PublishGuard
begin

text \<open>
  The pending submission marker: while it exists a cycle only reads, and it goes only after
  the artifact was proved on chain again; after a publication the cycle either proved it and
  removed the marker, or refuses with \<open>AuthorizationRefused\<close>, or the backend refused the
  artifact binding before anything was submitted.
\<close>

lemma triple_or_refuse:
  "triple P m Q (\<lambda>_. G) \<Longrightarrow> triple P (or_refuse t m) Q (\<lambda>_. G)"
  unfolding or_refuse_def by (rule triple_catch) (auto intro: triple_throw)

section \<open>Reconciling\<close>

text \<open>Since \<open>w0\<close> only reads, and the pending file untouched.\<close>

definition undisturbed :: "'x world \<Rightarrow> 'x world \<Rightarrow> bool" where
  "undisturbed w0 w \<longleftrightarrow> confined {Reading, Loading} (UNIV - {File Pending}) w0 w"

definition proved_on_chain :: "packaged_artifact \<Rightarrow> event list \<Rightarrow> bool" where
  "proved_on_chain k es \<longleftrightarrow>
     list_ex (succeeded (ValidateCommitment k)) es \<and> list_ex (succeeded (VerifyOnChain k)) es \<and>
     list_ex (succeeded (VerifySource k True)) es \<and> list_ex (proves_provenance k) es"

definition reconciled :: "'x world \<Rightarrow> 'x world \<Rightarrow> bool" where
  "reconciled w0 w \<longleftrightarrow>
     confined {Reading, Loading} UNIV w0 w \<and>
     (disk w Pending = disk w0 Pending \<or>
      disk w Pending = Missing \<and> (\<exists>k. proved_on_chain k (recent (calls w))))"

lemma undisturbed_reconciled: "undisturbed w0 w \<Longrightarrow> reconciled w0 w"
  unfolding undisturbed_def reconciled_def
  by (auto simp: confined_def elim: confined_mono)

interpretation reading: cycle_facts "undisturbed w0" "reconciled w0" "{Reading}" "UNIV - {File Pending}"
  for w0
proof unfold_locales
  fix w w' :: "'a world"
  assume step: "confined {Reading} (UNIV - {File Pending}) w w'" and inv: "undisturbed w0 w"
  from step have "confined {Reading, Loading} (UNIV - {File Pending}) w w'"
    by (rule confined_mono) auto
  with inv show "undisturbed w0 w'" unfolding undisturbed_def by (rule framed.trans)
qed (auto intro: undisturbed_reconciled)

lemma reconciled_frame:
  assumes "confined {} (UNIV - {File Pending}) w w'" and "reconciled w0 w"
  shows "reconciled w0 w'"
proof -
  from assms(1) have "confined {Reading, Loading} UNIV w w'" by (rule confined_mono) auto
  with assms(2) have "confined {Reading, Loading} UNIV w0 w'"
    unfolding reconciled_def using framed.trans by blast
  moreover have "calls w' = calls w" using assms(1) by (rule confined_calls)
  moreover have "disk w' Pending = disk w Pending" using assms(1) by (simp add: confined_def)
  ultimately show ?thesis using assms(2) by (simp add: reconciled_def)
qed

lemma clear_reconciled:
  "triple (known (undisturbed w0) [proves_provenance k, succeeded (VerifySource k True),
       succeeded (VerifyOnChain k), succeeded (ValidateCommitment k)])
     (or_refuse t (clear_submission_pending fp)) (\<lambda>_. reconciled w0) (\<lambda>_. reconciled w0)"
proof (rule triple_or_refuse)
  have "reconciled w0 w'"
    if known: "known (undisturbed w0) [proves_provenance k, succeeded (VerifySource k True),
       succeeded (VerifyOnChain k), succeeded (ValidateCommitment k)] w"
      and run: "clear_submission_pending fp w = (r, w')" for w w' r
  proof -
    have step: "confined {Reading, Loading} UNIV w w'"
      by (rule staysD [where m = "clear_submission_pending fp", OF _ run]) (auto intro!: stays_intros)
    have "confined {} UNIV w w'"
      by (rule staysD [where m = "clear_submission_pending fp", OF _ run]) (auto intro!: stays_intros)
    then have same: "calls w' = calls w" by (rule confined_calls)
    from known have "undisturbed w0 w" by (rule known_inv)
    then have w: "confined {Reading, Loading} UNIV w0 w" "disk w Pending = disk w0 Pending"
      unfolding undisturbed_def by (auto elim: confined_mono simp: confined_def)
    have "proved_on_chain k (recent (calls w))"
      using known by (simp add: known_def proved_on_chain_def)
    with same w framed.trans [OF w(1) step] clear_pending_effect(1) [OF run] show ?thesis
      by (auto simp: reconciled_def)
  qed
  then show "triple (known (undisturbed w0) [proves_provenance k, succeeded (VerifySource k True),
       succeeded (VerifyOnChain k), succeeded (ValidateCommitment k)])
     (clear_submission_pending fp) (\<lambda>_. reconciled w0) (\<lambda>_. reconciled w0)"
    by (intro tripleI)
qed

lemma provenance_event: "succeeded (VerifyProvenance k b) e \<Longrightarrow> proves_provenance k e"
  by (cases e) (auto simp: succeeded_def)

lemma reconcile_pending_reads:
  "triple (known (undisturbed w0) []) (reconcile_pending B c E snapshot window head source local pending)
     (\<lambda>_. reconciled w0) (\<lambda>_. reconciled w0)"
proof -
  have final: "triple (reconciled w0) (verified E window k payload common True msg)
      (\<lambda>_. reconciled w0) (\<lambda>_. reconciled w0)" for k payload common msg
    by (rule triple_of_stays [where R = "confined {} (UNIV - {File Pending})"])
      (auto intro!: stays_intros intro: reconciled_frame)
  have proofs: "triple (known (undisturbed w0) (P # Ps))
      (or_refuse t (pseq (bcall (VerifySource k True) f) (bcall (VerifyProvenance k b) g)))
      (\<lambda>_. known (undisturbed w0) (proves_provenance k # succeeded (VerifySource k True) # P # Ps))
      (\<lambda>_. reconciled w0)" for P Ps t k f b g
    by (rule triple_or_refuse, rule reading.call_step, simp,
        rule triple_conseq [OF reading.call_part])
      (auto intro: known_replace provenance_event)
  have chain: "triple (known (undisturbed w0) Ps)
      (or_refuse t (pseq (bcall AssertRegistered f) (bcall (VerifyOnChain k) g)))
      (\<lambda>_. known (undisturbed w0) (succeeded (VerifyOnChain k) # Ps)) (\<lambda>_. reconciled w0)" for Ps t f k g
    by (rule triple_or_refuse, rule reading.step)
      (auto intro!: stays_intros reading.call_part)
  have rebuilt: "triple (known (undisturbed w0) Ps) (or_refuse t (bcall (ValidateCommitment k) f))
      (\<lambda>_. known (undisturbed w0) (succeeded (ValidateCommitment k) # Ps)) (\<lambda>_. reconciled w0)" for Ps t k f
    by (rule triple_or_refuse) (rule reading.call_part, simp)
  show ?thesis
    unfolding reconcile_pending_def Let_def
    apply (rule reading.step, (auto intro!: stays_intros)[1])
    apply (cases "pending_fields pending head")
    apply (simp, rule triple_throw, erule reading.known_result)
    apply (simp split: prod.split, intro allI impI)
    apply (rule reading.step, (auto intro!: stays_intros)[1])+
    apply (cases local)
    apply (simp, rule triple_throw, erule reading.known_result)
    apply simp
    apply (rule triple_pbind [OF rebuilt])
    apply (rule reading.step, (auto intro!: stays_intros)[1])
    apply (rule reading.step, (auto intro!: stays_intros)[1])
    apply (rule triple_pbind [OF chain])
    apply (rule reading.step, (auto intro!: stays_intros)[1])
    apply (rule triple_pbind [OF proofs])
    apply (rule triple_pbind [OF clear_reconciled])
    by (rule final)
qed

lemma pending_read:
  assumes "disk w0 Pending \<noteq> Missing"
  shows "triple (known (undisturbed w0) Ps) read_submission_pending
    (\<lambda>pending w. known (undisturbed w0) Ps w \<and> pending \<noteq> []) (\<lambda>_. reconciled w0)"
proof (rule tripleI)
  fix w x w'
  assume w: "known (undisturbed w0) Ps w" "read_submission_pending w = (Inr x, w')"
  from known_inv [OF w(1)] have "disk w Pending = disk w0 Pending"
    by (simp add: undisturbed_def confined_def)
  with assms w pending_of_Inr [of "disk w Pending" x] show "known (undisturbed w0) Ps w' \<and> x \<noteq> []"
    by auto
next
  fix w e w'
  assume "known (undisturbed w0) Ps w" "read_submission_pending w = (Inl e, w')"
  then show "reconciled w0 w'" by (auto dest: reading.known_result)
qed

lemma pending_cycle:
  assumes "disk w0 Pending \<noteq> Missing"
  shows "triple (known (undisturbed w0) []) (cycle B c E snapshot) (\<lambda>_. reconciled w0) (\<lambda>_. reconciled w0)"
proof -
  have load: "triple (known (undisturbed w0) []) (pbind (bcall LoadLocal (b_load_local B)) (\<lambda>local.
       reconcile_pending B c E snapshot window head source local pending))
      (\<lambda>_. reconciled w0) (\<lambda>_. reconciled w0)" for window head source pending
  proof (rule load_known [where J = "undisturbed w0"])
    fix w w' :: "'a world"
    assume "known (undisturbed w0) [] w" and step: "confined {Loading} {} w w'"
    then have "undisturbed w0 w" by (simp add: known_inv)
    moreover from step have "confined {Reading, Loading} (UNIV - {File Pending}) w w'"
      by (rule confined_mono) auto
    ultimately show "undisturbed w0 w'" unfolding undisturbed_def by (rule framed.trans)
  qed (rule reconcile_pending_reads, rule undisturbed_reconciled)
  have branch: "triple (\<lambda>w. known (undisturbed w0) [] w \<and> pending \<noteq> [])
      (if pending \<noteq> [] then pbind (bcall LoadLocal (b_load_local B)) (\<lambda>local.
         reconcile_pending B c E snapshot window head source local pending) else m)
      (\<lambda>_. reconciled w0) (\<lambda>_. reconciled w0)" for window head source pending m
    using load [of window head source pending] by (auto intro: triple_conseq)
  show ?thesis
    unfolding cycle_def Let_def
    apply (rule reading.step, (auto intro!: stays_intros)[1])
    apply (rule reading.step, (auto intro!: stays_intros)[1])
    apply (rule reading.step, (auto intro!: stays_intros)[1])
    apply (rule triple_if, rule reading.quiet_last, (auto intro!: stays_intros)[1])
    apply (rule reading.step, (auto intro!: stays_intros)[1])
    apply (rule reading.step, (auto intro!: stays_intros)[1])
    apply (rule reading.step, (auto intro!: stays_intros)[1])
    apply (rule triple_pbind [OF pending_read [OF assms]])
    by (rule branch)
qed

definition example_snapshot :: preflight_snapshot where
  "example_snapshot =
     \<lparr>p_hotkey = ''5H'', p_uid = 32, p_chain_head = 100, p_upstream_version = ''0.3.2'',
      p_upstream_commit = []\<rparr>"

text \<open>
  C4: while a submission is pending, nothing is submitted. When the pending marker exists (of
  any content, even unreadable) at the start of a cycle, the cycle packages, uploads and
  publishes nothing, and it leaves the marker byte for byte, unless it removes it after the
  rebuilt commitment of one local artifact was validated, read back exactly from the chain,
  and its complete source and provenance were verified again, all in this cycle.
\<close>

theorem pending_submission_blocks:
  assumes "disk w Pending \<noteq> Missing" and "cycle B c E snapshot w = (r, w')"
  shows "\<exists>es. calls w' = es @ calls w \<and>
    list_all (\<lambda>e. kind_of (ev_op e) \<in> {Reading, Loading}) es \<and>
    (disk w' Pending = disk w Pending \<or>
     disk w' Pending = Missing \<and> (\<exists>k. proved_on_chain k (recent (calls w'))))"
proof -
  have "known (undisturbed w) [] w" by (simp add: known_def undisturbed_def framed.refl)
  then have "reconciled w w'"
    using pending_cycle [OF assms(1), of B c E snapshot] assms(2)
    by (cases r) (auto dest: tripleD)
  then show ?thesis by (auto simp: reconciled_def confined_def list_all_iff)
qed

theorem pending_submission_blocks_witness:
  "let (r, w') = cycle down_backend example_config example_env example_snapshot
      (example_world ((\<lambda>_. Missing)(Pending := Irregular))) in
   list_all (\<lambda>e. kind_of (ev_op e) \<in> {Reading, Loading}) (calls w')"
proof -
  obtain r w' where run: "cycle down_backend example_config example_env example_snapshot
      (example_world ((\<lambda>_. Missing)(Pending := Irregular))) = (r, w')" by fastforce
  show ?thesis using pending_submission_blocks [OF _ run] run by auto
qed

end
