(* ===== verification/SubmissionOutcome.thy ===== *)
theory SubmissionOutcome
  imports PendingSafety
begin

text \<open>
  How a cycle that published can end, and what exit code 3 leaves behind: the outcome of a
  publication is never lost, and an uncertain one latches.
\<close>

section \<open>After a publication\<close>

text \<open>
  The exact readback: the last two backend calls published \<open>k\<close> and read it back from the chain,
  both with the marker \<open>m\<close> on disk. The receipt names the artifact's round; the payload the
  chain returned has the fingerprint of the commitment that was validated for \<open>k\<close>, which is
  the one the marker recorded.
\<close>

definition confirmed :: "'x backend \<Rightarrow> store_env \<Rightarrow> packaged_artifact \<Rightarrow> 'x world \<Rightarrow> bool" where
  "confirmed B E k w \<longleftrightarrow>
     (\<exists>m es encoded y z x0 receipt x payload.
        calls w = Event (VerifyOnChain k) True (Regular (Doc (JObj m)))
          # Event (Publish k) True (Regular (Doc (JObj m))) # es \<and>
        b_validate_commitment B k y = (Inr encoded, z) \<and>
        b_publish B k x0 = (Inr receipt, x) \<and> r_round_index receipt = k_round_index k \<and>
        b_verify_on_chain B k x = (Inr payload, ext w) \<and>
        payload_fingerprint E payload = payload_fingerprint E encoded \<and>
        dget m ''commitment_fingerprint'' = JStr (payload_fingerprint E encoded))"

definition publishes :: "packaged_artifact \<Rightarrow> event \<Rightarrow> bool" where
  "publishes k e \<longleftrightarrow> ev_op e = Publish k"

text \<open>
  The states in which a cycle that published \<open>k\<close> can end: confirmed on chain and the marker
  gone; refused for review, with the marker on disk (or, when syncing its removal failed,
  gone); or refused by the binding check, the marker gone.
\<close>

definition publication_settled ::
    "'x backend \<Rightarrow> store_env \<Rightarrow> packaged_artifact \<Rightarrow> exc option \<Rightarrow> 'x world \<Rightarrow> bool" where
  "publication_settled B E k raised w \<longleftrightarrow>
     list_ex (publishes k) (recent (calls w)) \<and>
     (disk w Pending = Missing \<and> confirmed B E k w \<or>
      (\<exists>e \<in> set_option raised. isinstance e AuthorizationRefused) \<and>
        (marks E k (disk w Pending) \<or> disk w Pending = Missing) \<or>
      (\<exists>e \<in> set_option raised. isinstance e ArtifactCompetitionBindingError) \<and>
        disk w Pending = Missing)"

text \<open>Nothing published since \<open>w0\<close>; inside the cycle also nothing in the recent calls.\<close>

definition unpublished_since :: "'x world \<Rightarrow> 'x world \<Rightarrow> bool" where
  "unpublished_since w0 w \<longleftrightarrow>
     (\<exists>es. calls w = es @ calls w0 \<and> \<not> list_ex (\<lambda>e. kind_of (ev_op e) = Publishing) es)"

definition idle_since :: "'x world \<Rightarrow> 'x world \<Rightarrow> bool" where
  "idle_since w0 w \<longleftrightarrow>
     unpublished_since w0 w \<and> \<not> list_ex (\<lambda>e. kind_of (ev_op e) = Publishing) (recent (calls w))"

lemma unpublished_since_frame:
  assumes "confined (insert Loading quiet_kinds) S w w'" and "unpublished_since w0 w"
  shows "unpublished_since w0 w'"
proof -
  obtain fs where fs: "calls w' = fs @ calls w" "\<forall>e \<in> set fs. kind_of (ev_op e) \<noteq> Publishing"
    by (rule quiet_calls [OF assms(1)]) auto
  from assms(2) obtain es where "calls w = es @ calls w0"
    "\<not> list_ex (\<lambda>e. kind_of (ev_op e) = Publishing) es"
    unfolding unpublished_since_def by blast
  with fs show ?thesis
    unfolding unpublished_since_def by (intro exI [of _ "fs @ es"]) (auto simp: list_ex_iff)
qed

lemma idle_since_frame:
  assumes "confined quiet_kinds S w w'" and "idle_since w0 w"
  shows "idle_since w0 w'"
proof -
  obtain es where es: "calls w' = es @ calls w" "\<forall>e \<in> set es. kind_of (ev_op e) \<in> quiet_kinds"
    "\<forall>e \<in> set es. kind_of (ev_op e) \<noteq> Publishing"
    by (rule quiet_calls [OF assms(1)]) auto
  then have "\<forall>e \<in> set es. kind_of (ev_op e) \<noteq> Loading" by force
  moreover have "confined (insert Loading quiet_kinds) S w w'" using assms(1) by (rule confined_mono) auto
  ultimately show ?thesis
    using es assms(2) unpublished_since_frame [of S w w' w0]
    by (auto simp: idle_since_def recent_append list_ex_iff)
qed

lemma idle_unpublished: "idle_since w0 w \<Longrightarrow> unpublished_since w0 w"
  by (simp add: idle_since_def)

interpretation idle: cycle_facts "idle_since w0" "unpublished_since w0" quiet_kinds UNIV for w0
  by unfold_locales (erule (1) idle_since_frame, auto simp: idle_since_def)

text \<open>The outcome of a part that may publish.\<close>

definition done_normal :: "'x backend \<Rightarrow> store_env \<Rightarrow> 'x world \<Rightarrow> 'x world \<Rightarrow> bool" where
  "done_normal B E w0 w \<longleftrightarrow> unpublished_since w0 w \<or> (\<exists>k. publication_settled B E k None w)"

definition done_raised :: "'x backend \<Rightarrow> store_env \<Rightarrow> 'x world \<Rightarrow> exc \<Rightarrow> 'x world \<Rightarrow> bool" where
  "done_raised B E w0 e w \<longleftrightarrow> unpublished_since w0 w \<or> (\<exists>k. publication_settled B E k (Some e) w)"

lemma settled_raised: "publication_settled B E k None w \<Longrightarrow> publication_settled B E k r w"
  by (auto simp: publication_settled_def)

lemma done_simps [intro]:
  "unpublished_since w0 w \<Longrightarrow> done_normal B E w0 w"
  "unpublished_since w0 w \<Longrightarrow> done_raised B E w0 e w"
  "publication_settled B E k None w \<Longrightarrow> done_normal B E w0 w"
  "publication_settled B E k (Some e) w \<Longrightarrow> done_raised B E w0 e w"
  by (auto simp: done_normal_def done_raised_def)

text \<open>Published, and the marker still there.\<close>

definition published_marked :: "store_env \<Rightarrow> packaged_artifact \<Rightarrow> 'x world \<Rightarrow> bool" where
  "published_marked E k w \<longleftrightarrow> list_ex (publishes k) (recent (calls w)) \<and> marks E k (disk w Pending)"

text \<open>Published and read back with fingerprint \<open>fp\<close>, the marker still there.\<close>

definition received :: "'x backend \<Rightarrow> store_env \<Rightarrow> packaged_artifact \<Rightarrow> publish_receipt \<Rightarrow> 'x world \<Rightarrow> bool" where
  "received B E k receipt w \<longleftrightarrow> published_marked E k w \<and>
     (\<exists>es x0. calls w = Event (Publish k) True (disk w Pending) # es \<and> b_publish B k x0 = (Inr receipt, ext w))"

definition answered :: "'x backend \<Rightarrow> store_env \<Rightarrow> packaged_artifact \<Rightarrow> string \<Rightarrow> 'x world \<Rightarrow> bool" where
  "answered B E k payload w \<longleftrightarrow> published_marked E k w \<and>
     (\<exists>es x0 receipt x. calls w = Event (VerifyOnChain k) True (disk w Pending)
          # Event (Publish k) True (disk w Pending) # es \<and>
        b_publish B k x0 = (Inr receipt, x) \<and> r_round_index receipt = k_round_index k \<and>
        b_verify_on_chain B k x = (Inr payload, ext w))"

definition read_back :: "'x backend \<Rightarrow> store_env \<Rightarrow> packaged_artifact \<Rightarrow> string \<Rightarrow> 'x world \<Rightarrow> bool" where
  "read_back B E k fp w \<longleftrightarrow> (\<exists>payload. answered B E k payload w \<and> payload_fingerprint E payload = fp)"

lemma answered_marked: "answered B E k payload w \<Longrightarrow> published_marked E k w"
  by (simp add: answered_def)

lemma received_marked: "received B E k receipt w \<Longrightarrow> published_marked E k w"
  by (simp add: received_def)

lemma read_back_marked: "read_back B E k fp w \<Longrightarrow> published_marked E k w"
  by (auto simp: read_back_def dest: answered_marked)

text \<open>The marker that clearing accepts names the fingerprint.\<close>

lemma cleared_fingerprint:
  assumes "marks E k f" and "pending_of f = Inr m" and "valid_pending m"
    and "dget m ''commitment_fingerprint'' = JStr fp"
  shows "\<exists>d. f = Regular (Doc (JObj d)) \<and> dget d ''commitment_fingerprint'' = JStr fp"
proof -
  from assms(1) obtain d where f: "f = Regular (Doc (JObj d))" and d: "dget d ''submission_pending'' = JBool True"
    by (auto simp: marks_def split: jfile.splits content.splits json.splits)
  then have "d \<noteq> []" by (auto simp: dget_def)
  moreover have "\<not> valid_pending invalid_pending"
    by (simp add: valid_pending_def invalid_pending_def dget_def)
  ultimately have "m = d" using assms(2,3) f by (auto simp: pending_of_doc split: if_splits)
  with f assms(4) show ?thesis by blast
qed

lemma same_calls:
  assumes "stays (confined {} S) m" and "m w = (r, w')"
  shows "calls w' = calls w"
  using staysD [OF assms] by (rule confined_calls)

lemma published_call:
  assumes "idle_since w0 w" and "marks E k (disk w Pending)" and "bcall (Publish k) f w = (r, w')"
  shows "published_marked E k w'"
  using assms
  by (auto simp: bcall_def published_marked_def publishes_def recent_def split: prod.splits)

lemma clear_or_refuse:
  fixes m :: "('x world, unit) prog"
  assumes "published_marked E k w" and "or_refuse t (clear_submission_pending fp) w = (r, w')"
  shows "calls w' = calls w \<and> ext w' = ext w \<and>
    (r = Inr () \<and> disk w' Pending = Missing \<and>
       (\<exists>d. disk w Pending = Regular (Doc (JObj d)) \<and> dget d ''commitment_fingerprint'' = JStr fp) \<or>
     (\<exists>t'. r = Inl (Exc AuthorizationRefused t')) \<and> (disk w' Pending = disk w Pending \<or> disk w' Pending = Missing))"
proof -
  obtain rc where c: "clear_submission_pending fp w = (rc, w')"
    and r: "r = (case rc of Inl _ \<Rightarrow> Inl (Exc AuthorizationRefused t) | Inr u \<Rightarrow> Inr u)"
    using assms(2) by (auto simp: or_refuse_def catch_def split: prod.splits sum.splits)
  have "confined {} UNIV w w'"
    by (rule staysD [where m = "clear_submission_pending fp", OF _ c]) (auto intro!: stays_intros)
  then have "calls w' = calls w" "ext w' = ext w" by (auto simp: confined_def)
  with r clear_pending_effect [OF c] assms(1) show ?thesis
    by (auto simp: published_marked_def split: sum.splits intro: cleared_fingerprint)
qed

lemma broadcast_settled:
  "triple (\<lambda>w. idle_since w0 w \<and> marks E k (disk w Pending)) (broadcast B E det k fp)
     (\<lambda>_. read_back B E k fp) (\<lambda>_. published_marked E k)"
proof -
  have pub: "triple (\<lambda>w. idle_since w0 w \<and> marks E k (disk w Pending)) (bcall (Publish k) (b_publish B k))
     (received B E k) (\<lambda>_. published_marked E k)"
  proof (rule tripleI)
    fix w x and w' :: "'a world"
    assume w: "idle_since w0 w \<and> marks E k (disk w Pending)" "bcall (Publish k) (b_publish B k) w = (Inr x, w')"
    then have "published_marked E k w'" by (auto intro: published_call)
    with w(2) show "received B E k x w'" by (auto simp: received_def bcall_def split: prod.splits)
  qed (auto intro: published_call)
  have note_report: "triple (received B E k receipt) m (\<lambda>_. received B E k receipt) (\<lambda>_. published_marked E k)"
    if "stays (confined {} (UNIV - {File Pending})) m" for m :: "('a world, 'b) prog" and receipt
    by (rule triple_conseq [OF triple_of_stays [OF that, where P = "received B E k receipt"]])
      (auto simp: received_def published_marked_def confined_def)
  have chain: "triple (received B E k receipt) (bcall (VerifyOnChain k) (b_verify_on_chain B k))
     (answered B E k) (\<lambda>_. published_marked E k)" if "r_round_index receipt = k_round_index k" for receipt
  proof (rule tripleI)
    fix w :: "'a world" and x w'
    assume w: "received B E k receipt w" "bcall (VerifyOnChain k) (b_verify_on_chain B k) w = (Inr x, w')"
    then show "answered B E k x w'" using that
      by (auto simp: received_def answered_def published_marked_def recent_def bcall_def split: prod.splits) metis+
  qed (auto simp: received_def published_marked_def recent_def bcall_def split: prod.splits)
  show ?thesis
    unfolding broadcast_def
    apply (rule triple_pbind [OF pub])
    apply (rule triple_pbind [where M = "\<lambda>_ w. received B E k receipt w \<and> r_round_index receipt = k_round_index k" for receipt])
     apply (rule triple_guard, simp, simp add: received_marked)
    apply (rule triple_assume)
    apply (rule triple_pbind [OF note_report], (auto intro!: stays_intros)[1])
    apply (rule triple_pbind [OF chain], assumption)
    apply (rule triple_pbind [where M = "\<lambda>_. read_back B E k fp"])
     apply (rule triple_guard, auto simp: read_back_def dest: answered_marked)[1]
    by (rule triple_ret)
qed

lemma clear_and_raise_settled:
  "triple (published_marked E k) (clear_and_raise fp t e :: ('x world, 'a) prog) Q
     (\<lambda>d w. isinstance e ArtifactCompetitionBindingError \<longrightarrow> publication_settled B E k (Some d) w)"
proof (rule tripleI)
  fix w :: "'x world" and x :: 'a and w'
  assume "clear_and_raise fp t e w = (Inr x, w')"
  then show "Q x w'" by (simp add: clear_and_raise_def pbind_def split: prod.splits sum.splits)
next
  fix w :: "'x world" and d and w'
  assume w: "published_marked E k w" "(clear_and_raise fp t e :: ('x world, 'a) prog) w = (Inl d, w')"
  obtain r1 w1 where c: "or_refuse t (clear_submission_pending fp) w = (r1, w1)"
    by (cases "or_refuse t (clear_submission_pending fp) w")
  from clear_or_refuse [OF w(1) c] w
  show "isinstance e ArtifactCompetitionBindingError \<longrightarrow> publication_settled B E k (Some d) w'"
    by (auto simp: clear_and_raise_def pbind_def c publication_settled_def published_marked_def)
qed

lemma broadcast_outcome_settled:
  "triple (\<lambda>w. idle_since w0 w \<and> marks E k (disk w Pending)) (broadcast_outcome B E det k fp)
     (\<lambda>_. read_back B E k fp) (\<lambda>e. publication_settled B E k (Some e))"
  unfolding broadcast_outcome_def
proof (rule triple_catch [OF broadcast_settled])
  fix e
  show "triple (published_marked E k)
      (if isinstance e ArtifactCompetitionBindingError then
         clear_and_raise fp ''commitment was not submitted after artifact binding refusal, but its pending marker could not be cleared'' e
       else if isinstance e AuthorizationRefused then throw e
       else throw (refuse_authorization ''submission outcome is ambiguous after publish began; operator review is required''))
      (\<lambda>_. read_back B E k fp) (\<lambda>e. publication_settled B E k (Some e))"
    by (intro triple_if triple_throw triple_conseq [OF clear_and_raise_settled])
      (auto simp: published_marked_def publication_settled_def)
qed

lemma clear_settled:
  assumes "b_validate_commitment B k y = (Inr encoded, z)" and "fp = payload_fingerprint E encoded"
  shows "triple (read_back B E k fp) (or_refuse t (clear_submission_pending fp) :: ('x world, unit) prog)
     (\<lambda>_. publication_settled B E k None) (\<lambda>e. done_raised B E w0 e)"
proof (rule tripleI)
  fix w :: "'x world" and x w'
  assume w: "read_back B E k fp w" "or_refuse t (clear_submission_pending fp) w = (Inr x, w')"
  from clear_or_refuse [OF read_back_marked [OF w(1)] w(2)] obtain d
    where same: "calls w' = calls w" "ext w' = ext w" "disk w' Pending = Missing"
      and d: "disk w Pending = Regular (Doc (JObj d))" "dget d ''commitment_fingerprint'' = JStr fp"
    by auto
  from w(1) obtain es x0 receipt x payload where "calls w = Event (VerifyOnChain k) True (disk w Pending)
        # Event (Publish k) True (disk w Pending) # es"
      "b_publish B k x0 = (Inr receipt, x)" "r_round_index receipt = k_round_index k"
      "b_verify_on_chain B k x = (Inr payload, ext w)" "payload_fingerprint E payload = fp"
    by (auto simp: read_back_def answered_def)
  with same d assms have "confirmed B E k w'" unfolding confirmed_def by (simp, metis)
  with same read_back_marked [OF w(1)] show "publication_settled B E k None w'"
    by (simp add: publication_settled_def published_marked_def)
next
  fix w :: "'x world" and e w'
  assume w: "read_back B E k fp w" "or_refuse t (clear_submission_pending fp) w = (Inl e, w')"
  from read_back_marked [OF w(1)] clear_or_refuse [OF read_back_marked [OF w(1)] w(2)]
  have "publication_settled B E k (Some e) w'"
    by (auto simp: publication_settled_def published_marked_def)
  then show "done_raised B E w0 e w'" by blast
qed

lemma publish_settled:
  fixes B :: "'x backend"
  assumes valid: "b_validate_commitment B k y = (Inr encoded, z)"
  shows "triple (idle_since w0) (publish_commitment B c E win det k encoded b)
     (\<lambda>_. publication_settled B E k None) (\<lambda>e. done_raised B E w0 e)"
proof -
  have part: "triple (idle_since w0) m (\<lambda>_. idle_since w0) (\<lambda>e. done_raised B E w0 e)"
    if "stays (confined quiet_kinds UNIV) m" for m :: "('x world, 'a) prog"
    by (rule triple_conseq [OF idle.quiet_part [OF that, of w0 "[]"]]) (auto simp: known_def)
  have mark: "triple (idle_since w0) (record_pending E k fp b)
      (\<lambda>_ w. idle_since w0 w \<and> marks E k (disk w Pending)) (\<lambda>e. done_raised B E w0 e)" for fp
  proof (rule tripleI)
    fix w x w'
    assume w: "idle_since w0 w" "record_pending E k fp b w = (Inr x, w')"
    have "idle_since w0 w'"
      by (rule tripleD(1) [where m = "record_pending E k fp b", OF part w]) (auto intro!: stays_intros)
    with record_pending_marks [OF w(2)] show "idle_since w0 w' \<and> marks E k (disk w' Pending)" by blast
  next
    fix w e w'
    assume w: "idle_since w0 w" "record_pending E k fp b w = (Inl e, w')"
    show "done_raised B E w0 e w'"
      by (rule tripleD(2) [where m = "record_pending E k fp b", OF part w]) (auto intro!: stays_intros)
  qed
  have checks: "triple (\<lambda>w. idle_since w0 w \<and> marks E k (disk w Pending)) (broadcast_checks B c E win k)
      (\<lambda>_ w. idle_since w0 w \<and> marks E k (disk w Pending)) (\<lambda>_. idle_since w0)"
  proof (rule triple_conseq [OF triple_of_stays [where R = "confined quiet_kinds (UNIV - {File Pending})"
        and P = "\<lambda>w. idle_since w0 w \<and> marks E k (disk w Pending)"]])
    show "idle_since w0 w' \<and> marks E k (disk w' Pending)"
      if "idle_since w0 w \<and> marks E k (disk w Pending)"
        and "confined quiet_kinds (UNIV - {File Pending}) w w'" for w w' :: "'x world"
      using that idle_since_frame [OF that(2)] by (auto simp: confined_def)
  qed (auto intro!: stays_intros)
  have clear: "triple (idle_since w0) (clear_and_raise fp t e :: ('x world, unit) prog) Q
      (\<lambda>e. done_raised B E w0 e)" for fp t e Q
  proof (rule tripleI)
    fix w x w'
    assume "(clear_and_raise fp t e :: ('x world, unit) prog) w = (Inr x, w')"
    then show "Q x w'" by (simp add: clear_and_raise_def pbind_def split: prod.splits sum.splits)
  next
    fix w d w'
    assume w: "idle_since w0 w" "(clear_and_raise fp t e :: ('x world, unit) prog) w = (Inl d, w')"
    show "done_raised B E w0 d w'"
      by (rule tripleD(2) [where m = "clear_and_raise fp t e", OF part w]) (auto intro!: stays_intros)
  qed
  have final: "triple (read_back B E k (payload_fingerprint E encoded))
      (pseq (or_refuse t (clear_submission_pending (payload_fingerprint E encoded))) (ret payload))
      (\<lambda>_. publication_settled B E k None) (\<lambda>e. done_raised B E w0 e)" for t and payload :: string
    by (rule triple_pbind [OF clear_settled [OF valid refl]]) (auto intro: triple_ret)
  show ?thesis
    unfolding publish_commitment_def Let_def
    apply (rule triple_pbind [OF part], (auto intro!: stays_intros)[1])
    apply (simp only: case_prod_unfold)
    apply (rule triple_pbind [OF part], (auto intro!: stays_intros)[1])
    apply (rule triple_pbind [OF part], (auto intro!: stays_intros)[1])
    apply (rule triple_pbind [OF part], (auto intro!: stays_intros)[1])
    apply (rule triple_pbind [OF mark])
    apply (rule triple_pbind [OF triple_catch [OF checks clear]])
    apply (rule triple_pbind [OF triple_conseq [OF broadcast_outcome_settled]], assumption)
      prefer 3
    by (rule final) (auto simp: done_raised_def)
qed

section \<open>The submission and the cycle\<close>

lemma idle_step:
  assumes "stays (confined quiet_kinds UNIV) m"
    and "\<And>x. triple (idle_since w0) (k x) Q (\<lambda>e. done_raised B E w0 e)"
  shows "triple (idle_since w0) (pbind m k) Q (\<lambda>e. done_raised B E w0 e)"
  by (rule triple_pbind [where M = "\<lambda>_. idle_since w0", OF _ assms(2)])
    (rule triple_conseq [OF triple_of_stays [OF assms(1) idle_since_frame]], auto dest: idle_unpublished)

lemma idle_done:
  assumes "stays (confined quiet_kinds UNIV) m"
  shows "triple (idle_since w0) m (\<lambda>_. done_normal B E w0) (\<lambda>e. done_raised B E w0 e)"
  by (rule triple_conseq [OF triple_of_stays [OF assms idle_since_frame]])
    (auto dest: idle_unpublished)

lemma before_step:
  assumes "stays (confined (insert Loading quiet_kinds) UNIV) m"
    and "\<And>x. triple (unpublished_since w0) (k x) Q (\<lambda>e. done_raised B E w0 e)"
  shows "triple (unpublished_since w0) (pbind m k) Q (\<lambda>e. done_raised B E w0 e)"
  by (rule triple_pbind [where M = "\<lambda>_. unpublished_since w0", OF _ assms(2)])
    (rule triple_conseq [OF triple_of_stays [OF assms(1) unpublished_since_frame]], auto)

lemma before_done:
  assumes "stays (confined (insert Loading quiet_kinds) UNIV) m"
  shows "triple (unpublished_since w0) m (\<lambda>_. done_normal B E w0) (\<lambda>e. done_raised B E w0 e)"
  by (rule triple_conseq [OF triple_of_stays [OF assms unpublished_since_frame]]) auto

lemma settled_frame:
  assumes "confined {} (UNIV - {File Pending}) w w'" and "publication_settled B E k r w"
  shows "publication_settled B E k r w'"
  using assms by (auto simp: publication_settled_def confirmed_def confined_def)

lemma valid_step:
  assumes "\<And>x y z. b_validate_commitment B k y = (Inr x, z) \<Longrightarrow>
      triple (idle_since w0) (f x) Q (\<lambda>e. done_raised B E w0 e)"
  shows "triple (idle_since w0) (pbind (bcall (ValidateCommitment k) (b_validate_commitment B k)) f) Q
    (\<lambda>e. done_raised B E w0 e)"
proof (rule triple_pbind [where M = "\<lambda>x w. idle_since w0 w \<and> (\<exists>y z. b_validate_commitment B k y = (Inr x, z))"])
  have frame: "idle_since w0 w'" if "idle_since w0 w"
    and "bcall (ValidateCommitment k) (b_validate_commitment B k) w = (r, w')" for w r w'
  proof (rule idle_since_frame [OF _ that(1)])
    show "confined quiet_kinds UNIV w w'"
      by (rule staysD [where m = "bcall (ValidateCommitment k) (b_validate_commitment B k)", OF _ that(2)])
        (auto intro!: stays_intros)
  qed
  show "triple (idle_since w0) (bcall (ValidateCommitment k) (b_validate_commitment B k))
      (\<lambda>x w. idle_since w0 w \<and> (\<exists>y z. b_validate_commitment B k y = (Inr x, z))) (\<lambda>e. done_raised B E w0 e)"
    by (rule tripleI; frule (1) frame) (auto simp: bcall_def dest: idle_unpublished split: prod.splits)
  show "triple (\<lambda>w. idle_since w0 w \<and> (\<exists>y z. b_validate_commitment B k y = (Inr x, z))) (f x) Q
      (\<lambda>e. done_raised B E w0 e)" for x
    by (rule triple_assume) (use assms in blast)
qed

lemma submit_settled:
  "triple (idle_since w0) (submit B c E snapshot window head source local)
     (\<lambda>_. done_normal B E w0) (\<lambda>e. done_raised B E w0 e)"
proof -
  have last: "triple (done_normal B E w0) (verified E window k payload common True msg)
      (\<lambda>_. done_normal B E w0) (\<lambda>e. done_raised B E w0 e)" for k payload common msg
    by (rule triple_conseq [OF triple_of_stays [where R = "confined {} (UNIV - {File Pending})"
          and P = "done_normal B E w0"]])
      (auto intro!: stays_intros intro: settled_frame unpublished_since_frame confined_mono
        settled_raised simp: done_normal_def done_raised_def)
  have chain: "triple (idle_since w0)
      (catch (bcall (VerifyOnChain k) (b_verify_on_chain B k)) (\<lambda>e.
         if isinstance e VerificationError then publish_commitment B c E window det k encoded b
         else throw e)) (\<lambda>_. done_normal B E w0) (\<lambda>e. done_raised B E w0 e)"
    if valid: "b_validate_commitment B k y = (Inr encoded, z)" for k det encoded b y z
  proof (rule triple_catch)
    show "triple (idle_since w0) (bcall (VerifyOnChain k) (b_verify_on_chain B k))
        (\<lambda>_. done_normal B E w0) (\<lambda>_. idle_since w0)"
      by (rule triple_conseq [OF triple_of_stays [where R = "confined quiet_kinds UNIV"]])
        (auto intro!: stays_intros intro: idle_since_frame dest: idle_unpublished)
    show "triple (idle_since w0) (if isinstance e VerificationError
         then publish_commitment B c E window det k encoded b else throw e)
        (\<lambda>_. done_normal B E w0) (\<lambda>e. done_raised B E w0 e)" for e
      by (intro triple_if triple_throw triple_conseq [OF publish_settled [OF valid]]) (auto simp: idle_since_def)
  qed
  show ?thesis
    unfolding submit_def Let_def
    apply (rule idle_step, (auto intro!: stays_intros)[1])
    apply (rule idle_step, (auto intro!: stays_intros)[1])
    apply (rule idle_step, (auto intro!: stays_intros)[1])
    apply (rule idle_step, (auto intro!: stays_intros)[1])
    apply (rule idle_step, (auto intro!: stays_intros)[1])
    apply (rule valid_step)
    apply (rule idle_step, ((auto intro!: stays_intros)[1]; fail))+
    by (rule triple_pbind [OF chain last])
qed

lemma load_idle:
  assumes "\<And>x. triple (idle_since w0) (k x) Q (\<lambda>e. done_raised B E w0 e)"
  shows "triple (unpublished_since w0) (pbind (bcall LoadLocal f) k) Q (\<lambda>e. done_raised B E w0 e)"
proof (rule triple_pbind [where M = "\<lambda>_. idle_since w0"])
  have fresh: "idle_since w0 w'" if "unpublished_since w0 w" and run: "bcall LoadLocal f w = (r, w')"
    for w r w'
  proof -
    have "confined (insert Loading quiet_kinds) UNIV w w'"
      by (rule staysD [where m = "bcall LoadLocal f", OF _ run]) (auto intro!: stays_intros)
    then have "unpublished_since w0 w'" using that(1) by (rule unpublished_since_frame)
    with run show ?thesis by (auto simp: idle_since_def bcall_def recent_def split: prod.splits)
  qed
  then show "triple (unpublished_since w0) (bcall LoadLocal f) (\<lambda>_. idle_since w0) (\<lambda>e. done_raised B E w0 e)"
    by (intro tripleI) (auto simp: idle_since_def)
qed (rule assms)

lemma cycle_settled:
  "triple (unpublished_since w0) (cycle B c E snapshot)
     (\<lambda>_. done_normal B E w0) (\<lambda>e. done_raised B E w0 e)"
  unfolding cycle_def Let_def
  apply (rule before_step, (auto intro!: stays_intros)[1])+
  apply (rule triple_if, rule before_done, (auto intro!: stays_intros)[1])
  apply (rule before_step, (auto intro!: stays_intros)[1])+
  apply (rule triple_if, rule before_done, (auto intro!: stays_intros)[1])
  apply (rule triple_if, rule before_done, (auto intro!: stays_intros)[1])
  apply (rule load_idle)
  apply (rule triple_if, rule idle_done, (auto intro!: stays_intros split: option.split)[1])
  apply (rule triple_if)
   apply (rule triple_if, rule idle_done, (auto intro!: stays_intros split: option.split)[1])
   apply (rule triple_if, rule idle_done, (auto intro!: stays_intros split: option.split)[1])
  by (rule submit_settled)+

text \<open>
  C5: the outcome of a publication is never lost. A cycle that made a backend call publishing
  an artifact ends in one of three ways: by the exact readback (its last two calls published the
  artifact, with a receipt for its round, and read from the chain a payload with the very
  fingerprint of the validated commitment that the marker recorded) with the marker gone; or an
  authorization refusal is raised, with the marker of this artifact, round and hot key still on
  disk unless only syncing its removal failed; or a binding refusal is raised and the marker is
  gone. So an uncertain publication leaves its marker, or an exception the run loop latches.
\<close>

theorem publication_outcome:
  assumes "cycle B c E snapshot w = (r, w')"
  shows "(\<exists>es. calls w' = es @ calls w \<and> \<not> list_ex (\<lambda>e. kind_of (ev_op e) = Publishing) es) \<or>
    (\<exists>k. publication_settled B E k (case r of Inl e \<Rightarrow> Some e | Inr _ \<Rightarrow> None) w')"
proof -
  have "unpublished_since w w" by (simp add: unpublished_since_def)
  with cycle_settled [of w B c E snapshot] assms
  have "case r of Inl e \<Rightarrow> done_raised B E w e w' | Inr _ \<Rightarrow> done_normal B E w w'"
    by (cases r) (auto dest: tripleD)
  then show ?thesis
    by (cases r) (simp_all add: done_raised_def done_normal_def unpublished_since_def)
qed

section \<open>Exit code 3\<close>

lemma latch_from_nothing:
  assumes "disk w Refusal = Missing" and "faults w = []"
  shows "\<exists>p w'. latch_authorization_refusal E msg (refusal_details c msg n) None w = (Inr p, w')"
proof -
  obtain p where "sanitize_items (e_lib E) (e_secrets E)
      (refusal_payload E msg (refusal_details c msg n) (e_time E (ticks w))) = Inr p"
    using refusal_payload_clean by blast
  with assms show ?thesis
    by (simp add: latch_authorization_refusal_def pbind_def read_authorization_refusal_def
        refusal_of_def read_marker_def timestamp_of_def tick_def clean_def atomic_json_def
        change_entry_def)
qed

lemma latch_stays_or_appears:
  assumes "latch_authorization_refusal E msg (refusal_details c msg n) None w = (r, w')"
    and "faults w = []"
  shows "disk w' Refusal \<noteq> Missing"
proof (cases "disk w Refusal = Missing")
  case True
  from latch_from_nothing [OF this assms(2), of E msg c n] assms(1) obtain p where "r = Inr p" by auto
  with latch_effect(3) assms(1) show ?thesis by blast
next
  case False
  with latch_effect(1) [OF assms(1)] show ?thesis by auto
qed

definition unfaulted :: "'x world \<Rightarrow> bool" where "unfaulted w \<longleftrightarrow> faults w = []"

definition latched :: "'x world \<Rightarrow> bool" where
  "latched w \<longleftrightarrow> disk w Refusal \<noteq> Missing \<and> unfaulted w"

lemma unfaulted_frame: "unfaulted w \<Longrightarrow> confined UNIV UNIV w w' \<Longrightarrow> unfaulted w'"
  by (simp add: unfaulted_def confined_def)

lemma unfaulted_part:
  "stays (confined UNIV UNIV) m \<Longrightarrow> triple unfaulted m (\<lambda>_. unfaulted) (\<lambda>_. unfaulted)"
  by (erule triple_of_stays) (rule unfaulted_frame)

lemma failure_latches:
  "triple unfaulted (authorization_failure c E e :: ('x world, unit) prog) (\<lambda>_. latched) (\<lambda>_. unfaulted)"
proof -
  have latch: "triple unfaulted
      (catch (pseq (latch_authorization_refusal E msg (refusal_details c msg n) None) (ret ())) (\<lambda>_. ret ()))
      (\<lambda>_. latched) (\<lambda>_. unfaulted :: 'x world \<Rightarrow> bool)" for msg n
  proof (rule tripleI)
    fix w :: "'x world" and x w'
    assume w: "unfaulted w" and run: "catch (pseq (latch_authorization_refusal E msg
        (refusal_details c msg n) None) (ret ())) (\<lambda>_. ret ()) w = (Inr x, w')"
    then obtain r where l: "latch_authorization_refusal E msg (refusal_details c msg n) None w = (r, w')"
      by (auto simp: catch_def pbind_def split: prod.splits sum.splits)
    have "confined UNIV UNIV w w'"
      by (rule staysD [where m = "latch_authorization_refusal E msg (refusal_details c msg n) None", OF _ l])
        (auto intro!: stays_intros)
    with w latch_stays_or_appears [OF l] show "latched w'"
      by (auto simp: latched_def unfaulted_def confined_def)
  qed (auto simp: catch_def split: prod.splits sum.splits)
  have report: "triple latched (catch (pseq (write_state E ph ok msg now det pre) (ret ())) (\<lambda>_. ret ()))
      (\<lambda>_. latched) (\<lambda>_. unfaulted :: 'x world \<Rightarrow> bool)" for ph ok msg now det pre
    by (rule triple_conseq [OF triple_of_stays [where R = "confined {} {File Status, File Health}" and P = latched]])
      (auto intro!: stays_intros simp: latched_def confined_def unfaulted_def)
  show ?thesis
    unfolding authorization_failure_def Let_def
    apply (rule triple_pbind [OF unfaulted_part], (auto intro!: stays_intros)[1])
    apply (rule triple_pbind [OF latch])
    apply (rule triple_pbind [OF report])
    by (rule triple_ret)
qed

text \<open>A code: no fault happened, and code 3 means latched.\<close>

definition coded :: "int \<Rightarrow> 'x world \<Rightarrow> bool" where
  "coded rc w \<longleftrightarrow> unfaulted w \<and> (rc = 3 \<longrightarrow> latched w)"

definition coded_option :: "int option \<Rightarrow> 'x world \<Rightarrow> bool" where
  "coded_option rc w \<longleftrightarrow> unfaulted w \<and> (rc = Some 3 \<longrightarrow> latched w)"

definition coded_decision :: "'a decision \<Rightarrow> 'x world \<Rightarrow> bool" where
  "coded_decision d w \<longleftrightarrow> (case d of Return rc \<Rightarrow> coded rc w | Proceed _ \<Rightarrow> unfaulted w)"

definition coded_preflight :: "'a decision option \<Rightarrow> 'x world \<Rightarrow> bool" where
  "coded_preflight d w \<longleftrightarrow> (case d of None \<Rightarrow> unfaulted w | Some d \<Rightarrow> coded_decision d w)"

lemmas coded_defs = coded_def coded_option_def coded_decision_def coded_preflight_def latched_def

lemma coded_proceeds [simp]:
  "coded_decision (Proceed x) = unfaulted" "coded_preflight (Some (Proceed y)) = unfaulted"
  by (simp_all add: fun_eq_iff coded_defs)

lemma coded_stop: "triple unfaulted (stop_cleanly c E) coded (\<lambda>_. unfaulted)"
  unfolding stop_cleanly_def
  by (rule triple_pbind [OF unfaulted_part]) (auto intro!: stays_intros triple_ret simp: coded_def)

lemma coded_handled_cycle:
  "triple unfaulted (handled_cycle B c E snapshot) coded_decision (\<lambda>_. unfaulted)"
proof -
  have other: "triple unfaulted (pseq (m :: ('x world, unit) prog) (ret (Proceed s))) coded_decision (\<lambda>_. unfaulted)"
    if "stays (confined UNIV UNIV) m" for m and s :: string
    by (rule triple_pbind [OF unfaulted_part [OF that]]) (auto intro!: triple_ret simp: coded_defs)
  show ?thesis
    unfolding handled_cycle_def
    apply (rule triple_try_else [OF unfaulted_part])
      apply (auto intro!: stays_intros)[1]
     apply (rule triple_ret, simp add: coded_defs)
    apply (intro triple_if other)
       apply (rule triple_pbind [OF failure_latches], rule triple_ret, simp add: coded_defs)
    by (auto intro!: stays_intros)
qed

lemma coded_cycle_loop:
  "triple unfaulted (cycle_loop n B c E snapshot once) coded_option (\<lambda>_. unfaulted)"
proof (induction n)
  case 0
  show ?case unfolding cycle_loop.simps by (rule triple_ret) (simp add: coded_defs)
next
  case (Suc n)
  have poll: "triple unfaulted poll_stop (\<lambda>_. unfaulted) (\<lambda>_. unfaulted)"
    by (rule unfaulted_part) (auto intro!: stays_intros)
  show ?case
    unfolding cycle_loop.simps
  proof (intro triple_pbind [OF poll] triple_if)
    show "triple unfaulted (pbind (stop_cleanly c E) (\<lambda>rc. ret (Some rc))) coded_option (\<lambda>_. unfaulted)"
      by (rule triple_pbind [OF coded_stop]) (auto intro!: triple_ret simp: coded_defs)
    show "triple unfaulted (pbind (handled_cycle B c E snapshot) (\<lambda>d. case d of Return rc \<Rightarrow> ret (Some rc)
        | Proceed outcome \<Rightarrow> if once then ret (Some (if outcome \<in> {''verified'', ''dry_run''} then 0 else 2))
           else pbind poll_stop (\<lambda>_. cycle_loop n B c E snapshot once))) coded_option (\<lambda>_. unfaulted)"
    proof (rule triple_pbind [OF coded_handled_cycle])
      show "triple (coded_decision d) (case d of Return rc \<Rightarrow> ret (Some rc)
        | Proceed outcome \<Rightarrow> if once then ret (Some (if outcome \<in> {''verified'', ''dry_run''} then 0 else 2))
           else pbind poll_stop (\<lambda>_. cycle_loop n B c E snapshot once)) coded_option (\<lambda>_. unfaulted)" for d
        using triple_pbind [OF poll Suc.IH] by (cases d) (auto intro!: triple_ret, auto simp: coded_defs)
    qed
  qed
qed

lemma coded_preflight_loop:
  "triple unfaulted (preflight_loop n B c E once) coded_preflight (\<lambda>_. unfaulted)"
proof (induction n)
  case 0
  show ?case unfolding preflight_loop.simps by (rule triple_ret) (simp add: coded_defs)
next
  case (Suc n)
  show ?case
    unfolding preflight_loop.simps
    apply (rule triple_try_else [OF unfaulted_part])
      apply (auto intro!: stays_intros)[1]
     apply (rule triple_ret, simp add: coded_defs)
    apply (rule triple_if, rule triple_throw, assumption)
    apply (rule triple_pbind [OF unfaulted_part], (auto intro!: stays_intros)[1])
    apply (rule triple_if, rule triple_ret, simp add: coded_defs)
    apply (rule triple_pbind [OF unfaulted_part], (auto intro!: stays_intros)[1])
    apply (rule triple_if [OF triple_pbind [OF coded_stop]])
     apply (rule triple_ret, simp add: coded_defs)
    by (rule Suc.IH)
qed

text \<open>
  The worlds after a run: further runs on the state directory, with any backend, configuration
  and environment, and new processes that find its refusal file as it was left (all else, the
  external state, the clock, the other files and the stop event, may have changed).
\<close>

inductive later_world :: "'x world \<Rightarrow> 'x world \<Rightarrow> bool" for w0 where
  later_refl: "later_world w0 w0"
| later_run: "later_world w0 v \<Longrightarrow> run B c E once v = (r, v') \<Longrightarrow> later_world w0 v'"
| later_process: "later_world w0 v \<Longrightarrow> disk u Refusal = disk v Refusal \<Longrightarrow> later_world w0 u"

lemma later_latched:
  assumes "later_world w0 v" and "disk w0 Refusal \<noteq> Missing"
  shows "disk v Refusal \<noteq> Missing"
  using assms
proof (induction rule: later_world.induct)
  case (later_run v B c E once r v')
  show ?case
  proof (cases "lock v = LockFree")
    case True
    with latched_run_refuses [of v B c E once r v'] later_run show ?thesis by (simp add: refuses_def)
  next
    case False
    with later_run show ?thesis by (cases "lock v") (auto simp: run_def run_with_def with_lock_def)
  qed
qed auto

text \<open>
  C18: exit code 3 is never lost. When the writes of a run succeed, a run that exits with 3
  leaves an authorization refusal marker on disk (the details recorded can always be sanitised,
  so latching cannot fail for any other reason), and every later run refuses: after any further
  runs and restarts, a run that gets the lock makes the closing call only and ends with code 3
  or with what closing raised, the markers still there.
\<close>

theorem exit_three_latches:
  assumes "faults w = []" and "run B c E once w = (Inr (Some 3), w')"
  shows "disk w' Refusal \<noteq> Missing \<and>
    (\<forall>v B' c' E' once' r' v'. later_world w' v \<and> lock v = LockFree \<and> run B' c' E' once' v = (r', v') \<longrightarrow>
       refuses B' v r' v')"
proof -
  have close: "triple (coded_option rc) (bcall CloseBackend f) (\<lambda>_. coded_option rc) (\<lambda>_. unfaulted)" for rc and f :: "'a \<Rightarrow> _"
    by (rule triple_conseq [OF triple_of_stays [where R = "confined UNIV {}" and P = "coded_option rc"]])
      (auto intro!: stays_intros simp: coded_defs confined_def unfaulted_def)
  have body: "triple unfaulted (run_body n B c E once) coded_option (\<lambda>_. unfaulted)" for n
    unfolding run_body_def
  proof (rule triple_pbind [OF coded_preflight_loop])
    show "triple (coded_preflight d) (case d of None \<Rightarrow> ret None | Some (Return rc) \<Rightarrow> ret (Some rc)
       | Some (Proceed snapshot) \<Rightarrow> cycle_loop n B c E snapshot once) coded_option (\<lambda>_. unfaulted)" for d
      by (auto split: option.split decision.split intro!: triple_ret coded_cycle_loop, auto simp: coded_defs)
  qed
  have last: "triple unfaulted (pseq (m :: ('a world, unit) prog) (ret (Some n))) coded_option (\<lambda>_. unfaulted)"
    if "stays (confined UNIV UNIV) m" and "n \<noteq> 3" for m n
    by (rule triple_pbind [OF unfaulted_part [OF that(1)]]) (auto intro!: triple_ret simp: coded_defs that(2))
  have inner: "triple unfaulted (catch (run_body n B c E once) (\<lambda>e.
          if isinstance e AuthorizationRefused
          then pseq (authorization_failure c E e) (ret (Some 3))
          else if isinstance e ControllerError
          then pseq (failure c E ''preflight_refused'' e) (ret (Some 2))
          else pseq (failure c E ''fatal'' e) (ret (Some 1)))) coded_option (\<lambda>_. unfaulted)" for n
    apply (rule triple_catch [OF body])
    apply (rule triple_if)
     apply (rule triple_pbind [OF failure_latches], rule triple_ret, simp add: coded_defs)
    by (intro triple_if last) (auto intro!: stays_intros)
  from assms(2) have "with_lock (finally_do (catch (run_body (Suc (stop_after w)) B c E once) (\<lambda>e.
          if isinstance e AuthorizationRefused
          then pseq (authorization_failure c E e) (ret (Some 3))
          else if isinstance e ControllerError
          then pseq (failure c E ''preflight_refused'' e) (ret (Some 2))
          else pseq (failure c E ''fatal'' e) (ret (Some 1)))) (bcall CloseBackend (b_close B))) w
    = (Inr (Some 3), w')" by (simp add: run_def run_with_def)
  then have "disk w' Refusal \<noteq> Missing"
  proof (cases rule: with_lock_cases)
    case (held w1)
    from held(2) show ?thesis
    proof (cases rule: finally_cases)
      case (1 r1 w2 r2)
      from 1(3) have r: "r1 = Inr (Some 3)" "r2 = Inr ()" by (auto split: sum.splits)
      from assms(1) have "unfaulted (w\<lparr>lock := LockMine\<rparr>)" by (simp add: unfaulted_def)
      from tripleD(1) [OF inner this 1(1) [unfolded r]] have "coded_option (Some 3) w2" .
      from tripleD(1) [OF close this 1(2) [unfolded r]] held(3) show ?thesis by (simp add: coded_defs)
    qed
  qed simp
  then show ?thesis using later_latched latched_run_refuses by blast
qed

text \<open>A run that latches itself: the status file of an older release holds a latch, no marker does.\<close>

lemma legacy_latch_run:
  assumes "disk w Refusal = Missing" and "disk w Status = Regular (Doc (JObj [(''authorization_latched'', JBool True)]))"
    and "lock w = LockFree" and "\<And>x. b_close B x = (Inr (), x)"
  shows "\<exists>w'. run B c E once w = (Inr (Some 3), w')"
proof -
  let ?w = "w\<lparr>lock := LockMine\<rparr>"
  have "\<exists>t. preflight B c E ?w = (Inl (Exc AuthorizationRefused t), ?w)"
    using assms(1,2)
    by (simp add: preflight_def refuse_if_latched_def authorization_latch_reason_def pbind_def try_else_def
        read_authorization_refusal_def refusal_of_def read_marker_def read_slot_def read_file_def
        handled_load_def load_content_def dget_def Let_def)
  then obtain t where "preflight B c E ?w = (Inl (Exc AuthorizationRefused t), ?w)" ..
  then have body: "run_body (Suc (stop_after w)) B c E once ?w = (Inl (Exc AuthorizationRefused t), ?w)"
    by (simp add: run_body_def pbind_def try_else_def)
  obtain w1 where "authorization_failure c E (Exc AuthorizationRefused t) ?w = (Inr (), w1)"
    using authorization_failure_returns by blast
  with assms(3,4) body show ?thesis
    by (simp add: run_def run_with_def with_lock_def finally_do_def catch_def pbind_def bcall_def)
qed

theorem exit_three_latches_witness:
  "\<exists>w' v'. run down_backend example_config example_env False
       (example_world ((\<lambda>_. Missing)(Status := Regular (Doc (JObj [(''authorization_latched'', JBool True)])))))
       = (Inr (Some 3), w') \<and>
     disk w' Refusal \<noteq> Missing \<and>
     run down_backend example_config example_env True w' = (Inr (Some 3), v') \<and> disk v' Refusal \<noteq> Missing"
proof -
  let ?w = "example_world ((\<lambda>_. Missing)(Status := Regular (Doc (JObj [(''authorization_latched'', JBool True)]))))"
  have closes: "b_close down_backend x = (Inr (), x)" for x by (simp add: down_backend_def)
  obtain w' where run: "run down_backend example_config example_env False ?w = (Inr (Some 3), w')"
    using legacy_latch_run [of ?w down_backend example_config example_env False] closes by auto
  note latched = exit_three_latches [OF example_world_fields(2) run]
  have free: "lock w' = LockFree" using run
    by (auto simp: run_def run_with_def elim!: with_lock_cases)
  obtain r' v' where again: "run down_backend example_config example_env True w' = (r', v')" by fastforce
  from latched free again later_refl
  have "disk w' Refusal \<noteq> Missing" "refuses down_backend w' r' v'" by blast+
  then have "disk w' Refusal \<noteq> Missing" "r' = Inr (Some 3)" "disk v' Refusal \<noteq> Missing"
    by (auto simp: refuses_def down_backend_def)
  with run again show ?thesis by blast
qed

end
