(* ===== verification/Leaderboard.thy ===== *)
theory Leaderboard
  imports State
begin

text \<open>
  \<^verbatim>\<open>leaderboard.py\<close> and the loop of \<^verbatim>\<open>rank_observer.py\<close>: the public standing, fetched
  without credentials, parsed strictly, and written to the rank file only. The answer of the
  public API is a parameter of a poll; \<open>urlparse\<close> (scheme and network location) and the JSON
  lexer are parameters of the fetch.
\<close>

definition PUBLIC_API_URL :: string where "PUBLIC_API_URL = ''https://api.microtensor.cloud''"
definition MAX_LEADERBOARD_BYTES :: nat where "MAX_LEADERBOARD_BYTES = 2 * 1024 * 1024"

abbreviation value_error :: "string \<Rightarrow> exc" where
  "value_error t \<equiv> Exc ValueError t"

section \<open>Fetching\<close>

text \<open>The answer of \<open>urlopen\<close>: an exception, or the final URL and the body.\<close>

definition fetch_leaderboard ::
    "(string \<Rightarrow> string \<times> string) \<Rightarrow> (string \<Rightarrow> raw option) \<Rightarrow> string \<Rightarrow>
     (string \<times> string) res \<Rightarrow> dict res" where
  "fetch_leaderboard urlparse parse url answer =
     (case urlparse url of (scheme, netloc) \<Rightarrow>
      require (\<not> (scheme \<noteq> ''https'' \<or> netloc = []))
        (value_error ''the public leaderboard URL must use HTTPS'') (
      rbind answer (\<lambda>(final_url, body).
      require (fst (urlparse final_url) = ''https'')
        (value_error ''the public leaderboard redirected away from HTTPS'') (
      let raw = take (MAX_LEADERBOARD_BYTES + 1) body in
      require (length raw \<le> MAX_LEADERBOARD_BYTES)
        (value_error ''the public leaderboard response is too large'') (
      case parse (if raw = [] then ''null'' else raw) of
        None \<Rightarrow> fail JSONDecodeError ''invalid JSON''
      | Some r \<Rightarrow>
          (case as_obj (lax_value r) of
             None \<Rightarrow> Inl (value_error ''the public leaderboard response must be a JSON object'')
           | Some payload \<Rightarrow> Inr payload))))))"

section \<open>Parsing\<close>

text \<open>\<open>float(value)\<close> of a JSON value.\<close>

definition py_float :: "stdlib \<Rightarrow> json \<Rightarrow> pyfloat res" where
  "py_float lib v =
     (case v of
        JInt i \<Rightarrow> float_of_int i
      | JBool b \<Rightarrow> Inr (Fin (if b then 1 else 0))
      | JFloat f \<Rightarrow> Inr f
      | JStr s \<Rightarrow> (case float_text lib s of
                    None \<Rightarrow> fail ValueError ''could not convert string to float''
                  | Some f \<Rightarrow> Inr f)
      | _ \<Rightarrow> fail TypeError ''float() argument must be a string or a real number'')"

definition is_bool :: "json \<Rightarrow> bool" where
  "is_bool v \<longleftrightarrow> (case v of JBool b \<Rightarrow> True | _ \<Rightarrow> False)"

text \<open>\<open>except (TypeError, ValueError) as exc: raise ValueError(...) from exc\<close>.\<close>

definition or_value_error :: "string \<Rightarrow> 'a res \<Rightarrow> 'a res" where
  "or_value_error t r =
     (case r of
        Inl e \<Rightarrow> if isinstance e TypeError \<or> isinstance e ValueError
                 then Inl (value_error t) else Inl e
      | Inr x \<Rightarrow> Inr x)"

definition leaderboard_number :: "stdlib \<Rightarrow> json \<Rightarrow> string \<Rightarrow> pyfloat res" where
  "leaderboard_number lib v field =
     require (\<not> is_bool v) (value_error (''leaderboard '' @ field @ '' must be numeric'')) (
     rbind (or_value_error (''leaderboard '' @ field @ '' must be numeric'') (py_float lib v)) (\<lambda>number.
     require (case number of Fin q \<Rightarrow> 0 \<le> q | _ \<Rightarrow> False)
       (value_error (''leaderboard '' @ field @ '' must be finite and non-negative''))
     (Inr number)))"

text \<open>\<open>str(value).strip() in {str(i), f"{i}.0"}\<close>.\<close>

definition shows_integer :: "json \<Rightarrow> int \<Rightarrow> bool" where
  "shows_integer v i \<longleftrightarrow> strip (py_str v) \<in> {text_of_int i, text_of_int i @ ''.0''}"

definition leaderboard_rank :: "json \<Rightarrow> int res" where
  "leaderboard_rank v =
     require (\<not> is_bool v) (value_error ''leaderboard rank must be a positive integer'') (
     rbind (or_value_error ''leaderboard rank must be a positive integer'' (int_of v)) (\<lambda>rank.
     require (\<not> (rank < 1 \<or> \<not> shows_integer v rank))
       (value_error ''leaderboard rank must be a positive integer'')
     (Inr rank)))"

definition leaderboard_round :: "json \<Rightarrow> int res" where
  "leaderboard_round v =
     require (\<not> is_bool v) (value_error ''leaderboard round_index must be a non-negative integer'') (
     rbind (or_value_error ''leaderboard round_index must be a non-negative integer'' (int_of v)) (\<lambda>index.
     require (\<not> (index < 0 \<or> \<not> shows_integer v index))
       (value_error ''leaderboard round_index must be a non-negative integer'')
     (Inr index)))"

record standing =
  g_hotkey :: string
  g_rank :: int
  g_quality :: pyfloat
  g_cost :: pyfloat
  g_frontier :: bool
  g_share :: pyfloat

definition standing_of :: "stdlib \<Rightarrow> dict \<Rightarrow> standing res" where
  "standing_of lib row =
     (let hotkey = strip (py_str (dget_or (JStr []) row ''hotkey'')) in
      require (hotkey \<noteq> []) (value_error ''leaderboard system is missing its hotkey'') (
      require (is_bool (dget row ''on_frontier''))
        (value_error ''leaderboard on_frontier must be boolean'') (
      rbind (leaderboard_rank (dget row ''rank'')) (\<lambda>rank.
      rbind (leaderboard_number lib (dget row ''quality'') ''quality'') (\<lambda>quality.
      rbind (leaderboard_number lib (dget row ''expected_ms'') ''expected_ms'') (\<lambda>cost.
      rbind (leaderboard_number lib (dget row ''exclusive_hv'') ''exclusive_hv'') (\<lambda>share.
      Inr \<lparr>g_hotkey = hotkey, g_rank = rank, g_quality = quality, g_cost = cost,
           g_frontier = (dget row ''on_frontier'' = JBool True), g_share = share\<rparr>)))))))"

fun standings_of :: "stdlib \<Rightarrow> json list \<Rightarrow> standing list res" where
  "standings_of lib [] = Inr []"
| "standings_of lib (raw # raws) =
     (case as_obj raw of
        None \<Rightarrow> Inl (value_error ''the public leaderboard contains a malformed system'')
      | Some row \<Rightarrow>
          rbind (standing_of lib row) (\<lambda>s.
          rbind (standings_of lib raws) (\<lambda>ss. Inr (s # ss))))"

text \<open>\<open>min(standings, key=rank, default=None)\<close>: the first of the least rank.\<close>

fun leader_of :: "standing list \<Rightarrow> standing option" where
  "leader_of [] = None"
| "leader_of (s # ss) =
     (case leader_of ss of
        None \<Rightarrow> Some s
      | Some t \<Rightarrow> if g_rank t < g_rank s then Some t else Some s)"

definition standing_dict :: "standing \<Rightarrow> dict" where
  "standing_dict s =
     [(''hotkey'', JStr (g_hotkey s)), (''rank'', JInt (g_rank s)), (''quality'', JFloat (g_quality s)),
      (''cost'', JFloat (g_cost s)), (''frontier'', JBool (g_frontier s)),
      (''share'', JFloat (g_share s))]"

definition opt_field :: "('a \<Rightarrow> json) \<Rightarrow> 'a option \<Rightarrow> json" where
  "opt_field f v = (case v of None \<Rightarrow> JNull | Some x \<Rightarrow> f x)"

definition board_dict :: "int \<Rightarrow> standing list \<Rightarrow> standing option \<Rightarrow> dict" where
  "board_dict index standings mine =
     [(''round'', JInt index), (''found'', JBool (mine \<noteq> None)),
      (''rank'', opt_field (\<lambda>m. JInt (g_rank m)) mine),
      (''quality'', opt_field (\<lambda>m. JFloat (g_quality m)) mine),
      (''cost'', opt_field (\<lambda>m. JFloat (g_cost m)) mine),
      (''frontier'', JBool (case mine of None \<Rightarrow> False | Some m \<Rightarrow> g_frontier m)),
      (''share'', opt_field (\<lambda>m. JFloat (g_share m)) mine),
      (''leader'', opt_field (\<lambda>m. JObj (standing_dict m)) (leader_of standings)),
      (''goal_achieved'', JBool (case mine of None \<Rightarrow> False | Some m \<Rightarrow> g_rank m = 1)),
      (''reachability'', JBool True), (''systems'', JInt (int (length standings)))]"

definition parse_leaderboard :: "stdlib \<Rightarrow> string \<Rightarrow> string \<Rightarrow> string \<Rightarrow> dict \<Rightarrow> dict res" where
  "parse_leaderboard lib track hardware_class hotkey payload =
     require (\<not> (dget payload ''track'' \<noteq> JStr track \<or> dget payload ''class'' \<noteq> JStr hardware_class))
       (value_error ''the public leaderboard names a different competition'') (
     case as_list (dget payload ''systems'') of
       None \<Rightarrow> Inl (value_error ''the public leaderboard systems field must be a list'')
     | Some raw_systems \<Rightarrow>
     rbind (standings_of lib raw_systems) (\<lambda>standings.
     require (distinct (map g_rank standings))
       (value_error ''the public leaderboard contains duplicate ranks'') (
     require (\<not> (\<exists>s \<in> set_option (leader_of standings). g_rank s \<noteq> 1))
       (value_error ''the public leaderboard has systems but no rank-1 leader'') (
     let found = filter (\<lambda>s. g_hotkey s = hotkey) standings in
     require (\<not> length found > 1)
       (value_error ''the public leaderboard contains duplicate rows for the hotkey'') (
     rbind (leaderboard_round (dget payload ''round_index'')) (\<lambda>index.
     Inr (board_dict index standings (case found of [] \<Rightarrow> None | m # _ \<Rightarrow> Some m))))))))"

section \<open>The monitor\<close>

record rank_monitor =
  m_track :: string
  m_hardware_class :: string
  m_hotkey :: string
  m_base_url :: string

definition monitor_url :: "rank_monitor \<Rightarrow> string" where
  "monitor_url M =
     rstrip_char CHR ''/'' (m_base_url M) @ ''/v1/arenas/'' @ m_track M @ ''/'' @ m_hardware_class M
       @ ''/leaderboard''"

definition rank_common :: "rank_monitor \<Rightarrow> store_env \<Rightarrow> rat \<Rightarrow> dict" where
  "rank_common M E now =
     [(''schema_version'', JInt 1), (''updated_at'', JStr (e_utc E now)),
      (''updated_at_epoch'', JFloat (Fin now)),
      (''competition'', JStr (m_track M @ ''/'' @ m_hardware_class M)),
      (''hotkey'', JStr (m_hotkey M)), (''endpoint'', JStr (monitor_url M))]"

definition rank_error :: "string \<Rightarrow> dict" where
  "rank_error message =
     [(''found'', JBool False), (''rank'', JNull), (''quality'', JNull), (''cost'', JNull),
      (''frontier'', JBool False), (''share'', JNull), (''leader'', JNull),
      (''goal_achieved'', JBool False), (''reachability'', JBool False), (''error'', JStr message)]"

definition rank_payload :: "rank_monitor \<Rightarrow> store_env \<Rightarrow> dict res \<Rightarrow> rat \<Rightarrow> dict" where
  "rank_payload M E fetched now =
     dict_update (rank_common M E now)
       (case rbind fetched
               (parse_leaderboard (e_lib E) (m_track M) (m_hardware_class M) (m_hotkey M)) of
          Inl e \<Rightarrow> rank_error (redact_text (exc_message e) (e_secrets E))
        | Inr parsed \<Rightarrow> parsed)"

text \<open>One poll; \<open>fetched\<close> is what the fetcher returns or raises.\<close>

definition poll_rank ::
    "rank_monitor \<Rightarrow> store_env \<Rightarrow> dict res \<Rightarrow> ('a store_scheme, dict) prog" where
  "poll_rank M E fetched =
     pbind (tick E) (\<lambda>now.
     let payload = rank_payload M E fetched now in
     pseq (write_rank E payload) (ret payload))"

text \<open>
  The loop of the monitor thread: the stop event is set after as many iterations as there
  are answers. Every exception of a poll is logged and dropped.
\<close>

fun rank_loop ::
    "rank_monitor \<Rightarrow> store_env \<Rightarrow> dict res list \<Rightarrow> ('a store_scheme, unit) prog" where
  "rank_loop M E [] = ret ()"
| "rank_loop M E (fetched # rest) =
     pseq (catch (pseq (poll_rank M E fetched) (ret ())) (\<lambda>_. ret ())) (rank_loop M E rest)"

text \<open>The loop of \<open>main\<close> in \<^verbatim>\<open>rank_observer.py\<close>: here an exception ends the process.\<close>

fun rank_observer_main ::
    "rank_monitor \<Rightarrow> store_env \<Rightarrow> bool \<Rightarrow> dict res list \<Rightarrow> ('a store_scheme, int) prog" where
  "rank_observer_main M E once [] = ret 0"
| "rank_observer_main M E once (fetched # rest) =
     pseq (poll_rank M E fetched) (if once then ret 0 else rank_observer_main M E once rest)"

section \<open>What a parsed board says\<close>

lemma leader_of_None [simp]: "leader_of ss = None \<longleftrightarrow> ss = []"
  by (cases ss) (auto split: option.split)

lemma leader_of_Some: "leader_of ss = Some s \<Longrightarrow> s \<in> set ss \<and> (\<forall>t \<in> set ss. g_rank s \<le> g_rank t)"
proof (induction ss arbitrary: s)
  case (Cons a ss)
  then show ?case by (cases "leader_of ss") (fastforce split: if_splits)+
qed simp

lemma leaderboard_rank_Inr: "leaderboard_rank v = Inr r \<Longrightarrow> 1 \<le> r"
  by (auto simp: leaderboard_rank_def res_iffs)

lemma standing_of_Inr: "standing_of lib row = Inr s \<Longrightarrow> 1 \<le> g_rank s \<and> g_hotkey s \<noteq> []"
  by (auto simp: standing_of_def Let_def res_iffs dest: leaderboard_rank_Inr)

lemma standings_of_Inr:
  "standings_of lib raws = Inr ss \<Longrightarrow> list_all (\<lambda>s. 1 \<le> g_rank s \<and> g_hotkey s \<noteq> []) ss"
  by (induction raws arbitrary: ss)
    (auto simp: case_option_res_iffs res_iffs dest: standing_of_Inr)

abbreviation board_errors :: "exc_class set" where
  "board_errors \<equiv> {ValueError, OverflowError}"

lemma raises_py_float: "raises_only {ValueError, OverflowError, TypeError} (py_float lib v)"
  by (cases v) (auto simp: py_float_def float_of_int_def split: option.split)

lemma raises_int_of: "raises_only {ValueError, OverflowError, TypeError} (int_of v)"
  by (cases v) (auto simp: int_of_def split: option.split pyfloat.split)

lemma raises_or_value_error:
  assumes "raises_only {ValueError, OverflowError, TypeError} r"
  shows "raises_only board_errors (or_value_error t r)"
proof (cases r)
  case (Inl e)
  with assms show ?thesis by (cases e) (auto simp: or_value_error_def raises_only_def)
qed (simp add: or_value_error_def)

lemmas raises_converted =
  raises_or_value_error [OF raises_py_float] raises_or_value_error [OF raises_int_of]

lemma raises_board [raises_intros]:
  "raises_only board_errors (leaderboard_number lib v field)"
  "raises_only board_errors (leaderboard_rank v)"
  "raises_only board_errors (leaderboard_round v)"
  "raises_only board_errors (standing_of lib row)"
  "raises_only board_errors (standings_of lib raws)"
proof -
  show 1: "raises_only board_errors (leaderboard_number lib v field)" for v field
    unfolding leaderboard_number_def by (intro raises_intros raises_converted) simp_all
  show 2: "raises_only board_errors (leaderboard_rank v)" for v
    unfolding leaderboard_rank_def by (intro raises_intros raises_converted) simp_all
  show "raises_only board_errors (leaderboard_round v)"
    unfolding leaderboard_round_def by (intro raises_intros raises_converted) simp_all
  show 3: "raises_only board_errors (standing_of lib row)" for row
    unfolding standing_of_def by (intro raises_intros 1 2) simp_all
  show "raises_only board_errors (standings_of lib raws)"
    by (induction raws) (auto intro!: raises_intros 3 split: option.split)
qed

lemma parse_leaderboard_Inr:
  assumes "parse_leaderboard lib track hc hk payload = Inr d"
  obtains raws ss index where
    "dget payload ''track'' = JStr track" "dget payload ''class'' = JStr hc"
    "dget payload ''systems'' = JList raws" "standings_of lib raws = Inr ss" "distinct (map g_rank ss)"
    "\<not> (\<exists>s \<in> set_option (leader_of ss). g_rank s \<noteq> 1)"
    "\<not> length (filter (\<lambda>s. g_hotkey s = hk) ss) > 1"
    "d = board_dict index ss (case filter (\<lambda>s. g_hotkey s = hk) ss of [] \<Rightarrow> None | m # _ \<Rightarrow> Some m)"
  using assms unfolding parse_leaderboard_def Let_def
  by (auto simp: res_iffs case_option_res_iffs)

lemma board_dict_fields:
  "dget (board_dict i ss mine) ''found'' = JBool (mine \<noteq> None)"
  "dget (board_dict i ss mine) ''goal_achieved'' =
     JBool (case mine of None \<Rightarrow> False | Some m \<Rightarrow> g_rank m = 1)"
  "dget (board_dict i ss mine) ''leader'' = opt_field (\<lambda>m. JObj (standing_dict m)) (leader_of ss)"
  "dget (board_dict i ss mine) ''systems'' = JInt (int (length ss))"
  "dget (board_dict i ss mine) ''rank'' = opt_field (\<lambda>m. JInt (g_rank m)) mine"
  by (simp_all add: board_dict_def dget_def)

lemma filter_at_most_one:
  assumes "length (filter P ss) \<le> 1" and "s \<in> set ss" and "P s"
  shows "filter P ss = [s]"
proof -
  from assms(2,3) have "s \<in> set (filter P ss)" by simp
  with assms(1) show ?thesis by (cases "filter P ss") auto
qed

lemma head_of_filter:
  "(case filter P ss of [] \<Rightarrow> None | m # _ \<Rightarrow> Some m) = Some s \<Longrightarrow> s \<in> set ss \<and> P s"
  by (cases "filter P ss") (auto dest: filter_eq_ConsD)

text \<open>
  Parsing a public board raises \<open>ValueError\<close> (or \<open>OverflowError\<close>, for a number beyond
  the range of a double) or yields a consistent standing: the board is the one of the
  requested arena, every rank is positive and no two systems share one, the hot key is
  reported found exactly when it is listed, and the goal is reported achieved exactly when a
  system with the hot key has the least rank of the board, which is rank 1.
\<close>

theorem leaderboard_standing_exact:
  "case parse_leaderboard lib track hc hk payload of
     Inl e \<Rightarrow> exc_cls e \<in> {ValueError, OverflowError}
   | Inr d \<Rightarrow>
       dget payload ''track'' = JStr track \<and> dget payload ''class'' = JStr hc \<and>
       (\<exists>raws ss. dget payload ''systems'' = JList raws \<and> standings_of lib raws = Inr ss \<and>
          distinct (map g_rank ss) \<and> list_all (\<lambda>s. 1 \<le> g_rank s) ss \<and>
          dget d ''systems'' = JInt (int (length ss)) \<and>
          dget d ''found'' = JBool (hk \<in> g_hotkey ` set ss) \<and>
          dget d ''goal_achieved'' =
            JBool (\<exists>s. s \<in> set ss \<and> g_hotkey s = hk \<and> list_all (\<lambda>t. g_rank s \<le> g_rank t) ss))"
proof (cases "parse_leaderboard lib track hc hk payload")
  case (Inl e)
  have "raises_only board_errors (parse_leaderboard lib track hc hk payload)"
    unfolding parse_leaderboard_def Let_def by (intro raises_intros) simp_all
  from raises_onlyD [OF this Inl] Inl show ?thesis by simp
next
  case (Inr d)
  then obtain raws ss index where
    p: "dget payload ''track'' = JStr track" "dget payload ''class'' = JStr hc"
      "dget payload ''systems'' = JList raws" "standings_of lib raws = Inr ss" "distinct (map g_rank ss)"
    and top: "\<not> (\<exists>s \<in> set_option (leader_of ss). g_rank s \<noteq> 1)"
    and one: "\<not> length (filter (\<lambda>s. g_hotkey s = hk) ss) > 1"
    and d: "d = board_dict index ss (case filter (\<lambda>s. g_hotkey s = hk) ss of [] \<Rightarrow> None | m # _ \<Rightarrow> Some m)"
    by (rule parse_leaderboard_Inr)
  let ?mine = "case filter (\<lambda>s. g_hotkey s = hk) ss of [] \<Rightarrow> None | m # _ \<Rightarrow> Some m"
  have pos: "list_all (\<lambda>s. 1 \<le> g_rank s) ss"
    using standings_of_Inr [OF p(4)] by (simp add: list_all_iff)
  have mine: "?mine = Some s \<longleftrightarrow> s \<in> set ss \<and> g_hotkey s = hk" for s
  proof
    assume "?mine = Some s"
    then show "s \<in> set ss \<and> g_hotkey s = hk" by (rule head_of_filter)
  next
    assume "s \<in> set ss \<and> g_hotkey s = hk"
    with one have "filter (\<lambda>s. g_hotkey s = hk) ss = [s]" by (intro filter_at_most_one) auto
    then show "?mine = Some s" by simp
  qed
  have found: "?mine \<noteq> None \<longleftrightarrow> hk \<in> g_hotkey ` set ss"
    using mine by (metis (no_types, lifting) imageE image_eqI not_Some_eq)
  have least: "list_all (\<lambda>t. g_rank s \<le> g_rank t) ss \<longleftrightarrow> g_rank s = 1" if "s \<in> set ss" for s
  proof
    assume all: "list_all (\<lambda>t. g_rank s \<le> g_rank t) ss"
    from that obtain l where l: "leader_of ss = Some l" by (cases "leader_of ss") auto
    with top leader_of_Some [OF l] all have "g_rank s \<le> 1" by (auto simp: list_all_iff)
    with pos that show "g_rank s = 1" by (auto simp: list_all_iff)
  qed (use pos in \<open>auto simp: list_all_iff\<close>)
  have "(case ?mine of None \<Rightarrow> False | Some m \<Rightarrow> g_rank m = 1) \<longleftrightarrow>
      (\<exists>s. s \<in> set ss \<and> g_hotkey s = hk \<and> g_rank s = 1)"
    using mine by (cases ?mine) (auto, metis)
  with least have "(case ?mine of None \<Rightarrow> False | Some m \<Rightarrow> g_rank m = 1) \<longleftrightarrow>
      (\<exists>s. s \<in> set ss \<and> g_hotkey s = hk \<and> list_all (\<lambda>t. g_rank s \<le> g_rank t) ss)" by blast
  with p pos found Inr least show ?thesis by (auto simp: d board_dict_fields)
qed

section \<open>The monitor is an observer\<close>

lemma touches_poll_rank [stays_intros]: "stays (touches {Rank}) (poll_rank M E fetched)"
  by (auto simp: poll_rank_def Let_def intro!: stays_intros)

lemma touches_rank_loop [stays_intros]: "stays (touches {Rank}) (rank_loop M E fs)"
  by (induction fs) (simp_all only: rank_loop.simps, (intro stays_intros | assumption)+)

lemma rank_loop_returns: "fst (rank_loop M E fs w) = Inr ()"
  by (induction fs arbitrary: w)
    (auto simp: pbind_def catch_def split: prod.split sum.split)

text \<open>
  The public standing never gates a submission: whatever the public API answers and
  whichever write fails, the loop of the rank monitor ends normally when the stop event is
  set, and it changes no file but the rank file (not the status, the health, nor either
  marker) and not the lock.
\<close>

theorem rank_monitor_only_observes:
  "case rank_loop M E answers w of
     (r, w') \<Rightarrow> r = Inr () \<and> disk w' = (disk w)(Rank := disk w' Rank) \<and> lock w' = lock w"
proof (cases "rank_loop M E answers w")
  case (Pair r w')
  with rank_loop_returns [of M E answers w] have "r = Inr ()" by simp
  moreover have "touches {Rank} w w'" by (rule staysD [OF touches_rank_loop Pair])
  ultimately show ?thesis using Pair by (auto simp: touches_def fun_eq_iff)
qed

end
