(* ===== verification/GitRunner.thy ===== *)
theory GitRunner
  imports PyJson Models
begin

text \<open>
  \<^verbatim>\<open>_run_git\<close> of \<^verbatim>\<open>upstream_observer.py\<close>: one git command run as a bounded child process. What
  the operating system answers (starting the child, each expired wait with the size of the
  output and the clock, the exit code, the output file) is a session record; the command line
  and the environment of the child are constants and left out. \<open>decode\<close> is strict UTF-8
  decoding. The contract the observer relies on is the locale \<open>git_runner\<close>.
\<close>

section \<open>The child process\<close>

definition MAX_GIT_OUTPUT_BYTES :: int where "MAX_GIT_OUTPUT_BYTES = 2 * 1024 * 1024"

record git_result =
  g_returncode :: int
  g_output :: string

text \<open>What \<open>os.killpg\<close> answers: sent, no such process (ignored), or another error.\<close>

datatype kill_answer = KillSent | KillGone | KillDenied

record git_session =
  gs_spawn :: "unit res"
  gs_started :: rat
  gs_timeouts :: "(int \<times> rat) list"
  gs_exit :: "int res"
  gs_running :: bool
  gs_kill :: kill_answer
  gs_size :: int
  gs_raw :: "string res"

definition observation_error :: "string \<Rightarrow> exc" where
  "observation_error t = Exc ObservationError t"

definition kill_process_group :: "git_session \<Rightarrow> unit res" where
  "kill_process_group s =
     (case gs_kill s of KillDenied \<Rightarrow> fail OSError ''killpg'' | _ \<Rightarrow> Inr ())"

text \<open>\<open>while True: process.wait(timeout=0.1)\<close>, over the waits that expired.\<close>

fun wait_loop :: "string \<Rightarrow> git_session \<Rightarrow> (int \<times> rat) list \<Rightarrow> int res" where
  "wait_loop verb s [] = gs_exit s"
| "wait_loop verb s ((written, now) # later) =
     (if written > MAX_GIT_OUTPUT_BYTES then
        rbind (kill_process_group s) (\<lambda>_.
        Inl (observation_error (''git '' @ verb @ '' output exceeded 2 MiB'')))
      else if now \<ge> gs_started s + 60 then
        rbind (kill_process_group s) (\<lambda>_.
        Inl (observation_error (''git '' @ verb @ '' timed out'')))
      else wait_loop verb s later)"

text \<open>The body of the \<open>try\<close> block: return code and raw output.\<close>

definition collect_output :: "string \<Rightarrow> git_session \<Rightarrow> (int \<times> string) res" where
  "collect_output verb s =
     rbind (gs_spawn s) (\<lambda>_.
     rbind (wait_loop verb s (gs_timeouts s)) (\<lambda>returncode.
     require (\<not> gs_size s > MAX_GIT_OUTPUT_BYTES)
       (observation_error (''git '' @ verb @ '' output exceeded 2 MiB'')) (
     rbind (gs_raw s) (\<lambda>raw. Inr (returncode, raw)))))"

text \<open>The handlers; \<open>process is not None and process.poll() is None\<close> is \<open>gs_running\<close>.\<close>

definition guarded_output :: "string \<Rightarrow> git_session \<Rightarrow> (int \<times> string) res" where
  "guarded_output verb s =
     (case collect_output verb s of
        Inr x \<Rightarrow> Inr x
      | Inl e \<Rightarrow>
          if isinstance e ObservationError then Inl e
          else if isinstance e OSError then
            rbind (if gs_running s then kill_process_group s else Inr ()) (\<lambda>_.
            Inl (observation_error (''git '' @ verb @ '' failed: '' @ exc_text e)))
          else Inl e)"

definition run_git_session ::
    "(string \<Rightarrow> string option) \<Rightarrow> string \<Rightarrow> int list \<Rightarrow> git_session \<Rightarrow> git_result res" where
  "run_git_session decode verb accepted s =
     rbind (guarded_output verb s) (\<lambda>(returncode, raw).
     require (\<not> int (length raw) > MAX_GIT_OUTPUT_BYTES)
       (observation_error (''git '' @ verb @ '' output exceeded 2 MiB'')) (
     case decode raw of
       None \<Rightarrow> Inl (observation_error (''git '' @ verb @ '' returned non-UTF-8 output''))
     | Some out \<Rightarrow>
         require (returncode \<in> set accepted)
           (let detail = take 500 (py_replace [char_of (10 :: nat)] '' '' (strip out)) in
            observation_error (''git '' @ verb @ '' exited '' @ text_of_int returncode @ '': ''
              @ (if detail = [] then ''no detail'' else detail)))
         (Inr \<lparr>g_returncode = returncode, g_output = out\<rparr>)))"

text \<open>
  The runner over a repository of any state: \<open>spawn\<close> says what session the command has and
  what it leaves behind.
\<close>

definition run_git ::
    "(string \<Rightarrow> string option) \<Rightarrow> (string list \<Rightarrow> 'g \<Rightarrow> git_session \<times> 'g) \<Rightarrow>
     string list \<Rightarrow> int list \<Rightarrow> 'g \<Rightarrow> git_result res \<times> 'g" where
  "run_git decode spawn arguments accepted g =
     (case spawn arguments g of (s, g') \<Rightarrow> (run_git_session decode (hd arguments) accepted s, g'))"

section \<open>The contract\<close>

locale git_runner =
  fixes run :: "string list \<Rightarrow> int list \<Rightarrow> 'g \<Rightarrow> git_result res \<times> 'g"
  assumes accepted_code: "run arguments accepted g = (Inr r, g') \<Longrightarrow> g_returncode r \<in> set accepted"
begin

lemma plain_code: "run arguments [0] g = (Inr r, g') \<Longrightarrow> g_returncode r = 0"
  by (drule accepted_code) simp

lemma ancestor_code:
  "run arguments [0, 1] g = (Inr r, g') \<Longrightarrow> g_returncode r \<noteq> 1 \<Longrightarrow> g_returncode r = 0"
  by (drule accepted_code) auto

end

lemma run_git_session_Inr:
  "run_git_session decode verb accepted s = Inr r \<longleftrightarrow>
     (\<exists>raw. guarded_output verb s = Inr (g_returncode r, raw) \<and>
        int (length raw) \<le> MAX_GIT_OUTPUT_BYTES \<and> decode raw = Some (g_output r) \<and>
        g_returncode r \<in> set accepted)"
  by (cases r) (auto simp: run_git_session_def res_iffs case_option_res_iffs)

interpretation real_git: git_runner "run_git decode spawn" for decode spawn
  by unfold_locales (auto simp: run_git_def run_git_session_Inr split: prod.splits)

lemma wait_loop_Inr:
  "wait_loop verb s ts = Inr rc \<longleftrightarrow>
     gs_exit s = Inr rc \<and>
     list_all (\<lambda>(written, now). written \<le> MAX_GIT_OUTPUT_BYTES \<and> now < gs_started s + 60) ts"
  by (induction verb s ts rule: wait_loop.induct) (auto simp: rbind_Inr_iff)

lemma guarded_output_Inr:
  "guarded_output verb s = Inr (rc, raw) \<longleftrightarrow>
     gs_spawn s = Inr () \<and> gs_exit s = Inr rc \<and> gs_raw s = Inr raw \<and>
     gs_size s \<le> MAX_GIT_OUTPUT_BYTES \<and>
     list_all (\<lambda>(written, now). written \<le> MAX_GIT_OUTPUT_BYTES \<and> now < gs_started s + 60)
       (gs_timeouts s)"
proof -
  have "guarded_output verb s = Inr (rc, raw) \<longleftrightarrow> collect_output verb s = Inr (rc, raw)"
    by (simp add: guarded_output_def rbind_Inr_iff split: sum.split)
  then show ?thesis by (auto simp: collect_output_def wait_loop_Inr res_iffs)
qed

text \<open>
  What can leave the handlers: an observation error, the error of a kill that was denied while
  the child still runs, or an exception of the operating system calls that is no \<open>OSError\<close>.
\<close>

definition unhandled :: "git_session \<Rightarrow> exc \<Rightarrow> bool" where
  "unhandled s e \<longleftrightarrow>
     exc_cls e = OSError \<and> gs_kill s = KillDenied \<and> gs_running s \<or>
     exc_cls e \<noteq> OSError \<and> (gs_spawn s = Inl e \<or> gs_exit s = Inl e \<or> gs_raw s = Inl e)"

lemma wait_loop_Inl:
  "wait_loop verb s ts = Inl e \<Longrightarrow> exc_cls e = ObservationError \<or> exc_cls e = OSError \<or> gs_exit s = Inl e"
  by (induction verb s ts rule: wait_loop.induct)
    (auto simp: rbind_Inl_iff kill_process_group_def observation_error_def
      split: kill_answer.splits if_splits)

lemma collect_output_Inl:
  "collect_output verb s = Inl e \<Longrightarrow>
     exc_cls e = ObservationError \<or> exc_cls e = OSError \<or>
     gs_spawn s = Inl e \<or> gs_exit s = Inl e \<or> gs_raw s = Inl e"
  by (auto simp: collect_output_def rbind_Inl_iff require_Inl_iff observation_error_def dest: wait_loop_Inl)

lemma guarded_output_Inl:
  assumes "guarded_output verb s = Inl e"
  shows "exc_cls e = ObservationError \<or> unhandled s e"
proof -
  from assms obtain d where d: "collect_output verb s = Inl d"
    by (auto simp: guarded_output_def split: sum.splits)
  have classes: "isinstance d OSError \<longleftrightarrow> exc_cls d = OSError"
    "isinstance d ObservationError \<longleftrightarrow> exc_cls d = ObservationError"
    by (cases d; cases "exc_cls d"; simp)+
  from assms d classes collect_output_Inl [OF d] show ?thesis
    by (auto simp: guarded_output_def unhandled_def rbind_Inl_iff kill_process_group_def observation_error_def
        split: if_splits kill_answer.splits)
qed

text \<open>
  C35: one git command is bounded. It returns a result exactly when the child was started,
  exited by itself with an accepted code before the 60 second deadline and without its
  output ever exceeding 2 MiB, and the output is valid UTF-8; the result is that code and
  text. Every other outcome is an observation error, but for two: an \<open>OSError\<close> when killing a
  child that still runs is denied, and an exception that is no \<open>OSError\<close> raised by starting the
  child, by waiting for it or by reading its output.
\<close>

theorem run_git_bounded:
  "(run_git_session decode verb accepted s = Inr r \<longleftrightarrow>
     gs_spawn s = Inr () \<and> gs_exit s = Inr (g_returncode r) \<and> g_returncode r \<in> set accepted \<and>
     list_all (\<lambda>(written, now). written \<le> 2097152 \<and> now < gs_started s + 60) (gs_timeouts s) \<and>
     gs_size s \<le> 2097152 \<and>
     (\<exists>raw. gs_raw s = Inr raw \<and> length raw \<le> 2097152 \<and> decode raw = Some (g_output r))) \<and>
   (case run_git_session decode verb accepted s of
      Inr _ \<Rightarrow> True
    | Inl e \<Rightarrow> exc_cls e = ObservationError \<or>
        exc_cls e = OSError \<and> gs_kill s = KillDenied \<and> gs_running s \<or>
        exc_cls e \<noteq> OSError \<and> (gs_spawn s = Inl e \<or> gs_exit s = Inl e \<or> gs_raw s = Inl e))"
proof
  show "run_git_session decode verb accepted s = Inr r \<longleftrightarrow>
     gs_spawn s = Inr () \<and> gs_exit s = Inr (g_returncode r) \<and> g_returncode r \<in> set accepted \<and>
     list_all (\<lambda>(written, now). written \<le> 2097152 \<and> now < gs_started s + 60) (gs_timeouts s) \<and>
     gs_size s \<le> 2097152 \<and>
     (\<exists>raw. gs_raw s = Inr raw \<and> length raw \<le> 2097152 \<and> decode raw = Some (g_output r))"
    by (auto simp: run_git_session_Inr guarded_output_Inr MAX_GIT_OUTPUT_BYTES_def)
next
  have "exc_cls e = ObservationError \<or> unhandled s e" if "run_git_session decode verb accepted s = Inl e" for e
    using that
    by (auto simp: run_git_session_def rbind_Inl_iff require_Inl_iff case_option_res_iffs observation_error_def
        dest: guarded_output_Inl split: option.splits)
  then show "case run_git_session decode verb accepted s of
      Inr _ \<Rightarrow> True
    | Inl e \<Rightarrow> exc_cls e = ObservationError \<or>
        exc_cls e = OSError \<and> gs_kill s = KillDenied \<and> gs_running s \<or>
        exc_cls e \<noteq> OSError \<and> (gs_spawn s = Inl e \<or> gs_exit s = Inl e \<or> gs_raw s = Inl e)"
    by (simp add: unhandled_def split: sum.split)
qed

end
