(* ===== verification/UpstreamGate.thy ===== *)
theory UpstreamGate
  imports ProtectedFile PyJson
begin

text \<open>
  \<^verbatim>\<open>upstream_gate.py\<close>: the gate that lets a cycle start only on the observer's current
  attestation of the audited upstream state. The status file is read with the same care as
  the root-owned files (the contract of \<^verbatim>\<open>ProtectedFile\<close> is interpreted for it), as strict
  JSON, and every field is compared with its type.
\<close>

definition OBSERVER_SCHEMA :: string where
  "OBSERVER_SCHEMA = ''microtensor.upstream-observation.v1''"

definition OBSERVER_SCHEMA_VERSION :: int where "OBSERVER_SCHEMA_VERSION = 1"

definition AUDITED_ORIGIN_HEAD :: string where
  "AUDITED_ORIGIN_HEAD = ''53e4df648a89fad6586e1ac69916b20e747fd972''"

definition AUDITED_RELEASE_VERSION :: string where "AUDITED_RELEASE_VERSION = ''0.3.2''"
definition AUDITED_MECHANISM_VERSION :: string where "AUDITED_MECHANISM_VERSION = ''0.3.0''"

definition EXPECTED_ORIGIN :: string where
  "EXPECTED_ORIGIN = ''https://github.com/microtensor-io/microtensor-subnet''"

definition GATE_MAX_AGE_SECONDS :: int where "GATE_MAX_AGE_SECONDS = 900"
definition GATE_MIN_MAX_AGE_SECONDS :: int where "GATE_MIN_MAX_AGE_SECONDS = 600"
definition MAX_FUTURE_SKEW_SECONDS :: int where "MAX_FUTURE_SKEW_SECONDS = 30"
definition MAX_STATUS_BYTES :: nat where "MAX_STATUS_BYTES = 64 * 1024"

definition gate_refusal :: "string \<Rightarrow> exc" where
  "gate_refusal t = Exc UpstreamGateError t"

section \<open>Reading the status file\<close>

text \<open>\<open>_identity\<close> is the tuple of the protected reader, in the same order.\<close>

definition identity_of :: "stat_result \<Rightarrow> int list" where
  "identity_of m =
     [st_dev m, st_ino m, int (st_mode m), st_uid m, st_gid m, st_nlink m, st_size m,
      st_mtime_ns m, st_ctime_ns m]"

definition validate_metadata :: "int \<Rightarrow> stat_result \<Rightarrow> unit res" where
  "validate_metadata euid metadata =
     require (\<not> (s_islnk (st_mode metadata) \<or> \<not> s_isreg (st_mode metadata)))
       (gate_refusal ''upstream observer status must be a regular non-symlink'') (
     require (st_nlink metadata = 1)
       (gate_refusal ''upstream observer status must have exactly one hard link'') (
     require (st_uid metadata = euid)
       (gate_refusal ''upstream observer status must be owned by the effective user'') (
     require (s_imode (st_mode metadata) = mode_0600)
       (gate_refusal ''upstream observer status mode must be exactly 0600'') (
     require (\<not> (st_size metadata < 0 \<or> st_size metadata > int MAX_STATUS_BYTES))
       (gate_refusal ''upstream observer status exceeds the 64 KiB limit'')
     (Inr ())))))"

text \<open>The loop over \<open>os.read\<close>; \<open>chunks\<close> is the join of the chunks so far.\<close>

fun status_chunks :: "string \<Rightarrow> string option list \<Rightarrow> string res" where
  "status_chunks chunks [] = Inr chunks"
| "status_chunks chunks (None # rs) = fail OSError []"
| "status_chunks chunks (Some c # rs) =
     (let chunk = take (min (16 * 1024) (MAX_STATUS_BYTES + 1 - length chunks)) c
      in if chunk = [] then Inr chunks
         else if length (chunks @ chunk) > MAX_STATUS_BYTES
         then Inl (gate_refusal ''upstream observer status exceeds the 64 KiB limit'')
         else status_chunks (chunks @ chunk) rs)"

text \<open>The body of the \<open>try\<close> block: the bytes and the four observations of the file.\<close>

definition observe_file ::
    "file_session \<Rightarrow> (string \<times> stat_result \<times> stat_result \<times> stat_result \<times> stat_result) res" where
  "observe_file s =
     rbind (syscall (path_before s)) (\<lambda>before.
     rbind (validate_metadata (effective_uid s) before) (\<lambda>_.
     require (open_succeeds s) (Exc OSError []) (
     rbind (syscall (opened_before s)) (\<lambda>opened.
     rbind (validate_metadata (effective_uid s) opened) (\<lambda>_.
     require ((st_dev before, st_ino before) = (st_dev opened, st_ino opened))
       (gate_refusal ''upstream observer status changed while it was opened'') (
     rbind (status_chunks [] (read_results s)) (\<lambda>raw.
     rbind (syscall (opened_after s)) (\<lambda>opened_after.
     rbind (validate_metadata (effective_uid s) opened_after) (\<lambda>_.
     rbind (syscall (path_after s)) (\<lambda>path_after.
     rbind (validate_metadata (effective_uid s) path_after) (\<lambda>_.
     Inr (raw, before, opened, opened_after, path_after))))))))))))"

definition read_status_bytes :: "file_session \<Rightarrow> string res" where
  "read_status_bytes s =
     require (path_absolute s) (gate_refusal ''upstream observer status path must be absolute'') (
     require (has_nofollow s)
       (gate_refusal ''this platform cannot securely open observer status files'') (
     rbind (case observe_file s of
              Inl e \<Rightarrow>
                if isinstance e UpstreamGateError then Inl e
                else if isinstance e OSError
                then Inl (gate_refusal ''upstream observer status is unavailable or unsafe'')
                else Inl e
            | Inr r \<Rightarrow> Inr r) (\<lambda>(raw, before, opened, opened_after, path_after).
     require (\<not> (identity_of opened \<noteq> identity_of opened_after
                \<or> identity_of opened \<noteq> identity_of before
                \<or> identity_of opened \<noteq> identity_of path_after
                \<or> int (length raw) \<noteq> st_size opened))
       (gate_refusal ''upstream observer status changed while it was read'')
     (Inr raw))))"

text \<open>\<open>decode\<close> is strict UTF-8 decoding, \<open>parse\<close> the JSON lexer.\<close>

definition read_observer_status ::
    "(string \<Rightarrow> string option) \<Rightarrow> (string \<Rightarrow> raw option) \<Rightarrow> file_session \<Rightarrow> dict res" where
  "read_observer_status decode parse s =
     rbind (read_status_bytes s) (\<lambda>raw.
     case decode raw of
       None \<Rightarrow> Inl (gate_refusal ''upstream observer status is not valid UTF-8'')
     | Some text' \<Rightarrow>
         (case load_strict parse text' of
            Inl e \<Rightarrow> if isinstance e JSONDecodeError \<or> isinstance e ValueError
                     then Inl (gate_refusal ''upstream observer status is not strict JSON'')
                     else Inl e
          | Inr payload \<Rightarrow>
              (case as_obj payload of
                 None \<Rightarrow> Inl (gate_refusal ''upstream observer status must be a JSON mapping'')
               | Some d \<Rightarrow> Inr d)))"

section \<open>The gate\<close>

text \<open>\<open>type(x) is type(y)\<close>.\<close>

fun same_type :: "json \<Rightarrow> json \<Rightarrow> bool" where
  "same_type JNull JNull = True"
| "same_type (JBool a) (JBool b) = True"
| "same_type (JInt a) (JInt b) = True"
| "same_type (JFloat a) (JFloat b) = True"
| "same_type (JStr a) (JStr b) = True"
| "same_type (JList a) (JList b) = True"
| "same_type (JObj a) (JObj b) = True"
| "same_type _ _ = False"

definition require_exact :: "dict \<Rightarrow> string \<Rightarrow> json \<Rightarrow> unit res" where
  "require_exact payload key expected =
     require (\<not> (\<not> has_key payload key \<or> \<not> same_type (dget payload key) expected
                \<or> \<not> py_eq (dget payload key) expected))
       (gate_refusal (''upstream observer status has invalid '' @ key)) (Inr ())"

text \<open>\<open>float(v)\<close> of a value that is an integer or a float, and not a truth value.\<close>

fun float_of_number :: "json \<Rightarrow> pyfloat res option" where
  "float_of_number (JInt i) = Some (float_of_int i)"
| "float_of_number (JFloat f) = Some (Inr f)"
| "float_of_number _ = None"

definition finite_positive :: "pyfloat \<Rightarrow> rat option" where
  "finite_positive f = (case f of Fin q \<Rightarrow> if q \<le> 0 then None else Some q | _ \<Rightarrow> None)"

definition require_fresh_timestamp :: "dict \<Rightarrow> string \<Rightarrow> rat \<Rightarrow> int \<Rightarrow> unit res" where
  "require_fresh_timestamp payload key now max_age_seconds =
     (case float_of_number (dget payload key) of
        None \<Rightarrow> Inl (gate_refusal (''upstream observer status has invalid '' @ key))
      | Some r \<Rightarrow>
          rbind r (\<lambda>f.
          case finite_positive f of
            None \<Rightarrow> Inl (gate_refusal (''upstream observer status has invalid '' @ key))
          | Some timestamp \<Rightarrow>
              require (\<not> timestamp > now + of_int MAX_FUTURE_SKEW_SECONDS)
                (gate_refusal (''upstream observer status '' @ key @ '' is in the future'')) (
              require (\<not> now - timestamp > of_int max_age_seconds)
                (gate_refusal (''upstream observer status '' @ key @ '' is stale''))
              (Inr ()))))"

definition exact_fields :: dict where
  "exact_fields =
     [(''schema'', JStr OBSERVER_SCHEMA), (''schema_version'', JInt OBSERVER_SCHEMA_VERSION),
      (''observation_succeeded'', JBool True), (''phase'', JStr ''current''), (''ok'', JBool True),
      (''origin'', JStr EXPECTED_ORIGIN), (''origin_head'', JStr AUDITED_ORIGIN_HEAD),
      (''audited_origin_head'', JStr AUDITED_ORIGIN_HEAD),
      (''release_version'', JStr AUDITED_RELEASE_VERSION),
      (''mechanism_version'', JStr AUDITED_MECHANISM_VERSION),
      (''provenance_required'', JBool False), (''local_checkout_at_origin'', JBool True),
      (''audited_head_is_ancestor'', JBool True), (''review_required'', JBool False),
      (''miner_impact_review_required'', JBool False), (''history_rewrite_detected'', JBool False),
      (''history_rewrite_latched'', JBool False), (''changed_files_truncated'', JBool False),
      (''commits_since_audit'', JInt 0)]"

fun require_all :: "dict \<Rightarrow> dict \<Rightarrow> unit res" where
  "require_all payload [] = Inr ()"
| "require_all payload ((key, expected) # wanted) =
     rbind (require_exact payload key expected) (\<lambda>_. require_all payload wanted)"

text \<open>\<open>now\<close> is the argument of that name (\<open>None\<close>: the wall clock \<open>clock\<close> is read).\<close>

definition verify_upstream_observer_status ::
    "(string \<Rightarrow> string option) \<Rightarrow> (string \<Rightarrow> raw option) \<Rightarrow> pyfloat \<Rightarrow> json \<Rightarrow> json option \<Rightarrow>
     file_session \<Rightarrow> dict res" where
  "verify_upstream_observer_status decode parse clock max_age_seconds now s =
     (case as_int max_age_seconds of
        None \<Rightarrow> Inl (gate_refusal ''observer maximum age must be an integer between 600 and 900 seconds'')
      | Some max_age \<Rightarrow>
     require (\<not> (max_age < GATE_MIN_MAX_AGE_SECONDS \<or> max_age > GATE_MAX_AGE_SECONDS))
       (gate_refusal ''observer maximum age must be an integer between 600 and 900 seconds'') (
     case float_of_number (case now of None \<Rightarrow> JFloat clock | Some v \<Rightarrow> v) of
       None \<Rightarrow> Inl (gate_refusal ''observer verification time is invalid'')
     | Some r \<Rightarrow>
     rbind r (\<lambda>f.
     case finite_positive f of
       None \<Rightarrow> Inl (gate_refusal ''observer verification time is invalid'')
     | Some observed_now \<Rightarrow>
     rbind (read_observer_status decode parse s) (\<lambda>payload.
     rbind (require_all payload exact_fields) (\<lambda>_.
     require (dget payload ''changed_files'' = JList [])
       (gate_refusal ''upstream observer status has invalid changed_files'') (
     rbind (require_fresh_timestamp payload ''updated_at_epoch'' observed_now max_age) (\<lambda>_.
     rbind (require_fresh_timestamp payload ''origin_observed_at'' observed_now max_age) (\<lambda>_.
     Inr payload))))))))"

section \<open>The reader behind the contract\<close>

definition status_file :: "stat_result \<Rightarrow> int \<Rightarrow> bool" where
  "status_file m euid \<longleftrightarrow>
     s_isreg (st_mode m) \<and> st_nlink m = 1 \<and> st_uid m = euid \<and> s_imode (st_mode m) = mode_0600 \<and>
     0 \<le> st_size m \<and> st_size m \<le> int MAX_STATUS_BYTES"

lemma identity_of_inj [simp]: "identity_of m = identity_of n \<longleftrightarrow> m = n"
  by (cases m; cases n) (auto simp: identity_of_def)

lemma validate_metadata_Inr [simp]: "validate_metadata euid m = Inr u \<longleftrightarrow> status_file m euid"
  by (auto simp: validate_metadata_def status_file_def require_Inr_iff s_islnk_def s_isreg_def)

abbreviation gate_errors :: "exc_class set" where
  "gate_errors \<equiv> {UpstreamGateError, OSError}"

lemma raises_gate_refusal [raises_intros]:
  "UpstreamGateError \<in> C \<Longrightarrow> raises_only C (Inl (gate_refusal t))"
  "UpstreamGateError \<in> C \<Longrightarrow> (ok \<Longrightarrow> raises_only C k) \<Longrightarrow> raises_only C (require ok (gate_refusal t) k)"
  by (cases ok; simp add: gate_refusal_def raises_only_def)+

lemma raises_syscall: "OSError \<in> C \<Longrightarrow> raises_only C (syscall r)"
  by (auto simp: syscall_def split: option.split)

lemma raises_validate_metadata: "raises_only gate_errors (validate_metadata euid m)"
  by (auto simp: validate_metadata_def intro!: raises_intros)

lemma raises_status_chunks: "raises_only gate_errors (status_chunks cs rs)"
  by (induction cs rs rule: status_chunks.induct) (auto simp: Let_def intro!: raises_intros)

lemma raises_observe: "raises_only gate_errors (observe_file s)"
  unfolding observe_file_def
  by (intro raises_intros raises_syscall raises_validate_metadata raises_status_chunks) simp_all

lemma read_status_bytes_error:
  "raises_only {UpstreamGateError} (read_status_bytes s)"
proof -
  have "raises_only gate_errors (observe_file s)" by (rule raises_observe)
  then have "raises_only {UpstreamGateError} (case observe_file s of
      Inl e \<Rightarrow> if isinstance e UpstreamGateError then Inl e
        else if isinstance e OSError
        then Inl (gate_refusal ''upstream observer status is unavailable or unsafe'') else Inl e
    | Inr r \<Rightarrow> Inr r)"
  proof (cases "observe_file s")
    case (Inl e)
    with \<open>raises_only gate_errors (observe_file s)\<close> show ?thesis
      by (cases e) (auto simp: raises_only_def gate_refusal_def)
  qed simp
  then show ?thesis
    unfolding read_status_bytes_def by (auto intro!: raises_intros)
qed

lemma observe_file_Inr:
  "observe_file s = Inr (raw, before, opened, opened', after) \<Longrightarrow>
     open_succeeds s \<and> path_before s = Some before \<and> opened_before s = Some opened \<and>
     opened_after s = Some opened' \<and> path_after s = Some after \<and>
     status_file opened (effective_uid s) \<and> status_chunks [] (read_results s) = Inr raw"
  by (auto simp: observe_file_def res_iffs)

lemma read_status_bytes_Inr:
  assumes "read_status_bytes s = Inr b"
  shows "path_absolute s \<and> open_succeeds s \<and>
    (\<exists>m. path_before s = Some m \<and> opened_before s = Some m \<and> opened_after s = Some m \<and>
       path_after s = Some m \<and> status_file m (effective_uid s) \<and> int (length b) = st_size m)"
  using assms
  by (auto simp: read_status_bytes_def res_iffs split: sum.splits if_splits dest!: observe_file_Inr)

interpretation observer_file: secure_reader
    read_status_bytes
    "\<lambda>m. \<exists>euid. status_file m euid"
    MAX_STATUS_BYTES
  by unfold_locales (auto simp: status_file_def dest!: read_status_bytes_Inr)

section \<open>What an accepted status attests\<close>

lemma require_exact_Inr:
  "require_exact d k (JBool b) = Inr u \<longleftrightarrow> map_of d k = Some (JBool b)"
  "require_exact d k (JInt i) = Inr u \<longleftrightarrow> map_of d k = Some (JInt i)"
  "require_exact d k (JStr t) = Inr u \<longleftrightarrow> map_of d k = Some (JStr t)"
proof -
  have "v = JBool b" if "same_type v (JBool b)" "py_eq v (JBool b)" for v
    using that by (cases v) (auto simp: num_eq_def split: if_splits)
  moreover have "v = JInt i" if "same_type v (JInt i)" "py_eq v (JInt i)" for v
    using that by (cases v) (auto simp: num_eq_def)
  ultimately show "require_exact d k (JBool b) = Inr u \<longleftrightarrow> map_of d k = Some (JBool b)"
    "require_exact d k (JInt i) = Inr u \<longleftrightarrow> map_of d k = Some (JInt i)"
    "require_exact d k (JStr t) = Inr u \<longleftrightarrow> map_of d k = Some (JStr t)"
    by (auto simp: require_exact_def require_Inr_iff has_key_def dget_def num_eq_def)
qed

definition attests :: "dict \<Rightarrow> dict \<Rightarrow> bool" where
  "attests wanted d \<longleftrightarrow> list_all (\<lambda>(k, v). map_of d k = Some v) wanted"

lemma require_all_Inr:
  assumes "list_all (\<lambda>(k, v). (\<exists>b. v = JBool b) \<or> (\<exists>i. v = JInt i) \<or> (\<exists>t. v = JStr t)) wanted"
  shows "require_all d wanted = Inr u \<longleftrightarrow> attests wanted d"
  using assms
  by (induction wanted) (auto simp: attests_def rbind_Inr_iff require_exact_Inr)

definition fresh :: "dict \<Rightarrow> string \<Rightarrow> rat \<Rightarrow> int \<Rightarrow> bool" where
  "fresh d key now max_age \<longleftrightarrow>
     (\<exists>t. float_of_number (dget d key) = Some (Inr (Fin t)) \<and> 0 < t \<and>
          t \<le> now + of_int MAX_FUTURE_SKEW_SECONDS \<and> now - t \<le> of_int max_age)"

lemma finite_positive_Some: "finite_positive f = Some q \<longleftrightarrow> f = Fin q \<and> 0 < q"
  by (auto simp: finite_positive_def split: pyfloat.split)

lemma require_fresh_Inr: "require_fresh_timestamp d key now a = Inr u \<longleftrightarrow> fresh d key now a"
  by (auto simp: require_fresh_timestamp_def fresh_def rbind_Inr_iff require_Inr_iff
      finite_positive_Some split: option.splits)

lemma verify_status_Inr:
  "verify_upstream_observer_status decode parse clock (JInt age) now s = Inr d \<longleftrightarrow>
     GATE_MIN_MAX_AGE_SECONDS \<le> age \<and> age \<le> GATE_MAX_AGE_SECONDS \<and>
     (\<exists>t. float_of_number (case now of None \<Rightarrow> JFloat clock | Some v \<Rightarrow> v) = Some (Inr (Fin t)) \<and> 0 < t \<and>
        read_observer_status decode parse s = Inr d \<and> attests exact_fields d \<and>
        dget d ''changed_files'' = JList [] \<and> fresh d ''updated_at_epoch'' t age \<and>
        fresh d ''origin_observed_at'' t age)"
proof -
  have all: "require_all e exact_fields = Inr u \<longleftrightarrow> attests exact_fields e" for e u
    by (rule require_all_Inr) (auto simp: exact_fields_def)
  let ?n = "float_of_number (case now of None \<Rightarrow> JFloat clock | Some v \<Rightarrow> v)"
  show ?thesis
  proof (cases "\<exists>t. ?n = Some (Inr (Fin t)) \<and> 0 < t")
    case True
    then obtain t where t: "?n = Some (Inr (Fin t))" "0 < t" by blast
    then have "finite_positive (Fin t) = Some t" by (simp add: finite_positive_Some)
    with t show ?thesis
      unfolding verify_upstream_observer_status_def
      by (auto simp: res_iffs all require_fresh_Inr simp del: require_all.simps)
  next
    case False
    then have "\<forall>f. ?n = Some (Inr f) \<longrightarrow> finite_positive f = None"
      by (auto simp: finite_positive_def split: pyfloat.splits)
    with False show ?thesis
      unfolding verify_upstream_observer_status_def
      by (auto simp: res_iffs split: option.splits)
  qed
qed

lemma raises_float_of_int: "raises_only {UpstreamGateError, OverflowError, RecursionError} (float_of_int i)"
  by (auto simp: float_of_int_def intro!: raises_intros)

lemma float_of_number_raises:
  "float_of_number v = Some r \<Longrightarrow> raises_only {UpstreamGateError, OverflowError, RecursionError} r"
  by (cases v) (auto intro: raises_float_of_int)

lemma load_strict_raises: "raises_only {JSONDecodeError, ValueError, RecursionError} (load_strict parse text')"
  by (auto simp: raises_only_def dest: load_strict_Inl)

lemma read_observer_status_raises:
  "raises_only {UpstreamGateError, OverflowError, RecursionError} (read_observer_status decode parse s)"
proof -
  have "raises_only {UpstreamGateError, OverflowError, RecursionError} (read_status_bytes s)"
    using read_status_bytes_error [of s] by (auto simp: raises_only_def)
  moreover have "raises_only {UpstreamGateError, OverflowError, RecursionError}
      (case load_strict parse t of
         Inl e \<Rightarrow> if isinstance e JSONDecodeError \<or> isinstance e ValueError
                  then Inl (gate_refusal u) else Inl e
       | Inr payload \<Rightarrow> (case as_obj payload of None \<Rightarrow> Inl (gate_refusal v) | Some d \<Rightarrow> Inr d))" for t u v
  proof (cases "load_strict parse t")
    case (Inl e)
    with load_strict_raises [of parse t] show ?thesis
      by (cases e) (auto simp: raises_only_def gate_refusal_def)
  qed (auto intro!: raises_intros split: option.split)
  ultimately show ?thesis
    unfolding read_observer_status_def
    by (intro raises_only_rbind raises_only_case_option raises_gate_refusal) simp_all
qed

lemma read_observer_status_Inr:
  assumes "read_observer_status decode parse s = Inr d"
  shows "\<exists>b t. read_status_bytes s = Inr b \<and> decode b = Some t \<and> load_strict parse t = Inr (JObj d)"
proof -
  from assms obtain b t where b: "read_status_bytes s = Inr b" "decode b = Some t"
    by (auto simp: read_observer_status_def rbind_Inr_iff split: option.splits)
  with assms have "load_strict parse t = Inr (JObj d)"
    by (auto simp: read_observer_status_def split: sum.splits if_splits option.splits)
  with b show ?thesis by blast
qed

lemma verify_status_raises:
  "raises_only {UpstreamGateError, OverflowError, RecursionError}
     (verify_upstream_observer_status decode parse clock age now s)"
proof -
  have exact: "raises_only {UpstreamGateError, OverflowError, RecursionError} (require_exact d k v)" for d k v
    by (auto simp: require_exact_def intro!: raises_intros)
  have all: "raises_only {UpstreamGateError, OverflowError, RecursionError} (require_all d wanted)" for d wanted
    by (induction wanted) (auto intro!: raises_intros exact)
  have fresh: "raises_only {UpstreamGateError, OverflowError, RecursionError} (require_fresh_timestamp d k t a)" for d k t a
    unfolding require_fresh_timestamp_def
    by (auto intro!: raises_intros dest: float_of_number_raises split: option.split)
  show ?thesis
    unfolding verify_upstream_observer_status_def
    by (intro raises_intros all fresh read_observer_status_raises) (auto dest: float_of_number_raises)
qed

text \<open>
  C29: the gate fails closed. It raises \<open>UpstreamGateError\<close> (or \<open>OverflowError\<close>, for an
  integer time beyond the range of a double, or \<open>RecursionError\<close>, for a status nested beyond the
  recursion limit), or the status it returns was read completely
  from a private file of the effective user that did not change during the read, has no
  duplicate key, carries each of the nineteen required fields with exactly the required value
  and type and no changed file, and both its time stamps are positive, at most 30 s ahead and
  at most the maximum age (itself between 600 and 900 s) behind.
\<close>

theorem gate_admits_only_audited_upstream:
  "case verify_upstream_observer_status decode parse clock max_age now s of
     Inl e \<Rightarrow> exc_cls e \<in> {UpstreamGateError, OverflowError, RecursionError}
   | Inr d \<Rightarrow>
       (\<exists>m b age t. opened_before s = Some m \<and> path_after s = Some m \<and>
          status_file m (effective_uid s) \<and> read_status_bytes s = Inr b \<and> int (length b) = st_size m \<and>
          max_age = JInt age \<and> 600 \<le> age \<and> age \<le> 900 \<and>
          float_of_number (case now of None \<Rightarrow> JFloat clock | Some v \<Rightarrow> v) = Some (Inr (Fin t)) \<and>
          fresh d ''updated_at_epoch'' t age \<and> fresh d ''origin_observed_at'' t age) \<and>
       keys_unique (JObj d) \<and> attests exact_fields d \<and> dget d ''changed_files'' = JList []"
proof (cases "verify_upstream_observer_status decode parse clock max_age now s")
  case (Inl e)
  with raises_onlyD [OF verify_status_raises Inl] show ?thesis by simp
next
  case (Inr d)
  then obtain age where age: "max_age = JInt age"
    by (auto simp: verify_upstream_observer_status_def split: option.splits)
  from verify_status_Inr [of decode parse clock age now s d] Inr age obtain t where
    v: "600 \<le> age" "age \<le> 900"
      "float_of_number (case now of None \<Rightarrow> JFloat clock | Some v \<Rightarrow> v) = Some (Inr (Fin t))"
      "read_observer_status decode parse s = Inr d" "attests exact_fields d"
      "dget d ''changed_files'' = JList []" "fresh d ''updated_at_epoch'' t age"
      "fresh d ''origin_observed_at'' t age"
    by (auto simp: GATE_MIN_MAX_AGE_SECONDS_def GATE_MAX_AGE_SECONDS_def)
  from read_observer_status_Inr [OF v(4)] obtain b t' where b: "read_status_bytes s = Inr b"
    and "load_strict parse t' = Inr (JObj d)" by blast
  then have "keys_unique (JObj d)" by (blast intro: strict_keys_unique)
  with read_status_bytes_Inr [OF b] b v age Inr show ?thesis by fastforce
qed

end
