(* ===== verification/UpstreamObserver.thy ===== *)
theory UpstreamObserver
  imports World GitRunner UpstreamGate
begin

text \<open>
  \<^verbatim>\<open>upstream_observer.py\<close>: one poll compares the origin of the upstream repository with the
  audited commit and records the verdict in the observer's own state directory. The constants
  are the observer's own copies (the gate has its own). The git
  runner (a parameter of the code too), the existence of the repository and the parser of
  Python modules are parameters; the world is the store together with the repository's
  state. \<open>git_calls\<close> records, newest first, every git command with its result and the
  status file at that moment; no definition reads it.
\<close>

section \<open>Pure parts\<close>

definition OBSERVATION_SCHEMA :: string where
  "OBSERVATION_SCHEMA = ''microtensor.upstream-observation.v1''"

definition AUDITED_UPSTREAM_HEAD :: string where
  "AUDITED_UPSTREAM_HEAD = ''53e4df648a89fad6586e1ac69916b20e747fd972''"

definition AUDITED_UPSTREAM_RELEASE :: string where "AUDITED_UPSTREAM_RELEASE = ''0.3.2''"
definition AUDITED_UPSTREAM_MECHANISM :: string where "AUDITED_UPSTREAM_MECHANISM = ''0.3.0''"

definition EXPECTED_UPSTREAM_ORIGIN :: string where
  "EXPECTED_UPSTREAM_ORIGIN = ''https://github.com/microtensor-io/microtensor-subnet''"

definition CANDIDATE_REF :: string where
  "CANDIDATE_REF = ''refs/microtensor-observer/candidate-main''"

definition MAX_CHANGED_FILES :: nat where "MAX_CHANGED_FILES = 500"

definition miner_impact_prefixes :: "string list" where
  "miner_impact_prefixes =
     [''.github/workflows/'', ''deploy/'', ''docs/'', ''microtensor/'', ''neurons/'', ''scripts/'',
      ''pyproject.toml'']"

definition canonical_origin :: "string \<Rightarrow> string res" where
  "canonical_origin v =
     (let canonical = rstrip_char CHR ''/'' (remove_suffix ''.git'' (strip v)) in
      require (canonical = EXPECTED_UPSTREAM_ORIGIN)
        (observation_error ''configured origin does not match expected public repository'')
      (Inr canonical))"

definition commit_shape :: "string \<Rightarrow> bool" where
  "commit_shape s \<longleftrightarrow> length s = 40 \<and> list_all is_hex s"

definition commit_of :: "string \<Rightarrow> string \<Rightarrow> string res" where
  "commit_of v label =
     (let commit = py_lower (strip v) in
      require (commit_shape commit) (observation_error (label @ '' is not a canonical 40-hex commit''))
      (Inr commit))"

text \<open>\<open>str.split()\<close>: the maximal runs of characters that are not white space.\<close>

function split_words :: "string \<Rightarrow> string list" where
  "split_words s =
     (let t = dropWhile is_space s in
      if t = [] then []
      else takeWhile (\<lambda>c. \<not> is_space c) t # split_words (dropWhile (\<lambda>c. \<not> is_space c) t))"
  by pat_completeness auto
termination
proof (relation "measure length")
  fix s t :: string
  assume t: "t = dropWhile is_space s" "t \<noteq> []"
  from t(2) obtain c cs where "t = c # cs" by (meson list.exhaust)
  moreover have "\<not> is_space (hd t)" using t by (simp add: hd_dropWhile)
  ultimately have "length (dropWhile (\<lambda>c. \<not> is_space c) t) < length t"
    by (simp add: le_imp_less_Suc length_dropWhile_le)
  also have "\<dots> \<le> length s" using t(1) by (simp add: length_dropWhile_le)
  finally show "(dropWhile (\<lambda>c. \<not> is_space c) t, s) \<in> measure length" by simp
qed simp

declare split_words.simps [simp del]

definition advertised_commit :: "string \<Rightarrow> string res" where
  "advertised_commit v =
     (case filter (\<lambda>line. strip line \<noteq> []) (splitlines v) of
        [line] \<Rightarrow>
          (case split_words line of
             [sha, ref] \<Rightarrow>
               require (ref = ''refs/heads/main'')
                 (observation_error ''origin advertised a malformed main ref'')
               (commit_of sha ''advertised origin/main'')
           | _ \<Rightarrow> Inl (observation_error ''origin advertised a malformed main ref''))
      | _ \<Rightarrow> Inl (observation_error ''origin advertised an ambiguous main ref''))"

text \<open>What the code looks at of a parsed module (\<open>None\<close>: not a plain name, no value).\<close>

datatype literal = PyStr string | PyBool bool | OtherLiteral

datatype expression = Constant literal | OtherExpression

datatype statement =
    AnnAssign "string option" "expression option"
  | Assign "string option list" expression
  | OtherStatement

datatype literal_type = StrType | BoolType

fun has_type :: "literal \<Rightarrow> literal_type \<Rightarrow> bool" where
  "has_type (PyStr s) StrType = True"
| "has_type (PyBool b) BoolType = True"
| "has_type _ _ = False"

text \<open>The value a statement assigns to \<open>name\<close>, if any.\<close>

fun assigned :: "string \<Rightarrow> statement \<Rightarrow> expression option" where
  "assigned name (AnnAssign target v) = (if target = Some name then v else None)"
| "assigned name (Assign targets v) = (if targets = [Some name] then Some v else None)"
| "assigned name OtherStatement = None"

fun literal_values :: "string \<Rightarrow> literal_type \<Rightarrow> statement list \<Rightarrow> literal list res" where
  "literal_values name ty [] = Inr []"
| "literal_values name ty (st # sts) =
     (case assigned name st of
        None \<Rightarrow> literal_values name ty sts
      | Some v \<Rightarrow>
          (case v of
             Constant c \<Rightarrow>
               require (has_type c ty)
                 (observation_error (''origin constants '' @ name @ '' is not a static literal''))
               (map_sum id ((#) c) (literal_values name ty sts))
           | OtherExpression \<Rightarrow>
               Inl (observation_error (''origin constants '' @ name @ '' is not a static literal''))))"

text \<open>\<open>None\<close> from the parser is a \<open>SyntaxError\<close>; another exception passes.\<close>

definition static_constant ::
    "(string \<Rightarrow> statement list option res) \<Rightarrow> string \<Rightarrow> string \<Rightarrow> literal_type \<Rightarrow> literal res" where
  "static_constant parse_module source name ty =
     rbind (parse_module source) (\<lambda>m.
     case m of
       None \<Rightarrow> Inl (observation_error ''origin constants are not valid Python syntax'')
     | Some body \<Rightarrow>
         rbind (literal_values name ty body) (\<lambda>values.
         case values of
           [v] \<Rightarrow> Inr v
         | _ \<Rightarrow> Inl (observation_error (''origin constants omit or redefine '' @ name))))"

definition safe_relative_git_path :: "string \<Rightarrow> bool" where
  "safe_relative_git_path path =
     (if path = [] \<or> prefix ''/'' path \<or> CHR 0x5C \<in> set path then False
      else if list_ex (\<lambda>c. code c < 32 \<or> code c = 127) path then False
      else list_all (\<lambda>component. component \<notin> {[], ''.'', ''..''}) (split_on CHR ''/'' path))"

definition changed_files :: "string \<Rightarrow> (string list \<times> bool) res" where
  "changed_files out =
     (if out = [] then Inr ([], False)
      else
        require (suffix [CHR 0x00] out)
          (observation_error ''git diff returned malformed NUL-delimited paths'') (
        let paths = split_on CHR 0x00 (butlast out) in
        require (\<not> list_ex (\<lambda>p. \<not> safe_relative_git_path p) paths)
          (observation_error ''git diff returned an unsafe path'')
        (Inr (take MAX_CHANGED_FILES paths, length paths > MAX_CHANGED_FILES))))"

definition miner_impact :: "string list \<Rightarrow> bool" where
  "miner_impact paths \<longleftrightarrow>
     list_ex (\<lambda>path. list_ex (\<lambda>p. path = p \<or> prefix p path) miner_impact_prefixes) paths"

section \<open>The observer\<close>

datatype git_event =
  GitEvent (ge_arguments: "string list") (ge_answer: "git_result option") (ge_status: jfile)

record 'g observer_world = store +
  repository :: 'g
  git_calls :: "git_event list"
  rewrite_seen :: bool
  stop_polls :: nat

record 'g git_env =
  g_path :: string
  g_is_dir :: "'g \<Rightarrow> bool"
  g_run :: "string list \<Rightarrow> int list \<Rightarrow> 'g \<Rightarrow> git_result res \<times> 'g"
  g_parse :: "string \<Rightarrow> statement list option res"

text \<open>\<open>self._git\<close>.\<close>

definition git :: "'g git_env \<Rightarrow> string list \<Rightarrow> int list \<Rightarrow> ('g observer_world, git_result) prog" where
  "git G arguments accepted = (\<lambda>w.
     case g_run G arguments accepted (repository w) of (r, g) \<Rightarrow>
       (r, w\<lparr>repository := g,
            git_calls := GitEvent arguments (case r of Inl _ \<Rightarrow> None | Inr x \<Rightarrow> Some x)
                           (disk w Status) # git_calls w\<rparr>))"

abbreviation git_text :: "'g git_env \<Rightarrow> string list \<Rightarrow> ('g observer_world, string) prog" where
  "git_text G arguments \<equiv> pbind (git G arguments [0]) (\<lambda>r. ret (g_output r))"

abbreviation note_rewrite :: "bool \<Rightarrow> ('g observer_world, unit) prog" where
  "note_rewrite b \<equiv> (\<lambda>w. (Inr (), w\<lparr>rewrite_seen := b\<rparr>))"

definition opt_text :: "string option \<Rightarrow> json" where
  "opt_text t = (case t of None \<Rightarrow> JNull | Some s \<Rightarrow> JStr s)"

text \<open>\<open>utc_timestamp()\<close> of the current time.\<close>

definition utc_now :: "store_env \<Rightarrow> ('a store_scheme, string) prog" where
  "utc_now E = pbind (tick E) (\<lambda>t. ret (e_utc E t))"

text \<open>The latch is written before origin/main is moved.\<close>

definition persist_rewrite ::
    "store_env \<Rightarrow> string \<Rightarrow> string \<Rightarrow> ('g observer_world, unit) prog" where
  "persist_rewrite E cached_before advertised =
     pbind (utc_now E) (\<lambda>attempted_at.
     pseq (write_state E ''review_required'' False
             ''origin/main history rewrite requires operator review'' None
             [(''schema'', JStr OBSERVATION_SCHEMA), (''observation_succeeded'', JBool False),
              (''attempted_at'', JStr attempted_at), (''history_rewrite_detected'', JBool True),
              (''history_rewrite_latched'', JBool True),
              (''cached_origin_head_before'', JStr cached_before), (''origin_head'', JStr advertised)]
             (Some []))
     (ret ()))"

text \<open>Fetch the advertised commit and check that it continues the cached history.\<close>

definition detect_rewrite ::
    "'g git_env \<Rightarrow> store_env \<Rightarrow> string option \<Rightarrow> string \<Rightarrow> ('g observer_world, bool) prog" where
  "detect_rewrite G E cached_before advertised =
     (case cached_before of
        None \<Rightarrow> ret False
      | Some before_head \<Rightarrow>
          pbind (git G [''merge-base'', ''--is-ancestor'', before_head, advertised] [0, 1]) (\<lambda>cached_ancestor.
          let detected = (g_returncode cached_ancestor = 1) in
          pseq (note_rewrite detected) (
          pseq (if detected then persist_rewrite E before_head advertised else ret ())
          (ret detected))))"

definition follow_origin ::
    "'g git_env \<Rightarrow> store_env \<Rightarrow> string \<Rightarrow> string option \<Rightarrow> string \<Rightarrow> ('g observer_world, bool) prog" where
  "follow_origin G E origin cached_before advertised =
     pseq (git G [''fetch'', ''--no-tags'', ''--no-write-fetch-head'', ''--no-recurse-submodules'',
             origin @ ''.git'', ''+refs/heads/main:'' @ CANDIDATE_REF] [0]) (
     pbind (git_text G [''rev-parse'', ''--verify'', CANDIDATE_REF]) (\<lambda>candidate_text.
     pbind (lift_res (commit_of candidate_text ''fetched candidate origin/main'')) (\<lambda>candidate.
     pseq (guard (candidate = advertised)
       (observation_error ''fetched candidate origin/main differs from the advertised commit'')) (
     pbind (detect_rewrite G E cached_before advertised) (\<lambda>detected.
     pseq (git G [''update-ref'', ''refs/remotes/origin/main'', advertised,
             (case cached_before of None \<Rightarrow> replicate 40 CHR ''0'' | Some c \<Rightarrow> c)] [0])
     (ret detected))))))"

text \<open>Origin, local head, cached head, advertised head, fetched, history rewrite detected.\<close>

record origin_state =
  og_origin :: string
  og_local :: string
  og_cached :: "string option"
  og_head :: string
  og_fetched :: bool
  og_rewritten :: bool

definition observe_origin :: "'g git_env \<Rightarrow> store_env \<Rightarrow> ('g observer_world, origin_state) prog" where
  "observe_origin G E =
     pbind (git_text G [''remote'', ''get-url'', ''origin'']) (\<lambda>url.
     pbind (lift_res (canonical_origin url)) (\<lambda>origin.
     pbind (git_text G [''rev-parse'', ''HEAD'']) (\<lambda>local_text.
     pbind (lift_res (commit_of local_text ''local HEAD'')) (\<lambda>local_head.
     pbind (git G [''rev-parse'', ''--verify'', ''refs/remotes/origin/main''] [0, 1, 128]) (\<lambda>cached_result.
     pbind (if g_returncode cached_result = 0
            then lift_res (map_sum id Some (commit_of (g_output cached_result) ''cached origin/main''))
            else ret None) (\<lambda>cached_before.
     pbind (git_text G [''ls-remote'', ''--exit-code'', origin @ ''.git'', ''refs/heads/main'']) (\<lambda>advertised_text.
     pbind (lift_res (advertised_commit advertised_text)) (\<lambda>advertised.
     pbind (if cached_before \<noteq> Some advertised
            then follow_origin G E origin cached_before advertised else ret False) (\<lambda>detected.
     pbind (git_text G [''rev-parse'', ''--verify'', ''refs/remotes/origin/main'']) (\<lambda>cached_text.
     pbind (lift_res (commit_of cached_text ''fetched origin/main'')) (\<lambda>cached.
     pseq (guard (cached = advertised)
       (observation_error ''fetched origin/main differs from the advertised commit''))
     (ret \<lparr>og_origin = origin, og_local = local_head, og_cached = cached_before,
           og_head = advertised, og_fetched = (cached_before \<noteq> Some advertised),
           og_rewritten = detected\<rparr>))))))))))))"

text \<open>How the advertised commit differs from the audited one.\<close>

record audit_diff =
  ad_ancestor :: bool
  ad_changed :: "string list"
  ad_truncated :: bool
  ad_commits :: int

definition compare_with_audit :: "'g git_env \<Rightarrow> string \<Rightarrow> ('g observer_world, audit_diff) prog" where
  "compare_with_audit G advertised =
     (if advertised = AUDITED_UPSTREAM_HEAD
      then ret \<lparr>ad_ancestor = True, ad_changed = [], ad_truncated = False, ad_commits = 0\<rparr>
      else
        pbind (git G [''merge-base'', ''--is-ancestor'', AUDITED_UPSTREAM_HEAD, advertised] [0, 1]) (\<lambda>ancestor_result.
        let ancestor = (g_returncode ancestor_result = 0) in
        pbind (git_text G [''diff'', ''--no-ext-diff'', ''--no-textconv'', ''--name-only'', ''-z'',
                 ''--diff-filter=ACDMRTUXB'', AUDITED_UPSTREAM_HEAD, advertised]) (\<lambda>diff.
        pbind (lift_res (changed_files diff)) (\<lambda>(changed, truncated).
        pbind (if ancestor
               then pbind (git_text G [''rev-list'', ''--count'', AUDITED_UPSTREAM_HEAD @ ''..'' @ advertised])
                 (\<lambda>raw_count.
                  case py_int (strip raw_count) of
                    None \<Rightarrow> throw (observation_error ''git returned an invalid upstream commit count'')
                  | Some n \<Rightarrow> ret n)
               else ret 0) (\<lambda>commit_count.
        ret \<lparr>ad_ancestor = ancestor, ad_changed = changed, ad_truncated = truncated,
             ad_commits = commit_count\<rparr>)))))"

text \<open>The three constants of the advertised release.\<close>

record release_constants =
  rc_release :: literal
  rc_mechanism :: literal
  rc_provenance :: literal

definition release_of :: "'g git_env \<Rightarrow> string \<Rightarrow> release_constants res" where
  "release_of G constants =
     rbind (static_constant (g_parse G) constants ''RELEASE_VERSION'' StrType) (\<lambda>release.
     rbind (static_constant (g_parse G) constants ''MECHANISM_VERSION'' StrType) (\<lambda>mechanism.
     rbind (static_constant (g_parse G) constants ''PROVENANCE_REQUIRED'' BoolType) (\<lambda>provenance_required.
     Inr \<lparr>rc_release = release, rc_mechanism = mechanism, rc_provenance = provenance_required\<rparr>)))"

fun literal_json :: "literal \<Rightarrow> json" where
  "literal_json (PyStr s) = JStr s"
| "literal_json (PyBool b) = JBool b"
| "literal_json OtherLiteral = JNull"

definition observation_payload ::
    "string \<Rightarrow> origin_state \<Rightarrow> audit_diff \<Rightarrow> release_constants \<Rightarrow> bool \<Rightarrow> rat \<Rightarrow> string \<Rightarrow> dict" where
  "observation_payload path og ad rc latched observed_at_epoch observed_at =
     (let origin_changed = (og_head og \<noteq> AUDITED_UPSTREAM_HEAD);
          miner = (latched \<or> origin_changed \<and>
                    (miner_impact (ad_changed ad) \<or> ad_truncated ad \<or> \<not> ad_ancestor ad)) in
      [(''schema'', JStr OBSERVATION_SCHEMA), (''observation_succeeded'', JBool True),
       (''origin_observed_at'', JFloat (Fin observed_at_epoch)), (''checked_at'', JStr observed_at),
       (''repository'', JStr path), (''origin'', JStr (og_origin og)),
       (''local_head'', JStr (og_local og)), (''cached_origin_head_before'', opt_text (og_cached og)),
       (''origin_head'', JStr (og_head og)), (''audited_origin_head'', JStr AUDITED_UPSTREAM_HEAD),
       (''fetched'', JBool (og_fetched og)),
       (''local_checkout_at_origin'', JBool (og_local og = og_head og)),
       (''release_version'', literal_json (rc_release rc)),
       (''mechanism_version'', literal_json (rc_mechanism rc)),
       (''provenance_required'', literal_json (rc_provenance rc)),
       (''history_rewrite_detected'', JBool (og_rewritten og)),
       (''history_rewrite_latched'', JBool latched),
       (''review_required'', JBool (origin_changed \<or> latched)),
       (''miner_impact_review_required'', JBool miner),
       (''audited_head_is_ancestor'', JBool (ad_ancestor ad)),
       (''commits_since_audit'', JInt (ad_commits ad)),
       (''changed_files'', JList (map JStr (ad_changed ad))),
       (''changed_files_truncated'', JBool (ad_truncated ad))])"

definition audited_constants :: "release_constants \<Rightarrow> bool" where
  "audited_constants rc \<longleftrightarrow>
     \<not> (rc_release rc \<noteq> PyStr AUDITED_UPSTREAM_RELEASE
        \<or> rc_mechanism rc \<noteq> PyStr AUDITED_UPSTREAM_MECHANISM
        \<or> rc_provenance rc \<noteq> PyBool False)"

definition observe :: "'g git_env \<Rightarrow> store_env \<Rightarrow> ('g observer_world, dict) prog" where
  "observe G E =
     pbind (read_world (\<lambda>w. prefix ''/'' (g_path G) \<and> g_is_dir G (repository w))) (\<lambda>available.
     pseq (guard available (observation_error (''upstream repository is unavailable: '' @ g_path G))) (
     pbind read_status (\<lambda>prior.
     let latched_before = (dget prior ''history_rewrite_latched'' = JBool True) in
     pseq (note_rewrite False) (
     pbind (observe_origin G E) (\<lambda>og.
     let latched = (latched_before \<or> og_rewritten og) in
     pbind (git_text G [''show'', og_head og @ '':microtensor/core/constants.py'']) (\<lambda>constants.
     pbind (lift_res (release_of G constants)) (\<lambda>rc.
     pbind (compare_with_audit G (og_head og)) (\<lambda>ad.
     pbind (tick E) (\<lambda>observed_at_epoch.
     pseq (guard (\<not> (og_head og = AUDITED_UPSTREAM_HEAD \<and> \<not> audited_constants rc))
       (observation_error ''audited upstream commit has unexpected release constants''))
     (ret (observation_payload (g_path G) og ad rc latched observed_at_epoch
             (e_utc E observed_at_epoch))))))))))))"

definition report_observation ::
    "store_env \<Rightarrow> dict \<Rightarrow> ('g observer_world, dict) prog" where
  "report_observation E payload =
     (if dget payload ''review_required'' = JBool True then
        write_state E ''review_required'' False
          (''origin/main '' @ py_str (dget payload ''origin_head'') @ '' requires compatibility review'')
          None payload None
      else
        write_state E ''current'' True
          (''origin/main remains at audited v'' @ py_str (dget payload ''release_version'') @ '' ''
            @ py_str (dget payload ''origin_head''))
          None payload None)"

definition poll_once :: "'g git_env \<Rightarrow> store_env \<Rightarrow> ('g observer_world, dict) prog" where
  "poll_once G E =
     pbind read_status (\<lambda>prior.
     let rewrite_latched = (dget prior ''history_rewrite_latched'' = JBool True) in
     catch (pbind (observe G E) (report_observation E)) (\<lambda>e.
       pbind (utc_now E) (\<lambda>attempted_at.
       pbind (read_world rewrite_seen) (\<lambda>seen.
       write_state E ''check_error'' False (take 1000 (exc_message e)) None
         [(''schema'', JStr OBSERVATION_SCHEMA), (''observation_succeeded'', JBool False),
          (''attempted_at'', JStr attempted_at),
          (''history_rewrite_latched'', JBool (rewrite_latched \<or> seen))]
         (Some [])))))"

text \<open>
  The process: polls until the stop event is set, which happens after \<open>stop_polls\<close> looks at
  it; the fuel bounds the number of looks.
\<close>

definition look_stop :: "('g observer_world, bool) prog" where
  "look_stop = (\<lambda>w.
     if stop_polls w = 0 then (Inr True, w)
     else (Inr False, w\<lparr>stop_polls := stop_polls w - 1\<rparr>))"

fun observer_loop :: "nat \<Rightarrow> 'g git_env \<Rightarrow> store_env \<Rightarrow> bool \<Rightarrow> ('g observer_world, int option) prog" where
  "observer_loop 0 G E once = ret None"
| "observer_loop (Suc n) G E once =
     pbind look_stop (\<lambda>stop.
     if stop then ret (Some 0)
     else
       pbind (poll_once G E) (\<lambda>payload.
       if once then ret (Some (if dget payload ''ok'' = JBool True then 0 else 2))
       else pbind look_stop (\<lambda>_. observer_loop n G E once)))"

definition observer_main :: "'g git_env \<Rightarrow> store_env \<Rightarrow> bool \<Rightarrow> ('g observer_world, int option) prog" where
  "observer_main G E once = (\<lambda>w. with_lock (observer_loop (Suc (stop_polls w)) G E once) w)"

end
