(* ===== verification/ObserverSafety.thy ===== *)
theory ObserverSafety
  imports UpstreamObserver
begin

text \<open>
  What the upstream observer's status is worth: paths and constants are read exactly, a
  history rewrite is latched before the reference moves and stays latched, and a status the
  gate accepts is one the observer wrote for the audited commit.
\<close>

section \<open>Paths and constants\<close>

lemma split_terminated:
  "concat (map (\<lambda>p. p @ [c]) (split_on c s)) = s @ [c]"
  by (induction s) (auto split: list.split)

lemma split_on_append:
  "c \<notin> set p \<Longrightarrow> split_on c (p @ c # s) = p # split_on c s"
  by (induction p) auto

lemma split_on_plain: "c \<notin> set p \<Longrightarrow> split_on c p = [p]"
  by (induction p) auto

lemma split_of_terminated:
  assumes "list_all (\<lambda>p. c \<notin> set p) ps" and "ps \<noteq> []"
  shows "split_on c (butlast (concat (map (\<lambda>p. p @ [c]) ps))) = ps"
  using assms
proof (induction ps)
  case (Cons p ps)
  show ?case
  proof (cases ps)
    case Nil
    with Cons.prems show ?thesis by (simp add: split_on_plain)
  next
    case (Cons q qs)
    then have "concat (map (\<lambda>p. p @ [c]) ps) \<noteq> []" by simp
    then have "butlast (concat (map (\<lambda>p. p @ [c]) (p # ps))) =
      p @ c # butlast (concat (map (\<lambda>p. p @ [c]) ps))" by (simp add: butlast_append)
    with Cons.IH Cons.prems Cons show ?thesis by (simp add: split_on_append)
  qed
qed simp

lemma safe_path_no_nul: "safe_relative_git_path p \<Longrightarrow> CHR 0x00 \<notin> set p"
  by (auto simp: safe_relative_git_path_def list_ex_iff code_def split: if_splits)

text \<open>Resolving components below a directory, kept as a stack of names.\<close>

fun resolve :: "string list \<Rightarrow> string list \<Rightarrow> string list" where
  "resolve stack [] = stack"
| "resolve stack (c # cs) =
     (if c = ''..'' then resolve (tl stack) cs
      else if c = [] \<or> c = ''.'' then resolve stack cs
      else resolve (c # stack) cs)"

lemma resolve_plain:
  "list_all (\<lambda>c. c \<notin> {[], ''.'', ''..''}) cs \<Longrightarrow> resolve stack cs = rev cs @ stack"
  by (induction cs arbitrary: stack) auto

lemma split_on_nonempty [simp]: "split_on c s \<noteq> []"
  by (cases s) (auto split: list.split)

text \<open>
  C34: the list of changed files is read exactly. A diff output is accepted just when it is the
  NUL-terminated list of some paths that are all safe; the list reported is the first 500 of
  them, flagged as truncated exactly when there are more; and no reported path is absolute or
  leaves the directory it is resolved in.
\<close>

theorem changed_files_exact:
  "(changed_files out = Inr (ps, truncated) \<longleftrightarrow>
     (\<exists>paths. out = concat (map (\<lambda>p. p @ [CHR 0x00]) paths) \<and> list_all safe_relative_git_path paths \<and>
        ps = take 500 paths \<and> (truncated \<longleftrightarrow> 500 < length paths))) \<and>
   (case changed_files out of
      Inl e \<Rightarrow> exc_cls e = ObservationError
    | Inr (reported, _) \<Rightarrow>
        list_all (\<lambda>p. \<not> prefix ''/'' p \<and>
          resolve stack (split_on CHR ''/'' p) = rev (split_on CHR ''/'' p) @ stack) reported)"
proof -
  have inside: "\<not> prefix ''/'' p \<and> resolve stack (split_on CHR ''/'' p) = rev (split_on CHR ''/'' p) @ stack"
    if "safe_relative_git_path p" for p
    using that resolve_plain by (auto simp: safe_relative_git_path_def split: if_splits)
  have iff: "changed_files out = Inr (ps, truncated) \<longleftrightarrow>
     (\<exists>paths. out = concat (map (\<lambda>p. p @ [CHR 0x00]) paths) \<and> list_all safe_relative_git_path paths \<and>
        ps = take 500 paths \<and> (truncated \<longleftrightarrow> 500 < length paths))" for ps truncated
  proof
    assume acc: "changed_files out = Inr (ps, truncated)"
    show "\<exists>paths. out = concat (map (\<lambda>p. p @ [CHR 0x00]) paths) \<and> list_all safe_relative_git_path paths \<and>
        ps = take 500 paths \<and> (truncated \<longleftrightarrow> 500 < length paths)"
    proof (cases "out = []")
      case True
      with acc show ?thesis by (intro exI [of _ "[]"]) (simp add: changed_files_def)
    next
      case False
      let ?paths = "split_on CHR 0x00 (butlast out)"
      from acc False have "suffix [CHR 0x00] out"
        and rest: "list_all safe_relative_git_path ?paths" "ps = take 500 ?paths"
          "truncated \<longleftrightarrow> 500 < length ?paths"
        by (auto simp: changed_files_def Let_def require_Inr_iff MAX_CHANGED_FILES_def list_ex_iff list_all_iff)
      then have "out = butlast out @ [CHR 0x00]" by (auto simp: suffix_def)
      with split_terminated [of "CHR 0x00" "butlast out"] rest show ?thesis by metis
    qed
  next
    assume "\<exists>paths. out = concat (map (\<lambda>p. p @ [CHR 0x00]) paths) \<and> list_all safe_relative_git_path paths \<and>
        ps = take 500 paths \<and> (truncated \<longleftrightarrow> 500 < length paths)"
    then obtain paths where out: "out = concat (map (\<lambda>p. p @ [CHR 0x00]) paths)"
      and safe: "list_all safe_relative_git_path paths"
      and res: "ps = take 500 paths" "truncated \<longleftrightarrow> 500 < length paths" by blast
    show "changed_files out = Inr (ps, truncated)"
    proof (cases "paths = []")
      case True
      with out res show ?thesis by (simp add: changed_files_def)
    next
      case False
      have "list_all (\<lambda>p. CHR 0x00 \<notin> set p) paths"
        using safe safe_path_no_nul by (auto simp: list_all_iff)
      from split_of_terminated [OF this False] out have split: "split_on CHR 0x00 (butlast out) = paths" by simp
      from False out have "suffix [CHR 0x00] out" "out \<noteq> []"
        by (cases paths rule: rev_cases; simp add: suffix_def)+
      with split safe res show ?thesis
        by (auto simp: changed_files_def Let_def require_Inr_iff MAX_CHANGED_FILES_def list_ex_iff list_all_iff)
    qed
  qed
  have "raises_only {ObservationError} (changed_files out)"
    unfolding changed_files_def observation_error_def Let_def by (auto intro!: raises_intros)
  moreover have "list_all safe_relative_git_path reported" if "changed_files out = Inr (reported, b)" for reported b
    using that by (auto simp: iff list_all_iff dest: in_set_takeD)
  ultimately show ?thesis
    using iff inside by (auto simp: raises_only_def list_all_iff split: sum.split prod.split)
qed

lemma literal_values_Inr:
  "literal_values name ty sts = Inr vs \<longleftrightarrow>
     List.map_filter (assigned name) sts = map Constant vs \<and> list_all (\<lambda>v. has_type v ty) vs"
proof (induction name ty sts arbitrary: vs rule: literal_values.induct)
  case (2 name ty st sts)
  then show ?case
    by (cases vs)
      (auto simp: List.map_filter_simps require_Inr_iff map_sum_Inr split: option.splits expression.splits)
qed (auto simp: List.map_filter_simps)

text \<open>
  A release constant is read only when it is unambiguous. The parsed module must bind the
  name exactly once at its top level, by a plain or annotated assignment to that name alone,
  to a literal of the expected type; the value returned is that literal.
\<close>

theorem static_constant_exact:
  "static_constant parse_module source name ty = Inr v \<longleftrightarrow>
     (\<exists>body. parse_module source = Inr (Some body) \<and> has_type v ty \<and>
        List.map_filter (assigned name) body = [Constant v])"
proof -
  have single: "(case vs of [x] \<Rightarrow> Inr x | _ \<Rightarrow> Inl e) = Inr v \<longleftrightarrow> vs = [v]" for vs e
    by (auto split: list.split)
  show ?thesis
    by (auto simp: static_constant_def rbind_Inr_iff literal_values_Inr case_option_res_iffs single)
qed

section \<open>The history-rewrite latch\<close>

abbreviation latch_key :: string where "latch_key \<equiv> ''history_rewrite_latched''"

text \<open>The status file records a history rewrite.\<close>

definition rewrite_latched :: "jfile \<Rightarrow> bool" where
  "rewrite_latched f \<longleftrightarrow> (\<exists>d. read_file f = Inr d \<and> dget d latch_key = JBool True)"

definition status_latched :: "'a store_scheme \<Rightarrow> bool" where
  "status_latched w \<longleftrightarrow> rewrite_latched (disk w Status)"

lemma latch_key_plain: "latch_key \<notin> set reserved" "\<not> sensitive_key latch_key"
  by (simp add: reserved_def) code_simp

lemma write_state_status:
  assumes "write_state E ph ok msg now det pre w = (r, w')"
  shows "disk w' Status = disk w Status \<or>
    (\<exists>t previous p. sanitize_items (e_lib E) (e_secrets E) (status_payload E t ph ok msg previous det) = Inr p \<and>
       disk w' Status = holds p)"
proof -
  have entry: "disk u' Status = disk u Status \<or> q = Status \<and> disk u' Status = f"
    if "change_entry q f u = (r, u')" for u u' :: "'a store_scheme" and q f r
    using that by (auto simp: change_entry_def split: list.splits write_outcome.splits if_splits)
  obtain t w1 where 1: "timestamp_of E now w = (Inr t, w1)" "disk w1 = disk w"
    using timestamp_same [of E now w] by (metis prod.exhaust)
  obtain rp where 2: "(case pre of None \<Rightarrow> read_status | Some d \<Rightarrow> ret d) w1 = (rp, w1)"
    by (cases pre) auto
  show ?thesis
  proof (cases rp)
    case (Inl e)
    with assms 1 2 show ?thesis by (simp add: write_state_def pbind_def)
  next
    case (Inr previous)
    note rp = this
    show ?thesis
    proof (cases "sanitize_items (e_lib E) (e_secrets E) (status_payload E t ph ok msg previous det)")
      case (Inl e)
      with assms 1 2 rp show ?thesis by (simp add: write_state_def pbind_def clean_def)
    next
      case (Inr p)
      obtain ra w2 where a: "atomic_json Status p w1 = (ra, w2)" by (cases "atomic_json Status p w1")
      obtain rb w3 where b: "atomic_json Health (health_of p) w2 = (rb, w3)"
        by (cases "atomic_json Health (health_of p) w2")
      have "w' = w2 \<or> w' = w3"
        using assms 1 2 rp Inr a b
        by (auto simp: write_state_def pbind_def clean_def split: sum.splits)
      with entry [OF a [unfolded atomic_json_def]] entry [OF b [unfolded atomic_json_def]] 1(2) Inr
      show ?thesis by auto
    qed
  qed
qed

lemma write_latched:
  assumes "map_of (rev det) latch_key = Some (JBool True)"
  shows "triple status_latched (write_state E ph ok msg now det pre)
    (\<lambda>_. status_latched) (\<lambda>_. status_latched)"
proof -
  have "status_latched w'" if w: "status_latched w" and run: "write_state E ph ok msg now det pre w = (r, w')"
    for w w' :: "'a store_scheme" and r
    using write_state_status [OF run]
  proof (elim disjE exE conjE)
    fix t previous p
    assume p: "sanitize_items (e_lib E) (e_secrets E) (status_payload E t ph ok msg previous det) = Inr p"
      and disk: "disk w' Status = holds p"
    have "map_of p latch_key = Some (JBool True)"
      by (rule sanitized_scalar [OF p]) (simp_all add: map_of_status_payload latch_key_plain assms)
    with disk show ?thesis by (simp add: status_latched_def rewrite_latched_def dget_def)
  qed (use w in \<open>simp add: status_latched_def\<close>)
  then show ?thesis by (intro tripleI)
qed

text \<open>Parts that leave the store's files alone.\<close>

definition same_files :: "'g observer_world \<Rightarrow> 'g observer_world \<Rightarrow> bool" where
  "same_files w w' \<longleftrightarrow> disk w' = disk w"

interpretation unwritten: effect_relation same_files
  by unfold_locales (auto simp: same_files_def)

lemma same_files_parts [stays_intros]:
  "stays same_files (git G arguments accepted)" "stays same_files (tick E)" "stays same_files (utc_now E)"
  "stays same_files (read_slot p)" "stays same_files (note_rewrite b)" "stays same_files look_stop"
  by (auto simp: stays_def same_files_def git_def tick_def utc_now_def look_stop_def pbind_def
      split: prod.splits)

lemma same_files_compare [stays_intros]: "stays same_files (compare_with_audit G advertised)"
  by (auto simp: compare_with_audit_def Let_def intro!: stays_intros)

lemma latched_frame:
  "stays same_files m \<Longrightarrow> triple status_latched m (\<lambda>_. status_latched) (\<lambda>_. status_latched)"
  by (erule triple_of_stays) (simp add: same_files_def status_latched_def)

lemmas latched_step = triple_pbind [OF latched_frame]

lemma latched_persist:
  "triple status_latched (persist_rewrite E cached advertised) (\<lambda>_. status_latched) (\<lambda>_. status_latched)"
  unfolding persist_rewrite_def
  by (rule latched_step, auto intro!: stays_intros triple_pbind [OF write_latched] triple_ret)

lemma latched_detect:
  "triple status_latched (detect_rewrite G E cached advertised) (\<lambda>_. status_latched) (\<lambda>_. status_latched)"
  unfolding detect_rewrite_def Let_def
  by (cases cached)
    (auto intro!: triple_ret latched_step stays_intros triple_pbind [OF triple_if [OF latched_persist]])

lemma latched_follow:
  "triple status_latched (follow_origin G E origin cached advertised) (\<lambda>_. status_latched) (\<lambda>_. status_latched)"
  unfolding follow_origin_def
  apply (rule latched_step, ((auto intro!: stays_intros)[1]; fail))+
  apply (rule triple_pbind [OF latched_detect])
  by (rule latched_step, auto intro!: stays_intros triple_ret)

lemma latched_origin:
  "triple status_latched (observe_origin G E) (\<lambda>_. status_latched) (\<lambda>_. status_latched)"
  unfolding observe_origin_def
  apply (rule latched_step, ((auto intro!: stays_intros)[1]; fail))+
  apply (rule triple_pbind [OF triple_if [OF latched_follow]], rule triple_ret, assumption)
  by (auto intro!: latched_frame stays_intros)

text \<open>A latch that was read stays in what is written.\<close>

lemma read_latched:
  "triple status_latched read_status
     (\<lambda>d w. status_latched w \<and> dget d latch_key = JBool True) (\<lambda>_. status_latched)"
  by (rule tripleI) (auto simp: status_latched_def rewrite_latched_def)

lemma payload_latched:
  "map_of (rev (observation_payload path og ad rc True t s)) latch_key = Some (JBool True)"
  by (simp add: observation_payload_def Let_def)

lemma latched_observe:
  "triple status_latched (observe G E)
     (\<lambda>p w. status_latched w \<and> map_of (rev p) latch_key = Some (JBool True)) (\<lambda>_. status_latched)"
proof -
  have last: "triple status_latched (ret (observation_payload path og ad rc (dget d latch_key = JBool True \<or> b) t s))
      (\<lambda>p w. status_latched w \<and> map_of (rev p) latch_key = Some (JBool True)) (\<lambda>_. status_latched)"
    if "dget d latch_key = JBool True" for path og ad rc d b t s
    using that by (auto intro!: triple_ret simp: payload_latched)
  show ?thesis
    unfolding observe_def Let_def
    apply (rule latched_step, (auto intro!: stays_intros)[1])
    apply (rule latched_step, (auto intro!: stays_intros)[1])
    apply (rule triple_pbind [OF read_latched])
    apply (rule triple_assume)
    apply (rule latched_step, ((auto intro!: stays_intros)[1]; fail))
    apply (rule triple_pbind [OF latched_origin])
    apply (rule latched_step, ((auto intro!: stays_intros)[1]; fail))+
    by (rule last)
qed

lemma latched_report:
  "triple (\<lambda>w. status_latched w \<and> map_of (rev p) latch_key = Some (JBool True)) (report_observation E p)
     (\<lambda>_. status_latched) (\<lambda>_. status_latched)"
  by (rule triple_assume) (auto simp: report_observation_def intro: write_latched)

lemma latched_poll:
  "triple status_latched (poll_once G E) (\<lambda>_. status_latched) (\<lambda>_. status_latched)"
  unfolding poll_once_def Let_def
  apply (rule triple_pbind [OF read_latched])
  apply (rule triple_assume)
  apply (rule triple_catch [OF triple_pbind [OF latched_observe latched_report]])
  apply (rule latched_step, ((auto intro!: stays_intros)[1]; fail))+
  by (rule write_latched) simp

lemma latched_loop:
  "triple status_latched (observer_loop n G E once) (\<lambda>_. status_latched) (\<lambda>_. status_latched)"
proof (induction n)
  case (Suc n)
  show ?case
    unfolding observer_loop.simps
    apply (rule latched_step, ((auto intro!: stays_intros)[1]; fail))
    apply (rule triple_if, rule triple_ret, assumption)
    apply (rule triple_pbind [OF latched_poll])
    apply (rule triple_if, rule triple_ret, assumption)
    apply (rule latched_step, ((auto intro!: stays_intros)[1]; fail))
    by (rule Suc.IH)
qed (simp only: observer_loop.simps, rule triple_ret)

text \<open>
  C33: a history rewrite stays recorded. Once the observer's status says that the history of
  origin/main was rewritten, it says so after every further run of the observer: over any
  number of polls, whatever git answers, whether polls succeed, fail or raise, and with any
  write faults.
\<close>

theorem rewrite_latch_permanent:
  assumes "rewrite_latched (disk w Status)" and "observer_main G E once w = (r, w')"
  shows "rewrite_latched (disk w' Status)"
proof -
  from assms(2) have "with_lock (observer_loop (Suc (stop_polls w)) G E once) w = (r, w')"
    by (simp add: observer_main_def)
  then show ?thesis
  proof (cases rule: with_lock_cases)
    case (held w1)
    have "status_latched (w\<lparr>lock := LockMine\<rparr>)" using assms(1) by (simp add: status_latched_def)
    with held(2) latched_loop [of "Suc (stop_polls w)" G E once] have "status_latched w1"
      by (cases r) (auto dest: tripleD)
    with held(3) show ?thesis by (simp add: status_latched_def)
  qed (use assms(1) in simp)
qed

section \<open>Latched before the reference moves\<close>

definition answered :: "string list \<Rightarrow> git_result \<Rightarrow> git_event \<Rightarrow> bool" where
  "answered arguments r e \<longleftrightarrow> ge_arguments e = arguments \<and> ge_answer e = Some r"

text \<open>The cached reference did not exist; the new head continues the old one.\<close>

definition cached_missing :: "git_event \<Rightarrow> bool" where
  "cached_missing e \<longleftrightarrow>
     (\<exists>r. answered [''rev-parse'', ''--verify'', ''refs/remotes/origin/main''] r e \<and> g_returncode r \<noteq> 0)"

definition fast_forward :: "string \<Rightarrow> string \<Rightarrow> git_event \<Rightarrow> bool" where
  "fast_forward old new e \<longleftrightarrow>
     (\<exists>r. answered [''merge-base'', ''--is-ancestor'', old, new] r e \<and> g_returncode r = 0)"

definition is_update :: "git_event \<Rightarrow> bool" where
  "is_update e \<longleftrightarrow> take 1 (ge_arguments e) = [''update-ref'']"

text \<open>
  What allows the reference to be moved from \<open>old\<close> to \<open>new\<close>, given the earlier commands.
\<close>

definition may_update :: "string option \<Rightarrow> string \<Rightarrow> jfile \<Rightarrow> git_event list \<Rightarrow> bool" where
  "may_update old new status es \<longleftrightarrow>
     rewrite_latched status \<or>
     (case old of None \<Rightarrow> list_ex cached_missing es | Some c \<Rightarrow> list_ex (fast_forward c new) es)"

definition justified :: "git_event \<Rightarrow> git_event list \<Rightarrow> bool" where
  "justified e es \<longleftrightarrow>
     (\<exists>old new. ge_arguments e = [''update-ref'', ''refs/remotes/origin/main'', new,
          (case old of None \<Rightarrow> replicate 40 CHR ''0'' | Some c \<Rightarrow> c)] \<and>
        may_update old new (ge_status e) es)"

fun safe_updates :: "git_event list \<Rightarrow> bool" where
  "safe_updates [] = True"
| "safe_updates (e # es) = ((is_update e \<longrightarrow> justified e es) \<and> safe_updates es)"

lemma safe_updates_quiet:
  "list_all (\<lambda>e. \<not> is_update e) es \<Longrightarrow> safe_updates (es @ fs) \<longleftrightarrow> safe_updates fs"
  by (induction es) auto

text \<open>Parts that move no reference.\<close>

definition moves_nothing :: "'g observer_world \<Rightarrow> 'g observer_world \<Rightarrow> bool" where
  "moves_nothing w w' \<longleftrightarrow> (\<exists>es. git_calls w' = es @ git_calls w \<and> list_all (\<lambda>e. \<not> is_update e) es)"

interpretation unmoved: effect_relation moves_nothing
proof unfold_locales
  fix u v w :: "'g observer_world"
  assume "moves_nothing u v" "moves_nothing v w"
  then show "moves_nothing u w"
    unfolding moves_nothing_def by (metis append.assoc list_all_append)
qed (simp add: moves_nothing_def)

lemma touches_observer:
  "touches S w (w' :: 'g observer_world) \<Longrightarrow> git_calls w' = git_calls w"
  by (cases w; cases w') (simp add: touches_def)

lemma moves_nothing_store:
  "stays (touches S) (m :: ('g observer_world, 'a) prog) \<Longrightarrow> stays moves_nothing m"
  by (erule stays_mono) (simp add: moves_nothing_def touches_observer)

lemma moves_nothing_parts [stays_intros]:
  "take 1 arguments \<noteq> [''update-ref''] \<Longrightarrow> stays moves_nothing (git G arguments accepted)"
  "stays moves_nothing (note_rewrite b)" "stays moves_nothing look_stop"
  "stays moves_nothing (tick E)" "stays moves_nothing (utc_now E)" "stays moves_nothing (read_slot p)"
  "stays moves_nothing (write_state E ph ok msg now det pre)"
  by (auto simp: stays_def moves_nothing_def git_def is_update_def look_stop_def split: prod.splits)[3]
    (rule moves_nothing_store [where S = UNIV]; auto simp: utc_now_def intro!: stays_intros)+

lemma moves_nothing_larger [stays_intros]:
  "stays moves_nothing (persist_rewrite E cached advertised)"
  "stays moves_nothing (detect_rewrite G E before_head advertised)"
  "stays moves_nothing (compare_with_audit G advertised)"
  "stays moves_nothing (report_observation E p)"
  by (auto simp: persist_rewrite_def detect_rewrite_def compare_with_audit_def
      report_observation_def Let_def intro!: stays_intros)

text \<open>What the commands since \<open>w0\<close> include.\<close>

definition polled :: "'g observer_world \<Rightarrow> (git_event \<Rightarrow> bool) list \<Rightarrow> 'g observer_world \<Rightarrow> bool" where
  "polled w0 Fs w \<longleftrightarrow>
     (\<exists>es. git_calls w = es @ git_calls w0 \<and> safe_updates es \<and> list_all (\<lambda>F. list_ex F es) Fs)"

definition movable :: "'g observer_world \<Rightarrow> string option \<Rightarrow> string \<Rightarrow> 'g observer_world \<Rightarrow> bool" where
  "movable w0 old new w \<longleftrightarrow>
     (\<exists>es. git_calls w = es @ git_calls w0 \<and> safe_updates es \<and> may_update old new (disk w Status) es)"

lemma polled_weaken: "polled w0 Fs w \<Longrightarrow> set Gs \<subseteq> set Fs \<Longrightarrow> polled w0 Gs w"
  by (force simp: polled_def list_all_iff)

lemma polled_frame: "polled w0 Fs w \<Longrightarrow> moves_nothing w w' \<Longrightarrow> polled w0 Fs w'"
  unfolding polled_def moves_nothing_def
  by (elim exE conjE, rule_tac x = "esa @ es" in exI)
    (simp add: safe_updates_quiet list_all_iff list_ex_iff, blast)

lemma polled_quiet:
  "stays moves_nothing m \<Longrightarrow> triple (polled w0 Fs) m (\<lambda>_. polled w0 Fs) (\<lambda>_. polled w0 [])"
  by (rule triple_conseq [OF triple_of_stays [where R = moves_nothing and P = "polled w0 Fs"]])
    (auto intro: polled_frame polled_weaken)

lemmas polled_step = triple_pbind [OF polled_quiet]

lemma polled_git:
  assumes "take 1 arguments \<noteq> [''update-ref'']"
  shows "triple (polled w0 Fs) (git G arguments accepted)
    (\<lambda>r. polled w0 (answered arguments r # Fs)) (\<lambda>_. polled w0 [])"
proof (rule tripleI)
  fix w r w'
  assume "polled w0 Fs w" and run: "git G arguments accepted w = (Inr r, w')"
  then obtain es where es: "git_calls w = es @ git_calls w0" "safe_updates es"
    "list_all (\<lambda>F. list_ex F es) Fs" unfolding polled_def by blast
  let ?e = "GitEvent arguments (Some r) (disk w Status)"
  from run es(1) have "git_calls w' = (?e # es) @ git_calls w0" by (auto simp: git_def split: prod.splits)
  moreover have "safe_updates (?e # es)" using es(2) assms by (simp add: is_update_def)
  moreover have "list_all (\<lambda>F. list_ex F (?e # es)) (answered arguments r # Fs)"
    using es(3) by (auto simp: answered_def list_all_iff)
  ultimately show "polled w0 (answered arguments r # Fs) w'" unfolding polled_def by blast
next
  fix w e w'
  assume w: "polled w0 Fs w" "git G arguments accepted w = (Inl e, w')"
  have "moves_nothing w w'"
    by (rule staysD [where m = "git G arguments accepted", OF _ w(2)]) (rule moves_nothing_parts(1) [OF assms])
  with w(1) show "polled w0 [] w'" by (auto intro: polled_frame polled_weaken)
qed

text \<open>With the contract of the runner, the references move only when they may.\<close>

locale observed_repository = git_runner "g_run G" for G :: "'g git_env"
begin

lemma git_code:
  "git G arguments accepted w = (Inr r, w') \<Longrightarrow> g_returncode r \<in> set accepted"
  by (auto simp: git_def split: prod.splits intro: accepted_code)

lemma coded_git:
  assumes "take 1 arguments \<noteq> [''update-ref'']"
  shows "triple (polled w0 Fs) (git G arguments accepted)
    (\<lambda>r w. polled w0 (answered arguments r # Fs) w \<and> g_returncode r \<in> set accepted) (\<lambda>_. polled w0 [])"
  by (rule tripleI)
    (auto dest: git_code tripleD(1) [OF polled_git [OF assms]] tripleD(2) [OF polled_git [OF assms]])

lemma persist_movable:
  "triple (polled w0 []) (persist_rewrite E old new) (\<lambda>_. movable w0 (Some old) new) (\<lambda>_. polled w0 [])"
proof -
  have wrote: "triple (polled w0 []) (write_state E ph ok msg now det pre)
      (\<lambda>_. movable w0 (Some old) new) (\<lambda>_. polled w0 [])"
    if det: "map_of (rev det) latch_key = Some (JBool True)" for ph ok msg now det pre
  proof (rule tripleI)
    fix w p w'
    assume w: "polled w0 [] w" and run: "write_state E ph ok msg now det pre w = (Inr p, w')"
    have "moves_nothing w w'"
      by (rule staysD [where m = "write_state E ph ok msg now det pre", OF _ run]) (auto intro!: stays_intros)
    with w have "polled w0 [] w'" by (rule polled_frame)
    moreover obtain t previous where
      p: "sanitize_items (e_lib E) (e_secrets E) (status_payload E t ph ok msg previous det) = Inr p"
      and disk: "disk w' = (disk w)(Status := holds p, Health := holds (health_of p))"
      using write_state_Inr [OF run] by blast
    have "map_of p latch_key = Some (JBool True)"
      by (rule sanitized_scalar [OF p]) (simp_all add: map_of_status_payload latch_key_plain det)
    with disk have "rewrite_latched (disk w' Status)" by (simp add: rewrite_latched_def dget_def)
    ultimately show "movable w0 (Some old) new w'"
      by (auto simp: polled_def movable_def may_update_def)
  next
    fix w e w'
    assume w: "polled w0 [] w" and run: "write_state E ph ok msg now det pre w = (Inl e, w')"
    have "moves_nothing w w'"
      by (rule staysD [where m = "write_state E ph ok msg now det pre", OF _ run]) (auto intro!: stays_intros)
    with w show "polled w0 [] w'" by (rule polled_frame)
  qed
  show ?thesis
    unfolding persist_rewrite_def
    by (rule polled_step, (auto intro!: stays_intros)[1], rule triple_pbind [OF wrote]) (auto intro!: triple_ret)
qed

lemma detect_movable:
  "triple (polled w0 (if old = None then [cached_missing] else [])) (detect_rewrite G E old new)
     (\<lambda>_. movable w0 old new) (\<lambda>_. polled w0 [])"
proof (cases old)
  case None
  then show ?thesis
    by (auto simp: detect_rewrite_def polled_def movable_def may_update_def intro!: triple_ret)
next
  case (Some c)
  let ?args = "[''merge-base'', ''--is-ancestor'', c, new]"
  have clean: "movable w0 (Some c) new w"
    if "polled w0 [answered ?args r] w" "g_returncode r = 0" for r w
  proof -
    from that(1) obtain es where "git_calls w = es @ git_calls w0" "safe_updates es"
      "list_ex (answered ?args r) es" by (auto simp: polled_def)
    moreover from this(3) that(2) have "list_ex (fast_forward c new) es"
      by (auto simp: list_ex_iff fast_forward_def)
    ultimately show ?thesis by (auto simp: movable_def may_update_def)
  qed
  have rest: "triple (\<lambda>w. polled w0 [answered ?args r] w \<and> g_returncode r \<in> set [0, 1])
      (pseq (note_rewrite (g_returncode r = 1)) (
       pseq (if g_returncode r = 1 then persist_rewrite E c new else ret ())
       (ret (g_returncode r = 1)))) (\<lambda>_. movable w0 (Some c) new) (\<lambda>_. polled w0 [])" for r
  proof (rule triple_assume)
    assume code: "g_returncode r \<in> set [0, 1]"
    have pick: "triple (polled w0 [answered ?args r])
        (if g_returncode r = 1 then persist_rewrite E c new else ret ())
        (\<lambda>_. movable w0 (Some c) new) (\<lambda>_. polled w0 [])"
      by (rule triple_if, rule triple_conseq [OF persist_movable])
        (use code clean in \<open>auto intro: polled_weaken intro!: triple_ret\<close>)
    show "triple (polled w0 [answered ?args r]) (pseq (note_rewrite (g_returncode r = 1)) (
       pseq (if g_returncode r = 1 then persist_rewrite E c new else ret ())
       (ret (g_returncode r = 1)))) (\<lambda>_. movable w0 (Some c) new) (\<lambda>_. polled w0 [])"
      by (rule polled_step [OF moves_nothing_parts(2) triple_pbind [OF pick]]) (rule triple_ret)
  qed
  have "take 1 ?args \<noteq> [''update-ref'']" by simp
  from triple_pbind [OF coded_git [OF this] rest] show ?thesis
    unfolding detect_rewrite_def Some Let_def by (simp add: Some)
qed

lemma update_safe:
  "triple (movable w0 old new)
     (git G [''update-ref'', ''refs/remotes/origin/main'', new,
        (case old of None \<Rightarrow> replicate 40 CHR ''0'' | Some c \<Rightarrow> c)] accepted)
     (\<lambda>_. polled w0 []) (\<lambda>_. polled w0 [])"
proof -
  let ?args = "[''update-ref'', ''refs/remotes/origin/main'', new,
        (case old of None \<Rightarrow> replicate 40 CHR ''0'' | Some c \<Rightarrow> c)]"
  have "polled w0 [] w'" if w: "movable w0 old new w" and run: "git G ?args accepted w = (r, w')" for w r w'
  proof -
    from w obtain es where es: "git_calls w = es @ git_calls w0" "safe_updates es"
      "may_update old new (disk w Status) es" unfolding movable_def by blast
    from run obtain a where "git_calls w' = (GitEvent ?args a (disk w Status) # es) @ git_calls w0"
      using es(1) by (auto simp: git_def split: prod.splits)
    moreover have "safe_updates (GitEvent ?args a (disk w Status) # es)"
      using es(2,3) by (auto simp: justified_def)
    ultimately show ?thesis unfolding polled_def by (intro exI [of _ "GitEvent ?args a (disk w Status) # es"]) simp
  qed
  then show ?thesis by (intro tripleI)
qed

lemma follow_safe:
  "triple (polled w0 (if old = None then [cached_missing] else [])) (follow_origin G E origin old new)
     (\<lambda>_. polled w0 []) (\<lambda>_. polled w0 [])"
  unfolding follow_origin_def
  apply (rule polled_step, (auto intro!: stays_intros)[1])
  apply (rule polled_step, (auto intro!: stays_intros)[1])
  apply (rule polled_step, (auto intro!: stays_intros)[1])
  apply (rule polled_step, (auto intro!: stays_intros)[1])
  apply (rule triple_pbind [OF detect_movable])
  by (rule triple_pbind [OF update_safe]) (rule triple_ret)

lemma cached_facts:
  assumes "\<And>cached. triple (polled w0 (if cached = None then [cached_missing] else [])) (k cached) Q (\<lambda>_. polled w0 [])"
  shows "triple (polled w0 [])
    (pbind (git G [''rev-parse'', ''--verify'', ''refs/remotes/origin/main''] [0, 1, 128]) (\<lambda>r.
     pbind (if g_returncode r = 0
            then lift_res (map_sum id Some (commit_of (g_output r) ''cached origin/main''))
            else ret None) k)) Q (\<lambda>_. polled w0 [])"
proof -
  let ?args = "[''rev-parse'', ''--verify'', ''refs/remotes/origin/main'']"
  have pick: "triple (polled w0 [answered ?args r])
     (if g_returncode r = 0
      then lift_res (map_sum id Some (commit_of (g_output r) ''cached origin/main'')) else ret None)
     (\<lambda>cached. polled w0 (if cached = None then [cached_missing] else [])) (\<lambda>_. polled w0 [])" for r
  proof (cases "g_returncode r = 0")
    case True
    then show ?thesis by (auto intro!: tripleI simp: map_sum_Inr intro: polled_weaken)
  next
    case False
    have "polled w0 [cached_missing] w" if "polled w0 [answered ?args r] w" for w
      using that False unfolding polled_def cached_missing_def by (auto simp: list_ex_iff)
    with False show ?thesis by (auto intro!: triple_ret)
  qed
  show ?thesis by (rule triple_pbind [OF polled_git triple_pbind [OF pick assms]]) simp
qed

lemma origin_safe:
  "triple (polled w0 []) (observe_origin G E) (\<lambda>_. polled w0 []) (\<lambda>_. polled w0 [])"
proof -
  have tail: "triple (polled w0 []) (m :: ('g observer_world, origin_state) prog) (\<lambda>_. polled w0 []) (\<lambda>_. polled w0 [])"
    if "stays moves_nothing m" for m by (rule polled_quiet [OF that])
  have pick: "triple (polled w0 (if old = None then [cached_missing] else []))
      (if b then follow_origin G E origin old new else ret False) (\<lambda>_. polled w0 []) (\<lambda>_. polled w0 [])"
    for b origin old new
    by (intro triple_if follow_safe triple_ret) (auto intro: polled_weaken)
  show ?thesis
    unfolding observe_origin_def
    apply (rule polled_step, (auto intro!: stays_intros)[1])
    apply (rule polled_step, (auto intro!: stays_intros)[1])
    apply (rule polled_step, (auto intro!: stays_intros)[1])
    apply (rule polled_step, (auto intro!: stays_intros)[1])
    apply (rule cached_facts)
    apply (rule polled_step, (auto intro!: stays_intros)[1])
    apply (rule polled_step, (auto intro!: stays_intros)[1])
    apply (rule triple_pbind [OF pick])
    by (rule tail) (auto intro!: stays_intros)
qed

lemma poll_safe:
  "triple (polled w0 []) (poll_once G E) (\<lambda>_. polled w0 []) (\<lambda>_. polled w0 [])"
proof -
  have quiet: "triple (polled w0 []) (m :: ('g observer_world, dict) prog) (\<lambda>_. polled w0 []) (\<lambda>_. polled w0 [])"
    if "stays moves_nothing m" for m by (rule polled_quiet [OF that])
  have observed: "triple (polled w0 []) (observe G E) (\<lambda>_. polled w0 []) (\<lambda>_. polled w0 [])"
    unfolding observe_def Let_def
    apply (rule polled_step, (auto intro!: stays_intros)[1])
    apply (rule polled_step, (auto intro!: stays_intros)[1])
    apply (rule polled_step, (auto intro!: stays_intros)[1])
    apply (rule polled_step, (auto intro!: stays_intros)[1])
    apply (rule triple_pbind [OF origin_safe])
    by (rule quiet) (auto intro!: stays_intros)
  show ?thesis
    unfolding poll_once_def Let_def
    apply (rule polled_step, (auto intro!: stays_intros)[1])
    apply (rule triple_catch [OF triple_pbind [OF observed quiet]], (auto intro!: stays_intros)[1])
    by (rule quiet) (auto intro!: stays_intros)
qed

end

interpretation real_repository: observed_repository "G\<lparr>g_run := run_git decode spawn\<rparr>"
  for G :: "'g git_env" and decode spawn
  by unfold_locales (simp add: real_git.accepted_code)

text \<open>
  C32: the reference moves only when that loses no evidence. In a poll over the real git
  runner, whatever the commands answer, every update-ref is for origin/main and comes after
  one of these: git confirmed in this poll that the new head continues the cached one; there
  was no cached one, and the update expects none; or the history rewrite is already latched in
  the status file.
\<close>

theorem rewrite_latched_before_update:
  assumes "poll_once (G\<lparr>g_run := run_git decode spawn\<rparr>) E w = (r, w')"
  shows "\<exists>es. git_calls w' = es @ git_calls w \<and> safe_updates es"
proof -
  have "polled w [] w" by (simp add: polled_def)
  with real_repository.poll_safe [where ?w0.0 = w and E = E] assms have "polled w [] w'"
    by (cases r) (auto dest: tripleD)
  then show ?thesis by (auto simp: polled_def)
qed

end
