(* ===== verification/ObserverGate.thy ===== *)
theory ObserverGate
  imports ObserverSafety
begin

text \<open>
  The observer and the gate together: a status the observer calls current is one the gate
  accepts, up to the age of the status and the local checkout, and it is evidence of an
  observation made in that poll.
\<close>

section \<open>What a completed observation says\<close>

lemma compare_unchanged:
  "compare_with_audit G AUDITED_UPSTREAM_HEAD =
     ret \<lparr>ad_ancestor = True, ad_changed = [], ad_truncated = False, ad_commits = 0\<rparr>"
  by (simp add: compare_with_audit_def)

lemma canonical_origin_Inr: "canonical_origin v = Inr u \<Longrightarrow> u = EXPECTED_UPSTREAM_ORIGIN"
  by (auto simp: canonical_origin_def Let_def require_Inr_iff)

lemma observe_origin_Inr:
  assumes "observe_origin G E w = (Inr og, w')"
  shows "og_origin og = EXPECTED_UPSTREAM_ORIGIN"
  using assms unfolding observe_origin_def
  by (elim pbind_InrD) (simp, drule canonical_origin_Inr, clarsimp)

lemma observe_Inr:
  assumes "observe G E w = (Inr p, w')"
  shows "\<exists>og ad rc latched t.
    p = observation_payload (g_path G) og ad rc latched t (e_utc E t) \<and>
    og_origin og = EXPECTED_UPSTREAM_ORIGIN \<and>
    (og_rewritten og \<or> rewrite_latched (disk w Status) \<longrightarrow> latched) \<and>
    (og_head og = AUDITED_UPSTREAM_HEAD \<longrightarrow>
       audited_constants rc \<and>
       ad = \<lparr>ad_ancestor = True, ad_changed = [], ad_truncated = False, ad_commits = 0\<rparr>)"
  using assms unfolding observe_def
proof (elim pbind_InrD, goal_cases)
  case (1 av w1 u w2 prior w3)
  then show ?case
    unfolding Let_def
    apply (elim pbind_InrD)
    subgoal for u4 w4 og w5 c0 w6 r0 w7 rc w8 ad w9 t w10
      apply (rule exI [of _ og], rule exI [of _ ad], rule exI [of _ rc],
          rule exI [of _ "dget prior latch_key = JBool True \<or> og_rewritten og"], rule exI [of _ t])
      apply (auto simp: observe_origin_Inr compare_unchanged rewrite_latched_def guard_def split: if_splits)
      done
    done
qed

section \<open>Evidence in the commands of the poll\<close>

definition extends :: "'g observer_world \<Rightarrow> 'g observer_world \<Rightarrow> bool" where
  "extends w w' \<longleftrightarrow> suffix (git_calls w) (git_calls w')"

interpretation extending: effect_relation extends
  by unfold_locales (auto simp: extends_def intro: suffix_order.trans)

lemma extends_store:
  "stays (touches S) (m :: ('g observer_world, 'a) prog) \<Longrightarrow> stays extends m"
  by (erule stays_mono) (simp add: extends_def touches_observer)

lemma extends_parts [stays_intros]:
  "stays extends (git G arguments accepted)" "stays extends (note_rewrite b)"
  "stays extends (tick E)" "stays extends (utc_now E)" "stays extends (read_slot p)"
  "stays extends (write_state E ph ok msg now det pre)"
  by (auto simp: stays_def extends_def git_def suffix_def split: prod.splits)[2]
    (rule extends_store [where S = UNIV]; auto simp: utc_now_def intro!: stays_intros)+

lemma extends_larger [stays_intros]:
  "stays extends (persist_rewrite E cached advertised)" "stays extends (detect_rewrite G E old new)"
  "stays extends (compare_with_audit G advertised)" "stays extends (report_observation E p)"
  by (auto simp: persist_rewrite_def detect_rewrite_def compare_with_audit_def
      report_observation_def Let_def intro!: stays_intros)

lemma extends_follow [stays_intros]: "stays extends (follow_origin G E origin old new)"
  by (auto simp: follow_origin_def intro!: stays_intros)

definition seen :: "'g observer_world \<Rightarrow> (git_event \<Rightarrow> bool) list \<Rightarrow> 'g observer_world \<Rightarrow> bool" where
  "seen w0 Fs w \<longleftrightarrow>
     (\<exists>es. git_calls w = es @ git_calls w0 \<and> list_all (\<lambda>F. list_ex F es) Fs)"

lemma seen_frame: "seen w0 Fs w \<Longrightarrow> extends w w' \<Longrightarrow> seen w0 Fs w'"
  unfolding seen_def extends_def suffix_def
  by (elim exE conjE, rule_tac x = "zs @ es" in exI) (auto simp: list_all_iff list_ex_iff)

lemma seen_step:
  assumes "stays extends m" and "\<And>x. triple (seen w0 Fs) (k x) Q (\<lambda>_ _. True)"
  shows "triple (seen w0 Fs) (pbind m k) Q (\<lambda>_ _. True)"
  by (rule triple_pbind [where M = "\<lambda>_. seen w0 Fs", OF _ assms(2)])
    (rule triple_conseq [OF triple_of_stays [OF assms(1), of "seen w0 Fs"]], auto intro: seen_frame)

lemma seen_git:
  "triple (seen w0 Fs) (git G arguments accepted) (\<lambda>r. seen w0 (answered arguments r # Fs)) (\<lambda>_ _. True)"
proof (rule tripleI)
  fix w r w'
  assume "seen w0 Fs w" and run: "git G arguments accepted w = (Inr r, w')"
  then obtain es where es: "git_calls w = es @ git_calls w0" "list_all (\<lambda>F. list_ex F es) Fs"
    unfolding seen_def by blast
  from run es(1) have "git_calls w' = (GitEvent arguments (Some r) (disk w Status) # es) @ git_calls w0"
    by (auto simp: git_def split: prod.splits)
  moreover have "list_all (\<lambda>F. list_ex F (GitEvent arguments (Some r) (disk w Status) # es))
      (answered arguments r # Fs)" using es(2) by (auto simp: answered_def list_all_iff)
  ultimately show "seen w0 (answered arguments r # Fs) w'" unfolding seen_def by blast
qed simp

lemma triple_lift:
  "(\<And>x. r = Inr x \<Longrightarrow> triple P (k x) Q X) \<Longrightarrow> (\<And>e w. P w \<Longrightarrow> X e w) \<Longrightarrow> triple P (pbind (lift_res r) k) Q X"
  by (cases r) (auto simp: triple_def pbind_def)

lemma seen_weaken:
  "seen w0 (F # Fs) w \<Longrightarrow> (\<And>e. F e \<Longrightarrow> G e) \<Longrightarrow> seen w0 (G # Fs) w"
  by (auto simp: seen_def list_ex_iff)

text \<open>The text a command printed was read as the commit \<open>c\<close>.\<close>

definition printed :: "string list \<Rightarrow> (string \<Rightarrow> string res) \<Rightarrow> string \<Rightarrow> git_event \<Rightarrow> bool" where
  "printed arguments read_commit c e \<longleftrightarrow>
     (\<exists>r. answered arguments r e \<and> read_commit (g_output r) = Inr c)"

lemma seen_text:
  assumes "\<And>c. triple (seen w0 (printed arguments f c # Fs)) (k c) Q (\<lambda>_ _. True)"
  shows "triple (seen w0 Fs) (pbind (git_text G arguments) (\<lambda>t. pbind (lift_res (f t)) k)) Q (\<lambda>_ _. True)"
proof -
  have "triple (seen w0 (answered arguments r # Fs)) (pbind (lift_res (f (g_output r))) k) Q (\<lambda>_ _. True)" for r
    by (rule triple_lift, rule triple_conseq [OF assms], erule seen_weaken)
      (auto simp: printed_def)
  then have "triple (seen w0 Fs) (pbind (git G arguments [0]) (\<lambda>r. pbind (lift_res (f (g_output r))) k)) Q (\<lambda>_ _. True)"
    by (rule triple_pbind [OF seen_git])
  moreover have "pbind (git_text G arguments) (\<lambda>t. pbind (lift_res (f t)) k) =
      pbind (git G arguments [0]) (\<lambda>r. pbind (lift_res (f (g_output r))) k)"
    by (auto simp: pbind_def fun_eq_iff split: prod.split sum.split)
  ultimately show ?thesis by simp
qed

text \<open>The commands behind an observed origin: what was advertised, the local head, and the reread reference.\<close>

definition origin_evidence :: "origin_state \<Rightarrow> (git_event \<Rightarrow> bool) list" where
  "origin_evidence og =
     [printed [''rev-parse'', ''--verify'', ''refs/remotes/origin/main'']
        (\<lambda>t. commit_of t ''fetched origin/main'') (og_head og),
      printed [''ls-remote'', ''--exit-code'', og_origin og @ ''.git'', ''refs/heads/main''] advertised_commit (og_head og),
      printed [''rev-parse'', ''HEAD''] (\<lambda>t. commit_of t ''local HEAD'') (og_local og)]"

lemma observe_origin_evidence:
  "triple (seen w0 []) (observe_origin G E) (\<lambda>og. seen w0 (origin_evidence og)) (\<lambda>_ _. True)"
  unfolding observe_origin_def
  apply (rule seen_step, (auto intro!: stays_intros)[1])
  apply (rule seen_step, (auto intro!: stays_intros)[1])
  apply (rule seen_text)
  apply (rule seen_step, (auto intro!: stays_intros)[1])
  apply (rule seen_step, (auto intro!: stays_intros)[1])
  apply (rule seen_text)
  apply (rule seen_step, (auto intro!: stays_intros)[1])
  apply (rule seen_text)
  apply (auto simp: triple_def pbind_def guard_def origin_evidence_def)
  done

lemma observe_evidence:
  assumes "observe G E w = (Inr p, w')"
  shows "\<exists>og ad rc latched t.
    p = observation_payload (g_path G) og ad rc latched t (e_utc E t) \<and> seen w (origin_evidence og) w'"
proof -
  define F where "F = (\<lambda>p w'. \<exists>og ad rc latched t.
    p = observation_payload (g_path G) og ad rc latched t (e_utc E t) \<and> seen w (origin_evidence og) w')"
  have last: "triple (seen w (origin_evidence og)) (ret (observation_payload (g_path G) og ad rc latched t (e_utc E t)))
      F (\<lambda>_ _. True)" for og ad rc latched t
    unfolding F_def by (rule triple_ret) blast
  have "triple (seen w []) (observe G E) F (\<lambda>_ _. True)"
    unfolding observe_def Let_def
    apply (rule seen_step, (auto intro!: stays_intros)[1])
    apply (rule seen_step, (auto intro!: stays_intros)[1])
    apply (rule seen_step, (auto intro!: stays_intros)[1])
    apply (rule seen_step, (auto intro!: stays_intros)[1])
    apply (rule triple_pbind [OF observe_origin_evidence])
    apply (rule seen_step, (auto intro!: stays_intros)[1])+
    by (rule last)
  moreover have "seen w [] w" by (simp add: seen_def)
  ultimately have "F p w'" using assms by (rule tripleD(1))
  then show ?thesis by (simp add: F_def)
qed

section \<open>A status that says current\<close>

lemma written_ok:
  assumes "write_state E ph ok msg now det pre w = (Inr p, w')"
  shows "dget p ''ok'' = JBool ok"
proof -
  obtain t previous where p: "sanitize_items (e_lib E) (e_secrets E)
      (status_payload E t ph ok msg previous det) = Inr p"
    using write_state_Inr [OF assms] by blast
  have "map_of p ''ok'' = Some (JBool ok)"
    by (rule sanitized_scalar [OF p])
      (simp_all add: map_of_status_payload reserved_def reserved_keys_plain status_head_def)
  then show ?thesis by (simp add: dget_def)
qed

lemma poll_current:
  assumes "poll_once G E w = (Inr p, w')" and "dget p ''ok'' = JBool True"
  shows "\<exists>payload w1 msg t previous.
    observe G E w = (Inr payload, w1) \<and> dget payload ''review_required'' \<noteq> JBool True \<and>
    sanitize_items (e_lib E) (e_secrets E) (status_payload E t ''current'' True msg previous payload) = Inr p \<and>
    disk w' Status = holds p \<and> extends w1 w'"
proof -
  obtain ro w1 where obs: "observe G E w = (ro, w1)" by (cases "observe G E w")
  from assms(1) obtain prior where body:
    "catch (pbind (observe G E) (report_observation E)) (\<lambda>e.
       pbind (utc_now E) (\<lambda>attempted_at.
       pbind (read_world rewrite_seen) (\<lambda>seen.
       write_state E ''check_error'' False (take 1000 (exc_message e)) None
         [(''schema'', JStr OBSERVATION_SCHEMA), (''observation_succeeded'', JBool False),
          (''attempted_at'', JStr attempted_at),
          (''history_rewrite_latched'', JBool (dget prior latch_key = JBool True \<or> seen))]
         (Some [])))) w = (Inr p, w')"
    unfolding poll_once_def Let_def by (elim pbind_InrD) simp
  show ?thesis
  proof (cases "\<exists>payload. ro = Inr payload \<and> report_observation E payload w1 = (Inr p, w')")
    case True
    then obtain payload where ro: "ro = Inr payload" and rep: "report_observation E payload w1 = (Inr p, w')"
      by blast
    have review: "dget payload ''review_required'' \<noteq> JBool True"
    proof
      assume "dget payload ''review_required'' = JBool True"
      with rep obtain msg where
        "write_state E ''review_required'' False msg None payload None w1 = (Inr p, w')"
        by (auto simp: report_observation_def)
      then have "dget p ''ok'' = JBool False" by (rule written_ok)
      with assms(2) show False by simp
    qed
    with rep obtain msg where wr: "write_state E ''current'' True msg None payload None w1 = (Inr p, w')"
      by (auto simp: report_observation_def)
    have "extends w1 w'"
      by (rule staysD [where m = "report_observation E payload", OF _ rep]) (auto intro!: stays_intros)
    with write_state_Inr [OF wr] obs ro review show ?thesis by auto
  next
    case False
    with body obs have "dget p ''ok'' = JBool False"
      by (auto simp: catch_def pbind_def utc_now_def tick_def split: prod.splits sum.splits dest: written_ok)
    with assms(2) show ?thesis by simp
  qed
qed

lemma map_of_payload:
  "map_of (rev (observation_payload path og ad rc latched t s)) k =
   map_of (observation_payload path og ad rc latched t s) k"
  by (subst map_of_rev_distinct) (simp_all add: observation_payload_def Let_def)

lemmas case_mapping = py_upper_def upper_char_def is_lower_def py_lower_def lower_char_def is_upper_def
  code_def char_of_def

lemma gate_keys_plain:
  "list_all (\<lambda>k. \<not> sensitive_key k)
     [''schema'', ''schema_version'', ''observation_succeeded'', ''phase'', ''ok'', ''origin'', ''origin_head'']"
  "list_all (\<lambda>k. \<not> sensitive_key k)
     [''audited_origin_head'', ''release_version'', ''mechanism_version'', ''provenance_required'',
      ''local_checkout_at_origin'', ''changed_files'']"
  "list_all (\<lambda>k. \<not> sensitive_key k)
     [''audited_head_is_ancestor'', ''review_required'', ''miner_impact_review_required'',
      ''history_rewrite_detected'', ''history_rewrite_latched'', ''changed_files_truncated'',
      ''commits_since_audit'']"
    apply (simp add: sensitive_key_def occurs_def case_mapping)
   apply (simp add: sensitive_key_def occurs_def case_mapping)
  apply (simp add: sensitive_key_def occurs_def case_mapping)
  done

lemma gate_fields_plain: "list_all (\<lambda>(k, v). \<not> sensitive_key k \<and> py_lower k \<noteq> ''source'') exact_fields"
proof -
  have "list_all (\<lambda>(k, v). py_lower k \<noteq> ''source'') exact_fields"
    by (simp add: exact_fields_def case_mapping)
  then show ?thesis using gate_keys_plain by (simp add: exact_fields_def)
qed

text \<open>Texts without the characters a pattern needs stay as they are.\<close>

lemma resub_unmatched:
  "(\<And>q t. suffix t s \<Longrightarrow> m q t = None) \<Longrightarrow> resub m 0 prev s = s"
proof (induction s arbitrary: prev)
  case (Cons c s)
  have "resub m 0 (Some c) s = s" by (rule Cons.IH) (rule Cons.prems, rule suffix_ConsI)
  moreover have "m prev (c # s) = None" by (rule Cons.prems) simp
  ultimately show ?case by simp
qed simp

lemma bearer_needs_space: "\<forall>c \<in> set t. \<not> is_space c \<Longrightarrow> match_bearer q t = None"
proof -
  assume "\<forall>c \<in> set t. \<not> is_space c"
  then have "\<forall>c \<in> set (drop 6 t). \<not> is_space c" by (auto dest: in_set_dropD)
  then have "takeWhile is_space (drop 6 t) = []" by (cases "drop 6 t") auto
  then show ?thesis by (simp add: match_bearer_def Let_def)
qed

lemma assignment_needs_sign:
  "CHR '':'' \<notin> set t \<Longrightarrow> CHR ''='' \<notin> set t \<Longrightarrow> match_assignment q t = None"
  by (auto simp: match_assignment_def Let_def split: option.split list.split)
    (metis in_set_dropD list.set_intros(1))+

lemma drop_Cons_set: "drop n s = x # xs \<Longrightarrow> x \<in> set s \<and> set xs \<subseteq> set s"
  by (metis list.set_intros(1) set_drop_subset set_subset_Cons subset_iff)

lemma url_creds_need_at:
  assumes "CHR ''@'' \<notin> set t"
  shows "match_url_creds q t = None"
proof -
  have no: False if "drop n t = c # rest'" "drop e rest' = CHR ''@'' # more" for n c e rest' more
    using drop_Cons_set [OF that(1)] drop_Cons_set [OF that(2)] assms by blast
  show ?thesis
    unfolding match_url_creds_def Let_def by (auto split: option.split list.split dest: no)
qed

lemma redact_plain:
  assumes "\<forall>c \<in> set t. \<not> is_space c" and "CHR ''@'' \<notin> set t"
    and "resub match_assignment 0 None t = t"
  shows "redact_text t [] = t"
proof -
  have "resub match_bearer 0 None t = t" "resub match_url_creds 0 None t = t"
    by (rule resub_unmatched, rule bearer_needs_space url_creds_need_at,
        use assms(1,2) in \<open>blast dest: set_mono_suffix\<close>)+
  with assms(3) show ?thesis by (simp add: redact_text_def drop_secrets_def longest_first_def)
qed

lemma redact_unsigned:
  "\<forall>c \<in> set t. \<not> is_space c \<and> c \<notin> {CHR ''@'', CHR '':'', CHR ''=''} \<Longrightarrow> redact_text t [] = t"
proof (rule redact_plain)
  assume t: "\<forall>c \<in> set t. \<not> is_space c \<and> c \<notin> {CHR ''@'', CHR '':'', CHR ''=''}"
  show "resub match_assignment 0 None t = t"
    by (rule resub_unmatched, rule assignment_needs_sign) (use t in \<open>blast dest: set_mono_suffix\<close>)+
qed blast+

lemma assignment_needs_keyword:
  assumes "list_all (\<lambda>k. \<not> occurs k (py_lower s)) assignment_keywords" and "suffix t s"
  shows "match_assignment q t = None"
proof -
  have "\<not> prefix_ci k t" if "k \<in> set assignment_keywords" for k
  proof
    assume "prefix_ci k t"
    then have "prefix k (py_lower t)"
      unfolding prefix_ci_def py_lower_def by (metis take_is_prefix take_map)
    moreover from assms(2) have "suffix (py_lower t) (py_lower s)"
      by (auto simp: suffix_def py_lower_def)
    ultimately have "occurs k (py_lower s)" by (auto simp: occurs_def list_ex_iff)
    with assms(1) that show False by (simp add: list_all_iff)
  qed
  then have "find (\<lambda>k. prefix_ci k t) assignment_keywords = None" by (auto simp: find_None_iff)
  then show ?thesis by (simp add: match_assignment_def)
qed

lemma gate_texts_clean:
  "list_all (\<lambda>(k, v). case v of JStr s \<Rightarrow> redact_text s [] = s | _ \<Rightarrow> True) exact_fields"
proof -
  have "list_all (\<lambda>k. \<not> occurs k (py_lower EXPECTED_ORIGIN)) assignment_keywords"
    by (simp add: assignment_keywords_def EXPECTED_ORIGIN_def occurs_def case_mapping)
  then have "resub match_assignment 0 None EXPECTED_ORIGIN = EXPECTED_ORIGIN"
    by (intro resub_unmatched assignment_needs_keyword)
  then have "redact_text EXPECTED_ORIGIN [] = EXPECTED_ORIGIN"
    by (rule redact_plain [rotated 2]) (simp_all add: EXPECTED_ORIGIN_def is_space_def code_def)
  moreover have "redact_text t [] = t"
    if "t \<in> {OBSERVER_SCHEMA, ''current'', AUDITED_ORIGIN_HEAD, AUDITED_RELEASE_VERSION, AUDITED_MECHANISM_VERSION}" for t
    using that
    by (intro redact_unsigned)
      (auto simp: OBSERVER_SCHEMA_def AUDITED_ORIGIN_HEAD_def AUDITED_RELEASE_VERSION_def
        AUDITED_MECHANISM_VERSION_def is_space_def code_def)
  ultimately show ?thesis by (simp add: exact_fields_def)
qed

section \<open>Observer and gate\<close>

lemma sanitized_exact:
  assumes p: "sanitize_items lib [] d = Inr e" and f: "(k, v) \<in> set exact_fields"
    and d: "map_of d k = Some v"
  shows "map_of e k = Some v"
proof -
  have "\<not> sensitive_key k" "py_lower k \<noteq> ''source''"
    using gate_fields_plain f by (auto simp: list_all_iff)
  moreover have "case v of JStr s \<Rightarrow> redact_text s [] = s | _ \<Rightarrow> True"
    using gate_texts_clean f by (auto simp: list_all_iff)
  moreover have "plain_scalar v \<or> (\<exists>s. v = JStr s)" using f by (auto simp: exact_fields_def)
  ultimately have "sanitize lib [] k v = Inr v"
    by (auto intro: sanitize_scalar sanitize_text)
  with sanitize_items_map_of(3) [OF p d] show ?thesis by auto
qed

lemma same_constants:
  "OBSERVATION_SCHEMA = OBSERVER_SCHEMA" "AUDITED_UPSTREAM_HEAD = AUDITED_ORIGIN_HEAD"
  "EXPECTED_UPSTREAM_ORIGIN = EXPECTED_ORIGIN" "AUDITED_UPSTREAM_RELEASE = AUDITED_RELEASE_VERSION"
  "AUDITED_UPSTREAM_MECHANISM = AUDITED_MECHANISM_VERSION"
  by (simp_all add: OBSERVATION_SCHEMA_def OBSERVER_SCHEMA_def AUDITED_UPSTREAM_HEAD_def
      AUDITED_ORIGIN_HEAD_def EXPECTED_UPSTREAM_ORIGIN_def EXPECTED_ORIGIN_def
      AUDITED_UPSTREAM_RELEASE_def AUDITED_RELEASE_VERSION_def AUDITED_UPSTREAM_MECHANISM_def
      AUDITED_MECHANISM_VERSION_def)

text \<open>The payload of an unchanged origin holds every field the gate compares.\<close>

definition payload_fields :: dict where
  "payload_fields = filter (\<lambda>(k, v). k \<notin> set reserved \<and> k \<noteq> ''local_checkout_at_origin'') exact_fields"

lemma payload_exact:
  assumes "og_origin og = EXPECTED_UPSTREAM_ORIGIN" and "og_head og = AUDITED_UPSTREAM_HEAD"
    and "\<not> og_rewritten og" and "audited_constants rc"
    and "ad = \<lparr>ad_ancestor = True, ad_changed = [], ad_truncated = False, ad_commits = 0\<rparr>"
  shows "attests payload_fields (observation_payload path og ad rc False t s)"
  using assms
  by (simp add: attests_def payload_fields_def exact_fields_def reserved_def observation_payload_def
      Let_def same_constants audited_constants_def miner_impact_def)

lemma current_form:
  assumes "poll_once G E w = (Inr p, w')" and "dget p ''ok'' = JBool True"
  shows "\<exists>og rc t t' msg previous.
    sanitize_items (e_lib E) (e_secrets E)
      (status_payload E t' ''current'' True msg previous
        (observation_payload (g_path G) og
          \<lparr>ad_ancestor = True, ad_changed = [], ad_truncated = False, ad_commits = 0\<rparr> rc False t (e_utc E t)))
      = Inr p \<and>
    og_origin og = EXPECTED_UPSTREAM_ORIGIN \<and> og_head og = AUDITED_UPSTREAM_HEAD \<and>
    \<not> og_rewritten og \<and> audited_constants rc \<and> \<not> rewrite_latched (disk w Status) \<and>
    disk w' Status = holds p \<and> seen w (origin_evidence og) w'"
proof -
  obtain payload w1 msg t' previous where obs: "observe G E w = (Inr payload, w1)"
    and review: "dget payload ''review_required'' \<noteq> JBool True"
    and p: "sanitize_items (e_lib E) (e_secrets E) (status_payload E t' ''current'' True msg previous payload) = Inr p"
    and disk: "disk w' Status = holds p" and ext: "extends w1 w'"
    using poll_current [OF assms] by blast
  obtain og ad rc latched t where pl: "payload = observation_payload (g_path G) og ad rc latched t (e_utc E t)"
    and facts: "og_origin og = EXPECTED_UPSTREAM_ORIGIN"
      "og_rewritten og \<or> rewrite_latched (disk w Status) \<longrightarrow> latched"
      "og_head og = AUDITED_UPSTREAM_HEAD \<longrightarrow> audited_constants rc \<and>
        ad = \<lparr>ad_ancestor = True, ad_changed = [], ad_truncated = False, ad_commits = 0\<rparr>"
    using observe_Inr [OF obs] by blast
  obtain og2 ad2 rc2 latched2 t2 where
    pl2: "payload = observation_payload (g_path G) og2 ad2 rc2 latched2 t2 (e_utc E t2)"
    and ev: "seen w (origin_evidence og2) w1"
    using observe_evidence [OF obs] by blast
  from pl pl2 have same: "origin_evidence og2 = origin_evidence og"
    by (auto simp: observation_payload_def Let_def origin_evidence_def)
  from review have "og_head og = AUDITED_UPSTREAM_HEAD" "\<not> latched"
    by (auto simp: pl observation_payload_def Let_def dget_def)
  with facts p pl disk seen_frame [OF ev ext] same show ?thesis
    by (intro exI [of _ og] exI [of _ rc] exI [of _ t] exI [of _ t'] exI [of _ msg] exI [of _ previous]) simp
qed

text \<open>
  C30: the gate accepts what the observer calls current. When a poll of the observer (which
  keeps no secrets to redact) reports ok and the gate reads a mapping with the same entries
  from the protected file, then the gate accepts it exactly when its age limit is in range, the local
  checkout is at the advertised commit, and both times of the status are fresh; every other
  field the gate compares has the audited value.
\<close>

theorem current_status_passes_gate:
  assumes "poll_once G E w = (Inr p, w')" and "dget p ''ok'' = JBool True" and "e_secrets E = []"
    and "read_observer_status decode parse s = Inr q" and "map_of q = map_of p"
  shows "verify_upstream_observer_status decode parse clock (JInt age) (Some (JFloat (Fin now))) s = Inr q \<longleftrightarrow>
    600 \<le> age \<and> age \<le> 900 \<and> 0 < now \<and> dget p ''local_checkout_at_origin'' = JBool True \<and>
    fresh p ''updated_at_epoch'' now age \<and> fresh p ''origin_observed_at'' now age"
proof -
  let ?ad = "\<lparr>ad_ancestor = True, ad_changed = [], ad_truncated = False, ad_commits = 0\<rparr>"
  obtain og rc t t' msg previous where
    p: "sanitize_items (e_lib E) [] (status_payload E t' ''current'' True msg previous
        (observation_payload (g_path G) og ?ad rc False t (e_utc E t))) = Inr p"
    and og: "og_origin og = EXPECTED_UPSTREAM_ORIGIN" "og_head og = AUDITED_UPSTREAM_HEAD"
      "\<not> og_rewritten og" "audited_constants rc"
    using current_form [OF assms(1,2)] assms(3) by auto
  let ?d = "status_payload E t' ''current'' True msg previous
        (observation_payload (g_path G) og ?ad rc False t (e_utc E t))"
  have field: "map_of p k = Some v" if "(k, v) \<in> set exact_fields" "k \<noteq> ''local_checkout_at_origin''" for k v
  proof (rule sanitized_exact [OF p that(1)])
    show "map_of ?d k = Some v"
    proof (cases "k \<in> set reserved")
      case True
      with that show ?thesis
        by (auto simp: map_of_status_payload status_head_def exact_fields_def reserved_def
            SCHEMA_VERSION_def OBSERVER_SCHEMA_VERSION_def)
    next
      case False
      with that payload_exact [OF og refl, of "g_path G" t "e_utc E t"]
      have "map_of (observation_payload (g_path G) og ?ad rc False t (e_utc E t)) k = Some v"
        by (auto simp: attests_def payload_fields_def list_all_iff)
      with False show ?thesis by (simp add: map_of_status_payload map_of_payload)
    qed
  qed
  have "map_of ?d ''changed_files'' = Some (JList [])"
    by (simp add: map_of_status_payload map_of_payload reserved_def observation_payload_def Let_def)
  from sanitize_items_map_of(3) [OF p this] obtain v where
    v: "sanitize (e_lib E) [] ''changed_files'' (JList []) = Inr v" "map_of p ''changed_files'' = Some v"
    by blast
  have "sanitize (e_lib E) [] ''changed_files'' (JList []) = Inr (JList [])"
    using gate_keys_plain(2) by (subst sanitize.simps) simp
  with v have changed: "dget p ''changed_files'' = JList []" by (simp add: dget_def)
  have local_field: "(''local_checkout_at_origin'', JBool True) \<in> set exact_fields" by (simp add: exact_fields_def)
  have att: "attests exact_fields p \<longleftrightarrow> dget p ''local_checkout_at_origin'' = JBool True"
  proof
    assume "attests exact_fields p"
    with local_field show "dget p ''local_checkout_at_origin'' = JBool True"
      by (fastforce simp: attests_def list_all_iff dget_def)
  next
    assume "dget p ''local_checkout_at_origin'' = JBool True"
    then have "map_of p ''local_checkout_at_origin'' = Some (JBool True)"
      by (simp add: dget_def split: option.splits)
    moreover have "v = JBool True" if "(''local_checkout_at_origin'', v) \<in> set exact_fields" for v
      using that by (simp add: exact_fields_def)
    ultimately have "map_of p k = Some v" if "(k, v) \<in> set exact_fields" for k v
      using field [OF that] that by (cases "k = ''local_checkout_at_origin''") blast+
    then show "attests exact_fields p" by (auto simp: attests_def list_all_iff)
  qed
  from assms(5) have "attests exact_fields q = attests exact_fields p" "dget q = dget p" "fresh q = fresh p"
    by (simp_all add: attests_def dget_def fresh_def fun_eq_iff)
  then show ?thesis
    unfolding verify_status_Inr
    by (simp add: assms(4) att changed GATE_MIN_MAX_AGE_SECONDS_def GATE_MAX_AGE_SECONDS_def)
qed

text \<open>
  C31: a status that says current is evidence. When a poll reports ok, then before it no
  history rewrite was recorded; in this poll the expected origin advertised exactly the
  audited commit for refs/heads/main, the cached reference was read back with that commit, and
  the head of the local checkout was read, which the status compares with it; and the status
  on disk is the one reported.
\<close>

theorem current_status_is_observed:
  assumes "poll_once G E w = (Inr p, w')" and "dget p ''ok'' = JBool True"
  shows "\<exists>es local_head. git_calls w' = es @ git_calls w \<and>
    list_ex (printed [''ls-remote'', ''--exit-code'', ''https://github.com/microtensor-io/microtensor-subnet.git'',
      ''refs/heads/main''] advertised_commit AUDITED_UPSTREAM_HEAD) es \<and>
    list_ex (printed [''rev-parse'', ''--verify'', ''refs/remotes/origin/main'']
      (\<lambda>t. commit_of t ''fetched origin/main'') AUDITED_UPSTREAM_HEAD) es \<and>
    list_ex (printed [''rev-parse'', ''HEAD''] (\<lambda>t. commit_of t ''local HEAD'') local_head) es \<and>
    dget p ''local_checkout_at_origin'' = JBool (local_head = AUDITED_UPSTREAM_HEAD) \<and>
    \<not> rewrite_latched (disk w Status) \<and> disk w' Status = holds p"
proof -
  let ?ad = "\<lparr>ad_ancestor = True, ad_changed = [], ad_truncated = False, ad_commits = 0\<rparr>"
  obtain og rc t t' msg previous where
    p: "sanitize_items (e_lib E) (e_secrets E) (status_payload E t' ''current'' True msg previous
        (observation_payload (g_path G) og ?ad rc False t (e_utc E t))) = Inr p"
    and og: "og_origin og = EXPECTED_UPSTREAM_ORIGIN" "og_head og = AUDITED_UPSTREAM_HEAD"
    and rest: "\<not> rewrite_latched (disk w Status)" "disk w' Status = holds p"
    and ev: "seen w (origin_evidence og) w'"
    using current_form [OF assms] by blast
  have "map_of p ''local_checkout_at_origin'' = Some (JBool (og_local og = og_head og))"
    using gate_keys_plain
    by (intro sanitized_scalar [OF p])
      (simp_all add: map_of_status_payload map_of_payload reserved_def observation_payload_def Let_def)
  moreover from ev og obtain es where "git_calls w' = es @ git_calls w"
    "list_all (\<lambda>F. list_ex F es) (origin_evidence og)" by (auto simp: seen_def)
  ultimately show ?thesis
    using og rest
    by (intro exI [of _ es] exI [of _ "og_local og"])
      (simp add: origin_evidence_def EXPECTED_UPSTREAM_ORIGIN_def dget_def)
qed

section \<open>A repository at the audited commit\<close>

definition example_output :: "string list \<Rightarrow> string" where
  "example_output arguments =
     (case arguments of
        [] \<Rightarrow> []
      | verb # _ \<Rightarrow>
          if verb = ''remote'' then EXPECTED_UPSTREAM_ORIGIN @ ''.git''
          else if verb = ''ls-remote'' then AUDITED_UPSTREAM_HEAD @ '' refs/heads/main''
          else AUDITED_UPSTREAM_HEAD)"

definition example_module :: "statement list" where
  "example_module =
     [AnnAssign (Some ''RELEASE_VERSION'') (Some (Constant (PyStr AUDITED_UPSTREAM_RELEASE))),
      Assign [Some ''MECHANISM_VERSION''] (Constant (PyStr AUDITED_UPSTREAM_MECHANISM)),
      OtherStatement,
      Assign [Some ''PROVENANCE_REQUIRED''] (Constant (PyBool False))]"

definition example_git :: "unit git_env" where
  "example_git =
     \<lparr>g_path = ''/repo'', g_is_dir = (\<lambda>_. True),
      g_run = (\<lambda>arguments accepted g.
        (Inr \<lparr>g_returncode = 0, g_output = example_output arguments\<rparr>, g)),
      g_parse = (\<lambda>_. Inr (Some example_module))\<rparr>"

definition example_observer :: "jfile \<Rightarrow> unit observer_world" where
  "example_observer status =
     \<lparr>disk = (\<lambda>_. Missing)(Status := status), faults = [], ticks = 1, lock = LockFree,
      repository = (), git_calls = [], rewrite_seen = False, stop_polls = 1\<rparr>"

lemma example_commits:
  "commit_of AUDITED_UPSTREAM_HEAD label = Inr AUDITED_UPSTREAM_HEAD"
  "canonical_origin (EXPECTED_UPSTREAM_ORIGIN @ ''.git'') = Inr EXPECTED_UPSTREAM_ORIGIN"
  "advertised_commit (AUDITED_UPSTREAM_HEAD @ '' refs/heads/main'') = Inr AUDITED_UPSTREAM_HEAD"
proof -
  have "py_lower (strip AUDITED_UPSTREAM_HEAD) = AUDITED_UPSTREAM_HEAD" "commit_shape AUDITED_UPSTREAM_HEAD"
    by code_simp+
  then show c: "commit_of AUDITED_UPSTREAM_HEAD label = Inr AUDITED_UPSTREAM_HEAD" for label
    by (simp add: commit_of_def Let_def)
  have "rstrip_char CHR ''/'' (remove_suffix ''.git'' (strip (EXPECTED_UPSTREAM_ORIGIN @ ''.git''))) = EXPECTED_UPSTREAM_ORIGIN"
    by code_simp
  then show "canonical_origin (EXPECTED_UPSTREAM_ORIGIN @ ''.git'') = Inr EXPECTED_UPSTREAM_ORIGIN"
    by (simp add: canonical_origin_def Let_def)
  have "splitlines (AUDITED_UPSTREAM_HEAD @ '' refs/heads/main'') = [AUDITED_UPSTREAM_HEAD @ '' refs/heads/main'']"
    "split_words (AUDITED_UPSTREAM_HEAD @ '' refs/heads/main'') = [AUDITED_UPSTREAM_HEAD, ''refs/heads/main'']"
    "strip (AUDITED_UPSTREAM_HEAD @ '' refs/heads/main'') \<noteq> []"
    by code_simp+
  then show "advertised_commit (AUDITED_UPSTREAM_HEAD @ '' refs/heads/main'') = Inr AUDITED_UPSTREAM_HEAD"
    by (simp add: advertised_commit_def c)
qed

definition example_origin :: origin_state where
  "example_origin =
     \<lparr>og_origin = EXPECTED_UPSTREAM_ORIGIN, og_local = AUDITED_UPSTREAM_HEAD,
      og_cached = Some AUDITED_UPSTREAM_HEAD, og_head = AUDITED_UPSTREAM_HEAD, og_fetched = False,
      og_rewritten = False\<rparr>"

definition example_payload :: "rat \<Rightarrow> dict" where
  "example_payload t =
     observation_payload ''/repo'' example_origin
       \<lparr>ad_ancestor = True, ad_changed = [], ad_truncated = False, ad_commits = 0\<rparr>
       \<lparr>rc_release = PyStr AUDITED_UPSTREAM_RELEASE, rc_mechanism = PyStr AUDITED_UPSTREAM_MECHANISM,
        rc_provenance = PyBool False\<rparr> False t ''T''"

lemma example_git_exec:
  "git example_git arguments accepted w =
     (Inr \<lparr>g_returncode = 0, g_output = example_output arguments\<rparr>,
      w\<lparr>git_calls := GitEvent arguments (Some \<lparr>g_returncode = 0, g_output = example_output arguments\<rparr>)
           (disk w Status) # git_calls w\<rparr>)"
  by (simp add: git_def example_git_def)

lemma example_release:
  "release_of example_git c =
     Inr \<lparr>rc_release = PyStr AUDITED_UPSTREAM_RELEASE, rc_mechanism = PyStr AUDITED_UPSTREAM_MECHANISM,
          rc_provenance = PyBool False\<rparr>"
  by (simp add: release_of_def static_constant_def example_git_def example_module_def)

lemma example_observe:
  "\<exists>w'. observe example_git example_env (example_observer Missing) = (Inr (example_payload 1), w') \<and>
     disk w' = disk (example_observer Missing) \<and> faults w' = [] \<and> ticks w' = 2"
proof -
  have og: "\<exists>w'. observe_origin example_git example_env w = (Inr example_origin, w') \<and>
      disk w' = disk w \<and> faults w' = faults w \<and> ticks w' = ticks w" for w :: "unit observer_world"
    by (simp add: observe_origin_def pbind_def example_git_exec example_output_def example_commits
        guard_def example_origin_def)
  let ?w = "(example_observer Missing)\<lparr>rewrite_seen := False\<rparr>"
  from og [of ?w] obtain w1 where "observe_origin example_git example_env ?w = (Inr example_origin, w1)"
    "disk w1 = disk ?w" "faults w1 = faults ?w" "ticks w1 = ticks ?w" by blast
  then show ?thesis
    by (simp add: observe_def pbind_def example_git_exec example_release guard_def tick_def numeral_2_eq_2
        example_observer_def example_env_def audited_constants_def example_payload_def
        example_origin_def compare_with_audit_def dget_def)
      (simp add: example_git_def)
qed

lemma example_sourceless:
  "sourceless_items (status_payload example_env 2 ''current'' True msg [] (example_payload 1))"
  unfolding status_payload_def
  by (intro sourceless_update)
    (simp_all add: status_head_def dict_without_def reserved_def example_payload_def
      observation_payload_def Let_def example_origin_def opt_text_def case_mapping)

lemma example_poll:
  "\<exists>p w'. poll_once example_git example_env (example_observer Missing) = (Inr p, w') \<and>
     dget p ''ok'' = JBool True \<and>
     (\<exists>msg. sanitize_items example_lib [] (status_payload example_env 2 ''current'' True msg [] (example_payload 1)) = Inr p)"
proof -
  obtain w1 where obs: "observe example_git example_env (example_observer Missing) = (Inr (example_payload 1), w1)"
    and w1: "disk w1 = disk (example_observer Missing)" "faults w1 = []" "ticks w1 = 2"
    using example_observe by blast
  have review: "dget (example_payload 1) ''review_required'' \<noteq> JBool True"
    by (simp add: example_payload_def observation_payload_def Let_def example_origin_def dget_def)
  then obtain msg where rep: "report_observation example_env (example_payload 1) =
      (write_state example_env ''current'' True msg None (example_payload 1) None :: (unit observer_world, dict) prog)"
    by (simp add: report_observation_def)
  from sourceless_sanitize(3) [OF example_sourceless] obtain p where
    p: "sanitize_items example_lib [] (status_payload example_env 2 ''current'' True msg [] (example_payload 1)) = Inr p"
    by blast
  have start: "disk (example_observer Missing) Status = Missing" by (simp add: example_observer_def)
  have env: "e_lib example_env = example_lib" "e_secrets example_env = []" "e_time example_env = of_nat"
    by (simp_all add: example_env_def)
  have "\<exists>w2. (write_state example_env ''current'' True msg None (example_payload 1) None) w1 = (Inr p, w2)"
    using w1 p
    by (simp add: write_state_def pbind_def timestamp_of_def tick_def env example_observer_def
        clean_def atomic_json_def change_entry_def)
  then obtain w2 where wr: "write_state example_env ''current'' True msg None (example_payload 1) None w1 = (Inr p, w2)"
    by blast
  then have "poll_once example_git example_env (example_observer Missing) = (Inr p, w2)"
    by (simp add: poll_once_def catch_def pbind_def obs rep start)
  with written_ok [OF wr] p show ?thesis by blast
qed

text \<open>What the lexer delivers for a value; loading it strictly gives the value back.\<close>

fun raw_of :: "json \<Rightarrow> raw" where
  "raw_of JNull = RNull"
| "raw_of (JBool b) = RBool b"
| "raw_of (JInt i) = RInt i"
| "raw_of (JFloat f) = RFloat f"
| "raw_of (JStr s) = RStr s"
| "raw_of (JList xs) = RList (map raw_of xs)"
| "raw_of (JObj d) = RObj (map (\<lambda>(k, v). (k, raw_of v)) d)"

lemma strict_list_all: "list_all (\<lambda>x. strict_value (raw_of x) = Some x) xs \<Longrightarrow> strict_list (map raw_of xs) = Some xs"
  by (induction xs) auto

lemma strict_pairs_all:
  "list_all (\<lambda>(k, x). strict_value (raw_of x) = Some x) d \<Longrightarrow>
     strict_pairs (map (\<lambda>(k, v). (k, raw_of v)) d) = Some d"
  by (induction d) auto

lemma strict_value_raw_of: "keys_unique v \<Longrightarrow> strict_value (raw_of v) = Some v"
proof (induction v)
  case (JList xs)
  then show ?case by (auto simp: list_all_iff intro!: strict_list_all)
next
  case (JObj d)
  then have "strict_pairs (map (\<lambda>(k, v). (k, raw_of v)) d) = Some d"
    by (intro strict_pairs_all) (fastforce simp: list_all_iff)
  with JObj.prems show ?case by (simp add: unique_pairs_Some)
qed auto

lemma sanitize_keys_unique:
  "sanitize lib secrets key v = Inr w \<Longrightarrow> keys_unique v \<Longrightarrow> keys_unique w"
  "sanitize_list lib secrets vs = Inr ws \<Longrightarrow> list_all keys_unique vs \<Longrightarrow> list_all keys_unique ws"
  "sanitize_items lib secrets d = Inr e \<Longrightarrow> list_all (\<lambda>(k, v). keys_unique v) d \<Longrightarrow>
     list_all (\<lambda>(k, v). keys_unique v) e"
proof (induction key v and vs and d arbitrary: w and ws and e
    rule: sanitize_sanitize_list_sanitize_items.induct)
  case (1 lib secrets key v)
  from 1(3) show ?case
    by (subst (asm) sanitize.simps)
      (auto split: if_splits json.splits simp: map_sum_Inr sanitize_items_map_of(1) intro: 1(1) 1(2),
       use 1 in \<open>auto simp: sanitize_items_map_of(1)\<close>)
qed (auto simp: rbind_Inr_iff simp del: sanitize.simps)

lemma example_keys_unique:
  "keys_unique (JObj (status_payload example_env 2 ''current'' True msg [] (example_payload 1)))"
proof -
  let ?head = "status_head example_env 2 ''current'' True msg"
  have flat: "list_all (\<lambda>(k, v). keys_unique v) ?head" "list_all (\<lambda>(k, v). keys_unique v) (example_payload 1)"
    by (simp_all add: status_head_def example_payload_def observation_payload_def Let_def
        example_origin_def opt_text_def)
  have "set (status_payload example_env 2 ''current'' True msg [] (example_payload 1))
      \<subseteq> set ?head \<union> set (example_payload 1)"
    unfolding status_payload_def
    using set_dict_update_subset [of "dict_without reserved []" ?head]
      set_dict_update_subset [of "dict_update (dict_without reserved []) ?head" "dict_without reserved (example_payload 1)"]
    by (auto simp: dict_without_def)
  with flat have "list_all (\<lambda>(k, v). keys_unique v)
      (status_payload example_env 2 ''current'' True msg [] (example_payload 1))"
    by (fastforce simp: list_all_iff)
  moreover have "distinct (map fst (status_payload example_env 2 ''current'' True msg [] (example_payload 1)))"
    unfolding status_payload_def by (intro distinct_dict_update) (simp add: dict_without_def)
  ultimately show ?thesis by simp
qed

definition example_status_session :: file_session where
  "example_status_session =
     (let m = \<lparr>st_dev = 1, st_ino = 2, st_mode = 33152, st_uid = 0, st_gid = 0, st_nlink = 1, st_size = 2,
               st_mtime_ns = 5, st_ctime_ns = 6\<rparr> in
      \<lparr>path_absolute = True, has_nofollow = True, effective_uid = 0, effective_gid = 0,
       path_before = Some m, open_succeeds = True, opened_before = Some m,
       read_results = [Some ''{}'', Some []], opened_after = Some m, path_after = Some m\<rparr>)"

lemma example_session_bytes: "read_status_bytes example_status_session = Inr ''{}''"
proof -
  have "s_isreg 33152" "s_imode 33152 = mode_0600" by (simp_all add: mode_defs mode_0600_def)
  then have valid: "validate_metadata 0 m = Inr ()"
    if "st_mode m = 33152" "st_nlink m = 1" "st_uid m = 0" "st_size m = 2" for m
    using that by (simp add: status_file_def MAX_STATUS_BYTES_def)
  show ?thesis
    by (simp add: read_status_bytes_def observe_file_def example_status_session_def Let_def syscall_def
        valid MAX_STATUS_BYTES_def)
qed

theorem current_status_passes_gate_witness:
  "\<exists>p w'. poll_once example_git example_env (example_observer Missing) = (Inr p, w') \<and>
     verify_upstream_observer_status Some (\<lambda>_. Some (raw_of (JObj p))) (Fin 0) (JInt 900)
       (Some (JFloat (Fin 3))) example_status_session = Inr p"
proof -
  obtain p w' msg where poll: "poll_once example_git example_env (example_observer Missing) = (Inr p, w')"
    "dget p ''ok'' = JBool True"
    and p: "sanitize_items example_lib [] (status_payload example_env 2 ''current'' True msg [] (example_payload 1)) = Inr p"
    using example_poll by blast
  from example_keys_unique [of msg] sanitize_keys_unique(3) [OF p] sanitize_items_map_of(1) [OF p]
  have "keys_unique (JObj p)" by simp
  then have read: "read_observer_status Some (\<lambda>_. Some (raw_of (JObj p))) example_status_session = Inr p"
    by (simp add: read_observer_status_def example_session_bytes load_strict_def strict_value_raw_of stop_of_strict [OF strict_value_raw_of]
        del: raw_of.simps)
  have stamps: "map_of (status_payload example_env 2 ''current'' True msg [] (example_payload 1)) ''updated_at_epoch''
      = Some (JFloat (Fin 2))"
    "map_of (status_payload example_env 2 ''current'' True msg [] (example_payload 1)) ''origin_observed_at''
      = Some (JFloat (Fin 1))"
    "map_of (status_payload example_env 2 ''current'' True msg [] (example_payload 1)) ''local_checkout_at_origin''
      = Some (JBool True)"
    by (simp_all add: map_of_status_payload reserved_def status_head_def example_payload_def map_of_payload)
      (simp_all add: observation_payload_def Let_def example_origin_def)
  have "\<not> sensitive_key ''origin_observed_at''" by code_simp
  with stamps have "map_of p ''updated_at_epoch'' = Some (JFloat (Fin 2))"
    "map_of p ''origin_observed_at'' = Some (JFloat (Fin 1))"
    "map_of p ''local_checkout_at_origin'' = Some (JBool True)"
    using reserved_keys_plain gate_keys_plain(2) by (auto intro: sanitized_scalar [OF p])
  then have "fresh p ''updated_at_epoch'' 3 900" "fresh p ''origin_observed_at'' 3 900"
    "dget p ''local_checkout_at_origin'' = JBool True"
    by (simp_all add: fresh_def dget_def MAX_FUTURE_SKEW_SECONDS_def)
  with current_status_passes_gate [OF poll _ read, where age = 900 and now = 3 and clock = "Fin 0"] poll(1) show ?thesis
    by (auto simp: example_env_def)
qed

theorem current_status_is_observed_witness:
  "\<exists>p w'. poll_once example_git example_env (example_observer Missing) = (Inr p, w') \<and>
     list_ex (printed [''rev-parse'', ''--verify'', ''refs/remotes/origin/main'']
       (\<lambda>t. commit_of t ''fetched origin/main'') AUDITED_UPSTREAM_HEAD) (git_calls w') \<and>
     disk w' Status = holds p"
proof -
  obtain p w' where poll: "poll_once example_git example_env (example_observer Missing) = (Inr p, w')"
    "dget p ''ok'' = JBool True" using example_poll by blast
  have "git_calls (example_observer Missing) = []" by (simp add: example_observer_def)
  with current_status_is_observed [OF poll] poll(1) show ?thesis by auto
qed

theorem rewrite_latch_permanent_witness:
  "rewrite_latched (disk (snd (observer_main example_git example_env True
     (example_observer (holds [(latch_key, JBool True)])))) Status)"
proof -
  let ?w = "example_observer (holds [(latch_key, JBool True)])"
  obtain r w' where run: "observer_main example_git example_env True ?w = (r, w')" by fastforce
  have "rewrite_latched (disk ?w Status)" by (simp add: example_observer_def rewrite_latched_def dget_def)
  from rewrite_latch_permanent [OF this run] run show ?thesis by simp
qed

definition example_spawn :: "string list \<Rightarrow> unit \<Rightarrow> git_session \<times> unit" where
  "example_spawn arguments g =
     (\<lparr>gs_spawn = Inr (), gs_started = 0, gs_timeouts = [], gs_exit = Inr 0, gs_running = False,
       gs_kill = KillSent, gs_size = 40, gs_raw = Inr (example_output arguments)\<rparr>, g)"

theorem rewrite_latched_before_update_witness:
  "safe_updates (git_calls (snd (poll_once (example_git\<lparr>g_run := run_git Some example_spawn\<rparr>) example_env
     (example_observer Missing))))"
proof -
  obtain r w' where run: "poll_once (example_git\<lparr>g_run := run_git Some example_spawn\<rparr>) example_env
      (example_observer Missing) = (r, w')" by fastforce
  have "git_calls (example_observer Missing) = []" by (simp add: example_observer_def)
  with rewrite_latched_before_update [OF run] run show ?thesis by simp
qed

section \<open>The process\<close>

definition same_polls :: "'g observer_world \<Rightarrow> 'g observer_world \<Rightarrow> bool" where
  "same_polls u v \<longleftrightarrow> stop_polls v = stop_polls u"

interpretation unpolled: effect_relation same_polls
  by unfold_locales (auto simp: same_polls_def)

lemma touches_polls: "touches S w (w' :: 'g observer_world) \<Longrightarrow> stop_polls w' = stop_polls w"
  by (cases w; cases w') (simp add: touches_def)

lemma same_polls_store: "stays (touches S) (m :: ('g observer_world, 'a) prog) \<Longrightarrow> stays same_polls m"
  by (erule stays_mono) (simp add: same_polls_def, rule touches_polls)

lemma same_polls_parts [stays_intros]:
  "stays same_polls (git G arguments accepted)" "stays same_polls (note_rewrite b)"
  "stays same_polls (tick E)" "stays same_polls (utc_now E)" "stays same_polls (read_slot p)"
  "stays same_polls (write_state E ph ok msg now det pre)"
  by (auto simp: stays_def same_polls_def git_def split: prod.splits)[2]
    (rule same_polls_store [where S = UNIV]; auto simp: utc_now_def intro!: stays_intros)+

lemma observer_polls: "stays same_polls (poll_once G E)"
proof -
  have "stays same_polls (follow_origin G E origin old new)" for origin old new
    by (auto simp: follow_origin_def detect_rewrite_def persist_rewrite_def Let_def intro!: stays_intros)
  then have "stays same_polls (observe_origin G E)"
    by (auto simp: observe_origin_def intro!: stays_intros)
  then show ?thesis
    by (auto simp: poll_once_def observe_def compare_with_audit_def report_observation_def Let_def
        intro!: stays_intros)
qed

lemma observer_loop_returns:
  assumes "stop_polls w < n" and "observer_loop n G E once w = (r, w')"
  shows "(\<exists>e. r = Inl e) \<or> r = Inr (Some 0) \<or> once \<and> r = Inr (Some 2)"
  using assms
proof (induction n arbitrary: w)
  case (Suc n)
  have polls: "stop_polls w2 = stop_polls w1" if "poll_once G E w1 = (x, w2)" for w1 x w2
    using staysD [OF observer_polls that] by (simp add: same_polls_def)
  show ?case
  proof (cases "stop_polls w")
    case 0
    with Suc.prems show ?thesis by (simp add: pbind_def look_stop_def)
  next
    case (Suc k)
    let ?w = "w\<lparr>stop_polls := k\<rparr>"
    obtain x w1 where poll: "poll_once G E ?w = (x, w1)" by (cases "poll_once G E ?w")
    show ?thesis
    proof (cases x)
      case (Inl e)
      with Suc.prems \<open>stop_polls w = Suc k\<close> poll show ?thesis by (auto simp: pbind_def look_stop_def)
    next
      case (Inr p)
      obtain b w2 where look: "look_stop w1 = (Inr b, w2)" "stop_polls w2 \<le> stop_polls w1"
        by (cases "look_stop w1") (auto simp: look_stop_def split: if_splits)
      have "stop_polls w2 < n" using look(2) polls [OF poll] Suc.prems(1) \<open>stop_polls w = Suc k\<close> by simp
      with Suc.IH Suc.prems \<open>stop_polls w = Suc k\<close> poll Inr look show ?thesis
        by (cases once) (auto simp: pbind_def look_stop_def split: if_splits)
    qed
  qed
qed simp

text \<open>
  The observer process ends. Once the stop event is set after some number of looks the
  process has returned: with 0 when it was stopped, with 0 or 2 after the one poll of
  \<open>--once\<close>, or it raised; the fuel of the loop is never exhausted.
\<close>

theorem observer_main_returns:
  "fst (observer_main G E once w) \<in> range Inl \<union> (if once then {Inr (Some 0), Inr (Some 2)} else {Inr (Some 0)})"
proof -
  obtain r w' where run: "with_lock (observer_loop (Suc (stop_polls w)) G E once) w = (r, w')"
    by (cases "with_lock (observer_loop (Suc (stop_polls w)) G E once) w")
  then have "(\<exists>e. r = Inl e) \<or> r = Inr (Some 0) \<or> once \<and> r = Inr (Some 2)"
  proof (cases rule: with_lock_cases)
    case (held w1)
    show ?thesis by (rule observer_loop_returns [OF _ held(2)]) simp
  qed auto
  with run show ?thesis by (auto simp: observer_main_def)
qed

end
