(* ===== verification/GithubTransport.thy ===== *)
theory GithubTransport
  imports Config ProtectedFile
begin

text \<open>
  The transport half of \<^verbatim>\<open>github_release.py\<close>: what a token and the release coordinates must
  look like, \<open>_read_json_response\<close>, and \<open>GitHubTransport\<close> with its API request and its
  chunked asset upload. The HTTPS connection of the standard library and the local stream are
  operations on an external state of any type; the publisher sees a transport only through
  the record \<open>transport\<close>, the \<^verbatim>\<open>ReleaseTransport\<close> protocol.
\<close>

section \<open>Constants and checks\<close>

definition API_VERSION :: string where "API_VERSION = ''2026-03-10''"
definition API_HOST :: string where "API_HOST = ''api.github.com''"
definition UPLOAD_HOST :: string where "UPLOAD_HOST = ''uploads.github.com''"
definition USER_AGENT :: string where "USER_AGENT = ''microtensor-miner-controller/0.1''"
definition MAX_JSON_BYTES :: nat where "MAX_JSON_BYTES = 8 * 1024 * 1024"
definition MAX_ASSET_BYTES :: int where "MAX_ASSET_BYTES = 2 * 1024 * 1024 * 1024"
definition PAGE_SIZE :: nat where "PAGE_SIZE = 100"
definition MAX_PAGES :: nat where "MAX_PAGES = 100"

abbreviation release_error :: "string \<Rightarrow> exc" where
  "release_error t \<equiv> Exc ReleasePublishError t"

definition validate_token :: "string \<Rightarrow> unit res" where
  "validate_token token =
     require (\<not> (length token < 8 \<or> length token > 4096 \<or> strip token \<noteq> token
                \<or> list_ex (\<lambda>c. code c < 33 \<or> code c = 127) token))
       (release_error ''GitHub token is invalid'') (Inr ())"

definition validate_coordinates :: "string \<Rightarrow> string \<Rightarrow> string \<Rightarrow> unit res" where
  "validate_coordinates owner repo tag =
     require (matches (name_rx is_dash 37) owner \<and> \<not> occurs ''--'' owner)
       (release_error ''GitHub owner is invalid'') (
     require (matches (name_rx is_repo_punct 98) repo \<and> repo \<notin> {''.'', ''..''}
              \<and> \<not> suffix ''.git'' (py_casefold repo))
       (release_error ''GitHub repository name is invalid'') (
     require (matches (name_rx is_repo_punct 62) tag \<and> \<not> occurs ''..'' tag
              \<and> \<not> suffix ''.lock'' (py_casefold tag))
       (release_error ''GitHub release tag is invalid'') (Inr ())))"

definition safe_api_path :: "string \<Rightarrow> bool" where
  "safe_api_path path \<longleftrightarrow>
     prefix ''/'' path \<and> \<not> prefix ''//'' path \<and> char_of (13 :: nat) \<notin> set path
     \<and> char_of (10 :: nat) \<notin> set path \<and> CHR ''#'' \<notin> set path"

text \<open>\<open>urllib.parse.quote(s, safe='')\<close>: unreserved characters stay, other bytes become \<open>%XX\<close>.\<close>

definition upper_hex :: "nat \<Rightarrow> char" where
  "upper_hex n = (if n < 10 then char_of (48 + n) else char_of (55 + n))"

definition unreserved :: "char \<Rightarrow> bool" where
  "unreserved c \<longleftrightarrow> is_alnum c \<or> c = CHR ''_'' \<or> c = CHR ''.'' \<or> c = CHR ''-'' \<or> c = CHR ''~''"

definition url_quote :: "string \<Rightarrow> string" where
  "url_quote s =
     concat (map (\<lambda>c. if unreserved c then [c]
                      else [CHR ''%'', upper_hex (code c div 16), upper_hex (code c mod 16)])
       (utf8_encode s))"

section \<open>Responses\<close>

record api_response =
  a_status :: int
  a_data :: json

text \<open>What the connection answers: the status and the body its reads deliver, or a failure.\<close>

record http_response =
  h_status :: int
  h_body :: "string res"

definition response_data ::
    "(string \<Rightarrow> string option) \<Rightarrow> (string \<Rightarrow> raw option) \<Rightarrow> http_response \<Rightarrow> api_response res" where
  "response_data decode parse response =
     rbind (h_body response) (\<lambda>body.
     let payload = take (MAX_JSON_BYTES + 1) body in
     require (\<not> length payload > MAX_JSON_BYTES)
       (release_error ''GitHub API response exceeded the size limit'') (
     if payload = [] then Inr \<lparr>a_status = h_status response, a_data = JNull\<rparr>
     else case decode payload of
         None \<Rightarrow> fail UnicodeDecodeError ''invalid UTF-8''
       | Some t \<Rightarrow>
           (case parse t of
              None \<Rightarrow> fail JSONDecodeError ''invalid JSON''
            | Some r \<Rightarrow> Inr \<lparr>a_status = h_status response, a_data = lax_value r\<rparr>)))"

definition read_json_response ::
    "(string \<Rightarrow> string option) \<Rightarrow> (string \<Rightarrow> raw option) \<Rightarrow> http_response \<Rightarrow> api_response res" where
  "read_json_response decode parse response =
     (case response_data decode parse response of
        Inl e \<Rightarrow> if isinstance e ReleasePublishError then Inl e
                 else fail ReleasePublishError ''GitHub API returned an invalid response''
      | Inr a \<Rightarrow> Inr a)"

section \<open>The transport\<close>

text \<open>
  The connection: a whole request with its response; the steps of an upload; and reads from
  the local asset stream. Closing the connection, whose failures are suppressed, is left out.
\<close>

record 'x https =
  hc_request :: "string \<Rightarrow> string \<Rightarrow> string \<Rightarrow> string option \<Rightarrow> (string \<times> string) list \<Rightarrow>
                 ('x, http_response) prog"
  hc_begin :: "string \<Rightarrow> string \<Rightarrow> (string \<times> string) list \<Rightarrow> ('x, unit) prog"
  hc_send :: "string \<Rightarrow> ('x, unit) prog"
  hc_response :: "('x, http_response) prog"
  hc_read :: "nat \<Rightarrow> nat \<Rightarrow> ('x, string) prog"

record 'x transport =
  t_request :: "string \<Rightarrow> string \<Rightarrow> dict option \<Rightarrow> ('x, api_response option) prog"
  t_upload :: "string \<Rightarrow> string \<Rightarrow> int \<Rightarrow> string \<Rightarrow> string \<Rightarrow> int \<Rightarrow> nat \<Rightarrow>
               ('x, api_response option) prog"

definition transport_headers ::
    "string \<Rightarrow> string option \<Rightarrow> int option \<Rightarrow> (string \<times> string) list" where
  "transport_headers token content_type bytes =
     [(''Accept'', ''application/vnd.github+json''), (''Authorization'', ''Bearer '' @ token),
      (''User-Agent'', USER_AGENT), (''X-GitHub-Api-Version'', API_VERSION)] @
     (case content_type of None \<Rightarrow> [] | Some t \<Rightarrow> [(''Content-Type'', t)]) @
     (case bytes of None \<Rightarrow> [] | Some n \<Rightarrow> [(''Content-Length'', text_of_int n)])"

text \<open>\<open>except ReleasePublishError: raise / except Exception: raise ReleasePublishError(text)\<close>.\<close>

definition release_handler :: "string \<Rightarrow> exc \<Rightarrow> ('w, 'a) prog" where
  "release_handler t e = (if isinstance e ReleasePublishError then throw e else throw (release_error t))"

definition encoded_payload :: "stdlib \<Rightarrow> dict option \<Rightarrow> string option res" where
  "encoded_payload lib payload =
     (case payload of
        None \<Rightarrow> Inr None
      | Some d \<Rightarrow> (case dumps lib (JObj d) of
                     None \<Rightarrow> fail ValueError ''out of range float''
                   | Some t \<Rightarrow> Inr (Some (utf8_encode t))))"

definition transport_request ::
    "stdlib \<Rightarrow> (string \<Rightarrow> string option) \<Rightarrow> (string \<Rightarrow> raw option) \<Rightarrow> 'x https \<Rightarrow> string \<Rightarrow>
     string \<Rightarrow> string \<Rightarrow> dict option \<Rightarrow> ('x, api_response) prog" where
  "transport_request lib decode parse net token verb path payload =
     (if verb \<notin> {''GET'', ''POST'', ''PUT'', ''PATCH''} \<or> \<not> safe_api_path path
      then throw (release_error ''GitHub API request is invalid'')
      else catch
        (pbind (lift_res (encoded_payload lib payload)) (\<lambda>body.
         pbind (hc_request net API_HOST verb path body
                 (transport_headers token
                   (if body = None then None else Some ''application/json'')
                   (case body of None \<Rightarrow> None
                    | Some b \<Rightarrow> if b = [] then None else Some (int (length b))))) (\<lambda>response.
         lift_res (read_json_response decode parse response))))
        (release_handler ''GitHub API request failed''))"

text \<open>\<open>while remaining: chunk = stream.read(min(...)); ...; connection.send(chunk)\<close>.\<close>

function upload_chunks :: "'x https \<Rightarrow> nat \<Rightarrow> nat \<Rightarrow> nat \<Rightarrow> 'x \<Rightarrow> unit res \<times> 'x" where
  "upload_chunks net stream limit remaining x =
     (if remaining = 0 then (Inr (), x)
      else case hc_read net stream (min limit remaining) x of
          (Inl e, x') \<Rightarrow> (Inl e, x')
        | (Inr chunk, x') \<Rightarrow>
            (if chunk = [] \<or> length chunk > remaining
             then (Inl (release_error ''GitHub asset stream ended unexpectedly''), x')
             else case hc_send net chunk x' of
                 (Inl e, x'') \<Rightarrow> (Inl e, x'')
               | (Inr _, x'') \<Rightarrow>
                   upload_chunks net stream limit (remaining - length chunk) x''))"
  by pat_completeness auto
termination
  by (relation "measure (\<lambda>(net, stream, limit, remaining, x). remaining)") auto

declare upload_chunks.simps [simp del]

definition transport_upload ::
    "(string \<Rightarrow> string option) \<Rightarrow> (string \<Rightarrow> raw option) \<Rightarrow> 'x https \<Rightarrow> string \<Rightarrow> nat \<Rightarrow>
     string \<Rightarrow> string \<Rightarrow> int \<Rightarrow> string \<Rightarrow> string \<Rightarrow> int \<Rightarrow> nat \<Rightarrow> ('x, api_response) prog" where
  "transport_upload decode parse net token limit owner repo release_id name content_type bytes stream =
     (if release_id < 1 \<or> bytes < 0 then throw (release_error ''GitHub asset upload is invalid'')
      else catch
        (pbind (hc_begin net UPLOAD_HOST
                 (''/repos/'' @ url_quote owner @ ''/'' @ url_quote repo @ ''/releases/''
                  @ text_of_int release_id @ ''/assets?name='' @ url_quote name)
                 (transport_headers token (Some content_type) (Some bytes))) (\<lambda>_.
         pbind (upload_chunks net stream limit (nat bytes)) (\<lambda>_.
         pbind (hc_response net) (\<lambda>response.
         lift_res (read_json_response decode parse response)))))
        (release_handler ''GitHub asset upload failed''))"

text \<open>\<open>GitHubTransport(token, ...)\<close>: the constructor's checks, and the object as a transport.\<close>

definition github_transport ::
    "stdlib \<Rightarrow> (string \<Rightarrow> string option) \<Rightarrow> (string \<Rightarrow> raw option) \<Rightarrow> 'x https \<Rightarrow> string \<Rightarrow>
     int \<Rightarrow> int \<Rightarrow> 'x transport res" where
  "github_transport lib decode parse net token timeout_seconds upload_chunk_bytes =
     rbind (validate_token token) (\<lambda>_.
     require (\<not> (timeout_seconds < 1 \<or> upload_chunk_bytes < 1))
       (release_error ''GitHub transport limits are invalid'')
     (Inr \<lparr>t_request = (\<lambda>verb path payload.
             pbind (transport_request lib decode parse net token verb path payload) (\<lambda>r. ret (Some r))),
           t_upload = (\<lambda>owner repo release_id name content_type bytes stream.
             pbind (transport_upload decode parse net token (nat upload_chunk_bytes)
                      owner repo release_id name content_type bytes stream) (\<lambda>r. ret (Some r)))\<rparr>))"

section \<open>What the transport sends and raises\<close>

lemma isinstance_release [simp]: "isinstance e ReleasePublishError \<longleftrightarrow> exc_cls e = ReleasePublishError"
  by (cases e; cases "exc_cls e") auto

lemma read_json_response_error:
  "read_json_response decode parse r = Inl e \<Longrightarrow> exc_cls e = ReleasePublishError"
  by (auto simp: read_json_response_def split: sum.splits if_splits)

lemma release_handler_error: "release_handler t e w = (Inl d, w') \<Longrightarrow> exc_cls d = ReleasePublishError"
  by (auto simp: release_handler_def split: if_splits)

lemma catch_release_handler_error:
  "catch m (release_handler t) w = (Inl e, w') \<Longrightarrow> exc_cls e = ReleasePublishError"
  by (auto simp: catch_def split: prod.splits sum.splits dest: release_handler_error)

text \<open>The only exception class that leaves the transport.\<close>

lemma transport_request_error:
  "transport_request lib decode parse net token verb path payload x = (Inl e, x') \<Longrightarrow>
     exc_cls e = ReleasePublishError"
  by (auto simp: transport_request_def split: if_splits dest: catch_release_handler_error)

lemma transport_upload_error:
  "transport_upload decode parse net token limit owner repo i name t bytes stream x = (Inl e, x') \<Longrightarrow>
     exc_cls e = ReleasePublishError"
  by (auto simp: transport_upload_def split: if_splits dest: catch_release_handler_error)

text \<open>
  The upload loop over a stream that delivers its bytes in order and a connection that
  transmits what it is given: what is sent is exactly the announced number of bytes, taken
  from the front of the stream, and never more on any error path.
\<close>

lemma upload_chunks_exact:
  assumes read: "\<And>n x c x'. hc_read net stream n x = (Inr c, x') \<Longrightarrow>
      unread x = c @ unread x' \<and> sent x' = sent x"
    and failed: "\<And>n x e x'. hc_read net stream n x = (Inl e, x') \<Longrightarrow> sent x' = sent x"
    and send: "\<And>c x u x'. hc_send net c x = (Inr u, x') \<Longrightarrow>
      sent x' = sent x @ c \<and> unread x' = unread x"
    and lost: "\<And>c x e x'. hc_send net c x = (Inl e, x') \<Longrightarrow> \<exists>k. sent x' = sent x @ take k c"
  shows "case upload_chunks net stream limit remaining x of
      (Inr _, x') \<Rightarrow> sent x' = sent x @ take remaining (unread x) \<and> remaining \<le> length (unread x) \<and>
                     unread x' = drop remaining (unread x)
    | (Inl e, x') \<Rightarrow> \<exists>k \<le> remaining. sent x' = sent x @ take k (unread x)"
proof (induction remaining arbitrary: x rule: less_induct)
  case (less remaining)
  show ?case
  proof (cases "remaining = 0")
    case True
    then show ?thesis by (simp add: upload_chunks.simps)
  next
    case False
    obtain r x1 where step: "hc_read net stream (min limit remaining) x = (r, x1)" by fastforce
    show ?thesis
    proof (cases r)
      case (Inl e)
      with False step failed [OF step [unfolded Inl]] show ?thesis
        by (subst upload_chunks.simps) (auto intro: exI [of _ 0])
    next
      case (Inr c)
      note got = read [OF step [unfolded Inr]]
      show ?thesis
      proof (cases "c = [] \<or> length c > remaining")
        case True
        with False step Inr got show ?thesis
          by (subst upload_chunks.simps) (auto intro: exI [of _ 0])
      next
        case chunk: False
        obtain s x2 where out: "hc_send net c x1 = (s, x2)" by fastforce
        show ?thesis
        proof (cases s)
          case (Inl e)
          with lost [OF out [unfolded Inl]] obtain k where "sent x2 = sent x1 @ take k c" by blast
          moreover have "take k c = take (min k (length c)) c"
            by (metis min.commute take_all_iff take_take order_refl)
          ultimately have "sent x2 = sent x @ take (min k (length c)) (unread x)"
            "min k (length c) \<le> remaining" using chunk got by auto
          with False step Inr chunk out Inl show ?thesis
            by (subst upload_chunks.simps) (auto intro: exI [of _ "min k (length c)"])
        next
          case sent': (Inr u)
          let ?left = "remaining - length c"
          have now: "sent x2 = sent x @ c" "unread x = c @ unread x2"
            using send [OF out [unfolded sent']] got by auto
          have run: "upload_chunks net stream limit remaining x = upload_chunks net stream limit ?left x2"
            using False step Inr chunk out sent' by (subst upload_chunks.simps) auto
          have "?left < remaining" using chunk False by (cases c) auto
          note IH = less.IH [OF this, of x2]
          obtain t x' where rest: "upload_chunks net stream limit ?left x2 = (t, x')" by fastforce
          show ?thesis
          proof (cases t)
            case (Inl e)
            with IH rest obtain k where "k \<le> ?left" "sent x' = sent x2 @ take k (unread x2)" by auto
            with now chunk have "length c + k \<le> remaining"
              "sent x' = sent x @ take (length c + k) (unread x)" by auto
            with run rest Inl show ?thesis by auto
          next
            case (Inr v)
            with IH rest now chunk run show ?thesis by auto
          qed
        qed
      qed
    qed
  qed
qed

end
