(* ===== verification/GithubRelease.thy ===== *)
theory GithubRelease
  imports GithubTransport
begin

text \<open>
  The publisher half of \<^verbatim>\<open>github_release.py\<close>: preparation of the local assets, the checks on
  GitHub's answers, and \<open>GitHubReleasePublisher.publish\<close> over an arbitrary transport and
  arbitrary local files. \<open>gh_log\<close> records, newest first, every call made of the transport
  with its answer; no definition reads it.
\<close>

section \<open>State\<close>

record prepared_asset =
  pa_name :: string
  pa_stream :: nat
  pa_size :: int
  pa_digest :: string
  pa_content_type :: string
  pa_fingerprint :: "int list"

datatype gh_event =
    Requested string string "dict option" "api_response option res"
  | Uploaded int prepared_asset "api_response option res"

record 'x gh =
  gh_remote :: 'x
  gh_log :: "gh_event list"

text \<open>The local files: \<open>lf_hash_reads\<close> are the chunks read until the end of the file.\<close>

record 'x local_files =
  lf_is_symlink :: "string \<Rightarrow> ('x, bool) prog"
  lf_open :: "string \<Rightarrow> ('x, nat) prog"
  lf_fstat :: "nat \<Rightarrow> ('x, stat_result) prog"
  lf_hash_reads :: "nat \<Rightarrow> ('x, string option list) prog"
  lf_rewind :: "nat \<Rightarrow> ('x, unit) prog"
  lf_tell :: "nat \<Rightarrow> ('x, int) prog"
  lf_mime :: "string \<Rightarrow> string option"

record publisher =
  pb_owner :: string
  pb_repo :: string
  pb_tag :: string

definition gh_do :: "('x, 'a) prog \<Rightarrow> ('x gh, 'a) prog" where
  "gh_do f = (\<lambda>w. case f (gh_remote w) of (r, x) \<Rightarrow> (r, w\<lparr>gh_remote := x\<rparr>))"

definition gh_call :: "(api_response option res \<Rightarrow> gh_event) \<Rightarrow> ('x, api_response option) prog \<Rightarrow>
    ('x gh, api_response option) prog" where
  "gh_call ev f = (\<lambda>w.
     case f (gh_remote w) of (r, x) \<Rightarrow> (r, w\<lparr>gh_remote := x, gh_log := ev r # gh_log w\<rparr>))"

section \<open>Local assets\<close>

definition asset_name_rx :: rx where "asset_name_rx = name_rx is_repo_punct 126"

definition asset_fingerprint :: "stat_result \<Rightarrow> int list" where
  "asset_fingerprint m = [st_dev m, st_ino m, st_size m, st_mtime_ns m]"

fun hashed_content :: "string option list \<Rightarrow> string res" where
  "hashed_content [] = Inr []"
| "hashed_content (None # rs) = fail OSError []"
| "hashed_content (Some c # rs) =
     (if c = [] then Inr [] else map_sum id ((@) c) (hashed_content rs))"

definition prepare_asset ::
    "stdlib \<Rightarrow> 'x local_files \<Rightarrow> string \<Rightarrow> string \<Rightarrow> ('x gh, prepared_asset) prog" where
  "prepare_asset lib fs name path =
     pbind (gh_do (lf_is_symlink fs path)) (\<lambda>link.
     pseq (guard (\<not> link) (release_error ''GitHub release assets cannot be symbolic links'')) (
     pbind (gh_do (lf_open fs path)) (\<lambda>stream.
     pbind (gh_do (lf_fstat fs stream)) (\<lambda>opened.
     pseq (guard (\<not> (\<not> s_isreg (st_mode opened) \<or> st_size opened < 1))
            (release_error ''GitHub release asset must be a non-empty regular file'')) (
     pseq (guard (\<not> st_size opened > MAX_ASSET_BYTES)
            (release_error ''GitHub release asset exceeds the size limit'')) (
     pbind (gh_do (lf_hash_reads fs stream)) (\<lambda>reads.
     pbind (lift_res (hashed_content reads)) (\<lambda>content.
     pbind (gh_do (lf_fstat fs stream)) (\<lambda>closed.
     pseq (guard (\<not> (int (length content) \<noteq> st_size opened
                     \<or> asset_fingerprint closed \<noteq> asset_fingerprint opened))
            (release_error ''GitHub release asset changed while hashing'')) (
     pseq (gh_do (lf_rewind fs stream)) (
     ret \<lparr>pa_name = name, pa_stream = stream, pa_size = st_size opened,
          pa_digest = ''sha256:'' @ sha256_hex lib content,
          pa_content_type = (case lf_mime fs name of None \<Rightarrow> ''application/octet-stream'' | Some t \<Rightarrow> t),
          pa_fingerprint = asset_fingerprint opened\<rparr>)))))))))))"

fun prepare_each ::
    "stdlib \<Rightarrow> 'x local_files \<Rightarrow> (string \<times> string) list \<Rightarrow> ('x gh, prepared_asset list) prog" where
  "prepare_each lib fs [] = ret []"
| "prepare_each lib fs ((name, path) # rest) =
     pbind (prepare_asset lib fs name path) (\<lambda>a.
     pbind (prepare_each lib fs rest) (\<lambda>as. ret (a # as)))"

text \<open>\<open>assets\<close> is a dictionary: names are distinct.\<close>

definition prepare_assets ::
    "stdlib \<Rightarrow> 'x local_files \<Rightarrow> (string \<times> string) list \<Rightarrow> ('x gh, prepared_asset list) prog" where
  "prepare_assets lib fs assets =
     pseq (guard (\<not> (assets = [] \<or> length assets > 100))
            (release_error ''GitHub release asset set is invalid'')) (
     pseq (guard (list_all (\<lambda>(name, path). matches asset_name_rx name) assets)
            (release_error ''GitHub release asset filename is invalid'')) (
     pseq (guard (length (remdups (map (\<lambda>(name, path). py_casefold name) assets)) = length assets)
            (release_error ''GitHub release asset filenames are ambiguous''))
     (catch (prepare_each lib fs (sort_key fst assets))
        (release_handler ''GitHub release asset preparation failed''))))"

section \<open>Requests\<close>

text \<open>\<open>_request\<close> and \<open>_expect\<close>; a transport that does not return an \<open>ApiResponse\<close> failed.\<close>

definition publisher_request ::
    "'x transport \<Rightarrow> string \<Rightarrow> string \<Rightarrow> dict option \<Rightarrow> ('x gh, api_response) prog" where
  "publisher_request tr verb path payload =
     catch
       (pbind (gh_call (Requested verb path payload) (t_request tr verb path payload)) (\<lambda>response.
        case response of
          None \<Rightarrow> throw (release_error ''GitHub transport returned an invalid response'')
        | Some a \<Rightarrow> ret a))
       (\<lambda>e. throw (release_error ''GitHub transport request failed''))"

definition expect :: "api_response \<Rightarrow> int set \<Rightarrow> string \<Rightarrow> ('w, unit) prog" where
  "expect response statuses operation =
     guard (a_status response \<in> statuses) (release_error (''GitHub '' @ operation @ '' failed''))"

definition object_of :: "json \<Rightarrow> dict res" where
  "object_of v = (case as_obj v of
     None \<Rightarrow> fail ReleasePublishError ''GitHub API response object is invalid'' | Some d \<Rightarrow> Inr d)"

definition array_of :: "json \<Rightarrow> json list res" where
  "array_of v = (case as_list v of
     None \<Rightarrow> fail ReleasePublishError ''GitHub API response array is invalid'' | Some xs \<Rightarrow> Inr xs)"

fun objects_of :: "json list \<Rightarrow> dict list res" where
  "objects_of [] = Inr []"
| "objects_of (v # vs) = rbind (object_of v) (\<lambda>d. rbind (objects_of vs) (\<lambda>ds. Inr (d # ds)))"

definition positive_id :: "json \<Rightarrow> int res" where
  "positive_id v = (case as_int v of
     None \<Rightarrow> fail ReleasePublishError ''GitHub release identity is invalid''
   | Some i \<Rightarrow> require (\<not> i < 1) (release_error ''GitHub release identity is invalid'') (Inr i))"

definition repo_path :: "publisher \<Rightarrow> string" where
  "repo_path p = ''/repos/'' @ url_quote (pb_owner p) @ ''/'' @ url_quote (pb_repo p)"

definition verify_public_repository :: "publisher \<Rightarrow> 'x transport \<Rightarrow> ('x gh, unit) prog" where
  "verify_public_repository p tr =
     pbind (publisher_request tr ''GET'' (repo_path p) None) (\<lambda>response.
     pseq (expect response {200} ''repository verification'') (
     pbind (lift_res (object_of (a_data response))) (\<lambda>repository.
     pseq (guard (dget repository ''private'' = JBool False)
            (release_error ''GitHub repository is not proven public''))
     (guard (\<exists>t \<in> set_option (as_str (dget repository ''full_name'')).
                py_casefold t = py_casefold (pb_owner p @ ''/'' @ pb_repo p))
        (release_error ''GitHub repository identity mismatch'')))))"

definition immutability_path :: "publisher \<Rightarrow> string" where
  "immutability_path p = repo_path p @ ''/immutable-releases''"

definition enable_and_verify_immutability :: "publisher \<Rightarrow> 'x transport \<Rightarrow> ('x gh, unit) prog" where
  "enable_and_verify_immutability p tr =
     pbind (publisher_request tr ''PUT'' (immutability_path p) None) (\<lambda>enabled.
     pseq (expect enabled {204} ''immutable-release enablement'') (
     pbind (publisher_request tr ''GET'' (immutability_path p) None) (\<lambda>verified.
     pseq (expect verified {200} ''immutable-release verification'') (
     pbind (lift_res (object_of (a_data verified))) (\<lambda>d.
     guard (dget d ''enabled'' = JBool True)
       (release_error ''GitHub immutable releases are not proven enabled''))))))"

section \<open>Releases\<close>

definition page_path :: "string \<Rightarrow> nat \<Rightarrow> string" where
  "page_path base page =
     base @ ''?per_page='' @ text_of_nat PAGE_SIZE @ ''&page='' @ text_of_nat page"

definition releases_path :: "publisher \<Rightarrow> string" where
  "releases_path p = repo_path p @ ''/releases''"

definition release_path :: "publisher \<Rightarrow> int \<Rightarrow> string" where
  "release_path p i = releases_path p @ ''/'' @ text_of_int i"

text \<open>
  \<open>for page in range(1, MAX_PAGES + 1)\<close> with its \<open>else\<close>: the first argument counts the
  pages still allowed.
\<close>

fun matching_releases ::
    "publisher \<Rightarrow> 'x transport \<Rightarrow> nat \<Rightarrow> nat \<Rightarrow> dict list \<Rightarrow> ('x gh, dict list) prog" where
  "matching_releases p tr 0 page found =
     throw (release_error ''GitHub release lookup exceeded the safe page limit'')"
| "matching_releases p tr (Suc left) page found =
     pbind (publisher_request tr ''GET'' (page_path (releases_path p) page) None) (\<lambda>response.
     pseq (expect response {200} ''draft release lookup'') (
     pbind (lift_res (array_of (a_data response))) (\<lambda>releases.
     pbind (lift_res (objects_of releases)) (\<lambda>ds.
     let found' = found @ filter (\<lambda>d. dget d ''tag_name'' = JStr (pb_tag p)) ds in
     if length releases < PAGE_SIZE then ret found'
     else matching_releases p tr left (Suc page) found'))))"

definition find_release :: "publisher \<Rightarrow> 'x transport \<Rightarrow> ('x gh, dict option) prog" where
  "find_release p tr =
     pbind (publisher_request tr ''GET'' (releases_path p @ ''/tags/'' @ url_quote (pb_tag p)) None)
       (\<lambda>direct.
     pseq (expect direct {200, 404} ''release lookup'') (
     if a_status direct = 200 then
       pbind (lift_res (object_of (a_data direct))) (\<lambda>d. ret (Some d))
     else
       pbind (matching_releases p tr MAX_PAGES 1 []) (\<lambda>found.
       pseq (guard (\<not> length found > 1) (release_error ''GitHub release tag is ambiguous''))
       (ret (case found of [] \<Rightarrow> None | d # _ \<Rightarrow> Some d)))))"

definition create_draft :: "publisher \<Rightarrow> 'x transport \<Rightarrow> ('x gh, dict) prog" where
  "create_draft p tr =
     pbind (publisher_request tr ''POST'' (releases_path p)
       (Some [(''tag_name'', JStr (pb_tag p)), (''name'', JStr (pb_tag p)), (''draft'', JBool True),
              (''prerelease'', JBool False), (''generate_release_notes'', JBool False)])) (\<lambda>response.
     pseq (expect response {201} ''draft release creation'')
     (lift_res (object_of (a_data response))))"

definition validate_draft_release :: "publisher \<Rightarrow> dict \<Rightarrow> int res" where
  "validate_draft_release p release =
     rbind (positive_id (dget release ''id'')) (\<lambda>release_id.
     require (\<not> (dget release ''tag_name'' \<noteq> JStr (pb_tag p) \<or> dget release ''draft'' \<noteq> JBool True
                \<or> dget release ''prerelease'' \<noteq> JBool False
                \<or> dget release ''immutable'' \<noteq> JBool False))
       (release_error ''GitHub draft release metadata mismatch'') (Inr release_id))"

definition validate_published_release :: "publisher \<Rightarrow> dict \<Rightarrow> int res" where
  "validate_published_release p release =
     rbind (positive_id (dget release ''id'')) (\<lambda>release_id.
     require (\<not> (dget release ''tag_name'' \<noteq> JStr (pb_tag p) \<or> dget release ''draft'' \<noteq> JBool False
                \<or> dget release ''prerelease'' \<noteq> JBool False
                \<or> dget release ''immutable'' \<noteq> JBool True))
       (release_error ''GitHub published release is not proven immutable'') (Inr release_id))"

section \<open>Assets of a release\<close>

fun asset_pages ::
    "publisher \<Rightarrow> 'x transport \<Rightarrow> int \<Rightarrow> nat \<Rightarrow> nat \<Rightarrow> dict list \<Rightarrow> ('x gh, dict list) prog" where
  "asset_pages p tr i 0 page assets =
     throw (release_error ''GitHub asset lookup exceeded the safe page limit'')"
| "asset_pages p tr i (Suc left) page assets =
     pbind (publisher_request tr ''GET'' (page_path (release_path p i @ ''/assets'') page) None) (\<lambda>response.
     pseq (expect response {200} ''release asset lookup'') (
     pbind (lift_res (array_of (a_data response))) (\<lambda>batch.
     pbind (lift_res (objects_of batch)) (\<lambda>ds.
     if length batch < PAGE_SIZE then ret (assets @ ds)
     else asset_pages p tr i left (Suc page) (assets @ ds)))))"

definition list_assets :: "publisher \<Rightarrow> 'x transport \<Rightarrow> int \<Rightarrow> ('x gh, dict list) prog" where
  "list_assets p tr release_id = asset_pages p tr release_id MAX_PAGES 1 []"

definition verify_asset :: "dict \<Rightarrow> prepared_asset \<Rightarrow> unit res" where
  "verify_asset raw expected =
     (let listed = dget raw ''size'' in
      require (\<not> (dget raw ''name'' \<noteq> JStr (pa_name expected) \<or> (\<exists>b. listed = JBool b)
                 \<or> \<not> py_eq listed (JInt (pa_size expected)) \<or> dget raw ''state'' \<noteq> JStr ''uploaded''))
        (release_error ''GitHub release asset metadata mismatch'') (
      require (\<not> (dget raw ''digest'' \<noteq> JNull \<and> dget raw ''digest'' \<noteq> JStr (pa_digest expected)))
        (release_error ''GitHub release asset digest mismatch'') (Inr ())))"

fun present_assets :: "prepared_asset list \<Rightarrow> string list \<Rightarrow> dict list \<Rightarrow> string list res" where
  "present_assets expected present [] = Inr present"
| "present_assets expected present (raw # rest) =
     (case as_str (dget raw ''name'') of
        None \<Rightarrow> fail ReleasePublishError ''GitHub release contains an unexpected asset''
      | Some name \<Rightarrow>
          (if name \<in> set present then
             fail ReleasePublishError ''GitHub release contains an unexpected asset''
           else case find (\<lambda>a. pa_name a = name) expected of
               None \<Rightarrow> fail ReleasePublishError ''GitHub release contains an unexpected asset''
             | Some a \<Rightarrow>
                 rbind (verify_asset raw a) (\<lambda>_. present_assets expected (name # present) rest)))"

definition verify_asset_set :: "dict list \<Rightarrow> prepared_asset list \<Rightarrow> bool \<Rightarrow> string list res" where
  "verify_asset_set raw_assets expected require_complete =
     rbind (present_assets expected [] raw_assets) (\<lambda>present.
     require (\<not> (require_complete \<and> set present \<noteq> set (map pa_name expected)))
       (release_error ''GitHub release asset set is incomplete'') (Inr present))"

definition upload_asset ::
    "publisher \<Rightarrow> 'x transport \<Rightarrow> 'x local_files \<Rightarrow> int \<Rightarrow> prepared_asset \<Rightarrow> ('x gh, unit) prog" where
  "upload_asset p tr fs release_id asset =
     pbind (catch
       (pbind (gh_do (lf_fstat fs (pa_stream asset))) (\<lambda>m.
        pseq (guard (asset_fingerprint m = pa_fingerprint asset)
               (release_error ''GitHub release asset changed before upload'')) (
        pseq (gh_do (lf_rewind fs (pa_stream asset))) (
        pbind (gh_call (Uploaded release_id asset)
          (t_upload tr (pb_owner p) (pb_repo p) release_id (pa_name asset) (pa_content_type asset)
             (pa_size asset) (pa_stream asset))) (\<lambda>response.
        case response of
          None \<Rightarrow> throw (release_error ''GitHub transport returned an invalid response'')
        | Some a \<Rightarrow> ret a)))))
       (\<lambda>e. throw (release_error ''GitHub transport failed during asset upload''))) (\<lambda>response.
     pseq (expect response {201} ''release asset upload'') (
     pbind (lift_res (object_of (a_data response))) (\<lambda>d.
     pseq (lift_res (verify_asset d asset)) (
     pbind (gh_do (lf_tell fs (pa_stream asset))) (\<lambda>position.
     if position \<noteq> pa_size asset
     then throw (release_error ''GitHub release asset changed during upload'')
     else pbind (gh_do (lf_fstat fs (pa_stream asset))) (\<lambda>m.
       guard (asset_fingerprint m = pa_fingerprint asset)
         (release_error ''GitHub release asset changed during upload'')))))))"

fun upload_missing ::
    "publisher \<Rightarrow> 'x transport \<Rightarrow> 'x local_files \<Rightarrow> int \<Rightarrow> string list \<Rightarrow> prepared_asset list \<Rightarrow>
     ('x gh, unit) prog" where
  "upload_missing p tr fs release_id present [] = ret ()"
| "upload_missing p tr fs release_id present (asset # rest) =
     (if pa_name asset \<in> set present then upload_missing p tr fs release_id present rest
      else pseq (upload_asset p tr fs release_id asset)
             (upload_missing p tr fs release_id present rest))"

definition publish_draft :: "publisher \<Rightarrow> 'x transport \<Rightarrow> int \<Rightarrow> ('x gh, unit) prog" where
  "publish_draft p tr release_id =
     pbind (publisher_request tr ''PATCH'' (release_path p release_id)
       (Some [(''draft'', JBool False), (''prerelease'', JBool False)])) (\<lambda>response.
     pseq (expect response {200} ''draft release publication'') (
     pbind (lift_res (object_of (a_data response))) (\<lambda>release.
     pbind (lift_res (positive_id (dget release ''id''))) (\<lambda>found.
     guard (\<not> (found \<noteq> release_id \<or> dget release ''tag_name'' \<noteq> JStr (pb_tag p)
               \<or> dget release ''draft'' \<noteq> JBool False \<or> dget release ''prerelease'' \<noteq> JBool False))
       (release_error ''GitHub publication response mismatch'')))))"

section \<open>Publishing\<close>

record published_asset =
  pu_name :: string
  pu_size :: int
  pu_digest :: string
  pu_download_url :: string

record published_release =
  pr_owner :: string
  pr_repo :: string
  pr_tag :: string
  pr_release_id :: int
  pr_source :: string
  pr_html_url :: string
  pr_assets :: "published_asset list"
  pr_already_published :: bool

definition release_result :: "publisher \<Rightarrow> int \<Rightarrow> prepared_asset list \<Rightarrow> bool \<Rightarrow> published_release" where
  "release_result p release_id assets already_published =
     (let base = ''github.com/'' @ pb_owner p @ ''/'' @ pb_repo p @ ''/releases/'';
          download = base @ ''download/'' @ pb_tag p in
      \<lparr>pr_owner = pb_owner p, pr_repo = pb_repo p, pr_tag = pb_tag p, pr_release_id = release_id,
       pr_source = ''https:'' @ download, pr_html_url = ''https://'' @ base @ ''tag/'' @ pb_tag p,
       pr_assets = map (\<lambda>a. \<lparr>pu_name = pa_name a, pu_size = pa_size a, pu_digest = pa_digest a,
                             pu_download_url = ''https://'' @ download @ ''/'' @ pa_name a\<rparr>) assets,
       pr_already_published = already_published\<rparr>)"

text \<open>\<open>listed = self._list_assets(id)\<close> followed by \<open>self._verify_asset_set(listed, ...)\<close>.\<close>

definition listed_assets ::
    "publisher \<Rightarrow> 'x transport \<Rightarrow> int \<Rightarrow> prepared_asset list \<Rightarrow> bool \<Rightarrow> ('x gh, string list) prog" where
  "listed_assets p tr release_id prepared require_complete =
     pbind (list_assets p tr release_id) (\<lambda>listed.
     lift_res (verify_asset_set listed prepared require_complete))"

definition complete_draft ::
    "publisher \<Rightarrow> 'x transport \<Rightarrow> 'x local_files \<Rightarrow> prepared_asset list \<Rightarrow> int \<Rightarrow>
     ('x gh, published_release) prog" where
  "complete_draft p tr fs prepared release_id =
     pbind (listed_assets p tr release_id prepared False) (\<lambda>present.
     pseq (upload_missing p tr fs release_id present prepared) (
     pseq (listed_assets p tr release_id prepared True) (
     pseq (publish_draft p tr release_id) (
     pbind (publisher_request tr ''GET'' (release_path p release_id) None) (\<lambda>final.
     pseq (expect final {200} ''release verification'') (
     pbind (lift_res (object_of (a_data final))) (\<lambda>d.
     pbind (lift_res (validate_published_release p d)) (\<lambda>final_id.
     pseq (guard (final_id = release_id) (release_error ''GitHub release identity mismatch'')) (
     pseq (listed_assets p tr release_id prepared True)
     (ret (release_result p release_id prepared False)))))))))))"

definition publish_release ::
    "stdlib \<Rightarrow> publisher \<Rightarrow> 'x transport \<Rightarrow> 'x local_files \<Rightarrow> (string \<times> string) list \<Rightarrow>
     ('x gh, published_release) prog" where
  "publish_release lib p tr fs assets =
     pbind (prepare_assets lib fs assets) (\<lambda>prepared.
     pseq (verify_public_repository p tr) (
     pseq (enable_and_verify_immutability p tr) (
     pbind (find_release p tr) (\<lambda>existing.
     case existing of
       Some d \<Rightarrow>
         if dget d ''draft'' = JBool False then
           pbind (lift_res (validate_published_release p d)) (\<lambda>release_id.
           pseq (listed_assets p tr release_id prepared True)
           (ret (release_result p release_id prepared True)))
         else pbind (lift_res (validate_draft_release p d)) (complete_draft p tr fs prepared)
     | None \<Rightarrow>
         pbind (create_draft p tr) (\<lambda>d.
         pbind (lift_res (validate_draft_release p d)) (complete_draft p tr fs prepared))))))"

text \<open>The constructor of \<^verbatim>\<open>GitHubReleasePublisher\<close>.\<close>

definition make_publisher :: "string \<Rightarrow> string \<Rightarrow> string \<Rightarrow> string \<Rightarrow> publisher res" where
  "make_publisher owner repo tag token =
     rbind (validate_token token) (\<lambda>_.
     rbind (validate_coordinates owner repo tag) (\<lambda>_.
     Inr \<lparr>pb_owner = owner, pb_repo = repo, pb_tag = tag\<rparr>))"

text \<open>A run of the publisher from an empty log.\<close>

definition start_gh :: "'x \<Rightarrow> 'x gh" where "start_gh x = \<lparr>gh_remote = x, gh_log = []\<rparr>"

end
