(* ===== verification/GithubSafety.thy ===== *)
theory GithubSafety
  imports GithubRelease Hoare
begin

text \<open>
  What a run of the publisher does to GitHub, read off its call log: no release is created,
  filled or published before the repository was proven public and its releases immutable,
  nothing but the missing assets is uploaded, a draft is published only right after its
  complete asset set was listed and verified, and a result is returned only for an immutable
  release whose listing is exactly the prepared assets.
\<close>

section \<open>What the log proves\<close>

definition ok_response :: "json \<Rightarrow> api_response option res" where
  "ok_response v = Inr (Some \<lparr>a_status = 200, a_data = v\<rparr>)"

definition proven_public :: "publisher \<Rightarrow> gh_event list \<Rightarrow> bool" where
  "proven_public p hist \<longleftrightarrow>
     (\<exists>d t. Requested ''GET'' (repo_path p) None (ok_response (JObj d)) \<in> set hist \<and>
        dget d ''private'' = JBool False \<and> dget d ''full_name'' = JStr t \<and>
        py_casefold t = py_casefold (pb_owner p @ ''/'' @ pb_repo p))"

definition proven_immutable :: "publisher \<Rightarrow> gh_event list \<Rightarrow> bool" where
  "proven_immutable p hist \<longleftrightarrow>
     (\<exists>d. Requested ''GET'' (immutability_path p) None (ok_response (JObj d)) \<in> set hist \<and>
        dget d ''enabled'' = JBool True)"

text \<open>A release some answer of the log showed, alone or in a page.\<close>

fun answer_shows :: "dict \<Rightarrow> gh_event \<Rightarrow> bool" where
  "answer_shows d (Requested verb path payload (Inr (Some a))) \<longleftrightarrow>
     a_data a = JObj d \<or> (\<exists>vs. a_data a = JList vs \<and> JObj d \<in> set vs)"
| "answer_shows d ev \<longleftrightarrow> False"

definition shown :: "dict \<Rightarrow> gh_event list \<Rightarrow> bool" where
  "shown d hist \<longleftrightarrow> list_ex (answer_shows d) hist"

definition drafted :: "publisher \<Rightarrow> int \<Rightarrow> gh_event list \<Rightarrow> bool" where
  "drafted p i hist \<longleftrightarrow>
     (\<exists>d. shown d hist \<and> dget d ''id'' = JInt i \<and> 1 \<le> i \<and> dget d ''tag_name'' = JStr (pb_tag p) \<and>
        dget d ''draft'' = JBool True \<and> dget d ''prerelease'' = JBool False \<and>
        dget d ''immutable'' = JBool False)"

text \<open>
  The answers to the requests of successive pages under a path, newest first, and when such
  pages are a whole listing: every page but the last is full and the last is not.
\<close>

fun page_events :: "string \<Rightarrow> nat \<Rightarrow> dict list list \<Rightarrow> gh_event list" where
  "page_events base page [] = []"
| "page_events base page (ds # rest) =
     page_events base (Suc page) rest @
     [Requested ''GET'' (page_path base page) None (ok_response (JList (map JObj ds)))]"

fun whole_listing :: "dict list list \<Rightarrow> bool" where
  "whole_listing [] = False"
| "whole_listing (ds # rest) =
     (if rest = [] then length ds < PAGE_SIZE else PAGE_SIZE \<le> length ds \<and> whole_listing rest)"

text \<open>The answers of a listing of a release's assets.\<close>

definition listing_events :: "publisher \<Rightarrow> int \<Rightarrow> dict list list \<Rightarrow> gh_event list" where
  "listing_events p i batches = page_events (release_path p i @ ''/assets'') 1 batches"

text \<open>
  The last calls found no release of the tag: the direct lookup answered 404, and then the whole
  listing of the repository's releases, drafts included, had none with the tag.
\<close>

definition tag_path :: "publisher \<Rightarrow> string" where
  "tag_path p = releases_path p @ ''/tags/'' @ url_quote (pb_tag p)"

definition shown_absent :: "publisher \<Rightarrow> gh_event list \<Rightarrow> bool" where
  "shown_absent p hist \<longleftrightarrow>
     (\<exists>batches v older. hist = page_events (releases_path p) 1 batches @
          Requested ''GET'' (tag_path p) None (Inr (Some \<lparr>a_status = 404, a_data = v\<rparr>)) # older \<and>
        whole_listing batches \<and> (\<forall>d \<in> set (concat batches). dget d ''tag_name'' \<noteq> JStr (pb_tag p)))"

definition listed_names :: "dict list \<Rightarrow> json set" where
  "listed_names ds = (\<lambda>d. dget d ''name'') ` set ds"

text \<open>The listing is the prepared set: the same names, each once, each with its metadata.\<close>

definition asset_agrees :: "dict \<Rightarrow> prepared_asset \<Rightarrow> bool" where
  "asset_agrees d a \<longleftrightarrow>
     dget d ''name'' = JStr (pa_name a) \<and> py_eq (dget d ''size'') (JInt (pa_size a)) \<and>
     dget d ''state'' = JStr ''uploaded'' \<and>
     (dget d ''digest'' = JNull \<or> dget d ''digest'' = JStr (pa_digest a))"

definition exact_listing :: "prepared_asset list \<Rightarrow> dict list \<Rightarrow> bool" where
  "exact_listing prepared ds \<longleftrightarrow>
     distinct (map (\<lambda>d. dget d ''name'') ds) \<and>
     listed_names ds = (\<lambda>a. JStr (pa_name a)) ` set prepared \<and>
     (\<forall>d \<in> set ds. \<exists>a \<in> set prepared. asset_agrees d a)"

definition listed_exactly :: "publisher \<Rightarrow> int \<Rightarrow> prepared_asset list \<Rightarrow> gh_event list \<Rightarrow> bool" where
  "listed_exactly p i prepared hist \<longleftrightarrow>
     (\<exists>batches older. hist = listing_events p i batches @ older \<and> whole_listing batches \<and>
        exact_listing prepared (concat batches))"

definition listed_without :: "publisher \<Rightarrow> int \<Rightarrow> string \<Rightarrow> gh_event list \<Rightarrow> bool" where
  "listed_without p i name hist \<longleftrightarrow>
     (\<exists>newer batches older. hist = newer @ listing_events p i batches @ older \<and> whole_listing batches \<and>
        JStr name \<notin> listed_names (concat batches))"

definition uploaded_names :: "gh_event list \<Rightarrow> string set" where
  "uploaded_names hist = {pa_name a |a. \<exists>i r. Uploaded i a r \<in> set hist}"

text \<open>When an event may follow the earlier ones.\<close>

definition change_allowed :: "publisher \<Rightarrow> prepared_asset list \<Rightarrow> gh_event \<Rightarrow> gh_event list \<Rightarrow> bool" where
  "change_allowed p prepared ev earlier \<longleftrightarrow>
     (case ev of
        Requested verb path payload r \<Rightarrow>
          verb = ''GET'' \<or>
          verb = ''PUT'' \<and> path = immutability_path p \<and> proven_public p earlier \<or>
          verb = ''POST'' \<and> path = releases_path p \<and> proven_public p earlier \<and>
            proven_immutable p earlier \<and> shown_absent p earlier \<and>
            (\<exists>d. payload = Some d \<and> dget d ''tag_name'' = JStr (pb_tag p) \<and> dget d ''draft'' = JBool True) \<or>
          verb = ''PATCH'' \<and> proven_public p earlier \<and> proven_immutable p earlier \<and>
            (\<exists>i. path = release_path p i \<and> drafted p i earlier \<and> listed_exactly p i prepared earlier)
      | Uploaded i a r \<Rightarrow>
          proven_public p earlier \<and> proven_immutable p earlier \<and> drafted p i earlier \<and>
          a \<in> set prepared \<and> listed_without p i (pa_name a) earlier \<and>
          pa_name a \<notin> uploaded_names earlier)"

text \<open>What is proven stays proven.\<close>

lemma shown_mono: "shown d es \<Longrightarrow> shown d (e # es)"
  by (simp add: shown_def)

lemma proven_mono:
  "proven_public p es \<Longrightarrow> proven_public p (e # es)"
  "proven_immutable p es \<Longrightarrow> proven_immutable p (e # es)"
  "drafted p i es \<Longrightarrow> drafted p i (e # es)"
  "listed_without p i n es \<Longrightarrow> listed_without p i n (e # es)"
  by (auto simp: proven_public_def proven_immutable_def drafted_def dest: shown_mono)
    (auto simp: listed_without_def append_eq_Cons_conv, metis append_Cons)

section \<open>Triples over the log\<close>

text \<open>
  Every program of the publisher keeps the log allowed, on every outcome; a triple states
  what else the log and the answer satisfy on return.
\<close>

abbreviation log_ok :: "publisher \<Rightarrow> prepared_asset list \<Rightarrow> gh_event list \<Rightarrow> bool" where
  "log_ok p prepared \<equiv> guarded_log (change_allowed p prepared)"

definition log_triple ::
    "publisher \<Rightarrow> prepared_asset list \<Rightarrow> (gh_event list \<Rightarrow> bool) \<Rightarrow> ('x gh, 'a) prog \<Rightarrow>
     ('a \<Rightarrow> gh_event list \<Rightarrow> bool) \<Rightarrow> bool" where
  "log_triple p prepared P m Q \<longleftrightarrow>
     triple (\<lambda>w. log_ok p prepared (gh_log w) \<and> P (gh_log w)) m
       (\<lambda>a w. log_ok p prepared (gh_log w) \<and> Q a (gh_log w)) (\<lambda>e w. log_ok p prepared (gh_log w))"

lemma log_tripleD:
  "log_triple p prepared P m Q \<Longrightarrow> log_ok p prepared (gh_log w) \<Longrightarrow> P (gh_log w) \<Longrightarrow> m w = (r, w') \<Longrightarrow>
     log_ok p prepared (gh_log w') \<and> (\<forall>x. r = Inr x \<longrightarrow> Q x (gh_log w'))"
  unfolding log_triple_def by (cases r) (auto dest: tripleD)

lemma log_triple_pre:
  "(\<And>l. log_ok p prepared l \<Longrightarrow> P l \<Longrightarrow> P' l) \<Longrightarrow> log_triple p prepared P' m Q \<Longrightarrow>
   log_triple p prepared P m Q"
  unfolding log_triple_def by (erule triple_conseq) auto

lemma log_triple_post:
  "log_triple p prepared P m Q \<Longrightarrow> (\<And>a l. log_ok p prepared l \<Longrightarrow> Q a l \<Longrightarrow> Q' a l) \<Longrightarrow>
   log_triple p prepared P m Q'"
  unfolding log_triple_def by (erule triple_conseq) auto

lemma log_triple_bind [triple_intros]:
  "log_triple p prepared P m M \<Longrightarrow> (\<And>x. log_triple p prepared (M x) (k x) Q) \<Longrightarrow>
   log_triple p prepared P (pbind m k) Q"
  unfolding log_triple_def by (rule triple_pbind)

lemma log_triple_pure [triple_intros]:
  "log_triple p prepared P (ret x) (\<lambda>a l. a = x \<and> P l)"
  "log_triple p prepared P (throw e) (\<lambda>_ _. False)"
  "log_triple p prepared P (lift_res r) (\<lambda>a l. r = Inr a \<and> P l)"
  "log_triple p prepared P (guard ok e) (\<lambda>_ l. ok \<and> P l)"
  "log_triple p prepared P (expect a st op) (\<lambda>_ l. a_status a \<in> st \<and> P l)"
  by (auto simp: log_triple_def triple_def guard_def expect_def split: sum.split)

lemma log_triple_do [triple_intros]: "log_triple p prepared P (gh_do f) (\<lambda>_. P)"
  by (auto simp: log_triple_def triple_def gh_do_def split: prod.split sum.split)

lemma log_triple_call:
  "(\<And>l r. log_ok p prepared l \<Longrightarrow> P l \<Longrightarrow> change_allowed p prepared (ev r) l) \<Longrightarrow>
   log_triple p prepared P (gh_call ev f) (\<lambda>a l. \<exists>older. l = ev (Inr a) # older \<and> P older)"
  by (auto simp: log_triple_def triple_def gh_call_def split: prod.splits sum.splits)

lemma log_triple_catch_all [triple_intros]:
  "log_triple p prepared P m Q \<Longrightarrow> log_triple p prepared P (catch m (\<lambda>e. throw (h e))) Q"
  unfolding log_triple_def by (rule triple_catch, assumption, rule triple_throw)

lemma log_triple_if:
  "(b \<Longrightarrow> log_triple p prepared P m Q) \<Longrightarrow> (\<not> b \<Longrightarrow> log_triple p prepared P n Q) \<Longrightarrow>
   log_triple p prepared P (if b then m else n) Q"
  by simp

lemma log_triple_assume:
  "(b \<Longrightarrow> log_triple p prepared P m Q) \<Longrightarrow> log_triple p prepared (\<lambda>l. b \<and> P l) m Q"
  by (auto simp: log_triple_def triple_def)

lemma log_triple_request:
  assumes "\<And>l r. log_ok p prepared l \<Longrightarrow> P l \<Longrightarrow> change_allowed p prepared (Requested verb path payload r) l"
  shows "log_triple p prepared P (publisher_request tr verb path payload)
     (\<lambda>a l. \<exists>older. l = Requested verb path payload (Inr (Some a)) # older \<and> P older)"
proof -
  let ?call = "gh_call (Requested verb path payload) (t_request tr verb path payload)"
  have "log_triple p prepared (\<lambda>l. \<exists>older. l = Requested verb path payload (Inr o') # older \<and> P older)
      (case o' of None \<Rightarrow> throw (release_error ''GitHub transport returned an invalid response'')
       | Some a \<Rightarrow> ret a)
      (\<lambda>a l. \<exists>older. l = Requested verb path payload (Inr (Some a)) # older \<and> P older)" for o'
    by (cases o') (simp_all, (rule log_triple_post, rule log_triple_pure, simp)+)
  then show ?thesis
    unfolding publisher_request_def
    by (intro log_triple_catch_all) (rule log_triple_bind, rule log_triple_call, erule (1) assms)
qed

lemma api_response_eq: "a_status r = s \<Longrightarrow> a_data r = v \<Longrightarrow> r = \<lparr>a_status = s, a_data = v\<rparr>"
  by (cases r) simp

lemma object_of_Inr [simp]: "object_of v = Inr d \<longleftrightarrow> v = JObj d"
  by (auto simp: object_of_def split: option.splits)

lemma array_of_Inr [simp]: "array_of v = Inr d \<longleftrightarrow> v = JList d"
  by (auto simp: array_of_def split: option.splits)

lemma objects_of_Inr [simp]: "objects_of vs = Inr ds \<longleftrightarrow> vs = map JObj ds"
  by (induction vs arbitrary: ds) (auto simp: rbind_Inr_iff)

lemma positive_id_Inr [simp]: "positive_id v = Inr i \<longleftrightarrow> v = JInt i \<and> 1 \<le> i"
  by (auto simp: positive_id_def res_iffs case_option_res_iffs)

section \<open>Every call is allowed\<close>

definition log_ready :: "publisher \<Rightarrow> gh_event list \<Rightarrow> bool" where
  "log_ready p l \<longleftrightarrow> proven_public p l \<and> proven_immutable p l"

lemma get_allowed [simp]: "change_allowed p prepared (Requested ''GET'' path payload r) l"
  by (simp add: change_allowed_def)

lemma log_ready_mono [simp]: "log_ready p l \<Longrightarrow> log_ready p (e # l)"
  by (simp add: log_ready_def proven_mono)

lemma log_triple_get [triple_intros]:
  "log_triple p prepared P (publisher_request tr ''GET'' path payload)
     (\<lambda>a l. \<exists>older. l = Requested ''GET'' path payload (Inr (Some a)) # older \<and> P older)"
  by (rule log_triple_request) simp

lemma uploaded_names_Cons [simp]:
  "uploaded_names [] = {}"
  "uploaded_names (Requested verb path payload r # l) = uploaded_names l"
  "uploaded_names (Uploaded i a r' # l) = insert (pa_name a) (uploaded_names l)"
  by (auto simp: uploaded_names_def)

lemma uploaded_names_pages [simp]:
  "uploaded_names (page_events base page batches @ l) = uploaded_names l"
  by (induction batches arbitrary: page l) simp_all

lemma uploaded_names_listing [simp]:
  "uploaded_names (listing_events p i batches @ l) = uploaded_names l"
  by (simp add: listing_events_def)

text \<open>The calls that change no release.\<close>

fun read_only :: "gh_event \<Rightarrow> bool" where
  "read_only (Requested verb path payload r) \<longleftrightarrow> verb = ''GET'' \<or> verb = ''PUT''"
| "read_only (Uploaded i a r) \<longleftrightarrow> False"

lemma read_only_uploads: "list_all read_only l \<Longrightarrow> uploaded_names l = {}"
proof (induction l)
  case (Cons e l)
  then show ?case by (cases e) auto
qed simp

lemma verify_public_triple:
  "log_triple p prepared (\<lambda>l. list_all read_only l) (verify_public_repository p tr)
     (\<lambda>_ l. proven_public p l \<and> list_all read_only l)"
  unfolding verify_public_repository_def
  by ((rule triple_intros)+, rule log_triple_post, rule triple_intros)
    (auto simp: proven_public_def ok_response_def dest!: api_response_eq)

lemma enable_immutability_triple:
  "log_triple p prepared (\<lambda>l. proven_public p l \<and> list_all read_only l)
     (enable_and_verify_immutability p tr) (\<lambda>_ l. log_ready p l \<and> list_all read_only l)"
  unfolding enable_and_verify_immutability_def
  by (rule log_triple_bind, rule log_triple_request, simp add: change_allowed_def,
      (rule triple_intros)+, rule log_triple_post, rule triple_intros)
    (auto simp: log_ready_def proven_mono proven_immutable_def ok_response_def dest!: api_response_eq)

lemma shown_Cons [simp]: "shown d (e # l) \<longleftrightarrow> answer_shows d e \<or> shown d l"
  by (simp add: shown_def)

lemma shown_pages:
  "d \<in> set (concat batches) \<Longrightarrow> shown d (page_events base page batches @ l)"
  by (induction batches arbitrary: page l) (auto simp: ok_response_def shown_def)

lemma mono_append:
  "log_ready p l \<Longrightarrow> log_ready p (es @ l)"
  "drafted p i l \<Longrightarrow> drafted p i (es @ l)"
  "shown d l \<Longrightarrow> shown d (es @ l)"
  "listed_without p i n l \<Longrightarrow> listed_without p i n (es @ l)"
  by (induction es) (simp_all add: proven_mono)

lemma read_only_pages [simp]: "list_all read_only (page_events base page batches)"
  by (induction batches arbitrary: page) simp_all

lemma page_event:
  assumes "a_data a = JList (map JObj ds)" "a_status a = 200"
  shows "Requested verb path None (Inr (Some a)) = Requested verb path None (ok_response (JList (map JObj ds)))"
  using assms by (cases a) (simp add: ok_response_def)

lemma read_page_triple:
  assumes "\<And>ds. log_triple p prepared
      (\<lambda>l. \<exists>older. l = Requested ''GET'' path None (ok_response (JList (map JObj ds))) # older \<and> P older)
      (k (map JObj ds) ds) Q"
  shows "log_triple p prepared P (pbind (publisher_request tr ''GET'' path None) (\<lambda>response.
     pseq (expect response {200} op) (
     pbind (lift_res (array_of (a_data response))) (\<lambda>batch.
     pbind (lift_res (objects_of batch)) (\<lambda>ds. k batch ds))))) Q"
  apply (rule log_triple_bind, rule log_triple_get)
  apply (rule log_triple_bind, rule log_triple_pure)
  apply (rule log_triple_bind, rule log_triple_pure)
  apply (rule log_triple_bind, rule log_triple_pure)
  subgoal for a b batch ds
    using page_event [of a ds]
    by (cases "batch = map JObj ds")
      (auto intro!: log_triple_pre [OF _ assms [of ds]], simp add: log_triple_def triple_def)
  done

lemma last_page:
  "P older \<Longrightarrow> length ds < PAGE_SIZE \<Longrightarrow> Q (concat [ds]) \<Longrightarrow>
     \<exists>batches older'. Requested ''GET'' (page_path base page) None (ok_response (JList (map JObj ds))) # older =
        page_events base page batches @ older' \<and> P older' \<and> whole_listing batches \<and> Q (concat batches)"
  by (intro exI [of _ "[ds]"] exI [of _ older]) simp

lemma more_pages:
  "P older \<Longrightarrow> whole_listing batches \<Longrightarrow> PAGE_SIZE \<le> length ds \<Longrightarrow> Q (concat (ds # batches)) \<Longrightarrow>
     \<exists>batches' older'. page_events base (Suc page) batches @
          Requested ''GET'' (page_path base page) None (ok_response (JList (map JObj ds))) # older =
        page_events base page batches' @ older' \<and> P older' \<and> whole_listing batches' \<and> Q (concat batches')"
  by (intro exI [of _ "ds # batches"] exI [of _ older]) (cases batches; simp)

lemma matching_releases_triple:
  "log_triple p prepared P (matching_releases p tr left page found)
     (\<lambda>ds l. \<exists>batches older. l = page_events (releases_path p) page batches @ older \<and> P older \<and>
        whole_listing batches \<and>
        ds = found @ filter (\<lambda>d. dget d ''tag_name'' = JStr (pb_tag p)) (concat batches))"
proof (induction left arbitrary: P page found)
  case 0
  show ?case unfolding matching_releases.simps by (rule log_triple_post, rule log_triple_pure) simp
next
  case (Suc left)
  show ?case
    unfolding matching_releases.simps Let_def
    by (rule read_page_triple, rule log_triple_if, (rule log_triple_post, rule log_triple_pure)[1],
        clarsimp, rule last_page, assumption, simp, simp,
        rule log_triple_post, rule Suc.IH, clarsimp, rule more_pages, assumption+, simp, simp)
qed

lemma find_release_triple:
  "log_triple p prepared (\<lambda>l. log_ready p l \<and> list_all read_only l) (find_release p tr)
     (\<lambda>found l. log_ready p l \<and> list_all read_only l \<and> (\<forall>d. found = Some d \<longrightarrow> shown d l) \<and>
        (found = None \<longrightarrow> shown_absent p l))"
proof -
  let ?missed = "\<lambda>l. \<exists>v older. l = Requested ''GET'' (tag_path p) None (Inr (Some \<lparr>a_status = 404, a_data = v\<rparr>)) # older \<and>
      log_ready p older \<and> list_all read_only older"
  have pick: "log_triple p prepared ?missed
      (pbind (matching_releases p tr left 1 []) (\<lambda>found. pseq (guard (\<not> length found > 1) e)
         (ret (case found of [] \<Rightarrow> None | d # _ \<Rightarrow> Some d))))
      (\<lambda>found l. log_ready p l \<and> list_all read_only l \<and> (\<forall>d. found = Some d \<longrightarrow> shown d l) \<and>
        (found = None \<longrightarrow> shown_absent p l))" for left e
  proof (rule log_triple_bind, rule matching_releases_triple, rule log_triple_bind, rule log_triple_pure,
      rule log_triple_post, rule log_triple_pure, clarsimp, intro conjI allI impI)
    fix batches v older d
    assume "log_ready p older"
    then show "log_ready p (page_events (releases_path p) (Suc 0) batches @
        Requested ''GET'' (tag_path p) None (Inr (Some \<lparr>a_status = 404, a_data = v\<rparr>)) # older)"
      by (intro mono_append) simp
  next
    fix batches :: "dict list list" and v older d and l :: "gh_event list"
    assume "(case filter (\<lambda>d. dget d ''tag_name'' = JStr (pb_tag p)) (concat batches) of [] \<Rightarrow> None | d # _ \<Rightarrow> Some d) = Some d"
    then have "d \<in> set (filter (\<lambda>d. dget d ''tag_name'' = JStr (pb_tag p)) (concat batches))"
      by (cases "filter (\<lambda>d. dget d ''tag_name'' = JStr (pb_tag p)) (concat batches)") simp_all
    then have "d \<in> set (concat batches)" by simp
    then show "shown d (page_events (releases_path p) (Suc 0) batches @
        Requested ''GET'' (tag_path p) None (Inr (Some \<lparr>a_status = 404, a_data = v\<rparr>)) # older)"
      by (rule shown_pages)
  next
    fix batches :: "dict list list" and v older
    assume whole: "whole_listing batches"
      and "(case filter (\<lambda>d. dget d ''tag_name'' = JStr (pb_tag p)) (concat batches) of [] \<Rightarrow> None | d # _ \<Rightarrow> Some d) = None"
    then have "filter (\<lambda>d. dget d ''tag_name'' = JStr (pb_tag p)) (concat batches) = []"
      by (simp split: list.splits)
    with whole show "shown_absent p (page_events (releases_path p) (Suc 0) batches @
        Requested ''GET'' (tag_path p) None (Inr (Some \<lparr>a_status = 404, a_data = v\<rparr>)) # older)"
      unfolding shown_absent_def filter_empty_conv One_nat_def by blast
  qed
  show ?thesis
    unfolding find_release_def tag_path_def [symmetric]
    by ((rule triple_intros)+, rule log_triple_if,
        (rule log_triple_bind, rule log_triple_pure, rule log_triple_post, rule log_triple_pure)[1],
        fastforce, rule log_triple_pre [OF _ pick])
      (auto dest!: api_response_eq)
qed

lemma create_draft_triple:
  "log_triple p prepared (\<lambda>l. log_ready p l \<and> list_all read_only l \<and> shown_absent p l) (create_draft p tr)
     (\<lambda>d l. log_ready p l \<and> uploaded_names l = {} \<and> shown d l)"
  unfolding create_draft_def
  by (rule log_triple_bind, rule log_triple_request, simp add: change_allowed_def log_ready_def dget_def,
      (rule triple_intros)+, rule log_triple_post, rule log_triple_pure)
    (auto simp: read_only_uploads)

section \<open>Listings\<close>

lemma asset_pages_triple:
  "log_triple p prepared P (asset_pages p tr i left page assets)
     (\<lambda>ds l. \<exists>batches older. l = page_events (release_path p i @ ''/assets'') page batches @ older \<and> P older \<and>
        whole_listing batches \<and> ds = assets @ concat batches)"
proof (induction left arbitrary: P page assets)
  case 0
  show ?case unfolding asset_pages.simps by (rule log_triple_post, rule log_triple_pure) simp
next
  case (Suc left)
  show ?case
    unfolding asset_pages.simps
    by (rule read_page_triple, rule log_triple_if, (rule log_triple_post, rule log_triple_pure)[1],
        clarsimp, rule last_page, assumption, simp, simp,
        rule log_triple_post, rule Suc.IH, clarsimp, rule more_pages, assumption+, simp, simp)
qed

lemma verify_asset_Inr: "verify_asset d a = Inr u \<Longrightarrow> asset_agrees d a"
  by (auto simp: verify_asset_def asset_agrees_def Let_def require_Inr_iff)

lemma present_assets_Inr:
  "present_assets expected present ds = Inr out \<Longrightarrow>
     distinct (map (\<lambda>d. dget d ''name'') ds) \<and> listed_names ds \<inter> JStr ` set present = {} \<and>
     JStr ` set out = JStr ` set present \<union> listed_names ds \<and>
     (\<forall>d \<in> set ds. \<exists>a \<in> set expected. asset_agrees d a)"
proof (induction expected present ds rule: present_assets.induct)
  case (2 expected present d ds)
  from "2.prems" obtain name a where d: "dget d ''name'' = JStr name" "name \<notin> set present"
    and a: "find (\<lambda>a. pa_name a = name) expected = Some a" "verify_asset d a = Inr ()"
    and rest: "present_assets expected (name # present) ds = Inr out"
    by (auto simp: rbind_Inr_iff split: option.splits if_splits)
  from a have "a \<in> set expected" "asset_agrees d a"
    by (auto simp: find_Some_iff verify_asset_Inr)
  with "2.IH" [OF _ d(2) a(1) rest] d show ?case
    by (auto simp: listed_names_def)
qed (simp add: listed_names_def)

lemma verify_asset_set_Inr:
  assumes "verify_asset_set ds prepared whole = Inr present"
  shows "JStr ` set present = listed_names ds" and "whole \<Longrightarrow> exact_listing prepared ds"
proof -
  from assms have *: "present_assets prepared [] ds = Inr present"
    and c: "whole \<Longrightarrow> set present = pa_name ` set prepared"
    by (auto simp: verify_asset_set_def res_iffs)
  from present_assets_Inr [OF *] show names: "JStr ` set present = listed_names ds" by simp
  assume whole
  from c [OF this] names have "listed_names ds = (\<lambda>a. JStr (pa_name a)) ` set prepared"
    by (metis image_image)
  with present_assets_Inr [OF *] show "exact_listing prepared ds"
    by (simp add: exact_listing_def)
qed

lemma listed_assets_triple:
  "log_triple p prepared P (listed_assets p tr i prepared whole)
     (\<lambda>present l. \<exists>batches older. l = listing_events p i batches @ older \<and> P older \<and> whole_listing batches \<and>
        JStr ` set present = listed_names (concat batches) \<and>
        (whole \<longrightarrow> exact_listing prepared (concat batches)))"
  unfolding listed_assets_def list_assets_def
  by (rule log_triple_bind, rule asset_pages_triple, rule log_triple_post, rule log_triple_pure)
    (use verify_asset_set_Inr in \<open>fastforce simp: listing_events_def\<close>)

section \<open>Uploads and publication\<close>

definition upload_allowed :: "publisher \<Rightarrow> int \<Rightarrow> prepared_asset \<Rightarrow> gh_event list \<Rightarrow> bool" where
  "upload_allowed p i a l \<longleftrightarrow>
     log_ready p l \<and> drafted p i l \<and> listed_without p i (pa_name a) l \<and>
     pa_name a \<notin> uploaded_names l"

lemma upload_asset_triple:
  assumes "a \<in> set prepared" and allowed: "\<And>l. P l \<Longrightarrow> upload_allowed p i a l"
  shows "log_triple p prepared P (upload_asset p tr fs i a)
     (\<lambda>_ l. \<exists>r older. l = Uploaded i a r # older \<and> P older)"
proof -
  let ?up = "\<lambda>l. \<exists>r older. l = Uploaded i a r # older \<and> P older"
  have call: "log_triple p prepared P (gh_call (Uploaded i a) f) (\<lambda>_. ?up)" for f
    by (rule log_triple_post, rule log_triple_call)
      (use assms in \<open>auto simp: change_allowed_def upload_allowed_def log_ready_def\<close>)
  have unwrap: "log_triple p prepared ?up
      (case r of None \<Rightarrow> throw e | Some b \<Rightarrow> ret b) (\<lambda>_. ?up)" for r e and b :: api_response
    by (cases r) (simp_all, (rule log_triple_post, rule log_triple_pure, simp)+)
  have check: "log_triple p prepared Q (if b then throw e else pbind (gh_do g) (\<lambda>m. guard (c m) e')) (\<lambda>_. Q)"
    for Q b e g c e'
    by (rule log_triple_if, rule log_triple_post, rule log_triple_pure, simp,
        rule log_triple_bind, rule log_triple_do, rule log_triple_post, rule log_triple_pure) simp
  show ?thesis
    unfolding upload_asset_def
    by (rule log_triple_bind, rule log_triple_catch_all, rule log_triple_bind, rule log_triple_do,
        rule log_triple_bind, rule log_triple_pure, rule log_triple_pre [where P' = P], simp,
        rule log_triple_bind, rule log_triple_do, rule log_triple_bind, rule call, rule unwrap,
        (rule triple_intros)+, rule log_triple_post, rule check) blast
qed

lemma upload_allowed_Cons:
  "upload_allowed p i a l \<Longrightarrow> pa_name b \<noteq> pa_name a \<Longrightarrow> upload_allowed p i a (Uploaded i b r # l)"
  by (simp add: upload_allowed_def proven_mono)

lemma upload_missing_triple:
  assumes "set rest \<subseteq> set prepared" and "distinct (map pa_name rest)"
  shows "log_triple p prepared
     (\<lambda>l. log_ready p l \<and> drafted p i l \<and>
        (\<forall>a \<in> set rest. pa_name a \<notin> set present \<longrightarrow> upload_allowed p i a l))
     (upload_missing p tr fs i present rest) (\<lambda>_ l. log_ready p l \<and> drafted p i l)"
  using assms
proof (induction rest)
  case Nil
  show ?case unfolding upload_missing.simps by (rule log_triple_post, rule log_triple_pure) simp
next
  case (Cons a rest)
  let ?pre = "\<lambda>rest l. log_ready p l \<and> drafted p i l \<and>
        (\<forall>a \<in> set rest. pa_name a \<notin> set present \<longrightarrow> upload_allowed p i a l)"
  from Cons have IH: "log_triple p prepared (?pre rest) (upload_missing p tr fs i present rest)
      (\<lambda>_ l. log_ready p l \<and> drafted p i l)" and a: "a \<in> set prepared" "pa_name a \<notin> pa_name ` set rest"
    by auto
  show ?case
  proof (cases "pa_name a \<in> set present")
    case True
    then show ?thesis by simp (rule log_triple_pre [OF _ IH], auto)
  next
    case False
    have "log_triple p prepared (?pre (a # rest)) (upload_asset p tr fs i a)
        (\<lambda>_ l. \<exists>r older. l = Uploaded i a r # older \<and> ?pre (a # rest) older)"
      by (rule upload_asset_triple [OF a(1)]) (simp add: False)
    then have "log_triple p prepared (?pre (a # rest)) (upload_asset p tr fs i a) (\<lambda>_. ?pre rest)"
      by (rule log_triple_post) (use a(2) in \<open>auto intro!: upload_allowed_Cons proven_mono simp: image_iff\<close>)
    with IH False show ?thesis by (auto intro: log_triple_bind)
  qed
qed

lemma publish_draft_triple:
  "log_triple p prepared
     (\<lambda>l. log_ready p l \<and> drafted p i l \<and> listed_exactly p i prepared l)
     (publish_draft p tr i) (\<lambda>_ l. log_ready p l \<and> \<not> list_all read_only l)"
  unfolding publish_draft_def
  by (rule log_triple_bind, rule log_triple_request, fastforce simp: change_allowed_def log_ready_def,
      (rule triple_intros)+, rule log_triple_post, rule log_triple_pure)
    auto

section \<open>The whole publication\<close>

definition immutable_release :: "publisher \<Rightarrow> int \<Rightarrow> dict \<Rightarrow> bool" where
  "immutable_release p i d \<longleftrightarrow>
     dget d ''id'' = JInt i \<and> 1 \<le> i \<and> dget d ''tag_name'' = JStr (pb_tag p) \<and>
     dget d ''draft'' = JBool False \<and> dget d ''prerelease'' = JBool False \<and>
     dget d ''immutable'' = JBool True"

text \<open>The last calls are a complete listing, of a release shown to be immutable before.\<close>

definition release_proven :: "publisher \<Rightarrow> int \<Rightarrow> prepared_asset list \<Rightarrow> gh_event list \<Rightarrow> bool" where
  "release_proven p i prepared l \<longleftrightarrow>
     (\<exists>d batches older. l = listing_events p i batches @ older \<and> whole_listing batches \<and>
        exact_listing prepared (concat batches) \<and> shown d older \<and> immutable_release p i d)"

lemma validate_release_Inr:
  "validate_published_release p d = Inr i \<longleftrightarrow> immutable_release p i d"
  "validate_draft_release p d = Inr i \<Longrightarrow> shown d l \<Longrightarrow> drafted p i l"
  by (auto simp: validate_published_release_def validate_draft_release_def immutable_release_def
      drafted_def res_iffs)

lemma read_only_listing [simp]: "list_all read_only (listing_events p i batches)"
  by (simp add: listing_events_def)

lemma complete_draft_triple:
  assumes "distinct (map pa_name prepared)"
  shows "log_triple p prepared
     (\<lambda>l. log_ready p l \<and> drafted p i l \<and> uploaded_names l = {})
     (complete_draft p tr fs prepared i)
     (\<lambda>r l. r = release_result p i prepared False \<and> release_proven p i prepared l \<and>
        \<not> list_all read_only l)"
proof -
  have pre: "log_triple p prepared
      (\<lambda>l. \<exists>batches older. l = listing_events p i batches @ older \<and>
         (log_ready p older \<and> drafted p i older \<and> uploaded_names older = {}) \<and> whole_listing batches \<and>
         JStr ` set present = listed_names (concat batches) \<and>
         (False \<longrightarrow> exact_listing prepared (concat batches)))
      (upload_missing p tr fs i present prepared) (\<lambda>_ l. log_ready p l \<and> drafted p i l)" for present
  proof (rule log_triple_pre [OF _ upload_missing_triple [OF order_refl assms]])
    fix l
    assume "\<exists>batches older. l = listing_events p i batches @ older \<and>
         (log_ready p older \<and> drafted p i older \<and> uploaded_names older = {}) \<and> whole_listing batches \<and>
         JStr ` set present = listed_names (concat batches) \<and>
         (False \<longrightarrow> exact_listing prepared (concat batches))"
    then obtain batches older where l: "l = listing_events p i batches @ older"
      and older: "log_ready p older" "drafted p i older" "uploaded_names older = {}"
      and whole: "whole_listing batches"
      and names: "JStr ` set present = listed_names (concat batches)" by blast
    have "listed_without p i (pa_name a) l" if "pa_name a \<notin> set present" for a
      unfolding listed_without_def
    proof (intro exI conjI)
      show "l = [] @ listing_events p i batches @ older" using l by simp
      show "whole_listing batches" by (rule whole)
      show "JStr (pa_name a) \<notin> listed_names (concat batches)" using that names by auto
    qed
    with older show "log_ready p l \<and> drafted p i l \<and>
        (\<forall>a \<in> set prepared. pa_name a \<notin> set present \<longrightarrow> upload_allowed p i a l)"
      by (auto simp: l mono_append upload_allowed_def)
  qed
  have relisted: "log_triple p prepared (\<lambda>l. log_ready p l \<and> drafted p i l)
      (listed_assets p tr i prepared True)
      (\<lambda>_ l. log_ready p l \<and> drafted p i l \<and> listed_exactly p i prepared l)"
    by (rule log_triple_post [OF listed_assets_triple]) (auto simp: mono_append listed_exactly_def)
  show ?thesis
    unfolding complete_draft_def
    by (rule log_triple_bind, rule listed_assets_triple, rule log_triple_bind, rule pre,
        rule log_triple_bind, rule relisted, rule log_triple_bind, rule publish_draft_triple,
        rule log_triple_bind, rule log_triple_get, rule log_triple_bind, rule log_triple_pure,
        rule log_triple_bind, rule log_triple_pure, rule log_triple_bind, rule log_triple_pure,
        rule log_triple_bind, rule log_triple_pure,
        rule log_triple_bind, rule listed_assets_triple, rule log_triple_post, rule log_triple_pure)
      (auto simp: release_proven_def validate_release_Inr, fastforce)
qed

section \<open>Preparation\<close>

definition same_log :: "'x gh \<Rightarrow> 'x gh \<Rightarrow> bool" where
  "same_log w w' \<longleftrightarrow> gh_log w' = gh_log w"

interpretation same_log: effect_relation same_log
  by unfold_locales (simp_all add: same_log_def)

lemma gh_do_same_log [stays_intros]: "stays same_log (gh_do f)"
  by (rule staysI) (auto simp: gh_do_def same_log_def split: prod.splits)

lemma prepare_asset_same_log: "stays same_log (prepare_asset lib fs name path)"
  unfolding prepare_asset_def by (intro stays_intros same_log.stays_pure same_log.stays_pbind)

lemma prepare_assets_same_log: "stays same_log (prepare_assets lib fs assets)"
proof -
  have "stays same_log (prepare_each lib fs rest)" for rest
  proof (induction rest)
    case Nil
    show ?case unfolding prepare_each.simps by (rule same_log.stays_pure)
  next
    case (Cons a rest)
    then show ?case
      by (cases a) (auto intro!: same_log.stays_pure same_log.stays_pbind prepare_asset_same_log
          simp del: prog_exec)
  qed
  then show ?thesis
    unfolding prepare_assets_def release_handler_def
    by (intro same_log.stays_pure same_log.stays_pbind same_log.stays_catch same_log.stays_if)
qed

lemma prepare_asset_name: "prepare_asset lib fs name path w = (Inr a, w') \<Longrightarrow> pa_name a = name"
  by (auto simp: prepare_asset_def elim!: pbind_InrD)

lemma prepare_each_names:
  "prepare_each lib fs rest w = (Inr as, w') \<Longrightarrow> map pa_name as = map fst rest"
proof (induction rest arbitrary: w as w')
  case (Cons a rest)
  from Cons.prems show ?case
    by (cases a) (auto elim!: pbind_InrD dest!: prepare_asset_name Cons.IH)
qed simp

lemma map_sort_key: "map f (sort_key f xs) = sort (map f xs)"
proof -
  have "map f (insort_key f x ys) = insort (f x) (map f ys)" for x ys
    by (induction ys) simp_all
  then show ?thesis by (induction xs) simp_all
qed

lemma length_remdups_distinct: "length (remdups xs) = length xs \<longleftrightarrow> distinct xs"
  by (metis distinct_remdups length_remdups_card_conv card_distinct distinct_card)

lemma prepare_assets_names:
  assumes "prepare_assets lib fs assets w = (Inr prepared, w')"
  shows "map pa_name prepared = sort (map fst assets)" and "distinct (map pa_name prepared)"
proof -
  from assms have run: "prepare_each lib fs (sort_key fst assets) w = (Inr prepared, w')"
    and "length (remdups (map (\<lambda>(name, path). py_casefold name) assets)) = length assets"
    by (auto simp: prepare_assets_def guard_def catch_def release_handler_def
        split: prod.splits sum.splits if_splits elim!: pbind_InrD)
  then have "distinct (map py_casefold (map fst assets))"
    by (simp add: length_remdups_distinct [symmetric] split_def comp_def)
  moreover from prepare_each_names [OF run] show "map pa_name prepared = sort (map fst assets)"
    by (simp add: map_sort_key)
  ultimately show "distinct (map pa_name prepared)" by (metis distinct_map distinct_sort)
qed

section \<open>What a publication does\<close>

definition publication_proven ::
    "publisher \<Rightarrow> prepared_asset list \<Rightarrow> published_release \<Rightarrow> gh_event list \<Rightarrow> bool" where
  "publication_proven p prepared r l \<longleftrightarrow>
     release_proven p (pr_release_id r) prepared l \<and>
     r = release_result p (pr_release_id r) prepared (pr_already_published r) \<and>
     (pr_already_published r \<longleftrightarrow> list_all read_only l)"

lemma release_result_fields [simp]:
  "pr_release_id (release_result p i prepared b) = i"
  "pr_already_published (release_result p i prepared b) = b"
  by (simp_all add: release_result_def Let_def)

lemma publication_triple:
  assumes "distinct (map pa_name prepared)"
  shows "log_triple p prepared (\<lambda>l. l = [])
    (pseq (verify_public_repository p tr) (
     pseq (enable_and_verify_immutability p tr) (
     pbind (find_release p tr) (\<lambda>existing.
     case existing of
       Some d \<Rightarrow>
         if dget d ''draft'' = JBool False then
           pbind (lift_res (validate_published_release p d)) (\<lambda>release_id.
           pseq (listed_assets p tr release_id prepared True)
           (ret (release_result p release_id prepared True)))
         else pbind (lift_res (validate_draft_release p d)) (complete_draft p tr fs prepared)
     | None \<Rightarrow>
         pbind (create_draft p tr) (\<lambda>d.
         pbind (lift_res (validate_draft_release p d)) (complete_draft p tr fs prepared))))))
    (publication_proven p prepared)"
proof -
  have complete: "log_triple p prepared (\<lambda>l. log_ready p l \<and> uploaded_names l = {} \<and> shown d l)
      (pbind (lift_res (validate_draft_release p d)) (complete_draft p tr fs prepared))
      (publication_proven p prepared)" for d
  proof (rule log_triple_bind, rule log_triple_pure)
    fix i
    show "log_triple p prepared
        (\<lambda>l. validate_draft_release p d = Inr i \<and> log_ready p l \<and> uploaded_names l = {} \<and> shown d l)
        (complete_draft p tr fs prepared i) (publication_proven p prepared)"
      by (rule log_triple_pre [OF _ log_triple_post [OF complete_draft_triple [OF assms]]])
        (auto simp: publication_proven_def dest: validate_release_Inr(2))
  qed
  have existing: "log_triple p prepared (\<lambda>l. log_ready p l \<and> list_all read_only l \<and> shown d l)
      (pbind (lift_res (validate_published_release p d)) (\<lambda>release_id.
       pseq (listed_assets p tr release_id prepared True)
       (ret (release_result p release_id prepared True))))
      (publication_proven p prepared)" for d
    by (rule log_triple_bind, rule log_triple_pure, rule log_triple_bind, rule listed_assets_triple,
        rule log_triple_post, rule log_triple_pure)
      (auto simp: publication_proven_def release_proven_def validate_release_Inr)
  show ?thesis
    apply (rule log_triple_bind, rule log_triple_pre [OF _ verify_public_triple], simp)
    apply (rule log_triple_bind, rule enable_immutability_triple)
    apply (rule log_triple_bind, rule find_release_triple)
    subgoal for a b found
      by (cases found)
        (auto intro: log_triple_bind [OF create_draft_triple complete] log_triple_pre [OF _ existing]
           log_triple_pre [OF _ complete] simp: read_only_uploads)
    done
qed

lemma publish_release_run:
  assumes "prepare_assets lib fs assets (start_gh x) = (Inr prepared, w1)"
    and "publish_release lib p tr fs assets (start_gh x) = (r, w')"
  shows "log_ok p prepared (gh_log w')"
    and "r = Inr rel \<Longrightarrow> publication_proven p prepared rel (gh_log w')"
proof -
  have "gh_log w1 = []"
    using staysD [OF prepare_assets_same_log assms(1)] by (simp add: same_log_def start_gh_def)
  with assms log_tripleD [OF publication_triple [OF prepare_assets_names(2) [OF assms(1)]], where w = w1]
  show "log_ok p prepared (gh_log w')" "r = Inr rel \<Longrightarrow> publication_proven p prepared rel (gh_log w')"
    by (auto simp: publish_release_def pbind_exec)
qed

text \<open>C15: Every call of a run of \<^verbatim>\<open>GitHubReleasePublisher.publish\<close>, whatever GitHub and the
  local files answer, is a read, the enabling of immutable releases on a repository already
  shown to be public, or a change that its log justifies: a draft is created only for a
  public repository with immutable releases proven enabled, and only right after the direct
  lookup of the tag answered 404 and a whole listing of the releases had none of the tag; an asset is uploaded only to a
  release shown as a draft of the tag, only when a complete listing of that release did not
  have it, and only once; and the draft is published only right after a complete listing
  that is exactly the prepared asset set. When the preparation of the local files fails,
  GitHub is not called at all.\<close>

theorem release_changes_guarded:
  "case prepare_assets lib fs assets (start_gh x) of
     (Inl e, w1) \<Rightarrow> gh_log (snd (publish_release lib p tr fs assets (start_gh x))) = []
   | (Inr prepared, w1) \<Rightarrow>
       guarded_log (change_allowed p prepared)
         (gh_log (snd (publish_release lib p tr fs assets (start_gh x))))"
proof -
  obtain r1 w1 where prep: "prepare_assets lib fs assets (start_gh x) = (r1, w1)" by fastforce
  obtain r w' where run: "publish_release lib p tr fs assets (start_gh x) = (r, w')" by fastforce
  show ?thesis
  proof (cases r1)
    case (Inl e)
    with prep run have "w' = w1" by (auto simp: publish_release_def pbind_exec)
    with Inl prep run staysD [OF prepare_assets_same_log prep] show ?thesis
      by (simp add: same_log_def start_gh_def)
  next
    case (Inr prepared)
    with prep run publish_release_run(1) [OF prep [unfolded Inr] run] show ?thesis by simp
  qed
qed

text \<open>C16: When \<^verbatim>\<open>publish\<close> returns, its last calls are a complete listing of the release it
  names, exactly the prepared assets (each name once, with its size, uploaded, and with its
  digest where GitHub reports one), after GitHub showed that release under the tag as
  published, not a prerelease and immutable; the result carries the prepared names, sizes
  and digests, in the order of the names; and it says already published exactly when the
  run changed nothing.\<close>

theorem publish_returns_proven_release:
  assumes "publish_release lib p tr fs assets (start_gh x) = (Inr r, w')"
  shows "\<exists>prepared w1. prepare_assets lib fs assets (start_gh x) = (Inr prepared, w1) \<and>
    map pa_name prepared = sort (map fst assets) \<and> distinct (map fst assets) \<and>
    release_proven p (pr_release_id r) prepared (gh_log w') \<and>
    r = release_result p (pr_release_id r) prepared (pr_already_published r) \<and>
    (pr_already_published r \<longleftrightarrow> list_all read_only (gh_log w'))"
proof -
  from assms obtain prepared w1
    where prep: "prepare_assets lib fs assets (start_gh x) = (Inr prepared, w1)"
    by (auto simp: publish_release_def elim!: pbind_InrD)
  from publish_release_run(2) [OF prep assms refl] prepare_assets_names [OF prep] show ?thesis
    by (auto simp: publication_proven_def intro!: exI [of _ prepared] exI [of _ w1] prep)
qed

section \<open>Paging\<close>

text \<open>
  A server that answers every page request for the assets of a release from one listing, as
  GitHub documents it: page \<open>n\<close> holds the next hundred items.
\<close>

definition serves_pages :: "publisher \<Rightarrow> int \<Rightarrow> dict list \<Rightarrow> 'x transport \<Rightarrow> bool" where
  "serves_pages p i all tr \<longleftrightarrow>
     (\<forall>n x. fst (t_request tr ''GET'' (page_path (release_path p i @ ''/assets'') (Suc n)) None x) =
        ok_response (JList (map JObj (take PAGE_SIZE (drop (n * PAGE_SIZE) all)))))"

lemma publisher_request_ok:
  assumes "\<And>x. fst (t_request tr verb path payload x) = ok_response v"
  obtains w' where "publisher_request tr verb path payload w = (Inr \<lparr>a_status = 200, a_data = v\<rparr>, w')"
  using assms [of "gh_remote w"]
  by (cases "t_request tr verb path payload (gh_remote w)")
    (simp add: publisher_request_def catch_def pbind_def gh_call_def ok_response_def)

lemma asset_pages_step:
  assumes "publisher_request tr ''GET'' (page_path (release_path p i @ ''/assets'') page) None w
      = (Inr \<lparr>a_status = 200, a_data = JList (map JObj ds)\<rparr>, w1)"
  shows "asset_pages p tr i (Suc left) page assets w =
      (if length ds < PAGE_SIZE then (Inr (assets @ ds), w1)
       else asset_pages p tr i left (Suc page) (assets @ ds) w1)"
proof -
  have objs: "objects_of (map JObj ds) = Inr ds" by simp
  show ?thesis
    by (simp del: objects_of_Inr add: objs expect_def array_of_def pbind_def assms)
qed

lemma asset_pages_serve:
  assumes "serves_pages p i all tr" and "left + n = MAX_PAGES" and "n * PAGE_SIZE \<le> length all"
  shows "fst (asset_pages p tr i left (Suc n) (take (n * PAGE_SIZE) all) w) =
    (if length all < MAX_PAGES * PAGE_SIZE then Inr all
     else Inl (release_error ''GitHub asset lookup exceeded the safe page limit''))"
  using assms(2,3)
proof (induction left arbitrary: n w)
  case 0
  then show ?case by simp
next
  case (Suc left)
  let ?ds = "take PAGE_SIZE (drop (n * PAGE_SIZE) all)"
  from assms(1) have "fst (t_request tr ''GET'' (page_path (release_path p i @ ''/assets'') (Suc n)) None x)
      = ok_response (JList (map JObj ?ds))" for x
    by (simp add: serves_pages_def)
  then obtain w1 where req:
    "publisher_request tr ''GET'' (page_path (release_path p i @ ''/assets'') (Suc n)) None w
      = (Inr \<lparr>a_status = 200, a_data = JList (map JObj ?ds)\<rparr>, w1)"
    by (rule publisher_request_ok)
  note step = asset_pages_step [OF req, where left = left and assets = "take (n * PAGE_SIZE) all"]
  have joined: "take (n * PAGE_SIZE) all @ ?ds = take (Suc n * PAGE_SIZE) all"
    by (subst mult_Suc, subst add.commute, rule take_add [symmetric])
  show ?case
  proof (cases "length ?ds < PAGE_SIZE")
    case True
    then have "length all < Suc n * PAGE_SIZE" using Suc.prems(2) by (simp add: min_def split: if_splits)
    moreover have "Suc n * PAGE_SIZE \<le> MAX_PAGES * PAGE_SIZE"
      using Suc.prems(1) by (intro mult_le_mono1) simp
    ultimately show ?thesis using True step joined by simp
  next
    case False
    then have "Suc n * PAGE_SIZE \<le> length all" using Suc.prems(2) by (simp add: min_def split: if_splits)
    moreover have "left + Suc n = MAX_PAGES" using Suc.prems(1) by simp
    ultimately show ?thesis using Suc.IH [of "Suc n" w1] False step joined by simp
  qed
qed

text \<open>C17: The paging loop of \<^verbatim>\<open>_list_assets\<close> is equivalent to reading the listing in one go:
  from a server that serves one listing in pages of a hundred it returns that listing, item
  by item and in order, whatever its length below ten thousand (also at exact multiples of
  the page size, where one more, empty, page is read), and it refuses any longer listing
  instead of truncating it.\<close>

theorem list_assets_reads_whole_listing:
  assumes "serves_pages p i all tr"
  shows "fst (list_assets p tr i w) =
    (if length all < 10000 then Inr all
     else fail ReleasePublishError ''GitHub asset lookup exceeded the safe page limit'')"
  using asset_pages_serve [OF assms, of MAX_PAGES 0 w]
  by (simp add: list_assets_def MAX_PAGES_def PAGE_SIZE_def)

section \<open>A concrete publication\<close>

definition example_publisher :: publisher where
  "example_publisher = \<lparr>pb_owner = ''vandungtech'', pb_repo = ''mt92'', pb_tag = ''r7''\<rparr>"

text \<open>A transport that answers from a script, and one local file of three bytes.\<close>

definition scripted_answer :: "((int \<times> json) list, api_response option) prog" where
  "scripted_answer = (\<lambda>s. case s of
     [] \<Rightarrow> (Inl (release_error ''end of script''), [])
   | (st, v) # rest \<Rightarrow> (Inr (Some \<lparr>a_status = st, a_data = v\<rparr>), rest))"

definition scripted_transport :: "(int \<times> json) list transport" where
  "scripted_transport =
     \<lparr>t_request = (\<lambda>verb path payload. scripted_answer),
      t_upload = (\<lambda>owner repo i name content_type bytes stream. scripted_answer)\<rparr>"

definition three_byte_file :: stat_result where
  "three_byte_file =
     \<lparr>st_dev = 1, st_ino = 2, st_mode = 32768, st_uid = 0, st_gid = 0, st_nlink = 1, st_size = 3,
      st_mtime_ns = 5, st_ctime_ns = 6\<rparr>"

definition example_files :: "'x local_files" where
  "example_files =
     \<lparr>lf_is_symlink = (\<lambda>_. ret False), lf_open = (\<lambda>_. ret 3), lf_fstat = (\<lambda>_. ret three_byte_file),
      lf_hash_reads = (\<lambda>_. ret [Some ''gg'', Some ''u'', Some []]), lf_rewind = (\<lambda>_. ret ()),
      lf_tell = (\<lambda>_. ret 3), lf_mime = (\<lambda>_. None)\<rparr>"

definition example_release :: "bool \<Rightarrow> bool \<Rightarrow> json" where
  "example_release draft immutable =
     JObj [(''id'', JInt 7), (''tag_name'', JStr ''r7''), (''draft'', JBool draft),
           (''prerelease'', JBool False), (''immutable'', JBool immutable)]"

definition example_asset :: json where
  "example_asset =
     JObj [(''name'', JStr ''a.gguf''), (''size'', JInt 3), (''state'', JStr ''uploaded'')]"

definition example_script :: "(int \<times> json) list" where
  "example_script =
     [(200, JObj [(''private'', JBool False), (''full_name'', JStr ''vandungtech/mt92'')]),
      (204, JNull), (200, JObj [(''enabled'', JBool True)]), (404, JNull), (200, JList []),
      (201, example_release True False), (200, JList []), (201, example_asset),
      (200, JList [example_asset]), (200, example_release False False),
      (200, example_release False True), (200, JList [example_asset])]"

definition example_prepared :: prepared_asset where
  "example_prepared =
     \<lparr>pa_name = ''a.gguf'', pa_stream = 3, pa_size = 3,
      pa_digest = ''sha256:'' @ sha256_hex example_lib ''ggu'',
      pa_content_type = ''application/octet-stream'',
      pa_fingerprint = asset_fingerprint three_byte_file\<rparr>"

lemma example_preparation:
  "prepare_assets example_lib example_files [(''a.gguf'', ''/a/a.gguf'')] w = (Inr [example_prepared], w)"
proof -
  have "matches asset_name_rx ''a.gguf''"
    by (simp add: asset_name_rx_def matches_name_rx name_shape_def is_alnum_def is_upper_def
        is_lower_def is_digit_def is_repo_punct_def code_def)
  then show ?thesis
    by (simp add: prepare_assets_def prepare_asset_def pbind_def catch_def gh_do_def example_files_def
        three_byte_file_def s_isreg_def file_type_def MAX_ASSET_BYTES_def example_prepared_def)
qed

lemma scripted_request [simp]:
  "publisher_request scripted_transport verb path payload \<lparr>gh_remote = (st, v) # rest, gh_log = l\<rparr> =
     (Inr \<lparr>a_status = st, a_data = v\<rparr>,
      \<lparr>gh_remote = rest, gh_log = Requested verb path payload (Inr (Some \<lparr>a_status = st, a_data = v\<rparr>)) # l\<rparr>)"
  by (simp add: publisher_request_def gh_call_def catch_def pbind_def scripted_transport_def scripted_answer_def)

lemma example_fields:
  "lf_fstat example_files n = ret three_byte_file" "lf_rewind example_files n = ret ()"
  "lf_tell example_files n = ret 3"
  "t_upload scripted_transport owner repo i name content_type bytes stream = scripted_answer"
  by (simp_all add: example_files_def scripted_transport_def)

lemma example_publication:
  "\<not> isl (fst (publish_release example_lib example_publisher scripted_transport example_files
     [(''a.gguf'', ''/a/a.gguf'')] (start_gh example_script)))"
proof -
  obtain k where k: "MAX_PAGES = Suc k" by (simp add: MAX_PAGES_def numeral_eq_Suc)
  show ?thesis
    by (simp add: publish_release_def example_preparation pbind_def start_gh_def example_script_def
        verify_public_repository_def enable_and_verify_immutability_def find_release_def
        create_draft_def complete_draft_def listed_assets_def list_assets_def k
        object_of_def array_of_def expect_def dget_def example_publisher_def example_release_def
        positive_id_def validate_draft_release_def validate_published_release_def verify_asset_set_def
        publish_draft_def upload_asset_def gh_do_def gh_call_def catch_def example_fields
        example_prepared_def scripted_answer_def verify_asset_def
        example_asset_def PAGE_SIZE_def num_eq_def)
qed

theorem publish_returns_proven_release_witness:
  "\<exists>r w'. publish_release example_lib example_publisher scripted_transport example_files
      [(''a.gguf'', ''/a/a.gguf'')] (start_gh example_script) = (Inr r, w') \<and>
    release_proven example_publisher (pr_release_id r) [example_prepared] (gh_log w')"
proof -
  let ?run = "publish_release example_lib example_publisher scripted_transport example_files
      [(''a.gguf'', ''/a/a.gguf'')] (start_gh example_script)"
  obtain r w' where run: "?run = (Inr r, w')"
    using example_publication by (cases ?run; cases "fst ?run") auto
  from publish_returns_proven_release [OF run] run show ?thesis
    by (auto simp: example_preparation)
qed

definition one_page_transport :: "dict \<Rightarrow> 'x transport" where
  "one_page_transport d =
     \<lparr>t_request = (\<lambda>verb path payload x.
        (ok_response (JList (if path = page_path (release_path example_publisher 7 @ ''/assets'') 1
                             then [JObj d] else [])), x)),
      t_upload = (\<lambda>owner repo i name content_type bytes stream x. (ok_response JNull, x))\<rparr>"

theorem list_assets_reads_whole_listing_witness:
  "fst (list_assets example_publisher (one_page_transport [(''name'', JStr ''a.gguf'')]) 7 (start_gh ())) =
     Inr [[(''name'', JStr ''a.gguf'')]]"
proof -
  let ?d = "[(''name'', JStr ''a.gguf'')]"
  have "serves_pages example_publisher 7 [?d] (one_page_transport ?d)"
    unfolding serves_pages_def
  proof (intro allI)
    fix n and x :: 'a
    show "fst (t_request (one_page_transport ?d) ''GET''
        (page_path (release_path example_publisher 7 @ ''/assets'') (Suc n)) None x) =
      ok_response (JList (map JObj (take PAGE_SIZE (drop (n * PAGE_SIZE) [?d]))))"
      by (cases n) (simp_all add: one_page_transport_def page_path_def PAGE_SIZE_def)
  qed
  from list_assets_reads_whole_listing [OF this] show ?thesis by simp
qed

end
