(* ===== verification/ChainValues.thy ===== *)
theory ChainValues
  imports Config
begin

text \<open>
  The values the Bittensor and Substrate SDKs hand to \<^verbatim>\<open>backend.py\<close>, Python equality on
  them, \<open>_authorization_integer\<close>, and the checks on pure answers: the runtime identity
  behind \<open>_authorized_chain_head\<close> and \<open>_inspect_signed_extrinsic\<close>. The SDK itself is
  not modelled: any value may come back from any call.
\<close>

section \<open>Pinned chain identity\<close>

definition BITTENSOR_VERSION :: string where "BITTENSOR_VERSION = ''10.5.0''"
definition BITTENSOR_WALLET_VERSION :: string where "BITTENSOR_WALLET_VERSION = ''4.1.1''"
definition SUBSTRATE_INTERFACE_VERSION :: string where "SUBSTRATE_INTERFACE_VERSION = ''2.2.1''"
definition FINNEY_GENESIS_HASH :: string where
  "FINNEY_GENESIS_HASH = ''0x2f0555cc76fc2840a25a6ea3b9637146806f1f44b090c175ffde2a7e5ab36c03''"
definition FINNEY_RUNTIME_SPEC_VERSION :: int where "FINNEY_RUNTIME_SPEC_VERSION = 452"
definition FINNEY_TRANSACTION_VERSION :: int where "FINNEY_TRANSACTION_VERSION = 1"
definition FINNEY_RUNTIME_CODE_HASH :: string where
  "FINNEY_RUNTIME_CODE_HASH = ''0x40a8c3c99a47d6739b086236308535fab26d5fd4cc5c88eb83f6a3c8b928f7cc''"
definition AUTHORIZED_HOTKEY_SS58 :: string where
  "AUTHORIZED_HOTKEY_SS58 = ''5HgeNAYMw7piRNCNgGuRyaDnJUsoazZpxEbT7G7RukHSNw3r''"
definition AUTHORIZED_CALL_MODULE :: string where "AUTHORIZED_CALL_MODULE = ''Commitments''"
definition AUTHORIZED_CALL_FUNCTION :: string where "AUTHORIZED_CALL_FUNCTION = ''set_commitment''"
definition AUTHORIZED_PERIOD_BLOCKS :: int where "AUTHORIZED_PERIOD_BLOCKS = 128"
definition AUTHORIZED_MAX_FEE_RAO :: int where "AUTHORIZED_MAX_FEE_RAO = 0"
definition AUTHORIZED_MAX_DEPOSIT_RAO :: int where "AUTHORIZED_MAX_DEPOSIT_RAO = 0"
definition AUTHORIZED_SIGNATURE_VERSION :: int where "AUTHORIZED_SIGNATURE_VERSION = 1"
definition RUNTIME_CODE_STORAGE_KEY :: string where "RUNTIME_CODE_STORAGE_KEY = ''0x3a636f6465''"

definition chain_hash_rx :: rx where
  "chain_hash_rx = Cat (Lit ''0x'') (Rep is_hex 64 (Some 64))"

definition signature_rx :: rx where
  "signature_rx = Cat (Lit ''0x'') (Rep is_hex 128 (Some 128))"

section \<open>Values\<close>

text \<open>
  An attribute may be missing (\<open>AttributeError\<close>), broken (any other exception) or present.
  \<open>CObject\<close> is an SDK object, of which the code reads at most \<open>.rao\<close> and \<open>.value\<close>.
\<close>

datatype 'a attribute = Missing | Broken | Has 'a

datatype chain_value =
    CNone
  | CBool bool
  | CInt int
  | CFloat pyfloat
  | CStr string
  | CBytes string
  | CList "chain_value list"
  | CMap "(string \<times> chain_value) list"
  | CObject "chain_value attribute" "chain_value attribute"

type_synonym chain_map = "(string \<times> chain_value) list"

text \<open>Python equality; an SDK object equals no built-in value.\<close>

fun chain_number :: "chain_value \<Rightarrow> pyfloat option" where
  "chain_number (CBool b) = Some (Fin (if b then 1 else 0))"
| "chain_number (CInt i) = Some (Fin (of_int i))"
| "chain_number (CFloat f) = Some f"
| "chain_number _ = None"

fun chain_eq :: "chain_value \<Rightarrow> chain_value \<Rightarrow> bool"
  and chain_eq_list :: "chain_value list \<Rightarrow> chain_value list \<Rightarrow> bool"
  and chain_eq_items :: "chain_map \<Rightarrow> chain_map \<Rightarrow> bool" where
  "chain_eq CNone v = (v = CNone)"
| "chain_eq (CStr s) v = (v = CStr s)"
| "chain_eq (CBytes s) v = (v = CBytes s)"
| "chain_eq (CList xs) v = (case v of CList ys \<Rightarrow> chain_eq_list xs ys | _ \<Rightarrow> False)"
| "chain_eq (CMap d) v = (case v of CMap e \<Rightarrow> length d = length e \<and> chain_eq_items d e | _ \<Rightarrow> False)"
| "chain_eq (CObject r w) v = False"
| "chain_eq (CBool b) v =
     (case chain_number v of None \<Rightarrow> False | Some y \<Rightarrow> num_eq (Fin (if b then 1 else 0)) y)"
| "chain_eq (CInt i) v = (case chain_number v of None \<Rightarrow> False | Some y \<Rightarrow> num_eq (Fin (of_int i)) y)"
| "chain_eq (CFloat f) v = (case chain_number v of None \<Rightarrow> False | Some y \<Rightarrow> num_eq f y)"
| "chain_eq_list [] ys = (ys = [])"
| "chain_eq_list (x # xs) ys =
     (case ys of [] \<Rightarrow> False | y # ys' \<Rightarrow> chain_eq x y \<and> chain_eq_list xs ys')"
| "chain_eq_items [] e = True"
| "chain_eq_items ((k, x) # d) e =
     ((case map_of e k of None \<Rightarrow> False | Some y \<Rightarrow> chain_eq x y) \<and> chain_eq_items d e)"

fun as_map :: "chain_value \<Rightarrow> chain_map option" where
  "as_map (CMap d) = Some d"
| "as_map _ = None"

fun as_text :: "chain_value \<Rightarrow> string option" where
  "as_text (CStr s) = Some s"
| "as_text _ = None"

lemma as_chain_iffs [simp]:
  "as_map v = Some d \<longleftrightarrow> v = CMap d"
  "as_text v = Some s \<longleftrightarrow> v = CStr s"
  by (cases v; auto)+

text \<open>\<open>value[key]\<close> where the key was checked to be present, and \<open>value.get(key)\<close>.\<close>

definition cget :: "chain_map \<Rightarrow> string \<Rightarrow> chain_value" where
  "cget d k = (case map_of d k of None \<Rightarrow> CNone | Some v \<Rightarrow> v)"

text \<open>\<open>str(value)\<close>; the text of containers and objects is a placeholder no check accepts.\<close>

fun chain_str :: "chain_value \<Rightarrow> string" where
  "chain_str CNone = ''None''"
| "chain_str (CBool b) = (if b then ''True'' else ''False'')"
| "chain_str (CInt i) = text_of_int i"
| "chain_str (CFloat f) = ''<float>''"
| "chain_str (CStr s) = s"
| "chain_str (CBytes s) = ''<bytes>''"
| "chain_str (CList xs) = ''<list>''"
| "chain_str (CMap d) = ''<dict>''"
| "chain_str (CObject r w) = ''<object>''"

abbreviation auth_refused :: "string \<Rightarrow> exc" where
  "auth_refused t \<equiv> Exc AuthorizationRefused t"

text \<open>\<open>_authorization_integer\<close>: the attribute \<open>rao\<close>, else \<open>value\<close>, else the value itself.\<close>

fun rao_of :: "chain_value \<Rightarrow> chain_value attribute" where
  "rao_of (CObject r w) = r"
| "rao_of _ = Missing"

fun value_of :: "chain_value \<Rightarrow> chain_value attribute" where
  "value_of (CObject r w) = w"
| "value_of _ = Missing"

definition authorization_integer :: "chain_value \<Rightarrow> string \<Rightarrow> int res" where
  "authorization_integer v label =
     rbind (case rao_of v of
              Has r \<Rightarrow> Inr r
            | Broken \<Rightarrow> Inl (auth_refused (label @ '' could not be proven''))
            | Missing \<Rightarrow>
                (case value_of v of
                   Has r \<Rightarrow> Inr r
                 | Broken \<Rightarrow> Inl (auth_refused (label @ '' could not be proven''))
                 | Missing \<Rightarrow> Inr v)) (\<lambda>raw.
     case raw of
       CInt i \<Rightarrow> require (\<not> i < 0) (auth_refused (label @ '' was negative'')) (Inr i)
     | _ \<Rightarrow> Inl (auth_refused (label @ '' was not an exact integer'')))"

text \<open>What the integer read from a value is, as a relation independent of the label.\<close>

definition reads_integer :: "chain_value \<Rightarrow> int \<Rightarrow> bool" where
  "reads_integer v i \<longleftrightarrow> authorization_integer v [] = Inr i"

lemma authorization_integer_Inr: "authorization_integer v label = Inr i \<longleftrightarrow> reads_integer v i"
  unfolding reads_integer_def authorization_integer_def
  by (auto simp: rbind_Inr_iff require_Inr_iff split: attribute.splits chain_value.splits)

lemma reads_integer_nonneg: "reads_integer v i \<Longrightarrow> 0 \<le> i"
  unfolding reads_integer_def authorization_integer_def
  by (auto simp: rbind_Inr_iff require_Inr_iff split: attribute.splits chain_value.splits)

lemma reads_integer_fun: "reads_integer v i \<Longrightarrow> reads_integer v j \<Longrightarrow> i = j"
  by (simp add: reads_integer_def)

lemma reads_integer_CInt [simp]: "reads_integer (CInt n) i \<longleftrightarrow> i = n \<and> 0 \<le> n"
  by (auto simp: reads_integer_def authorization_integer_def require_Inr_iff)

lemma raises_authorization_integer [raises_intros]:
  "AuthorizationRefused \<in> C \<Longrightarrow> raises_only C (authorization_integer v label)"
  unfolding authorization_integer_def
  by (auto simp: raises_only_def rbind_Inl_iff require_Inl_iff split: attribute.splits chain_value.splits)

section \<open>The authorised call\<close>

text \<open>\<open>call_args\<close> and \<open>expected_call\<close>; the SDK receives the same \<open>call_args\<close> object.\<close>

definition commitment_args :: "string \<Rightarrow> chain_value" where
  "commitment_args encoded =
     CMap [(''netuid'', CInt 92),
           (''info'', CMap [(''fields'',
              CList [CList [CMap [(''Raw'' @ text_of_nat (length encoded), CBytes encoded)]]])])]"

definition call_with :: "chain_value \<Rightarrow> chain_map" where
  "call_with args =
     [(''call_module'', CStr AUTHORIZED_CALL_MODULE),
      (''call_function'', CStr AUTHORIZED_CALL_FUNCTION), (''call_args'', args)]"

section \<open>Runtime identity\<close>

text \<open>The checks of \<open>_authorized_chain_head\<close> on its four answers.\<close>

definition check_runtime :: "string \<Rightarrow> string \<Rightarrow> chain_value \<Rightarrow> chain_value \<Rightarrow> string res" where
  "check_runtime genesis head runtime code_response =
     require (genesis = FINNEY_GENESIS_HASH)
       (auth_refused (''chain genesis is '' @ genesis @ '', not the authorized Finney genesis'')) (
     require (matches chain_hash_rx head)
       (auth_refused ''chain head response was not a canonical hash'') (
     case as_map runtime of
       None \<Rightarrow> Inl (auth_refused ''runtime version response was incomplete'')
     | Some d \<Rightarrow>
     require (map_of d ''specVersion'' \<noteq> None \<and> map_of d ''transactionVersion'' \<noteq> None)
       (auth_refused ''runtime version response omitted pinned fields'') (
     rbind (authorization_integer (cget d ''specVersion'') ''runtime spec version'') (\<lambda>spec.
     rbind (authorization_integer (cget d ''transactionVersion'') ''runtime transaction version'') (\<lambda>transaction.
     require (spec = FINNEY_RUNTIME_SPEC_VERSION)
       (auth_refused (''runtime spec is '' @ text_of_int spec @ '', expected pinned ''
          @ text_of_int FINNEY_RUNTIME_SPEC_VERSION)) (
     require (transaction = FINNEY_TRANSACTION_VERSION)
       (auth_refused (''runtime transaction version is '' @ text_of_int transaction @ '', expected pinned ''
          @ text_of_int FINNEY_TRANSACTION_VERSION)) (
     case Option.bind (Option.bind (as_map code_response) (\<lambda>e. map_of e ''result'')) as_text of
       None \<Rightarrow> Inl (auth_refused ''runtime code hash response was incomplete'')
     | Some t \<Rightarrow>
         require (py_lower t = FINNEY_RUNTIME_CODE_HASH)
           (auth_refused (''runtime code hash is '' @ py_lower t @ '', not the audited Finney runtime''))
           (Inr head))))))))"

definition finney_runtime :: "string \<Rightarrow> string \<Rightarrow> chain_value \<Rightarrow> chain_value \<Rightarrow> bool" where
  "finney_runtime genesis head runtime code_response \<longleftrightarrow>
     genesis = FINNEY_GENESIS_HASH \<and> matches chain_hash_rx head \<and>
     (\<exists>d v w. runtime = CMap d \<and> map_of d ''specVersion'' = Some v \<and>
        map_of d ''transactionVersion'' = Some w \<and> reads_integer v 452 \<and> reads_integer w 1) \<and>
     (\<exists>e t. code_response = CMap e \<and> map_of e ''result'' = Some (CStr t) \<and>
        py_lower t = FINNEY_RUNTIME_CODE_HASH)"

lemma check_runtime_Inr:
  "check_runtime genesis head runtime code_response = Inr h \<longleftrightarrow>
     h = head \<and> finney_runtime genesis head runtime code_response"
proof -
  have "check_runtime genesis head runtime code_response = Inr h \<longleftrightarrow>
      genesis = FINNEY_GENESIS_HASH \<and> matches chain_hash_rx head \<and>
      (\<exists>d. runtime = CMap d \<and> (map_of d ''specVersion'' \<noteq> None \<and> map_of d ''transactionVersion'' \<noteq> None) \<and>
         reads_integer (cget d ''specVersion'') 452 \<and> reads_integer (cget d ''transactionVersion'') 1) \<and>
      (\<exists>t. Option.bind (Option.bind (as_map code_response) (\<lambda>e. map_of e ''result'')) as_text = Some t \<and>
         py_lower t = FINNEY_RUNTIME_CODE_HASH) \<and> h = head"
    unfolding check_runtime_def res_iffs case_option_res_iffs authorization_integer_Inr as_chain_iffs
      FINNEY_RUNTIME_SPEC_VERSION_def FINNEY_TRANSACTION_VERSION_def
    by auto
  moreover have "(\<exists>d. runtime = CMap d \<and> (map_of d ''specVersion'' \<noteq> None \<and> map_of d ''transactionVersion'' \<noteq> None) \<and>
         reads_integer (cget d ''specVersion'') 452 \<and> reads_integer (cget d ''transactionVersion'') 1) \<longleftrightarrow>
      (\<exists>d v w. runtime = CMap d \<and> map_of d ''specVersion'' = Some v \<and>
        map_of d ''transactionVersion'' = Some w \<and> reads_integer v 452 \<and> reads_integer w 1)"
    by (auto simp: cget_def)
  ultimately show ?thesis
    by (auto simp: finney_runtime_def bind_eq_Some_conv)
qed

lemma raises_check_runtime [raises_intros]:
  "AuthorizationRefused \<in> C \<Longrightarrow> raises_only C (check_runtime genesis head runtime code_response)"
  unfolding check_runtime_def by (intro raises_intros) simp_all

section \<open>The signed extrinsic\<close>

definition signed_keys :: "string list" where
  "signed_keys =
     [''account_id'', ''address'', ''asset_id'', ''call'', ''call_args'', ''call_function'',
      ''call_module'', ''era'', ''mode'', ''nonce'', ''signature'', ''signature_version'', ''tip'']"

definition check_signed_shape :: "chain_value \<Rightarrow> chain_map res" where
  "check_signed_shape v =
     (case as_map v of
        None \<Rightarrow> Inl (auth_refused ''signed extrinsic fields differ from the audited shape'')
      | Some d \<Rightarrow> require (set (map fst d) = set signed_keys)
          (auth_refused ''signed extrinsic fields differ from the audited shape'') (Inr d))"

definition fee_asset_allowed :: "chain_map \<Rightarrow> bool res" where
  "fee_asset_allowed asset =
     (if set (map fst asset) \<noteq> {''tip'', ''asset_id''} then Inr False
      else rbind (authorization_integer (cget asset ''tip'') ''signed asset tip'') (\<lambda>tip.
           Inr (\<not> (tip \<noteq> 0 \<or> cget asset ''asset_id'' \<noteq> CNone))))"

definition check_signed_fields ::
    "chain_map \<Rightarrow> string \<Rightarrow> chain_value \<Rightarrow> int \<Rightarrow> chain_map \<Rightarrow> unit res" where
  "check_signed_fields d account args nonce era =
     require (\<not> (\<not> chain_eq (cget d ''account_id'') (CStr account) \<or> \<not> chain_eq (cget d ''address'') (CStr account)))
       (auth_refused ''signed extrinsic uses a different account'') (
     require (\<not> (\<not> chain_eq (cget d ''call_module'') (CStr AUTHORIZED_CALL_MODULE)
                \<or> \<not> chain_eq (cget d ''call_function'') (CStr AUTHORIZED_CALL_FUNCTION)
                \<or> \<not> chain_eq (cget d ''call_args'') args
                \<or> \<not> chain_eq (cget d ''call'') (CMap (call_with args))))
       (auth_refused ''signed extrinsic contains a different call'') (
     rbind (authorization_integer (cget d ''nonce'') ''signed nonce'') (\<lambda>signed_nonce.
     require (signed_nonce = nonce)
       (auth_refused ''signed extrinsic nonce differs from the fee estimate'') (
     require (\<exists>e \<in> set_option (as_map (cget d ''era'')). chain_eq (CMap e) (CMap era))
       (auth_refused ''signed extrinsic era differs from the fee estimate'') (
     rbind (authorization_integer (cget d ''tip'') ''signed tip'') (\<lambda>tip.
     require (tip = 0) (auth_refused ''signed extrinsic contains a nonzero tip'') (
     rbind (case as_map (cget d ''asset_id'') of None \<Rightarrow> Inr False | Some asset \<Rightarrow> fee_asset_allowed asset) (\<lambda>allowed.
     require allowed (auth_refused ''signed extrinsic contains an unauthorized fee asset'') (
     require (chain_eq (cget d ''mode'') (CStr ''Disabled''))
       (auth_refused ''signed extrinsic enables an unauthorized mode'') (
     rbind (authorization_integer (cget d ''signature_version'') ''signed signature version'') (\<lambda>version.
     require (version = AUTHORIZED_SIGNATURE_VERSION)
       (auth_refused ''signed extrinsic uses an unexpected signature version'') (
     require (\<exists>t \<in> set_option (as_text (cget d ''signature'')). matches signature_rx t)
       (auth_refused ''signed extrinsic signature could not be proven'')
     (Inr ())))))))))))))"

text \<open>What an accepted extrinsic says.\<close>

definition authorised_extrinsic :: "chain_value \<Rightarrow> string \<Rightarrow> chain_value \<Rightarrow> int \<Rightarrow> chain_map \<Rightarrow> bool" where
  "authorised_extrinsic v account args nonce era \<longleftrightarrow>
     (\<exists>d e asset t. v = CMap d \<and> set (map fst d) = set signed_keys \<and>
        cget d ''account_id'' = CStr account \<and> cget d ''address'' = CStr account \<and>
        cget d ''call_module'' = CStr ''Commitments'' \<and> cget d ''call_function'' = CStr ''set_commitment'' \<and>
        chain_eq (cget d ''call_args'') args \<and> chain_eq (cget d ''call'') (CMap (call_with args)) \<and>
        reads_integer (cget d ''nonce'') nonce \<and>
        cget d ''era'' = CMap e \<and> chain_eq (CMap e) (CMap era) \<and> reads_integer (cget d ''tip'') 0 \<and>
        cget d ''asset_id'' = CMap asset \<and> reads_integer (cget asset ''tip'') 0 \<and>
        cget asset ''asset_id'' = CNone \<and> cget d ''mode'' = CStr ''Disabled'' \<and>
        reads_integer (cget d ''signature_version'') 1 \<and> cget d ''signature'' = CStr t \<and>
        matches signature_rx t)"

lemma chain_eq_CStr [simp]: "chain_eq v (CStr s) \<longleftrightarrow> v = CStr s"
  by (cases v) auto

lemma check_signed_shape_Inr:
  "check_signed_shape v = Inr d \<longleftrightarrow> v = CMap d \<and> set (map fst d) = set signed_keys"
  by (auto simp: check_signed_shape_def res_iffs case_option_res_iffs)

lemma fee_asset_allowed_Inr:
  "fee_asset_allowed asset = Inr True \<Longrightarrow>
     reads_integer (cget asset ''tip'') 0 \<and> cget asset ''asset_id'' = CNone"
  by (auto simp: fee_asset_allowed_def res_iffs authorization_integer_Inr split: if_splits)

lemma check_signed_fields_Inr:
  assumes "check_signed_shape v = Inr d" and "check_signed_fields d account args nonce era = Inr u"
  shows "authorised_extrinsic v account args nonce era"
proof -
  from assms(2) obtain e t where f:
    "cget d ''account_id'' = CStr account" "cget d ''address'' = CStr account"
    "cget d ''call_module'' = CStr ''Commitments''" "cget d ''call_function'' = CStr ''set_commitment''"
    "chain_eq (cget d ''call_args'') args" "chain_eq (cget d ''call'') (CMap (call_with args))"
    "reads_integer (cget d ''nonce'') nonce" "cget d ''era'' = CMap e" "chain_eq (CMap e) (CMap era)"
    "reads_integer (cget d ''tip'') 0" "cget d ''mode'' = CStr ''Disabled''"
    "reads_integer (cget d ''signature_version'') 1" "cget d ''signature'' = CStr t"
    "matches signature_rx t"
    and a: "(case as_map (cget d ''asset_id'') of None \<Rightarrow> Inr False | Some asset \<Rightarrow> fee_asset_allowed asset) = Inr True"
    unfolding check_signed_fields_def res_iffs authorization_integer_Inr AUTHORIZED_SIGNATURE_VERSION_def
      AUTHORIZED_CALL_MODULE_def AUTHORIZED_CALL_FUNCTION_def chain_eq_CStr
    by (auto simp del: chain_eq.simps)
  from a obtain asset where "cget d ''asset_id'' = CMap asset" "fee_asset_allowed asset = Inr True"
    by (auto split: option.splits)
  with f assms(1) fee_asset_allowed_Inr [of asset] show ?thesis
    unfolding authorised_extrinsic_def check_signed_shape_Inr by blast
qed

lemma raises_signed [raises_intros]:
  "AuthorizationRefused \<in> C \<Longrightarrow> raises_only C (check_signed_shape v)"
  "AuthorizationRefused \<in> C \<Longrightarrow> raises_only C (check_signed_fields d account args nonce era)"
proof -
  assume C: "AuthorizationRefused \<in> C"
  show "raises_only C (check_signed_shape v)"
    unfolding check_signed_shape_def by (intro raises_intros C)
  show "raises_only C (check_signed_fields d account args nonce era)"
    unfolding check_signed_fields_def fee_asset_allowed_def by (intro raises_intros C)
qed

end
