(* ===== verification/SignedRuntime.thy ===== *)
theory SignedRuntime
  imports ArtifactCompetition ChainValues
begin

text \<open>
  The part of \<^verbatim>\<open>backend.py\<close> that identifies the installed upstream package:
  \<open>_signed_installation_tree\<close>, \<open>_verify_signed_v030\<close>, \<open>_verify_legacy_upstream\<close> and
  \<open>_verify_upstream\<close>. What the kernel and the package metadata answer is a parameter; the
  lemmas show that the tree digest determines every hashed file.
\<close>

definition SIGNED_V030_WHEEL_SHA256 :: string where
  "SIGNED_V030_WHEEL_SHA256 = ''3629a48b248365070bf5bf190c1584498019c4e1e5ced7c3d175472ff0749e71''"
definition SIGNED_V030_INSTALLED_TREE_SCHEMA :: string where
  "SIGNED_V030_INSTALLED_TREE_SCHEMA = ''microtensor.signed-wheel-tree.v1''"
definition SIGNED_V030_INSTALLED_TREE_FILES :: nat where "SIGNED_V030_INSTALLED_TREE_FILES = 137"
definition SIGNED_V030_INSTALLED_TREE_BYTES :: nat where "SIGNED_V030_INSTALLED_TREE_BYTES = 901899"
definition SIGNED_V030_INSTALLED_TREE_SHA256 :: string where
  "SIGNED_V030_INSTALLED_TREE_SHA256 =
     ''f93d75ef1bc4d2fc9ffbb5e7cd63b37a00bc1a57e6cdee158219a5d6983b8c92''"
definition SIGNED_V030_RELEASE_SIGNING_KEY :: string where
  "SIGNED_V030_RELEASE_SIGNING_KEY =
     ''0x3d8ea239db66637d762ffedf71ad6c0c487c7bc73d5a50d9dd86a0fbc22bdb16''"

section \<open>Collecting the files\<close>

definition SIGNED_DIST_INFO :: string where
  "SIGNED_DIST_INFO = ''microtensor_subnet-0.3.2.dist-info''"

definition INSTALLER_ADDITIONS :: "string list" where
  "INSTALLER_ADDITIONS =
     [SIGNED_DIST_INFO @ ''/INSTALLER'', SIGNED_DIST_INFO @ ''/RECORD'',
      SIGNED_DIST_INFO @ ''/REQUESTED'', SIGNED_DIST_INFO @ ''/direct_url.json'']"

text \<open>
  One step of \<open>os.walk\<close>: the directory, its subdirectory names and its files (by path relative
  to the installation root), each with the answer of \<open>lstat\<close>. \<open>None\<close> is an \<open>OSError\<close>.
\<close>

record walked =
  wk_directory :: string
  wk_metadata :: "stat_result option"
  wk_names :: "(string \<times> stat_result option) list"
  wk_files :: "(string \<times> stat_result option) list"

record observed_tree =
  ot_metadata :: "stat_result option"
  ot_walk :: "walked list"

definition real_directory :: "stat_result \<Rightarrow> bool" where
  "real_directory m \<longleftrightarrow> \<not> (s_islnk (st_mode m) \<or> \<not> s_isdir (st_mode m))"

definition single_file :: "stat_result \<Rightarrow> bool" where
  "single_file m \<longleftrightarrow> \<not> (s_islnk (st_mode m) \<or> \<not> s_isreg (st_mode m) \<or> st_nlink m \<noteq> 1)"

definition inspect :: "stat_result option \<Rightarrow> (stat_result \<Rightarrow> bool) \<Rightarrow> string \<Rightarrow> string \<Rightarrow> unit res" where
  "inspect observed ok unavailable wrong =
     (case observed of
        None \<Rightarrow> fail PreflightError unavailable
      | Some m \<Rightarrow> require (ok m) (Exc PreflightError wrong) (Inr ()))"

definition check_directory :: "string \<times> stat_result option \<Rightarrow> unit res" where
  "check_directory entry =
     inspect (snd entry) real_directory (''signed runtime directory cannot be inspected: '' @ fst entry)
       (''signed runtime contains a non-directory or symlink: '' @ fst entry)"

definition check_file :: "string \<times> stat_result option \<Rightarrow> unit res" where
  "check_file entry =
     inspect (snd entry) single_file (''signed runtime file cannot be inspected: '' @ fst entry)
       (''signed runtime file is not a singly linked regular file: '' @ fst entry)"

fun check_each :: "('a \<Rightarrow> unit res) \<Rightarrow> 'a list \<Rightarrow> unit res" where
  "check_each f [] = Inr ()"
| "check_each f (x # xs) = rbind (f x) (\<lambda>_. check_each f xs)"

fun walk_files :: "walked list \<Rightarrow> string list res" where
  "walk_files [] = Inr []"
| "walk_files (d # ds) =
     rbind (check_directory (wk_directory d, wk_metadata d)) (\<lambda>_.
     rbind (check_each check_directory (wk_names d)) (\<lambda>_.
     rbind (check_each check_file (wk_files d)) (\<lambda>_.
     rbind (walk_files ds) (\<lambda>rest.
     Inr (filter (\<lambda>relative. relative \<notin> set INSTALLER_ADDITIONS) (map fst (wk_files d)) @ rest)))))"

definition tree_files :: "(string \<Rightarrow> observed_tree) \<Rightarrow> string \<Rightarrow> string list res" where
  "tree_files observe tree =
     rbind (inspect (ot_metadata (observe tree)) real_directory
              (''signed runtime tree is unavailable: '' @ tree)
              (''signed runtime tree is not a real directory: '' @ tree)) (\<lambda>_.
     walk_files (ot_walk (observe tree)))"

definition runtime_entries :: "(string \<Rightarrow> observed_tree) \<Rightarrow> string list res" where
  "runtime_entries observe =
     rbind (tree_files observe ''microtensor'') (\<lambda>a.
     rbind (tree_files observe ''neurons'') (\<lambda>b.
     rbind (tree_files observe SIGNED_DIST_INFO) (\<lambda>c. Inr (a @ b @ c))))"

section \<open>Hashing the files\<close>

text \<open>\<open>open\<close>, \<open>fstat\<close>, the answers of \<open>read\<close>, and \<open>fstat\<close> again; \<open>None\<close> is an \<open>OSError\<close>.\<close>

record file_reads =
  fr_opens :: bool
  fr_before :: "stat_result option"
  fr_chunks :: "string option list"
  fr_after :: "stat_result option"

definition MAX_RUNTIME_FILE :: nat where "MAX_RUNTIME_FILE = 8 * 1024 * 1024"

fun runtime_chunks :: "string \<Rightarrow> string \<Rightarrow> string option list \<Rightarrow> string res" where
  "runtime_chunks relative content [] = Inr content"
| "runtime_chunks relative content (None # rs) = fail OSError []"
| "runtime_chunks relative content (Some chunk # rs) =
     (if chunk = [] then Inr content
      else if length (content @ chunk) > MAX_RUNTIME_FILE
      then fail PreflightError (''signed runtime file exceeds 8 MiB: '' @ relative)
      else runtime_chunks relative (content @ chunk) rs)"

definition file_identity :: "stat_result \<Rightarrow> int list" where
  "file_identity m =
     [st_dev m, st_ino m, int (st_mode m), st_nlink m, st_size m, st_mtime_ns m, st_ctime_ns m]"

definition read_runtime_file :: "string \<Rightarrow> file_reads \<Rightarrow> string res" where
  "read_runtime_file relative s =
     (case
        require (fr_opens s) (Exc OSError []) (
        rbind (syscall (fr_before s)) (\<lambda>before.
        require (\<not> (\<not> s_isreg (st_mode before) \<or> st_nlink before \<noteq> 1))
          (Exc PreflightError (''signed runtime file is not a singly linked regular file: '' @ relative)) (
        rbind (runtime_chunks relative [] (fr_chunks s)) (\<lambda>content.
        rbind (syscall (fr_after s)) (\<lambda>after. Inr (before, content, after))))))
      of
        Inl e \<Rightarrow>
          if isinstance e PreflightError then Inl e
          else if isinstance e OSError
          then fail PreflightError (''signed runtime file cannot be read: '' @ relative) else Inl e
      | Inr (before, content, after) \<Rightarrow>
          require (\<not> (file_identity before \<noteq> file_identity after
                     \<or> int (length content) \<noteq> st_size before))
            (Exc PreflightError (''signed runtime file changed while read: '' @ relative))
            (Inr content))"

text \<open>\<open>int.to_bytes(k, "big")\<close> and the raw bytes of a hexadecimal digest.\<close>

fun big_endian :: "nat \<Rightarrow> nat \<Rightarrow> string" where
  "big_endian 0 n = []"
| "big_endian (Suc k) n = big_endian k (n div 256) @ [char_of (n mod 256)]"

definition to_bytes :: "nat \<Rightarrow> nat \<Rightarrow> string res" where
  "to_bytes k n = require (n < 256 ^ k) (Exc OverflowError ''int too big to convert'') (Inr (big_endian k n))"

definition hex_value :: "char \<Rightarrow> nat" where
  "hex_value c = (if is_digit c then code c - 48 else code c - 87)"

fun unhex :: "string \<Rightarrow> string" where
  "unhex (a # b # s) = char_of (16 * hex_value a + hex_value b) # unhex s"
| "unhex s = []"

definition sha256_raw :: "stdlib \<Rightarrow> string \<Rightarrow> string" where
  "sha256_raw lib s = unhex (sha256_hex lib s)"

definition file_record :: "stdlib \<Rightarrow> string \<Rightarrow> string \<Rightarrow> string res" where
  "file_record lib relative content =
     rbind (to_bytes 4 (length (utf8_encode relative))) (\<lambda>name_length.
     rbind (to_bytes 8 (length content)) (\<lambda>content_length.
     Inr (name_length @ utf8_encode relative @ content_length @ sha256_raw lib content)))"

fun hashed_files ::
    "stdlib \<Rightarrow> (string \<Rightarrow> file_reads) \<Rightarrow> string list \<Rightarrow> (nat \<times> string) res" where
  "hashed_files lib reads [] = Inr (0, [])"
| "hashed_files lib reads (relative # rest) =
     rbind (read_runtime_file relative (reads relative)) (\<lambda>content.
     rbind (file_record lib relative content) (\<lambda>bytes.
     rbind (hashed_files lib reads rest) (\<lambda>(total, stream).
     Inr (length content + total, bytes @ stream))))"

definition signed_installation_tree ::
    "stdlib \<Rightarrow> (string \<Rightarrow> observed_tree) \<Rightarrow> (string \<Rightarrow> file_reads) \<Rightarrow> (nat \<times> nat \<times> string) res" where
  "signed_installation_tree lib observe reads =
     rbind (runtime_entries observe) (\<lambda>entries.
     rbind (hashed_files lib reads (sort entries)) (\<lambda>(total, stream).
     Inr (length entries, total,
       sha256_hex lib (SIGNED_V030_INSTALLED_TREE_SCHEMA @ CHR 0x00 # stream))))"

section \<open>Package identity\<close>

text \<open>
  The package metadata: \<open>None\<close> for a missing distribution (\<open>pk_version\<close>), file
  (\<open>pk_direct_url\<close>), location (\<open>pk_root\<close>; else whether it is absolute, and its \<open>lstat\<close>) or
  constant (\<open>pk_constants\<close>: release, mechanism, provenance gate and signing key).
\<close>

record installation =
  in_tree :: "string \<Rightarrow> observed_tree"
  in_file :: "string \<Rightarrow> file_reads"

record 'x packages =
  pk_version :: "('x, string option) prog"
  pk_direct_url :: "('x, string option) prog"
  pk_root :: "('x, (bool \<times> stat_result) option) prog"
  pk_installation :: "('x, installation) prog"
  pk_constants :: "('x, (chain_value \<times> chain_value \<times> chain_value \<times> chain_value) option) prog"

definition direct_json_object :: "(string \<Rightarrow> raw option) \<Rightarrow> string \<Rightarrow> dict res" where
  "direct_json_object parse raw =
     rbind (load_strict parse raw) (\<lambda>v.
     case v of JObj d \<Rightarrow> Inr d | _ \<Rightarrow> fail ValueError ''JSON value is not an object'')"

text \<open>\<open>value[key]\<close>: \<open>KeyError\<close> or, when the value is no object, \<open>TypeError\<close>.\<close>

definition json_item :: "json \<Rightarrow> string \<Rightarrow> json res" where
  "json_item v key =
     (case v of
        JObj d \<Rightarrow> (case map_of d key of None \<Rightarrow> fail KeyError key | Some x \<Rightarrow> Inr x)
      | _ \<Rightarrow> fail TypeError ''value is not subscriptable by a string'')"

definition archive_hashes :: "(string \<Rightarrow> raw option) \<Rightarrow> string \<Rightarrow> (json \<times> json) res" where
  "archive_hashes parse raw =
     (case
        rbind (direct_json_object parse raw) (\<lambda>direct.
        rbind (json_item (JObj direct) ''archive_info'') (\<lambda>archive.
        rbind (json_item archive ''hashes'') (\<lambda>hashes.
        rbind (json_item hashes ''sha256'') (\<lambda>digest.
        rbind (json_item archive ''hash'') (\<lambda>legacy. Inr (digest, legacy))))))
      of
        Inr r \<Rightarrow> Inr r
      | Inl e \<Rightarrow>
          if isinstance e KeyError \<or> isinstance e TypeError \<or> isinstance e ValueError
          then fail PreflightError ''signed v0.3 install has malformed PEP 610 archive identity''
          else Inl e)"

definition check_wheel :: "(string \<Rightarrow> raw option) \<Rightarrow> string \<Rightarrow> string res" where
  "check_wheel parse direct_raw =
     rbind (archive_hashes parse direct_raw) (\<lambda>(digest, legacy_hash).
     case (as_str digest, as_str legacy_hash) of
       (Some d, Some l) \<Rightarrow>
         require (\<not> (d \<noteq> SIGNED_V030_WHEEL_SHA256 \<or> l \<noteq> ''sha256='' @ d))
           (Exc PreflightError (''signed v0.3 wheel hash is '' @ (if d = [] then ''missing'' else d)
              @ '', expected '' @ SIGNED_V030_WHEEL_SHA256)) (Inr d)
     | _ \<Rightarrow> fail PreflightError ''signed v0.3 install has malformed PEP 610 archive hashes'')"

definition expected_tree :: "nat \<times> nat \<times> string" where
  "expected_tree =
     (SIGNED_V030_INSTALLED_TREE_FILES, SIGNED_V030_INSTALLED_TREE_BYTES,
      SIGNED_V030_INSTALLED_TREE_SHA256)"

definition check_constants ::
    "chain_value \<times> chain_value \<times> chain_value \<times> chain_value \<Rightarrow> unit res" where
  "check_constants t =
     (case t of (release, mechanism, provenance_gate, signing_key) \<Rightarrow>
        require (chain_eq release (CStr SIGNED_V030_RELEASE))
          (Exc PreflightError ''runtime release identity differs from the signed release'') (
        require (chain_eq mechanism (CStr SIGNED_V030_MECHANISM_VERSION))
          (Exc PreflightError ''runtime mechanism identity differs from the signed release'') (
        require (provenance_gate = CBool SIGNED_V030_PROVENANCE_REQUIRED)
          (Exc PreflightError ''runtime provenance gate differs from the audited signed release'') (
        require (chain_eq signing_key (CStr SIGNED_V030_RELEASE_SIGNING_KEY))
          (Exc PreflightError ''runtime release signing key differs from the audited v0.3 key'')
          (Inr ())))))"

definition verify_signed_v030 ::
    "stdlib \<Rightarrow> (string \<Rightarrow> raw option) \<Rightarrow> 'x packages \<Rightarrow> string \<Rightarrow> ('x, string \<times> string) prog" where
  "verify_signed_v030 lib parse K version =
     pseq (guard (version = SIGNED_V030_RELEASE)
            (Exc PreflightError (''microtensor-subnet version is '' @ version
               @ '', expected signed release '' @ SIGNED_V030_RELEASE))) (
     pbind (pk_direct_url K) (\<lambda>direct_raw.
     if direct_raw = None \<or> direct_raw = Some [] then
       throw (Exc PreflightError ''signed v0.3 install has no PEP 610 archive identity'')
     else
     pbind (lift_res (check_wheel parse (the direct_raw))) (\<lambda>digest.
     pbind (pk_root K) (\<lambda>located.
     case located of
       None \<Rightarrow> throw (Exc PreflightError ''signed v0.3 installation root is unavailable'')
     | Some (absolute, m) \<Rightarrow>
     pseq (guard (\<not> (\<not> absolute \<or> s_islnk (st_mode m) \<or> \<not> s_isdir (st_mode m)))
            (Exc PreflightError ''signed v0.3 installation root is not a real absolute directory'')) (
     pbind (pk_installation K) (\<lambda>installed.
     pbind (lift_res (signed_installation_tree lib (in_tree installed) (in_file installed))) (\<lambda>tree_identity.
     pseq (guard (tree_identity = expected_tree)
            (Exc PreflightError ''installed signed v0.3 runtime tree differs from the verified release wheel'')) (
     pbind (pk_constants K) (\<lambda>constants.
     case constants of
       None \<Rightarrow> throw (Exc PreflightError ''signed v0.3 runtime identity constants are unavailable'')
     | Some t \<Rightarrow>
     pseq (lift_res (check_constants t))
     (ret (''sha256:'' @ digest, version)))))))))))"

text \<open>The commit of \<open>direct_url.json\<close> in the unsigned profile; malformed metadata has none.\<close>

definition direct_commit :: "(string \<Rightarrow> raw option) \<Rightarrow> string option \<Rightarrow> string" where
  "direct_commit parse direct_raw =
     (case Option.bind direct_raw (\<lambda>t. if t = [] then None else parse t) of
        None \<Rightarrow> []
      | Some r \<Rightarrow>
          (case as_obj (lax_value r) of
             None \<Rightarrow> []
           | Some direct \<Rightarrow>
               let vcs = dget direct ''vcs_info'' in
               (case as_obj (if truthy vcs then vcs else JObj []) of
                  None \<Rightarrow> []
                | Some d \<Rightarrow> py_str (dget_or (JStr []) d ''commit_id''))))"

definition verify_legacy_upstream ::
    "(string \<Rightarrow> raw option) \<Rightarrow> controller_config \<Rightarrow> 'x packages \<Rightarrow> string \<Rightarrow> ('x, string \<times> string) prog" where
  "verify_legacy_upstream parse c K version =
     pseq (guard (version = UPSTREAM_RELEASE)
            (Exc PreflightError (''microtensor-subnet version is '' @ version @ '', expected ''
               @ UPSTREAM_RELEASE @ '' from the pin''))) (
     pbind (pk_direct_url K) (\<lambda>direct_raw.
     let commit = direct_commit parse direct_raw in
     if commit = UPSTREAM_COMMIT then ret (commit, version)
     else pseq (guard (c_allow_unverified_upstream c)
            (Exc PreflightError (''upstream commit is ''
               @ (if commit = [] then ''no PEP 610 commit metadata'' else commit)
               @ ''; expected '' @ UPSTREAM_COMMIT
               @ ''. Install this project's pinned direct dependency.'')))
          (ret (''unverified'', version))))"

definition verify_upstream ::
    "stdlib \<Rightarrow> (string \<Rightarrow> raw option) \<Rightarrow> controller_config \<Rightarrow> 'x packages \<Rightarrow> ('x, string \<times> string) prog" where
  "verify_upstream lib parse c K =
     pbind (pk_version K) (\<lambda>observed.
     case observed of
       None \<Rightarrow> throw (Exc PreflightError ''microtensor-subnet is not installed'')
     | Some version \<Rightarrow>
         if uses_signed_v030 c then verify_signed_v030 lib parse K version
         else verify_legacy_upstream parse c K version)"

section \<open>The digest determines the files\<close>

lemma big_endian_length [simp]: "length (big_endian k n) = k"
  by (induction k arbitrary: n) auto

lemma big_endian_inj: "big_endian k m = big_endian k n \<Longrightarrow> m < 256 ^ k \<Longrightarrow> n < 256 ^ k \<Longrightarrow> m = n"
proof (induction k arbitrary: m n)
  case (Suc k)
  have "(char_of (m mod 256) :: char) = char_of (n mod 256)"
    using Suc.prems(1) by simp
  then have "code (char_of (m mod 256)) = code (char_of (n mod 256))" by simp
  then have low: "m mod 256 = n mod 256" by (simp add: code_char_of)
  have "m div 256 < 256 ^ k" "n div 256 < 256 ^ k"
    using Suc.prems(2,3) by (auto simp: less_mult_imp_div_less mult.commute)
  with Suc have "m div 256 = n div 256" by simp
  with low show ?case by (metis div_mult_mod_eq)
qed simp

lemma to_bytes_Inr: "to_bytes k n = Inr b \<longleftrightarrow> n < 256 ^ k \<and> b = big_endian k n"
  by (auto simp: to_bytes_def require_Inr_iff)

text \<open>The records of a stream can be told apart: lengths first, digests of 32 bytes last.\<close>

lemma file_record_inj:
  assumes "file_record lib f c = Inr b" and "file_record lib g d = Inr b'"
    and stream: "b @ s = b' @ s'"
    and raw: "length (sha256_raw lib c) = 32" "length (sha256_raw lib d) = 32"
  shows "f = g \<and> length c = length d \<and> sha256_raw lib c = sha256_raw lib d \<and> s = s'"
proof -
  let ?n = "\<lambda>t. length (utf8_encode t)"
  have b: "b = big_endian 4 (?n f) @ utf8_encode f @ big_endian 8 (length c) @ sha256_raw lib c"
    and b': "b' = big_endian 4 (?n g) @ utf8_encode g @ big_endian 8 (length d) @ sha256_raw lib d"
    and small: "?n f < 256 ^ 4" "?n g < 256 ^ 4" "length c < 256 ^ 8" "length d < 256 ^ 8"
    using assms(1,2) by (auto simp: file_record_def res_iffs to_bytes_Inr)
  have "big_endian 4 (?n f) = big_endian 4 (?n g)"
    and rest: "utf8_encode f @ big_endian 8 (length c) @ sha256_raw lib c @ s =
      utf8_encode g @ big_endian 8 (length d) @ sha256_raw lib d @ s'"
    using stream unfolding b b' append_assoc by (simp_all add: append_eq_append_conv)
  with small have "?n f = ?n g" by (blast intro: big_endian_inj)
  with rest have "utf8_encode f = utf8_encode g"
    and tail: "big_endian 8 (length c) @ sha256_raw lib c @ s =
      big_endian 8 (length d) @ sha256_raw lib d @ s'"
    by (simp_all add: append_eq_append_conv)
  moreover have "big_endian 8 (length c) = big_endian 8 (length d)"
    using tail by (simp add: append_eq_append_conv)
  with small have "length c = length d" by (blast intro: big_endian_inj)
  moreover have "sha256_raw lib c = sha256_raw lib d \<and> s = s'"
    using tail raw by (simp add: append_eq_append_conv)
  ultimately show ?thesis using utf8_encode_inj by blast
qed

definition read_content :: "(string \<Rightarrow> file_reads) \<Rightarrow> string \<Rightarrow> string" where
  "read_content reads f = (case read_runtime_file f (reads f) of Inl e \<Rightarrow> [] | Inr c \<Rightarrow> c)"

text \<open>What is installed: every hashed path with the content that was read.\<close>

definition installed_files ::
    "(string \<Rightarrow> observed_tree) \<Rightarrow> (string \<Rightarrow> file_reads) \<Rightarrow> (string \<times> string) list" where
  "installed_files observe reads =
     (case runtime_entries observe of
        Inl e \<Rightarrow> []
      | Inr entries \<Rightarrow>
          map (\<lambda>f. (f, read_content reads f)) (sort entries))"

definition tree_stream :: "stdlib \<Rightarrow> (string \<Rightarrow> observed_tree) \<Rightarrow> (string \<Rightarrow> file_reads) \<Rightarrow> string" where
  "tree_stream lib observe reads =
     (case rbind (runtime_entries observe) (\<lambda>entries. hashed_files lib reads (sort entries)) of
        Inl e \<Rightarrow> [] | Inr (sz, stream) \<Rightarrow> SIGNED_V030_INSTALLED_TREE_SCHEMA @ CHR 0x00 # stream)"

text \<open>A hash that tells the given contents apart and has 32 bytes.\<close>

definition hashes_contents :: "stdlib \<Rightarrow> string set \<Rightarrow> bool" where
  "hashes_contents lib C \<longleftrightarrow>
     inj_on (sha256_raw lib) C \<and> (\<forall>c \<in> C. length (sha256_raw lib c) = 32)"

lemma file_record_nonempty: "file_record lib f c = Inr b \<Longrightarrow> b \<noteq> []"
proof -
  assume "file_record lib f c = Inr b"
  then obtain rest where "b = big_endian 4 (length (utf8_encode f)) @ rest"
    by (auto simp: file_record_def res_iffs to_bytes_Inr)
  then have "4 \<le> length b" by simp
  then show "b \<noteq> []" by auto
qed

lemma hashed_files_inj:
  assumes "hashed_files lib r fs = Inr (m, s)" and "hashed_files lib r' gs = Inr (n, s)"
    and "hashes_contents lib (read_content r ` set fs \<union> read_content r' ` set gs)"
  shows "map (\<lambda>f. (f, read_content r f)) fs = map (\<lambda>f. (f, read_content r' f)) gs"
  using assms
proof (induction fs arbitrary: gs m n s)
  case Nil
  then show ?case by (cases gs) (auto simp: rbind_Inr_iff dest: file_record_nonempty)
next
  case (Cons f fs)
  then obtain c b m1 s1 where f: "read_runtime_file f (r f) = Inr c" "file_record lib f c = Inr b"
    "hashed_files lib r fs = Inr (m1, s1)" "s = b @ s1"
    by (auto simp: rbind_Inr_iff)
  with file_record_nonempty have "b \<noteq> []" by blast
  with Cons.prems(2) f(4) obtain g gs' where gs: "gs = g # gs'" by (cases gs) auto
  with Cons.prems(2) obtain d b' n1 s2 where g: "read_runtime_file g (r' g) = Inr d"
    "file_record lib g d = Inr b'" "hashed_files lib r' gs' = Inr (n1, s2)" "s = b' @ s2"
    by (auto simp: rbind_Inr_iff)
  have content: "read_content r f = c" "read_content r' g = d"
    using f(1) g(1) by (simp_all add: read_content_def)
  have "length (sha256_raw lib c) = 32" "length (sha256_raw lib d) = 32"
    using Cons.prems(3) content gs by (auto simp: hashes_contents_def)
  from file_record_inj [OF f(2) g(2) _ this, of s1 s2] f(4) g(4)
  have same: "f = g" "sha256_raw lib c = sha256_raw lib d" "s1 = s2" by simp_all
  have "c = d"
  proof (rule inj_onD [where f = "sha256_raw lib", OF _ same(2)])
    show "inj_on (sha256_raw lib) (read_content r ` set (f # fs) \<union> read_content r' ` set gs)"
      using Cons.prems(3) by (simp add: hashes_contents_def)
  qed (use content gs in auto)
  moreover have "map (\<lambda>f. (f, read_content r f)) fs = map (\<lambda>f. (f, read_content r' f)) gs'"
    using Cons.prems(3) gs
    by (intro Cons.IH [OF f(3)])
      (use g(3) same in \<open>auto simp: hashes_contents_def intro: inj_on_subset\<close>)
  ultimately show ?case using gs same content by simp
qed

lemma signed_installation_tree_Inr:
  "signed_installation_tree lib observe reads = Inr (n, t, d) \<longleftrightarrow>
     (\<exists>entries stream. runtime_entries observe = Inr entries \<and> n = length entries \<and>
        hashed_files lib reads (sort entries) = Inr (t, stream) \<and>
        d = sha256_hex lib (SIGNED_V030_INSTALLED_TREE_SCHEMA @ CHR 0x00 # stream))"
  by (auto simp: signed_installation_tree_def rbind_Inr_iff)

text \<open>
  C14: The installed runtime is pinned file by file. When two installations, observed and read
  in any order, give the same tree identity, they hold the same paths with the same contents;
  in particular one that passes preflight holds exactly the files of the release wheel the
  expected identity was computed from. (The digest is assumed injective on the two streams
  and, as 32 raw bytes, on the file contents.) Behind it: every record of the hashed stream
  starts with the lengths of its path and content at a fixed width, so records cannot run into
  each other.
\<close>

theorem signed_tree_pins_files:
  assumes tree: "signed_installation_tree lib observe reads = Inr identity"
    and tree': "signed_installation_tree lib observe' reads' = Inr identity"
    and streams: "inj_on (sha256_hex lib) {tree_stream lib observe reads, tree_stream lib observe' reads'}"
    and contents: "hashes_contents lib
      (snd ` set (installed_files observe reads) \<union> snd ` set (installed_files observe' reads'))"
  shows "installed_files observe reads = installed_files observe' reads'"
proof -
  obtain n t d where i: "identity = (n, t, d)" by (cases identity)
  from tree i obtain es s where es: "runtime_entries observe = Inr es"
    "hashed_files lib reads (sort es) = Inr (t, s)"
    "d = sha256_hex lib (SIGNED_V030_INSTALLED_TREE_SCHEMA @ CHR 0x00 # s)"
    by (auto simp: signed_installation_tree_Inr)
  from tree' i obtain fs s' where fs: "runtime_entries observe' = Inr fs"
    "hashed_files lib reads' (sort fs) = Inr (t, s')"
    "d = sha256_hex lib (SIGNED_V030_INSTALLED_TREE_SCHEMA @ CHR 0x00 # s')"
    by (auto simp: signed_installation_tree_Inr)
  have stream: "tree_stream lib observe reads = SIGNED_V030_INSTALLED_TREE_SCHEMA @ CHR 0x00 # s"
    "tree_stream lib observe' reads' = SIGNED_V030_INSTALLED_TREE_SCHEMA @ CHR 0x00 # s'"
    by (simp_all add: tree_stream_def es(1,2) fs(1,2))
  have "tree_stream lib observe reads = tree_stream lib observe' reads'"
    by (rule inj_onD [OF streams]) (simp_all add: stream es(3) [symmetric] fs(3) [symmetric])
  then have "s = s'" by (simp add: stream)
  with hashed_files_inj [OF es(2), of reads' "sort fs" t] fs(2) contents es(1) fs(1)
  show ?thesis by (auto simp: installed_files_def image_image)
qed

text \<open>Two walks of one installation, and a hash that works on them.\<close>

definition example_directory :: stat_result where
  "example_directory =
     \<lparr>st_dev = 1, st_ino = 2, st_mode = 4 * 4096, st_uid = 0, st_gid = 0, st_nlink = 2, st_size = 0,
      st_mtime_ns = 5, st_ctime_ns = 6\<rparr>"

definition example_file :: stat_result where
  "example_file =
     \<lparr>st_dev = 1, st_ino = 3, st_mode = 8 * 4096, st_uid = 0, st_gid = 0, st_nlink = 1, st_size = 1,
      st_mtime_ns = 5, st_ctime_ns = 6\<rparr>"

definition example_walk :: "string list \<Rightarrow> string \<Rightarrow> observed_tree" where
  "example_walk names tree =
     \<lparr>ot_metadata = Some example_directory,
      ot_walk = (if tree = ''neurons''
        then [\<lparr>wk_directory = tree, wk_metadata = Some example_directory, wk_names = [],
               wk_files = map (\<lambda>f. (f, Some example_file)) names\<rparr>]
        else [])\<rparr>"

definition example_reads :: "string \<Rightarrow> file_reads" where
  "example_reads relative =
     \<lparr>fr_opens = True, fr_before = Some example_file, fr_chunks = [Some (take 1 (rev relative)), Some []],
      fr_after = Some example_file\<rparr>"

definition padding_lib :: stdlib where
  "padding_lib = example_lib\<lparr>sha256_hex := (\<lambda>s.
     if s = ''a'' then replicate 64 CHR ''a'' else replicate 64 CHR ''b'')\<rparr>"


lemma padding_hex:
  "sha256_hex padding_lib s = (if s = ''a'' then replicate 64 CHR ''a'' else replicate 64 CHR ''b'')"
  by (simp add: padding_lib_def)

lemma unhex_replicate: "unhex (replicate (2 * n) c) = replicate n (char_of (17 * hex_value c))"
  by (induction n) simp_all

lemma padding_raw:
  "sha256_raw padding_lib s = replicate 32 (if s = ''a'' then char_of (170::nat) else char_of (187::nat))"
  using unhex_replicate [of 32 "CHR ''a''"] unhex_replicate [of 32 "CHR ''b''"]
  by (simp add: sha256_raw_def padding_hex hex_value_def is_digit_def code_def)

lemma example_reads_content:
  "read_runtime_file ''neurons/a'' (example_reads ''neurons/a'') = Inr ''a''"
  "read_runtime_file ''neurons/b'' (example_reads ''neurons/b'') = Inr ''b''"
  by (simp_all add: read_runtime_file_def example_reads_def example_file_def mode_defs
      MAX_RUNTIME_FILE_def syscall_def)

lemma example_entries:
  "runtime_entries (example_walk [''neurons/a'', ''neurons/b'']) = Inr [''neurons/a'', ''neurons/b'']"
  "runtime_entries (example_walk [''neurons/b'', ''neurons/a'']) = Inr [''neurons/b'', ''neurons/a'']"
  by (simp_all add: runtime_entries_def tree_files_def inspect_def example_walk_def example_directory_def
      example_file_def real_directory_def single_file_def check_directory_def check_file_def mode_defs
      INSTALLER_ADDITIONS_def SIGNED_DIST_INFO_def)

lemma example_sorted: "sort [''neurons/a'', ''neurons/b''] = [''neurons/a'', ''neurons/b'']"
  "sort [''neurons/b'', ''neurons/a''] = [''neurons/a'', ''neurons/b'']"
  by code_simp+

lemma example_installed:
  "installed_files (example_walk [''neurons/a'', ''neurons/b'']) example_reads =
     [(''neurons/a'', ''a''), (''neurons/b'', ''b'')]"
  "installed_files (example_walk [''neurons/b'', ''neurons/a'']) example_reads =
     [(''neurons/a'', ''a''), (''neurons/b'', ''b'')]"
  by (simp_all add: installed_files_def example_entries example_sorted read_content_def example_reads_content)

lemma example_record:
  "\<exists>b. file_record padding_lib f [c] = Inr b" if "length (utf8_encode f) < 100"
  using that by (simp add: file_record_def to_bytes_def require_def)

lemma example_hashed:
  "\<exists>stream. hashed_files padding_lib example_reads [''neurons/a'', ''neurons/b''] = Inr (2, stream)"
proof -
  have "length (utf8_encode ''neurons/a'') < 100" "length (utf8_encode ''neurons/b'') < 100" by code_simp+
  with example_record obtain a b where "file_record padding_lib ''neurons/a'' ''a'' = Inr a"
    "file_record padding_lib ''neurons/b'' ''b'' = Inr b" by blast
  then show ?thesis by (simp add: example_reads_content)
qed

theorem signed_tree_pins_files_witness:
  "installed_files (example_walk [''neurons/a'', ''neurons/b'']) example_reads =
   installed_files (example_walk [''neurons/b'', ''neurons/a'']) example_reads"
proof -
  obtain s where s: "hashed_files padding_lib example_reads [''neurons/a'', ''neurons/b''] = Inr (2, s)"
    using example_hashed by blast
  let ?identity = "(2, 2, sha256_hex padding_lib (SIGNED_V030_INSTALLED_TREE_SCHEMA @ CHR 0x00 # s))"
  let ?stream = "\<lambda>names. tree_stream padding_lib (example_walk names) example_reads"
  have trees: "signed_installation_tree padding_lib (example_walk [''neurons/a'', ''neurons/b'']) example_reads =
      Inr ?identity"
    "signed_installation_tree padding_lib (example_walk [''neurons/b'', ''neurons/a'']) example_reads =
      Inr ?identity"
    unfolding signed_installation_tree_def by (simp_all only: example_entries rbind_simps example_sorted s) auto
  have "?stream [''neurons/a'', ''neurons/b''] = ?stream [''neurons/b'', ''neurons/a'']"
    unfolding tree_stream_def by (simp only: example_entries rbind_simps example_sorted)
  then have streams: "inj_on (sha256_hex padding_lib)
      {?stream [''neurons/a'', ''neurons/b''], ?stream [''neurons/b'', ''neurons/a'']}" by simp
  have "(char_of (170::nat) :: char) \<noteq> char_of (187::nat)" by (simp add: char_of_eq_iff)
  then have "hashes_contents padding_lib {''a'', ''b''}"
    by (auto simp: hashes_contents_def inj_on_def padding_raw)
  with signed_tree_pins_files [OF trees streams] show ?thesis by (simp add: example_installed insert_commute)
qed

end
