(* ===== verification/BackendChecks.thy ===== *)
theory BackendChecks
  imports SignedRuntime GithubTransport Models
begin

text \<open>
  The checks of \<^verbatim>\<open>backend.py\<close> on local files: the GitHub token, the wallet permissions, the
  self-check, \<open>_validate_artifact_config\<close> and \<open>validate_round\<close>. The file system and
  the two binding readers are operations on an external state; each observation is what one
  call of them finds.
\<close>

section \<open>The machine\<close>

text \<open>
  \<open>os_competition\<close> and \<open>os_selfcheck\<close> are what one validation of the artifact competition
  binding and of the self-check binding reads: the protected file and the artifact tree; the
  effective user, the binding file's metadata and bytes, the tree and the self-check file.
\<close>

record 'x machine =
  os_lib :: stdlib
  os_decode :: "string \<Rightarrow> string option"
  os_parse :: "string \<Rightarrow> raw option"
  os_is_dir :: "string \<Rightarrow> ('x, bool) prog"
  os_is_file :: "string \<Rightarrow> ('x, bool) prog"
  os_exists :: "string \<Rightarrow> ('x, bool) prog"
  os_lstat :: "string \<Rightarrow> ('x, stat_result option) prog"
  os_euid :: "('x, int) prog"
  os_read_text :: "string \<Rightarrow> ('x, string) prog"
  os_protected :: "string \<Rightarrow> ('x, file_session) prog"
  os_competition :: "('x, file_session \<times> tree) prog"
  os_selfcheck :: "('x, int \<times> stat_result option \<times> string option \<times> tree \<times> string option) prog"

section \<open>Paths\<close>

definition path_join :: "string \<Rightarrow> string \<Rightarrow> string" where
  "path_join a b = (if prefix ''/'' b then b else a @ ''/'' @ b)"

text \<open>\<open>PurePath.suffix\<close>: the last dot of the name, neither its first nor its last character.\<close>

definition path_suffix :: "string \<Rightarrow> string" where
  "path_suffix path =
     (let name = last (split_on CHR ''/'' path);
          extension = rev (takeWhile (\<lambda>c. c \<noteq> CHR ''.'') (rev name))
      in if extension \<noteq> [] \<and> length extension + 1 < length name then CHR ''.'' # extension else [])"

section \<open>Token and wallet\<close>

text \<open>The constructor \<open>GitHubTransport(token)\<close> with its default limits only checks the token.\<close>

definition token_of_bytes :: "string \<Rightarrow> string res" where
  "token_of_bytes raw =
     require (list_all (\<lambda>c. code c < 128) raw)
       (Exc PreflightError ''GitHub token file must contain ASCII'') (
     let token = (if suffix [char_of (10::nat)] raw then butlast raw else raw) in
     require (\<not> (char_of (10::nat) \<in> set token \<or> char_of (13::nat) \<in> set token
                \<or> \<not> list_all (\<lambda>c. code c < 128) token))
       (Exc PreflightError ''GitHub token file must contain exactly one token'') (
     case validate_token token of
       Inl e \<Rightarrow> if isinstance e ReleasePublishError
                then fail PreflightError ''GitHub token file contains an invalid token'' else Inl e
     | Inr _ \<Rightarrow> Inr token))"

definition read_github_token :: "'x machine \<Rightarrow> controller_config \<Rightarrow> ('x, string) prog" where
  "read_github_token M c =
     (case c_github_token_file c of
        None \<Rightarrow> throw (Exc PreflightError ''GitHub token file is required for live HTTPS upload'')
      | Some path \<Rightarrow>
          pbind (os_protected M path) (\<lambda>session.
          pbind (lift_res (case read_root_service_file session ''GitHub token file'' 4096 of
                   Inl e \<Rightarrow> if isinstance e ProtectedFileError
                            then fail PreflightError (exc_text e) else Inl e
                 | Inr raw \<Rightarrow> Inr raw)) (\<lambda>raw.
          lift_res (token_of_bytes raw))))"

definition hotkey_file :: "controller_config \<Rightarrow> string" where
  "hotkey_file c =
     path_join (path_join (path_join (c_wallet_path c) (c_wallet_name c)) ''hotkeys'') (c_wallet_hotkey c)"

definition check_hotkey_file :: "stat_result option \<Rightarrow> int \<Rightarrow> string \<Rightarrow> unit res" where
  "check_hotkey_file metadata euid path =
     (case metadata of
        None \<Rightarrow> fail PreflightError (''configured hotkey file is unavailable: '' @ path)
      | Some m \<Rightarrow>
          require (\<not> (s_islnk (st_mode m) \<or> \<not> s_isreg (st_mode m)))
            (Exc PreflightError (''hotkey file must be a regular non-symlink: '' @ path)) (
          require (st_uid m = euid)
            (Exc PreflightError (''hotkey file must be owned by effective UID '' @ text_of_int euid
               @ '': '' @ path)) (
          require (s_imode (st_mode m) mod 64 = 0)
            (Exc PreflightError (''hotkey file must not grant group/world permissions: '' @ path)) (
          require (st_nlink m = 1)
            (Exc PreflightError (''hotkey file must have exactly one hard link: '' @ path))
          (Inr ())))))"

definition validate_wallet_permissions :: "'x machine \<Rightarrow> controller_config \<Rightarrow> ('x, unit) prog" where
  "validate_wallet_permissions M c =
     pbind (os_lstat M (hotkey_file c)) (\<lambda>metadata.
     pbind (os_euid M) (\<lambda>euid.
     lift_res (check_hotkey_file metadata euid (hotkey_file c))))"

section \<open>The self-check\<close>

record declared =
  de_size_bytes :: int
  de_peak_rss_bytes :: int
  de_p95_latency_ms :: int

definition selfcheck_values :: "(string \<Rightarrow> raw option) \<Rightarrow> string \<Rightarrow> (int \<times> int \<times> int) res" where
  "selfcheck_values parse content =
     rbind (case parse content of None \<Rightarrow> fail JSONDecodeError ''invalid JSON'' | Some r \<Rightarrow> Inr (lax_value r)) (\<lambda>raw.
     let field = (\<lambda>key. rbind (json_item raw key) int_of) in
     rbind (field ''size_bytes'') (\<lambda>a.
     rbind (field ''peak_rss_bytes'') (\<lambda>b.
     rbind (field ''p95_latency_ms'') (\<lambda>d. Inr (a, b, d)))))"

definition selfcheck_handler :: "exc \<Rightarrow> ('x, 'a) prog" where
  "selfcheck_handler e =
     throw (if isinstance e OSError \<or> isinstance e KeyError \<or> isinstance e TypeError
              \<or> isinstance e ValueError
            then Exc PreflightError (''selfcheck is invalid: '' @ exc_text e) else e)"

definition read_declared :: "'x machine \<Rightarrow> controller_config \<Rightarrow> ('x, declared) prog" where
  "read_declared M c =
     pbind (catch (pbind (os_read_text M (c_selfcheck_path c)) (\<lambda>content.
                   lift_res (selfcheck_values (os_parse M) content))) selfcheck_handler) (\<lambda>(a, b, d).
     pseq (guard (\<not> (a \<le> 0 \<or> b \<le> 0 \<or> d \<le> 0))
            (Exc PreflightError ''selfcheck values must all be positive''))
     (ret \<lparr>de_size_bytes = a, de_peak_rss_bytes = b, de_p95_latency_ms = d\<rparr>))"

section \<open>Bindings\<close>

definition validate_competition_binding :: "'x machine \<Rightarrow> controller_config \<Rightarrow> ('x, string) prog" where
  "validate_competition_binding M c =
     pbind (os_competition M) (\<lambda>(session, listing).
     pbind (lift_res (validate_artifact_competition_binding (os_lib M) (os_decode M) (os_parse M) c
              session listing)) (\<lambda>binding.
     ret (py_str (dget binding ''artifact_digest''))))"

definition assert_bound_artifact ::
    "'x machine \<Rightarrow> controller_config \<Rightarrow> packaged_artifact \<Rightarrow> ('x, unit) prog" where
  "assert_bound_artifact M c k =
     pbind (validate_competition_binding M c) (\<lambda>bound_artifact_digest.
     guard (k_artifact_digest k = bound_artifact_digest)
       (Exc ArtifactCompetitionBindingError ''packaged artifact digest differs from the authorized binding''))"

definition validate_selfcheck_binding :: "'x machine \<Rightarrow> controller_config \<Rightarrow> ('x, dict) prog" where
  "validate_selfcheck_binding M c =
     pbind (os_selfcheck M) (\<lambda>(euid, metadata, bytes, listing, selfcheck).
     lift_res (validate_binding (os_lib M) (os_decode M) (os_parse M) c euid metadata bytes listing selfcheck))"

section \<open>The artifact configuration\<close>

text \<open>
  \<open>_PINNED_MODEL\<close>. Below U+0100 the class of word characters also holds the Latin-1 letters,
  digits and fractions.
\<close>

definition is_word :: "char \<Rightarrow> bool" where
  "is_word c \<longleftrightarrow> is_alnum c \<or> c = CHR ''_'' \<or> code c \<in> {170, 178, 179, 181, 185, 186, 188, 189, 190}
     \<or> (192 \<le> code c \<and> code c \<noteq> 215 \<and> code c \<noteq> 247)"

definition pinned_model_rx :: rx where
  "pinned_model_rx =
     (let part = (\<lambda>c. is_word c \<or> c = CHR ''.'' \<or> c = CHR ''-'') in
      Cat (Rep part 1 None) (Cat (Lit ''/'') (Cat (Rep part 1 None)
        (Cat (Lit ''@'') (Rep is_hex 7 (Some 40))))))"

definition check_existing_manifest :: "(string \<Rightarrow> raw option) \<Rightarrow> string \<Rightarrow> unit res" where
  "check_existing_manifest parse content =
     (case parse content of
        None \<Rightarrow> fail PreflightError ''existing manifest is unreadable: ''
      | Some r \<Rightarrow>
          (case as_obj (lax_value r) of
             None \<Rightarrow> fail OtherException ''the value has no attribute get''
           | Some d \<Rightarrow> require (\<not> truthy (dget d ''sealed''))
               (Exc PreflightError ''existing manifest is sealed; remove it only after manual review'')
               (Inr ())))"

definition validate_artifact_config :: "'x machine \<Rightarrow> controller_config \<Rightarrow> ('x, unit) prog" where
  "validate_artifact_config M c =
     pbind (os_is_dir M (c_artifact_dir c)) (\<lambda>present.
     pseq (guard present (Exc PreflightError (''artifact directory is missing: '' @ c_artifact_dir c))) (
     let entrypoint = path_join (c_artifact_dir c) (c_entrypoint c) in
     pbind (os_is_file M entrypoint) (\<lambda>found.
     pseq (guard found (Exc PreflightError (''artifact entrypoint is missing: '' @ entrypoint))) (
     pseq (guard (py_lower (path_suffix entrypoint) = ''.gguf'')
            (Exc PreflightError ''GGUF load spec requires a .gguf entrypoint'')) (
     pbind (os_exists M (path_join (c_artifact_dir c) ''artifact.enc'')) (\<lambda>sealed.
     pseq (guard (\<not> sealed)
            (Exc PreflightError ''artifact.enc exists; this controller categorically refuses sealing'')) (
     pseq (validate_competition_binding M c) (
     pseq (if prefix ''https:'' (c_source_template c) \<and> \<not> c_dry_run c
           then pseq (read_github_token M c) (ret ()) else ret ()) (
     pbind (os_is_dir M (c_wallet_path c)) (\<lambda>wallet.
     pseq (guard wallet (Exc PreflightError (''wallet path is not a directory: '' @ c_wallet_path c))) (
     pseq (validate_wallet_permissions M c) (
     pbind (os_is_file M (c_selfcheck_path c)) (\<lambda>selfcheck.
     pseq (guard selfcheck (Exc PreflightError (''selfcheck is missing: '' @ c_selfcheck_path c
            @ ''; run the pinned upstream selfcheck first''))) (
     pseq (read_declared M c) (
     pseq (validate_selfcheck_binding M c) (
     pseq (guard (matches pinned_model_rx (c_base_model c))
            (Exc PreflightError ''MMC_BASE_MODEL must be <org>/<repo>@<7-40 hex commit>'')) (
     let existing = path_join (c_artifact_dir c) ''manifest.json'' in
     pbind (os_is_file M existing) (\<lambda>manifest.
     if manifest then
       pbind (catch (os_read_text M existing) (\<lambda>e.
                throw (if isinstance e OSError
                       then Exc PreflightError (''existing manifest is unreadable: '' @ exc_text e) else e)))
         (\<lambda>content. lift_res (check_existing_manifest (os_parse M) content))
     else ret ()))))))))))))))))))"

section \<open>Round ceilings\<close>

fun check_ceilings :: "(string \<times> int \<times> int) list \<Rightarrow> unit res" where
  "check_ceilings [] = Inr ()"
| "check_ceilings ((label, v, bound) # rest) =
     (if bound \<le> 0 then check_ceilings rest
      else require (\<not> v > bound)
        (Exc VerificationError (''selfcheck '' @ label @ '' '' @ text_of_int v
           @ '' exceeds anchored round ceiling '' @ text_of_int bound))
        (check_ceilings rest))"

definition bound_bytes :: "dict \<Rightarrow> int" where
  "bound_bytes binding = (case dget binding ''artifact_total_bytes'' of JInt n \<Rightarrow> n | _ \<Rightarrow> 0)"

definition backend_validate_round ::
    "'x machine \<Rightarrow> controller_config \<Rightarrow> round_window \<Rightarrow> ('x, unit) prog" where
  "backend_validate_round M c w =
     pbind (read_declared M c) (\<lambda>declared.
     pseq (lift_res (check_ceilings
       [(''size'', de_size_bytes declared, w_max_size_bytes w),
        (''peak RSS'', de_peak_rss_bytes declared, w_max_rss_bytes w),
        (''p95 latency'', de_p95_latency_ms declared, w_max_p95_ms w)])) (
     pbind (validate_selfcheck_binding M c) (\<lambda>binding.
     guard (\<not> (w_max_size_bytes w > 0 \<and> bound_bytes binding > w_max_size_bytes w))
       (Exc VerificationError ''actual publishable artifact bytes exceed the anchored round size ceiling''))))"

end
