(* ===== verification/ChainSubmit.thy ===== *)
theory ChainSubmit
  imports ChainValues UpstreamGate
begin

text \<open>
  The transaction path of \<^verbatim>\<open>backend.py\<close>: the live transaction policy, the registration and
  runtime checks, and \<open>_submit_authorized_commitment\<close>, which composes, estimates, signs and
  broadcasts one commitment. The SDK, the observer status file and the clock are operations
  on an external state of any type. \<open>be_log\<close> records, newest first, every call and its
  answer; no definition reads it.
\<close>

section \<open>The host\<close>

text \<open>
  The questions asked of the SDK. \<open>CNone\<close> is a missing distribution, attribute or object;
  \<open>QSigner\<close> answers the address of the wallet's hot key, \<open>QCallValue\<close> and the
  \<open>QExtrinsic...\<close> queries read attributes of the composed call and of the signed extrinsic.
\<close>

datatype sdk_query =
    QVersion string | QUid string | QNetuid | QSubstrate | QSigner | QPublicKey
  | QGenesis | QHead | QRuntime string | QCodeHash string | QConstant string string
  | QNonce string | QCallValue | QExtrinsicValue | QExtrinsicData | QExtrinsicHash

text \<open>The receipt; reading an attribute may fail.\<close>

record receipt =
  rc_extrinsic_hash :: "chain_value res"
  rc_block_hash :: "chain_value res"
  rc_finalized :: "chain_value res"
  rc_is_success :: "chain_value res"
  rc_total_fee :: "chain_value res"

datatype chain_event =
    GateRead "dict res"
  | Queried sdk_query "chain_value res"
  | Composed chain_value string
  | Estimated int chain_map "chain_value res"
  | Signed int chain_map bool
  | Submitted bool

text \<open>
  The SDK receives the \<open>call_args\<close> and \<open>era\<close> dictionaries by reference: \<open>ho_compose\<close>,
  \<open>ho_estimate\<close> and \<open>ho_sign\<close> also return what these hold afterwards.
\<close>

record 'x chain_host =
  ho_decode :: "string \<Rightarrow> string option"
  ho_parse :: "string \<Rightarrow> raw option"
  ho_status :: "'x \<Rightarrow> (file_session \<times> pyfloat) \<times> 'x"
  ho_query :: "sdk_query \<Rightarrow> ('x, chain_value) prog"
  ho_compose :: "chain_value \<Rightarrow> string \<Rightarrow> ('x, chain_value) prog"
  ho_estimate :: "int \<Rightarrow> chain_map \<Rightarrow> chain_value \<Rightarrow> ('x, chain_value \<times> chain_map \<times> chain_value) prog"
  ho_sign :: "int \<Rightarrow> chain_map \<Rightarrow> chain_value \<Rightarrow> ('x, chain_value) prog"
  ho_submit :: "('x, receipt) prog"

record 'x backend_state =
  be_ext :: 'x
  be_wallet :: bool
  be_client :: bool
  be_hotkey :: string
  be_commit :: string
  be_log :: "chain_event list"

text \<open>A call of the host with its log entry.\<close>

definition host_call :: "('a res \<Rightarrow> chain_event) \<Rightarrow> ('x, 'a) prog \<Rightarrow> ('x backend_state, 'a) prog" where
  "host_call ev f = (\<lambda>s. case f (be_ext s) of (r, x) \<Rightarrow> (r, s\<lparr>be_ext := x, be_log := ev r # be_log s\<rparr>))"

definition query :: "'x chain_host \<Rightarrow> sdk_query \<Rightarrow> ('x backend_state, chain_value) prog" where
  "query H q = host_call (Queried q) (ho_query H q)"

section \<open>Gates\<close>

definition verify_observer_status ::
    "'x chain_host \<Rightarrow> controller_config \<Rightarrow> ('x backend_state, dict) prog" where
  "verify_observer_status H c =
     host_call GateRead (\<lambda>x. case ho_status H x of ((session, clock), x') \<Rightarrow>
       (verify_upstream_observer_status (ho_decode H) (ho_parse H) clock
          (JInt (c_upstream_observer_max_age_seconds c)) None session, x'))"

text \<open>\<open>if uses_signed_v030: try: verify ... except UpstreamGateError as exc: raise cls(...)\<close>.\<close>

definition observer_gate ::
    "'x chain_host \<Rightarrow> controller_config \<Rightarrow> exc_class \<Rightarrow> ('x backend_state, unit) prog" where
  "observer_gate H c cls =
     (if uses_signed_v030 c then
        catch (pseq (verify_observer_status H c) (ret ())) (\<lambda>e.
          if isinstance e UpstreamGateError
          then throw (Exc cls (''upstream observer gate failed: '' @ exc_text e)) else throw e)
      else ret ())"

definition backend_hotkey :: "('x backend_state, string) prog" where
  "backend_hotkey = (\<lambda>s.
     if be_hotkey s = [] then (fail PreflightError ''wallet has not passed preflight'', s)
     else (Inr (be_hotkey s), s))"

definition require_version :: "'x chain_host \<Rightarrow> string \<Rightarrow> string \<Rightarrow> ('x backend_state, unit) prog" where
  "require_version H distribution required =
     pbind (query H (QVersion distribution)) (\<lambda>observed.
     if observed = CNone then
       throw (Exc PreflightError (''required transaction dependency is missing: '' @ distribution))
     else guard (observed = CStr required)
       (Exc PreflightError (distribution @ '' version is '' @ chain_str observed
          @ '', expected exact audited pin '' @ required)))"

definition verify_transaction_dependencies :: "'x chain_host \<Rightarrow> ('x backend_state, unit) prog" where
  "verify_transaction_dependencies H =
     pseq (require_version H ''bittensor'' BITTENSOR_VERSION) (
     pseq (require_version H ''bittensor-wallet'' BITTENSOR_WALLET_VERSION)
     (require_version H ''async-substrate-interface'' SUBSTRATE_INTERFACE_VERSION))"

text \<open>The checks of \<open>_assert_live_transaction_policy\<close> on the configuration alone.\<close>

definition static_policy :: "controller_config \<Rightarrow> unit res" where
  "static_policy c =
     require (\<not> c_dry_run c)
       (auth_refused ''chain submission is forbidden while MMC_DRY_RUN=true'') (
     require (c_transaction_authorization c = TRANSACTION_AUTHORIZATION)
       (auth_refused ''the exact zero-cost transaction authorization is absent'') (
     require (\<not> (c_netuid c \<noteq> 92 \<or> c_expected_uid c \<noteq> 32))
       (auth_refused ''authorized netuid 92 / UID 32 identity changed'') (
     require ((c_wallet_name c, c_wallet_hotkey c) = (''you-cold'', ''you-hot1''))
       (auth_refused ''authorized you-cold / you-hot1 wallet selection changed'') (Inr ()))))"

definition authorised_repository :: "(string \<times> string \<times> string) option \<Rightarrow> bool" where
  "authorised_repository coordinates \<longleftrightarrow>
     (\<exists>(owner, repo, tag) \<in> set_option coordinates. owner @ ''/'' @ repo = AUTHORIZED_GITHUB_REPOSITORY)"

definition assert_live_transaction_policy ::
    "'x chain_host \<Rightarrow> controller_config \<Rightarrow> ('x backend_state, unit) prog" where
  "assert_live_transaction_policy H c =
     pseq (observer_gate H c AuthorizationRefused) (
     pseq (lift_res (static_policy c)) (
     pbind backend_hotkey (\<lambda>hotkey.
     pseq (guard (hotkey = AUTHORIZED_HOTKEY_SS58)
            (auth_refused ''loaded hotkey is not the authorized UID-32 you-hot1 key'')) (
     pseq (guard (\<not> (c_network c \<noteq> ''finney'' \<or> c_endpoint c \<noteq> []))
            (auth_refused ''live commitment requires finney with no custom endpoint'')) (
     pbind (catch (pseq (verify_transaction_dependencies H) (
                   pbind (lift_res (source_for c 0 hotkey)) (\<lambda>source.
                   ret (github_release_coordinates source))))
              (\<lambda>e. throw (auth_refused (''live dependency or artifact-source policy could not be proven: ''
                      @ exc_text e)))) (\<lambda>coordinates.
     guard (authorised_repository coordinates)
       (auth_refused ''artifact source is not the authorized vandungtech/mt92 repo'')))))))"

definition has_client :: "exc \<Rightarrow> ('x backend_state, unit) prog" where
  "has_client e = (\<lambda>s. if be_client s then (Inr (), s) else (Inl e, s))"

definition assert_registered :: "'x chain_host \<Rightarrow> controller_config \<Rightarrow> ('x backend_state, unit) prog" where
  "assert_registered H c =
     pseq (observer_gate H c VerificationError) (
     pseq (has_client (Exc PreflightError ''chain client has not passed preflight'')) (
     pbind (catch (pbind backend_hotkey (\<lambda>hotkey. query H (QUid hotkey)))
              (\<lambda>e. throw (Exc VerificationError (''registration refresh failed: '' @ exc_text e)))) (\<lambda>uid.
     guard (chain_eq uid (CInt (c_expected_uid c)))
       (Exc VerificationError (''hotkey now maps to UID '' @ chain_str uid @ '', expected ''
          @ text_of_int (c_expected_uid c))))))"

definition assert_authorized_registration ::
    "'x chain_host \<Rightarrow> controller_config \<Rightarrow> ('x backend_state, unit) prog" where
  "assert_authorized_registration H c =
     pseq (assert_live_transaction_policy H c) (
     pseq (has_client (auth_refused ''chain client has not passed preflight'')) (
     pbind (query H QNetuid) (\<lambda>netuid.
     pbind (lift_res (authorization_integer netuid ''chain client netuid'')) (\<lambda>client_netuid.
     pseq (guard (\<not> (c_netuid c \<noteq> 92 \<or> client_netuid \<noteq> 92)) (auth_refused ''authorized netuid changed from 92'')) (
     catch (assert_registered H c) (\<lambda>e.
       if isinstance e VerificationError
       then throw (auth_refused (''you-hot1 registration at UID 32 could not be proven: '' @ exc_text e))
       else throw e))))))"

definition authorized_chain_head :: "'x chain_host \<Rightarrow> ('x backend_state, string) prog" where
  "authorized_chain_head H =
     pbind (catch
       (pbind (query H QGenesis) (\<lambda>genesis.
        pbind (query H QHead) (\<lambda>head.
        let head = py_lower (chain_str head) in
        pbind (query H (QRuntime head)) (\<lambda>runtime.
        pbind (query H (QCodeHash head)) (\<lambda>code_response.
        ret (py_lower (chain_str genesis), head, runtime, code_response))))))
       (\<lambda>e. throw (auth_refused (''Finney runtime identity could not be proven before signing: '' @ exc_text e))))
       (\<lambda>(genesis, head, runtime, code_response).
     lift_res (check_runtime genesis head runtime code_response))"

text \<open>\<open>except AuthorizationRefused: raise / except Exception as exc: raise AuthorizationRefused(...)\<close>.\<close>

definition refusing :: "string \<Rightarrow> ('w, 'a) prog \<Rightarrow> ('w, 'a) prog" where
  "refusing t m = catch m (\<lambda>e.
     if isinstance e AuthorizationRefused then throw e else throw (auth_refused (t @ exc_text e)))"

section \<open>Inspecting the signed extrinsic\<close>

definition canonical_extrinsic_hash :: "chain_value \<Rightarrow> string" where
  "canonical_extrinsic_hash v =
     (let raw_hash = py_lower (chain_str v) in
      if prefix ''0x'' raw_hash then raw_hash else ''0x'' @ raw_hash)"

definition inspect_signed_extrinsic ::
    "'x chain_host \<Rightarrow> chain_value \<Rightarrow> int \<Rightarrow> chain_map \<Rightarrow> ('x backend_state, string) prog" where
  "inspect_signed_extrinsic H args nonce era =
     pbind (query H QExtrinsicValue) (\<lambda>v.
     pbind (lift_res (check_signed_shape v)) (\<lambda>d.
     pbind (catch (query H QPublicKey)
             (\<lambda>e. throw (auth_refused ''signing account identity could not be proven''))) (\<lambda>key.
     pseq (lift_res (check_signed_fields d (''0x'' @ chain_str key) args nonce era)) (
     pbind (query H QExtrinsicData) (\<lambda>data.
     pseq (guard (\<not> (data = CNone \<or> \<not> prefix ''0x'' (chain_str data) \<or> length (chain_str data) \<le> 2))
            (auth_refused ''signed extrinsic has no encoded data'')) (
     pbind (catch (query H QExtrinsicHash)
             (\<lambda>e. throw (auth_refused ''signed extrinsic hash could not be proven''))) (\<lambda>h.
     let extrinsic_hash = canonical_extrinsic_hash h in
     pseq (guard (matches chain_hash_rx extrinsic_hash)
            (auth_refused ''signed extrinsic hash was not canonical''))
     (ret extrinsic_hash))))))))"

section \<open>Fee, nonce and deposit\<close>

definition read_nonce :: "'x chain_host \<Rightarrow> string \<Rightarrow> string \<Rightarrow> ('x backend_state, int) prog" where
  "read_nonce H address label =
     pbind (query H (QNonce address)) (\<lambda>v. lift_res (authorization_integer v label))"

definition estimate_fee ::
    "'x chain_host \<Rightarrow> int \<Rightarrow> chain_map \<Rightarrow> chain_value \<Rightarrow>
     ('x backend_state, chain_value \<times> chain_map \<times> chain_value) prog" where
  "estimate_fee H nonce era args =
     host_call (\<lambda>r. Estimated nonce era (map_sum id fst r)) (ho_estimate H nonce era args)"

definition zero_fee :: "chain_value \<Rightarrow> string \<Rightarrow> string \<Rightarrow> unit res" where
  "zero_fee payment incomplete label =
     (case Option.bind (as_map payment) (\<lambda>d. map_of d ''partial_fee'') of
        None \<Rightarrow> Inl (auth_refused incomplete)
      | Some v \<Rightarrow>
          rbind (authorization_integer v label) (\<lambda>fee.
          require (fee = AUTHORIZED_MAX_FEE_RAO)
            (auth_refused (label @ '' is '' @ text_of_int fee @ '' rao, authorized maximum is 0''))
            (Inr ())))"

definition composed_as_expected :: "'x chain_host \<Rightarrow> chain_value \<Rightarrow> ('x backend_state, bool) prog" where
  "composed_as_expected H args =
     pbind (query H QCallValue) (\<lambda>v. ret (chain_eq v (CMap (call_with args))))"

definition compose_commitment ::
    "'x chain_host \<Rightarrow> string \<Rightarrow> ('x backend_state, string \<times> chain_value) prog" where
  "compose_commitment H encoded =
     refusing ''authorized commitment call could not be composed: ''
       (pbind (authorized_chain_head H) (\<lambda>head_before.
        pbind (host_call (\<lambda>r. Composed (commitment_args encoded) head_before)
                 (ho_compose H (commitment_args encoded) head_before)) (\<lambda>args.
        ret (head_before, args))))"

definition required_deposit :: "'x chain_host \<Rightarrow> string \<Rightarrow> ('x backend_state, int) prog" where
  "required_deposit H head_before =
     refusing ''commitment deposit could not be proven before signing: ''
       (pbind (query H (QConstant ''InitialDeposit'' head_before)) (\<lambda>v.
        pbind (lift_res (authorization_integer v ''Commitments.InitialDeposit'')) (\<lambda>initial.
        pbind (query H (QConstant ''FieldDeposit'' head_before)) (\<lambda>w.
        pbind (lift_res (authorization_integer w ''Commitments.FieldDeposit'')) (\<lambda>field.
        ret (initial + field))))))"

definition first_estimate ::
    "'x chain_host \<Rightarrow> string \<Rightarrow> chain_value \<Rightarrow>
     ('x backend_state, int \<times> chain_value \<times> chain_map \<times> chain_value) prog" where
  "first_estimate H address args =
     refusing ''transaction fee could not be estimated before signing: ''
       (pbind (read_nonce H address ''hotkey account nonce'') (\<lambda>nonce.
        pbind (estimate_fee H nonce [(''period'', CInt AUTHORIZED_PERIOD_BLOCKS)] args)
          (\<lambda>(payment, era, args'). ret (nonce, payment, era, args'))))"

definition check_mortal_era :: "chain_map \<Rightarrow> unit res" where
  "check_mortal_era era =
     require (set (map fst era) = {''period'', ''current''})
       (auth_refused ''fee estimate did not use an explicit mortal era'') (
     rbind (authorization_integer (cget era ''period'') ''mortal era period'') (\<lambda>period.
     require (period = 128) (auth_refused ''fee estimate changed the authorized 128-block era'') (
     rbind (authorization_integer (cget era ''current'') ''mortal era current block'') (\<lambda>_. Inr ()))))"

text \<open>Registration, chain identity and an unchanged nonce, refreshed together.\<close>

definition refresh_authorization ::
    "'x chain_host \<Rightarrow> controller_config \<Rightarrow> string \<Rightarrow> int \<Rightarrow> string \<Rightarrow> string \<Rightarrow> string \<Rightarrow>
     ('x backend_state, unit) prog" where
  "refresh_authorization H c address nonce label unreadable changed =
     pseq (assert_authorized_registration H c) (
     pseq (authorized_chain_head H) (
     pbind (refusing unreadable (read_nonce H address label)) (\<lambda>observed.
     guard (observed = nonce) (auth_refused changed))))"

definition refresh_estimate ::
    "'x chain_host \<Rightarrow> int \<Rightarrow> chain_map \<Rightarrow> chain_value \<Rightarrow> string \<Rightarrow> string \<Rightarrow> string \<Rightarrow>
     ('x backend_state, chain_map \<times> chain_value) prog" where
  "refresh_estimate H nonce era args unproven incomplete label =
     pbind (catch (estimate_fee H nonce era args)
             (\<lambda>e. throw (auth_refused (unproven @ exc_text e)))) (\<lambda>(payment, era', args').
     pseq (lift_res (zero_fee payment incomplete label)) (ret (era', args')))"

section \<open>The receipt\<close>

definition check_receipt :: "receipt \<Rightarrow> string \<Rightarrow> int res" where
  "check_receipt r extrinsic_hash =
     rbind (rc_extrinsic_hash r) (\<lambda>h.
     rbind (rc_block_hash r) (\<lambda>b.
     let receipt_hash = py_lower (chain_str h);
         block_hash = py_lower (chain_str b) in
     rbind (rc_finalized r) (\<lambda>finalized.
     require (finalized = CBool True) (auth_refused ''commitment receipt did not prove finalization'') (
     require (\<not> (receipt_hash \<noteq> extrinsic_hash \<or> \<not> matches chain_hash_rx receipt_hash))
       (auth_refused ''receipt does not identify the signed extrinsic'') (
     require (matches chain_hash_rx block_hash)
       (auth_refused ''commitment receipt omitted a canonical block hash'') (
     rbind (rc_is_success r) (\<lambda>success.
     require (success = CBool True) (auth_refused ''finalized commitment did not prove success'') (
     rbind (rc_total_fee r) (\<lambda>fee. authorization_integer fee ''receipt total fee'')))))))))"

definition broadcast_extrinsic ::
    "'x chain_host \<Rightarrow> string \<Rightarrow> ('x backend_state, unit) prog" where
  "broadcast_extrinsic H extrinsic_hash =
     pbind (catch (host_call (\<lambda>r. Submitted (\<not> isl r)) (ho_submit H))
       (\<lambda>e. throw (auth_refused ''commitment submission outcome is ambiguous; operator reconciliation is required before any retry''))) (\<lambda>receipt.
     pbind (catch (lift_res (check_receipt receipt extrinsic_hash)) (\<lambda>e.
       if isinstance e AuthorizationRefused then throw e
       else throw (auth_refused ''finalized commitment receipt could not be proven; operator reconciliation is required before any retry''))) (\<lambda>charged_fee.
     guard (charged_fee = AUTHORIZED_MAX_FEE_RAO)
       (auth_refused (''commitment receipt reports a nonzero fee ('' @ text_of_int charged_fee @ '' rao)''))))"

section \<open>Submission\<close>

definition ascii_payload :: "string \<Rightarrow> string res" where
  "ascii_payload payload =
     require (list_all (\<lambda>c. code c < 128) payload) (auth_refused ''commitment payload is not ASCII'') (
     require (1 \<le> length payload \<and> length payload \<le> 128)
       (auth_refused ''commitment payload is outside the Raw1-Raw128 allowlist'') (Inr payload))"

text \<open>Everything before the last refresh: the signer's address, nonce, era and call arguments.\<close>

definition prepare_commitment ::
    "'x chain_host \<Rightarrow> controller_config \<Rightarrow> string \<Rightarrow>
     ('x backend_state, string \<times> int \<times> chain_map \<times> chain_value) prog" where
  "prepare_commitment H c payload =
     pseq (assert_live_transaction_policy H c) (
     pbind (read_world (\<lambda>s. be_client s \<and> be_wallet s)) (\<lambda>ready.
     pseq (guard ready (auth_refused ''wallet and chain client have not passed preflight'')) (
     pseq (assert_authorized_registration H c) (
     pbind (lift_res (ascii_payload payload)) (\<lambda>encoded.
     pbind (query H QSubstrate) (\<lambda>substrate.
     pseq (guard (substrate \<noteq> CNone)
            (auth_refused ''direct Substrate transaction interface is unavailable'')) (
     pbind (query H QSigner) (\<lambda>signer.
     pbind (if signer = CNone then ret False
            else pbind backend_hotkey (\<lambda>hotkey.
              ret (chain_str signer = hotkey \<and> hotkey = AUTHORIZED_HOTKEY_SS58))) (\<lambda>own_signer.
     pseq (guard own_signer (auth_refused ''the direct signer is not the registered you-hot1 hotkey'')) (
     pbind (compose_commitment H encoded) (\<lambda>(head_before, args).
     pbind (composed_as_expected H args) (\<lambda>composed.
     pseq (guard composed
            (auth_refused ''composed transaction differs from Commitments.set_commitment(netuid=92)'')) (
     pbind (required_deposit H head_before) (\<lambda>deposit.
     pseq (guard (deposit = AUTHORIZED_MAX_DEPOSIT_RAO)
            (auth_refused (''required commitment deposit is '' @ text_of_int deposit
               @ '' rao, authorized maximum is 0''))) (
     pbind (first_estimate H (chain_str signer) args) (\<lambda>(nonce, payment, era, args').
     pseq (lift_res (zero_fee payment ''transaction fee estimate response was incomplete''
                       ''estimated transaction fee'')) (
     pseq (lift_res (check_mortal_era era)) (
     pbind (composed_as_expected H args') (\<lambda>unchanged.
     pseq (guard unchanged (auth_refused ''fee estimation mutated the authorized commitment call''))
     (ret (chain_str signer, nonce, era, args')))))))))))))))))))))"

text \<open>From the checked fee estimate to the signature, and from there to the broadcast.\<close>

definition sign_commitment ::
    "'x chain_host \<Rightarrow> controller_config \<Rightarrow> string \<Rightarrow> int \<Rightarrow> chain_map \<Rightarrow> chain_value \<Rightarrow>
     ('x backend_state, string \<times> chain_value) prog" where
  "sign_commitment H c address nonce era args =
     pseq (refresh_authorization H c address nonce ''pre-sign hotkey account nonce''
             ''hotkey nonce could not be refreshed before signing: ''
             ''hotkey nonce changed after the fee estimate'') (
     pbind (refresh_estimate H nonce era args
              ''transaction fee could not be refreshed before signing: ''
              ''refreshed transaction fee response was incomplete'' ''refreshed transaction fee'') (\<lambda>(refreshed_era, args').
     pseq (guard (chain_eq (CMap refreshed_era) (CMap era))
            (auth_refused ''refreshed fee estimate changed the signed mortal era'')) (
     pbind (catch (host_call (\<lambda>r. Signed nonce era (\<not> isl r)) (ho_sign H nonce era args'))
             (\<lambda>e. throw (auth_refused (''signed commitment could not be created; no submission attempted: ''
                     @ exc_text e)))) (\<lambda>signed_args.
     pbind (inspect_signed_extrinsic H signed_args nonce era) (\<lambda>extrinsic_hash.
     ret (extrinsic_hash, signed_args))))))"

definition submit_signed ::
    "'x chain_host \<Rightarrow> controller_config \<Rightarrow> string \<Rightarrow> int \<Rightarrow> chain_map \<Rightarrow> chain_value \<Rightarrow> string \<Rightarrow>
     ('x backend_state, unit) prog" where
  "submit_signed H c address nonce era args extrinsic_hash =
     pseq (refresh_authorization H c address nonce ''pre-submit hotkey account nonce''
             ''hotkey nonce could not be refreshed before submission: ''
             ''hotkey nonce changed after signing'') (
     pbind (refresh_estimate H nonce era args
              ''transaction fee could not be proven immediately before submit: ''
              ''final transaction fee response was incomplete'' ''final transaction fee'') (\<lambda>(final_era, args').
     pbind (if \<not> chain_eq (CMap final_era) (CMap era) then ret False else composed_as_expected H args') (\<lambda>unchanged.
     pseq (guard unchanged (auth_refused ''final fee estimate changed the signed transaction envelope'')) (
     pseq (inspect_signed_extrinsic H args' nonce era)
     (broadcast_extrinsic H extrinsic_hash)))))"

definition submit_authorized_commitment ::
    "'x chain_host \<Rightarrow> controller_config \<Rightarrow> string \<Rightarrow> ('x backend_state, unit) prog" where
  "submit_authorized_commitment H c payload =
     pbind (prepare_commitment H c payload) (\<lambda>(address, nonce, era, args).
     pbind (sign_commitment H c address nonce era args) (\<lambda>(extrinsic_hash, signed_args).
     submit_signed H c address nonce era signed_args extrinsic_hash))"

end
