(* ===== verification/Backend.thy ===== *)
theory Backend
  imports BackendChecks ChainSubmit GithubRelease World
begin

text \<open>
  \<^verbatim>\<open>MicrotensorBackend\<close> of \<^verbatim>\<open>backend.py\<close>: the operations of the backend protocol over the
  transaction path, the checks on local files and the GitHub publisher. The upstream package,
  the SDK, the file system and the connection are operations on an external state; the wallet,
  the chain client, the hot key and the upstream commit are the adapter's own state.
  \<open>microtensor_backend\<close> is the backend the controller runs on.
\<close>

section \<open>What the adapter hands to the upstream package\<close>

record chain_config =
  cc_netuid :: int
  cc_network :: string
  cc_endpoint :: string
  cc_wallet_name :: string
  cc_wallet_hotkey :: string
  cc_wallet_path :: string

record miner_config =
  mc_chain :: chain_config
  mc_home :: string
  mc_artifact_dir :: string
  mc_track :: string
  mc_hardware_class :: string
  mc_source :: string
  mc_entrypoint :: string
  mc_artifact_format :: string
  mc_quantization :: string
  mc_max_input_tokens :: int
  mc_tokenizer :: string
  mc_base_model :: string
  mc_round_blocks :: int
  mc_genesis_block :: int
  mc_allow_unsandboxed :: bool

record load_manifest =
  lm_format :: string
  lm_quantization :: string
  lm_entrypoint :: string
  lm_tokens :: int
  lm_tokenizer :: string
  lm_base_model :: string

definition chain_config_of :: "controller_config \<Rightarrow> chain_config" where
  "chain_config_of c =
     \<lparr>cc_netuid = c_netuid c, cc_network = c_network c, cc_endpoint = c_endpoint c,
      cc_wallet_name = c_wallet_name c, cc_wallet_hotkey = c_wallet_hotkey c,
      cc_wallet_path = c_wallet_path c\<rparr>"

definition miner_config_of :: "controller_config \<Rightarrow> string \<Rightarrow> miner_config" where
  "miner_config_of c source =
     \<lparr>mc_chain = chain_config_of c, mc_home = c_upstream_home c, mc_artifact_dir = c_artifact_dir c,
      mc_track = c_track c, mc_hardware_class = c_hardware_class c, mc_source = source,
      mc_entrypoint = c_entrypoint c, mc_artifact_format = c_artifact_format c,
      mc_quantization = c_quantization c, mc_max_input_tokens = c_max_input_tokens c,
      mc_tokenizer = c_tokenizer c, mc_base_model = c_base_model c,
      mc_round_blocks = c_round_blocks c, mc_genesis_block = c_genesis_block c,
      mc_allow_unsandboxed = False\<rparr>"

definition load_spec_of :: "controller_config \<Rightarrow> load_manifest" where
  "load_spec_of c =
     \<lparr>lm_format = c_artifact_format c, lm_quantization = c_quantization c,
      lm_entrypoint = c_entrypoint c, lm_tokens = c_max_input_tokens c,
      lm_tokenizer = c_tokenizer c, lm_base_model = c_base_model c\<rparr>"

text \<open>
  The upstream package. The constructors validate their arguments; \<open>mt_missing\<close> is the text of
  an \<open>ImportError\<close>, if there is one; \<open>mt_load_packaged\<close> answers \<open>None\<close> for its \<open>PackageError\<close>;
  a commitment is an opaque object, here a text, that \<open>mt_encode\<close> encodes; \<open>mt_anchor\<close> reads
  round index and configuration hash; \<open>mt_temporary\<close> enters or leaves a temporary directory.
\<close>

record 'x upstream =
  mt_packages :: "'x packages"
  mt_missing :: "('x, string option) prog"
  mt_is_competable :: "string \<Rightarrow> string \<Rightarrow> ('x, bool) prog"
  mt_new_chain_config :: "chain_config \<Rightarrow> ('x, unit) prog"
  mt_new_miner_config :: "miner_config \<Rightarrow> ('x, unit) prog"
  mt_new_load_manifest :: "load_manifest \<Rightarrow> ('x, unit) prog"
  mt_load_wallet :: "('x, unit) prog"
  mt_hotkey_address :: "('x, string) prog"
  mt_connect :: "('x, unit) prog"
  mt_disconnect :: "('x, unit) prog"
  mt_block :: "('x, int) prog"
  mt_round_for_block :: "int \<Rightarrow> int \<Rightarrow> int \<Rightarrow> (int \<times> int \<times> int \<times> int) res"
  mt_anchor :: "('x, (chain_value \<times> chain_value) option) prog"
  mt_block_hash :: "int \<Rightarrow> ('x, chain_value) prog"
  mt_load_packaged :: "miner_config \<Rightarrow> ('x, manifest option) prog"
  mt_package :: "miner_config \<Rightarrow> int \<Rightarrow> load_manifest \<Rightarrow> declared \<Rightarrow> ('x, manifest) prog"
  mt_max_commitment_bytes :: nat
  mt_commitment_for :: "miner_config \<Rightarrow> manifest \<Rightarrow> int \<Rightarrow> ('x, string) prog"
  mt_encode :: "string \<Rightarrow> ('x, string) prog"
  mt_publishable_files :: "manifest \<Rightarrow> ('x, string list) prog"
  mt_make_directory :: "string \<Rightarrow> ('x, unit) prog"
  mt_temporary :: "bool \<Rightarrow> ('x, unit) prog"
  mt_fetch_manifest :: "string \<Rightarrow> int \<Rightarrow> ('x, manifest) prog"
  mt_verify_payload :: "manifest \<Rightarrow> ('x, bool) prog"
  mt_materialise :: "manifest \<Rightarrow> int \<Rightarrow> int \<Rightarrow> ('x, unit) prog"
  mt_verdict :: "string \<Rightarrow> string \<Rightarrow> string \<Rightarrow> string \<Rightarrow> int \<Rightarrow> string \<Rightarrow> ('x, bool \<times> string) prog"
  mt_commitments :: "string \<Rightarrow> ('x, string) prog"
  mt_sleep :: "int \<Rightarrow> ('x, unit) prog"

record 'x services =
  sv_chain :: "'x chain_host"
  sv_upstream :: "'x upstream"
  sv_machine :: "'x machine"
  sv_https :: "'x https"
  sv_files :: "'x local_files"

definition ext_do :: "('x, 'a) prog \<Rightarrow> ('x backend_state, 'a) prog" where
  "ext_do f = (\<lambda>s. case f (be_ext s) of (r, x) \<Rightarrow> (r, s\<lparr>be_ext := x\<rparr>))"

definition set_backend :: "('x backend_state \<Rightarrow> 'x backend_state) \<Rightarrow> ('x backend_state, unit) prog" where
  "set_backend f = (\<lambda>s. (Inr (), f s))"

abbreviation verification_error :: "string \<Rightarrow> exc" where
  "verification_error t \<equiv> Exc VerificationError t"

text \<open>\<open>_miner_config(source)\<close> and \<open>_load_spec()\<close>.\<close>

definition build_miner_config ::
    "'x services \<Rightarrow> controller_config \<Rightarrow> string \<Rightarrow> ('x backend_state, miner_config) prog" where
  "build_miner_config S c source =
     pseq (ext_do (mt_new_chain_config (sv_upstream S) (chain_config_of c))) (
     pseq (ext_do (mt_new_miner_config (sv_upstream S) (miner_config_of c source)))
     (ret (miner_config_of c source)))"

definition build_load_spec ::
    "'x services \<Rightarrow> controller_config \<Rightarrow> ('x backend_state, load_manifest) prog" where
  "build_load_spec S c =
     pseq (ext_do (mt_new_load_manifest (sv_upstream S) (load_spec_of c))) (ret (load_spec_of c))"

section \<open>Preflight\<close>

definition backend_close :: "'x services \<Rightarrow> ('x backend_state, unit) prog" where
  "backend_close S = (\<lambda>s.
     if be_client s then
       (case mt_disconnect (sv_upstream S) (be_ext s) of (r, x) \<Rightarrow>
          (Inr (), s\<lparr>be_client := False, be_ext := x\<rparr>))
     else (Inr (), s))"

definition connect_wallet ::
    "'x services \<Rightarrow> ('x backend_state, chain_value \<times> int) prog" where
  "connect_wallet S =
     pseq (ext_do (mt_load_wallet (sv_upstream S))) (
     pseq (set_backend (\<lambda>s. s\<lparr>be_wallet := True\<rparr>)) (
     pbind (ext_do (mt_hotkey_address (sv_upstream S))) (\<lambda>address.
     pseq (set_backend (\<lambda>s. s\<lparr>be_hotkey := address\<rparr>)) (
     pseq (ext_do (mt_connect (sv_upstream S))) (
     pseq (set_backend (\<lambda>s. s\<lparr>be_client := True\<rparr>)) (
     pbind (query (sv_chain S) (QUid address)) (\<lambda>actual_uid.
     pbind (ext_do (mt_block (sv_upstream S))) (\<lambda>head. ret (actual_uid, head)))))))))"

definition backend_preflight ::
    "'x services \<Rightarrow> controller_config \<Rightarrow> ('x backend_state, preflight_snapshot) prog" where
  "backend_preflight S c =
     pseq (observer_gate (sv_chain S) c PreflightError) (
     pseq (verify_transaction_dependencies (sv_chain S)) (
     pbind (ext_do (verify_upstream (os_lib (sv_machine S)) (os_parse (sv_machine S)) c
              (mt_packages (sv_upstream S)))) (\<lambda>(commit, version).
     pseq (set_backend (\<lambda>s. s\<lparr>be_commit := commit\<rparr>)) (
     pseq (ext_do (validate_artifact_config (sv_machine S) c)) (
     pbind (ext_do (mt_missing (sv_upstream S))) (\<lambda>missing.
     case missing of
       Some t \<Rightarrow> throw (Exc PreflightError (''pinned microtensor runtime is unavailable: '' @ t))
     | None \<Rightarrow>
     pbind (ext_do (mt_is_competable (sv_upstream S) (c_track c) (c_hardware_class c))) (\<lambda>live.
     pseq (guard live (Exc PreflightError (c_track c @ ''/'' @ c_hardware_class c
            @ '' is not live in the pinned upstream''))) (
     pseq (ext_do (mt_new_chain_config (sv_upstream S) (chain_config_of c))) (
     pbind (catch (connect_wallet S) (\<lambda>e.
              pseq (backend_close S)
                (throw (Exc PreflightError (''wallet/metagraph preflight failed: '' @ exc_text e)))))
       (\<lambda>(actual_uid, head).
     pbind (read_world be_hotkey) (\<lambda>hotkey.
     pseq (if chain_eq actual_uid (CInt (c_expected_uid c)) then ret ()
           else pseq (backend_close S)
             (throw (Exc PreflightError (''hotkey '' @ hotkey @ '' maps to UID '' @ chain_str actual_uid
                @ '', expected '' @ text_of_int (c_expected_uid c))))) (
     pbind (lift_res (source_for c 0 hotkey)) (\<lambda>source.
     pseq (build_miner_config S c source)
     (ret \<lparr>p_hotkey = hotkey, p_uid = c_expected_uid c, p_chain_head = head,
           p_upstream_version = version, p_upstream_commit = commit\<rparr>))))))))))))))"

section \<open>Rounds\<close>

definition client_ready :: "('x backend_state, unit) prog" where
  "client_ready = has_client (Exc PreflightError ''chain client has not passed preflight'')"

definition backend_block :: "'x services \<Rightarrow> ('x backend_state, int) prog" where
  "backend_block S = pseq client_ready (ext_do (mt_block (sv_upstream S)))"

definition backend_chain_round ::
    "'x services \<Rightarrow> controller_config \<Rightarrow> int \<Rightarrow> round_window res" where
  "backend_chain_round S c block =
     rbind (mt_round_for_block (sv_upstream S) block (c_round_blocks c) (c_genesis_block c))
       (\<lambda>(idx, start_block, close_block, end_block).
     Inr (make_window idx start_block close_block (end_block + 1)
            (if block < close_block then ''submissions'' else ''evaluation'') ''chain''))"

definition verify_seed_hash ::
    "'x services \<Rightarrow> controller_config \<Rightarrow> round_window \<Rightarrow> ('x backend_state, unit) prog" where
  "verify_seed_hash S c w =
     (if \<not> uses_signed_v030 c then ret () else
     pseq (guard (w_seed_block w = w_close_block w)
            (verification_error ''served round seed block differs from its close block'')) (
     if w_phase w = ''submissions'' then
       guard (w_block_hash w = [])
         (verification_error ''submission phase disclosed a future seed block hash'')
     else
     pseq (guard (\<not> (w_phase w \<noteq> ''evaluation'' \<or> \<not> matches chain_hash_rx (w_block_hash w)))
            (verification_error ''evaluation phase has no canonical seed block hash'')) (
     pseq client_ready (
     pbind (catch (pbind (ext_do (mt_block_hash (sv_upstream S) (w_seed_block w)))
                     (\<lambda>v. ret (py_lower (chain_str v))))
              (\<lambda>e. throw (verification_error (''could not independently read seed block ''
                      @ text_of_int (w_seed_block w) @ '' from chain: '' @ exc_text e)))) (\<lambda>observed.
     guard (\<not> (\<not> matches chain_hash_rx observed \<or> observed \<noteq> w_block_hash w))
       (verification_error ''served evaluation seed hash does not match the independent chain block hash''))))))"

definition backend_verify_round_anchor ::
    "'x services \<Rightarrow> controller_config \<Rightarrow> round_window \<Rightarrow> ('x backend_state, unit) prog" where
  "backend_verify_round_anchor S c w =
     (if w_source w \<noteq> ''coordinator'' then ret () else
     pseq client_ready (
     pbind (catch (ext_do (mt_anchor (sv_upstream S)))
              (\<lambda>e. throw (verification_error
                 (''could not independently read the coordinator anchor from chain: '' @ exc_text e)))) (\<lambda>anchor.
     case anchor of
       None \<Rightarrow> throw (verification_error ''the coordinator has no independently readable chain anchor'')
     | Some (round_index, config_hash) \<Rightarrow>
         pseq (guard (chain_eq round_index (CInt (w_index w)))
                (verification_error (''chain anchor is for round '' @ chain_str round_index
                   @ '', not served round '' @ text_of_int (w_index w)))) (
         pseq (guard (chain_eq config_hash (CStr (w_config_hash w)))
                (verification_error ''served coordinator config hash does not match the independent chain anchor''))
         (verify_seed_hash S c w)))))"

section \<open>Packages\<close>

definition wrapped :: "manifest \<Rightarrow> packaged_artifact" where
  "wrapped m =
     \<lparr>k_round_index = mf_round_index m, k_source = mf_source m, k_hotkey = mf_hotkey m,
      k_manifest_digest = mf_digest m, k_artifact_digest = mf_artifact_digest m,
      k_file_count = int (length (mf_files m)), k_total_bytes = mf_total_bytes m,
      k_sealed = mf_sealed m, k_native = Some m\<rparr>"

definition backend_load_local ::
    "'x services \<Rightarrow> controller_config \<Rightarrow> ('x backend_state, packaged_artifact option) prog" where
  "backend_load_local S c =
     pbind backend_hotkey (\<lambda>hotkey.
     pbind (lift_res (source_for c 0 hotkey)) (\<lambda>source.
     pbind (build_miner_config S c source) (\<lambda>config.
     pbind (ext_do (mt_load_packaged (sv_upstream S) config)) (\<lambda>found.
     case found of
       None \<Rightarrow> ret None
     | Some m \<Rightarrow>
         pseq (guard (\<not> k_sealed (wrapped m))
                (verification_error ''local manifest is sealed; refusing to manage it''))
         (ret (Some (wrapped m)))))))"

definition backend_package ::
    "'x services \<Rightarrow> controller_config \<Rightarrow> int \<Rightarrow> string \<Rightarrow> ('x backend_state, packaged_artifact) prog" where
  "backend_package S c round_index source =
     pbind (read_world be_wallet) (\<lambda>wallet.
     pseq (guard wallet (Exc PreflightError ''wallet has not passed preflight'')) (
     pbind (build_miner_config S c source) (\<lambda>config.
     pbind (build_load_spec S c) (\<lambda>spec.
     pbind (ext_do (read_declared (sv_machine S) c)) (\<lambda>declared.
     pbind (ext_do (mt_package (sv_upstream S) config round_index spec declared)) (\<lambda>m.
     let packaged = wrapped m in
     pseq (guard (\<not> k_sealed packaged)
            (verification_error ''upstream unexpectedly produced a sealed manifest'')) (
     pseq (guard (\<not> (k_round_index packaged \<noteq> round_index \<or> k_source packaged \<noteq> source))
            (verification_error ''packaged manifest does not match the requested round/source'')) (
     pbind backend_hotkey (\<lambda>hotkey.
     pseq (guard (\<not> (k_hotkey packaged \<noteq> hotkey \<or> mf_signature m = []))
            (verification_error ''packaged manifest is not signed by the configured hotkey''))
     (ret packaged))))))))))"

definition native_manifest ::
    "'x services \<Rightarrow> controller_config \<Rightarrow> packaged_artifact \<Rightarrow> ('x backend_state, manifest) prog" where
  "native_manifest S c k =
     (case k_native k of
        Some m \<Rightarrow> ret m
      | None \<Rightarrow>
          pbind (build_miner_config S c (k_source k)) (\<lambda>config.
          pbind (ext_do (mt_load_packaged (sv_upstream S) config)) (\<lambda>found.
          case found of
            None \<Rightarrow> throw (Exc OtherException ''no packaged manifest'')
          | Some m \<Rightarrow>
              pseq (guard (mf_digest m = k_manifest_digest k)
                     (verification_error ''local manifest changed since it was recorded''))
              (ret m))))"

definition encode_commitment ::
    "'x services \<Rightarrow> controller_config \<Rightarrow> packaged_artifact \<Rightarrow> manifest \<Rightarrow> ('x backend_state, string) prog" where
  "encode_commitment S c k native =
     catch (pbind (build_miner_config S c (k_source k)) (\<lambda>config.
            pbind (ext_do (mt_commitment_for (sv_upstream S) config native (k_round_index k))) (\<lambda>commitment.
            ext_do (mt_encode (sv_upstream S) commitment))))
       (\<lambda>e. throw (verification_error (''commitment cannot be encoded for chain: '' @ exc_text e)))"

definition backend_validate_commitment ::
    "'x services \<Rightarrow> controller_config \<Rightarrow> packaged_artifact \<Rightarrow> ('x backend_state, string) prog" where
  "backend_validate_commitment S c k =
     pbind (native_manifest S c k) (\<lambda>native.
     pbind (if k_sealed k \<or> mf_sealed native then ret False
            else pbind backend_hotkey (\<lambda>hotkey.
              ret (\<not> (k_hotkey k \<noteq> hotkey \<or> mf_hotkey native \<noteq> hotkey \<or> mf_signature native = [])))) (\<lambda>own.
     pseq (guard own
            (verification_error ''commitment requires an unsealed manifest signed by the configured hotkey'')) (
     pbind (encode_commitment S c k native) (\<lambda>payload.
     pseq (guard (\<not> length (utf8_encode payload) > mt_max_commitment_bytes (sv_upstream S))
            (verification_error ''encoded commitment exceeds the 128-byte chain limit''))
     (ret payload)))))"

section \<open>Upload\<close>

definition UPLOAD_CHUNK_BYTES :: int where "UPLOAD_CHUNK_BYTES = 1024 * 1024"

text \<open>A run of the publisher on the external state.\<close>

definition run_publisher :: "('x gh, 'a) prog \<Rightarrow> ('x backend_state, 'a) prog" where
  "run_publisher m = (\<lambda>s. case m (start_gh (be_ext s)) of (r, g) \<Rightarrow> (r, s\<lparr>be_ext := gh_remote g\<rparr>))"

definition result_matches :: "published_release \<Rightarrow> packaged_artifact \<Rightarrow> string list \<Rightarrow> bool" where
  "result_matches result k names \<longleftrightarrow>
     (let published_names = map pu_name (pr_assets result) in
      \<not> (pr_source result \<noteq> k_source k \<or> length published_names \<noteq> length names
         \<or> set published_names \<noteq> set names))"

definition upload_release ::
    "'x services \<Rightarrow> controller_config \<Rightarrow> packaged_artifact \<Rightarrow> ('x backend_state, unit) prog" where
  "upload_release S c k =
     (let M = sv_machine S in
      case github_release_coordinates (k_source k) of
        None \<Rightarrow> throw (verification_error ''GitHub release coordinates are invalid'')
      | Some (owner, repo, tag) \<Rightarrow>
          pbind (ext_do (read_github_token M c)) (\<lambda>token.
          pbind (native_manifest S c k) (\<lambda>native.
          pbind (ext_do (mt_publishable_files (sv_upstream S) native)) (\<lambda>names.
          pseq (guard (\<not> (names = [] \<or> \<not> distinct names))
                 (verification_error ''publishable artifact file set is invalid'')) (
          pbind (lift_res (make_publisher owner repo tag token)) (\<lambda>publisher.
          pbind (lift_res (github_transport (os_lib M) (os_decode M) (os_parse M) (sv_https S) token
                   60 UPLOAD_CHUNK_BYTES)) (\<lambda>transport.
          pseq (if uses_signed_v030 c
                then pseq (verify_observer_status (sv_chain S) c) (ret ()) else ret ()) (
          pseq (ext_do (assert_bound_artifact M c k)) (
          pbind (run_publisher (publish_release (os_lib M) publisher transport (sv_files S)
                   (map (\<lambda>name. (name, path_join (c_artifact_dir c) name)) names))) (\<lambda>result.
          guard (result_matches result k names)
            (verification_error ''GitHub release result does not match the package'')))))))))))"

definition upload_github ::
    "'x services \<Rightarrow> controller_config \<Rightarrow> packaged_artifact \<Rightarrow> ('x backend_state, unit) prog" where
  "upload_github S c k =
     catch (upload_release S c k) (\<lambda>e.
       if isinstance e ArtifactCompetitionBindingError then throw e
       else throw (verification_error ''GitHub immutable release upload failed''))"

definition backend_upload ::
    "'x services \<Rightarrow> controller_config \<Rightarrow> packaged_artifact \<Rightarrow> ('x backend_state, unit) prog" where
  "backend_upload S c k =
     pseq (guard (\<not> c_dry_run c) (verification_error ''upload is forbidden while MMC_DRY_RUN=true'')) (
     pseq (guard (fst (partition_at CHR '':'' (k_source k)) = ''https'')
            (verification_error ''live upload requires an immutable GitHub HTTPS release; S3/R2 are refused'')) (
     pseq (observer_gate (sv_chain S) c VerificationError) (upload_github S c k)))"

section \<open>Verification\<close>

definition inspect_remote ::
    "'x services \<Rightarrow> controller_config \<Rightarrow> packaged_artifact \<Rightarrow> bool \<Rightarrow> string \<Rightarrow> ('x backend_state, unit) prog" where
  "inspect_remote S c k full commitment =
     pbind (ext_do (mt_fetch_manifest (sv_upstream S) commitment (c_verify_attempts c))) (\<lambda>remote.
     pseq (guard (mf_digest remote = k_manifest_digest k)
            (verification_error ''remote manifest digest differs from the packaged manifest'')) (
     pbind backend_hotkey (\<lambda>hotkey.
     pseq (guard (\<not> (mf_hotkey remote \<noteq> hotkey \<or> mf_signature remote = []))
            (verification_error ''remote manifest is unsigned or names a different hotkey'')) (
     pbind (ext_do (mt_verify_payload (sv_upstream S) remote)) (\<lambda>valid.
     pseq (guard valid (verification_error ''remote manifest signature is invalid'')) (
     pseq (guard (\<not> mf_sealed remote) (verification_error ''remote manifest is sealed'')) (
     if full then
       ext_do (mt_materialise (sv_upstream S) remote
         (max (mf_total_bytes remote * 2) (mf_total_bytes remote + 1)) (c_verify_attempts c))
     else ret ())))))))"

text \<open>\<open>with TemporaryDirectory(...): body\<close>.\<close>

definition with_temporary :: "'x services \<Rightarrow> ('x backend_state, 'a) prog \<Rightarrow> ('x backend_state, 'a) prog" where
  "with_temporary S m =
     pseq (ext_do (mt_temporary (sv_upstream S) True))
       (finally_do m (ext_do (mt_temporary (sv_upstream S) False)))"

definition backend_verify_source ::
    "'x services \<Rightarrow> controller_config \<Rightarrow> packaged_artifact \<Rightarrow> bool \<Rightarrow> ('x backend_state, unit) prog" where
  "backend_verify_source S c k full =
     pbind (native_manifest S c k) (\<lambda>local.
     pbind (build_miner_config S c (k_source k)) (\<lambda>config.
     pbind (ext_do (mt_commitment_for (sv_upstream S) config local (k_round_index k))) (\<lambda>commitment.
     pseq (ext_do (mt_make_directory (sv_upstream S) (path_join (c_state_dir c) ''verify''))) (
     catch (with_temporary S (inspect_remote S c k full commitment)) (\<lambda>e.
       if isinstance e VerificationError then throw e
       else throw (verification_error (''remote '' @ (if full then ''full artifact'' else ''manifest'')
              @ '' verification failed: '' @ exc_text e)))))))"

definition backend_verify_provenance ::
    "'x services \<Rightarrow> controller_config \<Rightarrow> packaged_artifact \<Rightarrow> int \<Rightarrow> ('x backend_state, unit) prog" where
  "backend_verify_provenance S c k block =
     (if uses_signed_v030 c \<and> \<not> SIGNED_V030_PROVENANCE_REQUIRED then ret () else
     pbind (catch (pbind backend_hotkey (\<lambda>hotkey.
                   ext_do (mt_verdict (sv_upstream S) hotkey (k_artifact_digest k) (c_track c)
                     (c_hardware_class c) block (c_base_model c))))
              (\<lambda>e. throw (verification_error (''provenance verification failed: '' @ exc_text e))))
       (\<lambda>(admissible, reason).
     guard admissible (verification_error (''provenance rejected: '' @ reason))))"

text \<open>The readback loop: \<open>n\<close> attempts are left.\<close>

fun readback ::
    "'x services \<Rightarrow> string \<Rightarrow> nat \<Rightarrow> ('x backend_state, string) prog" where
  "readback S expected 0 =
     throw (verification_error ''on-chain readback did not exactly match the signed round/source/digest commitment'')"
| "readback S expected (Suc n) =
     pbind backend_hotkey (\<lambda>hotkey.
     pbind (ext_do (mt_commitments (sv_upstream S) hotkey)) (\<lambda>observed.
     if observed = expected then ret expected
     else pseq (if 0 < n then ext_do (mt_sleep (sv_upstream S) 12) else ret ())
            (readback S expected n)))"

definition backend_verify_on_chain ::
    "'x services \<Rightarrow> controller_config \<Rightarrow> packaged_artifact \<Rightarrow> ('x backend_state, string) prog" where
  "backend_verify_on_chain S c k =
     pseq client_ready (
     pbind (backend_validate_commitment S c k) (\<lambda>expected.
     readback S expected (nat (c_verify_attempts c))))"

section \<open>Publishing\<close>

definition backend_publish ::
    "'x services \<Rightarrow> controller_config \<Rightarrow> packaged_artifact \<Rightarrow> ('x backend_state, publish_receipt) prog" where
  "backend_publish S c k =
     pseq (assert_live_transaction_policy (sv_chain S) c) (
     pbind backend_hotkey (\<lambda>hotkey.
     pseq (guard (k_hotkey k = hotkey)
            (auth_refused ''packaged artifact is signed by a different hotkey'')) (
     pbind (catch (pbind (lift_res (source_for c (k_round_index k) hotkey)) (\<lambda>expected_source.
                   ret (expected_source, github_release_coordinates (k_source k))))
              (\<lambda>e. throw (auth_refused (''packaged artifact source could not be proven: '' @ exc_text e))))
       (\<lambda>(expected_source, coordinates).
     pseq (guard (k_source k = expected_source)
            (auth_refused ''packaged artifact source differs from the authorized round release'')) (
     pseq (guard (authorised_repository coordinates)
            (auth_refused ''packaged artifact is not in vandungtech/mt92'')) (
     pbind (backend_validate_commitment S c k) (\<lambda>payload.
     pseq (ext_do (assert_bound_artifact (sv_machine S) c k)) (
     pseq (submit_authorized_commitment (sv_chain S) c payload)
     (ret \<lparr>r_round_index = k_round_index k, r_payload = payload\<rparr>)))))))))"

text \<open>
  The adapter as the controller's backend, with the round fetcher of \<^verbatim>\<open>coordinator.py\<close> on the
  same external state.
\<close>

definition microtensor_backend ::
    "'x services \<Rightarrow> controller_config \<Rightarrow> (string \<Rightarrow> int \<Rightarrow> ('x, dict) prog) \<Rightarrow> 'x backend_state backend" where
  "microtensor_backend S c fetch =
     \<lparr>b_preflight = backend_preflight S c, b_block = backend_block S,
      b_chain_round = (\<lambda>block. lift_res (backend_chain_round S c block)),
      b_fetch_round = (\<lambda>base_url timeout_seconds. ext_do (fetch base_url timeout_seconds)),
      b_verify_round_anchor = backend_verify_round_anchor S c,
      b_validate_round = (\<lambda>window. ext_do (backend_validate_round (sv_machine S) c window)),
      b_assert_registered = assert_registered (sv_chain S) c,
      b_validate_competition = ext_do (validate_competition_binding (sv_machine S) c),
      b_load_local = backend_load_local S c, b_package = backend_package S c,
      b_validate_commitment = backend_validate_commitment S c, b_upload = backend_upload S c,
      b_verify_source = backend_verify_source S c, b_verify_provenance = backend_verify_provenance S c,
      b_verify_on_chain = backend_verify_on_chain S c, b_publish = backend_publish S c,
      b_close = backend_close S\<rparr>"

end
