(* ===== verification/ChainSafety.thy ===== *)
theory ChainSafety
  imports ChainSubmit Hoare
begin

text \<open>
  What the transaction path proves before it signs and before it broadcasts, read off its
  call log, and what it raises after a broadcast.
\<close>

section \<open>Passive programs\<close>

text \<open>
  A passive program neither signs nor broadcasts. \<open>adds m Q\<close>: a run of \<open>m\<close> adds passive
  events only, keeps wallet, client and hot key, and on return satisfies \<open>Q\<close> of the hot
  key, the answer and the added events.
\<close>

fun passive_event :: "chain_event \<Rightarrow> bool" where
  "passive_event (Signed nonce era ok) = False"
| "passive_event (Submitted ok) = False"
| "passive_event ev = True"

definition same_backend :: "'x backend_state \<Rightarrow> 'x backend_state \<Rightarrow> bool" where
  "same_backend s s' \<longleftrightarrow>
     be_hotkey s' = be_hotkey s \<and> be_client s' = be_client s \<and> be_wallet s' = be_wallet s \<and>
     be_commit s' = be_commit s"

definition adds ::
    "('x backend_state, 'a) prog \<Rightarrow> (string \<Rightarrow> 'a \<Rightarrow> chain_event list \<Rightarrow> bool) \<Rightarrow> bool" where
  "adds m Q \<longleftrightarrow>
     (\<forall>s r s'. m s = (r, s') \<longrightarrow>
        (\<exists>es. be_log s' = es @ be_log s \<and> list_all passive_event es \<and> same_backend s s' \<and>
           (\<forall>x. r = Inr x \<longrightarrow> Q (be_hotkey s) x es)))"

named_theorems adds_intros "passive programs"

lemma addsD:
  assumes "adds m Q" and "m s = (r, s')"
  obtains es where "be_log s' = es @ be_log s" "list_all passive_event es" "same_backend s s'"
    "\<And>x. r = Inr x \<Longrightarrow> Q (be_hotkey s) x es"
proof -
  from assms have "\<exists>es. be_log s' = es @ be_log s \<and> list_all passive_event es \<and> same_backend s s' \<and>
      (\<forall>x. r = Inr x \<longrightarrow> Q (be_hotkey s) x es)"
    by (simp add: adds_def)
  then show thesis by (elim exE conjE) (rule that, simp_all)
qed

lemma adds_weaken: "adds m Q \<Longrightarrow> (\<And>h x es. Q h x es \<Longrightarrow> Q' h x es) \<Longrightarrow> adds m Q'"
  unfolding adds_def by meson

lemma adds_pure [adds_intros]:
  "adds (ret x) (\<lambda>h y es. y = x \<and> es = [])"
  "adds (throw e) (\<lambda>h y es. False)"
  "adds (lift_res r) (\<lambda>h y es. r = Inr y \<and> es = [])"
  "adds (guard ok e) (\<lambda>h y es. ok \<and> es = [])"
  "adds (read_world f) (\<lambda>h y es. es = [])"
  "adds backend_hotkey (\<lambda>h y es. y = h \<and> es = [])"
  "adds (has_client e) (\<lambda>h y es. es = [])"
  by (auto simp: adds_def same_backend_def guard_def backend_hotkey_def has_client_def
      ret_def throw_def lift_res_def read_world_def)

lemma adds_bind [adds_intros]:
  assumes m: "adds m M" and k: "\<And>x. adds (k x) (N x)"
  shows "adds (pbind m k) (\<lambda>h y es. \<exists>x es1 es2. es = es2 @ es1 \<and> M h x es1 \<and> N x h y es2)"
  unfolding adds_def
proof (intro allI impI)
  fix s r s'
  assume run: "pbind m k s = (r, s')"
  obtain r1 s1 where first: "m s = (r1, s1)" by fastforce
  from m first obtain es1 where e1: "be_log s1 = es1 @ be_log s" "list_all passive_event es1"
    "same_backend s s1" "\<And>x. r1 = Inr x \<Longrightarrow> M (be_hotkey s) x es1"
    by (rule addsD) blast
  show "\<exists>es. be_log s' = es @ be_log s \<and> list_all passive_event es \<and> same_backend s s' \<and>
      (\<forall>y. r = Inr y \<longrightarrow>
         (\<exists>x es1 es2. es = es2 @ es1 \<and> M (be_hotkey s) x es1 \<and> N x (be_hotkey s) y es2))"
  proof (cases r1)
    case (Inl e)
    with run first e1 show ?thesis by (auto simp: pbind_def)
  next
    case (Inr x)
    with run first have "k x s1 = (r, s')" by (simp add: pbind_def)
    with k obtain es2 where "be_log s' = es2 @ be_log s1" "list_all passive_event es2"
      "same_backend s1 s'" "\<And>y. r = Inr y \<Longrightarrow> N x (be_hotkey s1) y es2"
      by (rule addsD) blast
    with e1 Inr show ?thesis by (intro exI [of _ "es2 @ es1"]) (auto simp: same_backend_def)
  qed
qed

lemma adds_catch [adds_intros]:
  assumes m: "adds m Q" and h: "\<And>e. adds (hd' e) (\<lambda>_ _ _. False)"
  shows "adds (catch m hd') Q"
  unfolding adds_def
proof (intro allI impI)
  fix s r s'
  assume run: "catch m hd' s = (r, s')"
  obtain r1 s1 where first: "m s = (r1, s1)" by fastforce
  from m first obtain es1 where e1: "be_log s1 = es1 @ be_log s" "list_all passive_event es1"
    "same_backend s s1" "\<And>x. r1 = Inr x \<Longrightarrow> Q (be_hotkey s) x es1"
    by (rule addsD) blast
  show "\<exists>es. be_log s' = es @ be_log s \<and> list_all passive_event es \<and> same_backend s s' \<and>
      (\<forall>x. r = Inr x \<longrightarrow> Q (be_hotkey s) x es)"
  proof (cases r1)
    case (Inr x)
    with run first e1 show ?thesis by (auto simp: catch_def)
  next
    case (Inl e)
    with run first have "hd' e s1 = (r, s')" by (simp add: catch_def)
    with h obtain es2 where "be_log s' = es2 @ be_log s1" "list_all passive_event es2"
      "same_backend s1 s'" "\<And>x. r = Inr x \<Longrightarrow> False"
      by (rule addsD) blast
    with e1 show ?thesis by (intro exI [of _ "es2 @ es1"]) (auto simp: same_backend_def)
  qed
qed

lemma adds_if: "(b \<Longrightarrow> adds m Q) \<Longrightarrow> (\<not> b \<Longrightarrow> adds n Q) \<Longrightarrow> adds (if b then m else n) Q"
  by simp

lemma adds_if_throw [adds_intros]:
  "adds (if b then throw e else throw e') (\<lambda>_ _ _. False)"
  by (simp add: adds_pure(2))

lemma adds_case_prod [adds_intros]:
  "(\<And>x y. adds (k x y) (Q x y)) \<Longrightarrow>
     adds (case t of (x, y) \<Rightarrow> k x y) (\<lambda>h z es. \<exists>x y. t = (x, y) \<and> Q x y h z es)"
  by (cases t) simp

lemma adds_host_call:
  "(\<And>r. passive_event (ev r)) \<Longrightarrow> adds (host_call ev f) (\<lambda>h x es. es = [ev (Inr x)])"
  by (auto simp: adds_def host_call_def same_backend_def split: prod.splits)

lemma adds_query [adds_intros]: "adds (query H q) (\<lambda>h v es. es = [Queried q (Inr v)])"
  unfolding query_def by (rule adds_host_call) simp

lemma adds_refusing [adds_intros]: "adds m Q \<Longrightarrow> adds (refusing t m) Q"
  unfolding refusing_def by (rule adds_catch, assumption, rule adds_if_throw)

lemma adds_Let [adds_intros]: "adds (f t) Q \<Longrightarrow> adds (let x = t in f x) Q"
  by (simp add: Let_def)

section \<open>What the log proves\<close>

definition gate_fact :: "controller_config \<Rightarrow> chain_event list \<Rightarrow> bool" where
  "gate_fact c es \<longleftrightarrow>
     uses_signed_v030 c = False \<or>
     (\<exists>d. GateRead (Inr d) \<in> set es \<and> attests exact_fields d \<and> dget d ''changed_files'' = JList [])"

definition version_fact :: "string \<Rightarrow> string \<Rightarrow> chain_event list \<Rightarrow> bool" where
  "version_fact d v es \<longleftrightarrow> Queried (QVersion d) (Inr (CStr v)) \<in> set es"

definition registration_fact :: "string \<Rightarrow> chain_event list \<Rightarrow> bool" where
  "registration_fact h es \<longleftrightarrow>
     (\<exists>v w. Queried (QUid h) (Inr v) \<in> set es \<and> chain_eq v (CInt 32) \<and>
        Queried QNetuid (Inr w) \<in> set es \<and> reads_integer w 92)"

definition runtime_fact :: "chain_event list \<Rightarrow> bool" where
  "runtime_fact es \<longleftrightarrow>
     (\<exists>g head rt code. Queried QGenesis (Inr g) \<in> set es \<and> Queried QHead (Inr head) \<in> set es \<and>
        Queried (QRuntime (py_lower (chain_str head))) (Inr rt) \<in> set es \<and>
        Queried (QCodeHash (py_lower (chain_str head))) (Inr code) \<in> set es \<and>
        finney_runtime (py_lower (chain_str g)) (py_lower (chain_str head)) rt code)"

definition nonce_fact :: "string \<Rightarrow> int \<Rightarrow> chain_event list \<Rightarrow> bool" where
  "nonce_fact h nonce es \<longleftrightarrow> (\<exists>v. Queried (QNonce h) (Inr v) \<in> set es \<and> reads_integer v nonce)"

definition fee_fact :: "int \<Rightarrow> chain_map \<Rightarrow> chain_event list \<Rightarrow> bool" where
  "fee_fact nonce era es \<longleftrightarrow>
     (\<exists>d v. Estimated nonce era (Inr (CMap d)) \<in> set es \<and> map_of d ''partial_fee'' = Some v \<and>
        reads_integer v 0)"

definition policy_fact :: "controller_config \<Rightarrow> string \<Rightarrow> bool" where
  "policy_fact c h \<longleftrightarrow>
     \<not> c_dry_run c \<and> c_transaction_authorization c = TRANSACTION_AUTHORIZATION \<and>
     c_netuid c = 92 \<and> c_expected_uid c = 32 \<and> c_wallet_name c = ''you-cold'' \<and>
     c_wallet_hotkey c = ''you-hot1'' \<and> h = AUTHORIZED_HOTKEY_SS58 \<and> c_network c = ''finney'' \<and>
     c_endpoint c = [] \<and>
     (\<exists>source. source_for c 0 h = Inr source \<and>
        authorised_repository (github_release_coordinates source))"

text \<open>Everything one refresh proves.\<close>

definition authorization_fact ::
    "controller_config \<Rightarrow> string \<Rightarrow> int \<Rightarrow> chain_event list \<Rightarrow> bool" where
  "authorization_fact c h nonce es \<longleftrightarrow>
     policy_fact c h \<and> gate_fact c es \<and> version_fact ''bittensor'' BITTENSOR_VERSION es \<and>
     version_fact ''bittensor-wallet'' BITTENSOR_WALLET_VERSION es \<and>
     version_fact ''async-substrate-interface'' SUBSTRATE_INTERFACE_VERSION es \<and>
     registration_fact h es \<and> runtime_fact es \<and> nonce_fact h nonce es"

lemmas fact_defs = gate_fact_def version_fact_def registration_fact_def runtime_fact_def
  nonce_fact_def fee_fact_def

lemma facts_append:
  "gate_fact c es \<or> gate_fact c fs \<Longrightarrow> gate_fact c (es @ fs)"
  "version_fact d v es \<or> version_fact d v fs \<Longrightarrow> version_fact d v (es @ fs)"
  "registration_fact h es \<or> registration_fact h fs \<Longrightarrow> registration_fact h (es @ fs)"
  "runtime_fact es \<or> runtime_fact fs \<Longrightarrow> runtime_fact (es @ fs)"
  "nonce_fact h n es \<or> nonce_fact h n fs \<Longrightarrow> nonce_fact h n (es @ fs)"
  "fee_fact n era es \<or> fee_fact n era fs \<Longrightarrow> fee_fact n era (es @ fs)"
  by (simp_all add: fact_defs Bex_def) (blast+)?

lemma facts_Cons:
  "gate_fact c es \<Longrightarrow> gate_fact c (e # es)"
  "version_fact d v es \<Longrightarrow> version_fact d v (e # es)"
  "registration_fact h es \<Longrightarrow> registration_fact h (e # es)"
  "runtime_fact es \<Longrightarrow> runtime_fact (e # es)"
  "nonce_fact h n es \<Longrightarrow> nonce_fact h n (e # es)"
  "fee_fact n era es \<Longrightarrow> fee_fact n era (e # es)"
  using facts_append [where es = "[e]" and fs = es] by auto

section \<open>What each check proves\<close>

lemma adds_observer_gate: "adds (observer_gate H c cls) (\<lambda>h _ es. gate_fact c es)"
proof -
  have attested: "attests exact_fields d \<and> dget d ''changed_files'' = JList []"
    if "verify_upstream_observer_status decode parse clock (JInt age) None session = Inr d"
    for decode parse clock age session d
    using that unfolding verify_status_Inr by blast
  have "adds (verify_observer_status H c) (\<lambda>h d es. es = [GateRead (Inr d)] \<and>
      attests exact_fields d \<and> dget d ''changed_files'' = JList [])"
    by (auto simp: adds_def verify_observer_status_def host_call_def same_backend_def attested
        split: prod.splits)
  note verify = adds_bind [OF this adds_pure(1)]
  show ?thesis
    unfolding observer_gate_def
    by (rule adds_if, rule adds_weaken, rule adds_catch, rule verify, rule adds_if_throw)
      (auto simp: gate_fact_def intro: adds_weaken [OF adds_pure(1)])
qed

lemma adds_require_version: "adds (require_version H d v) (\<lambda>h _ es. version_fact d v es)"
  unfolding require_version_def
  by (rule adds_weaken, rule adds_bind, rule adds_query, rule adds_if,
      (rule adds_weaken, rule adds_pure(2), simp), rule adds_pure(4))
    (auto simp: version_fact_def)

lemma static_policy_Inr:
  "static_policy c = Inr u \<longleftrightarrow>
     \<not> c_dry_run c \<and> c_transaction_authorization c = TRANSACTION_AUTHORIZATION \<and>
     c_netuid c = 92 \<and> c_expected_uid c = 32 \<and> c_wallet_name c = ''you-cold'' \<and>
     c_wallet_hotkey c = ''you-hot1''"
  by (auto simp: static_policy_def require_Inr_iff)

definition versions_fact :: "chain_event list \<Rightarrow> bool" where
  "versions_fact es \<longleftrightarrow> version_fact ''bittensor'' BITTENSOR_VERSION es \<and>
     version_fact ''bittensor-wallet'' BITTENSOR_WALLET_VERSION es \<and>
     version_fact ''async-substrate-interface'' SUBSTRATE_INTERFACE_VERSION es"

lemma adds_dependencies: "adds (verify_transaction_dependencies H) (\<lambda>h _ es. versions_fact es)"
  unfolding verify_transaction_dependencies_def
  by (rule adds_weaken, (rule adds_bind adds_require_version)+)
    (auto simp: versions_fact_def facts_append)

lemma adds_policy:
  "adds (assert_live_transaction_policy H c)
     (\<lambda>h _ es. policy_fact c h \<and> gate_fact c es \<and> versions_fact es)"
proof -
  have source: "adds (pseq (verify_transaction_dependencies H) (
        pbind (lift_res (source_for c 0 hotkey)) (\<lambda>source. ret (github_release_coordinates source))))
      (\<lambda>h coordinates es. versions_fact es \<and>
         (\<exists>source. source_for c 0 hotkey = Inr source \<and> coordinates = github_release_coordinates source))"
    for hotkey
    by (rule adds_weaken, rule adds_bind, rule adds_dependencies, (rule adds_intros)+)
      (auto simp: versions_fact_def facts_append)
  show ?thesis
    unfolding assert_live_transaction_policy_def
    by (rule adds_weaken, rule adds_bind, rule adds_observer_gate, rule adds_bind, rule adds_pure(3),
        rule adds_bind, rule adds_pure(6), rule adds_bind, rule adds_pure(4), rule adds_bind,
        rule adds_pure(4), rule adds_bind, rule adds_catch, rule source, rule adds_pure(2), rule adds_pure(4))
      (auto simp: policy_fact_def static_policy_Inr versions_fact_def facts_append)
qed

lemma adds_registered:
  "adds (assert_registered H c)
     (\<lambda>h _ es. \<exists>v. Queried (QUid h) (Inr v) \<in> set es \<and> chain_eq v (CInt (c_expected_uid c)))"
  unfolding assert_registered_def
  by (rule adds_weaken, rule adds_bind, rule adds_observer_gate, rule adds_bind, rule adds_pure(7),
      rule adds_bind, rule adds_catch, rule adds_bind, rule adds_pure(6), rule adds_query,
      rule adds_pure(2), rule adds_pure(4)) auto

lemma adds_if_rethrow: "adds (if b then throw e else throw e') (\<lambda>_ _ _. False)"
  by (simp add: adds_pure(2))

lemma adds_authorized_registration:
  "adds (assert_authorized_registration H c)
     (\<lambda>h _ es. policy_fact c h \<and> gate_fact c es \<and> versions_fact es \<and> registration_fact h es)"
  unfolding assert_authorized_registration_def
  by (rule adds_weaken, rule adds_bind, rule adds_policy, rule adds_bind, rule adds_pure(7),
      rule adds_bind, rule adds_query, rule adds_bind, rule adds_pure(3), rule adds_bind,
      rule adds_pure(4), rule adds_catch, rule adds_registered, rule adds_if_rethrow)
    (auto simp: versions_fact_def facts_append facts_Cons registration_fact_def authorization_integer_Inr
       policy_fact_def, blast)

lemma adds_chain_head: "adds (authorized_chain_head H) (\<lambda>h _ es. runtime_fact es)"
  unfolding authorized_chain_head_def Let_def
  by (rule adds_weaken, rule adds_bind, rule adds_catch, (rule adds_bind adds_query adds_pure(1))+,
      rule adds_pure(2), rule adds_case_prod, rule adds_case_prod, rule adds_case_prod, rule adds_pure(3))
    (auto simp: runtime_fact_def check_runtime_Inr)

lemma adds_read_nonce: "adds (read_nonce H address label) (\<lambda>h n es. nonce_fact address n es)"
  unfolding read_nonce_def
  by (rule adds_weaken, rule adds_bind, rule adds_query, rule adds_pure(3))
    (auto simp: nonce_fact_def authorization_integer_Inr)

lemma adds_refresh_authorization:
  "adds (refresh_authorization H c address nonce label unreadable changed)
     (\<lambda>h _ es. address = h \<longrightarrow> authorization_fact c h nonce es)"
  unfolding refresh_authorization_def
  by (rule adds_weaken, rule adds_bind, rule adds_authorized_registration, rule adds_bind,
      rule adds_chain_head, rule adds_bind, rule adds_refusing, rule adds_read_nonce, rule adds_pure(4))
    (auto simp: authorization_fact_def versions_fact_def facts_append)

lemma zero_fee_Inr:
  "zero_fee payment incomplete label = Inr u \<longleftrightarrow>
     (\<exists>d v. payment = CMap d \<and> map_of d ''partial_fee'' = Some v \<and> reads_integer v 0)"
  by (auto simp: zero_fee_def case_option_res_iffs res_iffs bind_eq_Some_conv authorization_integer_Inr
      AUTHORIZED_MAX_FEE_RAO_def)

text \<open>
  An SDK that leaves the \<open>call_args\<close> dictionary it receives as it is (the call is encoded
  from it, never written back).
\<close>

definition keeps_arguments :: "'x chain_host \<Rightarrow> bool" where
  "keeps_arguments H \<longleftrightarrow>
     (\<forall>args head x r x'. ho_compose H args head x = (Inr r, x') \<longrightarrow> r = args) \<and>
     (\<forall>n era args x p e r x'. ho_estimate H n era args x = (Inr (p, e, r), x') \<longrightarrow> r = args) \<and>
     (\<forall>n era args x r x'. ho_sign H n era args x = (Inr r, x') \<longrightarrow> r = args)"

lemma keeps_argumentsD:
  "keeps_arguments H \<Longrightarrow> ho_compose H args head x = (Inr r, x') \<Longrightarrow> r = args"
  "keeps_arguments H \<Longrightarrow> ho_estimate H n era args x = (Inr (p, e, r), x') \<Longrightarrow> r = args"
  "keeps_arguments H \<Longrightarrow> ho_sign H n era args x = (Inr r, x') \<Longrightarrow> r = args"
  unfolding keeps_arguments_def by blast+

lemma adds_estimate:
  "adds (estimate_fee H nonce era args) (\<lambda>h t es. es = [Estimated nonce era (Inr (fst t))] \<and>
     (keeps_arguments H \<longrightarrow> snd (snd t) = args))"
  by (auto simp: adds_def estimate_fee_def host_call_def same_backend_def dest: keeps_argumentsD(2)
      split: prod.splits)

lemma adds_refresh_estimate:
  "adds (refresh_estimate H nonce era args unproven incomplete label)
     (\<lambda>h t es. fee_fact nonce era es \<and> (keeps_arguments H \<longrightarrow> snd t = args))"
  unfolding refresh_estimate_def
  by (rule adds_weaken, rule adds_bind, rule adds_catch, rule adds_estimate, rule adds_pure(2),
      rule adds_case_prod, rule adds_case_prod, rule adds_bind, rule adds_pure(3), rule adds_pure(1))
    (auto simp: fee_fact_def zero_fee_Inr)

definition inspected_fact :: "int \<Rightarrow> chain_map \<Rightarrow> chain_value \<Rightarrow> chain_event list \<Rightarrow> bool" where
  "inspected_fact nonce era args es \<longleftrightarrow>
     (\<exists>v key. Queried QExtrinsicValue (Inr v) \<in> set es \<and> Queried QPublicKey (Inr key) \<in> set es \<and>
        authorised_extrinsic v (''0x'' @ chain_str key) args nonce era)"

lemma adds_inspect:
  "adds (inspect_signed_extrinsic H args nonce era)
     (\<lambda>h hash es. inspected_fact nonce era args es \<and> matches chain_hash_rx hash)"
  unfolding inspect_signed_extrinsic_def Let_def
  by (rule adds_weaken, rule adds_bind, rule adds_query, rule adds_bind, rule adds_pure(3),
      rule adds_bind, rule adds_catch, rule adds_query, rule adds_pure(2), rule adds_bind,
      rule adds_pure(3), rule adds_bind, rule adds_query, rule adds_bind, rule adds_pure(4),
      rule adds_bind, rule adds_catch, rule adds_query, rule adds_pure(2), rule adds_bind,
      rule adds_pure(4), rule adds_pure(1))
    (auto simp: inspected_fact_def dest: check_signed_fields_Inr)

lemma adds_composed:
  "adds (composed_as_expected H args)
     (\<lambda>h b es. b \<longleftrightarrow> (\<exists>v. es = [Queried QCallValue (Inr v)] \<and> chain_eq v (CMap (call_with args))))"
  unfolding composed_as_expected_def
  by (rule adds_weaken, rule adds_bind, rule adds_query, rule adds_pure(1)) auto

text \<open>What the preparation proves: call, deposit, nonce, fee and era.\<close>

definition prepared_fact ::
    "controller_config \<Rightarrow> string \<Rightarrow> string \<Rightarrow> int \<Rightarrow> chain_map \<Rightarrow> chain_event list \<Rightarrow> bool" where
  "prepared_fact c h payload nonce era es \<longleftrightarrow>
     policy_fact c h \<and> list_all (\<lambda>ch. code ch < 128) payload \<and> 1 \<le> length payload \<and> length payload \<le> 128 \<and>
     (\<exists>head. Composed (commitment_args payload) head \<in> set es \<and>
        (\<exists>v w. Queried (QConstant ''InitialDeposit'' head) (Inr v) \<in> set es \<and> reads_integer v 0 \<and>
           Queried (QConstant ''FieldDeposit'' head) (Inr w) \<in> set es \<and> reads_integer w 0)) \<and>
     nonce_fact h nonce es \<and> fee_fact nonce [(''period'', CInt 128)] es \<and>
     set (map fst era) = {''period'', ''current''} \<and> reads_integer (cget era ''period'') 128"

lemma adds_compose:
  "adds (compose_commitment H encoded)
     (\<lambda>h t es. Composed (commitment_args encoded) (fst t) \<in> set es \<and>
        (keeps_arguments H \<longrightarrow> snd t = commitment_args encoded))"
proof -
  have call: "adds (host_call (\<lambda>r. Composed a head) (ho_compose H a head))
      (\<lambda>h args es. es = [Composed a head] \<and> (keeps_arguments H \<longrightarrow> args = a))" for a head
    by (auto simp: adds_def host_call_def same_backend_def dest: keeps_argumentsD(1) split: prod.splits)
  show ?thesis
    unfolding compose_commitment_def
    by (rule adds_weaken, rule adds_refusing, rule adds_bind, rule adds_chain_head, rule adds_bind,
        rule call, rule adds_pure(1)) auto
qed

lemma zero_sum: "reads_integer v i \<Longrightarrow> reads_integer w j \<Longrightarrow> i + j = 0 \<Longrightarrow> i = 0 \<and> j = 0"
  using reads_integer_nonneg [of v i] reads_integer_nonneg [of w j] by auto

lemma adds_deposit:
  "adds (required_deposit H head)
     (\<lambda>h n es. n = 0 \<longrightarrow> (\<exists>v w. Queried (QConstant ''InitialDeposit'' head) (Inr v) \<in> set es \<and>
        reads_integer v 0 \<and> Queried (QConstant ''FieldDeposit'' head) (Inr w) \<in> set es \<and> reads_integer w 0))"
  unfolding required_deposit_def
  by (rule adds_weaken, rule adds_refusing, rule adds_bind, rule adds_query, rule adds_bind,
      rule adds_pure(3), rule adds_bind, rule adds_query, rule adds_bind, rule adds_pure(3), rule adds_pure(1))
    (auto simp: authorization_integer_Inr, (metis zero_sum)+)

lemma adds_first_estimate:
  "adds (first_estimate H address args)
     (\<lambda>h t es. case t of (nonce, payment, era, args') \<Rightarrow> nonce_fact address nonce es \<and>
        Estimated nonce [(''period'', CInt 128)] (Inr payment) \<in> set es \<and>
        (keeps_arguments H \<longrightarrow> args' = args))"
  unfolding first_estimate_def AUTHORIZED_PERIOD_BLOCKS_def
  by (rule adds_weaken, rule adds_refusing, rule adds_bind, rule adds_read_nonce, rule adds_bind,
      rule adds_estimate, rule adds_case_prod, rule adds_case_prod, rule adds_pure(1))
    (auto simp: facts_Cons)

lemma check_mortal_era_Inr:
  "check_mortal_era era = Inr u \<Longrightarrow>
     set (map fst era) = {''period'', ''current''} \<and> reads_integer (cget era ''period'') 128"
  by (auto simp: check_mortal_era_def res_iffs authorization_integer_Inr)

lemma adds_signer:
  "adds (if signer = CNone then ret False
         else pbind backend_hotkey (\<lambda>hotkey.
           ret (chain_str signer = hotkey \<and> hotkey = AUTHORIZED_HOTKEY_SS58)))
     (\<lambda>h b es. es = [] \<and> (b \<longrightarrow> chain_str signer = h))"
  by (rule adds_if, (rule adds_weaken, rule adds_pure(1), simp)[1],
      (rule adds_weaken, rule adds_bind, rule adds_pure(6), rule adds_pure(1), auto)[1])

lemma adds_prepare:
  "adds (prepare_commitment H c payload)
     (\<lambda>h t es. case t of (address, nonce, era, args) \<Rightarrow>
        address = h \<and> prepared_fact c h payload nonce era es \<and>
        (keeps_arguments H \<longrightarrow> args = commitment_args payload))"
  unfolding prepare_commitment_def
  apply (rule adds_weaken, rule adds_bind, rule adds_policy, rule adds_bind, rule adds_pure(5),
      rule adds_bind, rule adds_pure(4), rule adds_bind, rule adds_authorized_registration,
      rule adds_bind, rule adds_pure(3), rule adds_bind, rule adds_query, rule adds_bind,
      rule adds_pure(4), rule adds_bind, rule adds_query, rule adds_bind, rule adds_signer,
      rule adds_bind, rule adds_pure(4), rule adds_bind, rule adds_compose, rule adds_case_prod,
      rule adds_bind, rule adds_composed, rule adds_bind, rule adds_pure(4), rule adds_bind,
      rule adds_deposit, rule adds_bind, rule adds_pure(4), rule adds_bind, rule adds_first_estimate,
      rule adds_case_prod, rule adds_case_prod, rule adds_case_prod,
      rule adds_bind, rule adds_pure(3), rule adds_bind, rule adds_pure(3), rule adds_bind,
      rule adds_composed, rule adds_bind, rule adds_pure(4), rule adds_pure(1))
  apply (clarsimp simp: ascii_payload_def res_iffs AUTHORIZED_MAX_DEPOSIT_RAO_def zero_fee_Inr
      dest!: check_mortal_era_Inr)
  apply (simp add: prepared_fact_def)
  apply (intro conjI)
    apply blast
   apply (simp add: facts_Cons facts_append)
  apply (auto simp: fee_fact_def)
  done

section \<open>Signing and broadcasting\<close>

text \<open>What one refresh and one fee estimate leave behind.\<close>

definition refreshed_fact ::
    "controller_config \<Rightarrow> string \<Rightarrow> int \<Rightarrow> chain_map \<Rightarrow> chain_event list \<Rightarrow> bool" where
  "refreshed_fact c h nonce era es \<longleftrightarrow> authorization_fact c h nonce es \<and> fee_fact nonce era es"

text \<open>
  When an event may follow the earlier ones: a signature only after the preparation and one
  refresh, as the first signature; a broadcast only after the signature, another refresh and
  the inspection of the signed extrinsic, as the first broadcast.
\<close>

definition signature_allowed ::
    "controller_config \<Rightarrow> string \<Rightarrow> string \<Rightarrow> int \<Rightarrow> chain_map \<Rightarrow> chain_event list \<Rightarrow> bool" where
  "signature_allowed c h payload nonce era earlier \<longleftrightarrow>
     list_all passive_event earlier \<and>
     (\<exists>newer older. earlier = newer @ older \<and> prepared_fact c h payload nonce era older \<and>
        refreshed_fact c h nonce era newer)"

definition broadcast_allowed ::
    "'x chain_host \<Rightarrow> controller_config \<Rightarrow> string \<Rightarrow> string \<Rightarrow> chain_event list \<Rightarrow> bool" where
  "broadcast_allowed H c h payload earlier \<longleftrightarrow>
     (\<exists>newer nonce era before args. earlier = newer @ Signed nonce era True # before \<and>
        list_all passive_event newer \<and> signature_allowed c h payload nonce era before \<and>
        refreshed_fact c h nonce era newer \<and> inspected_fact nonce era args newer \<and>
        (keeps_arguments H \<longrightarrow> args = commitment_args payload))"

definition chain_allowed ::
    "'x chain_host \<Rightarrow> controller_config \<Rightarrow> string \<Rightarrow> string \<Rightarrow> chain_event \<Rightarrow> chain_event list \<Rightarrow> bool" where
  "chain_allowed H c h payload ev earlier \<longleftrightarrow>
     (case ev of
        Signed nonce era ok \<Rightarrow> signature_allowed c h payload nonce era earlier
      | Submitted ok \<Rightarrow> broadcast_allowed H c h payload earlier
      | _ \<Rightarrow> True)"

fun is_broadcast :: "chain_event \<Rightarrow> bool" where
  "is_broadcast (Submitted ok) = True"
| "is_broadcast ev = False"

lemma passive_allowed: "passive_event ev \<Longrightarrow> chain_allowed H c h payload ev earlier"
  by (cases ev) (simp_all add: chain_allowed_def)

lemma passive_no_broadcast: "list_all passive_event es \<Longrightarrow> \<not> list_ex is_broadcast es"
proof (induction es)
  case (Cons e es)
  then show ?case by (cases e) auto
qed simp

lemma guarded_passive:
  "list_all passive_event es \<Longrightarrow>
     guarded_log (chain_allowed H c h payload) (es @ l) \<longleftrightarrow> guarded_log (chain_allowed H c h payload) l"
  by (rule guarded_log_append) (auto simp: list_all_iff passive_allowed)

lemma guarded_passive_all: "list_all passive_event es \<Longrightarrow> guarded_log (chain_allowed H c h payload) es"
  using guarded_passive [of es H c h payload "[]"] by simp

text \<open>
  The triples of the transaction path: a program that raises leaves an allowed log, and after
  a broadcast it raises nothing but an authorization refusal.
\<close>

definition failed_safely ::
    "'x chain_host \<Rightarrow> controller_config \<Rightarrow> string \<Rightarrow> string \<Rightarrow> exc \<Rightarrow> chain_event list \<Rightarrow> bool" where
  "failed_safely H c h payload e l \<longleftrightarrow>
     guarded_log (chain_allowed H c h payload) l \<and>
     (\<not> list_ex is_broadcast l \<or> exc_cls e = AuthorizationRefused)"

definition chain_triple ::
    "'x chain_host \<Rightarrow> controller_config \<Rightarrow> string \<Rightarrow> string \<Rightarrow> (chain_event list \<Rightarrow> bool) \<Rightarrow>
     ('y backend_state, 'a) prog \<Rightarrow> ('a \<Rightarrow> chain_event list \<Rightarrow> bool) \<Rightarrow> bool" where
  "chain_triple H c h payload P m Q \<longleftrightarrow>
     (\<forall>base. triple (\<lambda>s. be_hotkey s = h \<and> (\<exists>l. be_log s = l @ base \<and> P l)) m
        (\<lambda>x s. be_hotkey s = h \<and> (\<exists>l. be_log s = l @ base \<and> Q x l))
        (\<lambda>e s. \<exists>l. be_log s = l @ base \<and> failed_safely H c h payload e l))"

lemma chain_tripleI:
  assumes "\<And>s x s' l base. be_hotkey s = h \<Longrightarrow> be_log s = l @ base \<Longrightarrow> P l \<Longrightarrow> m s = (Inr x, s') \<Longrightarrow>
      be_hotkey s' = h \<and> (\<exists>l'. be_log s' = l' @ base \<and> Q x l')"
    and "\<And>s e s' l base. be_hotkey s = h \<Longrightarrow> be_log s = l @ base \<Longrightarrow> P l \<Longrightarrow> m s = (Inl e, s') \<Longrightarrow>
      \<exists>l'. be_log s' = l' @ base \<and> failed_safely H c h payload e l'"
  shows "chain_triple H c h payload P m Q"
  unfolding chain_triple_def
proof
  fix base
  show "triple (\<lambda>s. be_hotkey s = h \<and> (\<exists>l. be_log s = l @ base \<and> P l)) m
      (\<lambda>x s. be_hotkey s = h \<and> (\<exists>l. be_log s = l @ base \<and> Q x l))
      (\<lambda>e s. \<exists>l. be_log s = l @ base \<and> failed_safely H c h payload e l)"
    by (rule tripleI) (use assms in fast)+
qed

lemma chain_tripleD:
  assumes "chain_triple H c h payload P m Q" and "be_hotkey s = h" and "be_log s = l @ base" and "P l"
  shows "m s = (Inr x, s') \<Longrightarrow> \<exists>l'. be_log s' = l' @ base \<and> Q x l'"
    and "m s = (Inl e, s') \<Longrightarrow> \<exists>l'. be_log s' = l' @ base \<and> failed_safely H c h payload e l'"
proof -
  from assms have t: "triple (\<lambda>s. be_hotkey s = h \<and> (\<exists>l. be_log s = l @ base \<and> P l)) m
      (\<lambda>x s. be_hotkey s = h \<and> (\<exists>l. be_log s = l @ base \<and> Q x l))
      (\<lambda>e s. \<exists>l. be_log s = l @ base \<and> failed_safely H c h payload e l)"
    unfolding chain_triple_def by blast
  have s: "be_hotkey s = h \<and> (\<exists>l. be_log s = l @ base \<and> P l)" using assms(2-4) by blast
  show "\<exists>l'. be_log s' = l' @ base \<and> Q x l'" if "m s = (Inr x, s')"
    using tripleD(1) [where w = s, OF t s that] by blast
  show "\<exists>l'. be_log s' = l' @ base \<and> failed_safely H c h payload e l'" if "m s = (Inl e, s')"
    using tripleD(2) [where w = s, OF t s that] by blast
qed

lemma chain_triple_bind:
  "chain_triple H c h payload P m M \<Longrightarrow> (\<And>x. chain_triple H c h payload (M x) (k x) Q) \<Longrightarrow>
     chain_triple H c h payload P (pbind m k) Q"
  unfolding chain_triple_def by (intro allI, rule triple_pbind) (erule spec, drule meta_spec, erule spec)

lemma chain_triple_conseq:
  assumes "chain_triple H c h payload P m Q" and "\<And>l. P' l \<Longrightarrow> P l" and "\<And>x l. Q x l \<Longrightarrow> Q' x l"
  shows "chain_triple H c h payload P' m Q'"
  unfolding chain_triple_def
proof
  fix base
  from assms(1) have "triple (\<lambda>s. be_hotkey s = h \<and> (\<exists>l. be_log s = l @ base \<and> P l)) m
      (\<lambda>x s. be_hotkey s = h \<and> (\<exists>l. be_log s = l @ base \<and> Q x l))
      (\<lambda>e s. \<exists>l. be_log s = l @ base \<and> failed_safely H c h payload e l)"
    unfolding chain_triple_def by blast
  then show "triple (\<lambda>s. be_hotkey s = h \<and> (\<exists>l. be_log s = l @ base \<and> P' l)) m
      (\<lambda>x s. be_hotkey s = h \<and> (\<exists>l. be_log s = l @ base \<and> Q' x l))
      (\<lambda>e s. \<exists>l. be_log s = l @ base \<and> failed_safely H c h payload e l)"
    by (rule triple_conseq) (use assms(2,3) in blast)+
qed

text \<open>A passive program, from a log that is allowed and has no broadcast.\<close>

lemma chain_triple_adds:
  assumes m: "adds m Q"
    and P: "\<And>l. P l \<Longrightarrow> guarded_log (chain_allowed H c h payload) l \<and> \<not> list_ex is_broadcast l"
  shows "chain_triple H c h payload P m
    (\<lambda>x l. \<exists>es older. l = es @ older \<and> P older \<and> list_all passive_event es \<and> Q h x es)"
proof (rule chain_tripleI)
  fix s x s' l base
  assume s: "be_hotkey s = h" "be_log s = l @ base" "P l" and run: "m s = (Inr x, s')"
  from m run obtain es where "be_log s' = es @ be_log s" "list_all passive_event es" "same_backend s s'"
    "\<And>y. Inr x = Inr y \<Longrightarrow> Q (be_hotkey s) y es"
    by (rule addsD) blast
  with s show "be_hotkey s' = h \<and> (\<exists>l'. be_log s' = l' @ base \<and> (\<exists>es older. l' = es @ older \<and> P older \<and>
      list_all passive_event es \<and> Q h x es))"
    by (auto simp: same_backend_def)
next
  fix s e s' l base
  assume s: "be_hotkey s = h" "be_log s = l @ base" "P l" and run: "m s = (Inl e, s')"
  from m run obtain es where "be_log s' = es @ be_log s" "list_all passive_event es"
    by (rule addsD) blast
  with s P [of l] show "\<exists>l'. be_log s' = l' @ base \<and> failed_safely H c h payload e l'"
    by (auto simp: failed_safely_def guarded_passive dest: passive_no_broadcast)
qed

lemma chain_triple_signed:
  assumes P: "\<And>l. P l \<Longrightarrow> signature_allowed c h payload nonce era l"
  shows "chain_triple H c h payload P
    (catch (host_call (\<lambda>r. Signed nonce era (\<not> isl r)) (ho_sign H nonce era args)) (\<lambda>e. throw (auth_refused (t e))))
    (\<lambda>args' l. \<exists>before. l = Signed nonce era True # before \<and> P before \<and>
       (keeps_arguments H \<longrightarrow> args' = args))"
proof -
  have "guarded_log (chain_allowed H c h payload) l \<and> \<not> list_ex is_broadcast l" if "P l" for l
    using P [OF that] by (simp add: signature_allowed_def guarded_passive_all passive_no_broadcast)
  with P show ?thesis
    by (intro chain_tripleI)
      (auto simp: catch_def host_call_def failed_safely_def chain_allowed_def
        dest: keeps_argumentsD(3) split: prod.splits sum.splits)
qed

lemma isinstance_refused: "isinstance e AuthorizationRefused \<longleftrightarrow> exc_cls e = AuthorizationRefused"
  by (cases e; cases "exc_cls e") auto

lemma broadcast_log:
  "broadcast_extrinsic H hash s = (r, s') \<Longrightarrow>
     \<exists>ok. be_log s' = Submitted ok # be_log s \<and> be_hotkey s' = be_hotkey s \<and> (r = Inr () \<longrightarrow> ok) \<and>
       (\<forall>e. r = Inl e \<longrightarrow> exc_cls e = AuthorizationRefused)"
  by (auto simp: isinstance_refused broadcast_extrinsic_def pbind_def catch_def guard_def host_call_def
      split: prod.splits sum.splits if_splits)

text \<open>The log between preparation and signature, and between signature and broadcast.\<close>

definition after_prepare ::
    "controller_config \<Rightarrow> string \<Rightarrow> string \<Rightarrow> int \<Rightarrow> chain_map \<Rightarrow> chain_event list \<Rightarrow> bool" where
  "after_prepare c h payload nonce era l \<longleftrightarrow>
     list_all passive_event l \<and> prepared_fact c h payload nonce era l"

definition after_signature ::
    "controller_config \<Rightarrow> string \<Rightarrow> string \<Rightarrow> int \<Rightarrow> chain_map \<Rightarrow>
     (chain_event list \<Rightarrow> bool) \<Rightarrow> chain_event list \<Rightarrow> bool" where
  "after_signature c h payload nonce era F l \<longleftrightarrow>
     (\<exists>newer before. l = newer @ Signed nonce era True # before \<and> list_all passive_event newer \<and>
        signature_allowed c h payload nonce era before \<and> F newer)"

lemma after_signature_Cons:
  "signature_allowed c h payload nonce era before \<Longrightarrow>
     after_signature c h payload nonce era (\<lambda>_. True) (Signed nonce era True # before)"
  unfolding after_signature_def by (rule exI [of _ "[]"], rule exI [of _ before]) simp

lemma after_prepare_safe:
  "after_prepare c h payload nonce era l \<Longrightarrow>
     guarded_log (chain_allowed H c h payload) l \<and> \<not> list_ex is_broadcast l"
  by (simp add: after_prepare_def guarded_passive_all passive_no_broadcast)

lemma after_signature_safe:
  assumes "after_signature c h payload nonce era F l"
  shows "guarded_log (chain_allowed H c h payload) l \<and> \<not> list_ex is_broadcast l"
proof -
  from assms obtain newer before where l: "l = newer @ Signed nonce era True # before"
    and none: "list_all passive_event newer"
    and allowed: "signature_allowed c h payload nonce era before"
    unfolding after_signature_def by blast
  then have "list_all passive_event before" by (simp add: signature_allowed_def)
  then have "guarded_log (chain_allowed H c h payload) before" "\<not> list_ex is_broadcast before"
    by (simp_all add: guarded_passive_all passive_no_broadcast)
  then show ?thesis
    using l none passive_no_broadcast [OF none] allowed
    by (simp add: guarded_passive chain_allowed_def)
qed

text \<open>The checks before the signature, and the checks before the broadcast.\<close>

lemma adds_checks:
  "adds (pseq (refresh_authorization H c address nonce l1 l2 l3) (refresh_estimate H nonce era args l4 l5 l6))
     (\<lambda>h t es. (address = h \<longrightarrow> refreshed_fact c h nonce era es) \<and> (keeps_arguments H \<longrightarrow> snd t = args))"
  by (rule adds_weaken, rule adds_bind, rule adds_refresh_authorization, rule adds_refresh_estimate)
    (auto simp: refreshed_fact_def authorization_fact_def facts_append)

definition sign_checks ::
    "'x chain_host \<Rightarrow> controller_config \<Rightarrow> string \<Rightarrow> int \<Rightarrow> chain_map \<Rightarrow> chain_value \<Rightarrow>
     ('x backend_state, chain_value) prog" where
  "sign_checks H c address nonce era args =
     pbind (pseq (refresh_authorization H c address nonce ''pre-sign hotkey account nonce''
             ''hotkey nonce could not be refreshed before signing: ''
             ''hotkey nonce changed after the fee estimate'')
       (refresh_estimate H nonce era args
             ''transaction fee could not be refreshed before signing: ''
             ''refreshed transaction fee response was incomplete'' ''refreshed transaction fee'')) (\<lambda>t.
     pseq (guard (chain_eq (CMap (fst t)) (CMap era))
            (auth_refused ''refreshed fee estimate changed the signed mortal era'')) (ret (snd t)))"

definition submit_checks ::
    "'x chain_host \<Rightarrow> controller_config \<Rightarrow> string \<Rightarrow> int \<Rightarrow> chain_map \<Rightarrow> chain_value \<Rightarrow>
     ('x backend_state, string) prog" where
  "submit_checks H c address nonce era args =
     pbind (pseq (refresh_authorization H c address nonce ''pre-submit hotkey account nonce''
             ''hotkey nonce could not be refreshed before submission: ''
             ''hotkey nonce changed after signing'')
       (refresh_estimate H nonce era args
              ''transaction fee could not be proven immediately before submit: ''
              ''final transaction fee response was incomplete'' ''final transaction fee'')) (\<lambda>t.
     pbind (if \<not> chain_eq (CMap (fst t)) (CMap era) then ret False else composed_as_expected H (snd t)) (\<lambda>unchanged.
     pseq (guard unchanged (auth_refused ''final fee estimate changed the signed transaction envelope''))
     (inspect_signed_extrinsic H (snd t) nonce era)))"

lemma sign_commitment_split:
  "sign_commitment H c address nonce era args =
     pbind (sign_checks H c address nonce era args) (\<lambda>args'.
     pbind (catch (host_call (\<lambda>r. Signed nonce era (\<not> isl r)) (ho_sign H nonce era args'))
             (\<lambda>e. throw (auth_refused (''signed commitment could not be created; no submission attempted: ''
                     @ exc_text e)))) (\<lambda>signed_args.
     pbind (inspect_signed_extrinsic H signed_args nonce era) (\<lambda>extrinsic_hash.
     ret (extrinsic_hash, signed_args))))"
  by (simp add: sign_commitment_def sign_checks_def pbind_assoc case_prod_unfold)

lemma submit_signed_split:
  "submit_signed H c address nonce era args extrinsic_hash =
     pseq (submit_checks H c address nonce era args) (broadcast_extrinsic H extrinsic_hash)"
  by (simp add: submit_signed_def submit_checks_def pbind_assoc case_prod_unfold)

lemma adds_sign_checks:
  "adds (sign_checks H c address nonce era args)
     (\<lambda>h a es. (address = h \<longrightarrow> refreshed_fact c h nonce era es) \<and> (keeps_arguments H \<longrightarrow> a = args))"
  unfolding sign_checks_def
  by (rule adds_weaken, rule adds_bind, rule adds_checks, rule adds_bind, rule adds_pure(4), rule adds_pure(1))
    auto

lemma refreshed_append: "refreshed_fact c h nonce era es \<Longrightarrow> refreshed_fact c h nonce era (fs @ es)"
  by (simp add: refreshed_fact_def authorization_fact_def facts_append)

lemma inspected_append:
  "inspected_fact nonce era args es \<or> inspected_fact nonce era args fs \<Longrightarrow>
     inspected_fact nonce era args (fs @ es)"
  by (auto simp: inspected_fact_def)

lemma adds_submit_checks:
  "adds (submit_checks H c address nonce era args)
     (\<lambda>h hash es. address = h \<longrightarrow> refreshed_fact c h nonce era es \<and>
        (\<exists>a. inspected_fact nonce era a es \<and> (keeps_arguments H \<longrightarrow> a = args)))"
  unfolding submit_checks_def
  by (rule adds_weaken, rule adds_bind, rule adds_checks, rule adds_bind, rule adds_if,
      (rule adds_weaken, rule adds_pure(1), rule TrueI)[1],
      (rule adds_weaken, rule adds_composed, rule TrueI)[1],
      rule adds_bind, rule adds_pure(4), rule adds_inspect)
    (auto intro!: refreshed_append inspected_append)

text \<open>The three phases.\<close>

lemma prepare_triple:
  "chain_triple H c h payload (\<lambda>l. l = []) (prepare_commitment H c payload)
     (\<lambda>t l. case t of (address, nonce, era, args) \<Rightarrow> address = h \<and>
        after_prepare c h payload nonce era l \<and> (keeps_arguments H \<longrightarrow> args = commitment_args payload))"
  by (rule chain_triple_conseq [OF chain_triple_adds [OF adds_prepare, where P = "\<lambda>l. l = []"]])
    (auto simp: after_prepare_def)

lemma sign_triple:
  "chain_triple H c h payload (after_prepare c h payload nonce era) (sign_commitment H c h nonce era args)
     (\<lambda>t l. after_signature c h payload nonce era (\<lambda>_. True) l \<and> (keeps_arguments H \<longrightarrow> snd t = args))"
proof -
  let ?signed = "\<lambda>a l. after_signature c h payload nonce era (\<lambda>_. True) l \<and> (keeps_arguments H \<longrightarrow> a = args)"
  let ?checked = "\<lambda>a l. signature_allowed c h payload nonce era l \<and> (keeps_arguments H \<longrightarrow> a = args)"
  have checks: "chain_triple H c h payload (after_prepare c h payload nonce era)
      (sign_checks H c h nonce era args) ?checked"
    by (rule chain_triple_conseq [OF chain_triple_adds [OF adds_sign_checks after_prepare_safe,
          where P = "after_prepare c h payload nonce era"]])
      (auto simp: after_prepare_def signature_allowed_def)
  have sign: "chain_triple H c h payload (?checked args')
      (catch (host_call (\<lambda>r. Signed nonce era (\<not> isl r)) (ho_sign H nonce era args')) (\<lambda>e. throw (auth_refused (t e))))
      ?signed" for args' t
    by (rule chain_triple_conseq [OF chain_triple_signed [where P = "?checked args'"]])
      (auto intro!: after_signature_Cons)
  have inspect: "chain_triple H c h payload (?signed a)
      (pbind (inspect_signed_extrinsic H a nonce era) (\<lambda>x. ret (x, a))) (\<lambda>t. ?signed (snd t))" for a
  proof (rule chain_triple_conseq [OF chain_triple_adds [OF adds_bind [OF adds_inspect adds_pure(1)],
        where P = "?signed a"]])
    show "guarded_log (chain_allowed H c h payload) l \<and> \<not> list_ex is_broadcast l" if "?signed a l" for l
      using that by (blast dest: after_signature_safe)
    show "?signed (snd t) l" if "\<exists>es older. l = es @ older \<and> ?signed a older \<and>
        list_all passive_event es \<and> (\<exists>x es1 es2. es = es2 @ es1 \<and>
          (inspected_fact nonce era a es1 \<and> matches chain_hash_rx x) \<and> t = (x, a) \<and> es2 = [])" for t l
      using that unfolding after_signature_def by (force simp: append_assoc [symmetric] simp del: append_assoc)
  qed assumption
  show ?thesis
    unfolding sign_commitment_split
    by (intro chain_triple_bind [OF checks] chain_triple_bind [OF sign] inspect)
qed

lemma submit_triple:
  "chain_triple H c h payload
     (\<lambda>l. after_signature c h payload nonce era (\<lambda>_. True) l \<and> (keeps_arguments H \<longrightarrow> args = commitment_args payload))
     (submit_signed H c h nonce era args extrinsic_hash)
     (\<lambda>_ l. guarded_log (chain_allowed H c h payload) l \<and> (\<exists>earlier. l = Submitted True # earlier))"
proof -
  let ?P = "\<lambda>l. after_signature c h payload nonce era (\<lambda>_. True) l \<and>
      (keeps_arguments H \<longrightarrow> args = commitment_args payload)"
  let ?ready = "\<lambda>l. guarded_log (chain_allowed H c h payload) l \<and> broadcast_allowed H c h payload l"
  have checks: "chain_triple H c h payload ?P (submit_checks H c h nonce era args) (\<lambda>_. ?ready)"
  proof (rule chain_triple_conseq [OF chain_triple_adds [OF adds_submit_checks, where P = ?P]])
    show "guarded_log (chain_allowed H c h payload) l \<and> \<not> list_ex is_broadcast l" if "?P l" for l
      using that by (blast dest: after_signature_safe)
  next
    fix l
    assume "\<exists>es older. l = es @ older \<and> ?P older \<and> list_all passive_event es \<and>
      (h = h \<longrightarrow> refreshed_fact c h nonce era es \<and>
        (\<exists>a. inspected_fact nonce era a es \<and> (keeps_arguments H \<longrightarrow> a = args)))"
    then obtain es older a where l: "l = es @ older" "?P older" and es: "list_all passive_event es"
      "refreshed_fact c h nonce era es" "inspected_fact nonce era a es" "keeps_arguments H \<longrightarrow> a = args"
      by blast
    from l obtain newer earlier where older: "older = newer @ Signed nonce era True # earlier"
      "list_all passive_event newer" "signature_allowed c h payload nonce era earlier"
      unfolding after_signature_def by blast
    from l es have "guarded_log (chain_allowed H c h payload) l"
      using after_signature_safe [of c h payload nonce era "\<lambda>_. True" older H]
      by (simp add: guarded_passive)
    moreover have "broadcast_allowed H c h payload l"
      unfolding broadcast_allowed_def
      using l es older
      by (intro exI [of _ "es @ newer"] exI [of _ nonce] exI [of _ era] exI [of _ earlier] exI [of _ a])
        (auto simp: refreshed_fact_def authorization_fact_def facts_append inspected_fact_def)
    ultimately show "?ready l" ..
  qed assumption
  have broadcast: "chain_triple H c h payload ?ready (broadcast_extrinsic H extrinsic_hash)
      (\<lambda>_ l. guarded_log (chain_allowed H c h payload) l \<and> (\<exists>earlier. l = Submitted True # earlier))"
    by (rule chain_tripleI)
      (auto simp: failed_safely_def chain_allowed_def dest!: broadcast_log)
  show ?thesis
    unfolding submit_signed_split
    by (intro chain_triple_bind [OF checks] broadcast)
qed


lemma submission_triple:
  "chain_triple H c h payload (\<lambda>l. l = []) (submit_authorized_commitment H c payload)
     (\<lambda>_ l. guarded_log (chain_allowed H c h payload) l \<and> (\<exists>earlier. l = Submitted True # earlier))"
  unfolding submit_authorized_commitment_def
proof (intro chain_triple_bind [OF prepare_triple])
  fix t :: "string \<times> int \<times> chain_map \<times> chain_value"
  obtain address nonce era args where t: "t = (address, nonce, era, args)" by (cases t)
  let ?K = "address = h \<and> (keeps_arguments H \<longrightarrow> args = commitment_args payload)"
  have rest: "chain_triple H c h payload (after_prepare c h payload nonce era)
      (pbind (sign_commitment H c h nonce era args)
         (\<lambda>(extrinsic_hash, signed_args). submit_signed H c h nonce era signed_args extrinsic_hash))
      (\<lambda>_ l. guarded_log (chain_allowed H c h payload) l \<and> (\<exists>earlier. l = Submitted True # earlier))"
    if ?K
    using that
    by (intro chain_triple_bind [OF sign_triple])
      (auto simp: case_prod_unfold intro: chain_triple_conseq [OF submit_triple])
  show "chain_triple H c h payload
      (\<lambda>l. case t of (address, nonce, era, args) \<Rightarrow> address = h \<and>
         after_prepare c h payload nonce era l \<and> (keeps_arguments H \<longrightarrow> args = commitment_args payload))
      (case t of (address, nonce, era, args) \<Rightarrow>
         pbind (sign_commitment H c address nonce era args)
           (\<lambda>(extrinsic_hash, signed_args). submit_signed H c address nonce era signed_args extrinsic_hash))
      (\<lambda>_ l. guarded_log (chain_allowed H c h payload) l \<and> (\<exists>earlier. l = Submitted True # earlier))"
    using rest t by (cases ?K) (auto simp: chain_triple_def intro: triple_conseq)
qed

text \<open>A run of the transaction path, from any log.\<close>

lemma submission_log:
  assumes "submit_authorized_commitment H c payload s = (r, s')"
  shows "\<exists>es. be_log s' = es @ be_log s \<and> guarded_log (chain_allowed H c (be_hotkey s) payload) es \<and>
    (case r of
       Inr _ \<Rightarrow> (\<exists>earlier. es = Submitted True # earlier)
     | Inl e \<Rightarrow> (if list_ex is_broadcast es then exc_cls e = AuthorizationRefused else True))"
proof (cases r)
  case (Inl e)
  with assms chain_tripleD(2) [OF submission_triple [of H c "be_hotkey s" payload], where s = s and l = "[]"]
  show ?thesis by (auto simp: failed_safely_def)
next
  case (Inr u)
  with assms chain_tripleD(1) [OF submission_triple [of H c "be_hotkey s" payload], where s = s and l = "[]"]
  show ?thesis by fastforce
qed

text \<open>
  C9: Every signature and every broadcast is proven when it happens. Whatever the SDK and the
  observer status answer, a run of the transaction path on a payload adds events to the log,
  newest first, in which (1) a signature follows no earlier signature or broadcast of the run;
  it follows the preparation, which proved the static policy, an ASCII payload of 1 to 128
  bytes, zero deposits, a zero fee and a 128-block era, and then one complete refresh:
  observer status, pinned dependency versions, registration at UID 32 of netuid 92, the
  audited Finney runtime, an unchanged nonce and a zero fee; (2) a broadcast follows that
  one successful signature, and between the two lie another complete refresh and an inspection
  that found the authorised signer, nonce, era and call in the signed extrinsic (the call of
  this payload, when the SDK leaves the argument dictionary alone). So one run signs at most
  once and broadcasts at most once.
\<close>

theorem submission_guarded:
  assumes "submit_authorized_commitment H c payload s = (r, s')"
  shows "\<exists>es. be_log s' = es @ be_log s \<and> guarded_log (chain_allowed H c (be_hotkey s) payload) es"
  using submission_log [OF assms] by blast

text \<open>
  C10: What the caller learns of a broadcast. When the transaction path returns, its last event
  is a broadcast the node accepted. Once it has broadcast, it raises nothing but
  \<open>AuthorizationRefused\<close>, whatever the receipt says and whichever attribute of it cannot be
  read: no failure after a broadcast looks like one that may be retried.
\<close>

theorem broadcast_outcome:
  assumes "submit_authorized_commitment H c payload s = (r, s')"
  shows "\<exists>es. be_log s' = es @ be_log s \<and> (case r of
      Inr _ \<Rightarrow> (\<exists>earlier. es = Submitted True # earlier)
    | Inl e \<Rightarrow> (if list_ex is_broadcast es then exc_cls e = AuthorizationRefused else True))"
  using submission_log [OF assms] by blast

end
