(* ===== verification/BackendSafety.thy ===== *)
theory BackendSafety
  imports Backend ChainSafety ControllerFrames
begin

text \<open>
  The adapter under the controller: every operation but \<open>publish\<close> neither signs nor
  broadcasts, and \<open>publish\<close> does so only as the transaction path allows; the anchor check and
  the readback loop.
\<close>

section \<open>Operations that neither sign nor broadcast\<close>

text \<open>\<open>quiet\<close>: only passive events are added; \<open>steady\<close>: and the hot key stays.\<close>

definition quiet :: "'x backend_state \<Rightarrow> 'x backend_state \<Rightarrow> bool" where
  "quiet s s' \<longleftrightarrow> (\<exists>es. be_log s' = es @ be_log s \<and> list_all passive_event es)"

definition steady :: "'x backend_state \<Rightarrow> 'x backend_state \<Rightarrow> bool" where
  "steady s s' \<longleftrightarrow> quiet s s' \<and> be_hotkey s' = be_hotkey s"

lemma quiet_trans: "quiet u v \<Longrightarrow> quiet v w \<Longrightarrow> quiet u w"
  unfolding quiet_def by (elim exE conjE) (metis append.assoc list_all_append)

interpretation quiet: effect_relation quiet
  by unfold_locales (auto simp: quiet_def intro: quiet_trans)

interpretation steady: effect_relation steady
  by unfold_locales (auto simp: steady_def quiet_def [of u u for u] intro: quiet_trans)

lemma quiet_steady: "stays steady m \<Longrightarrow> stays quiet m"
  by (erule stays_mono) (simp add: steady_def)

lemma steady_adds: "adds m Q \<Longrightarrow> stays steady m"
  by (rule staysI) (auto simp: steady_def quiet_def same_backend_def elim!: addsD)

lemma steady_host [stays_intros]:
  "stays steady (ext_do f)" "stays steady (run_publisher p)"
  by (auto simp: stays_def steady_def quiet_def ext_do_def run_publisher_def split: prod.split)

lemma steady_chain [stays_intros]:
  "stays steady (query H q)" "stays steady (observer_gate H c cls)"
  "stays steady (verify_transaction_dependencies H)" "stays steady (assert_registered H c)"
  "stays steady (assert_live_transaction_policy H c)" "stays steady backend_hotkey"
  "stays steady (has_client e)"
  using adds_query adds_observer_gate adds_dependencies adds_registered adds_policy adds_pure
  by (blast intro: steady_adds)+

lemma steady_verify_status [stays_intros]: "stays steady (verify_observer_status H c)"
  by (auto simp: stays_def steady_def quiet_def verify_observer_status_def host_call_def split: prod.split)

lemma steady_parts [stays_intros]:
  "stays steady (build_miner_config S c source)" "stays steady (build_load_spec S c)"
  "stays steady (backend_close S)" "stays steady client_ready"
  by (auto simp: build_miner_config_def build_load_spec_def client_ready_def intro!: stays_intros)
    (auto simp: stays_def steady_def quiet_def backend_close_def split: prod.split)

lemma steady_native [stays_intros]: "stays steady (native_manifest S c k)"
  by (auto simp: native_manifest_def intro!: stays_intros)

lemma steady_seed [stays_intros]: "stays steady (verify_seed_hash S c w)"
  by (auto simp: verify_seed_hash_def intro!: stays_intros)

lemma steady_encode [stays_intros]:
  "stays steady (encode_commitment S c k native)" "stays steady (backend_validate_commitment S c k)"
  by (auto simp: encode_commitment_def backend_validate_commitment_def intro!: stays_intros)

lemma steady_upload [stays_intros]: "stays steady (upload_release S c k)" "stays steady (upload_github S c k)"
  by (auto simp: upload_release_def upload_github_def Let_def intro!: stays_intros)

lemma steady_remote [stays_intros]:
  "stays steady (inspect_remote S c k full commitment)"
  "stays steady m \<Longrightarrow> stays steady (with_temporary S m)"
  by (auto simp: inspect_remote_def with_temporary_def intro!: stays_intros)

lemma steady_readback [stays_intros]: "stays steady (readback S expected n)"
  by (induction n) (unfold readback.simps, (intro stays_intros; assumption)+)

lemma steady_operations:
  "stays steady (backend_block S)"
  "stays steady (backend_verify_round_anchor S c w)" "stays steady (backend_load_local S c)"
  "stays steady (backend_package S c i source)" "stays steady (backend_upload S c k)"
  "stays steady (backend_verify_source S c k full)" "stays steady (backend_verify_provenance S c k i)"
  "stays steady (backend_verify_on_chain S c k)"
  by (auto simp: backend_block_def backend_verify_round_anchor_def
      backend_load_local_def backend_package_def backend_upload_def backend_verify_source_def
      backend_verify_provenance_def backend_verify_on_chain_def Let_def intro!: stays_intros)

lemma quiet_set [stays_intros]: "(\<And>s. be_log (g s) = be_log s) \<Longrightarrow> stays quiet (set_backend g)"
  by (auto simp: stays_def quiet_def set_backend_def)

lemmas quiet_leaves = steady_host [THEN quiet_steady] steady_chain [THEN quiet_steady]
  steady_parts [THEN quiet_steady]

lemma quiet_connect [stays_intros]: "stays quiet (connect_wallet S)"
  by (auto simp: connect_wallet_def intro!: stays_intros quiet_leaves)

lemma quiet_preflight: "stays quiet (backend_preflight S c)"
  by (auto simp: backend_preflight_def intro!: stays_intros quiet_leaves)

section \<open>Publishing\<close>

text \<open>What \<open>publish\<close> checks before it enters the transaction path.\<close>

definition publish_checks ::
    "'x services \<Rightarrow> controller_config \<Rightarrow> packaged_artifact \<Rightarrow> ('x backend_state, string) prog" where
  "publish_checks S c k =
     pseq (assert_live_transaction_policy (sv_chain S) c) (
     pbind backend_hotkey (\<lambda>hotkey.
     pseq (guard (k_hotkey k = hotkey)
            (auth_refused ''packaged artifact is signed by a different hotkey'')) (
     pbind (catch (pbind (lift_res (source_for c (k_round_index k) hotkey)) (\<lambda>expected_source.
                   ret (expected_source, github_release_coordinates (k_source k))))
              (\<lambda>e. throw (auth_refused (''packaged artifact source could not be proven: '' @ exc_text e))))
       (\<lambda>(expected_source, coordinates).
     pseq (guard (k_source k = expected_source)
            (auth_refused ''packaged artifact source differs from the authorized round release'')) (
     pseq (guard (authorised_repository coordinates)
            (auth_refused ''packaged artifact is not in vandungtech/mt92'')) (
     pbind (backend_validate_commitment S c k) (\<lambda>payload.
     pseq (ext_do (assert_bound_artifact (sv_machine S) c k)) (ret payload))))))))"

lemma backend_publish_split:
  "backend_publish S c k =
     pbind (publish_checks S c k) (\<lambda>payload.
     pseq (submit_authorized_commitment (sv_chain S) c payload)
     (ret \<lparr>r_round_index = k_round_index k, r_payload = payload\<rparr>))"
  by (simp add: backend_publish_def publish_checks_def pbind_assoc case_prod_unfold)

lemma steady_publish_checks: "stays steady (publish_checks S c k)"
  by (auto simp: publish_checks_def intro!: stays_intros)

definition publishable :: "controller_config \<Rightarrow> packaged_artifact \<Rightarrow> string \<Rightarrow> bool" where
  "publishable c k h \<longleftrightarrow>
     k_hotkey k = h \<and> source_for c (k_round_index k) h = Inr (k_source k) \<and>
     authorised_repository (github_release_coordinates (k_source k))"

text \<open>
  \<open>own_commitment\<close>: the payload is the encoding of the package's own manifest, and the binding
  read after it names the package's artifact digest. \<open>steady\<close> ties both readings to the run.
\<close>

definition own_commitment ::
    "'x services \<Rightarrow> controller_config \<Rightarrow> packaged_artifact \<Rightarrow> 'x backend_state \<Rightarrow> string \<Rightarrow> bool" where
  "own_commitment S c k s payload \<longleftrightarrow>
     (\<exists>s1 s2 x. steady s s1 \<and> backend_validate_commitment S c k s1 = (Inr payload, s2) \<and>
        validate_competition_binding (sv_machine S) c (be_ext s2) = (Inr (k_artifact_digest k), x))"

lemma backend_hotkey_Inr: "backend_hotkey s = (Inr h, s') \<longleftrightarrow> h = be_hotkey s \<and> s' = s \<and> h \<noteq> []"
  by (auto simp: backend_hotkey_def)

lemma guard_Inr: "guard ok e s = (Inr u, s') \<longleftrightarrow> ok \<and> s' = s"
  by (auto simp: guard_def)

lemma catch_throw_Inr: "catch m (\<lambda>e. throw (t e)) s = (Inr x, s') \<longleftrightarrow> m s = (Inr x, s')"
  by (auto simp: catch_def split: prod.split sum.split)

lemma lift_res_Inr: "lift_res r s = (Inr x, s') \<longleftrightarrow> r = Inr x \<and> s' = s"
  by (auto simp: lift_res_def)

lemmas prog_Inr = backend_hotkey_Inr guard_Inr catch_throw_Inr lift_res_Inr

lemma assert_bound_artifact_Inr:
  "assert_bound_artifact M c k x = (Inr u, y) \<longleftrightarrow> validate_competition_binding M c x = (Inr (k_artifact_digest k), y)"
  by (auto simp: assert_bound_artifact_def pbind_def guard_def split: prod.splits sum.splits if_splits)

lemma publish_checks_Inr:
  assumes "publish_checks S c k s = (Inr payload, s1)"
  shows "publishable c k (be_hotkey s) \<and> own_commitment S c k s payload"
proof -
  obtain u s0 h sa e1 u1 sb t p sc e2 u2 sd e3 u3 se payload' sf u4 sg where
    policy: "assert_live_transaction_policy (sv_chain S) c s = (Inr u, s0)"
    and checks: "backend_hotkey s0 = (Inr h, sa)" "guard (k_hotkey k = h) e1 sa = (Inr u1, sb)"
      "catch (pbind (lift_res (source_for c (k_round_index k) h)) (\<lambda>expected_source.
         ret (expected_source, github_release_coordinates (k_source k)))) (\<lambda>e. throw (t e)) sb = (Inr p, sc)"
      "guard (k_source k = fst p) e2 sc = (Inr u2, sd)"
      "guard (authorised_repository (snd p)) e3 sd = (Inr u3, se)"
    and commitment: "backend_validate_commitment S c k se = (Inr payload', sf)"
      "ext_do (assert_bound_artifact (sv_machine S) c k) sf = (Inr u4, sg)"
      "ret payload' sg = (Inr payload, s1)"
    using assms unfolding publish_checks_def case_prod_unfold
    by (elim pbind_InrD) (rule that; assumption)
  from checks have facts: "k_hotkey k = be_hotkey s0" "k_source k = fst p" "authorised_repository (snd p)"
    "pbind (lift_res (source_for c (k_round_index k) (be_hotkey s0))) (\<lambda>expected_source.
       ret (expected_source, github_release_coordinates (k_source k))) sb = (Inr p, sc)" and "sb = s0"
    by (simp_all add: prog_Inr)
  moreover from facts(4) have "source_for c (k_round_index k) (be_hotkey s0) = Inr (fst p)"
    "snd p = github_release_coordinates (k_source k)" "sc = sb"
    by (auto elim!: pbind_InrD simp: prog_Inr)
  moreover have "steady s s0" using staysD [OF steady_chain(5) policy] .
  moreover from this have "be_hotkey s0 = be_hotkey s" by (simp add: steady_def)
  moreover from checks \<open>sc = sb\<close> \<open>sb = s0\<close> have "se = s0" by (simp add: prog_Inr)
  moreover from commitment(2) obtain x where
    "validate_competition_binding (sv_machine S) c (be_ext sf) = (Inr (k_artifact_digest k), x)"
    by (auto simp: ext_do_def assert_bound_artifact_Inr split: prod.splits)
  moreover from commitment(3) have "payload' = payload" by simp
  ultimately show ?thesis using commitment(1) unfolding publishable_def own_commitment_def by auto
qed

lemma publish_log:
  assumes run: "backend_publish S c k s = (r, s')"
  shows "\<exists>es ps payload. be_log s' = es @ ps @ be_log s \<and> list_all passive_event ps \<and>
    guarded_log (chain_allowed (sv_chain S) c (be_hotkey s) payload) es \<and>
    (if es = [] then isl r else publishable c k (be_hotkey s) \<and> own_commitment S c k s payload) \<and>
    (case r of
       Inl e \<Rightarrow> True
     | Inr receipt \<Rightarrow> receipt = \<lparr>r_round_index = k_round_index k, r_payload = payload\<rparr> \<and>
         (\<exists>earlier. es = Submitted True # earlier))"
proof -
  obtain r1 s1 where checks: "publish_checks S c k s = (r1, s1)" by fastforce
  from staysD [OF steady_publish_checks checks] obtain ps where ps: "be_log s1 = ps @ be_log s"
    "list_all passive_event ps" and h: "be_hotkey s1 = be_hotkey s"
    by (auto simp: steady_def quiet_def)
  show ?thesis
  proof (cases r1)
    case (Inl e)
    with run checks have "r = Inl e" "s' = s1" by (simp_all add: backend_publish_split pbind_def)
    with ps show ?thesis by (intro exI [of _ "[]"] exI [of _ ps]) simp
  next
    case (Inr payload)
    obtain r2 s2 where submit: "submit_authorized_commitment (sv_chain S) c payload s1 = (r2, s2)"
      by fastforce
    from submission_log [OF this] obtain es where es: "be_log s2 = es @ be_log s1"
      "guarded_log (chain_allowed (sv_chain S) c (be_hotkey s) payload) es"
      "case r2 of Inr _ \<Rightarrow> \<exists>earlier. es = Submitted True # earlier
        | Inl e \<Rightarrow> if list_ex is_broadcast es then exc_cls e = AuthorizationRefused else True"
      using h by auto
    have "r = (case r2 of Inl e \<Rightarrow> Inl e | Inr _ \<Rightarrow> Inr \<lparr>r_round_index = k_round_index k, r_payload = payload\<rparr>)"
      "s' = s2"
      using run checks Inr submit by (auto simp: backend_publish_split pbind_def split: sum.splits)
    with publish_checks_Inr [OF checks [unfolded Inr]] ps es show ?thesis
      by (intro exI [of _ es] exI [of _ ps] exI [of _ payload]) (auto split: sum.splits)
  qed
qed


section \<open>The readback loop\<close>

text \<open>
  A node whose commitment of the hot key is \<open>view n\<close> at the \<open>n\<close>-th readback, whatever happens
  to the rest of the external state; waiting between readbacks returns.
\<close>

definition serves_readbacks ::
    "'x services \<Rightarrow> string \<Rightarrow> ('x \<Rightarrow> nat) \<Rightarrow> (nat \<Rightarrow> string) \<Rightarrow> bool" where
  "serves_readbacks S h readbacks view \<longleftrightarrow>
     (\<forall>x. \<exists>x'. mt_commitments (sv_upstream S) h x = (Inr (view (readbacks x)), x') \<and>
        readbacks x' = Suc (readbacks x)) \<and>
     (\<forall>x. \<exists>x'. mt_sleep (sv_upstream S) 12 x = (Inr (), x') \<and> readbacks x' = readbacks x)"

lemma readback_outcome:
  assumes serves: "serves_readbacks S h readbacks view" and "be_hotkey s = h" and "h \<noteq> []"
  shows "fst (readback S expected n s) =
    (if \<exists>i<n. view (readbacks (be_ext s) + i) = expected then Inr expected
     else fail VerificationError ''on-chain readback did not exactly match the signed round/source/digest commitment'')"
  using assms(2)
proof (induction n arbitrary: s)
  case (Suc n)
  obtain x where x: "mt_commitments (sv_upstream S) h (be_ext s) = (Inr (view (readbacks (be_ext s))), x)"
    "readbacks x = Suc (readbacks (be_ext s))"
    using serves unfolding serves_readbacks_def by blast
  obtain y where y: "mt_sleep (sv_upstream S) 12 x = (Inr (), y)" "readbacks y = readbacks x"
    using serves unfolding serves_readbacks_def by blast
  let ?next = "s\<lparr>be_ext := if 0 < n then y else x\<rparr>"
  have step: "readback S expected (Suc n) s =
      (if view (readbacks (be_ext s)) = expected then (Inr expected, s\<lparr>be_ext := x\<rparr>)
       else readback S expected n ?next)"
    using Suc.prems \<open>h \<noteq> []\<close> x(1) y(1)
    by (simp add: pbind_def backend_hotkey_def ext_do_def)
  have "fst (readback S expected n ?next) =
      (if \<exists>i<n. view (Suc (readbacks (be_ext s)) + i) = expected then Inr expected
       else fail VerificationError ''on-chain readback did not exactly match the signed round/source/digest commitment'')"
    using Suc.IH [of ?next] Suc.prems x(2) y(2) by simp
  moreover have "(\<exists>i<Suc n. view (m + i) = expected) \<longleftrightarrow>
      view m = expected \<or> (\<exists>i<n. view (Suc m + i) = expected)" for m
    by (auto simp: less_Suc_eq_0_disj)
  ultimately show ?case unfolding step by (simp del: readback.simps)
qed simp

text \<open>
  C12: The confirmation arrives when the chain shows it. If the node answers the readbacks, then
  \<open>verify_on_chain\<close> returns the expected commitment exactly when one of the configured number
  of readbacks shows it, at the first such readback, and raises a verification error otherwise:
  a commitment that becomes visible within the attempts is always confirmed, and no
  other text ever is.
\<close>

theorem verify_on_chain_confirms:
  assumes "serves_readbacks S (be_hotkey s) readbacks view" and "be_hotkey s \<noteq> []" and "be_client s"
    and "backend_validate_commitment S c k s = (Inr expected, s1)"
  shows "fst (backend_verify_on_chain S c k s) =
    (if \<exists>i < nat (c_verify_attempts c). view (readbacks (be_ext s1) + i) = expected then Inr expected
     else fail VerificationError ''on-chain readback did not exactly match the signed round/source/digest commitment'')"
proof -
  have "be_hotkey s1 = be_hotkey s"
    using staysD [OF steady_encode(2) assms(4)] by (simp add: steady_def)
  then show ?thesis
    using readback_outcome [OF assms(1), of s1 expected "nat (c_verify_attempts c)"] assms(2-4)
    by (simp add: backend_verify_on_chain_def client_ready_def has_client_def pbind_def)
qed

section \<open>The coordinator anchor\<close>

lemma ext_do_Inr: "ext_do f s = (Inr x, s') \<longleftrightarrow> (\<exists>y. f (be_ext s) = (Inr x, y) \<and> s' = s\<lparr>be_ext := y\<rparr>)"
  by (auto simp: ext_do_def split: prod.splits)

lemma has_client_Inr: "has_client e s = (Inr u, s') \<longleftrightarrow> be_client s \<and> s' = s"
  by (auto simp: has_client_def)

definition seed_proven ::
    "'x services \<Rightarrow> round_window \<Rightarrow> 'x \<Rightarrow> bool" where
  "seed_proven S w x \<longleftrightarrow>
     w_seed_block w = w_close_block w \<and>
     (if w_phase w = ''submissions'' then w_block_hash w = []
      else w_phase w = ''evaluation'' \<and> matches chain_hash_rx (w_block_hash w) \<and>
        (\<exists>v y. mt_block_hash (sv_upstream S) (w_seed_block w) x = (Inr v, y) \<and>
           py_lower (chain_str v) = w_block_hash w))"

lemma verify_seed_hash_Inr:
  assumes "verify_seed_hash S c w s = (Inr u, s')" and "uses_signed_v030 c"
  shows "seed_proven S w (be_ext s)"
proof (cases "w_phase w = ''submissions''")
  case True
  with assms show ?thesis
    by (auto simp: verify_seed_hash_def seed_proven_def prog_Inr elim!: pbind_InrD)
next
  case False
  with assms show ?thesis
    by (auto simp: verify_seed_hash_def seed_proven_def prog_Inr client_ready_def has_client_Inr
        ext_do_Inr elim!: pbind_InrD)
qed

text \<open>
  C13: A served round is trusted only with the chain's own word. When the anchor check of a
  round served by the coordinator passes, the chain client was connected, the anchor read from
  the chain names the same round index and the same configuration hash, and in the signed
  profile the seed block is the close block, no block hash was disclosed during submissions,
  and in the evaluation phase the served hash is canonical and equals the hash read from the
  chain for that block.
\<close>

theorem served_round_matches_chain:
  assumes run: "backend_verify_round_anchor S c w s = (Inr u, s')" and "w_source w = ''coordinator''"
  shows "be_client s \<and> (\<exists>i h x. mt_anchor (sv_upstream S) (be_ext s) = (Inr (Some (i, h)), x) \<and>
    chain_eq i (CInt (w_index w)) \<and> h = CStr (w_config_hash w) \<and>
    (if uses_signed_v030 c then seed_proven S w x else True))"
proof -
  from assms obtain a sa where client: "be_client s"
    and anchor: "ext_do (mt_anchor (sv_upstream S)) s = (Inr a, sa)"
    and rest: "(case a of
         None \<Rightarrow> throw (verification_error ''the coordinator has no independently readable chain anchor'')
       | Some (round_index, config_hash) \<Rightarrow>
           pseq (guard (chain_eq round_index (CInt (w_index w)))
                  (verification_error (''chain anchor is for round '' @ chain_str round_index
                     @ '', not served round '' @ text_of_int (w_index w)))) (
           pseq (guard (chain_eq config_hash (CStr (w_config_hash w)))
                  (verification_error ''served coordinator config hash does not match the independent chain anchor''))
           (verify_seed_hash S c w))) sa = (Inr u, s')"
    unfolding backend_verify_round_anchor_def client_ready_def
    by (auto simp only: prog_Inr has_client_Inr if_False simp_thms not_not elim!: pbind_InrD)
  from rest obtain i h where a: "a = Some (i, h)" by (cases a) (auto simp: throw_def)
  with rest have "chain_eq i (CInt (w_index w))" "h = CStr (w_config_hash w)"
    "verify_seed_hash S c w sa = (Inr u, s')"
    by (auto simp: prog_Inr elim!: pbind_InrD)
  moreover from anchor a obtain y where "mt_anchor (sv_upstream S) (be_ext s) = (Inr (Some (i, h)), y)"
    "sa = s\<lparr>be_ext := y\<rparr>" by (auto simp: ext_do_Inr)
  ultimately show ?thesis
    using client verify_seed_hash_Inr [of S c w sa u s']
    by (intro conjI exI [of _ i] exI [of _ h] exI [of _ y]) auto
qed

end
