(* ===== verification/ControllerTrace.thy ===== *)
theory ControllerTrace
  imports ControllerFrames
begin

text \<open>
  What a whole run does to the backend it drives. \<open>backend_effect\<close> is the contract of a
  relation on worlds that every call of one backend, and every change of the files, polls and
  lock, stays inside; inside the locale it is lifted to the run. The controller reaches the
  external state through the calls of the backend only.
\<close>

locale backend_effect = effect_relation R for R :: "'x world \<Rightarrow> 'x world \<Rightarrow> bool" +
  fixes B :: "'x backend"
  assumes elsewhere: "calls w' = calls w \<Longrightarrow> ext w' = ext w \<Longrightarrow> R w w'"
    and on_preflight: "stays R (bcall Preflight (b_preflight B))"
    and on_block: "stays R (bcall Block (b_block B))"
    and on_chain_round: "stays R (bcall (ChainRound i) (b_chain_round B i))"
    and on_fetch: "stays R (bcall FetchRound (b_fetch_round B url i))"
    and on_anchor: "stays R (bcall (VerifyAnchor v) (b_verify_round_anchor B v))"
    and on_validate_round: "stays R (bcall (ValidateRound v) (b_validate_round B v))"
    and on_registered: "stays R (bcall AssertRegistered (b_assert_registered B))"
    and on_competition: "stays R (bcall ValidateCompetition (b_validate_competition B))"
    and on_load: "stays R (bcall LoadLocal (b_load_local B))"
    and on_package: "stays R (bcall (Package i s) (b_package B i s))"
    and on_commitment: "stays R (bcall (ValidateCommitment k) (b_validate_commitment B k))"
    and on_upload: "stays R (bcall (Upload k) (b_upload B k))"
    and on_source: "stays R (bcall (VerifySource k full) (b_verify_source B k full))"
    and on_provenance: "stays R (bcall (VerifyProvenance k i) (b_verify_provenance B k i))"
    and on_chain: "stays R (bcall (VerifyOnChain k) (b_verify_on_chain B k))"
    and on_publish: "stays R (bcall (Publish k) (b_publish B k))"
    and on_close: "stays R (bcall CloseBackend (b_close B))"
begin

lemmas on_calls [stays_intros] = on_preflight on_block on_chain_round on_fetch on_anchor
  on_validate_round on_registered on_competition on_load on_package on_commitment on_upload
  on_source on_provenance on_chain on_publish on_close

lemma on_store: "stays (touches T) (m :: ('x world, 'a) prog) \<Longrightarrow> stays R m"
  by (erule stays_mono) (auto intro: elsewhere simp: touches_world)

lemma on_world [stays_intros]: "stays R poll_stop" "stays R (remember s)"
  by (auto simp: stays_def poll_stop_def remember_def intro: elsewhere)

lemma on_files [stays_intros]:
  "stays R (tick E)" "stays R (read_slot p)"
  "stays R read_authorization_refusal" "stays R read_submission_pending"
  "stays R (write_state E ph ok msg now det pre)" "stays R (mark_verified E rd msg det now)"
  "stays R (heartbeat E now)" "stays R (latch_authorization_refusal E msg det now)"
  "stays R (mark_submission_pending E rd src hk fp det now)" "stays R (clear_submission_pending fp)"
  by (rule on_store [where T = UNIV]; auto intro: stays_intros)+

lemma on_lock [stays_intros]:
  assumes "stays R m"
  shows "stays R (with_lock m)"
proof (rule staysI)
  fix w r w'
  assume run: "with_lock m w = (r, w')"
  then show "R w w'"
  proof (cases rule: with_lock_cases)
    case (held w1)
    have "R w (w\<lparr>lock := LockMine\<rparr>)" "R w1 w'" by (rule elsewhere; simp add: held(3))+
    then show ?thesis using staysD [OF assms held(2)] by (blast intro: trans)
  qed (simp add: refl)
qed

lemma on_reports [stays_intros]:
  "stays R authorization_latch_reason" "stays R refuse_if_latched"
  "stays R (verification_due c E state)" "stays R (assert_deadline c window block action)"
  "stays R (report E ph msg det)" "stays R (failure c E ph e)"
  "stays R (waiting_for_trusted_round c E e)" "stays R (remember_round E previous window)"
  "stays R (verified E window packaged payload common full msg)"
  "stays R (stop_cleanly c E)" "stays R (authorization_failure c E e)"
  by (auto simp: authorization_latch_reason_def refuse_if_latched_def verification_due_def
      assert_deadline_def report_def failure_def waiting_for_trusted_round_def remember_round_def
      verified_def stop_cleanly_def authorization_failure_def Let_def
      intro!: stays_intros split: sum.split)

lemma on_rounds [stays_intros]:
  "stays R (controller_resolve_round B c E head)" "stays R (assert_packaged_binding B packaged)"
  by (auto simp: controller_resolve_round_def assert_packaged_binding_def Let_def intro!: stays_intros)

lemma on_refresh [stays_intros]:
  "stays R (refresh_same_round B c E expected)" "stays R (preflight B c E)"
  by (auto simp: refresh_same_round_def preflight_def intro!: stays_intros)

lemma on_parts [stays_intros]:
  "stays R (reverify B c E snapshot window head source packaged)"
  "stays R (broadcast_checks B c E window packaged)"
  "stays R (select_package B c E window head source common reusable local)"
  "stays R (ensure_remote B c E window details reusable packaged)"
  by (auto simp: reverify_def broadcast_checks_def select_package_def ensure_remote_def Let_def
      intro!: stays_intros)

lemma on_markers [stays_intros]:
  "stays R (record_pending E packaged fp block)" "stays R (clear_and_raise fp t e)"
  by (auto simp: record_pending_def clear_and_raise_def intro!: stays_intros)

lemma on_reconcile [stays_intros]:
  "stays R (reconcile_pending B c E snapshot window head source local pending)"
  by (auto simp: reconcile_pending_def Let_def intro!: stays_intros)

lemma on_broadcast [stays_intros]: "stays R (broadcast B E details packaged fp)"
  by (auto simp: broadcast_def intro!: stays_intros)

lemma on_outcome [stays_intros]: "stays R (broadcast_outcome B E details packaged fp)"
  by (auto simp: broadcast_outcome_def Let_def intro!: stays_intros)

lemma on_commit [stays_intros]:
  "stays R (publish_commitment B c E window details packaged encoded block)"
  by (auto simp: publish_commitment_def Let_def intro!: stays_intros)

lemma on_submit [stays_intros]: "stays R (submit B c E snapshot window head source local)"
  by (auto simp: submit_def Let_def intro!: stays_intros)

lemma on_cycle [stays_intros]: "stays R (cycle B c E snapshot)"
  by (auto simp: cycle_def Let_def intro!: stays_intros)

lemma on_handled [stays_intros]: "stays R (handled_cycle B c E snapshot)"
  by (auto simp: handled_cycle_def intro!: stays_intros)

lemma on_loops [stays_intros]:
  "stays R (preflight_loop n B c E once)" "stays R (cycle_loop n B c E snapshot once)"
  by (induction n) (auto intro!: stays_intros)

lemma on_run: "stays R (run_with n B c E once)"
  by (auto simp: run_with_def run_body_def intro!: stays_intros)

lemma run_stays: "run B c E once w = (r, w') \<Longrightarrow> R w w'"
  using staysD [OF on_run] by (simp add: run_def)

end

end
