(* ===== verification/BackendRuns.thy ===== *)
theory BackendRuns
  imports BackendSafety ControllerTrace ControllerSafety
begin

text \<open>
  The controller over the real adapter: every signature and broadcast of a whole run of
  \<^verbatim>\<open>controller.py\<close> on \<^verbatim>\<open>MicrotensorBackend\<close> lies in one of its publishing calls and is proven
  by the transaction path. \<open>driven\<close> relates the controller's call log to the SDK call log.
\<close>

section \<open>Two logs of one run\<close>

inductive driven ::
    "'x services \<Rightarrow> controller_config \<Rightarrow> event list \<Rightarrow> chain_event list \<Rightarrow> bool"
    for S :: "'x services" and c :: controller_config where
  nothing: "driven S c [] []"
| reading: "driven S c es fs \<Longrightarrow> list_all passive_event ps \<Longrightarrow> driven S c (e # es) (ps @ fs)"
| publishing: "driven S c es fs \<Longrightarrow> ev_op e = Publish k \<Longrightarrow> list_all passive_event ps \<Longrightarrow>
    guarded_log (chain_allowed (sv_chain S) c h payload) qs \<Longrightarrow>
    (if qs = [] then True else publishable c k h) \<Longrightarrow> driven S c (e # es) (qs @ ps @ fs)"

inductive_cases driven_nilE: "driven S c [] fs"

lemma driven_append: "driven S c es' fs' \<Longrightarrow> driven S c es fs \<Longrightarrow> driven S c (es' @ es) (fs' @ fs)"
proof (induction rule: driven.induct)
  case (reading es' fs' ps e)
  then show ?case using driven.reading [of S c "es' @ es" "fs' @ fs" ps e] by simp
next
  case (publishing es' fs' e k ps h payload qs)
  then show ?case using driven.publishing [of S c "es' @ es" "fs' @ fs" e k ps h payload qs] by simp
qed simp

definition ledger :: "'x services \<Rightarrow> controller_config \<Rightarrow>
    'x backend_state world \<Rightarrow> 'x backend_state world \<Rightarrow> bool" where
  "ledger S c w w' \<longleftrightarrow>
     (\<exists>es fs. calls w' = es @ calls w \<and> be_log (ext w') = fs @ be_log (ext w) \<and> driven S c es fs)"

lemma ledger_quiet:
  assumes "stays quiet f"
  shows "stays (ledger S c) (bcall op f)"
proof (rule staysI)
  fix w r w'
  assume "bcall op f w = (r, w')"
  moreover obtain r1 s where f: "f (ext w) = (r1, s)" by fastforce
  ultimately have w': "calls w' = Event op (\<not> isl r1) (disk w Pending) # calls w" "ext w' = s"
    by (auto simp: bcall_def)
  from staysD [OF assms f] obtain ps where "be_log s = ps @ be_log (ext w)" "list_all passive_event ps"
    by (auto simp: quiet_def)
  with w' driven.reading [OF driven.nothing, of ps S c] show "ledger S c w w'"
    unfolding ledger_def by (metis append_Cons append_Nil append_Nil2)
qed

lemma ledger_publish: "stays (ledger S c) (bcall (Publish k) (backend_publish S c k))"
proof (rule staysI)
  fix w r w'
  assume "bcall (Publish k) (backend_publish S c k) w = (r, w')"
  moreover obtain r1 s where p: "backend_publish S c k (ext w) = (r1, s)" by fastforce
  ultimately have w': "calls w' = Event (Publish k) (\<not> isl r1) (disk w Pending) # calls w" "ext w' = s"
    by (auto simp: bcall_def)
  from publish_log [OF p] obtain es ps payload where "be_log s = es @ ps @ be_log (ext w)"
    "list_all passive_event ps" "guarded_log (chain_allowed (sv_chain S) c (be_hotkey (ext w)) payload) es"
    "if es = [] then isl r1 else publishable c k (be_hotkey (ext w)) \<and> own_commitment S c k (ext w) payload"
    by blast
  with w' driven.publishing [OF driven.nothing, of "Event (Publish k) (\<not> isl r1) (disk w Pending)" k ps S c
      "be_hotkey (ext w)" payload es]
  show "ledger S c w w'"
    unfolding ledger_def by (intro exI [of _ "[Event (Publish k) (\<not> isl r1) (disk w Pending)]"] exI [of _ "es @ ps"])
      (auto split: if_splits)
qed

lemma ledger_elsewhere: "calls w' = calls w \<Longrightarrow> ext w' = ext w \<Longrightarrow> ledger S c w w'"
  unfolding ledger_def using driven.nothing by fastforce

interpretation ledger: backend_effect "ledger S c" "microtensor_backend S c fetch" for S c fetch
proof unfold_locales
  fix u v w :: "'a backend_state world"
  show "ledger S c u w" if "ledger S c u v" "ledger S c v w"
    using that unfolding ledger_def by (metis append.assoc driven_append)
qed (auto simp: microtensor_backend_def ledger_elsewhere
    intro: ledger_publish ledger_quiet quiet_preflight quiet_steady steady_operations stays_intros)

section \<open>How often a run signs\<close>

fun is_signature :: "chain_event \<Rightarrow> bool" where
  "is_signature (Signed nonce era ok) = True"
| "is_signature ev = False"

lemma passive_active:
  "passive_event e \<longleftrightarrow> \<not> is_signature e \<and> \<not> is_broadcast e"
  by (cases e) auto

lemma passive_filters:
  "list_all passive_event es \<Longrightarrow> filter is_signature es = [] \<and> filter is_broadcast es = []"
  by (auto simp: list_all_iff passive_active filter_empty_conv)

lemma guarded_counts:
  "guarded_log (chain_allowed H c h payload) es \<Longrightarrow>
     length (filter is_signature es) \<le> 1 \<and> length (filter is_broadcast es) \<le> 1"
proof (induction es)
  case (Cons e es)
  show ?case
  proof (cases e)
    case (Signed nonce era ok)
    with Cons.prems have "list_all passive_event es"
      by (simp add: chain_allowed_def signature_allowed_def)
    with Signed show ?thesis using passive_filters [of es] by simp
  next
    case (Submitted ok)
    with Cons.prems obtain newer nonce era before where
      "es = newer @ Signed nonce era True # before" "list_all passive_event newer" "list_all passive_event before"
      by (auto simp: chain_allowed_def broadcast_allowed_def signature_allowed_def)
    with Submitted show ?thesis using passive_filters [of newer] passive_filters [of before] by simp
  qed (use Cons in auto)
qed simp

definition publishings :: "event list \<Rightarrow> nat" where
  "publishings es = length (filter (\<lambda>e. kind_of (ev_op e) = Publishing) es)"

lemma driven_counts:
  "driven S c es fs \<Longrightarrow> length (filter is_signature fs) \<le> publishings es \<and>
     length (filter is_broadcast fs) \<le> publishings es"
proof (induction rule: driven.induct)
  case (reading es fs ps e)
  then show ?case using passive_filters [of ps] by (simp add: publishings_def)
next
  case (publishing es fs e k ps h payload qs)
  then show ?case using passive_filters [of ps] guarded_counts [of "sv_chain S" c h payload qs]
    by (simp add: publishings_def)
qed (simp add: publishings_def)

lemma driven_passive:
  "driven S c es fs \<Longrightarrow> publishings es = 0 \<Longrightarrow> list_all passive_event fs"
  by (induction rule: driven.induct) (auto simp: publishings_def split: if_splits)

lemma run_driven:
  assumes "run (microtensor_backend S c fetch) c E once w = (r, w')"
  shows "ledger S c w w'"
  using ledger.run_stays [OF assms] .

text \<open>
  C6: The controller and its real backend together. Over a whole run of the controller on the
  Microtensor adapter, any number of cycles long and whatever the SDK, the upstream package,
  GitHub, the file system and the coordinator answer, the SDK log decomposes along the
  controller's calls: a call that does not publish adds passive events only, and a publishing
  call adds, after its own checks, the events of one guarded pass through the transaction path,
  for a package publishable under the loaded hot key. So a run never signs, and never
  broadcasts, more often than it makes publishing calls.
\<close>

theorem run_signs_only_in_publish:
  assumes "run (microtensor_backend S c fetch) c E once w = (r, w')"
  shows "\<exists>es fs. calls w' = es @ calls w \<and> be_log (ext w') = fs @ be_log (ext w) \<and> driven S c es fs \<and>
    length (filter is_signature fs) \<le> publishings es \<and> length (filter is_broadcast fs) \<le> publishings es"
  using run_driven [OF assms] driven_counts unfolding ledger_def by blast

text \<open>
  Without authorization nothing is signed. A run of the controller on the Microtensor
  adapter that is configured dry, or that finds a refusal marker of any content in its state
  directory, adds passive events to the SDK log only: no signature and no broadcast, over any
  number of cycles.
\<close>

lemma unauthorized_run_passive:
  assumes "run (microtensor_backend S c fetch) c E once w = (r, w')"
    and "if c_dry_run c then True else disk w Refusal \<noteq> Missing"
  shows "\<exists>fs. be_log (ext w') = fs @ be_log (ext w) \<and> list_all passive_event fs"
proof -
  from run_driven [OF assms(1)] obtain es fs where es: "calls w' = es @ calls w"
    "be_log (ext w') = fs @ be_log (ext w)" "driven S c es fs"
    unfolding ledger_def by blast
  have "publishings es = 0"
  proof (cases "c_dry_run c")
    case True
    with dry_run_calls [OF _ assms(1)] es(1) show ?thesis
      by (fastforce simp: publishings_def filter_empty_conv)
  next
    case False
    with latched_calls [OF _ assms(1)] assms(2) es(1) show ?thesis
      by (fastforce simp: publishings_def filter_empty_conv)
  qed
  with driven_passive [OF es(3)] es(2) show ?thesis by blast
qed

end
