(* ===== verification/ChainExample.thy ===== *)
theory ChainExample
  imports ChainSafety
begin

text \<open>
  A host on which the transaction path signs, broadcasts and returns: the claims of
  \<^verbatim>\<open>ChainSafety\<close> are about runs that exist.
\<close>

section \<open>A run that broadcasts\<close>

definition example_era :: chain_map where
  "example_era = [(''period'', CInt 128), (''current'', CInt 9)]"

definition example_extrinsic :: chain_map where
  "example_extrinsic =
     [(''account_id'', CStr ''0xab''), (''address'', CStr ''0xab''),
      (''asset_id'', CMap [(''tip'', CInt 0), (''asset_id'', CNone)]),
      (''call'', CMap (call_with (commitment_args ''p''))), (''call_args'', commitment_args ''p''),
      (''call_function'', CStr AUTHORIZED_CALL_FUNCTION), (''call_module'', CStr AUTHORIZED_CALL_MODULE),
      (''era'', CMap example_era), (''mode'', CStr ''Disabled''), (''nonce'', CInt 7),
      (''signature'', CStr (''0x'' @ replicate 128 CHR ''0'')), (''signature_version'', CInt 1),
      (''tip'', CInt 0)]"

fun example_answer :: "sdk_query \<Rightarrow> chain_value" where
  "example_answer (QVersion d) =
     CStr (if d = ''bittensor'' then BITTENSOR_VERSION
           else if d = ''bittensor-wallet'' then BITTENSOR_WALLET_VERSION
           else SUBSTRATE_INTERFACE_VERSION)"
| "example_answer (QUid address) = CInt 32"
| "example_answer QNetuid = CInt 92"
| "example_answer QSubstrate = CObject Missing Missing"
| "example_answer QSigner = CStr AUTHORIZED_HOTKEY_SS58"
| "example_answer QPublicKey = CStr ''ab''"
| "example_answer QGenesis = CStr FINNEY_GENESIS_HASH"
| "example_answer QHead = CStr FINNEY_GENESIS_HASH"
| "example_answer (QRuntime head) = CMap [(''specVersion'', CInt 452), (''transactionVersion'', CInt 1)]"
| "example_answer (QCodeHash head) = CMap [(''result'', CStr FINNEY_RUNTIME_CODE_HASH)]"
| "example_answer (QConstant name head) = CInt 0"
| "example_answer (QNonce address) = CInt 7"
| "example_answer QCallValue = CMap (call_with (commitment_args ''p''))"
| "example_answer QExtrinsicValue = CMap example_extrinsic"
| "example_answer QExtrinsicData = CStr ''0x00''"
| "example_answer QExtrinsicHash = CStr FINNEY_GENESIS_HASH"

definition example_receipt :: receipt where
  "example_receipt =
     \<lparr>rc_extrinsic_hash = Inr (CStr FINNEY_GENESIS_HASH), rc_block_hash = Inr (CStr FINNEY_GENESIS_HASH),
      rc_finalized = Inr (CBool True), rc_is_success = Inr (CBool True), rc_total_fee = Inr (CInt 0)\<rparr>"

definition missing_file :: file_session where
  "missing_file =
     \<lparr>path_absolute = True, has_nofollow = True, effective_uid = 0, effective_gid = 0,
      path_before = None, open_succeeds = False, opened_before = None, read_results = [],
      opened_after = None, path_after = None\<rparr>"

definition example_host :: "nat chain_host" where
  "example_host =
     \<lparr>ho_decode = Some, ho_parse = (\<lambda>_. None), ho_status = (\<lambda>x. ((missing_file, Fin 0), x)),
      ho_query = (\<lambda>q. ret (example_answer q)), ho_compose = (\<lambda>args head. ret args),
      ho_estimate = (\<lambda>n era args. ret (CMap [(''partial_fee'', CInt 0)], example_era, args)),
      ho_sign = (\<lambda>n era args. ret args), ho_submit = ret example_receipt\<rparr>"

definition example_backend :: "nat backend_state" where
  "example_backend =
     \<lparr>be_ext = 0, be_wallet = True, be_client = True, be_hotkey = AUTHORIZED_HOTKEY_SS58,
      be_commit = [], be_log = []\<rparr>"

text \<open>\<open>works m x\<close>: on the example host \<open>m\<close> returns \<open>x\<close>.\<close>

definition works :: "(nat backend_state, 'a) prog \<Rightarrow> 'a \<Rightarrow> bool" where
  "works m x \<longleftrightarrow> (\<forall>s. same_backend example_backend s \<longrightarrow>
     (\<exists>s'. m s = (Inr x, s') \<and> same_backend example_backend s'))"

lemma works_bind: "works m x \<Longrightarrow> works (k x) y \<Longrightarrow> works (pbind m k) y"
  unfolding works_def pbind_def by fastforce

lemma works_catch: "works m x \<Longrightarrow> works (catch m h) x"
  unfolding works_def catch_def by fastforce

lemma works_refusing: "works m x \<Longrightarrow> works (refusing t m) x"
  unfolding refusing_def by (rule works_catch)

lemma works_ret: "works (ret x) x"
  by (simp add: works_def)

lemma works_lift: "r = Inr x \<Longrightarrow> works (lift_res r) x"
  by (simp add: works_def lift_res_def)

lemma works_guard: "ok \<Longrightarrow> works (guard ok e) ()"
  by (simp add: works_def guard_def)

lemma works_query: "works (query example_host q) (example_answer q)"
  by (simp add: works_def query_def host_call_def example_host_def same_backend_def)

lemma works_client: "works (has_client e) ()"
  by (simp add: works_def has_client_def same_backend_def example_backend_def)

lemma works_hotkey: "works backend_hotkey AUTHORIZED_HOTKEY_SS58"
  by (simp add: works_def backend_hotkey_def same_backend_def example_backend_def AUTHORIZED_HOTKEY_SS58_def)

lemma works_ready: "works (read_world (\<lambda>s. be_client s \<and> be_wallet s)) True"
  by (simp add: works_def read_world_def same_backend_def example_backend_def)

lemma works_host:
  "works (host_call ev (ho_compose example_host args head)) args"
  "works (host_call ev (ho_sign example_host n era args)) args"
  "works (host_call ev' (ho_submit example_host)) example_receipt"
  "works (estimate_fee example_host n era args) (CMap [(''partial_fee'', CInt 0)], example_era, args)"
  by (simp_all add: works_def host_call_def example_host_def same_backend_def estimate_fee_def)

definition unsigned_config :: controller_config where
  "unsigned_config = example_config\<lparr>c_v030_activation_block := None\<rparr>"

lemma unsigned_facts [simp]:
  "uses_signed_v030 unsigned_config = False" "static_policy unsigned_config = Inr ()"
  "c_network unsigned_config = ''finney''" "c_endpoint unsigned_config = []"
  "c_netuid unsigned_config = 92" "c_expected_uid unsigned_config = 32"
  by (simp_all add: unsigned_config_def uses_signed_v030_def example_config_def static_policy_def)

lemma unsigned_source: "source_for unsigned_config 0 h = Inr (release_prefix @ ''r0'')"
proof -
  have t: "format_template example_template 0 32 x = Inr (release_prefix @ ''r0'')" for x
   unfolding format_template_def by code_simp
  moreover have "safe_tag ''r0''" by code_simp
  moreover have "\<not> list_ex source_delimiter (release_prefix @ ''r0'')" by code_simp
  moreover have "fst (snd (partition_at CHR '':'' (release_prefix @ ''r0'')))" by code_simp
  moreover have "prefix ''https:'' (release_prefix @ ''r0'')" by code_simp
  ultimately show ?thesis
    unfolding source_for_Inr by (auto simp: example_config_def unsigned_config_def)
qed

lemma unsigned_repository: "authorised_repository (github_release_coordinates (release_prefix @ ''r0''))"
  by code_simp

lemma example_values:
  "py_lower FINNEY_GENESIS_HASH = FINNEY_GENESIS_HASH" 
  "matches chain_hash_rx FINNEY_GENESIS_HASH" 
  "check_signed_fields example_extrinsic ''0xab'' (commitment_args ''p'') 7 example_era = Inr ()" 
  "check_signed_shape (CMap example_extrinsic) = Inr example_extrinsic" 
  "canonical_extrinsic_hash (CStr FINNEY_GENESIS_HASH) = FINNEY_GENESIS_HASH"
  "check_receipt example_receipt FINNEY_GENESIS_HASH = Inr 0" 
  "check_mortal_era example_era = Inr ()" 
  "chain_eq (CMap example_era) (CMap example_era)" 
  "chain_eq (CMap (call_with (commitment_args ''p''))) (CMap (call_with (commitment_args ''p'')))" 
  by (code_simp)+

text \<open>The run, check by check.\<close>

lemma works_static: "works (observer_gate example_host unsigned_config cls) ()"
  by (simp add: observer_gate_def works_ret)

lemma works_dependencies: "works (verify_transaction_dependencies example_host) ()"
proof -
  have version: "works (require_version example_host d v) ()" if "example_answer (QVersion d) = CStr v" for d v
    unfolding require_version_def by (rule works_bind, rule works_query, simp only: that, simp add: works_guard)
  show ?thesis
    unfolding verify_transaction_dependencies_def
    by (rule works_bind, rule version, simp, rule works_bind, rule version, simp, rule version, simp)
qed

lemma works_policy: "works (assert_live_transaction_policy example_host unsigned_config) ()"
  unfolding assert_live_transaction_policy_def
  by (rule works_bind, rule works_static, rule works_bind, rule works_lift, simp, rule works_bind,
      rule works_hotkey, rule works_bind, rule works_guard, simp, rule works_bind, rule works_guard, simp,
      rule works_bind, rule works_catch, rule works_bind, rule works_dependencies, rule works_bind,
      rule works_lift, rule unsigned_source, rule works_ret, rule works_guard, rule unsigned_repository)

lemma works_registered: "works (assert_registered example_host unsigned_config) ()"
  unfolding assert_registered_def
  by (rule works_bind, rule works_static, rule works_bind, rule works_client, rule works_bind,
      rule works_catch, rule works_bind, rule works_hotkey, rule works_query, rule works_guard)
    (simp add: num_eq_def)

lemma works_registration: "works (assert_authorized_registration example_host unsigned_config) ()"
  unfolding assert_authorized_registration_def
  by (rule works_bind, rule works_policy, rule works_bind, rule works_client, rule works_bind,
      rule works_query, rule works_bind, rule works_lift [where x = 92],
      simp add: authorization_integer_def require_def, rule works_bind, rule works_guard, simp,
      rule works_catch, rule works_registered)

lemma works_chain_head: "works (authorized_chain_head example_host) FINNEY_GENESIS_HASH"
proof -
  have "check_runtime FINNEY_GENESIS_HASH FINNEY_GENESIS_HASH
      (example_answer (QRuntime FINNEY_GENESIS_HASH)) (example_answer (QCodeHash FINNEY_GENESIS_HASH)) =
      Inr FINNEY_GENESIS_HASH"
    by code_simp
  then show ?thesis
    unfolding authorized_chain_head_def Let_def
    by - (rule works_bind, rule works_catch, (rule works_bind, rule works_query)+, rule works_ret,
       simp add: example_values works_lift)
qed

lemma works_read_nonce: "works (read_nonce example_host address label) 7"
  unfolding read_nonce_def
  by (rule works_bind, rule works_query, rule works_lift) (simp add: authorization_integer_def require_def)

lemma works_refresh:
  "works (refresh_authorization example_host unsigned_config address 7 l1 l2 l3) ()"
  unfolding refresh_authorization_def
  by (rule works_bind, rule works_registration, rule works_bind, rule works_chain_head, rule works_bind,
      rule works_refusing, rule works_read_nonce, rule works_guard) simp

lemma example_zero_fee: "zero_fee (CMap [(''partial_fee'', CInt 0)]) l1 l2 = Inr ()"
  by (simp add: zero_fee_def authorization_integer_def require_def AUTHORIZED_MAX_FEE_RAO_def)

lemma works_refresh_estimate:
  "works (refresh_estimate example_host 7 era args l1 l2 l3) (example_era, args)"
  unfolding refresh_estimate_def
  by (rule works_bind, rule works_catch, rule works_host, simp only: prod.case,
      rule works_bind, rule works_lift, rule example_zero_fee, rule works_ret)

lemma works_composed: "works (composed_as_expected example_host (commitment_args ''p'')) True"
  unfolding composed_as_expected_def
  by (rule works_bind, rule works_query) (simp add: example_values works_ret del: chain_eq.simps)

lemma works_inspect:
  "works (inspect_signed_extrinsic example_host (commitment_args ''p'') 7 example_era) FINNEY_GENESIS_HASH"
  unfolding inspect_signed_extrinsic_def Let_def
  by (rule works_bind, rule works_query, rule works_bind, rule works_lift [where x = example_extrinsic],
      simp add: example_values, rule works_bind, rule works_catch, rule works_query,
      rule works_bind, rule works_lift, simp add: example_values, rule works_bind, rule works_query,
      rule works_bind, rule works_guard, simp, rule works_bind, rule works_catch, rule works_query,
      rule works_bind, rule works_guard, simp add: example_values, simp add: example_values works_ret)

lemma works_deposit: "works (required_deposit example_host head) 0"
  unfolding required_deposit_def
  by (rule works_refusing, rule works_bind, rule works_query, rule works_bind, rule works_lift [where x = 0],
      simp add: authorization_integer_def require_def, rule works_bind, rule works_query, rule works_bind,
      rule works_lift [where x = 0], simp add: authorization_integer_def require_def)
    (simp add: works_ret)

lemma works_compose:
  "works (compose_commitment example_host payload) (FINNEY_GENESIS_HASH, commitment_args payload)"
  unfolding compose_commitment_def
  by (rule works_refusing, rule works_bind, rule works_chain_head, rule works_bind, rule works_host,
      rule works_ret)

lemma works_first_estimate:
  "works (first_estimate example_host address args) (7, CMap [(''partial_fee'', CInt 0)], example_era, args)"
  unfolding first_estimate_def
  by (rule works_refusing, rule works_bind, rule works_read_nonce, rule works_bind, rule works_host)
    (simp add: works_ret)

lemma works_prepare:
  "works (prepare_commitment example_host unsigned_config ''p'')
     (AUTHORIZED_HOTKEY_SS58, 7, example_era, commitment_args ''p'')"
proof -
  have payload: "ascii_payload ''p'' = Inr ''p''" by code_simp
  show ?thesis
    unfolding prepare_commitment_def
    by (rule works_bind, rule works_policy, rule works_bind, rule works_ready, rule works_bind,
        rule works_guard, simp, rule works_bind, rule works_registration, rule works_bind,
        rule works_lift, rule payload, rule works_bind, rule works_query, rule works_bind,
        rule works_guard, simp, rule works_bind, rule works_query, rule works_bind [where x = True],
        simp, rule works_bind, rule works_hotkey, simp add: works_ret, rule works_bind,
        rule works_guard, simp, rule works_bind, rule works_compose, simp only: prod.case,
        rule works_bind, rule works_composed, rule works_bind, rule works_guard, simp,
        rule works_bind, rule works_deposit, rule works_bind, rule works_guard,
        simp add: AUTHORIZED_MAX_DEPOSIT_RAO_def, rule works_bind, rule works_first_estimate,
        simp only: prod.case, rule works_bind, rule works_lift, rule example_zero_fee,
        rule works_bind, rule works_lift, rule example_values, rule works_bind, rule works_composed,
        rule works_bind, rule works_guard, simp)
      (simp add: works_ret)
qed

lemma works_sign:
  "works (sign_commitment example_host unsigned_config address 7 example_era (commitment_args ''p''))
     (FINNEY_GENESIS_HASH, commitment_args ''p'')"
  unfolding sign_commitment_def
  by (rule works_bind, rule works_refresh, rule works_bind, rule works_refresh_estimate,
      simp only: prod.case, rule works_bind, rule works_guard, rule example_values, rule works_bind,
      rule works_catch, rule works_host, rule works_bind, rule works_inspect, rule works_ret)

lemma works_broadcast: "works (broadcast_extrinsic example_host FINNEY_GENESIS_HASH) ()"
  unfolding broadcast_extrinsic_def
  by (rule works_bind, rule works_catch, rule works_host, rule works_bind, rule works_catch,
      rule works_lift, rule example_values, rule works_guard)
    (simp add: AUTHORIZED_MAX_FEE_RAO_def)

lemma works_submit:
  "works (submit_signed example_host unsigned_config address 7 example_era (commitment_args ''p'')
     FINNEY_GENESIS_HASH) ()"
  unfolding submit_signed_def
  by (rule works_bind, rule works_refresh, rule works_bind, rule works_refresh_estimate,
      simp only: prod.case, rule works_bind [where x = True],
      simp add: example_values works_composed del: chain_eq.simps,
      rule works_bind, rule works_guard, simp, rule works_bind, rule works_inspect, rule works_broadcast)

lemma works_submission: "works (submit_authorized_commitment example_host unsigned_config ''p'') ()"
  unfolding submit_authorized_commitment_def
  by (rule works_bind, rule works_prepare, simp only: prod.case, rule works_bind, rule works_sign,
      simp only: prod.case, rule works_submit)

lemma example_submission:
  "\<exists>s'. submit_authorized_commitment example_host unsigned_config ''p'' example_backend = (Inr (), s')"
  using works_submission by (auto simp: works_def same_backend_def)

theorem submission_guarded_witness:
  "\<exists>s'. submit_authorized_commitment example_host unsigned_config ''p'' example_backend = (Inr (), s') \<and>
     guarded_log (chain_allowed example_host unsigned_config AUTHORIZED_HOTKEY_SS58 ''p'') (be_log s')"
proof -
  from example_submission obtain s' where
    run: "submit_authorized_commitment example_host unsigned_config ''p'' example_backend = (Inr (), s')" ..
  from submission_guarded [OF run] run show ?thesis by (simp add: example_backend_def)
qed

theorem broadcast_outcome_witness:
  "\<exists>s' earlier. submit_authorized_commitment example_host unsigned_config ''p'' example_backend = (Inr (), s') \<and>
     be_log s' = Submitted True # earlier"
proof -
  from example_submission obtain s' where
    run: "submit_authorized_commitment example_host unsigned_config ''p'' example_backend = (Inr (), s')" ..
  from broadcast_outcome [OF run] run show ?thesis by (simp add: example_backend_def)
qed

end
