(* ===== verification/BackendExample.thy ===== *)
theory BackendExample
  imports BackendRuns ChainExample
begin

text \<open>
  A machine, an upstream package and a node on which the adapter publishes and reads back: the
  claims about the adapter are about runs that exist. The external state counts readbacks.
\<close>

section \<open>The services\<close>

definition example_digest :: string where
  "example_digest = ''sha256:'' @ replicate 64 CHR ''a''"

definition example_manifest :: manifest where
  "example_manifest =
     \<lparr>mf_round_index = 0, mf_source = release_prefix @ ''r0'', mf_hotkey = AUTHORIZED_HOTKEY_SS58,
      mf_digest = ''d'', mf_artifact_digest = example_digest, mf_files = [''model.gguf''],
      mf_total_bytes = 1, mf_sealed = False, mf_signature = ''s''\<rparr>"

definition service_stat :: stat_result where
  "service_stat =
     \<lparr>st_dev = 1, st_ino = 2, st_mode = 8 * 4096 + mode_0640, st_uid = 0, st_gid = 0, st_nlink = 1,
      st_size = 1, st_mtime_ns = 5, st_ctime_ns = 6\<rparr>"

definition service_session :: file_session where
  "service_session =
     \<lparr>path_absolute = True, has_nofollow = True, effective_uid = 0, effective_gid = 0,
      path_before = Some service_stat, open_succeeds = True, opened_before = Some service_stat,
      read_results = [Some ''b'', Some []], opened_after = Some service_stat,
      path_after = Some service_stat\<rparr>"

definition example_binding :: dict where
  "example_binding =
     [(''schema_version'', JInt 1), (''artifact_digest'', JStr example_digest),
      (''track'', JStr ''code''), (''hardware_class'', JStr ''mt-3g'')]"

definition example_parse :: "string \<Rightarrow> raw option" where
  "example_parse content =
     Some (RObj [(''schema_version'', RInt 1), (''artifact_digest'', RStr example_digest),
       (''track'', RStr ''code''), (''hardware_class'', RStr ''mt-3g'')])"

definition example_machine :: "nat machine" where
  "example_machine =
     \<lparr>os_lib = example_lib, os_decode = Some, os_parse = example_parse,
      os_is_dir = (\<lambda>_. ret True), os_is_file = (\<lambda>_. ret True), os_exists = (\<lambda>_. ret False),
      os_lstat = (\<lambda>_. ret (Some service_stat)), os_euid = ret 0, os_read_text = (\<lambda>_. ret []),
      os_protected = (\<lambda>_. ret service_session),
      os_competition = ret (service_session, example_tree ''w''),
      os_selfcheck = ret (0, None, None, [], None)\<rparr>"

text \<open>The commitment becomes visible at the third readback.\<close>

definition example_view :: "nat \<Rightarrow> string" where
  "example_view n = (if n < 2 then [] else ''p'')"

definition example_upstream :: "nat upstream" where
  "example_upstream =
     \<lparr>mt_packages = \<lparr>pk_version = ret None, pk_direct_url = ret None, pk_root = ret None,
        pk_installation = ret \<lparr>in_tree = example_walk [], in_file = example_reads\<rparr>,
        pk_constants = ret None\<rparr>,
      mt_missing = ret None, mt_is_competable = (\<lambda>_ _. ret True), mt_new_chain_config = (\<lambda>_. ret ()),
      mt_new_miner_config = (\<lambda>_. ret ()), mt_new_load_manifest = (\<lambda>_. ret ()), mt_load_wallet = ret (),
      mt_hotkey_address = ret AUTHORIZED_HOTKEY_SS58, mt_connect = ret (), mt_disconnect = ret (),
      mt_block = ret 5, mt_round_for_block = (\<lambda>_ _ _. Inr (0, 0, 10, 19)),
      mt_anchor = ret (Some (CInt 0, CStr ''h'')), mt_block_hash = (\<lambda>_. ret (CStr FINNEY_GENESIS_HASH)),
      mt_load_packaged = (\<lambda>_. ret None), mt_package = (\<lambda>_ _ _ _. ret example_manifest),
      mt_max_commitment_bytes = 128, mt_commitment_for = (\<lambda>_ _ _. ret ''p''), mt_encode = ret,
      mt_publishable_files = (\<lambda>m. ret (mf_files m)), mt_make_directory = (\<lambda>_. ret ()),
      mt_temporary = (\<lambda>_. ret ()), mt_fetch_manifest = (\<lambda>_ _. ret example_manifest),
      mt_verify_payload = (\<lambda>_. ret True), mt_materialise = (\<lambda>_ _ _. ret ()),
      mt_verdict = (\<lambda>_ _ _ _ _ _. ret (True, [])),
      mt_commitments = (\<lambda>_ n. (Inr (example_view n), Suc n)), mt_sleep = (\<lambda>_. ret ())\<rparr>"

definition example_https :: "nat https" where
  "example_https =
     \<lparr>hc_request = (\<lambda>_ _ _ _ _. throw (Exc OSError [])), hc_begin = (\<lambda>_ _ _. throw (Exc OSError [])),
      hc_send = (\<lambda>_. ret ()), hc_response = throw (Exc OSError []), hc_read = (\<lambda>_ _. ret [])\<rparr>"

definition example_local :: "nat local_files" where
  "example_local =
     \<lparr>lf_is_symlink = (\<lambda>_. ret False), lf_open = (\<lambda>_. ret 3), lf_fstat = (\<lambda>_. ret service_stat),
      lf_hash_reads = (\<lambda>_. ret [Some ''w'']), lf_rewind = (\<lambda>_. ret ()), lf_tell = (\<lambda>_. ret 0),
      lf_mime = (\<lambda>_. None)\<rparr>"

definition example_services :: "nat services" where
  "example_services =
     \<lparr>sv_chain = example_host, sv_upstream = example_upstream, sv_machine = example_machine,
      sv_https = example_https, sv_files = example_local\<rparr>"

lemma service_fields [simp]:
  "sv_chain example_services = example_host" "sv_upstream example_services = example_upstream"
  "sv_machine example_services = example_machine"
  by (simp_all add: example_services_def)

lemma works_ext:
  "f = ret x \<Longrightarrow> works (ext_do f) x"
  by (simp add: works_def ext_do_def same_backend_def)

section \<open>The run\<close>

lemma example_config_of: "works (build_miner_config example_services unsigned_config source)
    (miner_config_of unsigned_config source)"
  unfolding build_miner_config_def
  by (rule works_bind, rule works_ext, simp add: example_upstream_def, rule works_bind, rule works_ext,
      simp add: example_upstream_def, rule works_ret)

lemma works_if: "(b \<Longrightarrow> works m x) \<Longrightarrow> (\<not> b \<Longrightarrow> works n x) \<Longrightarrow> works (if b then m else n) x"
  by simp

lemma wrapped_fields [simp]:
  "k_native (wrapped m) = Some m" "k_sealed (wrapped m) = mf_sealed m"
  "k_hotkey (wrapped m) = mf_hotkey m" "k_source (wrapped m) = mf_source m"
  "k_round_index (wrapped m) = mf_round_index m" "k_artifact_digest (wrapped m) = mf_artifact_digest m"
  by (simp_all add: wrapped_def)

lemma example_manifest_fields [simp]:
  "mf_sealed example_manifest = False" "mf_hotkey example_manifest = AUTHORIZED_HOTKEY_SS58"
  "mf_signature example_manifest = ''s''" "mf_source example_manifest = release_prefix @ ''r0''"
  "mf_round_index example_manifest = 0" "mf_artifact_digest example_manifest = example_digest"
  by (simp_all add: example_manifest_def)

lemma works_commitment:
  "works (backend_validate_commitment example_services unsigned_config (wrapped example_manifest)) ''p''"
  unfolding backend_validate_commitment_def native_manifest_def encode_commitment_def
  by (rule works_bind [where x = example_manifest], simp add: works_ret,
      rule works_bind [where x = True], simp, rule works_bind, rule works_hotkey, simp add: works_ret,
      rule works_bind, rule works_guard, simp, rule works_bind, rule works_catch, rule works_bind,
      rule example_config_of, rule works_bind, rule works_ext, simp add: example_upstream_def,
      rule works_ext, simp add: example_upstream_def, rule works_bind, rule works_guard,
      simp add: example_upstream_def utf8_encode_def code_def, rule works_ret)

lemma example_competition:
  "\<exists>d. validate_artifact_competition_binding example_lib Some example_parse unsigned_config
     service_session (example_tree ''w'') = Inr d \<and> py_str (dget d ''artifact_digest'') = example_digest"
proof -
  have read: "read_private_binding service_session = Inr ''b''"
    by (simp add: read_private_binding_def read_root_service_file_def read_opened_def syscall_def
        service_session_def service_stat_def validate_def mode_defs mode_0640_def fingerprint_def
        MAX_ARTIFACT_COMPETITION_BINDING_BYTES_def)
  have object: "strict_json_object example_parse ''b'' = Inr example_binding"
    by (simp add: strict_json_object_def load_strict_def stop_of_def example_parse_def example_binding_def)
  have rx: "matches competition_digest_rx example_digest" "matches competition_name_rx ''code''"
    "matches competition_name_rx ''mt-3g''"
    by code_simp+
  have parsed: "parse_binding Some example_parse service_session = Inr example_binding"
    by (auto simp: parse_binding_def read object example_binding_def dget_def FIELDS_def rx)
  have "\<not> isl (artifact_digest example_lib (example_tree ''w''))" by code_simp
  then obtain a n where "artifact_digest example_lib (example_tree ''w'') = Inr (a, n)"
    by (cases "artifact_digest example_lib (example_tree ''w'')") auto
  moreover from this have "a = example_digest"
    by (auto simp: artifact_digest_def Let_def res_iffs example_digest_def example_lib_def)
  ultimately show ?thesis
    by (simp add: validate_artifact_competition_binding_def parsed unsigned_config_def example_config_def
        example_binding_def dget_def)
qed

lemma works_bound:
  "works (ext_do (assert_bound_artifact example_machine unsigned_config (wrapped example_manifest))) ()"
proof (rule works_ext)
  obtain d where "validate_artifact_competition_binding example_lib Some example_parse unsigned_config
      service_session (example_tree ''w'') = Inr d" "py_str (dget d ''artifact_digest'') = example_digest"
    using example_competition by blast
  then show "assert_bound_artifact example_machine unsigned_config (wrapped example_manifest) = ret ()"
    by (simp add: assert_bound_artifact_def validate_competition_binding_def example_machine_def
        lift_res_def pbind_def ret_def fun_eq_iff)
qed

lemma works_publish:
  "works (backend_publish example_services unsigned_config (wrapped example_manifest))
     \<lparr>r_round_index = 0, r_payload = ''p''\<rparr>"
  unfolding backend_publish_def service_fields
  by (rule works_bind, rule works_policy, rule works_bind, rule works_hotkey, rule works_bind,
      rule works_guard, simp, rule works_bind, rule works_catch, rule works_bind, rule works_lift,
      simp add: unsigned_source, rule works_ret, simp only: prod.case, rule works_bind,
      rule works_guard, simp, rule works_bind, rule works_guard, simp add: unsigned_repository,
      rule works_bind, rule works_commitment, rule works_bind, rule works_bound, rule works_bind,
      rule works_submission)
    (simp add: works_ret)


theorem verify_on_chain_confirms_witness:
  "fst (backend_verify_on_chain example_services unsigned_config (wrapped example_manifest) example_backend) =
     Inr ''p''"
proof -
  from works_commitment obtain s1 where commitment:
    "backend_validate_commitment example_services unsigned_config (wrapped example_manifest) example_backend =
      (Inr ''p'', s1)" "same_backend example_backend s1"
    by (auto simp: works_def same_backend_def)
  have serves: "serves_readbacks example_services (be_hotkey example_backend) (\<lambda>n. n) example_view"
    by (simp add: serves_readbacks_def example_upstream_def ret_def)
  have client: "be_hotkey example_backend \<noteq> []" "be_client example_backend"
    by (simp_all add: example_backend_def AUTHORIZED_HOTKEY_SS58_def)
  have "example_view (be_ext s1 + 2) = ''p'' \<and> 2 < nat (c_verify_attempts unsigned_config)"
    by (simp add: example_view_def unsigned_config_def example_config_def)
  then show ?thesis
    using verify_on_chain_confirms [OF serves client commitment(1)] by auto
qed

definition example_window :: round_window where
  "example_window = (make_window 0 0 10 20 ''evaluation'' ''coordinator'')\<lparr>w_config_hash := ''h'',
     w_seed_block := 10, w_block_hash := FINNEY_GENESIS_HASH\<rparr>"

theorem served_round_matches_chain_witness:
  "fst (backend_verify_round_anchor example_services example_config example_window example_backend) = Inr () \<and>
     be_client example_backend"
proof -
  have run: "backend_verify_round_anchor example_services example_config example_window example_backend =
      (Inr (), example_backend)"
    by (simp add: backend_verify_round_anchor_def verify_seed_hash_def example_window_def make_window_def
        client_ready_def has_client_def example_backend_def pbind_def catch_def ext_do_def
        example_upstream_def num_eq_def uses_signed_v030_def example_config_def example_values
        ret_def guard_def)
  from served_round_matches_chain [OF this] run show ?thesis by (simp add: example_window_def make_window_def)
qed

section \<open>Whole runs\<close>

definition adapter_world :: "(slot \<Rightarrow> jfile) \<Rightarrow> nat backend_state world" where
  "adapter_world files =
     \<lparr>disk = files, faults = [], ticks = 0, lock = LockFree, ext = example_backend, calls = [],
      stop_after = 2, remembered = None\<rparr>"

abbreviation adapter_run :: "controller_config \<Rightarrow> (slot \<Rightarrow> jfile) \<Rightarrow>
    (exc + int option) \<times> nat backend_state world" where
  "adapter_run c files \<equiv>
     run (microtensor_backend example_services c (\<lambda>_ _. throw (Exc OSError []))) c example_env False
       (adapter_world files)"

theorem run_signs_only_in_publish_witness:
  "driven example_services unsigned_config (calls (snd (adapter_run unsigned_config (\<lambda>_. Missing))))
     (be_log (ext (snd (adapter_run unsigned_config (\<lambda>_. Missing)))))"
proof -
  obtain r w' where run: "adapter_run unsigned_config (\<lambda>_. Missing) = (r, w')" by fastforce
  from run_signs_only_in_publish [OF run] run show ?thesis
    by (auto simp: adapter_world_def example_backend_def)
qed

end
