(* ===== verification/CycleExample.thy ===== *)
theory CycleExample
  imports SubmissionOutcome
begin

text \<open>
  A cycle that publishes. The backend serves one round by the chain schedule, packages, uploads
  and verifies everything, and knows one bit of chain state: whether the commitment was
  published. The cycle finds no commitment, publishes it, reads it back and clears its marker.
\<close>

section \<open>The backend\<close>

definition open_config :: controller_config where
  "open_config = example_config\<lparr>c_v030_activation_block := None, c_allow_chain_schedule_fallback := True\<rparr>"

definition packaged :: "int \<Rightarrow> string \<Rightarrow> packaged_artifact" where
  "packaged i s =
     \<lparr>k_round_index = i, k_source = s, k_hotkey = ''5Hotkey'', k_manifest_digest = ''m'',
      k_artifact_digest = ''d'', k_file_count = 1, k_total_bytes = 1, k_sealed = False, k_native = None\<rparr>"

definition serving_backend :: "bool backend" where
  "serving_backend =
     \<lparr>b_preflight = (\<lambda>x. (Inr example_snapshot, x)), b_block = (\<lambda>x. (Inr 100, x)),
      b_chain_round = (\<lambda>head x. (Inr (make_window 7 0 1000 2000 [] ''chain''), x)),
      b_fetch_round = (\<lambda>url timeout x. (Inl (refused ''coordinator unavailable''), x)),
      b_verify_round_anchor = (\<lambda>win x. (Inr (), x)), b_validate_round = (\<lambda>win x. (Inr (), x)),
      b_assert_registered = (\<lambda>x. (Inr (), x)), b_validate_competition = (\<lambda>x. (Inr ''d'', x)),
      b_load_local = (\<lambda>x. (Inr None, x)), b_package = (\<lambda>i s x. (Inr (packaged i s), x)),
      b_validate_commitment = (\<lambda>k x. (Inr ''commitment'', x)), b_upload = (\<lambda>k x. (Inr (), x)),
      b_verify_source = (\<lambda>k full x. (Inr (), x)), b_verify_provenance = (\<lambda>k b x. (Inr (), x)),
      b_verify_on_chain = (\<lambda>k x. (if x then Inr ''commitment'' else fail VerificationError ''no commitment'', x)),
      b_publish = (\<lambda>k x. (Inr \<lparr>r_round_index = k_round_index k, r_payload = ''commitment''\<rparr>, True)),
      b_close = (\<lambda>x. (Inr (), x))\<rparr>"

definition open_snapshot :: preflight_snapshot where
  "open_snapshot = example_snapshot\<lparr>p_hotkey := ''5Hotkey''\<rparr>"

definition open_world :: "bool world" where
  "open_world =
     \<lparr>disk = (\<lambda>_. Missing), faults = [], ticks = 0, lock = LockMine, ext = False, calls = [],
      stop_after = 2, remembered = None\<rparr>"

section \<open>Steps\<close>

text \<open>No write fails, the status can be read, and what is pending and published.\<close>

definition calm :: "jfile \<Rightarrow> bool \<Rightarrow> bool world \<Rightarrow> bool" where
  "calm pending published w \<longleftrightarrow>
     faults w = [] \<and> disk w Pending = pending \<and> ext w = published \<and> \<not> isl (read_file (disk w Status)) \<and>
     (published \<longrightarrow> list_ex (\<lambda>e. kind_of (ev_op e) = Publishing) (calls w))"

abbreviation surely :: "(bool world \<Rightarrow> bool) \<Rightarrow> (bool world, 'a) prog \<Rightarrow> ('a \<Rightarrow> bool world \<Rightarrow> bool) \<Rightarrow> bool" where
  "surely P m Q \<equiv> triple P m Q (\<lambda>_ _. False)"

lemma surely_step:
  assumes "surely P m (\<lambda>y w. y = x \<and> M w)" and "surely M (k x) Q"
  shows "surely P (pbind m k) Q"
  by (rule triple_pbind [OF assms(1)]) (use assms(2) in \<open>auto simp: triple_def\<close>)

lemma surely_bcall:
  assumes "f b = (Inr x, b')" and "b' \<longrightarrow> b \<or> kind_of op = Publishing"
  shows "surely (calm p b) (bcall op f) (\<lambda>y w. y = x \<and> calm p b' w)"
  using assms by (auto simp: triple_def bcall_def calm_def)

lemma surely_same:
  "f b = (Inr x, b) \<Longrightarrow> surely (calm p b) (bcall op f) (\<lambda>y w. y = x \<and> calm p b w)"
  by (rule surely_bcall) simp_all

lemma surely_lift: "surely P (lift_res (Inr x)) (\<lambda>y w. y = x \<and> P w)"
  by (simp add: triple_def lift_res_def)

lemma surely_ret: "surely P (ret x) (\<lambda>y w. y = x \<and> P w)"
  by (simp add: triple_def)

lemma surely_guard: "c \<Longrightarrow> surely P (guard c e) (\<lambda>y w. y = () \<and> P w)"
  by (simp add: triple_def guard_def)

text \<open>Redaction with the example library never fails, so every status write goes through.\<close>

lemma example_source_clean: "\<exists>t. safe_source example_lib s secrets = Inr t"
  by (auto simp: safe_source_def example_lib_def Let_def split: prod.split)

lemma example_clean:
  "\<exists>w. sanitize example_lib secrets key v = Inr w"
  "\<exists>ws. sanitize_list example_lib secrets vs = Inr ws"
  "\<exists>e. sanitize_items example_lib secrets d = Inr e"
proof (induction key v and vs and d rule: sourceless_sourceless_list_sourceless_items.induct)
  case (1 key v)
  then show ?case
    using example_source_clean by (subst sanitize.simps) (auto split: json.splits, metis map_sum.simps(2))
qed auto

lemma surely_write:
  "surely (calm p b) (write_state example_env ph ok msg now det pre) (\<lambda>_. calm p b)"
proof (rule tripleI)
  have never: "\<exists>q w'. write_state example_env ph ok msg now det pre w = (Inr q, w') \<and> calm p b w'"
    if calm: "calm p b w" for w
  proof -
    obtain d where d: "read_file (disk w Status) = Inr d"
      using calm by (cases "read_file (disk w Status)") (auto simp: calm_def)
    show ?thesis
    proof -
      define t where "t = (case now of None \<Rightarrow> of_nat (ticks w) | Some u \<Rightarrow> u)"
      define old where "old = (case pre of None \<Rightarrow> d | Some u \<Rightarrow> u)"
      obtain q where "sanitize_items example_lib [] (status_payload example_env t ph ok msg old det) = Inr q"
        using example_clean(3) by blast
      with calm d show ?thesis
        by (cases now; cases pre)
          (auto simp: write_state_def pbind_def timestamp_of_def tick_def example_env_def clean_def
            lift_res_def atomic_json_def change_entry_def read_slot_def calm_def t_def old_def ret_def
            read_file_def handled_load_def load_content_def)
    qed
  qed
  show "calm p b w'" if "calm p b w" "write_state example_env ph ok msg now det pre w = (Inr x, w')" for w x w'
    using never [OF that(1)] that(2) by auto
  show False if "calm p b w" "write_state example_env ph ok msg now det pre w = (Inl e, w')" for w e w'
    using never [OF that(1)] that(2) by auto
qed

lemma surely_report:
  "surely (calm p b) (report example_env ph msg det) (\<lambda>y w. y = () \<and> calm p b w)"
  unfolding report_def by (rule triple_pbind [OF surely_write]) (rule surely_ret)

lemma surely_tick: "surely (calm p b) (tick example_env) (\<lambda>_. calm p b)"
  by (simp add: triple_def tick_def calm_def)

lemma surely_read: "surely (calm p b) read_status (\<lambda>_. calm p b)"
  by (auto simp: triple_def read_slot_def calm_def isl_def split: sum.split)

section \<open>The round and the marker\<close>

definition open_window :: round_window where
  "open_window = fallback_window 100 (make_window 7 0 1000 2000 [] ''chain'')"

lemma open_window_fields:
  "w_index open_window = 7" "w_source open_window = ''chain-fallback''"
  "accepts_at open_window 100 40"
  by (simp_all add: open_window_def fallback_window_def make_window_def accepts_at_def accepts_submissions_def)

lemmas serving = serving_backend_def open_config_def example_config_def uses_signed_v030_def

text \<open>A statement sequence whose first part returns nothing of interest.\<close>

lemma surely_seq: "surely P m (\<lambda>_. M) \<Longrightarrow> (\<And>y. surely M (k y) Q) \<Longrightarrow> surely P (pbind m k) Q"
  by (rule triple_pbind)

lemma surely_resolve:
  "surely (calm p b) (controller_resolve_round serving_backend open_config example_env 100)
     (\<lambda>y w. y = open_window \<and> calm p b w)"
  unfolding controller_resolve_round_def
  apply (rule surely_step [where x = "make_window 7 0 1000 2000 [] ''chain''"], rule surely_same, simp add: serving)
  apply (rule surely_seq [OF surely_read])
  apply (rule surely_step [where x = "Inl (refused ''coordinator unavailable'')" and M = "calm p b"])
   apply (simp add: triple_def attempt_def bcall_def calm_def serving)
  apply (rule surely_step [where x = open_window and M = "calm p b"])
   apply (simp add: triple_def lift_res_def resolve_round_def open_window_def refused_def
      round_request_of_def serving)
  apply (rule surely_step [where x = "()" and M = "calm p b"])
   apply (simp add: triple_def catch_def pbind_def bcall_def calm_def serving)
  apply (rule surely_step [where x = "()" and M = "calm p b"])
   apply (subst if_not_P, simp add: open_window_fields, rule surely_ret)
  by (rule surely_ret)

lemma surely_refresh:
  "surely (calm p b) (refresh_same_round serving_backend open_config example_env open_window)
     (\<lambda>y w. y = (100, open_window) \<and> calm p b w)"
  unfolding refresh_same_round_def
  apply (rule surely_step [where x = 100], rule surely_same, simp add: serving)
  apply (rule surely_step [OF surely_guard], simp add: serving)
  apply (rule surely_step [OF surely_resolve])
  apply (rule surely_step [OF surely_guard], simp)
  by (rule surely_ret)

lemma surely_deadline:
  "surely (calm p b) (assert_deadline open_config open_window 100 action) (\<lambda>y w. y = () \<and> calm p b w)"
  unfolding assert_deadline_def
  by (rule surely_guard) (use open_window_fields(3) in \<open>simp add: serving\<close>)

lemma surely_registered:
  "surely (calm p b) (bcall AssertRegistered (b_assert_registered serving_backend)) (\<lambda>y w. y = () \<and> calm p b w)"
  by (rule surely_bcall) (simp_all add: serving_backend_def)

lemma surely_binding:
  "surely (calm p b) (assert_packaged_binding serving_backend (packaged i s)) (\<lambda>y w. y = () \<and> calm p b w)"
  unfolding assert_packaged_binding_def
  apply (rule surely_step [where x = "''d''"], rule surely_same, simp add: serving_backend_def)
  by (rule surely_guard) (simp add: packaged_def)

text \<open>The marker that is written for the round's source.\<close>

abbreviation open_source :: string where "open_source \<equiv> release_prefix @ ''r7''"
abbreviation open_package :: packaged_artifact where "open_package \<equiv> packaged 7 open_source"
abbreviation open_fingerprint :: string where
  "open_fingerprint \<equiv> payload_fingerprint example_env ''commitment''"

definition open_marker :: "int \<Rightarrow> rat \<Rightarrow> dict" where
  "open_marker block now =
     pending_core 7 open_source ''5Hotkey'' open_fingerprint @
     [(''created_at'', JStr ''T''), (''created_at_epoch'', JFloat (Fin now)), (''provenance_block'', JInt block)]"

lemma open_fingerprint_ok:
  "valid_fingerprint (JStr open_fingerprint)" "redact_text open_fingerprint [] = open_fingerprint"
proof -
  have fp: "open_fingerprint = ''sha256:'' @ replicate 64 CHR ''a''"
    by (simp add: payload_fingerprint_def example_env_def example_lib_def)
  show "valid_fingerprint (JStr open_fingerprint)" unfolding fp by code_simp
  have "unremarkable (''sha256:'' @ replicate 64 CHR ''a'')"
    by (rule digest_unremarkable) (simp_all add: list_all_iff is_hex_def code_def)
  then show "redact_text open_fingerprint [] = open_fingerprint"
    unfolding fp by (simp add: redact_text_unremarkable)
qed

lemma open_marker_clean:
  "sanitize_items example_lib []
     (pending_payload example_env 7 open_source ''5Hotkey'' open_fingerprint [(''provenance_block'', JInt block)] now)
   = Inr (open_marker block now)"
proof -
  have plain: "redact_text ''5Hotkey'' [] = ''5Hotkey''" "redact_text ''T'' [] = ''T''"
    "safe_source example_lib open_source [] = Inr open_source"
    by code_simp+
  have keys: "py_lower ''source'' = ''source''" "py_lower ''hotkey'' \<noteq> ''source''"
    "py_lower ''commitment_fingerprint'' \<noteq> ''source''" "py_lower ''created_at'' \<noteq> ''source''"
    "\<not> sensitive_key ''created_at''" "\<not> sensitive_key ''created_at_epoch''"
    "\<not> sensitive_key ''provenance_block''"
    by code_simp+
  have utc: "e_utc example_env t = ''T''" for t by (simp add: example_env_def)
  show ?thesis
    using plain keys reserved_keys_plain open_fingerprint_ok(2)
    by (simp add: pending_payload_def pending_core_def dict_update_def Let_def open_marker_def utc
        sanitize_scalar sanitize_text sanitize_source)
qed

lemma open_marker_read: "pending_of (holds (open_marker block now)) = Inr (open_marker block now)"
proof -
  have "valid_pending (open_marker block now)"
    using open_fingerprint_ok(1)
    by (simp add: valid_pending_def open_marker_def pending_core_def dget_def nonempty_text_def
        release_prefix_def SCHEMA_VERSION_def num_eq_def)
  moreover have "open_marker block now \<noteq> []" by (simp add: open_marker_def pending_core_def)
  ultimately show ?thesis by (simp add: pending_of_doc)
qed

lemma surely_record:
  "surely (calm Missing b) (record_pending example_env open_package open_fingerprint block)
     (\<lambda>y w. y = () \<and> (\<exists>now. calm (holds (open_marker block now)) b w))"
proof -
  have run: "\<exists>now w'. record_pending example_env open_package open_fingerprint block w = (Inr (), w') \<and>
      calm (holds (open_marker block now)) b w'" if calm: "calm Missing b w" for w
  proof -
    define now where "now = e_time example_env (ticks w)"
    have lib: "e_lib example_env = example_lib" "e_secrets example_env = []" by (simp_all add: example_env_def)
    from calm open_fingerprint_ok(1) open_marker_clean [of block now] show ?thesis
      by (intro exI [of _ now])
        (auto simp: record_pending_def or_refuse_def catch_def pbind_def tick_def guard_def clean_def
          mark_submission_pending_def timestamp_of_def calm_def read_submission_pending_def pending_of_def
          read_marker_def atomic_json_def change_entry_def lift_res_def packaged_def ret_def lib
          now_def [symmetric])
  qed
  show ?thesis
  proof (rule tripleI)
    fix w y w'
    assume "calm Missing b w" "record_pending example_env open_package open_fingerprint block w = (Inr y, w')"
    with run [of w] show "y = () \<and> (\<exists>now. calm (holds (open_marker block now)) b w')" by auto
  next
    fix w e w'
    assume "calm Missing b w" "record_pending example_env open_package open_fingerprint block w = (Inl e, w')"
    with run [of w] show False by auto
  qed
qed

lemma surely_clear:
  "surely (calm (holds (open_marker block now)) b) (or_refuse t (clear_submission_pending open_fingerprint))
     (\<lambda>y w. y = () \<and> calm Missing b w)"
  using open_marker_read [of block now]
  by (auto simp: triple_def or_refuse_def catch_def pbind_def guard_def clear_submission_pending_def
      read_submission_pending_def calm_def unlink_pending_def change_entry_def)
    (simp_all add: open_marker_def pending_core_def dget_def)

section \<open>The cycle\<close>


lemma triple_ex: "(\<And>x. triple (P x) m Q X) \<Longrightarrow> triple (\<lambda>w. \<exists>x. P x w) m Q X"
  by (fastforce simp: triple_def split: prod.splits sum.splits)

lemma surely_verified:
  "surely (calm p b) (verified example_env win k payload common True msg) (\<lambda>y w. y = ''verified'' \<and> calm p b w)"
  unfolding verified_def Let_def mark_verified_def
  apply (rule surely_step [OF surely_guard], simp add: proofs_complete_def)
  apply (rule surely_seq [OF surely_tick])
  apply (rule surely_seq [where M = "calm p b"])
   apply (rule surely_seq [where M = "calm p b"])
    apply (simp add: timestamp_of_def triple_def)
   apply (rule surely_write)
  by (rule surely_ret)

lemma surely_broadcast:
  "surely (calm p False) (broadcast serving_backend example_env det open_package open_fingerprint)
     (\<lambda>y w. y = ''commitment'' \<and> calm p True w)"
  unfolding broadcast_def
  apply (rule surely_step [where x = "\<lparr>r_round_index = 7, r_payload = ''commitment''\<rparr>" and M = "calm p True"])
   apply (rule surely_bcall, simp add: serving_backend_def packaged_def, simp)
  apply (rule surely_step [OF surely_guard], simp add: packaged_def)
  apply (rule surely_step [OF surely_report])
  apply (rule surely_step [where x = "''commitment''"], rule surely_same, simp add: serving_backend_def)
  apply (rule surely_step [OF surely_guard], simp)
  by (rule surely_ret)

lemma surely_checks:
  "surely (calm p b) (broadcast_checks serving_backend open_config example_env open_window open_package)
     (\<lambda>y w. y = () \<and> calm p b w)"
  unfolding broadcast_checks_def
  apply (rule surely_step [OF surely_refresh], simp only: prod.case)
  apply (rule surely_step [OF surely_deadline])
  apply (rule surely_step [OF surely_registered])
  by (rule surely_binding)

lemma surely_else: "\<not> c \<Longrightarrow> surely P n Q \<Longrightarrow> surely P (if c then m else n) Q"
  by simp

lemma surely_catch: "surely P m Q \<Longrightarrow> surely P (catch m h) Q"
  by (rule triple_catch, assumption) (simp add: triple_def)

lemma surely_publish:
  "surely (calm Missing False)
     (publish_commitment serving_backend open_config example_env open_window det open_package ''commitment'' block)
     (\<lambda>y w. y = ''commitment'' \<and> calm Missing True w)"
  unfolding publish_commitment_def Let_def
  apply (rule surely_step [OF surely_refresh], simp only: prod.case)
  apply (rule surely_step [OF surely_deadline])
  apply (rule surely_step [OF surely_report])
  apply (rule surely_step [OF surely_registered])
  apply (rule surely_step [OF surely_record])
  apply (rule surely_step [where x = "()" and M = "\<lambda>w. \<exists>now. calm (holds (open_marker block now)) False w"])
   apply (rule surely_catch)
   apply (rule triple_ex)
   apply (rule triple_conseq [OF surely_checks], assumption, blast, assumption)
  apply (rule surely_step [where x = "''commitment''" and M = "\<lambda>w. \<exists>now. calm (holds (open_marker block now)) True w"])
   apply (unfold broadcast_outcome_def, rule surely_catch)
   apply (rule triple_ex)
   apply (rule triple_conseq [OF surely_broadcast], assumption, blast, assumption)
  apply (rule surely_step [where x = "()" and M = "calm Missing True"])
   apply (rule triple_ex, rule surely_clear)
  by (rule surely_ret)


lemma surely_select:
  "surely (calm p b) (select_package serving_backend open_config example_env open_window 100 open_source common False None)
     (\<lambda>y w. y = open_package \<and> calm p b w)"
  unfolding select_package_def
  apply (rule surely_else, simp)
  apply (rule surely_step [OF surely_deadline])
  apply (rule surely_step [OF surely_report])
  apply (rule surely_step [where x = open_package], rule surely_same, simp add: serving_backend_def open_window_fields)
  apply (rule surely_step [OF surely_guard], simp add: packaged_def)
  by (rule surely_ret)

lemma surely_remote:
  "surely (calm p b) (ensure_remote serving_backend open_config example_env open_window det False open_package)
     (\<lambda>y w. y = () \<and> calm p b w)"
  unfolding ensure_remote_def
  apply (rule surely_step [where x = False and M = "calm p b"])
   apply (rule surely_else, simp, rule surely_ret)
  apply (rule surely_else, simp)
  apply (rule surely_step [OF surely_refresh], simp only: prod.case)
  apply (rule surely_step [OF surely_deadline])
  apply (rule surely_step [OF surely_report])
  apply (rule surely_step [OF surely_binding])
  apply (rule surely_step [where x = "()"], rule surely_same, simp add: serving_backend_def)
  apply (rule surely_step [OF surely_report])
  by (rule surely_same) (simp add: serving_backend_def)

lemma surely_chain:
  "surely (calm Missing False)
     (catch (bcall (VerifyOnChain open_package) (b_verify_on_chain serving_backend open_package)) (\<lambda>e.
        if isinstance e VerificationError
        then publish_commitment serving_backend open_config example_env open_window det open_package ''commitment'' block
        else throw e))
     (\<lambda>y w. y = ''commitment'' \<and> calm Missing True w)"
proof (rule triple_catch)
  show "triple (calm Missing False) (bcall (VerifyOnChain open_package) (b_verify_on_chain serving_backend open_package))
      (\<lambda>y w. y = ''commitment'' \<and> calm Missing True w)
      (\<lambda>e w. isinstance e VerificationError \<and> calm Missing False w)"
    by (simp add: triple_def bcall_def calm_def serving_backend_def)
  show "surely (\<lambda>w. isinstance e VerificationError \<and> calm Missing False w)
      (if isinstance e VerificationError
       then publish_commitment serving_backend open_config example_env open_window det open_package ''commitment'' block
       else throw e)
      (\<lambda>y w. y = ''commitment'' \<and> calm Missing True w)" for e
    using surely_publish [of det block] by (cases "isinstance e VerificationError") (simp_all add: triple_def)
qed

lemma surely_submit:
  "surely (calm Missing False)
     (submit serving_backend open_config example_env open_snapshot open_window 100 open_source None)
     (\<lambda>y w. y = ''verified'' \<and> calm Missing True w)"
proof -
  have new: "local_matches None i s h = False" for i s h by (simp add: local_matches_def)
  show ?thesis
    unfolding submit_def Let_def new
    apply (rule surely_step [where x = "''d''"], rule surely_same, simp add: serving_backend_def)
    apply (rule surely_step [OF surely_registered])
    apply (rule surely_step [OF surely_select])
    apply (rule surely_step [OF surely_guard], simp add: packaged_def)
    apply (rule surely_step [OF surely_report])
    apply (rule surely_step [where x = "''commitment''"], rule surely_same, simp add: serving_backend_def)
    apply (rule surely_step [where x = 100], rule surely_same, simp add: serving_backend_def)
    apply (rule surely_step [OF surely_report])
    apply (rule surely_step [where x = "()"], rule surely_same, simp add: serving_backend_def)
    apply (rule surely_step [OF surely_remote])
    apply (rule surely_step [OF surely_chain])
    by (rule surely_verified)
qed

lemma open_source_for: "source_for open_config 7 ''5Hotkey'' = Inr open_source"
  using example_source by (simp add: open_config_def source_for_def example_config_def)

lemma open_cycle:
  "\<exists>w'. cycle serving_backend open_config example_env open_snapshot open_world = (Inr ''verified'', w') \<and>
     calm Missing True w'"
proof -
  have unlatched: "surely (\<lambda>w. w = open_world) refuse_if_latched (\<lambda>y w. y = () \<and> calm Missing False w)"
    by (simp add: triple_def refuse_if_latched_def authorization_latch_reason_def pbind_def try_else_def
        read_authorization_refusal_def refusal_of_def read_marker_def read_slot_def read_file_def
        open_world_def calm_def dget_def)
  have pending: "surely (calm Missing b) read_submission_pending (\<lambda>y w. y = [] \<and> calm Missing b w)" for b
    by (simp add: triple_def read_submission_pending_def calm_def pending_of_def read_marker_def)
  have "surely (\<lambda>w. w = open_world) (cycle serving_backend open_config example_env open_snapshot)
      (\<lambda>y w. y = ''verified'' \<and> calm Missing True w)"
    unfolding cycle_def Let_def
    apply (rule surely_step [OF unlatched])
    apply (rule surely_step [OF surely_registered])
    apply (rule surely_step [where x = 100], rule surely_same, simp add: serving_backend_def)
    apply (rule surely_else, simp add: open_config_def)
    apply (rule surely_step [OF surely_resolve])
    apply (rule surely_step [where x = open_source and M = "calm Missing False"])
     apply (simp add: open_window_fields open_source_for open_snapshot_def surely_lift del: One_nat_def)
    apply (rule surely_seq [OF surely_read])
    apply (rule surely_step [OF pending])
    apply (rule surely_else, simp)
    apply (rule surely_else, simp add: open_config_def example_config_def)
    apply (rule surely_step [where x = None], rule surely_same, simp add: serving_backend_def)
    apply (rule surely_else, simp add: open_config_def example_config_def open_window_fields)
    apply (rule surely_else, simp add: local_matches_def)
    by (rule surely_submit)
  then show ?thesis
    by (cases "cycle serving_backend open_config example_env open_snapshot open_world";
        cases "fst (cycle serving_backend open_config example_env open_snapshot open_world)")
      (auto simp: triple_def)
qed

text \<open>C5 on this cycle: the second way of ending, with the commitment read back.\<close>

theorem publication_outcome_witness:
  "\<exists>w' k. cycle serving_backend open_config example_env open_snapshot open_world = (Inr ''verified'', w') \<and>
     list_ex (publishes k) (calls w') \<and> confirmed serving_backend example_env k w' \<and> disk w' Pending = Missing"
proof -
  obtain w' where run: "cycle serving_backend open_config example_env open_snapshot open_world = (Inr ''verified'', w')"
    and published: "list_ex (\<lambda>e. kind_of (ev_op e) = Publishing) (calls w')"
    using open_cycle by (auto simp: calm_def)
  have "calls open_world = []" by (simp add: open_world_def)
  with publication_outcome [OF run] published
  obtain k where "publication_settled serving_backend example_env k None w'" by auto
  then have "list_ex (publishes k) (recent (calls w'))" "confirmed serving_backend example_env k w'"
    "disk w' Pending = Missing"
    by (auto simp: publication_settled_def)
  moreover from this(1) have "list_ex (publishes k) (calls w')"
    by (auto simp: list_ex_iff recent_def dest: set_takeWhileD)
  ultimately show ?thesis using run by blast
qed

end
