(* ===== verification/Cli.thy ===== *)
theory Cli
  imports BackendRuns EnvFile Redaction
begin

text \<open>
  \<^verbatim>\<open>cli.py\<close>: the five commands of the program and \<open>main\<close>. The argument parser delivers an
  \<open>arguments\<close> record; logging and signal registration are left out, the stop event of \<open>run\<close>
  belongs to the world. The process has an environment, one world per state directory (what
  the directory holds and what a controller started there meets), the binding files, and what
  it printed on standard output and standard error, newest first.
\<close>

section \<open>The process\<close>

datatype command =
    PreflightCommand | RunCommand bool | BindSelfcheck
  | StatusCommand "string option" bool | HealthCommand "string option" bool "int option"

record arguments =
  ar_env_file :: "string option"
  ar_command :: command

record 'x process =
  ps_environ :: environ
  ps_world :: "string \<Rightarrow> 'x backend_state world"
  ps_binding :: "string \<Rightarrow> (dict \<times> stat_result) option"
  ps_out :: "(dict \<times> bool) list"
  ps_err :: "string list"

text \<open>
  \<open>co_path\<close> stands for \<open>Path(raw).expanduser().absolute()\<close>, \<open>co_items\<close> for the pairs of the
  environment in some order, \<open>co_session\<close> for one protected read of a path; \<open>co_bind\<close> is what
  \<open>bind-selfcheck\<close> observes, and \<open>co_bind_fault\<close> a failure while it writes. \<open>co_interrupt\<close> is
  the step of \<open>main\<close> at which a \<open>KeyboardInterrupt\<close> arrives, if one does: before the environment
  file, before the handler, or after it. (Once \<open>run\<close> has registered its signal handlers an
  interrupt sets the stop event instead; one inside an operation of another module is left out.)
\<close>

record 'x console =
  co_services :: "'x services"
  co_fetch :: "string \<Rightarrow> int \<Rightarrow> ('x, dict) prog"
  co_store :: store_env
  co_path :: "string \<Rightarrow> string res"
  co_interrupt :: "nat option"
  co_items :: "environ \<Rightarrow> (string \<times> string) list"
  co_session :: "string \<Rightarrow> file_session"
  co_bind :: "controller_config \<Rightarrow> int \<times> stat_result \<times> tree \<times> string option"
  co_bind_fault :: "exc option"

definition secrets_of :: "'x console \<Rightarrow> environ \<Rightarrow> string list" where
  "secrets_of T env = secret_values (co_items T env)"

definition store_of :: "'x console \<Rightarrow> environ \<Rightarrow> store_env" where
  "store_of T env = (co_store T)\<lparr>e_secrets := secrets_of T env\<rparr>"

text \<open>\<open>_print_json\<close>; the second component is \<open>compact\<close>.\<close>

definition print_json :: "dict \<Rightarrow> bool \<Rightarrow> ('x process, unit) prog" where
  "print_json payload one_line = (\<lambda>p. (Inr (), p\<lparr>ps_out := (payload, one_line) # ps_out p\<rparr>))"

definition complain :: "string \<Rightarrow> ('x process, unit) prog" where
  "complain t = (\<lambda>p. (Inr (), p\<lparr>ps_err := t # ps_err p\<rparr>))"

definition in_directory ::
    "string \<Rightarrow> ('x backend_state world, 'a) prog \<Rightarrow> ('x process, 'a) prog" where
  "in_directory path m = (\<lambda>p. case m (ps_world p path) of (r, w) \<Rightarrow>
     (r, p\<lparr>ps_world := (ps_world p)(path := w)\<rparr>))"

text \<open>A new \<open>MicrotensorBackend\<close> and a new \<open>Controller\<close> on a directory.\<close>

definition fresh_controller :: "('x backend_state world, unit) prog" where
  "fresh_controller = (\<lambda>w. (Inr (), w\<lparr>remembered := None,
     ext := (ext w)\<lparr>be_wallet := False, be_client := False, be_hotkey := [], be_commit := []\<rparr>\<rparr>))"

section \<open>The commands\<close>

text \<open>\<open>_runtime\<close>: the configuration, and the secrets of the environment at this moment.\<close>

definition runtime :: "'x console \<Rightarrow> ('x process, controller_config \<times> store_env) prog" where
  "runtime T =
     pbind (read_world ps_environ) (\<lambda>env.
     pbind (lift_res (from_env (co_path T) env)) (\<lambda>config.
     ret (config, store_of T env)))"

definition preflight_command :: "'x console \<Rightarrow> ('x process, int option) prog" where
  "preflight_command T =
     pbind (runtime T) (\<lambda>(config, E).
     in_directory (c_state_dir config) (pseq fresh_controller (
       pbind (preflight_only (microtensor_backend (co_services T) config (co_fetch T)) config E)
         (\<lambda>n. ret (Some n)))))"

definition run_command :: "'x console \<Rightarrow> bool \<Rightarrow> ('x process, int option) prog" where
  "run_command T once =
     pbind (runtime T) (\<lambda>(config, E).
     in_directory (c_state_dir config) (pseq fresh_controller (
       run (microtensor_backend (co_services T) config (co_fetch T)) config E once)))"

definition bind_selfcheck :: "'x console \<Rightarrow> ('x process, int option) prog" where
  "bind_selfcheck T =
     pbind (read_world ps_environ) (\<lambda>env.
     pbind (lift_res (from_env (co_path T) env)) (\<lambda>config.
     pbind (lift_res (case co_bind T config of (euid, temporary, listing, selfcheck) \<Rightarrow>
              write_binding (e_lib (co_store T)) config euid temporary listing selfcheck)) (\<lambda>(payload, meta).
     pseq (case co_bind_fault T of Some e \<Rightarrow> throw e
           | None \<Rightarrow> (\<lambda>p. (Inr (), p\<lparr>ps_binding :=
               (ps_binding p)(c_selfcheck_binding_path config \<mapsto> (payload, meta))\<rparr>))) (
     pseq (print_json payload False) (ret (Some 0))))))"

definition state_root :: "'x console \<Rightarrow> environ \<Rightarrow> string option \<Rightarrow> string res" where
  "state_root T env given =
     co_path T (case given of Some path \<Rightarrow> path
       | None \<Rightarrow> env_get env ''MMC_STATE_DIR'' ''/var/lib/microtensor-miner/controller'')"

definition status_command :: "'x console \<Rightarrow> string option \<Rightarrow> bool \<Rightarrow> ('x process, int option) prog" where
  "status_command T given one_line =
     pbind (read_world ps_environ) (\<lambda>env.
     pbind (lift_res (state_root T env given)) (\<lambda>root_dir.
     pbind (in_directory root_dir read_status) (\<lambda>found.
     let payload = (if found = [] then
           [(''ok'', JBool False), (''phase'', JStr ''missing''), (''message'', JStr ''no status has been written'')]
         else found) in
     pseq (print_json payload one_line) (ret (Some (if dget payload ''ok'' = JBool True then 0 else 2))))))"

definition health_command ::
    "'x console \<Rightarrow> string option \<Rightarrow> bool \<Rightarrow> int option \<Rightarrow> ('x process, int option) prog" where
  "health_command T given one_line max_age_seconds =
     pbind (read_world ps_environ) (\<lambda>env.
     case py_int (strip (env_get env ''MMC_HEALTH_MAX_AGE_SECONDS'' ''180'')) of
       None \<Rightarrow> throw (Exc ValueError ''invalid literal for int() with base 10'')
     | Some default_age \<Rightarrow>
         pbind (lift_res (state_root T env given)) (\<lambda>root_dir.
         pbind (in_directory root_dir
                  (health (store_of T env) (case max_age_seconds of Some m \<Rightarrow> m | None \<Rightarrow> default_age) None))
           (\<lambda>(ok, payload).
         pseq (print_json payload one_line) (ret (Some (if ok then 0 else 2))))))"

section \<open>The program\<close>

fun handler :: "'x console \<Rightarrow> command \<Rightarrow> ('x process, int option) prog" where
  "handler T PreflightCommand = preflight_command T"
| "handler T (RunCommand once) = run_command T once"
| "handler T BindSelfcheck = bind_selfcheck T"
| "handler T (StatusCommand given one_line) = status_command T given one_line"
| "handler T (HealthCommand given one_line max_age) = health_command T given one_line max_age"

text \<open>The default of \<open>--env-file\<close> in \<open>build_parser\<close>.\<close>

definition env_file_argument :: "environ \<Rightarrow> string option \<Rightarrow> string option" where
  "env_file_argument env given =
     (case given of Some path \<Rightarrow> Some path
      | None \<Rightarrow> (if env_get env ''MMC_ENV_FILE'' [] = [] then None else env ''MMC_ENV_FILE''))"

definition load_environment :: "'x console \<Rightarrow> string \<Rightarrow> ('x process, unit) prog" where
  "load_environment T path =
     pbind (lift_res (co_path T path)) (\<lambda>resolved p.
     case load_env_file (os_decode (sv_machine (co_services T))) (co_session T resolved) (ps_environ p) of
       (r, env) \<Rightarrow> (map_sum id (\<lambda>_. ()) r, p\<lparr>ps_environ := env\<rparr>))"

definition interrupt_point :: "'x console \<Rightarrow> nat \<Rightarrow> ('x process, unit) prog" where
  "interrupt_point T step =
     (if co_interrupt T = Some step then throw (Exc KeyboardInterrupt []) else ret ())"

text \<open>The body of the \<open>try\<close> statement of \<open>main\<close>.\<close>

definition main_body :: "'x console \<Rightarrow> arguments \<Rightarrow> string option \<Rightarrow> ('x process, int option) prog" where
  "main_body T args env_file =
     pseq (interrupt_point T 0) (
     pseq (case env_file of None \<Rightarrow> ret () | Some path \<Rightarrow> load_environment T path) (
     pseq (interrupt_point T 1) (
     pbind (handler T (ar_command args)) (\<lambda>n.
     pseq (case ar_command args of RunCommand once \<Rightarrow> ret () | _ \<Rightarrow> interrupt_point T 2)
     (ret n)))))"

definition cli_main :: "'x console \<Rightarrow> arguments \<Rightarrow> ('x process, int option) prog" where
  "cli_main T args =
     pbind (read_world ps_environ) (\<lambda>started.
     catch (main_body T args (env_file_argument started (ar_env_file args)))
       (\<lambda>e. if isinstance e ConfigError then
              pbind (read_world ps_environ) (\<lambda>env.
              pseq (complain (''configuration refused: '' @ redact_text (exc_text e) (secrets_of T env)))
                (ret (Some 2)))
            else if isinstance e KeyboardInterrupt then ret (Some 130)
            else throw e))"

section \<open>Exit codes\<close>

lemma preflight_only_codes:
  "fst (preflight_only B c E w) \<in> range Inl \<union> Inr ` {0, 1, 2, 3}"
proof -
  obtain r w' where run: "preflight_only B c E w = (r, w')" by fastforce
  then have "r \<in> range Inl \<union> Inr ` {0, 1, 2, 3}" unfolding preflight_only_def
  proof (cases rule: with_lock_cases)
    case (held w1)
    from held(2) show ?thesis
      by (cases rule: finally_cases)
        (auto simp: catch_def pbind_def ret_def split: sum.splits if_splits prod.splits)
  qed auto
  with run show ?thesis by simp
qed

text \<open>\<open>exits m\<close>: whatever the process is, \<open>m\<close> raises or returns one of the exit codes.\<close>

definition exits :: "('s, int option) prog \<Rightarrow> bool" where
  "exits m \<longleftrightarrow> (\<forall>p. fst (m p) \<in> range Inl \<union> Inr ` Some ` {0, 1, 2, 3})"

lemma exits_pbind: "(\<And>x. exits (k x)) \<Longrightarrow> exits (pbind m k)"
  by (auto simp: exits_def pbind_def split: prod.split sum.split)

lemma exits_in_directory: "exits m \<Longrightarrow> exits (in_directory path m)"
  by (simp add: exits_def in_directory_def split: prod.split) (metis fst_conv)

lemma exits_ret: "n \<in> {0, 1, 2, 3} \<Longrightarrow> exits (ret (Some n))"
  by (auto simp: exits_def ret_def)

lemma exits_throw: "exits (throw e)"
  by (simp add: exits_def throw_def)

lemma exits_run: "exits (run B c E once)"
  using run_returns_exit_code unfolding exits_def by blast

lemma exits_preflight: "exits (pbind (preflight_only B c E) (\<lambda>n. ret (Some n)))"
  unfolding exits_def
proof
  fix w
  show "fst (pbind (preflight_only B c E) (\<lambda>n. ret (Some n)) w) \<in> range Inl \<union> Inr ` Some ` {0, 1, 2, 3}"
    using preflight_only_codes [of B c E w]
    by (auto simp: pbind_def ret_def split: prod.split sum.split)
qed

lemma exits_handler: "exits (handler T command)"
  by (cases command)
    (auto simp: preflight_command_def run_command_def bind_selfcheck_def status_command_def
      health_command_def Let_def
      intro!: exits_pbind exits_in_directory exits_run exits_preflight exits_ret exits_throw
      split: option.split prod.split if_splits)

lemma exits_then:
  assumes "exits m"
  shows "exits (pbind m (\<lambda>n. pseq u (ret n)))"
  unfolding exits_def
proof
  fix p
  obtain r q where "m p = (r, q)" by fastforce
  moreover from this assms have "r \<in> range Inl \<union> Inr ` Some ` {0, 1, 2, 3}"
    unfolding exits_def by (metis fst_conv)
  ultimately show "fst (pbind m (\<lambda>n. pseq u (ret n)) p) \<in> range Inl \<union> Inr ` Some ` {0, 1, 2, 3}"
    by (auto simp: pbind_def ret_def split: prod.split sum.split)
qed

lemma exits_main_body: "exits (main_body T args env_file)"
  unfolding main_body_def
  by (rule exits_pbind, rule exits_pbind, rule exits_pbind, rule exits_then [OF exits_handler])

text \<open>
  C8: the program always ends with an exit code or with an exception that is neither a
  configuration error nor an interrupt. For every command, environment and state directory, and
  whatever the services answer, \<open>main\<close> returns 0, 1, 2 or 3, or 130 exactly when a
  \<open>KeyboardInterrupt\<close> ended the body of its \<open>try\<close>, or raises; it never runs out of fuel.
\<close>

theorem main_exit_codes:
  "case cli_main T args p of
     (Inr n, p') \<Rightarrow> n \<in> Some ` {0, 1, 2, 3, 130} \<and>
       (n = Some 130 \<longleftrightarrow>
          (\<exists>e. fst (main_body T args (env_file_argument (ps_environ p) (ar_env_file args)) p) = Inl e \<and>
               isinstance e KeyboardInterrupt))
   | (Inl e, p') \<Rightarrow> \<not> isinstance e ConfigError \<and> \<not> isinstance e KeyboardInterrupt"
proof -
  let ?body = "main_body T args (env_file_argument (ps_environ p) (ar_env_file args))"
  obtain r q where body: "?body p = (r, q)" by fastforce
  with exits_main_body [of T args] have codes: "r \<in> range Inl \<union> Inr ` Some ` {0, 1, 2, 3}"
    unfolding exits_def by (metis fst_conv)
  have exclusive: "isinstance e KeyboardInterrupt \<Longrightarrow> \<not> isinstance e ConfigError" for e
    by (cases e; cases "exc_cls e") (auto split: option.splits)
  from codes body exclusive show ?thesis
    by (auto simp: cli_main_def pbind_def catch_def read_world_def complain_def ret_def throw_def
        split: sum.splits)
qed

section \<open>Standard error\<close>

text \<open>
  A refused configuration is reported without the secrets of the environment: the text after the
  constant prefix holds none of them, as long as a secret has no bracket and is no part of the
  word that replaces it.
\<close>

lemma refusal_hides_secrets:
  assumes "x \<in> set (secrets_of T env)" and "inheritable x"
  shows "\<not> occurs x (redact_text t (secrets_of T env))"
  using assms by (intro redact_text_hides) (auto simp: secrets_of_def secret_values_def longest_first_def)

section \<open>When the program signs\<close>

context backend_effect
begin

lemma on_preflight_only: "stays R (preflight_only B c E)"
  by (auto simp: preflight_only_def intro!: stays_intros)

end

text \<open>\<open>silent\<close>: only passive events are added to the SDK log.\<close>

definition silent :: "'x backend_state world \<Rightarrow> 'x backend_state world \<Rightarrow> bool" where
  "silent w w' \<longleftrightarrow> (\<exists>fs. be_log (ext w') = fs @ be_log (ext w) \<and> list_all passive_event fs)"

lemma silent_same: "be_log (ext w') = be_log (ext w) \<Longrightarrow> silent w w'"
  by (simp add: silent_def)

lemma ledger_silent:
  assumes "ledger S c w w'" and "calls w' = es @ calls w" and "publishings es = 0"
  shows "silent w w'"
  using assms driven_passive unfolding ledger_def silent_def by fastforce

lemma preflight_silent:
  assumes run: "preflight_only (microtensor_backend S c fetch) c E w = (r, w')"
  shows "silent w w'"
proof -
  have "stays (confined {Reading} UNIV) (preflight_only (microtensor_backend S c fetch) c E)"
    by (auto simp: preflight_only_def intro!: stays_intros)
  from staysD [OF this run] obtain es where es: "calls w' = es @ calls w"
    "\<forall>e \<in> set es. kind_of (ev_op e) = Reading"
    by (auto simp: confined_def)
  then have "publishings es = 0" by (auto simp: publishings_def filter_empty_conv)
  with ledger_silent [OF staysD [OF ledger.on_preflight_only run] es(1)] show ?thesis .
qed

interpretation silences: effect_relation silent
proof unfold_locales
  fix u v w :: "'a backend_state world"
  show "silent u w" if "silent u v" "silent v w"
    using that unfolding silent_def by fastforce
qed (simp add: silent_def)

definition undisturbed :: "'x process \<Rightarrow> 'x process \<Rightarrow> bool" where
  "undisturbed p p' \<longleftrightarrow>
     ps_environ p' = ps_environ p \<and> (\<forall>path. silent (ps_world p path) (ps_world p' path))"

interpretation undisturbing: effect_relation undisturbed
proof unfold_locales
  fix u v w :: "'a process"
  show "undisturbed u w" if "undisturbed u v" "undisturbed v w"
    using that silences.trans unfolding undisturbed_def by metis
qed (simp add: undisturbed_def silences.refl)

lemma undisturbed_directory:
  assumes "stays silent m"
  shows "stays undisturbed (in_directory path m)"
proof (rule staysI)
  fix p r p'
  assume "in_directory path m p = (r, p')"
  moreover obtain r1 w where m: "m (ps_world p path) = (r1, w)" by fastforce
  ultimately have "p' = p\<lparr>ps_world := (ps_world p)(path := w)\<rparr>" by (simp add: in_directory_def)
  with staysD [OF assms m] show "undisturbed p p'"
    by (simp add: undisturbed_def silences.refl)
qed

lemma silent_store: "stays (touches X) (m :: ('x backend_state world, 'a) prog) \<Longrightarrow> stays silent m"
  by (erule stays_mono) (auto intro: silent_same simp: touches_world)

lemma silent_parts:
  "stays silent fresh_controller"
  "stays silent (read_status :: ('x backend_state world, dict) prog)"
  "stays silent (health E mx now :: ('x backend_state world, bool \<times> dict) prog)"
  "stays silent (preflight_only (microtensor_backend S c fetch) c E)"
     apply (simp add: stays_def fresh_controller_def silent_same)
    apply (rule silent_store [of "{}"], rule stays_intros)
   apply (rule silent_store, rule touches_health)
  apply (rule staysI, erule preflight_silent)
  done

lemma undisturbed_parts:
  "stays undisturbed (print_json payload one_line)" "stays undisturbed (complain t)"
  "stays undisturbed (read_world f)" "stays undisturbed (lift_res x)" "stays undisturbed (runtime T)"
  "stays undisturbed (\<lambda>p. (Inr (), p\<lparr>ps_binding := b p\<rparr>))"
  by (auto simp: stays_def print_json_def complain_def read_world_def lift_res_def runtime_def
      undisturbed_def silences.refl pbind_def ret_def split: sum.splits)

lemma undisturbed_handler:
  assumes "\<And>once. command \<noteq> RunCommand once"
  shows "stays undisturbed (handler T command)"
  using assms
  by (cases command)
    (auto simp: preflight_command_def bind_selfcheck_def status_command_def health_command_def Let_def
      intro!: stays_intros undisturbed_parts undisturbed_directory silent_parts split: option.split)

text \<open>
  \<open>may_sign\<close>: the command is \<open>run\<close>, the environment gives a live configuration whose state
  directory is \<open>path\<close>, and no refusal marker of any content is there.
\<close>

definition may_sign :: "'x console \<Rightarrow> command \<Rightarrow> 'x process \<Rightarrow> string \<Rightarrow> bool" where
  "may_sign T cmd p path \<longleftrightarrow>
     (case cmd of
        RunCommand once \<Rightarrow>
          (case from_env (co_path T) (ps_environ p) of
             Inr c \<Rightarrow> path = c_state_dir c \<and> \<not> c_dry_run c \<and> disk (ps_world p path) Refusal = Missing
           | Inl e \<Rightarrow> False)
      | _ \<Rightarrow> False)"

lemma run_command_silent:
  assumes run: "run_command T once p = (r, p')" and no: "\<not> may_sign T (RunCommand once) p path"
  shows "ps_environ p' = ps_environ p \<and> silent (ps_world p path) (ps_world p' path)"
proof (cases "from_env (co_path T) (ps_environ p)")
  case (Inl e)
  with run show ?thesis
    by (auto simp: run_command_def runtime_def pbind_def read_world_def lift_res_def silences.refl)
next
  case (Inr c)
  let ?B = "microtensor_backend (co_services T) c (co_fetch T)"
  let ?w = "snd (fresh_controller (ps_world p (c_state_dir c)))"
  obtain r1 w1 where inner: "Controller.run ?B c (store_of T (ps_environ p)) once ?w = (r1, w1)" by fastforce
  with run Inr have p': "p' = p\<lparr>ps_world := (ps_world p)(c_state_dir c := w1)\<rparr>"
    by (auto simp: run_command_def runtime_def pbind_def read_world_def lift_res_def ret_def
        in_directory_def fresh_controller_def split: prod.splits)
  show ?thesis
  proof (cases "path = c_state_dir c")
    case True
    with no Inr have "if c_dry_run c then True else disk ?w Refusal \<noteq> Missing"
      by (auto simp: may_sign_def fresh_controller_def)
    from unauthorized_run_passive [OF inner this] True p' show ?thesis
      by (simp add: silent_def fresh_controller_def)
  qed (simp add: p' silences.refl)
qed

lemma run_command_environ: "run_command T once p = (r, p') \<Longrightarrow> ps_environ p' = ps_environ p"
  by (auto simp: run_command_def runtime_def pbind_def read_world_def lift_res_def ret_def
      in_directory_def split: prod.splits sum.splits)

lemma handler_environ: "handler T cmd p = (r, p') \<Longrightarrow> ps_environ p' = ps_environ p"
proof (cases "\<exists>once. cmd = RunCommand once")
  case False
  assume run: "handler T cmd p = (r, p')"
  from False have "stays undisturbed (handler T cmd)" by (intro undisturbed_handler) auto
  from staysD [OF this run] show ?thesis by (simp add: undisturbed_def)
qed (auto dest: run_command_environ)

lemma handler_silent:
  assumes run: "handler T cmd p = (r, p')" and no: "\<not> may_sign T cmd p path"
  shows "ps_environ p' = ps_environ p \<and> silent (ps_world p path) (ps_world p' path)"
proof (cases "\<exists>once. cmd = RunCommand once")
  case True
  with run no show ?thesis by (auto dest: run_command_silent)
next
  case False
  then have "stays undisturbed (handler T cmd)" by (intro undisturbed_handler) auto
  from staysD [OF this run] show ?thesis by (simp add: undisturbed_def)
qed

text \<open>The body of \<open>main\<close> either leaves every directory alone or ends with the handler.\<close>

lemma load_environment_same:
  assumes "(case env_file of None \<Rightarrow> ret () | Some f \<Rightarrow> load_environment T f) p = (r, p0)"
  shows "p0 = p\<lparr>ps_environ := ps_environ p0\<rparr>"
  using assms
  by (auto simp: load_environment_def pbind_def lift_res_def ret_def split: option.splits prod.splits sum.splits)

lemma main_body_cases:
  assumes "main_body T args env_file p = (r, q)"
  obtains (early) "q = p\<lparr>ps_environ := ps_environ q\<rparr>"
    | (handled) p0 r1 where "p0 = p\<lparr>ps_environ := ps_environ p0\<rparr>" "handler T (ar_command args) p0 = (r1, q)"
proof -
  obtain r0 p0 where load: "(case env_file of None \<Rightarrow> ret () | Some f \<Rightarrow> load_environment T f) p = (r0, p0)"
    by fastforce
  note same = load_environment_same [OF load]
  obtain r1 p1 where run: "handler T (ar_command args) p0 = (r1, p1)" by fastforce
  have "q = p \<or> q = p0 \<or> q = p1"
    using assms load run
    by (auto simp: main_body_def pbind_def interrupt_point_def ret_def throw_def
        split: sum.splits if_splits command.splits)
  then show thesis
  proof (elim disjE)
    assume "q = p" then show thesis by (intro early) simp
  next
    assume "q = p0" then show thesis using same by (intro early) simp
  next
    assume "q = p1" then show thesis using same run by (intro handled) auto
  qed
qed

text \<open>
  C7: the program signs only when it is told to run. Whatever the command line, the environment
  file, the directories and the services: in each state directory either the command was
  \<open>run\<close>, the environment that was loaded gives a live configuration with this state directory
  and the directory held no refusal marker of any content, or the whole execution added no
  signature and no broadcast to the SDK log of that directory.
\<close>

theorem main_signs_only_when_authorized:
  "let p' = snd (cli_main T args p) in
   may_sign T (ar_command args) (p\<lparr>ps_environ := ps_environ p'\<rparr>) path \<or>
   silent (ps_world p path) (ps_world p' path)"
proof -
  obtain r q where body: "main_body T args (env_file_argument (ps_environ p) (ar_env_file args)) p = (r, q)"
    by fastforce
  obtain r' p' where main: "cli_main T args p = (r', p')" by fastforce
  with body have after: "ps_environ p' = ps_environ q" "ps_world p' = ps_world q"
    by (auto simp: cli_main_def pbind_def catch_def read_world_def complain_def ret_def throw_def
        split: sum.splits if_splits)
  from body show ?thesis
  proof (cases rule: main_body_cases)
    case early
    then have "ps_world q = ps_world p" by (metis process.select_convs(2) process.surjective process.update_convs(1))
    then show ?thesis by (simp add: main after silences.refl)
  next
    case (handled p0 r1)
    then have "ps_world p0 = ps_world p" by (metis process.select_convs(2) process.surjective process.update_convs(1))
    moreover from handled handler_environ have "ps_environ p0 = ps_environ q" by metis
    ultimately have "p\<lparr>ps_environ := ps_environ q\<rparr> = p0" using handled(1) by metis
    with handler_silent [OF handled(2), of path] \<open>ps_world p0 = ps_world p\<close> main after show ?thesis
      by (auto simp: Let_def)
  qed
qed

end
