(* ===== verification/BoundarySplit.thy ===== *)
theory BoundarySplit
  imports PyJson "HOL-Library.Multiset" "HOL-Library.Product_Lexorder"
begin

text \<open>
  The splits of \<^verbatim>\<open>src/training/boundary_contrastive.py\<close>: the pinned public corpus, the sealed
  outer reserve, and the hash-ranked inner split that trainer and provenance publisher replay.
  The draws of \<open>random.Random(seed)\<close> are a parameter; \<open>shuffle\<close> itself is the loop of the
  standard library. References are texts, so \<open>isinstance(ref, str)\<close> holds of them.
\<close>

section \<open>Constants\<close>

definition CORPUS_VERSION :: string where
  "CORPUS_VERSION = ''sha256:492ea6e7b791f03be0989b07eee0dc9ba722d35d2f274743c6dc33420c383ff8''"
definition BOUNDARY_OUTER_SPLIT_ALGORITHM :: string where
  "BOUNDARY_OUTER_SPLIT_ALGORITHM = ''python_random_mt19937_seed92_prefix384_v1''"
definition BOUNDARY_INNER_SPLIT_ALGORITHM :: string where
  "BOUNDARY_INNER_SPLIT_ALGORITHM = ''sha256_rank_encoded_ref_seed92_v1''"
definition BOUNDARY_CANONICAL_JSON_DIGEST_ALGORITHM :: string where
  "BOUNDARY_CANONICAL_JSON_DIGEST_ALGORITHM = ''sha256_canonical_json_utf8_v1''"
definition BOUNDARY_CORPUS_FILE_DIGEST :: string where
  "BOUNDARY_CORPUS_FILE_DIGEST = ''sha256:fb5f1332493b1abe759da91cec1bd2cdd932c7076c5fae8163b5f33cfbea05a2''"
definition BOUNDARY_CORPUS_BYTES :: nat where "BOUNDARY_CORPUS_BYTES = 4266196"
definition BOUNDARY_OUTER_SEED :: int where "BOUNDARY_OUTER_SEED = 92"
definition BOUNDARY_OUTER_EXAMPLES :: nat where "BOUNDARY_OUTER_EXAMPLES = 384"
definition BOUNDARY_CORPUS_TRAIN_EXAMPLES :: nat where "BOUNDARY_CORPUS_TRAIN_EXAMPLES = 4816"
definition BOUNDARY_INNER_VALIDATION_EXAMPLES :: nat where "BOUNDARY_INNER_VALIDATION_EXAMPLES = 384"
definition BOUNDARY_EXPECTED_ENCODED_EXAMPLES :: nat where "BOUNDARY_EXPECTED_ENCODED_EXAMPLES = 4430"
definition BOUNDARY_SKIPPED_ENCODED_REFS :: "string list" where
  "BOUNDARY_SKIPPED_ENCODED_REFS = [''bc5cdr-train-03995'', ''bc5cdr-train-04805'']"

lemmas boundary_sizes =
  BOUNDARY_OUTER_EXAMPLES_def BOUNDARY_CORPUS_TRAIN_EXAMPLES_def
  BOUNDARY_INNER_VALIDATION_EXAMPLES_def BOUNDARY_EXPECTED_ENCODED_EXAMPLES_def

abbreviation invalid_value :: "string \<Rightarrow> exc" where
  "invalid_value t \<equiv> Exc ValueError t"

section \<open>Strict JSON and digests\<close>

definition strict_json_loads :: "(string \<Rightarrow> raw option) \<Rightarrow> string \<Rightarrow> string \<Rightarrow> json res" where
  "strict_json_loads parse raw ref =
     (case load_strict parse raw of
        Inr v \<Rightarrow> Inr v
      | Inl e \<Rightarrow> if isinstance e JSONDecodeError then fail ValueError (''invalid gold JSON for '' @ ref) else Inl e)"

definition strict_corpus_json ::
    "(string \<Rightarrow> string option) \<Rightarrow> (string \<Rightarrow> raw option) \<Rightarrow> string \<Rightarrow> dict res" where
  "strict_corpus_json decode parse payload =
     (case decode payload of
        None \<Rightarrow> fail ValueError ''boundary corpus is not UTF-8''
      | Some decoded \<Rightarrow>
          rbind (strict_json_loads parse decoded ''boundary corpus'') (\<lambda>parsed.
          case as_obj parsed of
            None \<Rightarrow> fail ValueError ''boundary corpus must contain a JSON object''
          | Some d \<Rightarrow> Inr d))"

definition digest_bytes :: "stdlib \<Rightarrow> string \<Rightarrow> string" where
  "digest_bytes lib payload = ''sha256:'' @ sha256_hex lib payload"

definition canonical_json_bytes :: "stdlib \<Rightarrow> json \<Rightarrow> string res" where
  "canonical_json_bytes lib v =
     (case dumps_with quote_unicode lib v of
        None \<Rightarrow> fail ValueError ''value is not canonical strict JSON''
      | Some encoded \<Rightarrow> Inr (utf8_encode encoded))"

text \<open>The parts are texts and integers, which always serialise.\<close>

definition stable_hash :: "stdlib \<Rightarrow> json list \<Rightarrow> string" where
  "stable_hash lib parts =
     sha256_hex lib (utf8_encode
       (case dumps_with quote_unicode lib (JList parts) of None \<Rightarrow> [] | Some t \<Rightarrow> t))"

definition canonical_json_digest :: "stdlib \<Rightarrow> json \<Rightarrow> string res" where
  "canonical_json_digest lib v = map_sum id (digest_bytes lib) (canonical_json_bytes lib v)"

definition refs_digest :: "stdlib \<Rightarrow> string list \<Rightarrow> string res" where
  "refs_digest lib refs = canonical_json_digest lib (JList (map JStr (sort refs)))"

definition text_digest :: "stdlib \<Rightarrow> string \<Rightarrow> string" where
  "text_digest lib v = ''sha256:'' @ sha256_hex lib (utf8_encode v)"

section \<open>The corpus\<close>

definition train_rows :: "json list \<Rightarrow> dict list" where
  "train_rows tasks =
     filter (\<lambda>row. dget row ''partition'' = JStr ''train'') (List.map_filter as_obj tasks)"

definition parse_boundary_corpus ::
    "stdlib \<Rightarrow> (string \<Rightarrow> string option) \<Rightarrow> (string \<Rightarrow> raw option) \<Rightarrow> string \<Rightarrow> dict list res" where
  "parse_boundary_corpus lib decode parse payload =
     require (length payload = BOUNDARY_CORPUS_BYTES)
       (invalid_value ''boundary corpus must contain exactly 4266196 bytes'') (
     require (digest_bytes lib payload = BOUNDARY_CORPUS_FILE_DIGEST)
       (invalid_value ''boundary corpus bytes do not match the pinned public corpus'') (
     rbind (strict_corpus_json decode parse payload) (\<lambda>corpus.
     require (\<not> (dget corpus ''version'' \<noteq> JStr CORPUS_VERSION \<or> dget corpus ''track'' \<noteq> JStr ''extract''))
       (invalid_value ''boundary corpus identity is not allowlisted'') (
     case as_list (dget corpus ''tasks'') of
       None \<Rightarrow> fail ValueError ''boundary corpus tasks must be a list''
     | Some tasks \<Rightarrow>
         require (length (train_rows tasks) = BOUNDARY_CORPUS_TRAIN_EXAMPLES)
           (invalid_value ''boundary corpus must contain exactly 4,816 public train rows'') (
         require (\<not> list_ex (\<lambda>row. as_obj row = None) tasks)
           (invalid_value ''boundary corpus tasks must contain only objects'')
         (Inr (train_rows tasks)))))))"

section \<open>The outer reserve\<close>

text \<open>
  \<open>random.Random(seed).shuffle\<close>: \<open>draws n i\<close> is what \<open>_randbelow(i + 1)\<close> returns at step \<open>i\<close>
  of the shuffle of \<open>n\<close> elements.
\<close>

definition swap_at :: "nat \<Rightarrow> nat \<Rightarrow> 'a list \<Rightarrow> 'a list" where
  "swap_at i j xs = xs[j := xs ! i, i := xs ! j]"

fun shuffle_from :: "(nat \<Rightarrow> nat) \<Rightarrow> nat \<Rightarrow> 'a list \<Rightarrow> 'a list" where
  "shuffle_from below 0 xs = xs"
| "shuffle_from below (Suc i) xs = shuffle_from below i (swap_at (Suc i) (below (Suc i)) xs)"

definition shuffled :: "(nat \<Rightarrow> nat \<Rightarrow> nat) \<Rightarrow> 'a list \<Rightarrow> 'a list" where
  "shuffled draws xs = shuffle_from (draws (length xs)) (length xs - 1) xs"

definition plain_ref :: "string \<Rightarrow> bool" where
  "plain_ref ref \<longleftrightarrow> ref \<noteq> [] \<and> ref = strip ref"

fun split_refs :: "dict list \<Rightarrow> string list res" where
  "split_refs [] = Inr []"
| "split_refs (row # rows) =
     (case as_str (dget row ''ref'') of
        None \<Rightarrow> fail ValueError ''boundary split requires non-empty, already stripped refs''
      | Some ref \<Rightarrow>
          require (plain_ref ref)
            (invalid_value ''boundary split requires non-empty, already stripped refs'') (
          require (dget row ''partition'' = JStr ''train'')
            (invalid_value (''boundary split accepts only train-fold rows, got '' @ ref)) (
          rbind (split_refs rows) (\<lambda>refs. Inr (ref # refs)))))"

definition boundary_outer_partition ::
    "(nat \<Rightarrow> nat \<Rightarrow> nat) \<Rightarrow> dict list \<Rightarrow> (dict list \<times> dict list) res" where
  "boundary_outer_partition draws rows =
     require (length rows = BOUNDARY_CORPUS_TRAIN_EXAMPLES)
       (invalid_value ''boundary outer split requires exactly 4,816 rows'') (
     rbind (split_refs rows) (\<lambda>refs.
     require (distinct refs) (invalid_value ''boundary split requires unique refs'') (
     let shuffled_rows = shuffled draws rows in
     Inr (take BOUNDARY_OUTER_EXAMPLES shuffled_rows, drop BOUNDARY_OUTER_EXAMPLES shuffled_rows))))"

section \<open>The inner split\<close>

record fold_split =
  fs_train_indices :: "nat list"
  fs_validation_indices :: "nat list"
  fs_manifest :: dict

definition rank_key :: "stdlib \<Rightarrow> string \<Rightarrow> string \<times> string" where
  "rank_key lib ref =
     (stable_hash lib [JStr BOUNDARY_INNER_SPLIT_ALGORITHM, JInt BOUNDARY_OUTER_SEED, JStr ref], ref)"

text \<open>\<open>validation_refs\<close>: the prefix of the ranking.\<close>

definition validation_refs :: "stdlib \<Rightarrow> string list \<Rightarrow> string list" where
  "validation_refs lib refs = take BOUNDARY_INNER_VALIDATION_EXAMPLES (sort_key (rank_key lib) refs)"

definition indices_where :: "(string \<Rightarrow> bool) \<Rightarrow> string list \<Rightarrow> nat list" where
  "indices_where P refs = filter (\<lambda>i. P (refs ! i)) [0..<length refs]"

definition common_refs :: "string list \<Rightarrow> string list \<Rightarrow> nat" where
  "common_refs xs ys = card (set xs \<inter> set ys)"

definition jnat :: "nat \<Rightarrow> json" where "jnat n = JInt (int n)"

definition jtexts :: "string list \<Rightarrow> json" where "jtexts ts = JList (map JStr ts)"

definition split_manifest ::
    "stdlib \<Rightarrow> string list \<Rightarrow> string list \<Rightarrow> string list \<Rightarrow> string list \<Rightarrow> dict \<Rightarrow> dict res" where
  "split_manifest lib refs reserved train_refs inner_validation_refs overlaps =
     rbind (refs_digest lib reserved) (\<lambda>outer_digest.
     rbind (refs_digest lib refs) (\<lambda>encoded_digest.
     rbind (refs_digest lib train_refs) (\<lambda>train_digest.
     rbind (refs_digest lib inner_validation_refs) (\<lambda>validation_digest.
     Inr [(''refs_digest_algorithm'', JStr BOUNDARY_CANONICAL_JSON_DIGEST_ALGORITHM),
       (''outer_algorithm'', JStr BOUNDARY_OUTER_SPLIT_ALGORITHM),
       (''outer_seed'', JInt BOUNDARY_OUTER_SEED), (''outer_examples'', jnat (length reserved)),
       (''inner_algorithm'', JStr BOUNDARY_INNER_SPLIT_ALGORITHM),
       (''inner_seed'', JInt BOUNDARY_OUTER_SEED), (''encoded_examples'', jnat (length refs)),
       (''inner_train_examples'', jnat (length train_refs)),
       (''inner_validation_examples'', jnat (length inner_validation_refs)),
       (''outer_refs'', jtexts (sort reserved)), (''inner_train_refs'', jtexts (sort train_refs)),
       (''inner_validation_refs'', jtexts (sort inner_validation_refs)),
       (''outer_refs_digest'', JStr outer_digest), (''encoded_refs_digest'', JStr encoded_digest),
       (''inner_train_refs_digest'', JStr train_digest),
       (''inner_validation_refs_digest'', JStr validation_digest),
       (''overlap_counts'', JObj overlaps)]))))"

definition split_boundary_encoded_refs ::
    "stdlib \<Rightarrow> string list \<Rightarrow> string list \<Rightarrow> fold_split res" where
  "split_boundary_encoded_refs lib refs reserved =
     require (\<not> (length refs \<noteq> BOUNDARY_EXPECTED_ENCODED_EXAMPLES
                \<or> length reserved \<noteq> BOUNDARY_OUTER_EXAMPLES))
       (invalid_value ''boundary inner split requires exactly 4,430 encoded and 384 outer refs'') (
     require (list_all plain_ref refs)
       (invalid_value ''encoded refs must be non-empty, already stripped strings'') (
     require (list_all plain_ref reserved)
       (invalid_value ''outer refs must be non-empty, already stripped strings'') (
     require (\<not> (\<not> distinct refs \<or> \<not> distinct reserved))
       (invalid_value ''boundary split refs must be unique'') (
     let outer_overlap = filter (\<lambda>ref. ref \<in> set reserved) refs in
     require (outer_overlap = [])
       (invalid_value (''encoded pool overlaps outer reserve: '' @ hd (sort outer_overlap))) (
     let chosen = set (validation_refs lib refs);
         validation_indices = indices_where (\<lambda>ref. ref \<in> chosen) refs;
         train_indices = indices_where (\<lambda>ref. ref \<notin> chosen) refs;
         train_refs = map ((!) refs) train_indices;
         inner_validation_refs = map ((!) refs) validation_indices;
         outer_train = common_refs reserved train_refs;
         outer_validation = common_refs reserved inner_validation_refs;
         train_validation = common_refs train_refs inner_validation_refs in
     require (\<not> (outer_train \<noteq> 0 \<or> outer_validation \<noteq> 0 \<or> train_validation \<noteq> 0
                \<or> length train_indices + length validation_indices \<noteq> length refs))
       (invalid_value ''boundary split is not an exact disjoint partition'') (
     map_sum id (\<lambda>manifest. \<lparr>fs_train_indices = train_indices, fs_validation_indices = validation_indices,
         fs_manifest = manifest\<rparr>)
       (split_manifest lib refs reserved train_refs inner_validation_refs
          [(''outer_inner_train'', jnat outer_train), (''outer_inner_validation'', jnat outer_validation),
           (''inner_train_inner_validation'', jnat train_validation)])))))))"

section \<open>The reserve is blind to contents\<close>

lemma length_swap_at [simp]: "length (swap_at i j xs) = length xs"
  by (simp add: swap_at_def)

lemma mset_swap_at: "i < length xs \<Longrightarrow> j < length xs \<Longrightarrow> mset (swap_at i j xs) = mset xs"
  by (simp add: swap_at_def mset_swap)

lemma swap_at_map: "i < length xs \<Longrightarrow> j < length xs \<Longrightarrow> swap_at i j (map f xs) = map f (swap_at i j xs)"
  by (simp add: swap_at_def map_update)

lemma length_shuffle_from [simp]: "length (shuffle_from below i xs) = length xs"
  by (induction below i xs rule: shuffle_from.induct) auto

lemma mset_shuffle_from:
  "(\<And>k. below k \<le> k) \<Longrightarrow> i < length xs \<Longrightarrow> mset (shuffle_from below i xs) = mset xs"
proof (induction below i xs rule: shuffle_from.induct)
  case (2 below i xs)
  from 2(2) 2(3) have "below (Suc i) < length xs" by (rule le_less_trans)
  with 2 show ?case by (simp add: mset_swap_at)
qed simp

lemma shuffle_from_map:
  "(\<And>k. below k \<le> k) \<Longrightarrow> i < length xs \<Longrightarrow>
     shuffle_from below i (map f xs) = map f (shuffle_from below i xs)"
proof (induction below i xs rule: shuffle_from.induct)
  case (2 below i xs)
  from 2(2) 2(3) have "below (Suc i) < length xs" by (rule le_less_trans)
  with 2 show ?case by (simp add: swap_at_map)
qed simp

lemma shuffled_permutes [simp]: "(\<And>n k. draws n k \<le> k) \<Longrightarrow> mset (shuffled draws xs) = mset xs"
  by (cases xs) (simp_all add: shuffled_def mset_shuffle_from)

lemma length_shuffled [simp]: "length (shuffled draws xs) = length xs"
  by (simp add: shuffled_def)

lemma shuffled_map: "(\<And>n k. draws n k \<le> k) \<Longrightarrow> shuffled draws (map f xs) = map f (shuffled draws xs)"
  by (cases xs) (simp_all add: shuffled_def shuffle_from_map flip: list.map)

text \<open>The rows a split accepts, and their references.\<close>

definition ref_of :: "dict \<Rightarrow> string" where
  "ref_of row = (case dget row ''ref'' of JStr ref \<Rightarrow> ref | _ \<Rightarrow> [])"

definition train_row :: "dict \<Rightarrow> bool" where
  "train_row row \<longleftrightarrow>
     as_str (dget row ''ref'') \<noteq> None \<and> plain_ref (ref_of row) \<and> dget row ''partition'' = JStr ''train''"

lemma split_refs_Inr: "split_refs rows = Inr refs \<longleftrightarrow> refs = map ref_of rows \<and> list_all train_row rows"
  by (induction rows arbitrary: refs)
    (auto simp: res_iffs train_row_def ref_of_def split: option.split)

lemma outer_partition_Inr:
  "boundary_outer_partition draws rows = Inr (outer, rest) \<longleftrightarrow>
     length rows = 4816 \<and> list_all train_row rows \<and> distinct (map ref_of rows) \<and>
     outer = take 384 (shuffled draws rows) \<and> rest = drop 384 (shuffled draws rows)"
  by (auto simp: boundary_outer_partition_def res_iffs split_refs_Inr Let_def boundary_sizes)

text \<open>
  The outer reserve is sealed and blind. For draws in the range \<^verbatim>\<open>random\<close> documents, an
  accepted corpus is cut into 384 reserved and 4432 remaining rows that together are exactly
  the rows given, with no reference on both sides; and the cut depends on positions only: for
  any change \<open>f\<close> of the rows' contents, an accepted changed corpus is cut into the changed parts.
\<close>

theorem outer_reserve_sealed:
  assumes range: "\<And>n k. draws n k \<le> k"
    and cut: "boundary_outer_partition draws rows = Inr (outer, rest)"
  shows "length outer = 384 \<and> length rest = 4432 \<and> mset (outer @ rest) = mset rows \<and>
    ref_of ` set outer \<inter> ref_of ` set rest = {} \<and>
    boundary_outer_partition draws (map f rows) \<in> range Inl \<union> {Inr (map f outer, map f rest)}"
proof -
  from cut have parts: "length rows = 4816" "distinct (map ref_of rows)"
    "outer = take 384 (shuffled draws rows)" "rest = drop 384 (shuffled draws rows)"
    by (auto simp: outer_partition_Inr)
  from parts(3,4) have whole: "outer @ rest = shuffled draws rows" by simp
  then have all: "mset (outer @ rest) = mset rows" using range by simp
  then have "mset (map ref_of (outer @ rest)) = mset (map ref_of rows)" by (metis mset_map)
  with parts(2) have "distinct (map ref_of (outer @ rest))" by (metis mset_eq_imp_distinct_iff)
  then have "ref_of ` set outer \<inter> ref_of ` set rest = {}" by simp
  moreover have "boundary_outer_partition draws (map f rows) \<in> range Inl \<union> {Inr (map f outer, map f rest)}"
  proof (cases "boundary_outer_partition draws (map f rows)")
    case (Inr p)
    then show ?thesis using range parts
      by (cases p) (simp add: outer_partition_Inr shuffled_map take_map drop_map)
  qed auto
  ultimately show ?thesis using parts all by simp
qed

section \<open>The inner split is stable\<close>

lemma dumps_texts: "dumps_list quote lib (map JStr ts) = Some (map quote ts)"
  by (induction ts) simp_all

lemma refs_digest_Inr: "\<exists>d. refs_digest lib refs = Inr d"
  by (simp add: refs_digest_def canonical_json_digest_def canonical_json_bytes_def dumps_texts)

lemma sort_cong_mset: "mset xs = mset ys \<Longrightarrow> sort xs = sort ys"
  by (rule properties_for_sort) simp_all

lemma refs_digest_cong: "mset refs = mset refs' \<Longrightarrow> refs_digest lib refs = refs_digest lib refs'"
  unfolding refs_digest_def by (drule sort_cong_mset) simp

lemma nth_indices_where: "map ((!) refs) (indices_where P refs) = filter P refs"
  by (simp add: indices_where_def flip: filter_map [unfolded comp_def]) (simp add: map_nth)

lemma image_indices_where: "(!) refs ` set (indices_where P refs) = {ref \<in> set refs. P ref}"
  by (metis nth_indices_where set_filter set_map)

lemma length_indices_where: "length (indices_where P refs) = length (filter P refs)"
  by (metis length_map nth_indices_where)

lemma filter_complement_length: "length (filter (\<lambda>x. x \<notin> A) xs) + length (filter (\<lambda>x. x \<in> A) xs) = length xs"
  by (induction xs) auto

definition valid_split :: "string list \<Rightarrow> string list \<Rightarrow> bool" where
  "valid_split refs reserved \<longleftrightarrow>
     length refs = 4430 \<and> length reserved = 384 \<and> list_all plain_ref refs \<and> list_all plain_ref reserved \<and>
     distinct refs \<and> distinct reserved \<and> set refs \<inter> set reserved = {}"

lemma rank_key_inj: "inj (rank_key lib)"
  by (auto simp: inj_def rank_key_def)

lemma validation_refs_facts:
  assumes "distinct refs" and "384 \<le> length refs"
  shows "set (validation_refs lib refs) \<subseteq> set refs" "card (set (validation_refs lib refs)) = 384"
proof -
  have "distinct (sort_key (rank_key lib) refs)" using assms by simp
  then show "card (set (validation_refs lib refs)) = 384"
    using assms by (simp add: validation_refs_def boundary_sizes distinct_card distinct_take)
  show "set (validation_refs lib refs) \<subseteq> set refs"
    unfolding validation_refs_def by (metis set_sort set_take_subset)
qed

lemma validation_refs_cong: "mset refs = mset refs' \<Longrightarrow> validation_refs lib refs = validation_refs lib refs'"
  unfolding validation_refs_def
  by (metis inj_on_subset rank_key_inj sort_key_inj_key_eq sorted_sort_key mset_sort subset_UNIV)

text \<open>The chosen references, and the rest, in the order of the pool.\<close>

definition chosen :: "stdlib \<Rightarrow> string list \<Rightarrow> string set" where
  "chosen lib refs = set (validation_refs lib refs)"

lemma filter_card: "distinct xs \<Longrightarrow> A \<subseteq> set xs \<Longrightarrow> length (filter (\<lambda>x. x \<in> A) xs) = card A"
  by (metis distinct_card distinct_filter inf.absorb_iff2 set_filter Int_def Collect_mem_eq)

lemma split_manifest_Inr: "\<exists>m. split_manifest lib refs reserved train_refs inner_refs overlaps = Inr m"
  unfolding split_manifest_def using refs_digest_Inr [of lib] by (metis rbind_simps(2))

lemma split_Inr:
  "split_boundary_encoded_refs lib refs reserved = Inr s \<longleftrightarrow>
     valid_split refs reserved \<and>
     fs_train_indices s = indices_where (\<lambda>ref. ref \<notin> chosen lib refs) refs \<and>
     fs_validation_indices s = indices_where (\<lambda>ref. ref \<in> chosen lib refs) refs \<and>
     split_manifest lib refs reserved (filter (\<lambda>ref. ref \<notin> chosen lib refs) refs)
       (filter (\<lambda>ref. ref \<in> chosen lib refs) refs)
       [(''outer_inner_train'', jnat 0), (''outer_inner_validation'', jnat 0),
        (''inner_train_inner_validation'', jnat 0)] = Inr (fs_manifest s)"
proof (cases "valid_split refs reserved")
  case True
  have "common_refs reserved (filter P refs) = 0" for P
    using True by (auto simp: common_refs_def valid_split_def)
  moreover have "common_refs (filter (\<lambda>ref. ref \<notin> A) refs) (filter (\<lambda>ref. ref \<in> A) refs) = 0" for A
    by (auto simp: common_refs_def)
  moreover have "filter (\<lambda>ref. ref \<in> set reserved) refs = []"
    using True by (auto simp: valid_split_def filter_empty_conv)
  ultimately show ?thesis
    using True filter_complement_length [of "chosen lib refs" refs]
    by (cases s) (auto simp: split_boundary_encoded_refs_def valid_split_def boundary_sizes Let_def
        nth_indices_where length_indices_where chosen_def map_sum_Inr)
next
  case False
  then show ?thesis
    by (auto simp: split_boundary_encoded_refs_def valid_split_def boundary_sizes Let_def res_iffs
        filter_empty_conv)
qed

lemma valid_split_succeeds:
  assumes "valid_split refs reserved"
  shows "\<exists>s. split_boundary_encoded_refs lib refs reserved = Inr s"
proof -
  obtain m where "split_manifest lib refs reserved (filter (\<lambda>ref. ref \<notin> chosen lib refs) refs)
      (filter (\<lambda>ref. ref \<in> chosen lib refs) refs)
      [(''outer_inner_train'', jnat 0), (''outer_inner_validation'', jnat 0),
       (''inner_train_inner_validation'', jnat 0)] = Inr m"
    using split_manifest_Inr by blast
  with assms show ?thesis
    by (intro exI [of _ "\<lparr>fs_train_indices = indices_where (\<lambda>ref. ref \<notin> chosen lib refs) refs,
        fs_validation_indices = indices_where (\<lambda>ref. ref \<in> chosen lib refs) refs, fs_manifest = m\<rparr>"])
      (simp add: split_Inr)
qed

lemma split_sizes:
  assumes "split_boundary_encoded_refs lib refs reserved = Inr s"
  shows "length (fs_validation_indices s) = 384" "length (fs_train_indices s) = 4046"
    "set (fs_validation_indices s) \<inter> set (fs_train_indices s) = {}"
    "set (fs_validation_indices s) \<union> set (fs_train_indices s) = {0..<4430}"
proof -
  from assms have valid: "distinct refs" "length refs = 4430"
    and s: "fs_train_indices s = indices_where (\<lambda>ref. ref \<notin> chosen lib refs) refs"
      "fs_validation_indices s = indices_where (\<lambda>ref. ref \<in> chosen lib refs) refs"
    by (auto simp: split_Inr valid_split_def)
  show 1: "length (fs_validation_indices s) = 384"
    using validation_refs_facts [of refs lib] valid
    by (simp add: s length_indices_where chosen_def filter_card)
  with filter_complement_length [of "chosen lib refs" refs] valid
  show "length (fs_train_indices s) = 4046" by (simp add: s length_indices_where)
  show "set (fs_validation_indices s) \<inter> set (fs_train_indices s) = {}"
    "set (fs_validation_indices s) \<union> set (fs_train_indices s) = {0..<4430}"
    by (auto simp: s indices_where_def valid)
qed

lemma split_manifest_cong:
  assumes "mset refs = mset refs'" "mset reserved = mset reserved'" "mset a = mset a'" "mset b = mset b'"
  shows "split_manifest lib refs reserved a b ov = split_manifest lib refs' reserved' a' b' ov"
proof -
  note sizes = assms [THEN mset_eq_length]
  note sorts = assms [THEN sort_cong_mset]
  note digests = assms [THEN refs_digest_cong, of lib]
  show ?thesis unfolding split_manifest_def digests sorts sizes ..
qed

text \<open>
  The inner split is stable. Whatever order the encoded pool and the reserve come in, the
  split succeeds alike, chooses the same 384 validation references and has the same manifest;
  the two folds have 384 and 4046 rows and partition the pool.
\<close>

theorem inner_split_stable:
  assumes cut: "split_boundary_encoded_refs lib refs reserved = Inr s"
    and same: "mset refs' = mset refs" "mset reserved' = mset reserved"
  shows "\<exists>s'. split_boundary_encoded_refs lib refs' reserved' = Inr s' \<and>
    fs_manifest s' = fs_manifest s \<and>
    (!) refs' ` set (fs_validation_indices s') = (!) refs ` set (fs_validation_indices s) \<and>
    length (fs_validation_indices s') = 384 \<and> length (fs_train_indices s') = 4046 \<and>
    set (fs_validation_indices s') \<inter> set (fs_train_indices s') = {}"
proof -
  from same have sets: "set refs' = set refs" "set reserved' = set reserved"
    by (metis set_mset_mset)+
  from cut have "valid_split refs reserved" by (simp only: split_Inr)
  then have "valid_split refs' reserved'"
    by (simp add: valid_split_def list_all_iff sets same [THEN mset_eq_length]
        same [THEN mset_eq_imp_distinct_iff])
  then obtain s' where s': "split_boundary_encoded_refs lib refs' reserved' = Inr s'"
    using valid_split_succeeds by blast
  have same_choice: "chosen lib refs' = chosen lib refs"
    using validation_refs_cong [OF same(1)] by (simp add: chosen_def)
  have folds: "mset (filter P refs') = mset (filter P refs)" for P
    using same(1) by (simp add: mset_filter)
  note parts = cut [unfolded split_Inr] and parts' = s' [unfolded split_Inr same_choice]
  have "Inr (fs_manifest s') = (Inr (fs_manifest s) :: dict res)"
    using parts [THEN conjunct2, THEN conjunct2, THEN conjunct2]
      parts' [THEN conjunct2, THEN conjunct2, THEN conjunct2]
      split_manifest_cong [OF same folds folds] by metis
  then have "fs_manifest s' = fs_manifest s" by simp
  moreover have "fs_validation_indices s = indices_where (\<lambda>ref. ref \<in> chosen lib refs) refs"
    "fs_validation_indices s' = indices_where (\<lambda>ref. ref \<in> chosen lib refs) refs'"
    using parts parts' by blast+
  then have "(!) refs' ` set (fs_validation_indices s') = (!) refs ` set (fs_validation_indices s)"
    by (simp add: image_indices_where sets)
  ultimately show ?thesis using s' split_sizes [OF s'] by blast
qed

section \<open>A pool and a corpus\<close>

lemma plain_ref_text_of_nat: "plain_ref (text_of_nat n)"
proof -
  have digits: "\<not> is_space c" if "c \<in> set (text_of_nat n)" for c
    using text_of_nat_digits [of n] that by (auto simp: list_all_iff char_class_defs Let_def)
  have keep: "dropWhile is_space xs = xs" if "\<And>c. c \<in> set xs \<Longrightarrow> \<not> is_space c" for xs
    using that by (cases xs) auto
  show ?thesis
    using text_of_nat_digits [of n] keep [of "text_of_nat n", OF digits] keep [of "rev (text_of_nat n)"] digits
    by (simp add: plain_ref_def strip_def)
qed

definition example_pool :: "nat \<Rightarrow> nat \<Rightarrow> string list" where
  "example_pool a b = map text_of_nat [a..<b]"

lemma example_pool_facts [simp]:
  "length (example_pool a b) = b - a" "distinct (example_pool a b)" "list_all plain_ref (example_pool a b)"
  "set (example_pool a b) \<inter> set (example_pool b c) = {}"
  by (auto simp: example_pool_def distinct_map inj_on_def plain_ref_text_of_nat list_all_iff text_of_nat_inj)

theorem inner_split_stable_witness:
  "\<exists>s s'. split_boundary_encoded_refs example_lib (example_pool 0 4430) (example_pool 4430 4814) = Inr s \<and>
     split_boundary_encoded_refs example_lib (rev (example_pool 0 4430)) (example_pool 4430 4814) = Inr s' \<and>
     fs_manifest s' = fs_manifest s"
proof -
  obtain s where s: "split_boundary_encoded_refs example_lib (example_pool 0 4430) (example_pool 4430 4814) = Inr s"
    using valid_split_succeeds [of "example_pool 0 4430" "example_pool 4430 4814" example_lib]
    by (auto simp: valid_split_def)
  from inner_split_stable [OF s, of "rev (example_pool 0 4430)" "example_pool 4430 4814"] s
  show ?thesis by auto
qed

definition example_row :: "nat \<Rightarrow> dict" where
  "example_row n = [(''ref'', JStr (text_of_nat n)), (''partition'', JStr ''train'')]"

lemma example_row_facts [simp]: "ref_of (example_row n) = text_of_nat n" "train_row (example_row n)"
  by (simp_all add: example_row_def ref_of_def train_row_def dget_def plain_ref_text_of_nat)

theorem outer_reserve_sealed_witness:
  "\<exists>outer rest. boundary_outer_partition (\<lambda>_ k. k div 2) (map example_row [0..<4816]) = Inr (outer, rest) \<and>
     length outer = 384 \<and> ref_of ` set outer \<inter> ref_of ` set rest = {}"
proof -
  let ?rows = "map example_row [0..<4816]" and ?draws = "\<lambda>_ k :: nat. k div 2"
  have cut: "boundary_outer_partition ?draws ?rows =
      Inr (take 384 (shuffled ?draws ?rows), drop 384 (shuffled ?draws ?rows))"
    by (subst outer_partition_Inr)
      (simp add: list_all_iff distinct_map inj_on_def text_of_nat_inj comp_def del: upt_conv_Cons)
  from outer_reserve_sealed [OF _ cut, of "\<lambda>row. row"] cut show ?thesis by simp
qed

end
