(* ===== verification/BoundaryPairs.thy ===== *)
theory BoundaryPairs
  imports BoundarySplit
begin

text \<open>
  The corruptions of \<^verbatim>\<open>src/training/boundary_contrastive.py\<close>: the candidates of one row, the
  balanced selection over all rows, and the manifest that is replayed. \<open>_BoundaryIneligible\<close>
  never leaves \<open>generate_boundary_corruptions\<close>: it is the value \<open>Ineligible\<close>.
\<close>

definition BOUNDARY_CORRUPTION_ALGORITHM :: string where
  "BOUNDARY_CORRUPTION_ALGORITHM = ''single_entity_text_boundary_codepoint_v1''"
definition BOUNDARY_TEXT_DIGEST_ALGORITHM :: string where
  "BOUNDARY_TEXT_DIGEST_ALGORITHM = ''sha256_utf8_text_v1''"
definition MAX_BOUNDARY_CONTRASTIVE_EXAMPLES :: int where "MAX_BOUNDARY_CONTRASTIVE_EXAMPLES = 512"
definition ENTITY_TYPES :: "string list" where "ENTITY_TYPES = [''Chemical'', ''Disease'']"

section \<open>The candidates of one row\<close>

fun occurrences_from :: "nat \<Rightarrow> string \<Rightarrow> string \<Rightarrow> (nat \<times> nat) list" where
  "occurrences_from start needle [] = (if needle = [] then [(start, start)] else [])"
| "occurrences_from start needle (c # cs) =
     (if prefix needle (c # cs) then [(start, start + length needle)] else [])
       @ occurrences_from (Suc start) needle cs"

definition literal_occurrences :: "string \<Rightarrow> string \<Rightarrow> (nat \<times> nat) list" where
  "literal_occurrences content needle = occurrences_from 0 needle content"

text \<open>\<open>content[i:j]\<close> for \<open>i \<le> j\<close>.\<close>

definition slice :: "string \<Rightarrow> nat \<Rightarrow> nat \<Rightarrow> string" where
  "slice content i j = take (j - i) (drop i content)"

datatype direction = Expansion | Contraction
datatype side = LeftSide | RightSide

definition direction_text :: "direction \<Rightarrow> string" where
  "direction_text d = (case d of Expansion \<Rightarrow> ''expansion'' | Contraction \<Rightarrow> ''contraction'')"

definition side_text :: "side \<Rightarrow> string" where
  "side_text s = (case s of LeftSide \<Rightarrow> ''left'' | RightSide \<Rightarrow> ''right'')"

definition change_is_exact :: "string \<Rightarrow> string \<Rightarrow> direction \<Rightarrow> side \<Rightarrow> bool" where
  "change_is_exact source corrupted d s \<longleftrightarrow>
     (if d = Expansion \<and> length corrupted = length source + 1 then
        (s = LeftSide \<and> tl corrupted = source) \<or> (s = RightSide \<and> butlast corrupted = source)
      else if d = Contraction \<and> length corrupted + 1 = length source then
        (s = LeftSide \<and> tl source = corrupted) \<or> (s = RightSide \<and> butlast source = corrupted)
      else False)"

record candidate =
  cd_direction :: direction
  cd_side :: side
  cd_entity_index :: nat
  cd_source_text :: string
  cd_corrupted_text :: string
  cd_negative_gold :: string

datatype 'a eligibility = Ineligible string | Eligible 'a

type_synonym entity = "string \<times> string"

definition entity_json :: "entity \<Rightarrow> json" where
  "entity_json e = JObj [(''text'', JStr (fst e)), (''type'', JStr (snd e))]"

definition control_free :: "string \<Rightarrow> bool" where
  "control_free t \<longleftrightarrow> \<not> list_ex (\<lambda>c. code c < 32) t"

definition has_exactly :: "string set \<Rightarrow> dict \<Rightarrow> bool" where
  "has_exactly ks d \<longleftrightarrow> set (map fst d) = ks"

text \<open>One raw entity: its text and type, or nothing when it is not a valid one.\<close>

definition entity_of :: "dict \<Rightarrow> entity option" where
  "entity_of d =
     (case (dget d ''text'', dget d ''type'') of
        (JStr t, JStr k) \<Rightarrow>
          if t = [] \<or> t \<noteq> strip t \<or> k \<notin> set ENTITY_TYPES \<or> \<not> control_free t then None else Some (t, k)
      | _ \<Rightarrow> None)"

fun read_entities :: "string \<Rightarrow> entity list \<Rightarrow> json list \<Rightarrow> entity list eligibility res" where
  "read_entities ref found [] = Inr (Eligible found)"
| "read_entities ref found (v # vs) =
     (let label = text_of_nat (length found) @ '' for '' @ ref in
      case as_obj v of
        None \<Rightarrow> fail ValueError (''malformed gold entity '' @ label)
      | Some d \<Rightarrow>
          require (has_exactly {''text'', ''type''} d)
            (invalid_value (''malformed gold entity '' @ label)) (
          case entity_of d of
            None \<Rightarrow> fail ValueError (''invalid gold entity '' @ label)
          | Some e \<Rightarrow>
              if e \<in> set found then Inr (Ineligible ''duplicate_entity'')
              else if fst e \<in> set (map fst found) then Inr (Ineligible ''ambiguous_entity_text'')
              else read_entities ref (found @ [e]) vs))"

text \<open>The replacements of one entity, in the order the code tries them.\<close>

definition replacements :: "string \<Rightarrow> string \<Rightarrow> (direction \<times> side \<times> string) list" where
  "replacements input_text source =
     (if length source > 1
      then [(Contraction, LeftSide, tl source), (Contraction, RightSide, butlast source)] else [])
     @ concat (map (\<lambda>(i, j).
         (if i > 0 then [(Expansion, LeftSide, slice input_text (i - 1) j)] else []) @
         (if j < length input_text then [(Expansion, RightSide, slice input_text i (j + 1))] else []))
         (literal_occurrences input_text source))"

record gold_row =
  gr_ref :: string
  gr_input :: string
  gr_gold :: string
  gr_entities :: "entity list"

definition acceptable :: "gold_row \<Rightarrow> string \<Rightarrow> direction \<times> side \<times> string \<Rightarrow> bool" where
  "acceptable g source r =
     (case r of (d, s, corrupted) \<Rightarrow>
        \<not> (corrupted = [] \<or> corrupted \<noteq> strip corrupted \<or> \<not> control_free corrupted
           \<or> \<not> occurs corrupted (gr_input g) \<or> corrupted \<in> set (map fst (gr_entities g))
           \<or> \<not> change_is_exact source corrupted d s))"

definition expected_gold :: "gold_row \<Rightarrow> nat \<Rightarrow> string \<Rightarrow> json" where
  "expected_gold g i corrupted =
     JObj [(''entities'', JList (map entity_json
       ((gr_entities g)[i := (corrupted, snd (gr_entities g ! i))])))]"

definition negative_gold_of :: "gold_row \<Rightarrow> nat \<times> nat \<Rightarrow> string \<Rightarrow> string" where
  "negative_gold_of g occ corrupted =
     take (fst occ) (gr_gold g) @ quote_unicode corrupted @ drop (snd occ) (gr_gold g)"

text \<open>One replacement; \<open>found\<close> are the candidates so far, whose golds are \<open>seen_negative_targets\<close>.\<close>

definition try_replacement ::
    "(string \<Rightarrow> raw option) \<Rightarrow> gold_row \<Rightarrow> nat \<Rightarrow> string \<Rightarrow> nat \<times> nat \<Rightarrow>
     candidate list \<Rightarrow> direction \<times> side \<times> string \<Rightarrow> candidate list res" where
  "try_replacement parse g i source occ found r =
     (if \<not> acceptable g source r then Inr found
      else (case r of (d, s, corrupted) \<Rightarrow>
        let negative_gold = negative_gold_of g occ corrupted in
        if negative_gold \<in> set (map cd_negative_gold found) then Inr found
        else rbind (strict_json_loads parse negative_gold (gr_ref g)) (\<lambda>loaded.
          require (py_eq loaded (expected_gold g i corrupted))
            (invalid_value (''generated boundary corruption changed extra fields for '' @ gr_ref g))
          (Inr (found @ [\<lparr>cd_direction = d, cd_side = s, cd_entity_index = i, cd_source_text = source,
             cd_corrupted_text = corrupted, cd_negative_gold = negative_gold\<rparr>])))))"

fun try_all ::
    "(string \<Rightarrow> raw option) \<Rightarrow> gold_row \<Rightarrow> nat \<Rightarrow> string \<Rightarrow> nat \<times> nat \<Rightarrow>
     candidate list \<Rightarrow> (direction \<times> side \<times> string) list \<Rightarrow> candidate list res" where
  "try_all parse g i source occ found [] = Inr found"
| "try_all parse g i source occ found (r # rs) =
     rbind (try_replacement parse g i source occ found r) (\<lambda>found'.
     try_all parse g i source occ found' rs)"

fun entity_candidates ::
    "(string \<Rightarrow> raw option) \<Rightarrow> gold_row \<Rightarrow> nat \<Rightarrow> candidate list \<Rightarrow> entity list \<Rightarrow> candidate list res" where
  "entity_candidates parse g i found [] = Inr found"
| "entity_candidates parse g i found (e # es) =
     (case literal_occurrences (gr_gold g) (quote_unicode (fst e)) of
        [occ] \<Rightarrow>
          rbind (try_all parse g i (fst e) occ found (replacements (gr_input g) (fst e))) (\<lambda>found'.
          entity_candidates parse g (Suc i) found' es)
      | _ \<Rightarrow> entity_candidates parse g (Suc i) found es)"

definition text_marker :: string where
  "text_marker = [char_of (10::nat), char_of (10::nat)] @ ''Text: ''"

text \<open>The checks before the candidates: the row with its entities.\<close>

definition read_gold_row :: "(string \<Rightarrow> raw option) \<Rightarrow> dict \<Rightarrow> gold_row eligibility res" where
  "read_gold_row parse row =
     (case as_str (dget row ''ref'') of
        None \<Rightarrow> fail ValueError ''boundary corruption requires a non-empty ref''
      | Some ref \<Rightarrow>
     require (ref \<noteq> []) (invalid_value ''boundary corruption requires a non-empty ref'') (
     require (dget row ''partition'' = JStr ''train'')
       (invalid_value (''boundary corruption accepts only train-fold rows, got '' @ ref)) (
     case as_obj (dget row ''inputs'') of
       None \<Rightarrow> fail ValueError (''invalid inputs for '' @ ref)
     | Some inputs \<Rightarrow>
     (case as_str (dget inputs ''text'') of
        None \<Rightarrow> fail ValueError (''invalid input text for '' @ ref)
      | Some input_text \<Rightarrow>
     require (input_text \<noteq> []) (invalid_value (''invalid input text for '' @ ref)) (
     case as_str (dget row ''prompt'') of
       None \<Rightarrow> fail ValueError (''prompt is not bound to its input text for '' @ ref)
     | Some prompt \<Rightarrow>
     require (suffix input_text prompt)
       (invalid_value (''prompt is not bound to its input text for '' @ ref)) (
     require (suffix text_marker (take (length prompt - length input_text) prompt))
       (invalid_value (''prompt has an unexpected input boundary for '' @ ref)) (
     case as_str (dget row ''gold'') of
       None \<Rightarrow> fail ValueError (''boundary corruption requires raw gold text for '' @ ref)
     | Some raw_gold \<Rightarrow>
     rbind (strict_json_loads parse raw_gold ref) (\<lambda>payload.
     case as_obj payload of
       None \<Rightarrow> fail ValueError (''gold must contain only entities for '' @ ref)
     | Some d \<Rightarrow>
     require (has_exactly {''entities''} d) (invalid_value (''gold must contain only entities for '' @ ref)) (
     case as_list (dget d ''entities'') of
       None \<Rightarrow> fail ValueError (''gold entities must be a list for '' @ ref)
     | Some raw_entities \<Rightarrow>
     rbind (read_entities ref [] raw_entities) (\<lambda>found.
     case found of
       Ineligible reason \<Rightarrow> Inr (Ineligible reason)
     | Eligible entities \<Rightarrow>
         if entities = [] then Inr (Ineligible ''no_entities'')
         else if list_ex (\<lambda>e. \<not> occurs (fst e) input_text) entities
         then Inr (Ineligible ''gold_surface_absent'')
         else Inr (Eligible \<lparr>gr_ref = ref, gr_input = input_text, gr_gold = raw_gold,
                gr_entities = entities\<rparr>)))))))))))"

definition boundary_row_candidates ::
    "(string \<Rightarrow> raw option) \<Rightarrow> dict \<Rightarrow> candidate list eligibility res" where
  "boundary_row_candidates parse row =
     rbind (read_gold_row parse row) (\<lambda>found.
     case found of
       Ineligible reason \<Rightarrow> Inr (Ineligible reason)
     | Eligible g \<Rightarrow>
         rbind (entity_candidates parse g 0 [] (gr_entities g)) (\<lambda>cs.
         if cs = [] then Inr (Ineligible ''no_valid_boundary'') else Inr (Eligible cs)))"

definition of_direction :: "direction \<Rightarrow> candidate list \<Rightarrow> candidate list" where
  "of_direction d cs = filter (\<lambda>c. cd_direction c = d) cs"

section \<open>A candidate changes one boundary\<close>

text \<open>\<open>one_boundary c\<close>: the corrupted text has exactly one code point more or less at the named side.\<close>

definition one_boundary :: "candidate \<Rightarrow> bool" where
  "one_boundary c \<longleftrightarrow>
     (case (cd_direction c, cd_side c) of
        (Expansion, LeftSide) \<Rightarrow> (\<exists>x. cd_corrupted_text c = x # cd_source_text c)
      | (Expansion, RightSide) \<Rightarrow> (\<exists>x. cd_corrupted_text c = cd_source_text c @ [x])
      | (Contraction, LeftSide) \<Rightarrow> (\<exists>x. cd_source_text c = x # cd_corrupted_text c)
      | (Contraction, RightSide) \<Rightarrow> (\<exists>x. cd_source_text c = cd_corrupted_text c @ [x]))"

lemma grown_left: "length xs = Suc (length ys) \<Longrightarrow> tl xs = ys \<Longrightarrow> \<exists>x. xs = x # ys"
  by (cases xs) auto

lemma grown_right: "length xs = Suc (length ys) \<Longrightarrow> butlast xs = ys \<Longrightarrow> \<exists>x. xs = ys @ [x]"
  by (cases xs rule: rev_cases) auto

lemma change_is_exact_boundary:
  assumes "change_is_exact (cd_source_text c) (cd_corrupted_text c) (cd_direction c) (cd_side c)"
  shows "one_boundary c"
proof (cases "cd_direction c")
  case Expansion
  with assms grown_left [of "cd_corrupted_text c" "cd_source_text c"]
    grown_right [of "cd_corrupted_text c" "cd_source_text c"]
  show ?thesis by (cases "cd_side c") (simp_all add: change_is_exact_def one_boundary_def split: if_splits)
next
  case Contraction
  with assms grown_left [of "cd_source_text c" "cd_corrupted_text c"]
    grown_right [of "cd_source_text c" "cd_corrupted_text c"]
  show ?thesis by (cases "cd_side c") (simp_all add: change_is_exact_def one_boundary_def split: if_splits)
qed

text \<open>What every candidate of a row satisfies.\<close>

definition sound :: "(string \<Rightarrow> raw option) \<Rightarrow> gold_row \<Rightarrow> candidate \<Rightarrow> bool" where
  "sound parse g c \<longleftrightarrow>
     cd_entity_index c < length (gr_entities g) \<and>
     cd_source_text c = fst (gr_entities g ! cd_entity_index c) \<and> one_boundary c \<and>
     occurs (cd_corrupted_text c) (gr_input g) \<and>
     cd_corrupted_text c \<notin> set (map fst (gr_entities g)) \<and>
     (\<exists>v. load_strict parse (cd_negative_gold c) = Inr v \<and>
        py_eq v (expected_gold g (cd_entity_index c) (cd_corrupted_text c)))"

lemma strict_json_loads_Inr: "strict_json_loads parse raw ref = Inr v \<longleftrightarrow> load_strict parse raw = Inr v"
  by (simp add: strict_json_loads_def split: sum.split)

definition sound_list :: "(string \<Rightarrow> raw option) \<Rightarrow> gold_row \<Rightarrow> candidate list \<Rightarrow> bool" where
  "sound_list parse g cs \<longleftrightarrow> list_all (sound parse g) cs \<and> distinct (map cd_negative_gold cs)"

lemma try_replacement_sound:
  assumes "try_replacement parse g i source occ found r = Inr found'" and "sound_list parse g found"
    and "i < length (gr_entities g)" and "source = fst (gr_entities g ! i)"
  shows "sound_list parse g found'"
proof (cases "acceptable g source r")
  case True
  obtain d sd corrupted where r: "r = (d, sd, corrupted)" by (cases r)
  let ?c = "\<lparr>cd_direction = d, cd_side = sd, cd_entity_index = i, cd_source_text = source,
     cd_corrupted_text = corrupted, cd_negative_gold = negative_gold_of g occ corrupted\<rparr>"
  from True r have "change_is_exact source corrupted d sd" and texts: "occurs corrupted (gr_input g)"
    "corrupted \<notin> set (map fst (gr_entities g))"
    by (simp_all add: acceptable_def)
  then have boundary: "one_boundary ?c" by (intro change_is_exact_boundary) simp
  from assms(1) True r consider "found' = found"
    | v where "found' = found @ [?c]" "negative_gold_of g occ corrupted \<notin> set (map cd_negative_gold found)"
      "load_strict parse (negative_gold_of g occ corrupted) = Inr v" "py_eq v (expected_gold g i corrupted)"
    by (auto simp: try_replacement_def Let_def res_iffs strict_json_loads_Inr split: if_splits)
  then show ?thesis
  proof cases
    case (2 v)
    with assms(2-4) boundary texts show ?thesis by (simp add: sound_list_def sound_def)
  qed (use assms in simp)
qed (use assms in \<open>simp add: try_replacement_def\<close>)

lemma try_all_sound:
  assumes "try_all parse g i source occ found rs = Inr found'" and "sound_list parse g found"
    and "i < length (gr_entities g)" and "source = fst (gr_entities g ! i)"
  shows "sound_list parse g found'"
  using assms
  by (induction parse g i source occ found rs arbitrary: found' rule: try_all.induct)
    (auto simp: rbind_Inr_iff dest: try_replacement_sound)

lemma entity_candidates_sound:
  assumes "entity_candidates parse g i found es = Inr found'" and "sound_list parse g found"
    and "es = drop i (gr_entities g)"
  shows "sound_list parse g found'"
  using assms
proof (induction parse g i found es arbitrary: found' rule: entity_candidates.induct)
  case (2 parse g i found e es)
  from "2.prems"(3) have i: "i < length (gr_entities g)" by (cases "i < length (gr_entities g)") simp_all
  with "2.prems"(3) have "e = gr_entities g ! i" "es = drop (Suc i) (gr_entities g)"
    by (simp_all add: Cons_nth_drop_Suc [symmetric])
  with 2 i show ?case
    by (auto simp: rbind_Inr_iff split: list.splits) (metis try_all_sound)
qed simp

lemma boundary_row_candidates_Inr:
  assumes "boundary_row_candidates parse row = Inr (Eligible cs)"
  shows "\<exists>g. read_gold_row parse row = Inr (Eligible g) \<and> sound_list parse g cs"
proof -
  from assms obtain found where found: "read_gold_row parse row = Inr found"
    by (auto simp: boundary_row_candidates_def rbind_Inr_iff)
  with assms obtain g where "found = Eligible g" "entity_candidates parse g 0 [] (gr_entities g) = Inr cs"
    by (cases found) (auto simp: boundary_row_candidates_def rbind_Inr_iff split: if_splits)
  with found have g: "read_gold_row parse row = Inr (Eligible g)"
    and cs: "entity_candidates parse g 0 [] (gr_entities g) = Inr cs" by simp_all
  have "sound_list parse g cs"
    by (rule entity_candidates_sound [OF cs]) (simp_all add: sound_list_def)
  with g show ?thesis by blast
qed

text \<open>
  C37: a corruption changes one boundary and nothing else. Every candidate of an eligible row
  names one gold entity, and its text has exactly one code point more or less at the named
  side; it occurs in the input, is the text of no gold entity, and the corrupted gold loads as
  the gold in which this one text is replaced.
\<close>

theorem corruption_changes_one_boundary:
  assumes "boundary_row_candidates parse row = Inr (Eligible cs)" and "c \<in> set cs"
  shows "\<exists>g. read_gold_row parse row = Inr (Eligible g) \<and>
    cd_entity_index c < length (gr_entities g) \<and>
    cd_source_text c = fst (gr_entities g ! cd_entity_index c) \<and> one_boundary c \<and>
    occurs (cd_corrupted_text c) (gr_input g) \<and>
    cd_corrupted_text c \<notin> set (map fst (gr_entities g)) \<and>
    (\<exists>v. load_strict parse (cd_negative_gold c) = Inr v \<and>
       py_eq v (expected_gold g (cd_entity_index c) (cd_corrupted_text c)))"
  using boundary_row_candidates_Inr [OF assms(1)] assms(2)
  by (auto simp: sound_list_def sound_def list_all_iff)

section \<open>A row\<close>

text \<open>A lexer for golds that are one quoted text: they stand for one entity.\<close>

definition gold_parse :: "string \<Rightarrow> raw option" where
  "gold_parse content =
     Some (RObj [(''entities'', RList [RObj [(''text'', RStr (butlast (tl content))), (''type'', RStr ''Disease'')]])])"

definition gold_example :: "string \<Rightarrow> dict" where
  "gold_example ref =
     [(''ref'', JStr ref), (''partition'', JStr ''train''), (''inputs'', JObj [(''text'', JStr ''cabd'')]),
      (''prompt'', JStr (text_marker @ ''cabd'')), (''gold'', JStr (quote_unicode ''ab''))]"

definition gold_example_row :: "string \<Rightarrow> gold_row" where
  "gold_example_row ref =
     \<lparr>gr_ref = ref, gr_input = ''cabd'', gr_gold = quote_unicode ''ab'', gr_entities = [(''ab'', ''Disease'')]\<rparr>"

lemma gold_example_read:
  "read_gold_row gold_parse (gold_example ''r'') = Inr (Eligible (gold_example_row ''r''))"
  by code_simp

definition candidate_texts :: "candidate list res \<Rightarrow> string list" where
  "candidate_texts r = (case r of Inr cs \<Rightarrow> map cd_corrupted_text cs | Inl e \<Rightarrow> [])"

lemma gold_example_texts:
  "candidate_texts (entity_candidates gold_parse (gold_example_row ''r'') 0 [] [(''ab'', ''Disease'')]) =
     [''b'', ''a'', ''cab'', ''abd'']"
  by code_simp

lemma gold_example_candidates:
  "\<exists>cs. boundary_row_candidates gold_parse (gold_example ''r'') = Inr (Eligible cs) \<and>
     map cd_corrupted_text cs = [''b'', ''a'', ''cab'', ''abd'']"
proof -
  from gold_example_texts obtain cs where
    "entity_candidates gold_parse (gold_example_row ''r'') 0 [] [(''ab'', ''Disease'')] = Inr cs"
    and texts: "map cd_corrupted_text cs = [''b'', ''a'', ''cab'', ''abd'']"
    by (auto simp: candidate_texts_def split: sum.splits)
  moreover from texts have "cs \<noteq> []" by auto
  ultimately show ?thesis
    by (simp add: boundary_row_candidates_def gold_example_read gold_example_row_def)
qed

theorem corruption_changes_one_boundary_witness:
  "\<exists>cs. boundary_row_candidates gold_parse (gold_example ''r'') = Inr (Eligible cs) \<and>
     map cd_corrupted_text cs = [''b'', ''a'', ''cab'', ''abd''] \<and> one_boundary (hd cs)"
proof -
  obtain cs where cs: "boundary_row_candidates gold_parse (gold_example ''r'') = Inr (Eligible cs)"
    and texts: "map cd_corrupted_text cs = [''b'', ''a'', ''cab'', ''abd'']"
    using gold_example_candidates by (elim exE conjE) (rule that)
  from texts have "cs \<noteq> []" by auto
  from corruption_changes_one_boundary [OF cs hd_in_set [OF this]] have "one_boundary (hd cs)" by (elim exE conjE)
  with cs texts show ?thesis by (intro exI conjI)
qed

end
