(* ===== verification/BoundaryManifest.thy ===== *)
theory BoundaryManifest
  imports BoundaryPairs
begin

text \<open>
  The balanced selection of \<^verbatim>\<open>src/training/boundary_contrastive.py\<close> over all source rows, its
  manifest, and \<open>build_boundary_manifest\<close>, the replay that trainer and publisher share.
\<close>

definition BOUNDARY_SCHEMA :: string where "BOUNDARY_SCHEMA = ''microtensor.boundary_contrastive.v1''"
definition BOUNDARY_FILE_DIGEST_ALGORITHM :: string where
  "BOUNDARY_FILE_DIGEST_ALGORITHM = ''sha256_file_bytes_v1''"

section \<open>Ranking\<close>

text \<open>A row with its best expansion and its best contraction.\<close>

type_synonym entry = "dict \<times> candidate option \<times> candidate option"

definition corruption_parts :: "int \<Rightarrow> string \<Rightarrow> candidate \<Rightarrow> json list" where
  "corruption_parts seed ref c =
     [JStr BOUNDARY_CORRUPTION_ALGORITHM, JInt seed, JStr ref, JStr (direction_text (cd_direction c)),
      JStr (side_text (cd_side c)), jnat (cd_entity_index c), JStr (cd_corrupted_text c)]"

definition candidate_key ::
    "stdlib \<Rightarrow> int \<Rightarrow> string \<Rightarrow> candidate \<Rightarrow> string \<times> string \<times> nat \<times> string" where
  "candidate_key lib seed ref c =
     (stable_hash lib (corruption_parts seed ref c), side_text (cd_side c), cd_entity_index c,
      cd_corrupted_text c)"

definition best :: "stdlib \<Rightarrow> int \<Rightarrow> string \<Rightarrow> candidate list \<Rightarrow> candidate option" where
  "best lib seed ref cs = (if cs = [] then None else Some (arg_min_list (candidate_key lib seed ref) cs))"

definition entry_of :: "stdlib \<Rightarrow> int \<Rightarrow> dict \<Rightarrow> candidate list \<Rightarrow> entry" where
  "entry_of lib seed row cs =
     (row, best lib seed (ref_of row) (of_direction Expansion cs),
      best lib seed (ref_of row) (of_direction Contraction cs))"

fun classify_rows ::
    "stdlib \<Rightarrow> (string \<Rightarrow> raw option) \<Rightarrow> int \<Rightarrow> dict list \<Rightarrow> (entry list \<times> string list) res" where
  "classify_rows lib parse seed [] = Inr ([], [])"
| "classify_rows lib parse seed (row # rows) =
     rbind (boundary_row_candidates parse row) (\<lambda>found.
     rbind (classify_rows lib parse seed rows) (\<lambda>(eligible, reasons).
     case found of
       Ineligible reason \<Rightarrow> Inr (eligible, reason # reasons)
     | Eligible cs \<Rightarrow> Inr (entry_of lib seed row cs # eligible, reasons)))"

definition rank_entries :: "stdlib \<Rightarrow> int \<Rightarrow> string \<Rightarrow> entry list \<Rightarrow> entry list" where
  "rank_entries lib seed label entries =
     sort_key (\<lambda>e. (stable_hash lib [JStr BOUNDARY_CORRUPTION_ALGORITHM, JInt seed, JStr ''source'',
                       JStr label, JStr (ref_of (fst e))], ref_of (fst e))) entries"

section \<open>Balancing\<close>

text \<open>
  \<open>per_direction\<close>: the largest number of pairs of each direction, up to the one asked for, for
  which the rows that offer both directions cover what the single-direction rows leave open.
\<close>

definition covered :: "nat \<Rightarrow> nat \<Rightarrow> nat \<Rightarrow> nat \<Rightarrow> bool" where
  "covered expansions contractions both n \<longleftrightarrow>
     (n - min n expansions) + (n - min n contractions) \<le> both"

fun per_direction :: "nat \<Rightarrow> nat \<Rightarrow> nat \<Rightarrow> nat \<Rightarrow> nat" where
  "per_direction expansions contractions both 0 = 0"
| "per_direction expansions contractions both (Suc n) =
     (if covered expansions contractions both (Suc n) then Suc n
      else per_direction expansions contractions both n)"

definition select_entries ::
    "stdlib \<Rightarrow> int \<Rightarrow> nat \<Rightarrow> entry list \<Rightarrow> entry list \<Rightarrow> entry list \<Rightarrow> (dict \<times> candidate) list" where
  "select_entries lib seed wanted expansion_only contraction_only both =
     (let n = per_direction (length expansion_only) (length contraction_only) (length both) wanted;
          expansion_take = min n (length expansion_only);
          contraction_take = min n (length contraction_only);
          expansion_need = n - expansion_take;
          contraction_need = n - contraction_take;
          selected_expansions = take expansion_take expansion_only @ take expansion_need both;
          selected_contractions =
            take contraction_take contraction_only @ take contraction_need (drop expansion_need both)
      in sort_key (\<lambda>(row, c). (stable_hash lib [JStr BOUNDARY_CORRUPTION_ALGORITHM, JInt seed, JStr ''pair'',
                               JStr (ref_of row), JStr (direction_text (cd_direction c))], ref_of row))
           (map (\<lambda>(row, e, c). (row, the e)) selected_expansions
            @ map (\<lambda>(row, e, c). (row, the c)) selected_contractions))"

definition select_balanced ::
    "stdlib \<Rightarrow> int \<Rightarrow> nat \<Rightarrow> entry list \<Rightarrow> (dict \<times> candidate) list" where
  "select_balanced lib seed wanted eligible =
     select_entries lib seed wanted
       (rank_entries lib seed ''expansion'' (filter (\<lambda>(row, e, c). e \<noteq> None \<and> c = None) eligible))
       (rank_entries lib seed ''contraction'' (filter (\<lambda>(row, e, c). e = None \<and> c \<noteq> None) eligible))
       (rank_entries lib seed ''balanced'' (filter (\<lambda>(row, e, c). e \<noteq> None \<and> c \<noteq> None) eligible))"

section \<open>The pairs\<close>

record corruption =
  bc_source_ref :: string
  bc_negative_row :: dict
  bc_record :: dict

definition negative_ref :: "stdlib \<Rightarrow> int \<Rightarrow> string \<Rightarrow> candidate \<Rightarrow> string" where
  "negative_ref lib seed source_ref c =
     source_ref @ ''::boundary-negative::'' @ take 16 (stable_hash lib (corruption_parts seed source_ref c))"

definition pair_of :: "stdlib \<Rightarrow> int \<Rightarrow> dict \<Rightarrow> candidate \<Rightarrow> corruption" where
  "pair_of lib seed row c =
     (let source_ref = ref_of row; ref = negative_ref lib seed source_ref c in
      \<lparr>bc_source_ref = source_ref,
       bc_negative_row = dict_update row [(''ref'', JStr ref), (''gold'', JStr (cd_negative_gold c))],
       bc_record =
         [(''source_ref'', JStr source_ref), (''negative_ref'', JStr ref),
          (''direction'', JStr (direction_text (cd_direction c))), (''side'', JStr (side_text (cd_side c))),
          (''entity_index'', jnat (cd_entity_index c)), (''source_text'', JStr (cd_source_text c)),
          (''corrupted_text'', JStr (cd_corrupted_text c)),
          (''positive_gold_digest'', JStr (text_digest lib (py_str (dget row ''gold'')))),
          (''negative_gold_digest'', JStr (text_digest lib (cd_negative_gold c)))]\<rparr>)"

fun make_pairs ::
    "stdlib \<Rightarrow> int \<Rightarrow> string list \<Rightarrow> (dict \<times> candidate) list \<Rightarrow> corruption list res" where
  "make_pairs lib seed taken [] = Inr []"
| "make_pairs lib seed taken ((row, c) # rest) =
     (let ref = negative_ref lib seed (ref_of row) c in
      require (ref \<notin> set taken) (invalid_value (''generated boundary ref collides: '' @ ref)) (
      map_sum id (\<lambda>ps. pair_of lib seed row c # ps) (make_pairs lib seed taken rest)))"

definition count_direction :: "direction \<Rightarrow> corruption list \<Rightarrow> nat" where
  "count_direction d pairs =
     length (filter (\<lambda>p. dget (bc_record p) ''direction'' = JStr (direction_text d)) pairs)"

text \<open>\<open>dict(sorted(ineligible.items()))\<close>: how often each reason occurred.\<close>

definition reason_counts :: "string list \<Rightarrow> dict" where
  "reason_counts reasons =
     map (\<lambda>r. (r, jnat (length (filter (\<lambda>x. x = r) reasons)))) (sort (remdups reasons))"

definition targets :: "string \<Rightarrow> string \<Rightarrow> corruption list \<Rightarrow> json" where
  "targets ref_key digest_key pairs =
     JList (map (\<lambda>p. JObj [(''ref'', dget (bc_record p) ref_key),
                           (''digest'', dget (bc_record p) digest_key)]) pairs)"

definition corruption_manifest ::
    "stdlib \<Rightarrow> int \<Rightarrow> int \<Rightarrow> nat \<Rightarrow> nat \<Rightarrow> string list \<Rightarrow> string list \<Rightarrow> string list \<Rightarrow>
     corruption list \<Rightarrow> dict res" where
  "corruption_manifest lib seed max_examples row_count eligible_count reasons refs heldout pairs =
     (let records = JList (map (\<lambda>p. JObj (bc_record p)) pairs) in
      rbind (refs_digest lib refs) (\<lambda>source_digest.
      rbind (refs_digest lib heldout) (\<lambda>heldout_digest.
      rbind (refs_digest lib (map bc_source_ref pairs)) (\<lambda>pair_digest.
      rbind (canonical_json_digest lib (targets ''source_ref'' ''positive_gold_digest'' pairs)) (\<lambda>positive_digest.
      rbind (canonical_json_digest lib (targets ''negative_ref'' ''negative_gold_digest'' pairs)) (\<lambda>negative_digest.
      rbind (canonical_json_digest lib records) (\<lambda>pairs_digest.
      Inr [(''algorithm'', JStr BOUNDARY_CORRUPTION_ALGORITHM),
        (''refs_and_records_digest_algorithm'', JStr BOUNDARY_CANONICAL_JSON_DIGEST_ALGORITHM),
        (''gold_text_digest_algorithm'', JStr BOUNDARY_TEXT_DIGEST_ALGORITHM), (''enabled'', JBool True),
        (''seed'', JInt seed), (''requested_examples'', JInt max_examples),
        (''source_training_rows'', jnat row_count), (''eligible_source_rows'', jnat eligible_count),
        (''ineligible_source_rows'', JObj (reason_counts reasons)),
        (''generated_examples'', jnat (length pairs)),
        (''direction_counts'', JObj [(''expansion'', jnat (count_direction Expansion pairs)),
           (''contraction'', jnat (count_direction Contraction pairs))]),
        (''source_refs_digest'', JStr source_digest), (''heldout_refs_digest'', JStr heldout_digest),
        (''pair_source_refs_digest'', JStr pair_digest),
        (''positive_targets_digest'', JStr positive_digest),
        (''negative_targets_digest'', JStr negative_digest), (''pairs_digest'', JStr pairs_digest),
        (''examples'', records)])))))))"

text \<open>\<open>heldout\<close> lists the set of held-out references, each once.\<close>

definition generate_boundary_corruptions ::
    "stdlib \<Rightarrow> (string \<Rightarrow> raw option) \<Rightarrow> dict list \<Rightarrow> string list \<Rightarrow> json \<Rightarrow> json \<Rightarrow>
     (corruption list \<times> dict) res" where
  "generate_boundary_corruptions lib parse rows heldout seed_value max_value =
     (case as_int max_value of
        None \<Rightarrow> fail ValueError ''boundary contrastive examples must be an integer''
      | Some max_examples \<Rightarrow>
     require (0 \<le> max_examples \<and> max_examples \<le> MAX_BOUNDARY_CONTRASTIVE_EXAMPLES \<and> even max_examples)
       (invalid_value ''boundary contrastive examples must be an even integer in [0, 512]'') (
     case as_int seed_value of
       None \<Rightarrow> fail ValueError ''boundary corruption seed must be an integer''
     | Some seed \<Rightarrow>
     require (\<not> list_ex (\<lambda>ref. ref = []) heldout) (invalid_value ''held-out refs must be non-empty strings'') (
     let ordered_rows = sort_key (\<lambda>row. py_str (dget_or (JStr []) row ''ref'')) rows;
         refs = map ref_of ordered_rows;
         overlap = filter (\<lambda>ref. ref \<in> set heldout) refs in
     require (\<not> list_ex (\<lambda>row. ref_of row = []) ordered_rows \<and> distinct refs)
       (invalid_value ''boundary corruption requires unique non-empty source refs'') (
     require (overlap = [])
       (invalid_value (''boundary source and held-out refs overlap: '' @ hd (sort overlap))) (
     rbind (classify_rows lib parse seed ordered_rows) (\<lambda>(eligible, reasons).
     rbind (make_pairs lib seed (refs @ heldout)
              (select_balanced lib seed (nat max_examples div 2) eligible)) (\<lambda>pairs.
     require (count_direction Expansion pairs = count_direction Contraction pairs)
       (invalid_value ''boundary pair selection is not direction-balanced'') (
     map_sum id (\<lambda>manifest. (pairs, manifest))
       (corruption_manifest lib seed max_examples (length rows) (length eligible) reasons refs heldout pairs)
     ))))))))"

section \<open>The replayed manifest\<close>

definition bounded_number :: "string \<Rightarrow> rat \<Rightarrow> pyfloat \<Rightarrow> unit res" where
  "bounded_number label bound v =
     require (float_ge v 0 \<and> \<not> float_gt v bound)
       (invalid_value (''boundary '' @ label @ '' is outside its allowed range'')) (Inr ())"

definition number_of :: "string \<Rightarrow> json \<Rightarrow> pyfloat res" where
  "number_of label v =
     (case v of
        JInt i \<Rightarrow> float_of_int i
      | JFloat f \<Rightarrow> Inr f
      | _ \<Rightarrow> fail ValueError (''boundary '' @ label @ '' must be a number''))"

definition number_type :: "string \<Rightarrow> json \<Rightarrow> unit res" where
  "number_type label v =
     (case v of JInt i \<Rightarrow> Inr () | JFloat f \<Rightarrow> Inr ()
      | _ \<Rightarrow> fail ValueError (''boundary '' @ label @ '' must be a number''))"

definition check_settings :: "json \<Rightarrow> json \<Rightarrow> unit res" where
  "check_settings pairwise_lambda margin =
     rbind (number_type ''pairwise lambda'' pairwise_lambda) (\<lambda>_.
     rbind (number_type ''margin'' margin) (\<lambda>_.
     rbind (number_of ''pairwise lambda'' pairwise_lambda) (\<lambda>pairwise_value.
     rbind (number_of ''margin'' margin) (\<lambda>margin_value.
     rbind (bounded_number ''pairwise lambda'' 1 pairwise_value) (\<lambda>_.
     bounded_number ''margin'' 20 margin_value)))))"

definition boundary_settings :: "json \<Rightarrow> json \<Rightarrow> json \<Rightarrow> dict" where
  "boundary_settings requested pairwise_lambda margin =
     [(''enabled'', JBool True), (''requested_examples'', requested),
      (''pairwise_lambda'', pairwise_lambda), (''margin'', margin), (''positive_target'', JStr ''raw_gold''),
      (''score'', JStr ''mean_assistant_log_probability''),
      (''pair_penalty_reduction'', JStr ''sum_over_positive_count_unpaired_positive_zero''),
      (''objective'', JStr ''positive_ce_plus_lambda_times_reduced_pair_penalty'')]"

text \<open>The rows by reference; \<open>remaining_by_ref[ref]\<close> is the row with that reference.\<close>

definition row_by_ref :: "dict list \<Rightarrow> string \<Rightarrow> dict option" where
  "row_by_ref rows ref = map_of (map (\<lambda>row. (ref_of row, row)) rows) ref"

definition build_boundary_manifest ::
    "stdlib \<Rightarrow> (string \<Rightarrow> raw option) \<Rightarrow> (nat \<Rightarrow> nat \<Rightarrow> nat) \<Rightarrow> dict list \<Rightarrow> string list \<Rightarrow> json \<Rightarrow> json \<Rightarrow> json \<Rightarrow>
     (dict \<times> fold_split \<times> corruption list) res" where
  "build_boundary_manifest lib parse draws rows skipped_refs requested pairwise_lambda margin =
     rbind (check_settings pairwise_lambda margin) (\<lambda>_.
     rbind (boundary_outer_partition draws rows) (\<lambda>(outer_rows, remaining_rows).
     let skipped = sort skipped_refs in
     require (skipped = sort BOUNDARY_SKIPPED_ENCODED_REFS)
       (invalid_value ''boundary skipped refs do not match the pinned tokenizer allowlist'') (
     require (distinct (map ref_of remaining_rows)
              \<and> list_all (\<lambda>ref. row_by_ref remaining_rows ref \<noteq> None) skipped)
       (invalid_value ''boundary skipped refs are not exact non-reserve corpus rows'') (
     let encoded_refs = filter (\<lambda>ref. ref \<notin> set skipped) (map ref_of remaining_rows);
         outer_refs = map ref_of outer_rows in
     rbind (split_boundary_encoded_refs lib encoded_refs outer_refs) (\<lambda>fold.
     let source_rows = map (\<lambda>i. the (row_by_ref remaining_rows (encoded_refs ! i))) (fs_train_indices fold);
         heldout = sort (remdups (outer_refs @ map ((!) encoded_refs) (fs_validation_indices fold) @ skipped)) in
     rbind (generate_boundary_corruptions lib parse source_rows heldout (JInt BOUNDARY_OUTER_SEED) requested)
       (\<lambda>(pairs, corruption).
     require (py_eq (jnat (length pairs)) requested)
       (invalid_value ''public inner train did not yield every requested balanced boundary pair'') (
     map_sum id (\<lambda>skipped_digest.
         ([(''schema'', JStr BOUNDARY_SCHEMA),
           (''embedded_digest_algorithms'', JObj
              [(''refs_and_records'', JStr BOUNDARY_CANONICAL_JSON_DIGEST_ALGORITHM),
               (''gold_text'', JStr BOUNDARY_TEXT_DIGEST_ALGORITHM)]),
           (''settings'', JObj (boundary_settings requested pairwise_lambda margin)),
           (''split'', JObj (fs_manifest fold)), (''corruption'', JObj corruption),
           (''skipped_encoded_refs'', jtexts skipped),
           (''skipped_refs_digest_algorithm'', JStr BOUNDARY_CANONICAL_JSON_DIGEST_ALGORITHM),
           (''skipped_encoded_refs_digest'', JStr skipped_digest)], fold, pairs))
       (refs_digest lib skipped))))))))"

section \<open>Manifests always serialise\<close>

fun float_free :: "json \<Rightarrow> bool" where
  "float_free (JFloat f) = False"
| "float_free (JList xs) = list_all float_free xs"
| "float_free (JObj d) = list_all (\<lambda>(k, v). float_free v) d"
| "float_free _ = True"

lemma float_free_dumps:
  "float_free v \<Longrightarrow> \<exists>t. dumps_with q lib v = Some t"
  "list_all float_free vs \<Longrightarrow> \<exists>ts. dumps_list q lib vs = Some ts"
  "list_all (\<lambda>(k, v). float_free v) d \<Longrightarrow> \<exists>ps. dumps_items q lib d = Some ps"
  by (induction q lib v and q lib vs and q lib d rule: dumps_with_dumps_list_dumps_items.induct) auto

lemma canonical_json_digest_Inr: "float_free v \<Longrightarrow> \<exists>d. canonical_json_digest lib v = Inr d"
  using float_free_dumps(1) [of v quote_unicode lib]
  by (auto simp: canonical_json_digest_def canonical_json_bytes_def)

lemma record_float_free: "float_free (JObj (bc_record (pair_of lib seed row c)))"
  by (simp add: pair_of_def Let_def jnat_def)

lemma targets_float_free:
  "float_free (targets ''source_ref'' ''positive_gold_digest'' (map (\<lambda>(row, c). pair_of lib seed row c) sel))"
  "float_free (targets ''negative_ref'' ''negative_gold_digest'' (map (\<lambda>(row, c). pair_of lib seed row c) sel))"
  by (simp_all add: targets_def list_all_iff pair_of_def Let_def dget_def split: prod.split)

lemma corruption_manifest_Inr:
  "\<exists>d. corruption_manifest lib seed m n k reasons refs heldout
     (map (\<lambda>(row, c). pair_of lib seed row c) sel) = Inr d"
proof -
  let ?pairs = "map (\<lambda>(row, c). pair_of lib seed row c) sel"
  let ?records = "JList (map (\<lambda>p. JObj (bc_record p)) ?pairs)"
  have "float_free ?records"
    using record_float_free by (auto simp: list_all_iff simp del: float_free.simps(3))
  then obtain d4 where d4: "canonical_json_digest lib ?records = Inr d4"
    using canonical_json_digest_Inr by blast
  obtain d5 where "canonical_json_digest lib (targets ''source_ref'' ''positive_gold_digest'' ?pairs) = Inr d5"
    using canonical_json_digest_Inr [OF targets_float_free(1)] ..
  moreover obtain d6 where "canonical_json_digest lib (targets ''negative_ref'' ''negative_gold_digest'' ?pairs) = Inr d6"
    using canonical_json_digest_Inr [OF targets_float_free(2)] ..
  moreover obtain d1 d2 d3 where "refs_digest lib refs = Inr d1" "refs_digest lib heldout = Inr d2"
    "refs_digest lib (map bc_source_ref ?pairs) = Inr d3"
    using refs_digest_Inr by blast
  ultimately show ?thesis unfolding corruption_manifest_def Let_def by (simp only: d4 rbind_simps sum.inject) blast
qed

section \<open>The selection\<close>

lemma per_direction_bounds:
  "per_direction e c b n \<le> n" "covered e c b (per_direction e c b n)"
  by (induction n) (auto simp: covered_def)

lemma per_direction_largest: "per_direction e c b n < m \<Longrightarrow> m \<le> n \<Longrightarrow> \<not> covered e c b m"
  by (induction n) (auto simp: le_Suc_eq split: if_splits)

text \<open>Each entry holds an expansion and a contraction, where it holds any.\<close>

definition entry_ok :: "entry \<Rightarrow> bool" where
  "entry_ok en \<longleftrightarrow>
     (case en of (row, e, c) \<Rightarrow>
        (\<forall>x. e = Some x \<longrightarrow> cd_direction x = Expansion) \<and> (\<forall>x. c = Some x \<longrightarrow> cd_direction x = Contraction))"

lemma best_Some: "best lib seed ref cs = Some x \<Longrightarrow> x \<in> set cs"
  by (auto simp: best_def arg_min_list_in split: if_splits)

lemma entry_of_ok: "entry_ok (entry_of lib seed row cs)"
  by (auto simp: entry_ok_def entry_of_def of_direction_def dest: best_Some)

lemma classify_rows_entries:
  "classify_rows lib parse seed rows = Inr (eligible, reasons) \<Longrightarrow>
     list_all entry_ok eligible \<and> mset (map fst eligible) \<subseteq># mset rows"
proof (induction rows arbitrary: eligible reasons)
  case (Cons row rows)
  then obtain found eligible' reasons' where found: "boundary_row_candidates parse row = Inr found"
    and rest: "classify_rows lib parse seed rows = Inr (eligible', reasons')"
    by (auto simp: rbind_Inr_iff)
  have fst_entry: "fst (entry_of lib seed row cs) = row" for cs by (simp add: entry_of_def)
  from Cons.prems found rest Cons.IH [OF rest] show ?case
    by (cases found) (auto simp: entry_of_ok fst_entry intro: subset_mset.order_trans)
qed simp

lemma mset_take_le: "mset (take k xs) \<subseteq># mset xs"
  by (metis append_take_drop_id mset_append mset_subset_eq_add_left)

lemma distinct_submset:
  assumes "mset xs \<subseteq># mset ys" and "distinct ys"
  shows "distinct xs"
proof -
  have "count (mset xs) x = (if x \<in> set xs then 1 else 0)" for x
    using mset_subset_eq_count [OF assms(1), of x] assms(2)
    by (auto simp: distinct_count_atmost_1 count_greater_zero_iff Suc_le_eq
        intro!: le_antisym split: if_splits)
  then show ?thesis by (simp add: distinct_count_atmost_1)
qed

lemma filters_submset:
  assumes "\<And>x. \<not> (P x \<and> Q x)" "\<And>x. \<not> (P x \<and> R x)" "\<And>x. \<not> (Q x \<and> R x)"
  shows "mset (filter P xs) + mset (filter Q xs) + mset (filter R xs) \<subseteq># mset xs"
  using assms by (auto simp: subseteq_mset_def)

text \<open>The two halves of a selection before they are merged.\<close>

definition halves :: "nat \<Rightarrow> entry list \<Rightarrow> entry list \<Rightarrow> entry list \<Rightarrow> entry list \<times> entry list" where
  "halves n expansion_only contraction_only both =
     (let expansion_need = n - min n (length expansion_only) in
      (take (min n (length expansion_only)) expansion_only @ take expansion_need both,
       take (min n (length contraction_only)) contraction_only
         @ take (n - min n (length contraction_only)) (drop expansion_need both)))"

lemma halves_length:
  assumes "covered (length eo) (length co) (length both) n" and "halves n eo co both = (se, sc)"
  shows "length se = n" "length sc = n"
  using assms by (auto simp: halves_def covered_def Let_def)

lemma halves_submset:
  assumes "halves n eo co both = (se, sc)"
  shows "mset (se @ sc) \<subseteq># mset eo + mset co + mset both"
proof -
  let ?e = "min n (length eo)" and ?c = "min n (length co)"
  from assms have "mset (se @ sc) =
      mset (take ?e eo) + mset (take ?c co) + mset (take (n - ?e) both @ take (n - ?c) (drop (n - ?e) both))"
    by (auto simp: halves_def Let_def)
  also have "take (n - ?e) both @ take (n - ?c) (drop (n - ?e) both) = take ((n - ?e) + (n - ?c)) both"
    by (simp only: take_add)
  finally show ?thesis
    by (simp only:) (intro subset_mset.add_mono mset_take_le)
qed

lemma halves_members:
  assumes "halves n eo co both = (se, sc)"
  shows "set se \<subseteq> set eo \<union> set both" "set sc \<subseteq> set co \<union> set both"
  using assms by (auto simp: halves_def Let_def dest!: in_set_takeD in_set_dropD)

lemma select_entries_halves:
  assumes "halves (per_direction (length eo) (length co) (length both) wanted) eo co both = (se, sc)"
  shows "mset (select_entries lib seed wanted eo co both) =
    mset (map (\<lambda>(row, e, c). (row, the e)) se @ map (\<lambda>(row, e, c). (row, the c)) sc)"
  using assms by (auto simp: select_entries_def halves_def Let_def)

lemma rank_entries_set [simp]:
  "set (rank_entries lib seed label xs) = set xs" "mset (rank_entries lib seed label xs) = mset xs"
  by (simp_all add: rank_entries_def)

text \<open>What a balanced selection is made of.\<close>

lemma select_balanced_facts:
  assumes ok: "list_all entry_ok eligible"
  obtains se sc where
    "mset (select_balanced lib seed wanted eligible) =
       mset (map (\<lambda>(row, e, c). (row, the e)) se @ map (\<lambda>(row, e, c). (row, the c)) sc)"
    "length se = length sc" "length se \<le> wanted" "mset (se @ sc) \<subseteq># mset eligible"
    "\<And>row e c. (row, e, c) \<in> set se \<Longrightarrow> cd_direction (the e) = Expansion"
    "\<And>row e c. (row, e, c) \<in> set sc \<Longrightarrow> cd_direction (the c) = Contraction"
proof -
  let ?eo = "rank_entries lib seed ''expansion'' (filter (\<lambda>(row, e, c). e \<noteq> None \<and> c = None) eligible)"
  let ?co = "rank_entries lib seed ''contraction'' (filter (\<lambda>(row, e, c). e = None \<and> c \<noteq> None) eligible)"
  let ?bo = "rank_entries lib seed ''balanced'' (filter (\<lambda>(row, e, c). e \<noteq> None \<and> c \<noteq> None) eligible)"
  let ?n = "per_direction (length ?eo) (length ?co) (length ?bo) wanted"
  obtain se sc where halves: "halves ?n ?eo ?co ?bo = (se, sc)" by fastforce
  have "mset (select_balanced lib seed wanted eligible) =
      mset (map (\<lambda>(row, e, c). (row, the e)) se @ map (\<lambda>(row, e, c). (row, the c)) sc)"
    unfolding select_balanced_def by (rule select_entries_halves [OF halves])
  moreover have "length se = ?n" "length sc = ?n"
    using halves_length [OF per_direction_bounds(2) halves] by auto
  moreover have "?n \<le> wanted" by (rule per_direction_bounds)
  moreover have "mset ?eo + mset ?co + mset ?bo \<subseteq># mset eligible"
    unfolding rank_entries_set by (rule filters_submset) auto
  with halves_submset [OF halves] have "mset (se @ sc) \<subseteq># mset eligible"
    by (rule subset_mset.order_trans)
  moreover have "cd_direction (the e) = Expansion" if "(row, e, c) \<in> set se" for row e c
    using that halves_members(1) [OF halves] ok by (fastforce simp: list_all_iff entry_ok_def)
  moreover have "cd_direction (the c) = Contraction" if "(row, e, c) \<in> set sc" for row e c
    using that halves_members(2) [OF halves] ok by (fastforce simp: list_all_iff entry_ok_def)
  ultimately show ?thesis by (intro that [of se sc]) auto
qed

lemma make_pairs_Inr:
  "make_pairs lib seed taken sel = Inr pairs \<longleftrightarrow>
     pairs = map (\<lambda>(row, c). pair_of lib seed row c) sel \<and>
     list_all (\<lambda>(row, c). negative_ref lib seed (ref_of row) c \<notin> set taken) sel"
proof (induction sel arbitrary: pairs)
  case (Cons rc sel)
  obtain row c where rc: "rc = (row, c)" by (cases rc)
  show ?case
    by (simp only: rc make_pairs.simps Let_def require_Inr_iff map_sum_Inr Cons.IH list.map list.pred_inject prod.case)
      blast
qed auto

lemma pair_of_fields [simp]:
  "bc_source_ref (pair_of lib seed row c) = ref_of row"
  "dget (bc_record (pair_of lib seed row c)) ''direction'' = JStr (direction_text (cd_direction c))"
  "ref_of (bc_negative_row (pair_of lib seed row c)) = negative_ref lib seed (ref_of row) c"
  by (simp_all add: pair_of_def Let_def dget_def ref_of_def map_of_dict_update)

lemma direction_text_inj [simp]: "direction_text d = direction_text d' \<longleftrightarrow> d = d'"
  by (cases d; cases d') (simp_all add: direction_text_def)

lemma count_direction_pairs:
  "count_direction d (map (\<lambda>(row, c). pair_of lib seed row c) sel) =
     size (filter_mset (\<lambda>(row, c). cd_direction c = d) (mset sel))"
  by (induction sel) (auto simp: count_direction_def)

lemma selection_counts:
  assumes "mset sel = mset (map (\<lambda>(row, e, c). (row, the e)) se @ map (\<lambda>(row, e, c). (row, the c)) sc)"
    and "length se = length sc"
    and "\<And>row e c. (row, e, c) \<in> set se \<Longrightarrow> cd_direction (the e) = Expansion"
    and "\<And>row e c. (row, e, c) \<in> set sc \<Longrightarrow> cd_direction (the c) = Contraction"
  shows "size (filter_mset (\<lambda>(row, c). cd_direction c = d) (mset sel)) = length se"
proof -
  have "filter_mset (\<lambda>(row, c). cd_direction c = d) (mset sel) =
      mset (map (\<lambda>(row, e, c). (row, the e)) (filter (\<lambda>_. d = Expansion) se) @
            map (\<lambda>(row, e, c). (row, the c)) (filter (\<lambda>_. d = Contraction) sc))"
    unfolding assms(1) mset_filter [symmetric] filter_append filter_map
    using assms(3,4) by (intro arg_cong [of _ _ mset] arg_cong2 [of _ _ _ _ "(@)"] arg_cong2 [of _ _ _ _ map] filter_cong) auto
  then show ?thesis using assms(2) by (cases d) (simp_all add: size_mset)
qed

text \<open>What a run that generates pairs has selected, and from which rows.\<close>

lemma generated_pairs_selection:
  assumes run: "generate_boundary_corruptions lib parse rows heldout (JInt seed) (JInt m) = Inr (pairs, manifest)"
  obtains sel se sc where "0 \<le> m" "pairs = map (\<lambda>(row, c). pair_of lib seed row c) sel"
    "mset sel = mset (map (\<lambda>(row, e, c). (row, the e)) se @ map (\<lambda>(row, e, c). (row, the c)) sc)"
    "length se = length sc" "length se \<le> nat m div 2"
    "list_all (\<lambda>(row, e, c). cd_direction (the e) = Expansion) se"
    "list_all (\<lambda>(row, e, c). cd_direction (the c) = Contraction) sc"
    "image_mset fst (mset (se @ sc)) \<subseteq># mset rows"
    "distinct (map ref_of rows)" "ref_of ` set rows \<inter> set heldout = {}"
    "list_all (\<lambda>(row, c). negative_ref lib seed (ref_of row) c \<notin> ref_of ` set rows \<union> set heldout) sel"
proof -
  let ?rows = "sort_key (\<lambda>row. py_str (dget_or (JStr []) row ''ref'')) rows"
  let ?refs = "map ref_of ?rows"
  from run obtain eligible reasons where m: "0 \<le> m" and refs: "distinct ?refs"
    "filter (\<lambda>ref. ref \<in> set heldout) ?refs = []"
    and rows: "classify_rows lib parse seed ?rows = Inr (eligible, reasons)"
    and pairs: "make_pairs lib seed (?refs @ heldout) (select_balanced lib seed (nat m div 2) eligible) = Inr pairs"
    by (auto simp: generate_boundary_corruptions_def res_iffs map_sum_Inr Let_def)
  let ?sel = "select_balanced lib seed (nat m div 2) eligible"
  from classify_rows_entries [OF rows] have ok: "list_all entry_ok eligible"
    and kept: "mset (map fst eligible) \<subseteq># mset rows" by simp_all
  from select_balanced_facts [OF ok, of lib seed "nat m div 2"] obtain se sc where
    sel: "mset ?sel = mset (map (\<lambda>(row, e, c). (row, the e)) se @ map (\<lambda>(row, e, c). (row, the c)) sc)"
    and sizes: "length se = length sc" "length se \<le> nat m div 2" and sub: "mset (se @ sc) \<subseteq># mset eligible"
    and dirs: "\<And>row e c. (row, e, c) \<in> set se \<Longrightarrow> cd_direction (the e) = Expansion"
      "\<And>row e c. (row, e, c) \<in> set sc \<Longrightarrow> cd_direction (the c) = Contraction"
    by blast
  from pairs have made: "pairs = map (\<lambda>(row, c). pair_of lib seed row c) ?sel"
    "list_all (\<lambda>(row, c). negative_ref lib seed (ref_of row) c \<notin> set (?refs @ heldout)) ?sel"
    by (simp_all add: make_pairs_Inr)
  have "image_mset fst (mset (se @ sc)) \<subseteq># mset rows"
    using image_mset_subseteq_mono [OF sub, of fst] kept by (simp add: subset_mset.order_trans)
  moreover have "mset ?refs = mset (map ref_of rows)" by (simp add: mset_map)
  then have "distinct (map ref_of rows)" using refs(1) mset_eq_imp_distinct_iff by blast
  moreover have "ref_of ` set rows \<inter> set heldout = {}" using refs(2) by (auto simp: filter_empty_conv)
  ultimately show ?thesis using m made sel sizes dirs
    by (intro that [of ?sel se sc]) (auto simp: list_all_iff)
qed

lemma generated_pairs_sources:
  assumes run: "generate_boundary_corruptions lib parse rows heldout (JInt seed) (JInt m) = Inr (pairs, manifest)"
  shows "distinct (map bc_source_ref pairs)" "bc_source_ref ` set pairs \<subseteq> ref_of ` set rows - set heldout"
    "(ref_of \<circ> bc_negative_row) ` set pairs \<inter> (ref_of ` set rows \<union> set heldout) = {}"
proof -
  from run obtain sel se sc where made: "pairs = map (\<lambda>(row, c). pair_of lib seed row c) sel"
    and sel: "mset sel = mset (map (\<lambda>(row, e, c). (row, the e)) se @ map (\<lambda>(row, e, c). (row, the c)) sc)"
    and sub: "image_mset fst (mset (se @ sc)) \<subseteq># mset rows"
    and refs: "distinct (map ref_of rows)" "ref_of ` set rows \<inter> set heldout = {}"
    and fresh: "list_all (\<lambda>(row, c). negative_ref lib seed (ref_of row) c \<notin> ref_of ` set rows \<union> set heldout) sel"
    by (rule generated_pairs_selection)
  have "map bc_source_ref pairs = map (ref_of \<circ> fst) sel" by (auto simp: made)
  moreover have "mset (map (ref_of \<circ> fst) sel) = image_mset ref_of (image_mset fst (mset (se @ sc)))"
    unfolding mset_map sel by (simp add: image_mset.compositionality comp_def case_prod_beta)
  ultimately have all: "mset (map bc_source_ref pairs) \<subseteq># mset (map ref_of rows)"
    using image_mset_subseteq_mono [OF sub, of ref_of] by simp
  show "distinct (map bc_source_ref pairs)" by (rule distinct_submset [OF all refs(1)])
  show "bc_source_ref ` set pairs \<subseteq> ref_of ` set rows - set heldout"
    using set_mset_mono [OF all] refs(2) by auto
  show "(ref_of \<circ> bc_negative_row) ` set pairs \<inter> (ref_of ` set rows \<union> set heldout) = {}"
    using made fresh by (auto simp: list_all_iff)
qed

text \<open>
  C36: the corruption set is balanced and leaks nothing. When pairs are generated, there are as
  many expansions as contractions, together at most as many as asked for; every pair comes from
  a row of its own, no source is held out, and no generated reference names a source or a
  held-out row.
\<close>

theorem generated_pairs_balanced:
  assumes run: "generate_boundary_corruptions lib parse rows heldout (JInt seed) (JInt m) = Inr (pairs, manifest)"
  shows "count_direction Expansion pairs = count_direction Contraction pairs \<and>
    length pairs = 2 * count_direction Expansion pairs \<and> int (length pairs) \<le> m \<and>
    distinct (map bc_source_ref pairs) \<and>
    bc_source_ref ` set pairs \<subseteq> ref_of ` set rows - set heldout \<and>
    (ref_of \<circ> bc_negative_row) ` set pairs \<inter> (ref_of ` set rows \<union> set heldout) = {}"
proof -
  from run obtain sel se sc where made: "0 \<le> m" "pairs = map (\<lambda>(row, c). pair_of lib seed row c) sel"
    and sel: "mset sel = mset (map (\<lambda>(row, e, c). (row, the e)) se @ map (\<lambda>(row, e, c). (row, the c)) sc)"
    and sizes: "length se = length sc" "length se \<le> nat m div 2"
    and dirs: "list_all (\<lambda>(row, e, c). cd_direction (the e) = Expansion) se"
      "list_all (\<lambda>(row, e, c). cd_direction (the c) = Contraction) sc"
    and "image_mset fst (mset (se @ sc)) \<subseteq># mset rows"
    and "distinct (map ref_of rows)" "ref_of ` set rows \<inter> set heldout = {}"
    and "list_all (\<lambda>(row, c). negative_ref lib seed (ref_of row) c \<notin> ref_of ` set rows \<union> set heldout) sel"
    by (rule generated_pairs_selection)
  have "count_direction d pairs = length se" for d
    unfolding made(2) count_direction_pairs using dirs
    by (intro selection_counts [OF sel sizes(1)]) (auto simp: list_all_iff)
  moreover have "length pairs = length se + length sc"
    using mset_eq_length [OF sel] by (simp add: made(2))
  ultimately show ?thesis using sizes made(1) generated_pairs_sources [OF run] by auto
qed

section \<open>Two rows\<close>

definition gold_candidate :: "direction \<Rightarrow> side \<Rightarrow> string \<Rightarrow> candidate" where
  "gold_candidate d sd corrupted =
     \<lparr>cd_direction = d, cd_side = sd, cd_entity_index = 0, cd_source_text = ''ab'',
      cd_corrupted_text = corrupted, cd_negative_gold = quote_unicode corrupted\<rparr>"

definition gold_candidates :: "candidate list" where
  "gold_candidates =
     [gold_candidate Contraction LeftSide ''b'', gold_candidate Contraction RightSide ''a'',
      gold_candidate Expansion LeftSide ''cab'', gold_candidate Expansion RightSide ''abd'']"

definition gold_entry :: "string \<Rightarrow> entry" where
  "gold_entry ref =
     (gold_example ref, Some (gold_candidate Expansion LeftSide ''cab''),
      Some (gold_candidate Contraction LeftSide ''b''))"

lemma gold_rows:
  "read_gold_row gold_parse (gold_example ''s'') = Inr (Eligible (gold_example_row ''s''))"
  "entity_candidates gold_parse (gold_example_row ''r'') 0 [] [(''ab'', ''Disease'')] = Inr gold_candidates"
  "entity_candidates gold_parse (gold_example_row ''s'') 0 [] [(''ab'', ''Disease'')] = Inr gold_candidates"
  by code_simp+

lemma gold_entries:
  "entry_of example_lib 92 (gold_example ''r'') gold_candidates = gold_entry ''r''"
  "entry_of example_lib 92 (gold_example ''s'') gold_candidates = gold_entry ''s''"
  by code_simp+

lemma gold_row_entities [simp]: "gr_entities (gold_example_row ref) = [(''ab'', ''Disease'')]"
  by (simp add: gold_example_row_def)

lemma gold_classified:
  "classify_rows example_lib gold_parse 92 [gold_example ''r'', gold_example ''s''] =
     Inr ([gold_entry ''r'', gold_entry ''s''], [])"
proof -
  have "gold_candidates \<noteq> []" by (simp add: gold_candidates_def)
  then have "boundary_row_candidates gold_parse (gold_example ''r'') = Inr (Eligible gold_candidates)"
    "boundary_row_candidates gold_parse (gold_example ''s'') = Inr (Eligible gold_candidates)"
    by (simp_all add: boundary_row_candidates_def gold_example_read gold_rows del: entity_candidates.simps)
  then show ?thesis by (simp add: gold_entries)
qed

lemma gold_selected:
  "select_balanced example_lib 92 (Suc 0) [gold_entry ''r'', gold_entry ''s''] =
     [(gold_example ''r'', gold_candidate Expansion LeftSide ''cab''),
      (gold_example ''s'', gold_candidate Contraction LeftSide ''b'')]"
  by code_simp

definition gold_pairs :: "corruption list" where
  "gold_pairs = map (\<lambda>(row, c). pair_of example_lib 92 row c)
     [(gold_example ''r'', gold_candidate Expansion LeftSide ''cab''),
      (gold_example ''s'', gold_candidate Contraction LeftSide ''b'')]"

lemma gold_made:
  "make_pairs example_lib 92 [''r'', ''s'', ''h'']
     [(gold_example ''r'', gold_candidate Expansion LeftSide ''cab''),
      (gold_example ''s'', gold_candidate Contraction LeftSide ''b'')] = Inr gold_pairs"
  by (simp add: make_pairs_Inr gold_pairs_def negative_ref_def gold_example_def ref_of_def dget_def)

theorem generated_pairs_balanced_witness:
  "\<exists>pairs manifest.
     generate_boundary_corruptions example_lib gold_parse [gold_example ''r'', gold_example ''s''] [''h'']
       (JInt 92) (JInt 2) = Inr (pairs, manifest) \<and>
     count_direction Expansion pairs = 1 \<and> count_direction Contraction pairs = 1"
proof -
  let ?rows = "[gold_example ''r'', gold_example ''s'']"
  have order: "sort_key (\<lambda>row. py_str (dget_or (JStr []) row ''ref'')) ?rows = ?rows"
    and refs: "map ref_of ?rows = [''r'', ''s'']"
    and names: "ref_of (gold_example ''r'') = ''r''" "ref_of (gold_example ''s'') = ''s''"
    by (simp_all add: gold_example_def dget_or_def ref_of_def dget_def)
  have counts: "count_direction d gold_pairs = 1" for d
    by (cases d) (simp_all add: count_direction_def gold_pairs_def gold_candidate_def)
  obtain manifest where
    "corruption_manifest example_lib 92 2 (Suc (Suc 0)) (Suc (Suc 0)) [] [''r'', ''s''] [''h''] gold_pairs = Inr manifest"
    unfolding gold_pairs_def using corruption_manifest_Inr by blast
  then have run: "generate_boundary_corruptions example_lib gold_parse ?rows [''h''] (JInt 92) (JInt 2) =
      Inr (gold_pairs, manifest)"
    unfolding generate_boundary_corruptions_def Let_def order refs
    by (simp add: MAX_BOUNDARY_CONTRASTIVE_EXAMPLES_def gold_classified gold_selected gold_made counts names
        del: classify_rows.simps make_pairs.simps)
  from generated_pairs_balanced [OF run] run counts show ?thesis by auto
qed

end
