(* ===== verification/BoundarySummary.thy ===== *)
theory BoundarySummary
  imports BoundaryManifest
begin

text \<open>
  The two remaining operations of \<^verbatim>\<open>src/training/boundary_contrastive.py\<close>: the count of rows
  with a disease, and the summary of a manifest that is stored with the training metadata.
\<close>

section \<open>Counting rows\<close>

text \<open>The type of a raw entity that has exactly a text and a type, both texts.\<close>

definition entity_type_of :: "json \<Rightarrow> string option" where
  "entity_type_of v =
     (case as_obj v of
        None \<Rightarrow> None
      | Some d \<Rightarrow>
          if \<not> has_exactly {''text'', ''type''} d then None
          else (case as_str (dget d ''text'') of None \<Rightarrow> None | Some _ \<Rightarrow> as_str (dget d ''type'')))"

definition row_types :: "(string \<Rightarrow> raw option) \<Rightarrow> dict \<Rightarrow> string list res" where
  "row_types parse row =
     (case (as_str (dget row ''ref''), as_str (dget row ''gold'')) of
        (Some ref, Some raw_gold) \<Rightarrow>
          require (ref \<noteq> []) (invalid_value ''boundary disease count requires ref and raw gold'') (
          rbind (strict_json_loads parse raw_gold ref) (\<lambda>payload.
          case as_obj payload of
            None \<Rightarrow> fail ValueError (''gold must contain only entities for '' @ ref)
          | Some d \<Rightarrow>
              require (has_exactly {''entities''} d)
                (invalid_value (''gold must contain only entities for '' @ ref)) (
              case as_list (dget d ''entities'') of
                None \<Rightarrow> fail ValueError (''malformed gold entities for '' @ ref)
              | Some entities \<Rightarrow>
                  require (\<not> list_ex (\<lambda>e. entity_type_of e = None) entities)
                    (invalid_value (''malformed gold entities for '' @ ref))
                  (Inr (List.map_filter entity_type_of entities)))))
      | _ \<Rightarrow> fail ValueError ''boundary disease count requires ref and raw gold'')"

fun count_diseases :: "(string \<Rightarrow> raw option) \<Rightarrow> nat \<Rightarrow> dict list \<Rightarrow> nat res" where
  "count_diseases parse sofar [] = Inr sofar"
| "count_diseases parse sofar (row # rows) =
     rbind (row_types parse row) (\<lambda>types.
     count_diseases parse (sofar + (if ''Disease'' \<in> set types then 1 else 0)) rows)"

definition disease_row_count :: "(string \<Rightarrow> raw option) \<Rightarrow> dict list \<Rightarrow> nat res" where
  "disease_row_count parse rows = count_diseases parse 0 rows"

lemma count_diseases_filter:
  "count_diseases parse sofar rows = Inr n \<longleftrightarrow>
     list_all (\<lambda>row. \<exists>types. row_types parse row = Inr types) rows \<and>
     n = sofar + length (filter (\<lambda>row. ''Disease'' \<in> set (projr (row_types parse row))) rows)"
  by (induction parse sofar rows rule: count_diseases.induct) (auto simp: rbind_Inr_iff)

text \<open>The count is the number of rows with a disease among their entities, all rows being valid.\<close>

lemma disease_row_count_exact:
  "disease_row_count parse rows = Inr n \<longleftrightarrow>
     list_all (\<lambda>row. \<exists>types. row_types parse row = Inr types) rows \<and>
     n = length (filter (\<lambda>row. ''Disease'' \<in> set (projr (row_types parse row))) rows)"
  by (simp add: disease_row_count_def count_diseases_filter)

text \<open>Every row the corruption code can read is one this count can read, with the same types.\<close>

lemma entity_of_type: "entity_of d = Some e \<Longrightarrow> has_exactly {''text'', ''type''} d \<Longrightarrow>
    entity_type_of (JObj d) = Some (snd e)"
  by (auto simp: entity_of_def entity_type_of_def split: json.splits if_splits)

lemma read_entities_types:
  "read_entities ref found vs = Inr (Eligible es) \<Longrightarrow>
     \<not> list_ex (\<lambda>v. entity_type_of v = None) vs \<and>
     map snd es = map snd found @ List.map_filter entity_type_of vs"
proof (induction ref found vs rule: read_entities.induct)
  case (2 ref found v vs)
  then obtain d e where "v = JObj d" "has_exactly {''text'', ''type''} d" "entity_of d = Some e"
    and rest: "read_entities ref (found @ [e]) vs = Inr (Eligible es)"
    by (auto simp: Let_def res_iffs split: option.splits if_splits)
  with 2 show ?case by (auto simp: entity_of_type map_filter_simps(1) Let_def res_iffs split: if_splits)
qed (simp add: map_filter_simps)

lemma eligibility_case_Inr:
  "(case v of Ineligible r \<Rightarrow> Inr (Ineligible r) | Eligible x \<Rightarrow> k x) = Inr (Eligible y) \<longleftrightarrow>
     (\<exists>x. v = Eligible x \<and> k x = Inr (Eligible y))"
  by (cases v) simp_all

lemma read_gold_row_types:
  assumes "read_gold_row parse row = Inr (Eligible g)"
  shows "row_types parse row = Inr (map snd (gr_entities g))"
proof -
  from assms obtain ref raw_gold d vs es where parts:
    "as_str (dget row ''ref'') = Some ref" "ref \<noteq> []" "as_str (dget row ''gold'') = Some raw_gold"
    "strict_json_loads parse raw_gold ref = Inr (JObj d)" "has_exactly {''entities''} d"
    "as_list (dget d ''entities'') = Some vs" "read_entities ref [] vs = Inr (Eligible es)"
    and g: "gr_entities g = es"
    unfolding read_gold_row_def
    by (auto simp: res_iffs case_option_res_iffs eligibility_case_Inr split: if_split_asm)
  from read_entities_types [OF parts(7)] show ?thesis by (simp add: row_types_def parts(1-6) g)
qed

section \<open>The metadata summary\<close>

text \<open>\<open>d[key]\<close>, the mapping and the length of a value; a value of another kind has no \<open>items\<close>.\<close>

definition required_item :: "dict \<Rightarrow> string \<Rightarrow> json res" where
  "required_item d key = (if has_key d key then Inr (dget d key) else fail KeyError key)"

definition mapping_of :: "exc_class \<Rightarrow> json \<Rightarrow> dict res" where
  "mapping_of missing v = (case v of JObj d \<Rightarrow> Inr d | _ \<Rightarrow> fail missing ''not a mapping'')"

definition length_of :: "json \<Rightarrow> nat res" where
  "length_of v =
     (case v of JList xs \<Rightarrow> Inr (length xs) | JObj d \<Rightarrow> Inr (length d) | JStr t \<Rightarrow> Inr (length t)
      | _ \<Rightarrow> fail TypeError ''object has no len()'')"

definition boundary_metadata_summary :: "dict \<Rightarrow> string \<Rightarrow> dict res" where
  "boundary_metadata_summary manifest manifest_digest =
     rbind (required_item manifest ''split'') (\<lambda>split.
     rbind (required_item manifest ''corruption'') (\<lambda>corruption.
     rbind (required_item manifest ''settings'') (\<lambda>settings.
     rbind (required_item manifest ''schema'') (\<lambda>schema.
     rbind (required_item manifest ''embedded_digest_algorithms'') (\<lambda>algorithms.
     rbind (mapping_of TypeError settings) (\<lambda>setting_items.
     rbind (mapping_of OtherException split) (\<lambda>split_items.
     rbind (mapping_of OtherException corruption) (\<lambda>corruption_items.
     rbind (required_item manifest ''skipped_encoded_refs'') (\<lambda>skipped.
     rbind (length_of skipped) (\<lambda>skipped_count.
     rbind (required_item manifest ''skipped_encoded_refs_digest'') (\<lambda>skipped_digest.
     Inr (dict_update
       (dict_update [(''schema'', schema), (''embedded_digest_algorithms'', algorithms)] setting_items)
       [(''manifest_file'', JStr ''boundary_contrastive_manifest.json''),
        (''manifest_digest_algorithm'', JStr BOUNDARY_FILE_DIGEST_ALGORITHM),
        (''manifest_digest'', JStr manifest_digest),
        (''split'', JObj (dict_without [''outer_refs'', ''inner_train_refs'', ''inner_validation_refs''] split_items)),
        (''corruption'', JObj (dict_without [''examples''] corruption_items)),
        (''skipped_encoded_examples'', jnat skipped_count),
        (''skipped_encoded_refs_digest'', skipped_digest)]))))))))))))"

lemma built_manifest:
  assumes "build_boundary_manifest lib parse draws rows skipped_refs requested pairwise_lambda margin =
    Inr (manifest, split, pairs)"
  obtains sd fm cm where "manifest =
      [(''schema'', JStr BOUNDARY_SCHEMA),
       (''embedded_digest_algorithms'', JObj
          [(''refs_and_records'', JStr BOUNDARY_CANONICAL_JSON_DIGEST_ALGORITHM),
           (''gold_text'', JStr BOUNDARY_TEXT_DIGEST_ALGORITHM)]),
       (''settings'', JObj (boundary_settings requested pairwise_lambda margin)),
       (''split'', JObj fm), (''corruption'', JObj cm),
       (''skipped_encoded_refs'', jtexts (sort skipped_refs)),
       (''skipped_refs_digest_algorithm'', JStr BOUNDARY_CANONICAL_JSON_DIGEST_ALGORITHM),
       (''skipped_encoded_refs_digest'', JStr sd)]"
  using assms unfolding build_boundary_manifest_def Let_def
  by (auto simp: res_iffs map_sum_Inr)

text \<open>
  The summary of a manifest that was built exists, is bound to the manifest's digest, and names
  no reference of a fold and no example.
\<close>

lemma built_manifest_summary:
  assumes "build_boundary_manifest lib parse draws rows skipped_refs requested pairwise_lambda margin =
    Inr (manifest, split, pairs)"
  shows "\<exists>summary. boundary_metadata_summary manifest d = Inr summary \<and>
    dget summary ''manifest_digest'' = JStr d \<and> dget summary ''requested_examples'' = requested \<and>
    (\<exists>split. dget summary ''split'' = JObj split \<and>
       dget split ''outer_refs'' = JNull \<and> dget split ''inner_train_refs'' = JNull \<and>
       dget split ''inner_validation_refs'' = JNull)"
proof -
  from assms obtain sd fm cm where manifest: "manifest =
      [(''schema'', JStr BOUNDARY_SCHEMA),
       (''embedded_digest_algorithms'', JObj
          [(''refs_and_records'', JStr BOUNDARY_CANONICAL_JSON_DIGEST_ALGORITHM),
           (''gold_text'', JStr BOUNDARY_TEXT_DIGEST_ALGORITHM)]),
       (''settings'', JObj (boundary_settings requested pairwise_lambda margin)),
       (''split'', JObj fm), (''corruption'', JObj cm),
       (''skipped_encoded_refs'', jtexts (sort skipped_refs)),
       (''skipped_refs_digest_algorithm'', JStr BOUNDARY_CANONICAL_JSON_DIGEST_ALGORITHM),
       (''skipped_encoded_refs_digest'', JStr sd)]"
    by (rule built_manifest)
  show ?thesis
    by (simp add: boundary_metadata_summary_def manifest required_item_def mapping_of_def length_of_def
        has_key_def dget_def jtexts_def boundary_settings_def map_of_dict_update map_of_dict_without)
qed

end
