(* ===== verification/EvaluationSelection.thy ===== *)
theory EvaluationSelection
  imports BoundaryManifest
begin

text \<open>
  \<^verbatim>\<open>src/training/evaluation_selection.py\<close>: which rows of the public corpus the local evaluators
  use. Reading the corpus file is a parameter, as are the draws of \<open>random.Random(seed)\<close>.
\<close>

definition SELECTION_SCHEMA :: string where "SELECTION_SCHEMA = ''microtensor.evaluation_selection.v1''"
definition LEGACY_SELECTION :: string where "LEGACY_SELECTION = ''legacy-shuffle-v1''"
definition BOUNDARY_INNER_SELECTION :: string where "BOUNDARY_INNER_SELECTION = ''boundary-inner-v1''"
definition SELECTION_MODES :: "string list" where
  "SELECTION_MODES = [LEGACY_SELECTION, BOUNDARY_INNER_SELECTION]"
definition LEGACY_ALGORITHM :: string where
  "LEGACY_ALGORITHM = ''python_random_mt19937_shuffle_prefix_v1''"
definition BASE_TOKENIZER_DIGEST :: string where
  "BASE_TOKENIZER_DIGEST = ''sha256:aeb13307a71acd8fe81861d94ad54ab689df773318809eed3cbe794b4492dae4''"
definition BOUNDARY_INNER_TRAIN_EXAMPLES :: nat where "BOUNDARY_INNER_TRAIN_EXAMPLES = 4046"
definition BOUNDARY_TOKENIZER_SKIPPED_REFS :: "string list" where
  "BOUNDARY_TOKENIZER_SKIPPED_REFS = [''bc5cdr-train-03995'', ''bc5cdr-train-04805'']"

record evaluation_selection =
  es_rows :: "dict list"
  es_manifest :: dict

section \<open>The legacy shuffle\<close>

definition load_legacy_rows ::
    "(string \<Rightarrow> string option) \<Rightarrow> (string \<Rightarrow> raw option) \<Rightarrow> string \<Rightarrow> dict list res" where
  "load_legacy_rows decode parse payload =
     (case decode payload of
        None \<Rightarrow> fail ValueError ''corpus is not UTF-8''
      | Some decoded \<Rightarrow>
     (case parse decoded of
        None \<Rightarrow> fail ValueError ''corpus is not valid JSON''
      | Some raw \<Rightarrow>
     (let corpus = (case as_obj (lax_value raw) of None \<Rightarrow> [] | Some d \<Rightarrow> d);
          version = dget corpus ''version'' in
     require (as_obj (lax_value raw) \<noteq> None \<and> py_str version = CORPUS_VERSION)
       (invalid_value (''expected corpus '' @ CORPUS_VERSION @ '', got '' @ py_str version)) (
     case as_list (dget corpus ''tasks'') of
       None \<Rightarrow> fail ValueError ''corpus tasks must be a list''
     | Some tasks \<Rightarrow>
         require (length (train_rows tasks) = BOUNDARY_CORPUS_TRAIN_EXAMPLES)
           (invalid_value (''expected 4816 public train rows, found '' @ text_of_nat (length (train_rows tasks))))
         (Inr (train_rows tasks))))))"

text \<open>\<open>xs[:n]\<close> of Python: a negative bound counts from the end.\<close>

definition first_rows :: "int \<Rightarrow> 'a list \<Rightarrow> 'a list" where
  "first_rows n xs = take (nat (if n < 0 then int (length xs) + n else n)) xs"

definition legacy_selection :: "(nat \<Rightarrow> nat \<Rightarrow> nat) \<Rightarrow> int \<Rightarrow> int \<Rightarrow> dict list \<Rightarrow> evaluation_selection" where
  "legacy_selection draws seed examples rows =
     (let selected_rows = first_rows examples (shuffled draws rows) in
      \<lparr>es_rows = selected_rows,
       es_manifest =
         [(''schema'', JStr SELECTION_SCHEMA), (''mode'', JStr LEGACY_SELECTION),
          (''algorithm'', JStr LEGACY_ALGORITHM), (''corpus_version'', JStr CORPUS_VERSION),
          (''seed'', JInt seed), (''requested_examples'', JInt examples),
          (''selected_examples'', jnat (length selected_rows))]\<rparr>)"

section \<open>The inner validation fold\<close>

definition inner_manifest ::
    "stdlib \<Rightarrow> string \<Rightarrow> dict list \<Rightarrow> dict list \<Rightarrow> dict list \<Rightarrow> string list \<Rightarrow> dict list \<Rightarrow> fold_split \<Rightarrow>
     dict list \<Rightarrow> dict res" where
  "inner_manifest lib payload rows outer_rows remaining_rows skipped_refs encoded_rows split selected_rows =
     rbind (refs_digest lib skipped_refs) (\<lambda>skipped_digest.
     rbind (canonical_json_digest lib (jtexts (map ref_of selected_rows))) (\<lambda>ordered_digest.
     Inr [(''schema'', JStr SELECTION_SCHEMA), (''mode'', JStr BOUNDARY_INNER_SELECTION),
       (''corpus_version'', JStr CORPUS_VERSION),
       (''corpus_file_digest_algorithm'', JStr BOUNDARY_FILE_DIGEST_ALGORITHM),
       (''corpus_file_digest'', JStr (digest_bytes lib payload)),
       (''corpus_file_bytes'', jnat (length payload)),
       (''refs_digest_algorithm'', JStr BOUNDARY_CANONICAL_JSON_DIGEST_ALGORITHM),
       (''tokenizer_digest'', JStr BASE_TOKENIZER_DIGEST), (''max_length'', JInt 512),
       (''outer_algorithm'', JStr BOUNDARY_OUTER_SPLIT_ALGORITHM),
       (''inner_algorithm'', JStr BOUNDARY_INNER_SPLIT_ALGORITHM),
       (''seed'', JInt BOUNDARY_OUTER_SEED), (''outer_seed'', JInt BOUNDARY_OUTER_SEED),
       (''inner_seed'', JInt BOUNDARY_OUTER_SEED), (''corpus_train_examples'', jnat (length rows)),
       (''outer_examples'', jnat (length outer_rows)),
       (''post_outer_examples'', jnat (length remaining_rows)),
       (''skipped_examples'', jnat (length skipped_refs)),
       (''encoded_examples'', jnat (length encoded_rows)),
       (''inner_train_examples'', jnat (length (fs_train_indices split))),
       (''inner_validation_examples'', jnat (length (fs_validation_indices split))),
       (''selected_examples'', jnat (length selected_rows)),
       (''outer_refs_digest'', dget (fs_manifest split) ''outer_refs_digest''),
       (''skipped_refs_digest'', JStr skipped_digest),
       (''selected_refs_digest'', dget (fs_manifest split) ''inner_validation_refs_digest''),
       (''selected_ordered_refs_digest'', JStr ordered_digest)]))"

definition boundary_inner_selection ::
    "stdlib \<Rightarrow> (string \<Rightarrow> string option) \<Rightarrow> (string \<Rightarrow> raw option) \<Rightarrow> (nat \<Rightarrow> nat \<Rightarrow> nat) \<Rightarrow> string \<Rightarrow>
     evaluation_selection res" where
  "boundary_inner_selection lib decode parse draws payload =
     require (BOUNDARY_SKIPPED_ENCODED_REFS = BOUNDARY_TOKENIZER_SKIPPED_REFS)
       (invalid_value ''boundary tokenizer skip allowlist does not match the evaluator'') (
     rbind (parse_boundary_corpus lib decode parse payload) (\<lambda>rows.
     rbind (boundary_outer_partition draws rows) (\<lambda>(outer_rows, remaining_rows).
     let outer_refs = map ref_of outer_rows;
         skipped_allowlist = remdups BOUNDARY_TOKENIZER_SKIPPED_REFS;
         skipped_refs = map ref_of (filter (\<lambda>row. ref_of row \<in> set skipped_allowlist) remaining_rows) in
     require (\<not> (length skipped_allowlist \<noteq> 2 \<or> sort skipped_refs \<noteq> sort skipped_allowlist))
       (invalid_value ''boundary inner selection requires the exact two tokenizer-skipped refs outside the outer reserve'') (
     let encoded_rows = filter (\<lambda>row. ref_of row \<notin> set skipped_allowlist) remaining_rows;
         encoded_refs = map ref_of encoded_rows in
     require (length encoded_rows = BOUNDARY_EXPECTED_ENCODED_EXAMPLES)
       (invalid_value ''boundary inner selection did not reproduce 4,430 encoded rows'') (
     rbind (split_boundary_encoded_refs lib encoded_refs outer_refs) (\<lambda>fold.
     let selected_rows = map ((!) encoded_rows) (fs_validation_indices fold) in
     rbind (refs_digest lib (map ref_of selected_rows)) (\<lambda>selected_digest.
     require (\<not> (length (fs_train_indices fold) \<noteq> BOUNDARY_INNER_TRAIN_EXAMPLES
                \<or> length selected_rows \<noteq> BOUNDARY_INNER_VALIDATION_EXAMPLES
                \<or> JStr selected_digest \<noteq> dget (fs_manifest fold) ''inner_validation_refs_digest''))
       (invalid_value ''boundary inner selection has unexpected fold identity'') (
     map_sum id (\<lambda>manifest. \<lparr>es_rows = selected_rows, es_manifest = manifest\<rparr>)
       (inner_manifest lib payload rows outer_rows remaining_rows skipped_refs encoded_rows fold
          selected_rows)))))))))"

section \<open>Selecting\<close>

text \<open>\<open>draws seed\<close> are the draws of \<open>random.Random(seed)\<close>; \<open>content\<close> is what reading the file gives.\<close>

definition select_evaluation_rows ::
    "stdlib \<Rightarrow> (string \<Rightarrow> string option) \<Rightarrow> (string \<Rightarrow> raw option) \<Rightarrow> (int \<Rightarrow> nat \<Rightarrow> nat \<Rightarrow> nat) \<Rightarrow>
     string res \<Rightarrow> string option \<Rightarrow> int option \<Rightarrow> int option \<Rightarrow> int \<Rightarrow> evaluation_selection res" where
  "select_evaluation_rows lib decode parse draws content selection seed examples legacy_examples =
     (let mode = (case selection of None \<Rightarrow> LEGACY_SELECTION
                  | Some s \<Rightarrow> if s = [] then LEGACY_SELECTION else s) in
      require (mode \<in> set SELECTION_MODES)
        (invalid_value (''unsupported evaluation selection mode: '' @ mode)) (
      if mode = BOUNDARY_INNER_SELECTION then
        require (\<not> (seed \<noteq> None \<and> seed \<noteq> Some BOUNDARY_OUTER_SEED))
          (invalid_value (BOUNDARY_INNER_SELECTION @ '' requires --seed 92'')) (
        require (\<not> (examples \<noteq> None \<and> examples \<noteq> Some (int BOUNDARY_INNER_VALIDATION_EXAMPLES)))
          (invalid_value (BOUNDARY_INNER_SELECTION @ '' requires --examples 384'')) (
        rbind content (boundary_inner_selection lib decode parse (draws BOUNDARY_OUTER_SEED))))
      else
        (let resolved_seed = (case seed of None \<Rightarrow> 92 | Some s \<Rightarrow> s);
             resolved_examples = (case examples of None \<Rightarrow> legacy_examples | Some n \<Rightarrow> n) in
         rbind content (\<lambda>payload.
         rbind (load_legacy_rows decode parse payload) (\<lambda>rows.
         Inr (legacy_selection (draws resolved_seed) resolved_seed resolved_examples rows))))))"

section \<open>What the inner selection contains\<close>

lemma skipped_refs_agree: "BOUNDARY_SKIPPED_ENCODED_REFS = BOUNDARY_TOKENIZER_SKIPPED_REFS"
  by (simp add: BOUNDARY_SKIPPED_ENCODED_REFS_def BOUNDARY_TOKENIZER_SKIPPED_REFS_def)

definition encoded_rows :: "dict list \<Rightarrow> dict list" where
  "encoded_rows rows = filter (\<lambda>row. ref_of row \<notin> set BOUNDARY_SKIPPED_ENCODED_REFS) rows"

lemma encoded_refs:
  "map ref_of (encoded_rows rows) = filter (\<lambda>ref. ref \<notin> set BOUNDARY_SKIPPED_ENCODED_REFS) (map ref_of rows)"
  by (simp add: encoded_rows_def filter_map comp_def)

lemma boundary_inner_selection_Inr:
  assumes "boundary_inner_selection lib decode parse draws payload = Inr sel"
  obtains rows outer rest split where "parse_boundary_corpus lib decode parse payload = Inr rows"
    "boundary_outer_partition draws rows = Inr (outer, rest)"
    "split_boundary_encoded_refs lib (map ref_of (encoded_rows rest)) (map ref_of outer) = Inr split"
    "es_rows sel = map ((!) (encoded_rows rest)) (fs_validation_indices split)"
proof -
  from assms have "\<exists>rows outer rest split. parse_boundary_corpus lib decode parse payload = Inr rows \<and>
    boundary_outer_partition draws rows = Inr (outer, rest) \<and>
    split_boundary_encoded_refs lib (map ref_of (encoded_rows rest)) (map ref_of outer) = Inr split \<and>
    es_rows sel = map ((!) (encoded_rows rest)) (fs_validation_indices split)"
    unfolding boundary_inner_selection_def Let_def encoded_rows_def skipped_refs_agree
    by (auto simp: res_iffs map_sum_Inr)
  then show ?thesis using that by blast
qed

text \<open>The rows a training manifest was built from, and what is held out of its pairs.\<close>

lemma build_boundary_manifest_parts:
  assumes "build_boundary_manifest lib parse draws rows skipped_refs requested pairwise_lambda margin =
    Inr (manifest, split, pairs)"
  obtains outer rest heldout source_rows corruption where
    "boundary_outer_partition draws rows = Inr (outer, rest)"
    "split_boundary_encoded_refs lib (map ref_of (encoded_rows rest)) (map ref_of outer) = Inr split"
    "ref_of ` set outer \<union> (!) (map ref_of (encoded_rows rest)) ` set (fs_validation_indices split) \<subseteq> set heldout"
    "generate_boundary_corruptions lib parse source_rows heldout (JInt BOUNDARY_OUTER_SEED) requested =
       Inr (pairs, corruption)"
proof -
  have same: "set skipped_refs = set BOUNDARY_SKIPPED_ENCODED_REFS"
    if "sort skipped_refs = sort BOUNDARY_SKIPPED_ENCODED_REFS"
    using that by (metis set_sort)
  from assms obtain outer rest source_rows corruption where
    "boundary_outer_partition draws rows = Inr (outer, rest)"
    and skip: "sort skipped_refs = sort BOUNDARY_SKIPPED_ENCODED_REFS"
    and parts: "split_boundary_encoded_refs lib (filter (\<lambda>ref. ref \<notin> set skipped_refs) (map ref_of rest))
        (map ref_of outer) = Inr split"
      "generate_boundary_corruptions lib parse source_rows
         (sort (remdups (map ref_of outer @ map ((!) (filter (\<lambda>ref. ref \<notin> set skipped_refs) (map ref_of rest)))
            (fs_validation_indices split) @ sort skipped_refs))) (JInt BOUNDARY_OUTER_SEED) requested =
       Inr (pairs, corruption)"
    unfolding build_boundary_manifest_def Let_def by (auto simp: res_iffs map_sum_Inr)
  then show ?thesis
    unfolding same [OF skip] encoded_refs [symmetric]
    by (intro that [OF _ _ _ parts(2) [unfolded same [OF skip] encoded_refs [symmetric]]]) auto
qed

lemma built_split:
  assumes "build_boundary_manifest lib parse draws rows skipped_refs requested pairwise_lambda margin =
    Inr (manifest, split, pairs)"
  shows "dget manifest ''split'' = JObj (fs_manifest split)"
  using assms unfolding build_boundary_manifest_def Let_def by (auto simp: res_iffs map_sum_Inr dget_def)

lemma split_manifest_inner:
  "split_manifest lib refs reserved a b ov = Inr m \<Longrightarrow> dget m ''inner_validation_refs'' = jtexts (sort b)"
  by (auto simp: split_manifest_def res_iffs dget_def)

lemma split_manifest_validation:
  assumes "split_boundary_encoded_refs lib refs reserved = Inr s"
  shows "dget (fs_manifest s) ''inner_validation_refs'' = jtexts (sort (map ((!) refs) (fs_validation_indices s)))"
  using assms split_manifest_inner by (auto simp: split_Inr nth_indices_where)

lemma selected_refs:
  assumes "split_boundary_encoded_refs lib (map ref_of rows) reserved = Inr s"
  shows "map ref_of (map ((!) rows) (fs_validation_indices s)) = map ((!) (map ref_of rows)) (fs_validation_indices s)"
    "distinct (map ref_of (map ((!) rows) (fs_validation_indices s)))"
    "set (map ((!) rows) (fs_validation_indices s)) \<subseteq> set rows"
proof -
  from assms have indices: "fs_validation_indices s = indices_where (\<lambda>ref. ref \<in> chosen lib (map ref_of rows)) (map ref_of rows)"
    and "distinct (map ref_of rows)"
    by (simp_all add: split_Inr valid_split_def)
  have inside: "i < length rows" if "i \<in> set (fs_validation_indices s)" for i
    using that by (auto simp: indices indices_where_def)
  show refs: "map ref_of (map ((!) rows) (fs_validation_indices s)) = map ((!) (map ref_of rows)) (fs_validation_indices s)"
    by (simp add: inside)
  have "distinct (map ((!) (map ref_of rows)) (fs_validation_indices s))"
    unfolding indices nth_indices_where using \<open>distinct (map ref_of rows)\<close> by (rule distinct_filter)
  then show "distinct (map ref_of (map ((!) rows) (fs_validation_indices s)))" unfolding refs .
  show "set (map ((!) rows) (fs_validation_indices s)) \<subseteq> set rows" using inside by auto
qed

lemma split_manifest_inner_digest:
  assumes "split_boundary_encoded_refs lib (map ref_of rows) reserved = Inr s"
  shows "\<exists>d. refs_digest lib (map ref_of (map ((!) rows) (fs_validation_indices s))) = Inr d \<and>
    dget (fs_manifest s) ''inner_validation_refs_digest'' = JStr d"
proof -
  have "split_manifest lib refs reserved a b ov = Inr m \<Longrightarrow>
      \<exists>d. refs_digest lib b = Inr d \<and> dget m ''inner_validation_refs_digest'' = JStr d" for refs a b ov m
    by (auto simp: split_manifest_def res_iffs dget_def)
  note digest = this [OF assms [unfolded split_Inr, THEN conjunct2, THEN conjunct2, THEN conjunct2]]
  have "map ref_of (map ((!) rows) (fs_validation_indices s)) =
      filter (\<lambda>ref. ref \<in> chosen lib (map ref_of rows)) (map ref_of rows)"
    unfolding selected_refs(1) [OF assms] using assms by (simp add: split_Inr nth_indices_where)
  with digest show ?thesis by (simp only:)
qed

lemma jtexts_digest_Inr: "\<exists>d. canonical_json_digest lib (jtexts ts) = Inr d"
  by (rule canonical_json_digest_Inr) (simp add: jtexts_def list_all_iff)

lemma inner_manifest_Inr: "\<exists>m. inner_manifest lib payload rows outer rest skipped encoded s selected = Inr m"
  using refs_digest_Inr [of lib skipped] jtexts_digest_Inr [of lib "map ref_of selected"]
  by (auto simp: inner_manifest_def)

lemma boundary_inner_selection_succeeds:
  assumes "parse_boundary_corpus lib decode parse payload = Inr rows"
    and "boundary_outer_partition draws rows = Inr (outer, rest)"
    and "sort (map ref_of (filter (\<lambda>row. ref_of row \<in> set BOUNDARY_SKIPPED_ENCODED_REFS) rest)) =
      sort BOUNDARY_SKIPPED_ENCODED_REFS"
    and split: "split_boundary_encoded_refs lib (map ref_of (encoded_rows rest)) (map ref_of outer) = Inr s"
  shows "\<exists>sel. boundary_inner_selection lib decode parse draws payload = Inr sel"
proof -
  have allow: "remdups BOUNDARY_TOKENIZER_SKIPPED_REFS = BOUNDARY_SKIPPED_ENCODED_REFS"
    "BOUNDARY_SKIPPED_ENCODED_REFS = BOUNDARY_TOKENIZER_SKIPPED_REFS" "length BOUNDARY_SKIPPED_ENCODED_REFS = 2"
    by (simp_all add: BOUNDARY_SKIPPED_ENCODED_REFS_def BOUNDARY_TOKENIZER_SKIPPED_REFS_def)
  have "length (encoded_rows rest) = 4430" using split by (simp add: split_Inr valid_split_def)
  moreover obtain d where "refs_digest lib (map ref_of (map ((!) (encoded_rows rest)) (fs_validation_indices s))) = Inr d"
    "dget (fs_manifest s) ''inner_validation_refs_digest'' = JStr d"
    using split_manifest_inner_digest [OF split] by blast
  moreover note assms inner_manifest_Inr [of lib payload rows outer rest
      "map ref_of (filter (\<lambda>row. ref_of row \<in> set BOUNDARY_SKIPPED_ENCODED_REFS) rest)" "encoded_rows rest" s
      "map ((!) (encoded_rows rest)) (fs_validation_indices s)"]
  ultimately show ?thesis
    unfolding boundary_inner_selection_def Let_def allow(1) encoded_rows_def [symmetric]
    using split_sizes(1,2) [OF split]
    by (auto simp: allow(2,3) boundary_sizes BOUNDARY_INNER_TRAIN_EXAMPLES_def simp flip: allow(2))
qed

text \<open>
  C40: evaluation never scores a row that training was built from. For one corpus, take the rows
  the inner selection gives the evaluators and any manifest that training built: the selected
  rows are 384 rows of the corpus with different references, exactly those the manifest lists
  as its validation fold, and none of them is the source or the generated row of a pair.
\<close>

theorem evaluation_rows_unseen:
  assumes range: "\<And>s n k. draws s n k \<le> k"
    and select: "select_evaluation_rows lib decode parse draws (Inr payload) (Some BOUNDARY_INNER_SELECTION)
      seed examples legacy_examples = Inr sel"
    and corpus: "parse_boundary_corpus lib decode parse payload = Inr rows"
    and build: "build_boundary_manifest lib parse (draws BOUNDARY_OUTER_SEED) rows skipped_refs requested
      pairwise_lambda margin = Inr (manifest, split, pairs)"
  shows "length (es_rows sel) = 384 \<and> distinct (map ref_of (es_rows sel)) \<and> set (es_rows sel) \<subseteq> set rows \<and>
    (\<exists>m. dget manifest ''split'' = JObj m \<and>
       dget m ''inner_validation_refs'' = jtexts (sort (map ref_of (es_rows sel)))) \<and>
    ref_of ` set (es_rows sel) \<inter> (bc_source_ref ` set pairs \<union> (ref_of \<circ> bc_negative_row) ` set pairs) = {}"
proof -
  from select have "boundary_inner_selection lib decode parse (draws BOUNDARY_OUTER_SEED) payload = Inr sel"
    by (auto simp: select_evaluation_rows_def BOUNDARY_INNER_SELECTION_def Let_def res_iffs)
  then obtain outer rest sp where cut: "boundary_outer_partition (draws BOUNDARY_OUTER_SEED) rows = Inr (outer, rest)"
    and sp: "split_boundary_encoded_refs lib (map ref_of (encoded_rows rest)) (map ref_of outer) = Inr sp"
    and rows: "es_rows sel = map ((!) (encoded_rows rest)) (fs_validation_indices sp)"
    by (rule boundary_inner_selection_Inr) (use corpus in auto)
  from build obtain heldout source_rows corruption where "sp = split"
    and heldout: "(!) (map ref_of (encoded_rows rest)) ` set (fs_validation_indices split) \<subseteq> set heldout"
    and gen: "generate_boundary_corruptions lib parse source_rows heldout (JInt BOUNDARY_OUTER_SEED) requested =
       Inr (pairs, corruption)"
    by (rule build_boundary_manifest_parts) (use cut sp in auto)
  note facts = selected_refs [OF sp, folded rows]
  from gen obtain m where "requested = JInt m"
    by (auto simp: generate_boundary_corruptions_def case_option_res_iffs)
  note pairs = generated_pairs_sources(2,3) [OF gen [unfolded \<open>requested = JInt m\<close>]]
  have "ref_of ` set (es_rows sel) = set (map ref_of (es_rows sel))" by simp
  also have "\<dots> \<subseteq> set heldout" unfolding facts(1) using heldout \<open>sp = split\<close> by simp
  finally have seen: "ref_of ` set (es_rows sel) \<subseteq> set heldout" .
  have "set (es_rows sel) \<subseteq> set rest" using facts(3) by (auto simp: encoded_rows_def)
  also have "set rest \<subseteq> set rows"
    using cut range by (metis outer_partition_Inr set_drop_subset shuffled_permutes set_mset_mset)
  finally have inside: "set (es_rows sel) \<subseteq> set rows" .
  show ?thesis
  proof (intro conjI exI [of _ "fs_manifest split"])
    show "length (es_rows sel) = 384" using split_sizes(1) [OF sp] by (simp add: rows)
    show "dget (fs_manifest split) ''inner_validation_refs'' = jtexts (sort (map ref_of (es_rows sel)))"
      unfolding facts(1) using split_manifest_validation [OF sp] \<open>sp = split\<close> by simp
    show "ref_of ` set (es_rows sel) \<inter> (bc_source_ref ` set pairs \<union> (ref_of \<circ> bc_negative_row) ` set pairs) = {}"
      using pairs seen by blast
  qed (rule facts inside built_split [OF build])+
qed

end
