(* ===== verification/EvaluationExample.thy ===== *)
theory EvaluationExample
  imports EvaluationSelection
begin

text \<open>
  A corpus of the pinned size on which the inner selection and the training manifest both
  succeed: 4814 numbered rows and the two rows the tokenizer skips, all without entities.
\<close>

definition eval_row :: "string \<Rightarrow> dict" where
  "eval_row ref =
     [(''ref'', JStr ref), (''partition'', JStr ''train''), (''inputs'', JObj [(''text'', JStr ''x'')]),
      (''prompt'', JStr (text_marker @ ''x'')), (''gold'', JStr ''gold'')]"

definition eval_raw :: "string \<Rightarrow> raw" where
  "eval_raw ref =
     RObj [(''ref'', RStr ref), (''partition'', RStr ''train''), (''inputs'', RObj [(''text'', RStr ''x'')]),
      (''prompt'', RStr (text_marker @ ''x'')), (''gold'', RStr ''gold'')]"

definition eval_refs :: "string list" where
  "eval_refs = example_pool 0 4814 @ BOUNDARY_SKIPPED_ENCODED_REFS"

definition eval_parse :: "string \<Rightarrow> raw option" where
  "eval_parse t =
     (if t = ''gold'' then Some (RObj [(''entities'', RList [])])
      else Some (RObj [(''version'', RStr CORPUS_VERSION), (''track'', RStr ''extract''),
                       (''tasks'', RList (map eval_raw eval_refs))]))"

definition eval_lib :: stdlib where
  "eval_lib = example_lib\<lparr>sha256_hex := \<lambda>_. ''fb5f1332493b1abe759da91cec1bd2cdd932c7076c5fae8163b5f33cfbea05a2''\<rparr>"

definition eval_payload :: string where "eval_payload = replicate 4266196 (CHR ''x'')"

section \<open>The corpus is the pinned one\<close>

lemma eval_row_facts [simp]:
  "ref_of (eval_row ref) = ref" "dget (eval_row ref) ''ref'' = JStr ref"
  "dget (eval_row ref) ''partition'' = JStr ''train''"
  by (simp_all add: eval_row_def ref_of_def dget_def)

lemma eval_raw_strict: "strict_value (eval_raw ref) = Some (JObj (eval_row ref))"
  by (simp add: eval_raw_def eval_row_def)

lemma eval_raws_strict: "strict_list (map eval_raw refs) = Some (map (\<lambda>ref. JObj (eval_row ref)) refs)"
  by (induction refs) (simp_all add: eval_raw_strict)

lemma eval_train_rows: "train_rows (map (\<lambda>ref. JObj (eval_row ref)) refs) = map eval_row refs"
  by (induction refs) (simp_all add: train_rows_def map_filter_simps)

lemma eval_corpus:
  "parse_boundary_corpus eval_lib (\<lambda>_. Some ''corpus'') eval_parse eval_payload = Inr (map eval_row eval_refs)"
proof -
  have "length eval_refs = 4816" by (simp add: eval_refs_def BOUNDARY_SKIPPED_ENCODED_REFS_def)
  moreover have "load_strict eval_parse ''corpus'' =
      Inr (JObj [(''version'', JStr CORPUS_VERSION), (''track'', JStr ''extract''),
                 (''tasks'', JList (map (\<lambda>ref. JObj (eval_row ref)) eval_refs))])"
    by (simp add: load_strict_def stop_of_def eval_parse_def eval_raws_strict)
  ultimately show ?thesis
    by (simp add: parse_boundary_corpus_def strict_corpus_json_def strict_json_loads_def eval_train_rows
        boundary_sizes BOUNDARY_CORPUS_BYTES_def BOUNDARY_CORPUS_FILE_DIGEST_def digest_bytes_def eval_lib_def
        eval_payload_def dget_def list_ex_iff)
qed

section \<open>The folds\<close>

lemma shuffled_still: "shuffled (\<lambda>_ k. k) xs = xs"
proof -
  have "shuffle_from (\<lambda>k. k) i xs = xs" for i
    by (induction i) (simp_all add: swap_at_def)
  then show ?thesis by (simp add: shuffled_def)
qed

lemma skipped_plain: "list_all plain_ref BOUNDARY_SKIPPED_ENCODED_REFS" "distinct BOUNDARY_SKIPPED_ENCODED_REFS"
  by code_simp+

lemma skipped_letters: "list_all (\<lambda>ref. \<not> list_all is_digit ref) BOUNDARY_SKIPPED_ENCODED_REFS"
  by code_simp

lemma pool_not_skipped: "ref \<in> set (example_pool a b) \<Longrightarrow> ref \<notin> set BOUNDARY_SKIPPED_ENCODED_REFS"
  using skipped_letters text_of_nat_digits by (auto simp: example_pool_def list_all_iff)

lemma pools_disjoint: "set (example_pool b c) \<inter> set (example_pool a b) = {}"
  using example_pool_facts(4) [of a b c] by blast

lemma pool_apart: "ref \<in> set (example_pool b c) \<Longrightarrow> ref \<notin> set (example_pool a b)"
  using pools_disjoint by blast

definition eval_rest :: "dict list" where
  "eval_rest = map eval_row (example_pool 384 4814 @ BOUNDARY_SKIPPED_ENCODED_REFS)"

lemma pool_append: "b \<le> c \<Longrightarrow> example_pool 0 c = example_pool 0 b @ example_pool b c"
  using upt_add_eq_append [of 0 b "c - b"] by (simp add: example_pool_def flip: map_append)

lemma eval_distinct: "distinct (example_pool a b @ BOUNDARY_SKIPPED_ENCODED_REFS)"
  using pool_not_skipped skipped_plain(2) by auto

lemma eval_train: "list_all plain_ref refs \<Longrightarrow> list_all train_row (map eval_row refs)"
  by (simp add: list_all_iff train_row_def)

lemma eval_cut:
  "boundary_outer_partition (\<lambda>_ k. k) (map eval_row eval_refs) = Inr (map eval_row (example_pool 0 384), eval_rest)"
proof -
  have "map eval_row eval_refs = map eval_row (example_pool 0 384) @ eval_rest"
    by (simp add: eval_refs_def eval_rest_def pool_append [of 384 4814])
  moreover have "list_all train_row (map eval_row eval_refs)"
    by (rule eval_train) (simp add: eval_refs_def skipped_plain)
  moreover have "distinct (map ref_of (map eval_row eval_refs))"
    using eval_distinct [of 0 4814] by (simp add: comp_def eval_refs_def)
  moreover have "length (map eval_row eval_refs) = 4816"
    by (simp add: eval_refs_def BOUNDARY_SKIPPED_ENCODED_REFS_def)
  ultimately show ?thesis by (simp add: outer_partition_Inr shuffled_still)
qed

lemma eval_encoded: "encoded_rows eval_rest = map eval_row (example_pool 384 4814)"
  using pool_not_skipped by (auto simp: encoded_rows_def eval_rest_def filter_map comp_def filter_id_conv filter_empty_conv)

lemma eval_skipped:
  "map ref_of (filter (\<lambda>row. ref_of row \<in> set BOUNDARY_SKIPPED_ENCODED_REFS) eval_rest) = BOUNDARY_SKIPPED_ENCODED_REFS"
  using pool_not_skipped by (auto simp: eval_rest_def filter_map comp_def filter_id_conv filter_empty_conv)

lemma eval_split:
  "\<exists>s. split_boundary_encoded_refs eval_lib (map ref_of (encoded_rows eval_rest)) (map ref_of (map eval_row (example_pool 0 384))) = Inr s"
  by (rule valid_split_succeeds) (simp add: valid_split_def eval_encoded comp_def pools_disjoint)

section \<open>The manifest\<close>

lemma eval_candidates:
  assumes "ref \<noteq> []"
  shows "boundary_row_candidates eval_parse (eval_row ref) = Inr (Ineligible ''no_entities'')"
proof -
  have "read_gold_row eval_parse (eval_row ref) = Inr (Ineligible ''no_entities'')"
    using assms by (simp add: read_gold_row_def eval_row_def dget_def strict_json_loads_def load_strict_def stop_of_def
        eval_parse_def has_exactly_def text_marker_def suffix_def)
  then show ?thesis by (simp add: boundary_row_candidates_def)
qed

definition eval_rows :: "dict list \<Rightarrow> bool" where
  "eval_rows rows \<longleftrightarrow> list_all (\<lambda>row. ref_of row \<noteq> [] \<and> row = eval_row (ref_of row)) rows"

lemma eval_classified: "eval_rows rows \<Longrightarrow> \<exists>reasons. classify_rows lib eval_parse seed rows = Inr ([], reasons)"
  by (induction rows) (auto simp: eval_rows_def dest: eval_candidates)

lemma eval_generated:
  assumes rows: "eval_rows rows" "distinct (map ref_of rows)" "ref_of ` set rows \<inter> set heldout = {}"
    and heldout: "[] \<notin> set heldout"
  shows "\<exists>m. generate_boundary_corruptions lib eval_parse rows heldout (JInt seed) (JInt 0) = Inr ([], m)"
proof -
  let ?rows = "sort_key (\<lambda>row. py_str (dget_or (JStr []) row ''ref'')) rows"
  have "mset (map ref_of ?rows) = mset (map ref_of rows)" by (simp add: mset_map)
  then have distinct: "distinct (map ref_of ?rows)" using rows(2) mset_eq_imp_distinct_iff by blast
  have "eval_rows ?rows" using rows(1) by (simp add: eval_rows_def list_all_iff)
  then obtain reasons where classified: "classify_rows lib eval_parse seed ?rows = Inr ([], reasons)"
    using eval_classified by blast
  have none: "select_balanced lib seed 0 [] = []"
    by (simp add: select_balanced_def select_entries_def rank_entries_def)
  obtain m where "corruption_manifest lib seed 0 (length rows) 0 reasons (map ref_of ?rows) heldout [] = Inr m"
    using corruption_manifest_Inr [of lib seed 0 "length rows" 0 reasons "map ref_of ?rows" heldout "[]"] by auto
  moreover have "filter (\<lambda>ref. ref \<in> set heldout) (map ref_of ?rows) = []"
    using rows(3) by (auto simp: filter_empty_conv)
  moreover have "\<not> list_ex (\<lambda>row. ref_of row = []) ?rows" "\<not> list_ex (\<lambda>ref. ref = []) heldout"
    using rows(1) heldout by (auto simp: eval_rows_def list_all_iff list_ex_iff)
  ultimately show ?thesis
    using distinct unfolding generate_boundary_corruptions_def Let_def
    by (simp add: classified none MAX_BOUNDARY_CONTRASTIVE_EXAMPLES_def count_direction_def)
qed

lemma eval_row_by_ref: "ref \<in> set refs \<Longrightarrow> row_by_ref (map eval_row refs) ref = Some (eval_row ref)"
  unfolding row_by_ref_def by (induction refs) auto

lemma eval_build:
  "\<exists>manifest split. build_boundary_manifest eval_lib eval_parse (\<lambda>_ k. k) (map eval_row eval_refs)
     BOUNDARY_SKIPPED_ENCODED_REFS (JInt 0) (JInt 0) (JInt 0) = Inr (manifest, split, [])"
proof -
  let ?pool = "example_pool 384 4814" and ?outer = "example_pool 0 384"
  let ?refs = "?pool @ BOUNDARY_SKIPPED_ENCODED_REFS"
  have outer: "map ref_of (map eval_row ?outer) = ?outer" and rest: "map ref_of eval_rest = ?refs"
    by (simp_all add: comp_def eval_rest_def)
  have encoded: "filter (\<lambda>ref. ref \<notin> set BOUNDARY_SKIPPED_ENCODED_REFS) ?refs = ?pool"
    using pool_not_skipped by (auto simp: filter_id_conv filter_empty_conv)
  obtain s where s: "split_boundary_encoded_refs eval_lib ?pool ?outer = Inr s"
    using eval_split by (auto simp: eval_encoded comp_def)
  let ?heldout = "sort (remdups (?outer @ map ((!) ?pool) (fs_validation_indices s) @ sort BOUNDARY_SKIPPED_ENCODED_REFS))"
  let ?source = "map (\<lambda>i. the (row_by_ref eval_rest (?pool ! i))) (fs_train_indices s)"
  have folds: "map ((!) ?pool) (fs_train_indices s) = filter (\<lambda>ref. ref \<notin> chosen eval_lib ?pool) ?pool"
    "map ((!) ?pool) (fs_validation_indices s) = filter (\<lambda>ref. ref \<in> chosen eval_lib ?pool) ?pool"
    using s by (simp_all add: split_Inr nth_indices_where)
  have inside: "?pool ! i \<in> set ?pool" if "i \<in> set (fs_train_indices s)" for i
  proof -
    from that have "?pool ! i \<in> set (map ((!) ?pool) (fs_train_indices s))" by auto
    then show ?thesis unfolding folds(1) by simp
  qed
  then have source: "?source = map eval_row (map ((!) ?pool) (fs_train_indices s))"
    by (simp add: eval_rest_def eval_row_by_ref del: map_append)
  have plain: "ref \<noteq> []" if "ref \<in> set (example_pool a b) \<union> set BOUNDARY_SKIPPED_ENCODED_REFS" for ref a b
    using that example_pool_facts(3) [of a b] skipped_plain(1) by (auto simp: list_all_iff plain_ref_def)
  have "\<exists>m. generate_boundary_corruptions eval_lib eval_parse ?source ?heldout (JInt BOUNDARY_OUTER_SEED) (JInt 0) = Inr ([], m)"
  proof (rule eval_generated)
    show "eval_rows ?source" unfolding source folds using plain by (auto simp: eval_rows_def list_all_iff)
    show "distinct (map ref_of ?source)" unfolding source folds by (simp add: comp_def)
    show "ref_of ` set ?source \<inter> set ?heldout = {}"
      unfolding source folds using pool_not_skipped [of _ 384 4814] pool_apart [of _ 384 4814 0] by auto
    show "[] \<notin> set ?heldout" unfolding folds using plain by auto
  qed
  moreover obtain d where "refs_digest eval_lib (sort BOUNDARY_SKIPPED_ENCODED_REFS) = Inr d"
    using refs_digest_Inr by blast
  moreover have "check_settings (JInt 0) (JInt 0) = Inr ()" by code_simp
  moreover have "list_all (\<lambda>ref. row_by_ref eval_rest ref \<noteq> None) (sort BOUNDARY_SKIPPED_ENCODED_REFS)"
    by (simp add: list_all_iff eval_rest_def eval_row_by_ref del: map_append)
  moreover have "distinct ?refs" by (rule eval_distinct)
  moreover note s
  ultimately show ?thesis
    unfolding build_boundary_manifest_def Let_def eval_cut rbind_simps prod.case outer rest set_sort encoded
    by (auto simp: jnat_def num_eq_def)
qed

theorem evaluation_rows_unseen_witness:
  "\<exists>sel manifest split.
     select_evaluation_rows eval_lib (\<lambda>_. Some ''corpus'') eval_parse (\<lambda>_ _ k. k) (Inr eval_payload)
       (Some BOUNDARY_INNER_SELECTION) None None 8 = Inr sel \<and>
     build_boundary_manifest eval_lib eval_parse (\<lambda>_ k. k) (map eval_row eval_refs)
       BOUNDARY_SKIPPED_ENCODED_REFS (JInt 0) (JInt 0) (JInt 0) = Inr (manifest, split, []) \<and>
     length (es_rows sel) = 384 \<and> set (es_rows sel) \<subseteq> set (map eval_row eval_refs)"
proof -
  obtain s where "split_boundary_encoded_refs eval_lib (map ref_of (encoded_rows eval_rest))
      (map ref_of (map eval_row (example_pool 0 384))) = Inr s"
    using eval_split by blast
  then obtain sel where "boundary_inner_selection eval_lib (\<lambda>_. Some ''corpus'') eval_parse (\<lambda>_ k. k) eval_payload = Inr sel"
    using boundary_inner_selection_succeeds [OF eval_corpus eval_cut] by (auto simp: eval_skipped)
  then have sel: "select_evaluation_rows eval_lib (\<lambda>_. Some ''corpus'') eval_parse (\<lambda>_ _ k. k) (Inr eval_payload)
      (Some BOUNDARY_INNER_SELECTION) None None 8 = Inr sel"
    by (simp add: select_evaluation_rows_def BOUNDARY_INNER_SELECTION_def SELECTION_MODES_def)
  obtain manifest split where build: "build_boundary_manifest eval_lib eval_parse (\<lambda>_ k. k) (map eval_row eval_refs)
      BOUNDARY_SKIPPED_ENCODED_REFS (JInt 0) (JInt 0) (JInt 0) = Inr (manifest, split, [])"
    using eval_build by blast
  from evaluation_rows_unseen [OF _ sel eval_corpus build] sel build show ?thesis by blast
qed

end
