(* ===== verification/CodeCandidate.thy ===== *)
theory CodeCandidate
  imports PyJson "HOL-Library.Multiset" "HOL-Library.Product_Lexorder"
begin

text \<open>
  The helpers of \<^verbatim>\<open>src/training/code_candidate.py\<close> that the historical corpus uses: strict JSON,
  canonical JSON, digests, and the check that a path stays below the volatile file system. A
  path is the list of its components; what the kernel resolves is a record.
\<close>

abbreviation candidate_error :: "string \<Rightarrow> exc" where
  "candidate_error t \<equiv> Exc CandidateError t"

definition CODE_TRACK :: string where "CODE_TRACK = ''code''"
definition CODE_HARDWARE_CLASS :: string where "CODE_HARDWARE_CLASS = ''mt-3g''"
definition ROOT_KEYS :: "string set" where
  "ROOT_KEYS = {''counts'', ''manifest'', ''reference'', ''reference_model'', ''tasks'', ''track'', ''version''}"
definition SPLIT_ALGORITHM :: string where "SPLIT_ALGORITHM = ''sha256_seed_ref_ascending_v1''"
definition PREPARED_ROW_KEYS :: "string set" where
  "PREPARED_ROW_KEYS = {''completion'', ''max_output_tokens'', ''prompt'', ''ref''}"
definition PREPARED_MANIFEST_KEYS :: "string set" where
  "PREPARED_MANIFEST_KEYS =
     {''schema'', ''track'', ''hardware_class'', ''corpus_version'', ''corpus_canonical_digest'',
      ''source_file_digest'', ''split_algorithm'', ''seed'', ''train_examples'', ''holdout_examples'',
      ''train_refs_digest'', ''holdout_refs_digest'', ''train_file_digest'', ''holdout_file_digest'',
      ''target_construction'', ''quality_claim''}"

record corpus_validation =
  cv_canonical_digest :: string
  cv_canonical_bytes :: nat
  cv_task_count :: nat
  cv_reference_count :: nat
  cv_refs_digest :: string

section \<open>JSON\<close>

text \<open>\<open>json.dumps\<close> with sorted keys, \<open>ensure_ascii=False\<close>, no white space; non-finite floats are written.\<close>

definition float_json :: "stdlib \<Rightarrow> pyfloat \<Rightarrow> string" where
  "float_json lib f =
     (case f of Fin q \<Rightarrow> float_repr lib f | PosInf \<Rightarrow> ''Infinity'' | NegInf \<Rightarrow> ''-Infinity'' | NaN \<Rightarrow> ''NaN'')"

fun canon :: "stdlib \<Rightarrow> json \<Rightarrow> string"
  and canon_list :: "stdlib \<Rightarrow> json list \<Rightarrow> string list"
  and canon_items :: "stdlib \<Rightarrow> dict \<Rightarrow> (string \<times> string) list" where
  "canon lib JNull = ''null''"
| "canon lib (JBool b) = (if b then ''true'' else ''false'')"
| "canon lib (JInt i) = text_of_int i"
| "canon lib (JFloat f) = float_json lib f"
| "canon lib (JStr s) = quote_unicode s"
| "canon lib (JList xs) = ''['' @ join_on CHR '','' (canon_list lib xs) @ '']''"
| "canon lib (JObj d) =
     ''{'' @ join_on CHR '','' (map (\<lambda>(k, t). quote_unicode k @ '':'' @ t) (sort_key fst (canon_items lib d))) @ ''}''"
| "canon_list lib [] = []"
| "canon_list lib (x # xs) = canon lib x # canon_list lib xs"
| "canon_items lib [] = []"
| "canon_items lib ((k, x) # d) = (k, canon lib x) # canon_items lib d"

definition candidate_json_bytes :: "stdlib \<Rightarrow> json \<Rightarrow> string" where
  "candidate_json_bytes lib v = utf8_encode (canon lib v)"

definition candidate_digest :: "stdlib \<Rightarrow> string \<Rightarrow> string" where
  "candidate_digest lib payload = ''sha256:'' @ sha256_hex lib payload"

text \<open>\<open>digest_file\<close> of a file whose chunks, read to the end, are \<open>content\<close>.\<close>

definition digest_file :: "stdlib \<Rightarrow> string res \<Rightarrow> string res" where
  "digest_file lib content = map_sum id (candidate_digest lib) content"

definition candidate_refs_digest :: "stdlib \<Rightarrow> string list \<Rightarrow> string" where
  "candidate_refs_digest lib refs = candidate_digest lib (candidate_json_bytes lib (JList (map JStr refs)))"

text \<open>The hook refuses a repeated key; constants are floats.\<close>

fun checked_value :: "raw \<Rightarrow> json option"
  and checked_list :: "raw list \<Rightarrow> json list option"
  and checked_pairs :: "(string \<times> raw) list \<Rightarrow> dict option" where
  "checked_value RNull = Some JNull"
| "checked_value (RBool b) = Some (JBool b)"
| "checked_value (RInt i) = Some (JInt i)"
| "checked_value (RFloat f) = Some (JFloat f)"
| "checked_value (RConst f) = Some (JFloat f)"
| "checked_value (RStop stop) = None"
| "checked_value (RStr s) = Some (JStr s)"
| "checked_value (RList xs) = map_option JList (checked_list xs)"
| "checked_value (RObj ps) =
     (case checked_pairs ps of None \<Rightarrow> None | Some d \<Rightarrow> map_option JObj (unique_pairs [] d))"
| "checked_list [] = Some []"
| "checked_list (x # xs) =
     (case checked_value x of None \<Rightarrow> None | Some v \<Rightarrow> map_option ((#) v) (checked_list xs))"
| "checked_pairs [] = Some []"
| "checked_pairs ((k, x) # ps) =
     (case checked_value x of None \<Rightarrow> None | Some v \<Rightarrow> map_option ((#) (k, v)) (checked_pairs ps))"

definition candidate_strict_json ::
    "(string \<Rightarrow> string option) \<Rightarrow> (string \<Rightarrow> raw option) \<Rightarrow> string \<Rightarrow> string \<Rightarrow> json res" where
  "candidate_strict_json decode parse raw source =
     (case decode raw of
        None \<Rightarrow> fail CandidateError (source @ '' is not strict UTF-8 JSON'')
      | Some decoded \<Rightarrow>
     (case parse decoded of
        None \<Rightarrow> fail CandidateError (source @ '' is not strict UTF-8 JSON'')
      | Some r \<Rightarrow>
     (case checked_value r of
        None \<Rightarrow> fail CandidateError (source @ '' repeats JSON key'')
      | Some v \<Rightarrow> Inr v)))"

section \<open>Paths below the volatile file system\<close>

text \<open>
  What \<open>assert_tmpfs_path\<close> sees: the resolved mount point, whether the expanded path is absolute,
  and what it resolves to.
\<close>

record path_view =
  pv_root :: "string list res"
  pv_path :: string
  pv_absolute :: bool
  pv_resolved :: "string list res"

definition assert_tmpfs_path :: "path_view \<Rightarrow> string list res" where
  "assert_tmpfs_path v =
     rbind (pv_root v) (\<lambda>root.
     require (pv_absolute v)
       (candidate_error (''volatile path must be absolute and below '' @ join_on CHR ''/'' root @ '': '' @ pv_path v)) (
     case pv_resolved v of
       Inl e \<Rightarrow>
         if isinstance e OSError then fail CandidateError (''volatile path cannot be resolved: '' @ pv_path v)
         else Inl e
     | Inr resolved \<Rightarrow>
         require (strict_prefix root resolved)
           (candidate_error (''path must stay below volatile tmpfs '' @ join_on CHR ''/'' root @ '': '' @ pv_path v))
         (Inr resolved)))"

lemma assert_tmpfs_path_below:
  "assert_tmpfs_path v = Inr p \<Longrightarrow> \<exists>root. pv_root v = Inr root \<and> strict_prefix root p \<and> pv_resolved v = Inr p"
  by (cases "pv_resolved v") (auto simp: assert_tmpfs_path_def res_iffs split: if_split_asm)

text \<open>A value the strict reader returns has each key of its objects once.\<close>

lemma checked_keys_unique:
  "checked_value r = Some v \<Longrightarrow> keys_unique v"
  "checked_list rs = Some vs \<Longrightarrow> list_all keys_unique vs"
  "checked_pairs ps = Some d \<Longrightarrow> list_all (\<lambda>(k, v). keys_unique v) d"
proof (induction r and rs and ps arbitrary: v and vs and d
    rule: checked_value_checked_list_checked_pairs.induct)
qed (auto simp: unique_pairs_Some split: option.splits)

end
