(* ===== verification/HistoricalCorpus.thy ===== *)
theory HistoricalCorpus
  imports CodeCandidate
begin

text \<open>
  \<^verbatim>\<open>src/training/historical_code_candidate.py\<close>, first half: the pinned historical corpus, its
  validation, and the deterministic split of its tasks into training and holdout records.
\<close>

abbreviation historical_error :: "string \<Rightarrow> exc" where
  "historical_error t \<equiv> Exc HistoricalCandidateError t"

definition HISTORICAL_CORPUS_VERSION :: string where
  "HISTORICAL_CORPUS_VERSION = ''sha256:7299bd7c25056246c944ae0d38c7d0b0817b87ff1022ce331aa2bca865bc2f06''"
definition PUBLIC_CORPUS_RESPONSE_BYTES :: nat where "PUBLIC_CORPUS_RESPONSE_BYTES = 19023989"
definition PUBLIC_CORPUS_RAW_DIGEST :: string where
  "PUBLIC_CORPUS_RAW_DIGEST = ''sha256:eb76adcaabdd11c9ce0005c22e50a8530397c32127515a4461b1340e77e2d4b5''"
definition PUBLIC_CORPUS_CANONICAL_BYTES :: nat where "PUBLIC_CORPUS_CANONICAL_BYTES = 19023989"
definition PUBLIC_CORPUS_CANONICAL_DIGEST :: string where
  "PUBLIC_CORPUS_CANONICAL_DIGEST = ''sha256:18fad3468cdd409b39a4786a982c098e1378445083e913e9a215669f0acbebdc''"
definition EXPECTED_TRAIN :: nat where "EXPECTED_TRAIN = 8000"
definition EXPECTED_COUNTS :: dict where
  "EXPECTED_COUNTS = [(''train'', JInt 8000), (''fixed'', JInt 38), (''rotating'', JInt 73)]"
definition EXPECTED_MANIFEST :: dict where
  "EXPECTED_MANIFEST =
     [(''track'', JStr CODE_TRACK), (''counts'', JObj EXPECTED_COUNTS),
      (''limits'', JObj [(''max_tests'', JInt 12), (''max_test_bytes'', JInt 65536)]),
      (''source'', JObj
         [(''train'', JStr ''ise-uiuc/Magicoder-OSS-Instruct-75K, python subset''),
          (''scored'', JStr ''bzantium/livecodebench, LeetCode subset, cutoff 2024-11-01'')]),
      (''digests'', JObj
         [(''tasks'', JStr ''sha256:e66c0b3f04ea6a78d5ec05da42d1c9d4c3604a86200b35ab9d7c82c88f2cf356''),
          (''tests'', JStr ''sha256:2191818c1649b5ed5e07078c7fe88ec43471534f12fc226c39084317c8f0fc4c'')]),
      (''license'', JStr ''CC BY 4.0 (LiveCodeBench)''),
      (''description'', JStr (''LeetCode problems from LiveCodeBench published on or after 2024-11-01. '' @
         ''Solutions are methods on `class Solution`; the entry point names the method.'')),
      (''entry_point_style'', JStr ''class_method'')]"
definition TASK_KEYS :: "string set" where
  "TASK_KEYS = {''gold'', ''max_output_tokens'', ''partition'', ''prompt'', ''ref''}"
definition DATASET_SCHEMA :: string where "DATASET_SCHEMA = ''microtensor.code.prepared.v2''"
definition TARGET_CONSTRUCTION :: string where "TARGET_CONSTRUCTION = ''gold_verbatim''"
definition DEVELOPMENT_QUALITY_CLAIM :: string where
  "DEVELOPMENT_QUALITY_CLAIM =
     ''none: the public train projection exposes no scored tests; holdout loss and structural '' @
     ''diagnostics are non-execution training diagnostics''"
definition FINAL_ALL_PUBLIC_QUALITY_CLAIM :: string where
  "FINAL_ALL_PUBLIC_QUALITY_CLAIM =
     ''none: all 8000 public training examples were used; no holdout or execution pass@1 was measured''"

text \<open>\<open>^mgc-[0-9]+$\<close> as a full match.\<close>

definition ref_pattern :: "string \<Rightarrow> bool" where
  "ref_pattern ref \<longleftrightarrow> prefix ''mgc-'' ref \<and> length ref > 4 \<and> list_all is_digit (drop 4 ref)"

section \<open>Shape checks\<close>

definition mapping :: "json \<Rightarrow> string \<Rightarrow> dict res" where
  "mapping v label =
     (case as_obj v of None \<Rightarrow> fail HistoricalCandidateError (label @ '' must be an object'') | Some d \<Rightarrow> Inr d)"

definition sequence :: "json \<Rightarrow> string \<Rightarrow> json list res" where
  "sequence v label =
     (case as_list v of None \<Rightarrow> fail HistoricalCandidateError (label @ '' must be an array'') | Some xs \<Rightarrow> Inr xs)"

definition exact_keys :: "dict \<Rightarrow> string set \<Rightarrow> string \<Rightarrow> unit res" where
  "exact_keys d expected label =
     require (set (map fst d) = expected) (historical_error (label @ '' keys changed'')) (Inr ())"

definition nonempty_string :: "json \<Rightarrow> string \<Rightarrow> string res" where
  "nonempty_string v label =
     (case as_str v of
        None \<Rightarrow> fail HistoricalCandidateError (label @ '' must be a non-empty string'')
      | Some t \<Rightarrow>
          require (strip t \<noteq> []) (historical_error (label @ '' must be a non-empty string'')) (Inr t))"

section \<open>Validation\<close>

definition task_reference :: "nat \<Rightarrow> json \<Rightarrow> string res" where
  "task_reference index raw_task =
     (let label = ''historical tasks['' @ text_of_nat index @ '']'' in
      rbind (mapping raw_task label) (\<lambda>task.
      rbind (exact_keys task TASK_KEYS label) (\<lambda>_.
      rbind (nonempty_string (dget task ''ref'') (label @ ''.ref'')) (\<lambda>ref.
      require (ref_pattern ref) (historical_error ''historical task ref is outside mgc'') (
      require (dget task ''partition'' = JStr ''train'') (historical_error ''historical task is not train'') (
      rbind (nonempty_string (dget task ''prompt'') ''historical task prompt'') (\<lambda>_.
      rbind (nonempty_string (dget task ''gold'') ''historical task gold'') (\<lambda>_.
      require (py_eq (dget task ''max_output_tokens'') (JInt 1024))
        (historical_error ''historical task changed its output budget'')
      (Inr ref)))))))))"

fun task_references :: "nat \<Rightarrow> json list \<Rightarrow> string list res" where
  "task_references index [] = Inr []"
| "task_references index (t # ts) =
     rbind (task_reference index t) (\<lambda>ref.
     map_sum id (\<lambda>refs. ref # refs) (task_references (Suc index) ts))"

text \<open>The default of \<open>expected_canonical_digest\<close>, the empty text, stands for the pinned digest.\<close>

definition validate_public_corpus_payload ::
    "stdlib \<Rightarrow> json \<Rightarrow> string option \<Rightarrow> corpus_validation res" where
  "validate_public_corpus_payload lib payload expected =
     (let expected_canonical_digest =
        (if expected = Some [] then Some PUBLIC_CORPUS_CANONICAL_DIGEST else expected) in
      rbind (mapping payload ''historical public corpus'') (\<lambda>corpus.
      rbind (exact_keys corpus ROOT_KEYS ''historical public corpus'') (\<lambda>_.
      require (dget corpus ''version'' = JStr HISTORICAL_CORPUS_VERSION)
        (historical_error ''historical public corpus version changed'') (
      require (dget corpus ''track'' = JStr CODE_TRACK)
        (historical_error ''historical public corpus track is not code'') (
      require (py_eq (dget corpus ''counts'') (JObj EXPECTED_COUNTS))
        (historical_error ''historical public corpus counts changed'') (
      require (\<not> (dget corpus ''reference_model'' \<noteq> JStr [] \<or> dget corpus ''reference'' \<noteq> JList []))
        (historical_error ''historical public corpus unexpectedly exposes references'') (
      rbind (mapping (dget corpus ''manifest'') ''historical manifest'') (\<lambda>manifest.
      rbind (exact_keys manifest (set (map fst EXPECTED_MANIFEST)) ''historical manifest'') (\<lambda>_.
      require (py_eq (JObj manifest) (JObj EXPECTED_MANIFEST)) (historical_error ''historical manifest changed'') (
      rbind (sequence (dget corpus ''tasks'') ''historical tasks'') (\<lambda>tasks.
      require (length tasks = EXPECTED_TRAIN)
        (historical_error ''historical task count differs from the pinned train count'') (
      rbind (task_references 0 tasks) (\<lambda>refs.
      require (distinct refs) (historical_error ''historical public corpus repeats a task ref'') (
      let canonical = candidate_json_bytes lib (JObj corpus);
          canonical_digest = candidate_digest lib canonical in
      require (length canonical = PUBLIC_CORPUS_CANONICAL_BYTES)
        (historical_error ''historical canonical JSON byte count changed'') (
      require (\<not> (expected_canonical_digest \<noteq> None \<and> Some canonical_digest \<noteq> expected_canonical_digest))
        (historical_error (''historical canonical content changed: expected ''
           @ the expected_canonical_digest @ '', got '' @ canonical_digest))
      (Inr \<lparr>cv_canonical_digest = canonical_digest, cv_canonical_bytes = length canonical,
         cv_task_count = length tasks, cv_reference_count = 0,
         cv_refs_digest = candidate_refs_digest lib (sort refs)\<rparr>))))))))))))))))"

text \<open>What the kernel shows of the corpus file while it is loaded.\<close>

record corpus_view =
  co_path :: path_view
  co_is_symlink :: bool
  co_is_file :: bool
  co_size :: "nat res"
  co_hashed :: "string res"
  co_content :: "string res"

definition load_public_corpus ::
    "stdlib \<Rightarrow> (string \<Rightarrow> string option) \<Rightarrow> (string \<Rightarrow> raw option) \<Rightarrow> corpus_view \<Rightarrow>
     (dict \<times> corpus_validation) res" where
  "load_public_corpus lib decode parse v =
     (let irregular = historical_error
        (''historical public corpus must be a regular non-symlink file: '' @ pv_path (co_path v)) in
      require (\<not> co_is_symlink v) irregular (
      rbind (assert_tmpfs_path (co_path v)) (\<lambda>source.
      require (co_is_file v) irregular (
      rbind (co_size v) (\<lambda>size.
      require (size = PUBLIC_CORPUS_RESPONSE_BYTES)
        (historical_error ''historical public corpus raw byte count changed'') (
      rbind (digest_file lib (co_hashed v)) (\<lambda>digest.
      require (digest = PUBLIC_CORPUS_RAW_DIGEST)
        (historical_error ''historical public corpus raw digest changed'') (
      rbind (co_content v) (\<lambda>content.
      rbind (candidate_strict_json decode parse content (join_on CHR ''/'' source)) (\<lambda>payload.
      rbind (validate_public_corpus_payload lib payload (Some [])) (\<lambda>validation.
      rbind (mapping payload []) (\<lambda>d. Inr (d, validation)))))))))))))"

section \<open>The split\<close>

definition task_ref :: "dict \<Rightarrow> string" where
  "task_ref task = (case dget task ''ref'' of JStr ref \<Rightarrow> ref | _ \<Rightarrow> [])"

definition split_key :: "stdlib \<Rightarrow> int \<Rightarrow> string \<Rightarrow> string \<times> string" where
  "split_key lib seed ref = (sha256_hex lib (utf8_encode (text_of_int seed @ '':'' @ ref)), ref)"

definition heldout_refs :: "stdlib \<Rightarrow> int \<Rightarrow> nat \<Rightarrow> dict list \<Rightarrow> string set" where
  "heldout_refs lib seed n tasks =
     set (map task_ref (take n (sort_key (\<lambda>task. split_key lib seed (task_ref task)) tasks)))"

definition prepared_record :: "dict \<Rightarrow> dict" where
  "prepared_record task =
     [(''completion'', dget task ''gold''), (''max_output_tokens'', dget task ''max_output_tokens''),
      (''prompt'', dget task ''prompt''), (''ref'', dget task ''ref'')]"

definition split_rows :: "stdlib \<Rightarrow> int \<Rightarrow> nat \<Rightarrow> dict list \<Rightarrow> dict list \<times> dict list" where
  "split_rows lib seed n tasks =
     (let heldout = heldout_refs lib seed n tasks; ordered = sort_key task_ref tasks in
      (map prepared_record (filter (\<lambda>task. task_ref task \<notin> heldout) ordered),
       map prepared_record (filter (\<lambda>task. task_ref task \<in> heldout) ordered)))"

text \<open>The tasks of a loaded corpus: \<open>list(payload["tasks"])\<close>.\<close>

definition corpus_tasks :: "dict \<Rightarrow> dict list" where
  "corpus_tasks payload = (case dget payload ''tasks'' of JList ts \<Rightarrow> List.map_filter as_obj ts | _ \<Rightarrow> [])"

section \<open>What an accepted corpus is\<close>

text \<open>A task the validation accepts.\<close>

definition good_task :: "dict \<Rightarrow> bool" where
  "good_task task \<longleftrightarrow>
     set (map fst task) = TASK_KEYS \<and> dget task ''partition'' = JStr ''train'' \<and>
     ref_pattern (task_ref task) \<and> dget task ''ref'' = JStr (task_ref task) \<and>
     (\<exists>t. dget task ''prompt'' = JStr t \<and> strip t \<noteq> []) \<and>
     (\<exists>t. dget task ''gold'' = JStr t \<and> strip t \<noteq> []) \<and>
     py_eq (dget task ''max_output_tokens'') (JInt 1024)"

lemma mapping_Inr [simp]: "mapping v label = Inr d \<longleftrightarrow> v = JObj d"
  by (auto simp: mapping_def case_option_res_iffs)

lemma sequence_Inr [simp]: "sequence v label = Inr xs \<longleftrightarrow> v = JList xs"
  by (auto simp: sequence_def case_option_res_iffs)

lemma exact_keys_Inr [simp]: "exact_keys d ks label = Inr u \<longleftrightarrow> set (map fst d) = ks"
  by (simp add: exact_keys_def require_Inr_iff)

lemma nonempty_string_Inr [simp]: "nonempty_string v label = Inr t \<longleftrightarrow> v = JStr t \<and> strip t \<noteq> []"
  by (auto simp: nonempty_string_def case_option_res_iffs require_Inr_iff)

lemma strip_nonempty: "c \<in> set s \<Longrightarrow> \<not> is_space c \<Longrightarrow> strip s \<noteq> []"
proof -
  assume "c \<in> set s" "\<not> is_space c"
  then have "c \<in> set (dropWhile is_space s)" by (induction s) auto
  with \<open>\<not> is_space c\<close> show "strip s \<noteq> []" by (auto simp: strip_def dropWhile_eq_Nil_conv)
qed

lemma ref_pattern_strip: "ref_pattern ref \<Longrightarrow> strip ref \<noteq> []"
proof (rule strip_nonempty)
  show "ref_pattern ref \<Longrightarrow> CHR ''m'' \<in> set ref" by (auto simp: ref_pattern_def prefix_def)
  show "\<not> is_space CHR ''m''" by code_simp
qed

lemma task_reference_Inr:
  "task_reference i v = Inr ref \<longleftrightarrow> (\<exists>task. v = JObj task \<and> good_task task \<and> ref = task_ref task)"
  by (auto simp: task_reference_def res_iffs Let_def good_task_def task_ref_def ref_pattern_strip)

lemma task_references_Inr:
  "task_references i ts = Inr refs \<Longrightarrow> \<exists>tasks. ts = map JObj tasks \<and> refs = map task_ref tasks \<and> list_all good_task tasks"
proof (induction i ts arbitrary: refs rule: task_references.induct)
  case (2 i t ts)
  then obtain task refs' where t: "t = JObj task" "good_task task" and refs: "refs = task_ref task # refs'"
    and rest: "task_references (Suc i) ts = Inr refs'"
    by (auto simp: res_iffs map_sum_Inr task_reference_Inr)
  with 2 obtain tasks where "ts = map JObj tasks \<and> refs' = map task_ref tasks \<and> list_all good_task tasks"
    by blast
  with t refs show ?case by (intro exI [of _ "task # tasks"]) simp
qed simp

text \<open>The tasks of an accepted corpus: 8000 good ones with different references.\<close>

definition good_tasks :: "dict list \<Rightarrow> bool" where
  "good_tasks tasks \<longleftrightarrow> length tasks = 8000 \<and> distinct (map task_ref tasks) \<and> list_all good_task tasks"

lemma map_filter_objects: "List.map_filter as_obj (map JObj tasks) = tasks"
  by (induction tasks) (simp_all add: map_filter_simps)

lemma validate_tasks:
  assumes "validate_public_corpus_payload lib payload expected = Inr v"
  shows "\<exists>d. payload = JObj d \<and> good_tasks (corpus_tasks d) \<and> dget d ''tasks'' = JList (map JObj (corpus_tasks d)) \<and>
    dget d ''version'' = JStr HISTORICAL_CORPUS_VERSION"
proof -
  from assms obtain d ts refs where d: "payload = JObj d" "dget d ''version'' = JStr HISTORICAL_CORPUS_VERSION"
    and ts: "dget d ''tasks'' = JList ts" "length ts = 8000" and refs: "task_references 0 ts = Inr refs" "distinct refs"
    by (auto simp: validate_public_corpus_payload_def Let_def res_iffs EXPECTED_TRAIN_def)
  from task_references_Inr [OF refs(1)] obtain tasks where
    "ts = map JObj tasks" "refs = map task_ref tasks" "list_all good_task tasks" by blast
  with d ts refs(2) show ?thesis
    by (intro exI [of _ d]) (simp add: good_tasks_def corpus_tasks_def map_filter_objects)
qed

lemma load_public_corpus_tasks:
  assumes "load_public_corpus lib decode parse v = Inr (d, validation)"
  shows "good_tasks (corpus_tasks d)"
proof -
  from assms obtain payload where "validate_public_corpus_payload lib payload (Some []) = Inr validation" "payload = JObj d"
    by (auto simp: load_public_corpus_def res_iffs Let_def)
  with validate_tasks show ?thesis by fastforce
qed

section \<open>What the split is\<close>

lemma task_refs_inj: "distinct (map task_ref tasks) \<Longrightarrow> inj_on task_ref (set tasks)"
  by (simp add: distinct_map)

lemma heldout_card:
  assumes "distinct (map task_ref tasks)" and "n \<le> length tasks"
  shows "card (heldout_refs lib seed n tasks) = n" "heldout_refs lib seed n tasks \<subseteq> task_ref ` set tasks"
proof -
  let ?ranked = "sort_key (\<lambda>task. split_key lib seed (task_ref task)) tasks"
  have "mset (map task_ref ?ranked) = mset (map task_ref tasks)" by (simp add: mset_map)
  then have "distinct (map task_ref ?ranked)" using assms(1) mset_eq_imp_distinct_iff by blast
  then have "distinct (take n (map task_ref ?ranked))" by (rule distinct_take)
  from distinct_card [OF this] have "card (set (take n (map task_ref ?ranked))) = n"
    using assms(2) by simp
  then show "card (heldout_refs lib seed n tasks) = n" unfolding heldout_refs_def take_map .
  show "heldout_refs lib seed n tasks \<subseteq> task_ref ` set tasks"
    using set_take_subset [of n ?ranked] by (auto simp: heldout_refs_def)
qed

lemma length_filter_refs:
  assumes "distinct (map task_ref tasks)" and "A \<subseteq> task_ref ` set tasks"
  shows "length (filter (\<lambda>task. task_ref task \<in> A) tasks) = card A"
proof -
  have "length (filter (\<lambda>task. task_ref task \<in> A) tasks) = length (filter (\<lambda>ref. ref \<in> A) (map task_ref tasks))"
    by (simp add: filter_map comp_def)
  also have "\<dots> = card (set (filter (\<lambda>ref. ref \<in> A) (map task_ref tasks)))"
    using assms(1) by (metis distinct_card distinct_filter)
  also have "set (filter (\<lambda>ref. ref \<in> A) (map task_ref tasks)) = A" using assms(2) by auto
  finally show ?thesis .
qed

lemma length_sort_filter: "length (filter P (sort_key k xs)) = length (filter P xs)"
  by (metis mset_filter mset_sort size_mset)

lemma split_rows_lengths:
  assumes "good_tasks tasks" and "n \<le> 8000" and "split_rows lib seed n tasks = (train, holdout)"
  shows "length train = 8000 - n" "length holdout = n"
proof -
  from assms(1) have tasks: "distinct (map task_ref tasks)" "length tasks = 8000" by (simp_all add: good_tasks_def)
  let ?held = "heldout_refs lib seed n tasks"
  have held: "length (filter (\<lambda>task. task_ref task \<in> ?held) tasks) = n"
    using heldout_card [OF tasks(1)] length_filter_refs [OF tasks(1)] assms(2) tasks(2) by metis
  moreover have "length (filter (\<lambda>task. task_ref task \<in> ?held) tasks) + length (filter (\<lambda>task. task_ref task \<notin> ?held) tasks) = 8000"
    using tasks(2) sum_length_filter_compl [of "\<lambda>task. task_ref task \<in> ?held" tasks] by simp
  ultimately show "length train = 8000 - n" "length holdout = n"
    using assms(3) by (auto simp: split_rows_def Let_def length_sort_filter)
qed

end
