(* ===== verification/HistoricalDataset.thy ===== *)
theory HistoricalDataset
  imports HistoricalCorpus
begin

text \<open>
  \<^verbatim>\<open>src/training/historical_code_candidate.py\<close>, second half: writing the prepared dataset,
  reading it back, and the replay against the pinned corpus. What other processes let the code
  see of the files, one answer per read, is a record; a step of the preparation that fails is
  a fault. The staging directory is private, so what was written there is what is hashed.
\<close>

section \<open>JSON lines\<close>

fun join_text :: "string \<Rightarrow> string list \<Rightarrow> string" where
  "join_text sep [] = []"
| "join_text sep [p] = p"
| "join_text sep (p # q # ps) = p @ sep @ join_text sep (q # ps)"

text \<open>\<open>json.dumps(row, ensure_ascii=False, sort_keys=True)\<close>: the values of a row are scalars.\<close>

definition row_text :: "stdlib \<Rightarrow> dict \<Rightarrow> string" where
  "row_text lib row =
     ''{'' @ join_text '', '' (map (\<lambda>(k, v). quote_unicode k @ '': '' @ canon lib v) (sort_key fst row)) @ ''}''"

definition jsonl :: "stdlib \<Rightarrow> dict list \<Rightarrow> string" where
  "jsonl lib rows = concat (map (\<lambda>row. row_text lib row @ [char_of (10::nat)]) rows)"

section \<open>Preparing\<close>

datatype prepare_step =
  MakeParent | MakeStaging | WriteTrain | WriteHoldout | HashTrain | HashHoldout | WriteManifest | Publish

record prepared_dir =
  pd_train :: string
  pd_holdout :: string
  pd_manifest :: dict

definition attempt :: "(prepare_step \<Rightarrow> exc option) \<Rightarrow> prepare_step \<Rightarrow> 'a res \<Rightarrow> 'a res" where
  "attempt faults step k = (case faults step of Some e \<Rightarrow> Inl e | None \<Rightarrow> k)"

definition dataset_manifest ::
    "stdlib \<Rightarrow> corpus_validation \<Rightarrow> string \<Rightarrow> int \<Rightarrow> dict list \<Rightarrow> dict list \<Rightarrow> dict" where
  "dataset_manifest lib validation source_digest seed train_rows holdout_rows =
     [(''schema'', JStr DATASET_SCHEMA), (''track'', JStr CODE_TRACK),
      (''hardware_class'', JStr CODE_HARDWARE_CLASS), (''corpus_version'', JStr HISTORICAL_CORPUS_VERSION),
      (''corpus_canonical_digest'', JStr (cv_canonical_digest validation)),
      (''source_file_digest'', JStr source_digest), (''split_algorithm'', JStr SPLIT_ALGORITHM),
      (''seed'', JInt seed), (''train_examples'', JInt (int (length train_rows))),
      (''holdout_examples'', JInt (int (length holdout_rows))),
      (''train_refs_digest'', JStr (candidate_refs_digest lib (map task_ref train_rows))),
      (''holdout_refs_digest'', JStr (candidate_refs_digest lib (map task_ref holdout_rows))),
      (''train_file_digest'', JStr (candidate_digest lib (utf8_encode (jsonl lib train_rows)))),
      (''holdout_file_digest'', JStr (candidate_digest lib (utf8_encode (jsonl lib holdout_rows)))),
      (''target_construction'', JStr TARGET_CONSTRUCTION),
      (''quality_claim'', JStr (if holdout_rows \<noteq> [] then DEVELOPMENT_QUALITY_CLAIM
                               else FINAL_ALL_PUBLIC_QUALITY_CLAIM))]"

text \<open>
  The result is the manifest with the directory \<open>os.replace\<close> moves to the output; on every
  exception the staging directory is removed and nothing is moved. \<open>hashed_again\<close> is what the
  corpus file shows when it is hashed after it was loaded.
\<close>

definition prepare_dataset ::
    "stdlib \<Rightarrow> (string \<Rightarrow> string option) \<Rightarrow> (string \<Rightarrow> raw option) \<Rightarrow> (prepare_step \<Rightarrow> exc option) \<Rightarrow>
     corpus_view \<Rightarrow> string res \<Rightarrow> path_view \<Rightarrow> bool \<Rightarrow> json \<Rightarrow> json \<Rightarrow> (dict \<times> prepared_dir) res" where
  "prepare_dataset lib decode parse faults corpus hashed_again output_path output_exists holdout_value seed_value =
     (case as_int holdout_value of
        None \<Rightarrow> fail HistoricalCandidateError ''holdout_examples must be an integer''
      | Some holdout_examples \<Rightarrow>
     require (0 \<le> holdout_examples \<and> holdout_examples < int EXPECTED_TRAIN)
       (historical_error ''holdout_examples must leave at least one training task'') (
     case as_int seed_value of
       None \<Rightarrow> fail HistoricalCandidateError ''seed must be an integer''
     | Some seed \<Rightarrow>
     rbind (assert_tmpfs_path output_path) (\<lambda>out.
     require (\<not> output_exists)
       (historical_error (''historical dataset output already exists: '' @ join_on CHR ''/'' out)) (
     rbind (load_public_corpus lib decode parse corpus) (\<lambda>(payload, validation).
     let (train_rows, holdout_rows) = split_rows lib seed (nat holdout_examples) (corpus_tasks payload) in
     attempt faults MakeParent (
     attempt faults MakeStaging (
     attempt faults WriteTrain (
     attempt faults WriteHoldout (
     rbind (digest_file lib hashed_again) (\<lambda>source_digest.
     attempt faults HashTrain (
     attempt faults HashHoldout (
     let manifest = dataset_manifest lib validation source_digest seed train_rows holdout_rows in
     attempt faults WriteManifest (
     attempt faults Publish (
     Inr (manifest,
       \<lparr>pd_train = utf8_encode (jsonl lib train_rows), pd_holdout = utf8_encode (jsonl lib holdout_rows),
        pd_manifest = manifest\<rparr>)))))))))))))))"

section \<open>Reading back\<close>

definition prepared_row ::
    "(string \<Rightarrow> string option) \<Rightarrow> (string \<Rightarrow> raw option) \<Rightarrow> string \<Rightarrow> string \<Rightarrow> dict res" where
  "prepared_row decode parse place line =
     rbind (candidate_strict_json decode parse (utf8_encode line) place) (\<lambda>v.
     case as_obj v of
       None \<Rightarrow> fail HistoricalCandidateError (place @ '' has unexpected fields'')
     | Some row \<Rightarrow>
     require (set (map fst row) = PREPARED_ROW_KEYS) (historical_error (place @ '' has unexpected fields'')) (
     rbind (nonempty_string (dget row ''ref'') (place @ '' ref'')) (\<lambda>ref.
     require (ref_pattern ref) (historical_error (place @ '' has an invalid historical ref'')) (
     rbind (nonempty_string (dget row ''prompt'') (place @ '' prompt'')) (\<lambda>_.
     rbind (nonempty_string (dget row ''completion'') (place @ '' completion'')) (\<lambda>_.
     require (py_eq (dget row ''max_output_tokens'') (JInt 1024))
       (historical_error (place @ '' changed its token budget''))
     (Inr row)))))))"

fun prepared_lines ::
    "(string \<Rightarrow> string option) \<Rightarrow> (string \<Rightarrow> raw option) \<Rightarrow> string \<Rightarrow> nat \<Rightarrow> string list \<Rightarrow> dict list res" where
  "prepared_lines decode parse label number [] = Inr []"
| "prepared_lines decode parse label number (line # rest) =
     (if strip line = [] then prepared_lines decode parse label (Suc number) rest
      else rbind (prepared_row decode parse (label @ '':'' @ text_of_nat number) line) (\<lambda>row.
           map_sum id (\<lambda>rows. row # rows) (prepared_lines decode parse label (Suc number) rest)))"

text \<open>
  \<open>content\<close> is what reading the file gives. Universal newlines change no line of
  \<open>splitlines\<close>; a file that is not UTF-8 raises \<open>UnicodeDecodeError\<close>, which no handler names.
\<close>

definition load_prepared_rows ::
    "(string \<Rightarrow> string option) \<Rightarrow> (string \<Rightarrow> raw option) \<Rightarrow> string res \<Rightarrow> string \<Rightarrow> dict list res" where
  "load_prepared_rows decode parse content label =
     (case content of
        Inl e \<Rightarrow> if isinstance e OSError then fail HistoricalCandidateError (label @ '' is unreadable'') else Inl e
      | Inr bytes \<Rightarrow>
     (case decode bytes of
        None \<Rightarrow> fail UnicodeDecodeError ''invalid UTF-8''
      | Some text \<Rightarrow> prepared_lines decode parse label 1 (splitlines text)))"

record dataset_view =
  dv_path :: path_view
  dv_regular :: bool
  dv_manifest :: "string res"
  dv_train_hashed :: "string res"
  dv_holdout_hashed :: "string res"
  dv_train :: "string res"
  dv_holdout :: "string res"

definition required_fields :: "(string \<times> string) list" where
  "required_fields =
     [(''schema'', DATASET_SCHEMA), (''track'', CODE_TRACK), (''hardware_class'', CODE_HARDWARE_CLASS),
      (''corpus_version'', HISTORICAL_CORPUS_VERSION),
      (''corpus_canonical_digest'', PUBLIC_CORPUS_CANONICAL_DIGEST),
      (''source_file_digest'', PUBLIC_CORPUS_RAW_DIGEST), (''split_algorithm'', SPLIT_ALGORITHM),
      (''target_construction'', TARGET_CONSTRUCTION)]"

definition count_field :: "dict \<Rightarrow> string \<Rightarrow> nat res" where
  "count_field d key =
     (let wrong = historical_error (''historical prepared '' @ key @ '' must be non-negative'') in
      case as_int (dget d key) of None \<Rightarrow> Inl wrong | Some i \<Rightarrow> require (0 \<le> i) wrong (Inr (nat i)))"

definition check_fold :: "stdlib \<Rightarrow> dict \<Rightarrow> dict list \<Rightarrow> string \<Rightarrow> string \<Rightarrow> string \<Rightarrow> unit res" where
  "check_fold lib manifest found count_key refs_key label =
     require (py_eq (JInt (int (length found))) (dget manifest count_key))
       (historical_error (''historical '' @ label @ '' row count changed'')) (
     let refs = map task_ref found in
     require (\<not> (\<not> distinct refs \<or> JStr (candidate_refs_digest lib refs) \<noteq> dget manifest refs_key))
       (historical_error (''historical '' @ label @ '' refs changed''))
     (Inr ()))"

definition check_digest :: "stdlib \<Rightarrow> dict \<Rightarrow> string res \<Rightarrow> string \<Rightarrow> string \<Rightarrow> unit res" where
  "check_digest lib manifest hashed digest_key name =
     rbind (digest_file lib hashed) (\<lambda>digest.
     require (JStr digest = dget manifest digest_key)
       (historical_error (''historical '' @ name @ '' digest changed'')) (Inr ()))"

definition load_prepared_manifest ::
    "(string \<Rightarrow> string option) \<Rightarrow> (string \<Rightarrow> raw option) \<Rightarrow> string res \<Rightarrow> string \<Rightarrow> dict res" where
  "load_prepared_manifest decode parse content path =
     (case content of
        Inl e \<Rightarrow> if isinstance e OSError \<or> isinstance e JSONDecodeError
                 then fail HistoricalCandidateError ''historical prepared manifest is unreadable'' else Inl e
      | Inr bytes \<Rightarrow>
          rbind (candidate_strict_json decode parse bytes path) (\<lambda>v. mapping v ''historical prepared manifest''))"

definition load_prepared_dataset_files ::
    "stdlib \<Rightarrow> (string \<Rightarrow> string option) \<Rightarrow> (string \<Rightarrow> raw option) \<Rightarrow> dataset_view \<Rightarrow> (dict list \<times> dict) res" where
  "load_prepared_dataset_files lib decode parse v =
     rbind (assert_tmpfs_path (dv_path v)) (\<lambda>place.
     require (dv_regular v) (historical_error ''historical prepared files must be regular non-symlinks'') (
     rbind (load_prepared_manifest decode parse (dv_manifest v) (join_on CHR ''/'' place @ ''/manifest.json'')) (\<lambda>manifest.
     rbind (exact_keys manifest PREPARED_MANIFEST_KEYS ''historical prepared manifest'') (\<lambda>_.
     require (list_all (\<lambda>(key, expected). dget manifest key = JStr expected) required_fields)
       (historical_error ''historical prepared manifest field changed'') (
     rbind (count_field manifest ''seed'') (\<lambda>seed.
     rbind (count_field manifest ''train_examples'') (\<lambda>train_examples.
     rbind (count_field manifest ''holdout_examples'') (\<lambda>holdout_examples.
     require (train_examples + holdout_examples = EXPECTED_TRAIN)
       (historical_error ''historical prepared split does not contain all 8000 rows'') (
     require (\<not> train_examples < 1) (historical_error ''historical prepared split has no training rows'') (
     require (dget manifest ''quality_claim'' =
              JStr (if holdout_examples \<noteq> 0 then DEVELOPMENT_QUALITY_CLAIM else FINAL_ALL_PUBLIC_QUALITY_CLAIM))
       (historical_error ''historical prepared quality claim changed'') (
     rbind (check_digest lib manifest (dv_train_hashed v) ''train_file_digest'' ''train.jsonl'') (\<lambda>_.
     rbind (check_digest lib manifest (dv_holdout_hashed v) ''holdout_file_digest'' ''holdout.jsonl'') (\<lambda>_.
     rbind (load_prepared_rows decode parse (dv_train v) ''train.jsonl'') (\<lambda>rows.
     rbind (load_prepared_rows decode parse (dv_holdout v) ''holdout.jsonl'') (\<lambda>holdout_rows.
     rbind (check_fold lib manifest rows ''train_examples'' ''train_refs_digest'' ''training'') (\<lambda>_.
     rbind (check_fold lib manifest holdout_rows ''holdout_examples'' ''holdout_refs_digest'' ''holdout'') (\<lambda>_.
     let train_refs = set (map task_ref rows); holdout_refs = set (map task_ref holdout_rows) in
     require (train_refs \<inter> holdout_refs = {}) (historical_error ''historical train and holdout refs overlap'') (
     require (card (train_refs \<union> holdout_refs) = EXPECTED_TRAIN)
       (historical_error ''historical prepared refs are incomplete'')
     (Inr (rows, manifest))))))))))))))))))))"

section \<open>The replay\<close>

definition source_corpus_identity :: dict where
  "source_corpus_identity =
     [(''corpus_version'', JStr HISTORICAL_CORPUS_VERSION),
      (''raw_bytes'', JInt (int PUBLIC_CORPUS_RESPONSE_BYTES)), (''raw_digest'', JStr PUBLIC_CORPUS_RAW_DIGEST),
      (''canonical_bytes'', JInt (int PUBLIC_CORPUS_CANONICAL_BYTES)),
      (''canonical_digest'', JStr PUBLIC_CORPUS_CANONICAL_DIGEST)]"

definition same_rows :: "dict list \<Rightarrow> dict list \<Rightarrow> bool" where
  "same_rows xs ys \<longleftrightarrow> py_eq (JList (map JObj xs)) (JList (map JObj ys))"

text \<open>\<open>view\<close> is what the dataset shows in this pass, \<open>holdout\<close> what the holdout file shows when read again.\<close>

definition replay_prepared_dataset ::
    "stdlib \<Rightarrow> (string \<Rightarrow> string option) \<Rightarrow> (string \<Rightarrow> raw option) \<Rightarrow> dataset_view \<Rightarrow> string res \<Rightarrow>
     corpus_view \<Rightarrow> dict res" where
  "replay_prepared_dataset lib decode parse view holdout corpus =
     rbind (load_prepared_dataset_files lib decode parse view) (\<lambda>(train_rows, manifest).
     rbind (load_prepared_rows decode parse holdout ''holdout.jsonl'') (\<lambda>holdout_rows.
     rbind (load_public_corpus lib decode parse corpus) (\<lambda>(payload, validation).
     rbind (int_of (dget manifest ''holdout_examples'')) (\<lambda>holdout_examples.
     rbind (int_of (dget manifest ''seed'')) (\<lambda>seed.
     let (expected_train, expected_holdout) =
           split_rows lib seed (nat holdout_examples) (corpus_tasks payload) in
     require (same_rows train_rows expected_train \<and> same_rows holdout_rows expected_holdout)
       (historical_error ''historical prepared rows are not an exact replay of the pinned public corpus'')
     (Inr source_corpus_identity))))))"

text \<open>The files are read in two passes: the rows returned are those of the first.\<close>

definition load_prepared_dataset ::
    "stdlib \<Rightarrow> (string \<Rightarrow> string option) \<Rightarrow> (string \<Rightarrow> raw option) \<Rightarrow> dataset_view \<Rightarrow> dataset_view \<Rightarrow>
     string res \<Rightarrow> corpus_view \<Rightarrow> (dict list \<times> dict) res" where
  "load_prepared_dataset lib decode parse view again holdout_again corpus =
     rbind (load_prepared_dataset_files lib decode parse view) (\<lambda>loaded.
     rbind (replay_prepared_dataset lib decode parse again holdout_again corpus) (\<lambda>_. Inr loaded))"

section \<open>The command line\<close>

datatype action = ValidateCorpus | PrepareDataset json json

datatype outcome = Printed dict | Refused string | Escaped exc

definition historical_main ::
    "stdlib \<Rightarrow> (string \<Rightarrow> string option) \<Rightarrow> (string \<Rightarrow> raw option) \<Rightarrow> (prepare_step \<Rightarrow> exc option) \<Rightarrow>
     corpus_view \<Rightarrow> string res \<Rightarrow> path_view \<Rightarrow> bool \<Rightarrow> action \<Rightarrow> outcome" where
  "historical_main lib decode parse faults corpus hashed_again output_path output_exists act =
     (case (case act of
        ValidateCorpus \<Rightarrow>
          map_sum id (\<lambda>(payload, v).
              [(''canonical_digest'', JStr (cv_canonical_digest v)),
               (''canonical_bytes'', JInt (int (cv_canonical_bytes v))),
               (''task_count'', JInt (int (cv_task_count v))),
               (''reference_count'', JInt (int (cv_reference_count v))),
               (''refs_digest'', JStr (cv_refs_digest v))])
            (load_public_corpus lib decode parse corpus)
      | PrepareDataset holdout seed \<Rightarrow>
          map_sum id fst (prepare_dataset lib decode parse faults corpus hashed_again output_path
            output_exists holdout seed)) of
        Inr d \<Rightarrow> Printed d
      | Inl e \<Rightarrow>
          if isinstance e CandidateError \<or> isinstance e OSError
          then Refused (''historical code candidate refused: '' @ exc_text e) else Escaped e)"

end
