(* ===== verification/HistoricalReplay.thy ===== *)
theory HistoricalReplay
  imports HistoricalDataset
begin

text \<open>
  The prepared historical dataset is a replay of the pinned corpus, and what was prepared is
  read back, except for texts with the character U+0085.
\<close>

section \<open>Lines\<close>

definition one_line :: "string \<Rightarrow> bool" where
  "one_line t \<longleftrightarrow> list_all (\<lambda>c. \<not> is_line_break c) t"

lemma one_line_simps [simp]:
  "one_line []" "one_line (c # t) \<longleftrightarrow> \<not> is_line_break c \<and> one_line t"
  "one_line (t @ u) \<longleftrightarrow> one_line t \<and> one_line u"
  by (simp_all add: one_line_def)

lemma line_feed: "is_line_break (char_of (10::nat))" "code (char_of (10::nat)) = 10"
  by (simp_all add: is_line_break_def code_def)

lemma take_line_feed: "one_line t \<Longrightarrow> take_line (t @ char_of (10::nat) # rest) = (t, rest)"
  by (induction t) (simp_all add: line_feed)

lemma splitlines_written:
  "list_all one_line ts \<Longrightarrow> splitlines (concat (map (\<lambda>t. t @ [char_of (10::nat)]) ts)) = ts"
  by (induction ts) (simp_all add: take_line_feed splitlines.simps)

lemma one_line_join: "one_line sep \<Longrightarrow> list_all one_line ts \<Longrightarrow> one_line (join_text sep ts)"
  by (induction sep ts rule: join_text.induct) auto

text \<open>Of the line boundaries only U+0085 survives in a JSON text.\<close>

definition no_next_line :: "string \<Rightarrow> bool" where
  "no_next_line t \<longleftrightarrow> list_all (\<lambda>c. code c \<noteq> 133) t"

lemma one_line_escape: "code c \<noteq> 133 \<Longrightarrow> one_line (if code c > 126 then [c] else escape_char c)"
  by (auto simp: escape_char_def Let_def is_line_break_def hex_digit_def code_def)

lemma one_line_concat: "list_all one_line ts \<Longrightarrow> one_line (concat ts)"
  by (induction ts) auto

lemma not_line_break:
  "\<not> is_line_break CHR ''{''" "\<not> is_line_break CHR ''}''" "\<not> is_line_break CHR '':''"
  "\<not> is_line_break CHR '',''" "\<not> is_line_break CHR '' ''" "\<not> is_line_break (char_of (34::nat))"
  by code_simp+

lemma one_line_quote:
  assumes "no_next_line t"
  shows "one_line (quote_unicode t)"
proof -
  have "list_all one_line (map (\<lambda>c. if code c > 126 then [c] else escape_char c) t)"
    unfolding list_all_iff set_map using one_line_escape assms [unfolded no_next_line_def list_all_iff] by blast
  then show ?thesis by (simp add: quote_unicode_def one_line_concat not_line_break)
qed

lemma one_line_digits: "list_all is_digit t \<Longrightarrow> one_line t"
  by (auto simp: one_line_def list_all_iff is_line_break_def is_digit_def Let_def)

lemma no_next_line_digits: "list_all is_digit t \<Longrightarrow> no_next_line t"
  by (induction t) (auto simp: no_next_line_def is_digit_def)

lemma no_next_line_append [simp]: "no_next_line (t @ u) \<longleftrightarrow> no_next_line t \<and> no_next_line u"
  by (simp add: no_next_line_def)

lemma no_next_line_ref: "ref_pattern ref \<Longrightarrow> no_next_line ref"
proof -
  assume "ref_pattern ref"
  then obtain digits where "ref = ''mgc-'' @ digits" "list_all is_digit digits"
    by (auto simp: ref_pattern_def prefix_def)
  moreover have "no_next_line ''mgc-''" by code_simp
  ultimately show "no_next_line ref" using no_next_line_digits by (simp del: append.simps)
qed

section \<open>What was written is read back\<close>

definition plain_task :: "dict \<Rightarrow> bool" where
  "plain_task task \<longleftrightarrow>
     good_task task \<and> dget task ''max_output_tokens'' = JInt 1024 \<and>
     no_next_line (py_str (dget task ''gold'')) \<and> no_next_line (py_str (dget task ''prompt''))"

text \<open>The lexer inverts the writer on a row.\<close>

definition reads_back :: "stdlib \<Rightarrow> (string \<Rightarrow> raw option) \<Rightarrow> dict \<Rightarrow> bool" where
  "reads_back lib parse row \<longleftrightarrow>
     (case parse (row_text lib row) of None \<Rightarrow> False | Some r \<Rightarrow> checked_value r = Some (JObj row))"

lemma prepared_record_sorted: "sort_key fst (prepared_record task) = prepared_record task"
  by (rule sort_key_id_if_sorted) (simp add: prepared_record_def less_eq_char_def)

lemma row_text_one_line:
  assumes "plain_task task"
  shows "one_line (row_text lib (prepared_record task))"
proof -
  from assms obtain g p where "dget task ''gold'' = JStr g" "dget task ''prompt'' = JStr p"
    "dget task ''max_output_tokens'' = JInt 1024" "dget task ''ref'' = JStr (task_ref task)"
    and "no_next_line g" "no_next_line p" "no_next_line (task_ref task)"
    by (auto simp: plain_task_def good_task_def no_next_line_ref)
  moreover have "one_line (text_of_int 1024)" by code_simp
  moreover have "one_line (quote_unicode ''completion'')" "one_line (quote_unicode ''max_output_tokens'')"
    "one_line (quote_unicode ''prompt'')" "one_line (quote_unicode ''ref'')"
    by code_simp+
  ultimately show ?thesis
    unfolding row_text_def prepared_record_sorted
    by (simp add: prepared_record_def one_line_quote not_line_break)
qed

lemma row_text_visible: "strip (row_text lib row) \<noteq> []"
  by (rule strip_nonempty [of "CHR ''{''"]) (simp_all add: row_text_def is_space_def code_def)

lemma prepared_record_fields [simp]:
  "dget (prepared_record task) ''completion'' = dget task ''gold''"
  "dget (prepared_record task) ''max_output_tokens'' = dget task ''max_output_tokens''"
  "dget (prepared_record task) ''prompt'' = dget task ''prompt''"
  "dget (prepared_record task) ''ref'' = dget task ''ref''"
  "fst ` set (prepared_record task) = PREPARED_ROW_KEYS"
  "task_ref (prepared_record task) = task_ref task"
  by (simp_all add: prepared_record_def dget_def PREPARED_ROW_KEYS_def task_ref_def insert_commute)

lemma prepared_row_back:
  assumes "plain_task task" and "reads_back lib parse (prepared_record task)"
    and "\<And>t. decode (utf8_encode t) = Some t"
  shows "prepared_row decode parse place (row_text lib (prepared_record task)) = Inr (prepared_record task)"
  using assms
  by (auto simp: prepared_row_def candidate_strict_json_def reads_back_def plain_task_def good_task_def
      ref_pattern_strip nonempty_string_def num_eq_def split: option.splits)

lemma prepared_lines_back:
  assumes "list_all (\<lambda>task. plain_task task \<and> reads_back lib parse (prepared_record task)) tasks"
    and "\<And>t. decode (utf8_encode t) = Some t"
  shows "prepared_lines decode parse label n (map (\<lambda>task. row_text lib (prepared_record task)) tasks) =
    Inr (map prepared_record tasks)"
  using assms(1) by (induction tasks arbitrary: n) (simp_all add: prepared_row_back assms(2) row_text_visible)

lemma written_rows_read_back:
  assumes "list_all (\<lambda>task. plain_task task \<and> reads_back lib parse (prepared_record task)) tasks"
    and "\<And>t. decode (utf8_encode t) = Some t"
  shows "load_prepared_rows decode parse (Inr (utf8_encode (jsonl lib (map prepared_record tasks)))) label =
    Inr (map prepared_record tasks)"
proof -
  have "list_all one_line (map (\<lambda>task. row_text lib (prepared_record task)) tasks)"
    using assms(1) by (auto simp: list_all_iff row_text_one_line)
  from splitlines_written [OF this] have
    "splitlines (jsonl lib (map prepared_record tasks)) = map (\<lambda>task. row_text lib (prepared_record task)) tasks"
    by (simp add: jsonl_def comp_def)
  then show ?thesis
    using prepared_lines_back [OF assms] by (simp add: load_prepared_rows_def assms(2))
qed

text \<open>
  The writer leaves U+0085 as it is, and the reader takes it for the end of a line: a row with
  it is cut in two, and whatever text the lexer accepts, the halves are not the row.
\<close>

lemma next_line_cuts:
  "splitlines (jsonl lib [[(''ref'', JStr [CHR ''a'', char_of (133::nat), CHR ''b''])]]) =
     [''{'' @ quote_unicode ''ref'' @ '': '' @ [char_of (34::nat), CHR ''a''], [CHR ''b'', char_of (34::nat)] @ ''}'']"
  by code_simp

section \<open>Equal rows\<close>

lemma py_eq_list_all2: "py_eq_list xs ys \<longleftrightarrow> list_all2 py_eq xs ys"
  by (induction xs arbitrary: ys) (auto split: list.split)

lemma same_rows_all2: "same_rows xs ys \<longleftrightarrow> list_all2 (\<lambda>x y. py_eq (JObj x) (JObj y)) xs ys"
  by (simp add: same_rows_def py_eq_list_all2 list.rel_map)

lemma py_eq_items_lookup:
  "py_eq_items d e \<Longrightarrow> map_of d k = Some x \<Longrightarrow> \<exists>y. map_of e k = Some y \<and> py_eq x y"
  by (induction d) (auto split: option.splits if_splits)

lemma py_eq_field:
  assumes "py_eq (JObj r) (JObj s)" and "k \<in> fst ` set r" and "dget s k = JStr t"
  shows "dget r k = JStr t"
proof -
  from assms(2) obtain x where x: "map_of r k = Some x" by (metis map_of_eq_None_iff not_None_eq)
  with assms(1) obtain y where "map_of s k = Some y" "py_eq x y" using py_eq_items_lookup by fastforce
  with assms(3) x show ?thesis by (simp add: dget_def)
qed

lemma prepared_lines_keys:
  "prepared_lines decode parse label n ls = Inr rows \<Longrightarrow> list_all (\<lambda>r. fst ` set r = PREPARED_ROW_KEYS) rows"
proof (induction ls arbitrary: n rows)
  case (Cons l ls)
  then show ?case
    by (auto simp: res_iffs map_sum_Inr prepared_row_def case_option_res_iffs split: if_splits)
qed simp

lemma load_prepared_rows_keys:
  "load_prepared_rows decode parse content label = Inr rows \<Longrightarrow> list_all (\<lambda>r. fst ` set r = PREPARED_ROW_KEYS) rows"
  unfolding load_prepared_rows_def
  using prepared_lines_keys by (cases content) (auto simp: case_option_res_iffs split: if_split_asm)

text \<open>A field of the rows that is a text in the records they equal.\<close>

lemma same_rows_field:
  assumes "same_rows rows (map prepared_record kept)"
    and "list_all (\<lambda>r. fst ` set r = PREPARED_ROW_KEYS) rows"
    and "k \<in> PREPARED_ROW_KEYS"
    and "\<And>task. task \<in> set kept \<Longrightarrow> \<exists>t. dget (prepared_record task) k = JStr t"
  shows "map (\<lambda>r. dget r k) rows = map (\<lambda>task. dget (prepared_record task) k) kept"
proof -
  have "list_all2 (\<lambda>r task. py_eq (JObj r) (JObj (prepared_record task))) rows kept"
    using assms(1) by (simp add: same_rows_all2 list.rel_map)
  then show ?thesis using assms(2-4)
  proof (induction rule: list_all2_induct)
    case (Cons r rows task kept)
    from Cons.prems obtain t where t: "dget (prepared_record task) k = JStr t" by fastforce
    with py_eq_field [OF Cons.hyps(1) _ t] Cons show ?case by simp
  qed simp
qed

lemma good_task_text:
  "good_task task \<Longrightarrow> k \<in> {''ref'', ''completion'', ''prompt''} \<Longrightarrow> \<exists>t. dget (prepared_record task) k = JStr t"
  by (auto simp: good_task_def)

section \<open>Loading is a replay\<close>

lemma candidate_strict_json_place:
  "candidate_strict_json decode parse raw p = Inr v \<Longrightarrow> candidate_strict_json decode parse raw q = Inr v"
  by (auto simp: candidate_strict_json_def case_option_res_iffs)

lemma load_manifest_place:
  "load_prepared_manifest decode parse content p = Inr m \<Longrightarrow> load_prepared_manifest decode parse content q = Inr m"
  by (cases content)
    (auto simp: load_prepared_manifest_def res_iffs intro: candidate_strict_json_place split: if_split_asm)

lemma count_field_Inr: "count_field d key = Inr n \<longleftrightarrow> dget d key = JInt (int n)"
  by (auto simp: count_field_def Let_def case_option_res_iffs require_Inr_iff)

lemma load_files_parts:
  assumes "load_prepared_dataset_files lib decode parse v = Inr (rows, manifest)"
  obtains seed n where "load_prepared_rows decode parse (dv_train v) ''train.jsonl'' = Inr rows"
    "load_prepared_manifest decode parse (dv_manifest v) [] = Inr manifest"
    "dget manifest ''seed'' = JInt (int seed)" "dget manifest ''holdout_examples'' = JInt (int n)" "n < 8000"
proof -
  from assms obtain place seed k n where
    "load_prepared_rows decode parse (dv_train v) ''train.jsonl'' = Inr rows"
    "load_prepared_manifest decode parse (dv_manifest v) (join_on CHR ''/'' place @ ''/manifest.json'') = Inr manifest"
    "count_field manifest ''seed'' = Inr seed" "count_field manifest ''holdout_examples'' = Inr n"
    "k + n = EXPECTED_TRAIN" "\<not> k < 1"
    unfolding load_prepared_dataset_files_def Let_def by (auto simp: res_iffs simp del: exact_keys_Inr)
  then show ?thesis
    by (intro that [of seed n]) (auto simp: count_field_Inr EXPECTED_TRAIN_def intro: load_manifest_place)
qed

text \<open>
  C38: the training rows are a verbatim replay of the pinned corpus. When the dataset is loaded
  and its training file and manifest did not change between the two passes, there is a corpus
  file that passed every check, and the rows are, in the order of their references, exactly
  its tasks outside the holdout the manifest's seed ranks first, each with the public gold text
  as its completion and the task's prompt; all but the \<open>n\<close> held-out tasks are there.
\<close>

theorem loaded_rows_are_replay:
  assumes load: "load_prepared_dataset lib decode parse view again holdout_again corpus = Inr (rows, manifest)"
    and still: "dv_train again = dv_train view" "dv_manifest again = dv_manifest view"
  shows "\<exists>payload validation seed n.
    load_public_corpus lib decode parse corpus = Inr (payload, validation) \<and>
    dget manifest ''seed'' = JInt seed \<and> dget manifest ''holdout_examples'' = JInt (int n) \<and>
    length rows + n = 8000 \<and>
    (let kept = filter (\<lambda>task. task_ref task \<notin> heldout_refs lib seed n (corpus_tasks payload))
                  (sort_key task_ref (corpus_tasks payload)) in
     map (\<lambda>r. dget r ''ref'') rows = map (\<lambda>task. dget task ''ref'') kept \<and>
     map (\<lambda>r. dget r ''completion'') rows = map (\<lambda>task. dget task ''gold'') kept \<and>
     map (\<lambda>r. dget r ''prompt'') rows = map (\<lambda>task. dget task ''prompt'') kept)"
proof -
  from load have files: "load_prepared_dataset_files lib decode parse view = Inr (rows, manifest)"
    by (auto simp: load_prepared_dataset_def res_iffs)
  from load obtain identity where replay: "replay_prepared_dataset lib decode parse again holdout_again corpus = Inr identity"
    by (auto simp: load_prepared_dataset_def res_iffs)
  then obtain rows2 manifest2 where files2: "load_prepared_dataset_files lib decode parse again = Inr (rows2, manifest2)"
    by (auto simp: replay_prepared_dataset_def res_iffs)
  have "rows2 = rows \<and> manifest2 = manifest"
    using load_files_parts [OF files] load_files_parts [OF files2] still by (metis sum.inject(2))
  with files2 have again: "load_prepared_dataset_files lib decode parse again = Inr (rows, manifest)" by simp
  from load_files_parts [OF files] obtain seed n where
    read: "load_prepared_rows decode parse (dv_train view) ''train.jsonl'' = Inr rows"
    and counts: "dget manifest ''seed'' = JInt (int seed)" "dget manifest ''holdout_examples'' = JInt (int n)" "n < 8000"
    by blast
  from replay again counts obtain payload validation where
    corpus: "load_public_corpus lib decode parse corpus = Inr (payload, validation)"
    and same: "same_rows rows (fst (split_rows lib (int seed) n (corpus_tasks payload)))"
    by (auto simp: replay_prepared_dataset_def res_iffs int_of_def Let_def case_prod_unfold)
  let ?tasks = "corpus_tasks payload"
  let ?kept = "filter (\<lambda>task. task_ref task \<notin> heldout_refs lib (int seed) n ?tasks) (sort_key task_ref ?tasks)"
  have tasks: "good_tasks ?tasks" by (rule load_public_corpus_tasks [OF corpus])
  have same': "same_rows rows (map prepared_record ?kept)" using same by (simp add: split_rows_def Let_def)
  have keys: "list_all (\<lambda>r. fst ` set r = PREPARED_ROW_KEYS) rows" by (rule load_prepared_rows_keys [OF read])
  have good: "good_task task" if "task \<in> set ?kept" for task
    using that tasks by (auto simp: good_tasks_def list_all_iff)
  have fields: "map (\<lambda>r. dget r k) rows = map (\<lambda>task. dget (prepared_record task) k) ?kept"
    if "k \<in> {''ref'', ''completion'', ''prompt''}" for k
  proof (rule same_rows_field [OF same' keys])
    show "k \<in> PREPARED_ROW_KEYS" using that by (auto simp: PREPARED_ROW_KEYS_def)
  qed (rule good_task_text [OF good that])
  obtain train holdout where split: "split_rows lib (int seed) n ?tasks = (train, holdout)" by fastforce
  have "length rows = length train"
    using same split by (simp add: same_rows_all2 list_all2_lengthD)
  then have "length rows + n = 8000" using split_rows_lengths(1) [OF tasks _ split] counts(3) by simp
  then show ?thesis
    using corpus counts fields [of "''ref''"] fields [of "''completion''"] fields [of "''prompt''"]
    by (intro exI [of _ payload] exI [of _ validation] exI [of _ "int seed"] exI [of _ n])
      (simp add: Let_def)
qed

end
