(* ===== verification/HistoricalRoundtrip.thy ===== *)
theory HistoricalRoundtrip
  imports HistoricalReplay
begin

text \<open>
  Preparing and loading fit together: a dataset that was prepared is loaded again with the rows
  that were written.
\<close>

section \<open>What a view shows\<close>

text \<open>The files of a prepared directory, seen unchanged; the manifest's text parses to the manifest.\<close>

definition parses_to :: "(string \<Rightarrow> string option) \<Rightarrow> (string \<Rightarrow> raw option) \<Rightarrow> string res \<Rightarrow> dict \<Rightarrow> bool" where
  "parses_to decode parse content d \<longleftrightarrow>
     (case content of Inl e \<Rightarrow> False | Inr bytes \<Rightarrow> candidate_strict_json decode parse bytes [] = Inr (JObj d))"

definition shows_dataset ::
    "(string \<Rightarrow> string option) \<Rightarrow> (string \<Rightarrow> raw option) \<Rightarrow> dataset_view \<Rightarrow> prepared_dir \<Rightarrow> bool" where
  "shows_dataset decode parse v dir \<longleftrightarrow>
     \<not> isl (assert_tmpfs_path (dv_path v)) \<and> dv_regular v \<and>
     parses_to decode parse (dv_manifest v) (pd_manifest dir) \<and>
     dv_train_hashed v = Inr (pd_train dir) \<and> dv_holdout_hashed v = Inr (pd_holdout dir) \<and>
     dv_train v = Inr (pd_train dir) \<and> dv_holdout v = Inr (pd_holdout dir)"

lemma parses_to_manifest:
  "parses_to decode parse content d \<Longrightarrow> load_prepared_manifest decode parse content path = Inr d"
  by (cases content)
    (auto simp: parses_to_def load_prepared_manifest_def res_iffs intro: candidate_strict_json_place)

section \<open>What was prepared\<close>

lemma validate_digest:
  "validate_public_corpus_payload lib payload (Some []) = Inr v \<Longrightarrow> cv_canonical_digest v = PUBLIC_CORPUS_CANONICAL_DIGEST"
  by (auto simp: validate_public_corpus_payload_def Let_def res_iffs)

lemma load_public_corpus_digests:
  assumes "load_public_corpus lib decode parse corpus = Inr (payload, validation)"
  shows "cv_canonical_digest validation = PUBLIC_CORPUS_CANONICAL_DIGEST"
    "digest_file lib (co_hashed corpus) = Inr PUBLIC_CORPUS_RAW_DIGEST"
  using assms validate_digest by (auto simp: load_public_corpus_def Let_def res_iffs)

lemma attempt_Inr: "attempt faults step k = Inr y \<longleftrightarrow> faults step = None \<and> k = Inr y"
  by (simp add: attempt_def split: option.split)

lemma prepare_dataset_parts:
  assumes "prepare_dataset lib decode parse faults corpus (co_hashed corpus) out exists (JInt holdout) (JInt seed) =
    Inr (manifest, dir)"
  obtains payload validation train_rows holdout_rows where "0 \<le> holdout" "holdout < 8000"
    "load_public_corpus lib decode parse corpus = Inr (payload, validation)"
    "split_rows lib seed (nat holdout) (corpus_tasks payload) = (train_rows, holdout_rows)"
    "manifest = dataset_manifest lib validation PUBLIC_CORPUS_RAW_DIGEST seed train_rows holdout_rows"
    "dir = \<lparr>pd_train = utf8_encode (jsonl lib train_rows), pd_holdout = utf8_encode (jsonl lib holdout_rows),
            pd_manifest = manifest\<rparr>"
proof -
  from assms obtain payload validation source_digest where
    "0 \<le> holdout" "holdout < 8000" "load_public_corpus lib decode parse corpus = Inr (payload, validation)"
    "digest_file lib (co_hashed corpus) = Inr source_digest"
    "manifest = dataset_manifest lib validation source_digest seed
       (fst (split_rows lib seed (nat holdout) (corpus_tasks payload)))
       (snd (split_rows lib seed (nat holdout) (corpus_tasks payload)))"
    "dir = \<lparr>pd_train = utf8_encode (jsonl lib (fst (split_rows lib seed (nat holdout) (corpus_tasks payload)))),
            pd_holdout = utf8_encode (jsonl lib (snd (split_rows lib seed (nat holdout) (corpus_tasks payload)))),
            pd_manifest = manifest\<rparr>"
    unfolding prepare_dataset_def Let_def
    by (auto simp: res_iffs attempt_Inr EXPECTED_TRAIN_def case_prod_unfold)
  with load_public_corpus_digests(2) show ?thesis
    by (cases "split_rows lib seed (nat holdout) (corpus_tasks payload)") (fastforce intro: that)
qed

section \<open>The folds of a prepared dataset\<close>

lemma split_rows_folds:
  assumes "good_tasks tasks" and "split_rows lib seed n tasks = (train_rows, holdout_rows)"
  shows "distinct (map task_ref train_rows)" "distinct (map task_ref holdout_rows)"
    "set (map task_ref train_rows) \<inter> set (map task_ref holdout_rows) = {}"
    "card (set (map task_ref train_rows) \<union> set (map task_ref holdout_rows)) = 8000"
proof -
  let ?A = "heldout_refs lib seed n tasks" and ?sorted = "sort_key task_ref tasks"
  have tasks: "distinct (map task_ref tasks)" "length tasks = 8000" using assms(1) by (simp_all add: good_tasks_def)
  have "mset (map task_ref ?sorted) = mset (map task_ref tasks)" by (simp add: mset_map)
  then have sorted: "distinct (map task_ref ?sorted)" using tasks(1) mset_eq_imp_distinct_iff by blast
  have refs: "map task_ref train_rows = filter (\<lambda>ref. ref \<notin> ?A) (map task_ref ?sorted)"
    "map task_ref holdout_rows = filter (\<lambda>ref. ref \<in> ?A) (map task_ref ?sorted)"
    using assms(2) by (auto simp: split_rows_def Let_def filter_map comp_def)
  show "distinct (map task_ref train_rows)" "distinct (map task_ref holdout_rows)"
    unfolding refs using sorted by (simp_all only: distinct_filter)
  show "set (map task_ref train_rows) \<inter> set (map task_ref holdout_rows) = {}"
    unfolding refs by auto
  have "set (map task_ref train_rows) \<union> set (map task_ref holdout_rows) = set (map task_ref tasks)"
    unfolding refs by auto
  then show "card (set (map task_ref train_rows) \<union> set (map task_ref holdout_rows)) = 8000"
    using tasks distinct_card by fastforce
qed

lemma check_fold_Inr:
  assumes "dget manifest count_key = JInt (int (length rows))" "distinct (map task_ref rows)"
    and "dget manifest refs_key = JStr (candidate_refs_digest lib (map task_ref rows))"
  shows "check_fold lib manifest rows count_key refs_key label = Inr ()"
  using assms by (simp add: check_fold_def Let_def num_eq_def)

lemma check_digest_Inr:
  "dget manifest key = JStr (candidate_digest lib bytes) \<Longrightarrow> check_digest lib manifest (Inr bytes) key name = Inr ()"
  by (simp add: check_digest_def digest_file_def)

lemma dataset_manifest_keys: "fst ` set (dataset_manifest lib validation digest seed train holdout) = PREPARED_MANIFEST_KEYS"
  by (simp add: dataset_manifest_def PREPARED_MANIFEST_KEYS_def insert_commute)

lemma dataset_manifest_fields:
  "dget (dataset_manifest lib validation digest seed train holdout) ''seed'' = JInt seed"
  "dget (dataset_manifest lib validation digest seed train holdout) ''train_examples'' = JInt (int (length train))"
  "dget (dataset_manifest lib validation digest seed train holdout) ''holdout_examples'' = JInt (int (length holdout))"
  "dget (dataset_manifest lib validation digest seed train holdout) ''train_refs_digest'' =
     JStr (candidate_refs_digest lib (map task_ref train))"
  "dget (dataset_manifest lib validation digest seed train holdout) ''holdout_refs_digest'' =
     JStr (candidate_refs_digest lib (map task_ref holdout))"
  "dget (dataset_manifest lib validation digest seed train holdout) ''train_file_digest'' =
     JStr (candidate_digest lib (utf8_encode (jsonl lib train)))"
  "dget (dataset_manifest lib validation digest seed train holdout) ''holdout_file_digest'' =
     JStr (candidate_digest lib (utf8_encode (jsonl lib holdout)))"
  "dget (dataset_manifest lib validation digest seed train holdout) ''quality_claim'' =
     JStr (if holdout \<noteq> [] then DEVELOPMENT_QUALITY_CLAIM else FINAL_ALL_PUBLIC_QUALITY_CLAIM)"
  by (simp_all add: dataset_manifest_def dget_def)

lemma dataset_manifest_required:
  "cv_canonical_digest validation = PUBLIC_CORPUS_CANONICAL_DIGEST \<Longrightarrow> digest = PUBLIC_CORPUS_RAW_DIGEST \<Longrightarrow>
     list_all (\<lambda>(key, expected). dget (dataset_manifest lib validation digest seed train holdout) key = JStr expected)
       required_fields"
  by (simp add: dataset_manifest_def dget_def required_fields_def)

lemma prepared_files_load:
  assumes shown: "shows_dataset decode parse v
      \<lparr>pd_train = utf8_encode (jsonl lib train), pd_holdout = utf8_encode (jsonl lib holdout), pd_manifest = manifest\<rparr>"
    and manifest: "manifest = dataset_manifest lib validation PUBLIC_CORPUS_RAW_DIGEST (int seed) train holdout"
    and validation: "cv_canonical_digest validation = PUBLIC_CORPUS_CANONICAL_DIGEST"
    and tasks: "good_tasks tasks" "split_rows lib (int seed) n tasks = (train, holdout)" "n < 8000"
    and written: "load_prepared_rows decode parse (Inr (utf8_encode (jsonl lib train))) ''train.jsonl'' = Inr train"
      "load_prepared_rows decode parse (Inr (utf8_encode (jsonl lib holdout))) ''holdout.jsonl'' = Inr holdout"
  shows "load_prepared_dataset_files lib decode parse v = Inr (train, manifest)"
proof -
  note lengths = split_rows_lengths [OF tasks(1) _ tasks(2)]
  note folds = split_rows_folds [OF tasks(1,2)]
  note fields = dataset_manifest_fields [of lib validation PUBLIC_CORPUS_RAW_DIGEST "int seed" train holdout, folded manifest]
  have required: "list_all (\<lambda>(key, expected). dget manifest key = JStr expected) required_fields"
    unfolding manifest by (rule dataset_manifest_required [OF validation refl])
  have counts: "count_field manifest ''seed'' = Inr seed" "count_field manifest ''train_examples'' = Inr (length train)"
    "count_field manifest ''holdout_examples'' = Inr (length holdout)"
    using fields by (simp_all add: count_field_Inr)
  have checks: "check_digest lib manifest (Inr (utf8_encode (jsonl lib train))) ''train_file_digest'' name = Inr ()"
    "check_digest lib manifest (Inr (utf8_encode (jsonl lib holdout))) ''holdout_file_digest'' name' = Inr ()"
    "check_fold lib manifest train ''train_examples'' ''train_refs_digest'' label = Inr ()"
    "check_fold lib manifest holdout ''holdout_examples'' ''holdout_refs_digest'' label' = Inr ()" for name name' label label'
    using fields folds by (simp_all add: check_fold_Inr check_digest_Inr)
  from shown obtain place where place: "assert_tmpfs_path (dv_path v) = Inr place"
    by (cases "assert_tmpfs_path (dv_path v)") (simp_all add: shows_dataset_def)
  have parsed: "load_prepared_manifest decode parse (dv_manifest v) path = Inr manifest" for path
    using shown by (auto simp: shows_dataset_def intro: parses_to_manifest)
  have keys: "exact_keys manifest PREPARED_MANIFEST_KEYS label = Inr ()" for label
    using dataset_manifest_keys [of lib validation PUBLIC_CORPUS_RAW_DIGEST "int seed" train holdout, folded manifest]
    by simp
  have shown': "dv_regular v" "dv_train_hashed v = Inr (utf8_encode (jsonl lib train))"
    "dv_holdout_hashed v = Inr (utf8_encode (jsonl lib holdout))"
    "dv_train v = Inr (utf8_encode (jsonl lib train))" "dv_holdout v = Inr (utf8_encode (jsonl lib holdout))"
    using shown by (simp_all add: shows_dataset_def)
  show ?thesis
    unfolding load_prepared_dataset_files_def Let_def place parsed shown'(2-) keys counts checks written rbind_simps
    using fields(8) required folds(3,4) lengths tasks(3)
    by (cases "holdout = []") (auto simp: EXPECTED_TRAIN_def shown'(1) simp del: set_map)
qed

section \<open>The round trip\<close>

definition scalar_row :: "dict \<Rightarrow> bool" where
  "scalar_row row \<longleftrightarrow> list_all (\<lambda>(k, v). (\<exists>t. v = JStr t) \<or> (\<exists>i. v = JInt i)) row \<and> distinct (map fst row)"

lemma scalar_rows_same:
  assumes "list_all scalar_row rows"
  shows "same_rows rows rows"
proof -
  have "py_eq_items d e" if "list_all (\<lambda>(k, v). (\<exists>t. v = JStr t) \<or> (\<exists>i. v = JInt i)) d"
    "distinct (map fst e)" "set d \<subseteq> set e" for d e
    using that by (induction d) (auto simp: num_eq_def)
  then have "py_eq (JObj row) (JObj row)" if "scalar_row row" for row
    using that by (simp add: scalar_row_def)
  with assms show ?thesis
    unfolding same_rows_all2 list_all_iff by (auto intro: list.rel_refl_strong)
qed

lemma prepared_records_same:
  assumes "list_all plain_task tasks"
  shows "same_rows (map prepared_record tasks) (map prepared_record tasks)"
proof (rule scalar_rows_same)
  have "scalar_row (prepared_record task)" if "plain_task task" for task
    using that by (auto simp: scalar_row_def prepared_record_def plain_task_def good_task_def)
  with assms show "list_all scalar_row (map prepared_record tasks)" by (simp add: list_all_iff)
qed

lemma prepared_files_replay:
  assumes corpus: "load_public_corpus lib decode parse corpus = Inr (payload, validation)"
    and split: "split_rows lib (int seed) n (corpus_tasks payload) = (train, held)" and n: "n < 8000"
    and manifest: "manifest = dataset_manifest lib validation PUBLIC_CORPUS_RAW_DIGEST (int seed) train held"
    and utf8: "\<And>t. decode (utf8_encode t) = Some t"
    and plain: "list_all (\<lambda>task. plain_task task \<and> reads_back lib parse (prepared_record task)) (corpus_tasks payload)"
    and dir: "dir = \<lparr>pd_train = utf8_encode (jsonl lib train), pd_holdout = utf8_encode (jsonl lib held),
                     pd_manifest = manifest\<rparr>"
    and shown: "shows_dataset decode parse view dir" "shows_dataset decode parse again dir"
  shows "load_prepared_dataset lib decode parse view again (dv_holdout again) corpus = Inr (train, manifest)"
proof -
  let ?tasks = "corpus_tasks payload"
  have tasks: "good_tasks ?tasks" by (rule load_public_corpus_tasks [OF corpus])
  let ?kept = "filter (\<lambda>task. task_ref task \<notin> heldout_refs lib (int seed) n ?tasks) (sort_key task_ref ?tasks)"
  let ?left = "filter (\<lambda>task. task_ref task \<in> heldout_refs lib (int seed) n ?tasks) (sort_key task_ref ?tasks)"
  have rows: "train = map prepared_record ?kept" "held = map prepared_record ?left"
    using split by (simp_all add: split_rows_def Let_def)
  have plain': "list_all (\<lambda>task. plain_task task \<and> reads_back lib parse (prepared_record task)) ?kept"
    "list_all (\<lambda>task. plain_task task \<and> reads_back lib parse (prepared_record task)) ?left"
    using plain by (auto simp: list_all_iff)
  have written: "load_prepared_rows decode parse (Inr (utf8_encode (jsonl lib train))) label = Inr train"
    "load_prepared_rows decode parse (Inr (utf8_encode (jsonl lib held))) label = Inr held" for label
    unfolding rows using written_rows_read_back [OF plain'(1) utf8] written_rows_read_back [OF plain'(2) utf8] by simp_all
  have files: "load_prepared_dataset_files lib decode parse v = Inr (train, manifest)"
    if "shows_dataset decode parse v dir" for v
    using prepared_files_load [OF that [unfolded dir] manifest load_public_corpus_digests(1) [OF corpus]
        tasks split n written] .
  have same: "same_rows train train" "same_rows held held"
    unfolding rows using plain' by (auto simp: list_all_iff intro!: prepared_records_same)
  have counts: "int_of (dget manifest ''holdout_examples'') = Inr (int n)"
    "int_of (dget manifest ''seed'') = Inr (int seed)"
    unfolding manifest dataset_manifest_fields
    using split_rows_lengths(2) [OF tasks _ split] n by (simp_all add: int_of_def)
  have "dv_holdout again = Inr (utf8_encode (jsonl lib held))"
    using shown(2) by (simp add: shows_dataset_def dir)
  then have "\<exists>identity. replay_prepared_dataset lib decode parse again (dv_holdout again) corpus = Inr identity"
    by (simp add: replay_prepared_dataset_def files [OF shown(2)] written corpus counts split same Let_def)
  then show ?thesis by (auto simp: load_prepared_dataset_def files [OF shown(1)])
qed

text \<open>
  C39: a prepared dataset is loaded as it was prepared, as far as the model's alphabet goes. Take a
  preparation that succeeded with a seed that is not negative, from a corpus whose texts hold
  code points below 256 only and no U+0085 (with U+0085, U+2028 or U+2029 in a text the code cuts
  its row in two, so such texts are outside this claim); when the lexer inverts the writer on the rows and the manifest, and the files are seen unchanged in both
  passes, loading succeeds and returns the training rows of the split and the manifest.
\<close>

theorem prepared_dataset_loads:
  assumes prepare: "prepare_dataset lib decode parse faults corpus (co_hashed corpus) out exists (JInt holdout)
      (JInt seed) = Inr (manifest, dir)"
    and seed: "0 \<le> seed"
    and corpus: "load_public_corpus lib decode parse corpus = Inr (payload, validation)"
    and utf8: "\<And>t. decode (utf8_encode t) = Some t"
    and plain: "list_all (\<lambda>task. plain_task task \<and> reads_back lib parse (prepared_record task)) (corpus_tasks payload)"
    and shown: "shows_dataset decode parse view dir" "shows_dataset decode parse again dir"
  shows "load_prepared_dataset lib decode parse view again (dv_holdout again) corpus =
    Inr (fst (split_rows lib seed (nat holdout) (corpus_tasks payload)), manifest)"
proof -
  from prepare corpus obtain train held where n: "0 \<le> holdout" "holdout < 8000"
    and split: "split_rows lib seed (nat holdout) (corpus_tasks payload) = (train, held)"
    and manifest: "manifest = dataset_manifest lib validation PUBLIC_CORPUS_RAW_DIGEST seed train held"
    and dir: "dir = \<lparr>pd_train = utf8_encode (jsonl lib train), pd_holdout = utf8_encode (jsonl lib held),
                     pd_manifest = manifest\<rparr>"
    by (elim prepare_dataset_parts) simp
  obtain k where k: "seed = int k" using seed nonneg_int_cases by blast
  from n have "nat holdout < 8000" by simp
  from prepared_files_replay [OF corpus split [unfolded k] this manifest [unfolded k] utf8 plain dir shown]
  show ?thesis by (simp add: split)
qed

end
