(* ===== verification/HistoricalExample.thy ===== *)
theory HistoricalExample
  imports HistoricalRoundtrip
begin

text \<open>
  A corpus that meets every pinned number, prepared with one held-out task and loaded again: a
  decoder, a lexer and a digest function for which the hypotheses of the claims hold.
\<close>

section \<open>A decoder and a lexer\<close>

fun utf8_decode :: "string \<Rightarrow> string option" where
  "utf8_decode [] = Some []"
| "utf8_decode (b # bs) =
     (if code b < 128 then map_option ((#) b) (utf8_decode bs)
      else case bs of
        [] \<Rightarrow> None
      | c # cs \<Rightarrow> map_option ((#) (char_of ((code b - 192) * 64 + (code c - 128)))) (utf8_decode cs))"

lemma replay_code_bound: "code c < 256"
  by (simp add: code_def)

lemma utf8_decode_encode: "utf8_decode (utf8_encode t) = Some t"
proof (induction t)
  case (Cons c t)
  have "code c div 64 < 4" using replay_code_bound [of c] by auto
  then have bytes: "code (char_of (192 + code c div 64)) = 192 + code c div 64"
    "code (char_of (128 + code c mod 64)) = 128 + code c mod 64"
    by (simp_all add: code_def)
  have "char_of (code c div 64 * 64 + code c mod 64) = c"
    by (simp add: code_def)
  with Cons bytes show ?case by (auto simp: utf8_encode_def)
qed (simp add: utf8_encode_def)

fun raw_of :: "json \<Rightarrow> raw" where
  "raw_of JNull = RNull"
| "raw_of (JBool b) = RBool b"
| "raw_of (JInt i) = RInt i"
| "raw_of (JFloat f) = RFloat f"
| "raw_of (JStr s) = RStr s"
| "raw_of (JList xs) = RList (map raw_of xs)"
| "raw_of (JObj d) = RObj (map (\<lambda>(k, v). (k, raw_of v)) d)"

lemma checked_raw_of: "keys_unique v \<Longrightarrow> checked_value (raw_of v) = Some v"
proof (induction v rule: raw_of.induct)
  case (6 xs)
  have "list_all keys_unique ys \<Longrightarrow> set ys \<subseteq> set xs \<Longrightarrow> checked_list (map raw_of ys) = Some ys" for ys
    by (induction ys) (simp_all add: "6.IH")
  from this [of xs] 6 show ?case by simp
next
  case (7 d)
  have "list_all (\<lambda>(k, v). keys_unique v) e \<Longrightarrow> set e \<subseteq> set d \<Longrightarrow>
      checked_pairs (map (\<lambda>(k, v). (k, raw_of v)) e) = Some e" for e
    by (induction e) (auto simp: "7.IH")
  from this [of d] 7 show ?case by (simp add: unique_pairs_Some)
qed simp_all

section \<open>Texts without floats\<close>

fun exact :: "json \<Rightarrow> bool" where
  "exact (JFloat f) = False"
| "exact (JList xs) = list_all exact xs"
| "exact (JObj d) = list_all (\<lambda>(k, v). exact v) d"
| "exact _ = True"

lemma canon_exact:
  "exact v \<Longrightarrow> canon lib v = canon lib' v"
  "list_all exact vs \<Longrightarrow> canon_list lib vs = canon_list lib' vs"
  "list_all (\<lambda>(k, v). exact v) d \<Longrightarrow> canon_items lib d = canon_items lib' d"
  by (induction lib v and lib vs and lib d rule: canon_canon_list_canon_items.induct) auto

lemma length_join_on: "list_all (\<lambda>t. length t \<le> n) ts \<Longrightarrow> length (join_on c ts) \<le> Suc n * length ts"
  by (induction c ts rule: join_on.induct) auto

lemma length_utf8: "length (utf8_encode t) \<le> 2 * length t"
  by (induction t) (auto simp: utf8_encode_def)

lemma utf8_append: "utf8_encode (t @ u) = utf8_encode t @ utf8_encode u"
  by (simp add: utf8_encode_def)

lemma length_text_of_nat: "n < 10 ^ Suc k \<Longrightarrow> length (text_of_nat n) \<le> Suc k"
proof (induction k arbitrary: n)
  case (Suc k)
  then have "n div 10 < 10 ^ Suc k" by (simp add: less_mult_imp_div_less)
  with Suc show ?case by (subst text_of_nat.simps) auto
qed (subst text_of_nat.simps, simp)

section \<open>The corpus\<close>

definition hist_task :: "string \<Rightarrow> dict" where
  "hist_task ref =
     [(''gold'', JStr ''x''), (''max_output_tokens'', JInt 1024), (''partition'', JStr ''train''),
      (''prompt'', JStr ''x''), (''ref'', JStr ref)]"

definition hist_refs :: "string list" where
  "hist_refs = map (\<lambda>n. ''mgc-'' @ text_of_nat n) [0..<8000]"

definition hist_tasks :: json where
  "hist_tasks = JList (map (\<lambda>ref. JObj (hist_task ref)) hist_refs)"

text \<open>One count is a float: its text, a parameter, brings the canonical bytes to the pinned number.\<close>

definition hist_corpus :: dict where
  "hist_corpus =
     [(''counts'', JObj [(''fixed'', JFloat (Fin 38)), (''rotating'', JInt 73), (''train'', JInt 8000)]),
      (''manifest'', JObj EXPECTED_MANIFEST), (''reference'', JList []), (''reference_model'', JStr []),
      (''tasks'', hist_tasks), (''track'', JStr CODE_TRACK), (''version'', JStr HISTORICAL_CORPUS_VERSION)]"

definition hist_head :: string where
  "hist_head = ''{'' @ quote_unicode ''counts'' @ '':{'' @ quote_unicode ''fixed'' @ '':''"

definition hist_tail :: string where
  "hist_tail =
     '','' @ quote_unicode ''rotating'' @ '':'' @ text_of_int 73 @ '','' @ quote_unicode ''train'' @ '':''
     @ text_of_int 8000 @ ''},'' @ quote_unicode ''manifest'' @ '':'' @ canon example_lib (JObj EXPECTED_MANIFEST)
     @ '','' @ quote_unicode ''reference'' @ '':[],'' @ quote_unicode ''reference_model'' @ '':'' @ quote_unicode []
     @ '','' @ quote_unicode ''tasks'' @ '':'' @ canon example_lib hist_tasks
     @ '','' @ quote_unicode ''track'' @ '':'' @ quote_unicode CODE_TRACK
     @ '','' @ quote_unicode ''version'' @ '':'' @ quote_unicode HISTORICAL_CORPUS_VERSION @ ''}''"

definition hist_bytes :: string where "hist_bytes = utf8_encode (replicate 19023989 CHR ''x'')"

definition hist_lib :: stdlib where
  "hist_lib = example_lib
     \<lparr>float_repr := \<lambda>_. replicate (19023989 - (length (utf8_encode hist_head) + length (utf8_encode hist_tail))) CHR ''x'',
      sha256_hex := \<lambda>p. if p = hist_bytes
        then ''eb76adcaabdd11c9ce0005c22e50a8530397c32127515a4461b1340e77e2d4b5''
        else ''18fad3468cdd409b39a4786a982c098e1378445083e913e9a215669f0acbebdc''\<rparr>"

lemma hist_refs_pattern: "list_all ref_pattern hist_refs"
  using text_of_nat_digits by (auto simp: list_all_iff hist_refs_def ref_pattern_def)

lemma hist_refs_facts: "distinct hist_refs" "length hist_refs = 8000"
  by (auto simp: hist_refs_def distinct_map inj_on_def text_of_nat_inj)

lemma hist_task_facts [simp]:
  "task_ref (hist_task ref) = ref" "dget (hist_task ref) ''gold'' = JStr ''x''"
  "dget (hist_task ref) ''prompt'' = JStr ''x''" "dget (hist_task ref) ''ref'' = JStr ref" "dget (hist_task ref) ''max_output_tokens'' = JInt 1024"
  by (simp_all add: hist_task_def task_ref_def dget_def)

lemma hist_good: "ref_pattern ref \<Longrightarrow> good_task (hist_task ref)"
  by (auto simp: good_task_def hist_task_def task_ref_def dget_def TASK_KEYS_def num_eq_def strip_def is_space_def code_def)

lemma hist_exact: "exact hist_tasks" "exact (JObj EXPECTED_MANIFEST)"
  by (auto simp: hist_tasks_def hist_task_def list_all_iff EXPECTED_MANIFEST_def EXPECTED_COUNTS_def)

lemma hist_canonical: "canon hist_lib (JObj hist_corpus) = hist_head @ float_repr hist_lib (Fin 38) @ hist_tail"
proof -
  have "canon hist_lib hist_tasks = canon example_lib hist_tasks"
    "canon hist_lib (JObj EXPECTED_MANIFEST) = canon example_lib (JObj EXPECTED_MANIFEST)"
    using hist_exact canon_exact(1) by blast+
  then show ?thesis
    by (simp add: hist_corpus_def hist_head_def hist_tail_def float_json_def less_eq_char_def sort_key_def
        del: canon.simps(7)) (simp add: float_json_def)
qed

lemma quote_length: "length (quote_unicode t) \<le> 2 + 6 * length t"
proof -
  have "length (escape_char c) \<le> 6" for c by (simp add: escape_char_def Let_def)
  then show ?thesis
    by (induction t) (auto simp: quote_unicode_def le_SucI add_mono intro: order_trans)
qed

lemma constant_lengths:
  "length (quote_unicode ''gold'') = 6" "length (quote_unicode ''max_output_tokens'') = 19"
  "length (quote_unicode ''partition'') = 11" "length (quote_unicode ''prompt'') = 8"
  "length (quote_unicode ''ref'') = 5" "length (quote_unicode ''x'') = 3" "length (quote_unicode ''train'') = 7"
  "length (text_of_int 1024) = 4"
  by code_simp+

lemma task_json_length: "length (canon lib (JObj (hist_task ref))) \<le> 100 + 6 * length ref"
  using quote_length [of ref]
  by (simp add: hist_task_def less_eq_char_def sort_key_def constant_lengths)

lemma canon_list_map: "canon_list lib vs = map (canon lib) vs"
  by (induction vs) simp_all

lemma hist_ref_length: "ref \<in> set hist_refs \<Longrightarrow> length ref \<le> 8"
  using length_text_of_nat [of _ 3] by (auto simp: hist_refs_def)

lemma tasks_json_length: "length (canon lib hist_tasks) \<le> 2000000"
proof -
  have "list_all (\<lambda>t. length t \<le> 148) (map (\<lambda>ref. canon lib (JObj (hist_task ref))) hist_refs)"
    unfolding list_all_iff set_map
  proof (clarify)
    fix ref assume "ref \<in> set hist_refs"
    from hist_ref_length [OF this] task_json_length [of lib ref]
    show "length (canon lib (JObj (hist_task ref))) \<le> 148" by linarith
  qed
  from length_join_on [OF this, of "CHR '',''"]
  have "length (join_on CHR '','' (map (\<lambda>ref. canon lib (JObj (hist_task ref))) hist_refs)) \<le> 149 * 8000"
    by (simp add: hist_refs_facts)
  then show ?thesis by (simp add: hist_tasks_def canon_list_map comp_def del: canon.simps(7))
qed

text \<open>A bound on the length of a text, by its parts.\<close>

fun size_bound :: "json \<Rightarrow> nat" where
  "size_bound (JStr s) = 2 + 6 * length s"
| "size_bound (JInt i) = length (text_of_int i)"
| "size_bound (JObj d) = 2 + sum_list (map (\<lambda>(k, v). 4 + 6 * length k + size_bound v) d)"
| "size_bound _ = 0"

fun bounded :: "json \<Rightarrow> bool" where
  "bounded (JStr s) = True"
| "bounded (JInt i) = True"
| "bounded (JObj d) = list_all (\<lambda>(k, v). bounded v) d"
| "bounded _ = False"

lemma length_join_on_sum: "length (join_on c ts) \<le> sum_list (map (\<lambda>t. length t + 1) ts)"
  by (induction c ts rule: join_on.induct) auto

lemma sum_list_sort: "sum_list (map f (sort_key k xs)) = (sum_list (map f xs) :: nat)"
proof -
  have "sum_mset (image_mset f (mset (sort_key k xs))) = sum_mset (image_mset f (mset xs))" by simp
  then show ?thesis by (simp only: mset_map [symmetric] sum_mset_sum_list)
qed

lemma canon_items_map: "canon_items lib d = map (\<lambda>(k, v). (k, canon lib v)) d"
  by (induction d) auto

lemma length_canon: "bounded v \<Longrightarrow> length (canon lib v) \<le> size_bound v"
proof (induction v rule: bounded.induct)
  case (3 d)
  let ?size = "\<lambda>(k, t). length (quote_unicode k @ '':'' @ t) + 1"
  have "length (canon lib (JObj d)) \<le> 2 + sum_list (map ?size (sort_key fst (canon_items lib d)))"
    using length_join_on_sum [of "CHR '',''" "map (\<lambda>(k, t). quote_unicode k @ '':'' @ t) (sort_key fst (canon_items lib d))"]
    by (simp add: comp_def case_prod_unfold)
  also have "\<dots> = 2 + sum_list (map (\<lambda>(k, v). ?size (k, canon lib v)) d)"
    unfolding sum_list_sort canon_items_map by (simp add: comp_def case_prod_unfold)
  also have "\<dots> \<le> 2 + sum_list (map (\<lambda>(k, v). 4 + 6 * length k + size_bound v) d)"
  proof (intro add_left_mono sum_list_mono)
    fix kv assume kv: "kv \<in> set d"
    obtain k v where "kv = (k, v)" by (cases kv)
    with 3 kv quote_length [of k] show "(case kv of (k, v) \<Rightarrow> ?size (k, canon lib v)) \<le>
        (case kv of (k, v) \<Rightarrow> 4 + 6 * length k + size_bound v)"
      by (fastforce simp: list_all_iff)
  qed
  finally show ?case by simp
qed (use quote_length in simp_all)

lemma integer_lengths:
  "length (text_of_int 8000) = 4" "length (text_of_int 38) = 2" "length (text_of_int 73) = 2"
  "length (text_of_int 12) = 2" "length (text_of_int 65536) = 5"
  by (simp_all add: text_of_int_def text_of_nat.simps)

lemma manifest_json_length: "length (canon lib (JObj EXPECTED_MANIFEST)) \<le> 10000"
proof -
  have "bounded (JObj EXPECTED_MANIFEST)" "size_bound (JObj EXPECTED_MANIFEST) \<le> 10000"
    by (simp_all add: EXPECTED_MANIFEST_def EXPECTED_COUNTS_def CODE_TRACK_def integer_lengths)
  with length_canon show ?thesis by (meson le_trans)
qed

lemma hist_head_length: "length hist_head \<le> 100"
  using quote_length [of "''counts''"] quote_length [of "''fixed''"] by (simp add: hist_head_def)

lemma hist_tail_length: "length hist_tail \<le> 2013000"
  using tasks_json_length [of example_lib] manifest_json_length [of example_lib]
    quote_length [of "''rotating''"] quote_length [of "''train''"] quote_length [of "''manifest''"]
    quote_length [of "''reference''"] quote_length [of "''reference_model''"] quote_length [of "[]"]
    quote_length [of "''tasks''"] quote_length [of "''track''"] quote_length [of CODE_TRACK]
    quote_length [of "''version''"] quote_length [of HISTORICAL_CORPUS_VERSION]
  by (simp add: hist_tail_def integer_lengths CODE_TRACK_def HISTORICAL_CORPUS_VERSION_def del: canon.simps)

lemma hist_canonical_length: "length (candidate_json_bytes hist_lib (JObj hist_corpus)) = 19023989"
proof -
  have "length (utf8_encode hist_head) \<le> 200" using length_utf8 [of hist_head] hist_head_length by linarith
  moreover have "length (utf8_encode hist_tail) \<le> 4026000" using length_utf8 [of hist_tail] hist_tail_length by linarith
  moreover have "length (utf8_encode (replicate n CHR ''x'')) = n" for n
    by (induction n) (simp_all add: utf8_encode_def code_def)
  ultimately show ?thesis
    unfolding candidate_json_bytes_def hist_canonical utf8_append by (simp add: hist_lib_def)
qed

section \<open>Loading the corpus\<close>

definition hist_view :: corpus_view where
  "hist_view =
     \<lparr>co_path = \<lparr>pv_root = Inr [[], ''dev'', ''shm''], pv_path = ''/dev/shm/c'', pv_absolute = True,
                pv_resolved = Inr [[], ''dev'', ''shm'', ''c'']\<rparr>,
      co_is_symlink = False, co_is_file = True, co_size = Inr 19023989, co_hashed = Inr hist_bytes,
      co_content = Inr hist_bytes\<rparr>"

definition hist_records :: "dict list" where "hist_records = map hist_task hist_refs"

definition hist_validation :: corpus_validation where
  "hist_validation = \<lparr>cv_canonical_digest = PUBLIC_CORPUS_CANONICAL_DIGEST, cv_canonical_bytes = 0, cv_task_count = 0,
     cv_reference_count = 0, cv_refs_digest = []\<rparr>"

definition hist_train :: "dict list" where "hist_train = fst (split_rows hist_lib 92 1 hist_records)"
definition hist_held :: "dict list" where "hist_held = snd (split_rows hist_lib 92 1 hist_records)"

definition hist_manifest :: dict where
  "hist_manifest = dataset_manifest hist_lib hist_validation PUBLIC_CORPUS_RAW_DIGEST 92 hist_train hist_held"

text \<open>The text of a row up to the quote that opens its reference, and the reference of such a text.\<close>

definition row_head :: string where
  "row_head = ''{'' @ quote_unicode ''completion'' @ '': '' @ quote_unicode ''x'' @ '', ''
     @ quote_unicode ''max_output_tokens'' @ '': '' @ text_of_int 1024 @ '', '' @ quote_unicode ''prompt'' @ '': ''
     @ quote_unicode ''x'' @ '', '' @ quote_unicode ''ref'' @ '': '' @ [char_of (34::nat)]"

definition row_ref :: "string \<Rightarrow> string" where
  "row_ref t = take (length t - length row_head - 2) (drop (length row_head) t)"

definition hist_parse :: "string \<Rightarrow> raw option" where
  "hist_parse t =
     (if prefix ''{'' t then Some (raw_of (JObj (prepared_record (hist_task (row_ref t)))))
      else if t = ''m'' then Some (raw_of (JObj hist_manifest)) else Some (raw_of (JObj hist_corpus)))"

lemma quote_plain: "list_all (\<lambda>c. 45 \<le> code c \<and> code c \<le> 122 \<and> code c \<noteq> 92) t \<Longrightarrow>
    quote_unicode t = char_of (34::nat) # t @ [char_of (34::nat)]"
  by (induction t) (auto simp: quote_unicode_def escape_char_def Let_def)

lemma ref_plain: "ref_pattern ref \<Longrightarrow> list_all (\<lambda>c. 45 \<le> code c \<and> code c \<le> 122 \<and> code c \<noteq> 92) ref"
proof -
  assume "ref_pattern ref"
  then obtain digits where "ref = ''mgc-'' @ digits" "list_all is_digit digits"
    by (auto simp: ref_pattern_def prefix_def)
  then show ?thesis by (auto simp: is_digit_def code_def list_all_iff)
qed

lemma hist_row_text:
  assumes "ref_pattern ref"
  shows "row_text lib (prepared_record (hist_task ref)) = row_head @ ref @ [char_of (34::nat)] @ ''}''"
  unfolding row_text_def prepared_record_sorted
  by (simp add: prepared_record_def row_head_def quote_plain [OF ref_plain [OF assms]])

lemma record_unique: "keys_unique (JObj (prepared_record (hist_task ref)))"
  by (simp add: prepared_record_def)

lemma hist_reads_back: "ref_pattern ref \<Longrightarrow> reads_back lib hist_parse (prepared_record (hist_task ref))"
proof -
  assume ref: "ref_pattern ref"
  have "row_ref (row_text lib (prepared_record (hist_task ref))) = ref"
    unfolding hist_row_text [OF ref] by (simp add: row_ref_def)
  moreover have "prefix ''{'' (row_text lib (prepared_record (hist_task ref)))" by (simp add: row_text_def)
  ultimately show ?thesis
    using checked_raw_of [OF record_unique [of ref]] by (simp add: reads_back_def hist_parse_def)
qed

lemma hist_plain: "ref_pattern ref \<Longrightarrow> plain_task (hist_task ref)"
  using hist_good by (auto simp: plain_task_def no_next_line_def code_def)

lemma hist_unique: "keys_unique (JObj hist_corpus)"
  by (simp add: hist_corpus_def hist_tasks_def hist_task_def EXPECTED_MANIFEST_def EXPECTED_COUNTS_def list_all_iff)

lemma good_task_references:
  "list_all good_task tasks \<Longrightarrow> task_references i (map JObj tasks) = Inr (map task_ref tasks)"
proof (induction tasks arbitrary: i)
  case (Cons task tasks)
  then have "task_reference i (JObj task) = Inr (task_ref task)" by (simp add: task_reference_Inr)
  with Cons show ?case by simp
qed simp

lemma hist_tasks_records: "hist_tasks = JList (map JObj hist_records)"
  by (simp add: hist_tasks_def hist_records_def comp_def)

lemma hist_records_facts: "list_all good_task hist_records" "length hist_records = 8000" "map task_ref hist_records = hist_refs"
  using hist_refs_pattern hist_refs_facts(2) hist_good
  by (auto simp: hist_records_def list_all_iff comp_def)

lemma hist_valid:
  "\<exists>v. validate_public_corpus_payload hist_lib (JObj hist_corpus) (Some []) = Inr v"
proof -
  have fields: "dget hist_corpus ''tasks'' = JList (map JObj hist_records)"
    "dget hist_corpus ''manifest'' = JObj EXPECTED_MANIFEST"
    "dget hist_corpus ''version'' = JStr HISTORICAL_CORPUS_VERSION" "dget hist_corpus ''track'' = JStr CODE_TRACK"
    "dget hist_corpus ''reference'' = JList []" "dget hist_corpus ''reference_model'' = JStr []"
    "set (map fst hist_corpus) = ROOT_KEYS"
    by (simp_all add: hist_corpus_def hist_tasks_records dget_def ROOT_KEYS_def)
  have counts: "py_eq (dget hist_corpus ''counts'') (JObj EXPECTED_COUNTS)"
    by (simp add: hist_corpus_def dget_def EXPECTED_COUNTS_def num_eq_def)
  have manifest: "py_eq (JObj EXPECTED_MANIFEST) (JObj EXPECTED_MANIFEST)"
    by (simp add: EXPECTED_MANIFEST_def EXPECTED_COUNTS_def num_eq_def)
  have digest: "candidate_digest hist_lib (candidate_json_bytes hist_lib (JObj hist_corpus)) = PUBLIC_CORPUS_CANONICAL_DIGEST"
  proof -
    have "hd (utf8_encode (replicate n CHR ''x'')) = CHR ''x''" if "0 < n" for n
      using that by (cases n) (simp_all add: utf8_encode_def code_def)
    then have "hd hist_bytes = CHR ''x''" by (simp add: hist_bytes_def)
    moreover have "hd (candidate_json_bytes hist_lib (JObj hist_corpus)) = CHR ''{''"
      unfolding candidate_json_bytes_def hist_canonical by (simp add: hist_head_def utf8_encode_def code_def)
    ultimately have "candidate_json_bytes hist_lib (JObj hist_corpus) \<noteq> hist_bytes" by auto
    then show ?thesis by (simp add: candidate_digest_def hist_lib_def PUBLIC_CORPUS_CANONICAL_DIGEST_def)
  qed
  show ?thesis
    unfolding validate_public_corpus_payload_def Let_def
    by (simp add: mapping_def sequence_def exact_keys_def fields counts manifest digest hist_records_facts
        good_task_references hist_refs_facts EXPECTED_TRAIN_def PUBLIC_CORPUS_CANONICAL_BYTES_def
        hist_canonical_length del: py_eq.simps set_map)
qed

lemma hist_load:
  "\<exists>v. load_public_corpus hist_lib utf8_decode hist_parse hist_view = Inr (hist_corpus, v)"
proof -
  obtain v where valid: "validate_public_corpus_payload hist_lib (JObj hist_corpus) (Some []) = Inr v"
    using hist_valid by blast
  have place: "assert_tmpfs_path (co_path hist_view) = Inr [[], ''dev'', ''shm'', ''c'']"
    by (simp add: assert_tmpfs_path_def hist_view_def strict_prefix_def)
  have digest: "digest_file hist_lib (Inr hist_bytes) = Inr PUBLIC_CORPUS_RAW_DIGEST"
    by (simp add: digest_file_def candidate_digest_def hist_lib_def PUBLIC_CORPUS_RAW_DIGEST_def)
  have "hist_parse (replicate n CHR ''x'') = Some (raw_of (JObj hist_corpus))" for n
    by (cases n) (simp_all add: hist_parse_def)
  then have read: "candidate_strict_json utf8_decode hist_parse hist_bytes place = Inr (JObj hist_corpus)" for place
    using checked_raw_of [OF hist_unique]
    by (simp add: candidate_strict_json_def hist_bytes_def utf8_decode_encode)
  have view: "co_is_symlink hist_view = False" "co_is_file hist_view = True" "co_size hist_view = Inr 19023989"
    "co_hashed hist_view = Inr hist_bytes" "co_content hist_view = Inr hist_bytes"
    by (simp_all add: hist_view_def)
  show ?thesis
    unfolding load_public_corpus_def Let_def view place rbind_simps digest read valid
    by (simp add: PUBLIC_CORPUS_RESPONSE_BYTES_def mapping_def)
qed

lemma hist_corpus_tasks: "corpus_tasks hist_corpus = hist_records"
proof -
  have "dget hist_corpus ''tasks'' = JList (map JObj hist_records)"
    by (simp add: hist_corpus_def hist_tasks_records dget_def)
  then show ?thesis by (simp add: corpus_tasks_def map_filter_objects)
qed

section \<open>Preparing and loading\<close>

definition hist_dir :: prepared_dir where
  "hist_dir = \<lparr>pd_train = utf8_encode (jsonl hist_lib hist_train), pd_holdout = utf8_encode (jsonl hist_lib hist_held),
     pd_manifest = hist_manifest\<rparr>"

definition hist_dataset :: dataset_view where
  "hist_dataset =
     \<lparr>dv_path = co_path hist_view, dv_regular = True, dv_manifest = Inr (utf8_encode ''m''),
      dv_train_hashed = Inr (pd_train hist_dir), dv_holdout_hashed = Inr (pd_holdout hist_dir),
      dv_train = Inr (pd_train hist_dir), dv_holdout = Inr (pd_holdout hist_dir)\<rparr>"

lemma hist_split: "split_rows hist_lib 92 (Suc 0) hist_records = (hist_train, hist_held)"
  by (simp add: hist_train_def hist_held_def)

lemma hist_manifest_made:
  "load_public_corpus hist_lib utf8_decode hist_parse hist_view = Inr (hist_corpus, v) \<Longrightarrow>
     hist_manifest = dataset_manifest hist_lib v PUBLIC_CORPUS_RAW_DIGEST 92 hist_train hist_held"
  using load_public_corpus_digests(1) by (simp add: hist_manifest_def dataset_manifest_def hist_validation_def)

lemma hist_prepared:
  "prepare_dataset hist_lib utf8_decode hist_parse (\<lambda>_. None) hist_view (co_hashed hist_view) (co_path hist_view)
     False (JInt 1) (JInt 92) = Inr (hist_manifest, hist_dir)"
proof -
  obtain v where load: "load_public_corpus hist_lib utf8_decode hist_parse hist_view = Inr (hist_corpus, v)"
    using hist_load by blast
  have place: "assert_tmpfs_path (co_path hist_view) = Inr [[], ''dev'', ''shm'', ''c'']"
    by (simp add: assert_tmpfs_path_def hist_view_def strict_prefix_def)
  show ?thesis
    by (simp add: prepare_dataset_def place load hist_corpus_tasks hist_split load_public_corpus_digests(2) [OF load]
        attempt_def hist_manifest_made [OF load] hist_dir_def EXPECTED_TRAIN_def Let_def)
qed

lemma hist_shown: "shows_dataset utf8_decode hist_parse hist_dataset hist_dir"
proof -
  have "keys_unique (JObj hist_manifest)"
    by (simp add: hist_manifest_def dataset_manifest_def)
  from checked_raw_of [OF this] have "parses_to utf8_decode hist_parse (dv_manifest hist_dataset) (pd_manifest hist_dir)"
    by (simp add: parses_to_def hist_dataset_def candidate_strict_json_def utf8_decode_encode hist_parse_def
        hist_dir_def)
  then show ?thesis
    by (simp add: shows_dataset_def) (simp add: hist_dataset_def assert_tmpfs_path_def hist_view_def strict_prefix_def)
qed

lemma hist_all_plain:
  "list_all (\<lambda>task. plain_task task \<and> reads_back hist_lib hist_parse (prepared_record task)) (corpus_tasks hist_corpus)"
  unfolding hist_corpus_tasks hist_records_def
  using hist_refs_pattern hist_plain hist_reads_back by (auto simp: list_all_iff)

lemma hist_loaded:
  "load_prepared_dataset hist_lib utf8_decode hist_parse hist_dataset hist_dataset (dv_holdout hist_dataset) hist_view =
     Inr (hist_train, hist_manifest)"
proof -
  obtain v where load: "load_public_corpus hist_lib utf8_decode hist_parse hist_view = Inr (hist_corpus, v)"
    using hist_load by blast
  show ?thesis
    by (rule prepared_files_replay [where n = 1 and seed = 92, OF load _ _ _ utf8_decode_encode hist_all_plain
          hist_dir_def hist_shown hist_shown])
      (simp_all add: hist_corpus_tasks hist_split hist_manifest_made [OF load])
qed

lemma hist_counts: "dget hist_manifest ''seed'' = JInt 92" "dget hist_manifest ''holdout_examples'' = JInt 1"
proof -
  have "good_tasks hist_records"
    using hist_records_facts hist_refs_facts by (simp add: good_tasks_def)
  from split_rows_lengths(2) [OF this _ hist_split] have "length hist_held = 1" by simp
  then show "dget hist_manifest ''seed'' = JInt 92" "dget hist_manifest ''holdout_examples'' = JInt 1"
    unfolding hist_manifest_def dataset_manifest_fields by simp_all
qed

theorem prepared_dataset_loads_witness:
  "load_prepared_dataset hist_lib utf8_decode hist_parse hist_dataset hist_dataset (dv_holdout hist_dataset) hist_view =
     Inr (hist_train, hist_manifest)"
proof -
  obtain v where load: "load_public_corpus hist_lib utf8_decode hist_parse hist_view = Inr (hist_corpus, v)"
    using hist_load by blast
  from prepared_dataset_loads [OF hist_prepared _ load utf8_decode_encode hist_all_plain hist_shown hist_shown]
  show ?thesis by (simp add: hist_corpus_tasks hist_split)
qed

theorem loaded_rows_are_replay_witness:
  "\<exists>rows manifest.
     load_prepared_dataset hist_lib utf8_decode hist_parse hist_dataset hist_dataset (dv_holdout hist_dataset) hist_view =
       Inr (rows, manifest) \<and>
     length rows = 7999 \<and> (\<forall>row\<in>set rows. dget row ''completion'' = JStr ''x'')"
proof -
  obtain v where load: "load_public_corpus hist_lib utf8_decode hist_parse hist_view = Inr (hist_corpus, v)"
    using hist_load by blast
  from loaded_rows_are_replay [OF hist_loaded refl refl] load obtain n where
    n: "dget hist_manifest ''holdout_examples'' = JInt (int n)" and length: "length hist_train + n = 8000"
    and rows: "map (\<lambda>r. dget r ''completion'') hist_train =
      map (\<lambda>task. dget task ''gold'') (filter (\<lambda>task. task_ref task \<notin> heldout_refs hist_lib 92 n hist_records)
        (sort_key task_ref hist_records))"
    by (auto simp: Let_def hist_corpus_tasks hist_counts)
  have "set (map (\<lambda>r. dget r ''completion'') hist_train) \<subseteq> {JStr ''x''}"
    unfolding rows by (auto simp: hist_records_def)
  then have "\<forall>row\<in>set hist_train. dget row ''completion'' = JStr ''x''" by auto
  moreover have "n = 1" using n by (simp add: hist_counts)
  ultimately show ?thesis using hist_loaded length by auto
qed

end
