(* ===== verification/Spec2Isabelle.thy ===== *)
theory Spec2Isabelle
  imports ArtifactCompetition EnvFile SubmissionOutcome Leaderboard ObserverGate GithubSafety BackendExample CycleExample Cli
    BoundarySummary EvaluationExample HistoricalExample
begin

text \<open>
  A verification development for the miner controller in
  \<^verbatim>\<open>src/src/microtensor_miner_controller/\<close> and for the row lineage of the training pipeline in
  \<^verbatim>\<open>src/training/\<close>.

  \<^bold>\<open>The program.\<close> The controller supervises one miner on one subnet. In each round it decides
  from the coordinator or from the chain which round is open, packages one artifact, uploads it
  as an immutable GitHub release, and commits its digest on chain with one signed extrinsic. It
  runs on a machine that other processes write to, against services that may answer anything,
  so every step refuses unless its proof was made: an uncertain submission must never be
  repeated, an authorization refusal must survive restarts, and nothing may be signed for a
  release the controller did not verify. The parts and their theories:

  \<^item> \<open>Prelude\<close>, \<open>Hoare\<close>: the exception classes (\<^verbatim>\<open>errors.py\<close> and the standard classes the
    handlers name), fallible code as \<open>exc + 'a\<close>, stateful code as \<open>('s, 'a) prog\<close>, a function
    from states to a result and the next state, with \<open>pbind\<close>, \<open>catch\<close>, \<open>finally_do\<close>. The locale
    \<open>effect_relation\<close> lifts a relation on states over these combinators (\<open>stays\<close>);
    \<open>triple\<close> is the Hoare triple with a postcondition for each outcome.
  \<^item> \<open>PyText\<close>, \<open>PyJson\<close>: Python's text operations and regular expressions on strings, and
    JSON values with the dictionary operations and the two ways the package loads them.
  \<^item> \<open>ProtectedFile\<close> (\<^verbatim>\<open>protected_file.py\<close>): the reader of root-owned files; the locale
    \<open>secure_reader\<close> is its contract, interpreted for this reader and for the observer status.
  \<^item> \<open>EnvFile\<close>, \<open>Config\<close>, \<open>Models\<close> (\<^verbatim>\<open>envfile.py\<close>, \<^verbatim>\<open>config.py\<close>, \<^verbatim>\<open>models.py\<close>): the environment
    file, \<open>from_env\<close> with its validation, the source template, the data classes.
  \<^item> \<open>Redaction\<close> (\<^verbatim>\<open>redaction.py\<close>): what is removed before anything is logged or stored.
  \<^item> \<open>Binding\<close>, \<open>ArtifactCompetition\<close> (\<^verbatim>\<open>binding.py\<close>, \<^verbatim>\<open>artifact_competition.py\<close>): the digest of
    the artifact tree and the two files that pin it.
  \<^item> \<open>Coordinator\<close> (\<^verbatim>\<open>coordinator.py\<close>): strict validation of the round the coordinator serves,
    against the chain head and the round recorded before.
  \<^item> \<open>State\<close> (\<^verbatim>\<open>state.py\<close>): the state directory with its five files, atomic writes that may fail
    before or after they take effect, the two markers, health, and the lock.
  \<^item> \<open>World\<close>, \<open>Controller\<close> (\<^verbatim>\<open>controller.py\<close>, the \<^verbatim>\<open>Backend\<close> protocol): preflight, the cycle,
    submission, reconciliation, the latch and the run loop, over any backend.
  \<^item> \<open>GithubTransport\<close>, \<open>GithubRelease\<close> (\<^verbatim>\<open>github_release.py\<close>): requests and streamed uploads
    over any connection, and the publisher over any transport.
  \<^item> \<open>ChainValues\<close>, \<open>ChainSubmit\<close>, \<open>SignedRuntime\<close>, \<open>BackendChecks\<close>, \<open>Backend\<close>
    (\<^verbatim>\<open>backend.py\<close>): the transaction path, the identity of the installed upstream package, the
    checks on local files, and every operation of \<open>MicrotensorBackend\<close>.
    \<open>microtensor_backend\<close> is the record of operations the controller runs on.
  \<^item> \<open>UpstreamGate\<close> (\<^verbatim>\<open>upstream_gate.py\<close>), \<open>GitRunner\<close>, \<open>UpstreamObserver\<close>
    (\<^verbatim>\<open>upstream_observer.py\<close>): the gate that admits a cycle only on a current attestation of the
    audited upstream commit, and the process that writes it. \<open>git_runner\<close> is the contract of
    the bounded git command.
  \<^item> \<open>Cli\<close> (\<^verbatim>\<open>cli.py\<close>): the commands and \<open>main\<close>: environment file, configuration, a controller
    on the adapter in the configured state directory, exit codes.
  \<^item> \<open>Leaderboard\<close> (\<^verbatim>\<open>leaderboard.py\<close>, the loop of \<^verbatim>\<open>rank_observer.py\<close>): the public standing.
  \<^item> \<open>BoundarySplit\<close>, \<open>BoundaryPairs\<close>, \<open>BoundaryManifest\<close>, \<open>BoundarySummary\<close>
    (\<^verbatim>\<open>src/training/boundary_contrastive.py\<close>): the folds of the public corpus, the corrupted
    training pairs of one row, the balanced selection over all rows, and the manifest that the
    trainer writes and the provenance publisher replays. \<open>EvaluationSelection\<close>
    (\<^verbatim>\<open>src/training/evaluation_selection.py\<close>): the rows the local evaluators score.
  \<^item> \<open>CodeCandidate\<close>, \<open>HistoricalCorpus\<close>, \<open>HistoricalDataset\<close> (\<^verbatim>\<open>src/training/code_candidate.py\<close>,
    \<^verbatim>\<open>src/training/historical_code_candidate.py\<close>): the pinned code corpus, its validation and
    seeded split, the prepared dataset with its faults, and the replay on loading.
\<close>

text \<open>
  \<^bold>\<open>What the theorems show.\<close>

  \<^item> The durable state. \<open>State\<close>: over every sequence of store operations with any faults a
    refusal marker stays, a valid one unchanged, and a pending marker goes only by its own
    fingerprint; markers read fail closed; what was recorded is read back.
  \<^item> The controller. \<open>ControllerFrames\<close> gives what each part can call and that the fuel of the
    loops suffices; \<open>ControllerSafety\<close>: runs return an exit code, a latched refusal stops every
    later run, a dry run only reads; \<open>CycleFacts\<close> is the interface of proofs about one cycle over
    the log of backend calls; \<open>PublishGuard\<close>: every publishing call follows all its proofs in the
    same cycle, under the pending marker; \<open>PendingSafety\<close>: a pending submission blocks
    everything but its own reconciliation; \<open>SubmissionOutcome\<close>: the outcome of a publication is
    confirmed by an exact readback, refused or latched, never lost, and exit code 3 is for ever.
  \<^item> The transaction path. \<open>ChainSafety\<close>: one run signs at most once and broadcasts at most once,
    each right after a complete refresh of the checks, whatever the SDK answers; it returns only
    after an accepted broadcast, and after a broadcast it raises nothing but an authorization
    refusal. \<open>BackendSafety\<close>: of the adapter's operations only \<open>publish\<close> signs, for its own
    release; the anchor and readback checks. \<open>ControllerTrace\<close> states as a locale what a run of
    the controller does to the backend it drives, and \<open>BackendRuns\<close> interprets it for the
    adapter: every signature of a whole run lies in one of its publishing calls. \<open>Cli\<close> carries
    this to the whole program: it signs only under \<open>run\<close>, live, and without a latched refusal.
  \<^item> Releases. \<open>GithubSafety\<close>: each change on GitHub follows the proof that allows it, a draft
    only after the tag was shown absent; the listing of assets is complete, and a result names a published immutable release.
  \<^item> Inputs. \<open>ProtectedFile\<close>, \<open>EnvFile\<close>, \<open>Config\<close>, \<open>Coordinator\<close>, \<open>Binding\<close>,
    \<open>ArtifactCompetition\<close>, \<open>Redaction\<close>, \<open>SignedRuntime\<close>, \<open>Leaderboard\<close>: what is accepted, every
    other outcome as an exception class, and what an accepted input pins.
  \<^item> The observer. \<open>ObserverSafety\<close>: paths and constants are read exactly, a history rewrite is
    latched before the reference moves and for ever; \<open>ObserverGate\<close>: what the observer calls
    current the gate accepts, and it is evidence of an observation made in that poll;
    \<open>GitRunner\<close>: time and output of a git command are bounded.
  \<^item> Training rows. \<open>BoundarySplit\<close>: the outer reserve depends on positions and the inner split
    on the set of references only; \<open>BoundaryPairs\<close>: a corruption changes one code point at one
    boundary of one entity; \<open>BoundaryManifest\<close>: the pairs are balanced and no held-out row is
    touched; \<open>EvaluationSelection\<close> joins both files: no scored row was a source of training.
    \<open>EvaluationExample\<close> is a corpus on which both succeed. \<open>HistoricalReplay\<close>: loaded rows are
    the corpus' gold texts verbatim; \<open>HistoricalRoundtrip\<close>: what was prepared is loaded again;
    \<open>HistoricalExample\<close> is a corpus of the pinned sizes on which both hold.
  \<^item> \<open>CycleExample\<close>: a cycle of the controller that packages, uploads, publishes, reads back and
    clears its marker. \<open>ChainExample\<close>, \<open>BackendExample\<close>: a node, a machine and a package on which the transaction
    path signs, broadcasts and reads back, so the claims are about runs that exist.
\<close>

text \<open>
  \<^bold>\<open>How the code is modelled.\<close>

  \<^item> Effects. A method that touches the world is a \<open>prog\<close> on a record of the state it can see
    (\<open>store\<close>, \<open>world\<close>, \<open>gh\<close>, \<open>backend_state\<close>, the observer's world). Services are records of
    operations on an external state of arbitrary type that may answer or raise anything and may
    change that state, so a theorem holds for every behaviour of the service. What the kernel
    answers during one file read, lock or child process is a session record, read in the order
    of the code. \<open>calls\<close>, \<open>be_log\<close>, \<open>gh_log\<close> and \<open>git_calls\<close> record, newest first, what was
    called and the answer; no definition reads them.
  \<^item> Values. Python integers are \<open>int\<close>, floats are exact rationals with infinities and NaN, paths
    are their texts, a character is a code point below 256 (so a line ends as in \<^verbatim>\<open>splitlines\<close> but
    for U+2028 and U+2029, which the alphabet does not have), a dictionary is an association list
    whose order nothing observes. Messages keep their constant text and interpolated strings
    and integers; the \<open>!r\<close> parts are left out.
  \<^item> Errors. Every raise, every \<open>except\<close> clause with its classes, and every early return of the
    modelled code is a branch of its definition; an exception no clause names passes through.
    So do the exceptions of \<^verbatim>\<open>json.loads\<close> other than a decoding error (an integer literal beyond the
    digit limit of \<^verbatim>\<open>int\<close>, nesting beyond the recursion limit) in the strict readers and in the
    files of the state directory, those of \<^verbatim>\<open>Path.expanduser\<close>, and in \<open>Cli\<close> a
    \<^verbatim>\<open>KeyboardInterrupt\<close> between two steps of \<^verbatim>\<open>main\<close>. The other lenient readers are modelled on
    texts where the scan does not stop in this way.
  \<^item> Parameters. Strict UTF-8 decoding, the JSON lexer (the hooks applied to its result are
    modelled), Python's parser of module constants, SHA-256, NFC, URL splitting, float
    conversion, the draws of \<^verbatim>\<open>random.Random\<close> (its \<^verbatim>\<open>shuffle\<close> is modelled), git, the SDKs,
    the upstream package and the HTTPS connection. A claim about a
    digest assumes it injective on what was hashed.
  \<^item> Fuel. \<open>run\<close>, the observer and the rank loop are cut off by the number of polls after which
    the stop event is set: \<open>Suc (stop_after w)\<close> rounds are enough, since each round polls at
    least once, and the theorems on exit codes show that the fuel is never exhausted. The
    listing of assets has the code's own bound of pages, the readback loop its number of
    attempts; all other loops recurse over a list or a session.
\<close>

text \<open>
  \<^bold>\<open>Not modelled.\<close> The argument parsers, signal handlers and a
  \<^verbatim>\<open>KeyboardInterrupt\<close> inside an operation of another module than \<^verbatim>\<open>cli.py\<close>; logging and the line the controller prints on standard error; start and join of the rank monitor thread, which only writes the rank file; command
  line and environment of git children; the layout of printed JSON. The rest of
  \<^verbatim>\<open>src/training/\<close> holds offline drivers of training, conversion and evaluation on PyTorch,
  llama.cpp, Docker and W&B that no module of the controller imports; \<^verbatim>\<open>src/scripts/\<close> and \<^verbatim>\<open>src/deploy/\<close> are shell
  wrappers and service units; \<^verbatim>\<open>src/tests/\<close> are tests.
\<close>

end
